(* ===== verification/Emux_Prelude.thy ===== *)
theory Emux_Prelude
  imports Main "HOL-Library.Word" "HOL-Library.Monad_Syntax"
begin

text \<open>
  The vocabulary every other theory of the development uses.

  \<^item> The machine integers of the code: \<open>u8\<close>, \<open>u16\<close>, \<open>u32\<close> are words; \<open>usize\<close> values
    (sizes, indices, cursor positions) are \<open>nat\<close>, and where the code relies on saturation
    (\<open>saturating_sub\<close>) the truncated subtraction of \<open>nat\<close> is that operation.
  \<^item> Panics: a computation that may panic (an index out of range, a slice off a character
    boundary) has type \<open>'a option\<close>, and \<open>None\<close> is the panic. Operations of the code that cannot
    panic are plain functions.
  \<^item> \<open>returns m P\<close> is total correctness: \<open>m\<close> does not panic and its result satisfies \<open>P\<close>. Its
    rewrite rules turn a goal about a \<open>do\<close> block into goals about the calls in it.
  \<^item> \<open>foldM\<close> is the \<open>for\<close> loop of the code.
\<close>

section \<open>Types\<close>

type_synonym u8 = "8 word"
type_synonym u16 = "16 word"
type_synonym u32 = "32 word"

text \<open>A Rust \<open>char\<close> is its code point; a \<open>str\<close> or \<open>String\<close> is its UTF-8 bytes.\<close>

type_synonym rchar = nat
type_synonym rstr = "u8 list"

lemma unat_of_nat_less: "n < 2 ^ LENGTH('a) \<Longrightarrow> unat (of_nat n :: 'a::len word) = n"
  by (simp add: unat_of_nat)

lemma unat_ucast_mod:
  "unat (ucast (w :: 'b::len word) :: 'a::len word) = unat w mod 2 ^ LENGTH('a)"
  by (simp add: unsigned_ucast_eq unsigned_take_bit_eq take_bit_eq_mod)

lemma mod64_le [simp]: "(k::nat) mod 64 \<le> 63"
  using mod_less_divisor [of 64 k] by linarith

named_theorems wf_pres \<open>operations keep the invariants of their component\<close>
named_theorems frame_simps \<open>which fields an operation leaves alone\<close>

section \<open>Computations that may panic\<close>

definition returns :: "'a option \<Rightarrow> ('a \<Rightarrow> bool) \<Rightarrow> bool" where
  "returns m P = (case m of None \<Rightarrow> False | Some x \<Rightarrow> P x)"

lemma returns_Some [simp]: "returns (Some x) P = P x"
  by (simp add: returns_def)

lemma returns_None [simp]: "returns None P = False"
  by (simp add: returns_def)

lemma returns_bind [simp]:
  "returns (Option.bind m f) P = returns m (\<lambda>x. returns (f x) P)"
  by (cases m) simp_all

lemma returns_map_option [simp]: "returns (map_option f m) P = returns m (\<lambda>x. P (f x))"
  by (cases m) simp_all

lemma returns_mono: "returns m P \<Longrightarrow> (\<And>x. m = Some x \<Longrightarrow> P x \<Longrightarrow> Q x) \<Longrightarrow> returns m Q"
  by (cases m) simp_all

lemma returns_ifI:
  "(c \<Longrightarrow> returns m P) \<Longrightarrow> (\<not> c \<Longrightarrow> returns n P) \<Longrightarrow> returns (if c then m else n) P"
  by simp

lemma returns_iff: "returns m P \<longleftrightarrow> (\<exists>x. m = Some x \<and> P x)"
  by (cases m) simp_all

lemma returnsD: "returns m P \<Longrightarrow> m = Some x \<Longrightarrow> P x"
  by simp

lemma returns_exE:
  assumes "returns m P"
  obtains x where "m = Some x" "P x"
  using assms by (auto simp: returns_iff)

lemma returns_conj: "returns m P \<Longrightarrow> returns m Q \<Longrightarrow> returns m (\<lambda>x. P x \<and> Q x)"
  by (cases m) simp_all

section \<open>Loops over a list of indices\<close>

fun foldM :: "('s \<Rightarrow> 'a \<Rightarrow> 's option) \<Rightarrow> 'a list \<Rightarrow> 's \<Rightarrow> 's option" where
  "foldM f [] s = Some s"
| "foldM f (x # xs) s = Option.bind (f s x) (foldM f xs)"

lemma foldM_Nil_fun [simp]: "foldM f [] = Some"
  by (rule ext) simp

lemma foldM_append: "foldM f (xs @ ys) s = Option.bind (foldM f xs s) (foldM f ys)"
  by (induction xs arbitrary: s) (auto intro!: bind_option_cong)

lemma returns_foldM:
  assumes "P s"
    and "\<And>s x. x \<in> set xs \<Longrightarrow> P s \<Longrightarrow> returns (f s x) P"
  shows "returns (foldM f xs s) P"
  using assms
proof (induction xs arbitrary: s)
  case Nil
  then show ?case by simp
next
  case (Cons x xs)
  have "returns (f s x) P"
    using Cons.prems by simp
  then show ?case
  proof (rule returns_exE)
    fix t
    assume "f s x = Some t" and "P t"
    then show ?thesis
      using Cons.IH [of t] Cons.prems(2) by simp
  qed
qed

lemma foldM_total: "(\<And>s x. f s x = Some (g s x)) \<Longrightarrow> foldM f xs s = Some (fold (\<lambda>x s. g s x) xs s)"
  by (induction xs arbitrary: s) auto

lemma foldM_cong [fundef_cong]:
  "xs = ys \<Longrightarrow> s = t \<Longrightarrow> (\<And>s x. x \<in> set ys \<Longrightarrow> f s x = g s x) \<Longrightarrow> foldM f xs s = foldM g ys t"
proof (induction xs arbitrary: s t ys)
  case Nil
  then show ?case by auto
next
  case (Cons x xs)
  then have "foldM f xs u = foldM g xs u" for u
    by (metis list.set_intros(2))
  then have "foldM f xs = foldM g xs"
    by (rule ext)
  with Cons.prems show ?case
    by auto
qed

section \<open>Indexing\<close>

text \<open>\<open>v[i]\<close> and \<open>v[i] = x\<close>: a panic out of range.\<close>

definition idx :: "'a list \<Rightarrow> nat \<Rightarrow> 'a option" where
  "idx xs i = (if i < length xs then Some (xs ! i) else None)"

definition upd :: "'a list \<Rightarrow> nat \<Rightarrow> 'a \<Rightarrow> 'a list option" where
  "upd xs i x = (if i < length xs then Some (xs[i := x]) else None)"

lemma idx_in [simp]: "i < length xs \<Longrightarrow> idx xs i = Some (xs ! i)"
  by (simp add: idx_def)

lemma idx_out [simp]: "length xs \<le> i \<Longrightarrow> idx xs i = None"
  by (simp add: idx_def)

lemma upd_in [simp]: "i < length xs \<Longrightarrow> upd xs i x = Some (xs[i := x])"
  by (simp add: upd_def)

lemma upd_out [simp]: "length xs \<le> i \<Longrightarrow> upd xs i x = None"
  by (simp add: upd_def)

text \<open>\<open>v.get(i)\<close>: no panic, \<open>None\<close> out of range is the code's own \<open>None\<close>.\<close>

definition get_opt :: "'a list \<Rightarrow> nat \<Rightarrow> 'a option" where
  "get_opt xs i = (if i < length xs then Some (xs ! i) else None)"

text \<open>\<open>v.iter().position(p)\<close>.\<close>

fun position :: "('a \<Rightarrow> bool) \<Rightarrow> 'a list \<Rightarrow> nat option" where
  "position P [] = None"
| "position P (x # xs) = (if P x then Some 0 else map_option Suc (position P xs))"

lemma position_Some:
  "position P xs = Some i \<Longrightarrow> i < length xs \<and> P (xs ! i) \<and> (\<forall>j < i. \<not> P (xs ! j))"
proof (induction xs arbitrary: i)
  case Nil
  then show ?case by simp
next
  case (Cons x xs)
  then show ?case
    by (auto simp: less_Suc_eq_0_disj split: if_splits)
qed

lemma position_None: "position P xs = None \<longleftrightarrow> (\<forall>x \<in> set xs. \<not> P x)"
  by (induction xs) auto

text \<open>\<open>v.remove(i)\<close> (the caller has checked the index).\<close>

definition remove_at :: "nat \<Rightarrow> 'a list \<Rightarrow> 'a list" where
  "remove_at i xs = take i xs @ drop (Suc i) xs"

lemma length_remove_at [simp]: "i < length xs \<Longrightarrow> length (remove_at i xs) = length xs - 1"
  by (simp add: remove_at_def)

lemma set_remove_at: "set (remove_at i xs) \<subseteq> set xs"
  by (auto simp: remove_at_def dest: in_set_takeD in_set_dropD)

text \<open>The last \<open>n\<close> elements: what a bounded queue keeps.\<close>

definition take_last :: "nat \<Rightarrow> 'a list \<Rightarrow> 'a list" where
  "take_last n xs = drop (length xs - n) xs"

lemma length_take_last [simp]: "length (take_last n xs) = min (length xs) n"
  by (auto simp: take_last_def)

lemma take_last_all [simp]: "length xs \<le> n \<Longrightarrow> take_last n xs = xs"
  by (simp add: take_last_def)

lemma take_last_snoc: "take_last n (take_last n xs @ ys) = take_last n (xs @ ys)"
  by (cases "length xs \<le> n") (auto simp: take_last_def add.commute)

lemma set_take_last: "set (take_last n xs) \<subseteq> set xs"
  by (auto simp: take_last_def dest: in_set_dropD)

end
