(* ===== verification/Emux_Utf8.thy ===== *)
theory Emux_Utf8
  imports Emux_Prelude
begin

text \<open>
  The part of Rust's standard library that reads and writes UTF-8, as far as the code uses it:
  \<open>str::from_utf8\<close>, \<open>String::from_utf8_lossy\<close>, \<open>char::encode_utf8\<close>, \<open>str::chars\<close>,
  \<open>str::is_char_boundary\<close> (the check behind \<open>&s[a..b]\<close>), the decimal \<open>Display\<close> of integers and
  \<open>parse\<close>/\<open>from_str_radix\<close>. Bytes out of range are read as 0, as the library's decoder does.
\<close>

section \<open>Decoding\<close>

definition byte_at :: "u8 list \<Rightarrow> nat \<Rightarrow> nat" where
  "byte_at bs i = (if i < length bs then unat (bs ! i) else 0)"

definition cont_at :: "u8 list \<Rightarrow> nat \<Rightarrow> bool" where
  "cont_at bs i \<longleftrightarrow> 128 \<le> byte_at bs i \<and> byte_at bs i \<le> 191"

text \<open>The allowed second byte after a three- or four-byte lead.\<close>

definition second_ok :: "nat \<Rightarrow> nat \<Rightarrow> bool" where
  "second_ok b c \<longleftrightarrow>
     (if b = 224 then 160 \<le> c \<and> c \<le> 191
      else if b = 237 then 128 \<le> c \<and> c \<le> 159
      else if b = 240 then 144 \<le> c \<and> c \<le> 191
      else if b = 244 then 128 \<le> c \<and> c \<le> 143
      else 128 \<le> c \<and> c \<le> 191)"

text \<open>
  The front of a byte string: how many bytes the decoder consumes, and whether they are a
  character (otherwise they are one maximal invalid prefix).
\<close>

definition utf8_front :: "u8 list \<Rightarrow> nat \<times> bool" where
  "utf8_front bs =
     (let b = byte_at bs 0 in
      if b < 128 then (1, True)
      else if 194 \<le> b \<and> b \<le> 223 then (if cont_at bs 1 then (2, True) else (1, False))
      else if 224 \<le> b \<and> b \<le> 239 then
        (if \<not> second_ok b (byte_at bs 1) then (1, False)
         else if cont_at bs 2 then (3, True) else (2, False))
      else if 240 \<le> b \<and> b \<le> 244 then
        (if \<not> second_ok b (byte_at bs 1) then (1, False)
         else if \<not> cont_at bs 2 then (2, False)
         else if cont_at bs 3 then (4, True) else (3, False))
      else (1, False))"

lemma utf8_front_pos [simp]: "0 < fst (utf8_front bs)"
  by (simp add: utf8_front_def Let_def)

lemma drop_utf8_front: "bs \<noteq> [] \<Longrightarrow> length (drop (fst (utf8_front bs)) bs) < length bs"
  using utf8_front_pos [of bs] by (cases bs) (auto simp del: utf8_front_pos)

function utf8_valid :: "u8 list \<Rightarrow> bool" where
  "utf8_valid bs =
     (if bs = [] then True
      else if snd (utf8_front bs) then utf8_valid (drop (fst (utf8_front bs)) bs) else False)"
  by pat_completeness auto
termination
  by (relation "measure length") (simp_all add: drop_utf8_front del: length_drop)

function utf8_lossy :: "u8 list \<Rightarrow> rstr" where
  "utf8_lossy bs =
     (if bs = [] then []
      else (if snd (utf8_front bs) then take (fst (utf8_front bs)) bs else [0xEF, 0xBF, 0xBD])
           @ utf8_lossy (drop (fst (utf8_front bs)) bs))"
  by pat_completeness auto
termination
  by (relation "measure length") (simp_all add: drop_utf8_front del: length_drop)

declare utf8_valid.simps [simp del] utf8_lossy.simps [simp del]

lemma utf8_valid_Nil [simp]: "utf8_valid []"
  by (simp add: utf8_valid.simps)

definition from_utf8 :: "u8 list \<Rightarrow> rstr option" where
  "from_utf8 bs = (if utf8_valid bs then Some bs else None)"

text \<open>The first character of a valid, non-empty string.\<close>

definition utf8_first :: "rstr \<Rightarrow> rchar" where
  "utf8_first bs =
     (let b = byte_at bs 0; c1 = byte_at bs 1 mod 64; c2 = byte_at bs 2 mod 64;
          c3 = byte_at bs 3 mod 64 in
      if b < 128 then b
      else if b < 224 then (b mod 32) * 64 + c1
      else if b < 240 then (b mod 16) * 4096 + c1 * 64 + c2
      else (b mod 8) * 262144 + c1 * 4096 + c2 * 64 + c3)"

function utf8_chars :: "rstr \<Rightarrow> rchar list" where
  "utf8_chars bs =
     (if bs = [] then [] else utf8_first bs # utf8_chars (drop (fst (utf8_front bs)) bs))"
  by pat_completeness auto
termination
  by (relation "measure length") (simp_all add: drop_utf8_front del: length_drop)

declare utf8_chars.simps [simp del]

section \<open>Encoding\<close>

definition is_scalar :: "nat \<Rightarrow> bool" where
  "is_scalar c \<longleftrightarrow> c < 55296 \<or> (57344 \<le> c \<and> c < 1114112)"

text \<open>\<open>n as u8\<close>.\<close>

definition byte :: "nat \<Rightarrow> u8" where
  "byte n = of_nat n"

lemma unat_byte [simp]: "n < 256 \<Longrightarrow> unat (byte n) = n"
  by (simp add: byte_def unat_of_nat)

lemma byte_unat [simp]: "byte (unat b) = b"
  by (simp add: byte_def)

definition utf8_encode :: "rchar \<Rightarrow> u8 list" where
  "utf8_encode c =
     (if c < 128 then [byte c]
      else if c < 2048 then [byte (192 + c div 64), byte (128 + c mod 64)]
      else if c < 65536 then
        [byte (224 + c div 4096), byte (128 + c div 64 mod 64), byte (128 + c mod 64)]
      else
        [byte (240 + c div 262144), byte (128 + c div 4096 mod 64),
         byte (128 + c div 64 mod 64), byte (128 + c mod 64)])"


lemma unat_cont_byte [simp]: "unat (byte (128 + k mod 64)) = 128 + k mod 64"
  by (rule unat_byte) (use mod_less_divisor [of 64 k] in linarith)

lemma split64: "(c::nat) = c div 64 * 64 + c mod 64"
  by simp

lemma utf8_front_encode:
  assumes "is_scalar c"
  shows "utf8_front (utf8_encode c @ bs) = (length (utf8_encode c), True)"
proof -
  consider "c < 128" | "128 \<le> c" "c < 2048" | "2048 \<le> c" "c < 65536" | "65536 \<le> c" "c < 1114112"
    using assms by (fastforce simp: is_scalar_def)
  then show ?thesis
  proof cases
    case 1
    then show ?thesis
      by (simp add: utf8_front_def utf8_encode_def byte_at_def)
  next
    case 2
    then have "c div 64 < 32" "2 \<le> c div 64" by simp_all
    with 2 show ?thesis
      by (simp add: utf8_front_def utf8_encode_def byte_at_def cont_at_def Let_def)
  next
    case 3
    have b: "c div 4096 < 16" using 3 by simp
    have d2: "c div 4096 = c div 64 div 64"
      by (simp add: div_mult2_eq [symmetric])
    note parts = split64 [of c] split64 [of "c div 64"] mod_less_divisor [of 64 c]
      mod_less_divisor [of 64 "c div 64"]
    have "32 \<le> c div 64 mod 64" if "c div 4096 = 0"
      using that parts 3 unfolding d2 by linarith
    moreover have "c div 64 mod 64 < 32" if "c div 4096 = 13"
    proof -
      have "c < 55296"
        using that 3 parts assms unfolding d2 is_scalar_def by linarith
      then show ?thesis
        using that parts unfolding d2 by linarith
    qed
    ultimately have "second_ok (224 + c div 4096) (128 + c div 64 mod 64)"
      using b by (auto simp: second_ok_def)
    with 3 b show ?thesis
      by (simp add: utf8_front_def utf8_encode_def byte_at_def cont_at_def Let_def)
  next
    case 4
    have b: "c div 262144 < 5" using 4 by simp
    have d3: "c div 262144 = c div 4096 div 64"
      by (simp add: div_mult2_eq [symmetric])
    have split4096: "c = c div 4096 * 4096 + c mod 4096" "c mod 4096 < 4096"
      by simp_all
    note parts = split4096 split64 [of "c div 4096"] mod_less_divisor [of 64 "c div 4096"]
    have "16 \<le> c div 4096 mod 64" if "c div 262144 = 0"
      using that parts 4 unfolding d3 by linarith
    moreover have "c div 4096 mod 64 < 16" if "c div 262144 = 4"
      using that parts 4 unfolding d3 by linarith
    ultimately have "second_ok (240 + c div 262144) (128 + c div 4096 mod 64)"
      using b by (auto simp: second_ok_def)
    with 4 b show ?thesis
      by (simp add: utf8_front_def utf8_encode_def byte_at_def cont_at_def Let_def)
  qed
qed

lemma utf8_first_encode:
  assumes "is_scalar c"
  shows "utf8_first (utf8_encode c @ bs) = c"
proof -
  have d2: "c div 4096 = c div 64 div 64" and d3: "c div 262144 = c div 64 div 64 div 64"
    by (simp_all add: div_mult2_eq [symmetric])
  consider "c < 128" | "128 \<le> c" "c < 2048" | "2048 \<le> c" "c < 65536" | "65536 \<le> c" "c < 1114112"
    using assms by (fastforce simp: is_scalar_def)
  then show ?thesis
  proof cases
    case 1
    then show ?thesis by (simp add: utf8_first_def utf8_encode_def byte_at_def)
  next
    case 2
    then have b: "c div 64 < 32" by simp
    then have "(192 + c div 64) mod 32 = c div 64" "(128 + c mod 64) mod 64 = c mod 64"
      by (simp_all add: mod_add_left_eq [of 192, symmetric] mod_add_left_eq [of 128, symmetric])
    with 2 b show ?thesis
      by (simp add: utf8_first_def utf8_encode_def byte_at_def Let_def)
  next
    case 3
    then have b: "c div 4096 < 16" by simp
    then have "(224 + c div 4096) mod 16 = c div 4096"
      by (simp add: mod_add_left_eq [of 224, symmetric])
    moreover have "(128 + k mod 64) mod 64 = k mod 64" for k :: nat
      by (simp add: mod_add_left_eq [of 128, symmetric])
    moreover have "c div 4096 * 4096 + c div 64 mod 64 * 64 + c mod 64 = c"
      unfolding d2 using split64 [of c] split64 [of "c div 64"] by linarith
    ultimately show ?thesis
      using 3 b by (simp add: utf8_first_def utf8_encode_def byte_at_def Let_def)
  next
    case 4
    then have b: "c div 262144 < 5" by simp
    then have "(240 + c div 262144) mod 8 = c div 262144"
      by (simp add: mod_add_left_eq [of 240, symmetric])
    moreover have "(128 + k mod 64) mod 64 = k mod 64" for k :: nat
      by (simp add: mod_add_left_eq [of 128, symmetric])
    moreover have "c div 262144 * 262144 + c div 4096 mod 64 * 4096 + c div 64 mod 64 * 64 + c mod 64 = c"
      unfolding d2 d3
      using split64 [of c] split64 [of "c div 64"] split64 [of "c div 64 div 64"] by linarith
    ultimately show ?thesis
      using 4 b by (simp add: utf8_first_def utf8_encode_def byte_at_def Let_def)
  qed
qed

lemma utf8_encode_not_Nil [simp]: "utf8_encode c \<noteq> []"
  by (simp add: utf8_encode_def)

lemma utf8_valid_encode_append:
  "is_scalar c \<Longrightarrow> utf8_valid (utf8_encode c @ bs) = utf8_valid bs"
  by (subst utf8_valid.simps) (simp add: utf8_front_encode)

lemma utf8_chars_encode_append:
  "is_scalar c \<Longrightarrow> utf8_chars (utf8_encode c @ bs) = c # utf8_chars bs"
  by (subst utf8_chars.simps) (simp add: utf8_front_encode utf8_first_encode)

section \<open>Slicing a string\<close>

text \<open>\<open>&s[a..b]\<close> panics unless both ends are on a character boundary.\<close>

definition char_boundary :: "rstr \<Rightarrow> nat \<Rightarrow> bool" where
  "char_boundary s i \<longleftrightarrow>
     i = 0 \<or> i = length s \<or> (i < length s \<and> \<not> (128 \<le> unat (s ! i) \<and> unat (s ! i) \<le> 191))"

definition str_slice :: "rstr \<Rightarrow> nat \<Rightarrow> nat \<Rightarrow> rstr option" where
  "str_slice s a b =
     (if a \<le> b \<and> b \<le> length s \<and> char_boundary s a \<and> char_boundary s b
      then Some (take (b - a) (drop a s)) else None)"

section \<open>Splitting and trimming\<close>

fun split_on :: "'a \<Rightarrow> 'a list \<Rightarrow> 'a list list" where
  "split_on s [] = [[]]"
| "split_on s (x # xs) =
     (if x = s then [] # split_on s xs
      else (case split_on s xs of [] \<Rightarrow> [[x]] | y # ys \<Rightarrow> (x # y) # ys))"

lemma split_on_not_Nil [simp]: "split_on s xs \<noteq> []"
  by (induction xs) (auto split: list.splits)

lemma split_on_no_sep: "s \<notin> set xs \<Longrightarrow> split_on s xs = [xs]"
  by (induction xs) auto

lemma split_on_append:
  "s \<notin> set xs \<Longrightarrow> split_on s (xs @ s # ys) = xs # split_on s ys"
  by (induction xs) auto

lemma length_concat_split_on: "length (concat (split_on s xs)) \<le> length xs"
  by (induction xs) (auto split: list.splits)

definition trim_end_of :: "'a \<Rightarrow> 'a list \<Rightarrow> 'a list" where
  "trim_end_of c xs = rev (dropWhile (\<lambda>x. x = c) (rev xs))"

section \<open>Numbers as text\<close>

text \<open>ASCII literals are written as HOL strings and turned into bytes here.\<close>

definition ascii :: "string \<Rightarrow> rstr" where
  "ascii s = map (\<lambda>c. byte (of_char c)) s"

fun show_nat :: "nat \<Rightarrow> rstr" where
  "show_nat n =
     (if n < 10 then [byte (48 + n)] else show_nat (n div 10) @ [byte (48 + n mod 10)])"

declare show_nat.simps [simp del]

definition hex_digit :: "nat \<Rightarrow> u8" where
  "hex_digit n = byte (if n < 10 then 48 + n else 87 + n)"

text \<open>\<open>{:02x}\<close> of a byte.\<close>

definition show_hex2 :: "u8 \<Rightarrow> rstr" where
  "show_hex2 b = [hex_digit (unat b div 16), hex_digit (unat b mod 16)]"

text \<open>\<open>char::to_digit\<close> for a radix up to 16.\<close>

definition digit_val :: "nat \<Rightarrow> u8 \<Rightarrow> nat option" where
  "digit_val radix b =
     (let n = unat b;
          d = (if 48 \<le> n \<and> n \<le> 57 then Some (n - 48)
               else if 97 \<le> n \<and> n \<le> 122 then Some (n - 87)
               else if 65 \<le> n \<and> n \<le> 90 then Some (n - 55) else None)
      in case d of None \<Rightarrow> None | Some v \<Rightarrow> if v < radix then Some v else None)"

fun digits_val :: "nat \<Rightarrow> nat \<Rightarrow> rstr \<Rightarrow> nat option" where
  "digits_val radix acc [] = Some acc"
| "digits_val radix acc (b # bs) =
     (case digit_val radix b of None \<Rightarrow> None
      | Some d \<Rightarrow> digits_val radix (acc * radix + d) bs)"

text \<open>
  \<open>uN::from_str_radix\<close>: an optional plus sign, at least one digit, no overflow. (A value that
  overflows is an error even when later characters are not digits; both are \<open>Err\<close>.)
\<close>

definition parse_unsigned :: "nat \<Rightarrow> nat \<Rightarrow> rstr \<Rightarrow> nat option" where
  "parse_unsigned limit radix s =
     (let ds = (case s of [] \<Rightarrow> [] | b # r \<Rightarrow> if b = 43 then r else s) in
      if ds = [] then None
      else case digits_val radix 0 ds of None \<Rightarrow> None
           | Some v \<Rightarrow> if v < limit then Some v else None)"

text \<open>\<open>str::parse::<i32>\<close>.\<close>

definition parse_i32 :: "rstr \<Rightarrow> int option" where
  "parse_i32 s =
     (case s of [] \<Rightarrow> None
      | b # r \<Rightarrow>
          if b = 45 then
            (if r = [] then None
             else case digits_val 10 0 r of None \<Rightarrow> None
                  | Some v \<Rightarrow> if v \<le> 2 ^ 31 then Some (- int v) else None)
          else map_option int (parse_unsigned (2 ^ 31) 10 s))"

text \<open>Decimal digits read back the number they print.\<close>

lemma digit_val_dec: "d < 10 \<Longrightarrow> digit_val 10 (byte (48 + d)) = Some d"
  by (simp add: digit_val_def Let_def)

lemma digits_val_append:
  "digits_val r a (xs @ ys) = Option.bind (digits_val r a xs) (\<lambda>b. digits_val r b ys)"
  by (induction xs arbitrary: a) (auto split: option.splits)

lemma digits_val_show_nat: "digits_val 10 0 (show_nat n) = Some n"
proof (induction n rule: show_nat.induct)
  case (1 n)
  show ?case
  proof (cases "n < 10")
    case True
    with digit_val_dec [of n] show ?thesis
      by (subst show_nat.simps) simp
  next
    case False
    with 1 digit_val_dec [of "n mod 10"] show ?thesis
      by (subst show_nat.simps) (simp add: digits_val_append)
  qed
qed

lemma show_nat_not_Nil [simp]: "show_nat n \<noteq> []"
  by (subst show_nat.simps) simp

lemma show_nat_digits: "b \<in> set (show_nat n) \<Longrightarrow> 48 \<le> unat b \<and> unat b \<le> 57"
proof (induction n arbitrary: b rule: show_nat.induct)
  case (1 n)
  have "n mod 10 < 10" by simp
  with 1 show ?case
    by (subst (asm) (2) show_nat.simps) (auto split: if_splits)
qed

text \<open>\<open>str::strip_prefix\<close> and \<open>strip_suffix\<close>, on bytes or on characters.\<close>

definition strip_prefix :: "'a list \<Rightarrow> 'a list \<Rightarrow> 'a list option" where
  "strip_prefix p s = (if take (length p) s = p then Some (drop (length p) s) else None)"

definition strip_suffix :: "'a list \<Rightarrow> 'a list \<Rightarrow> 'a list option" where
  "strip_suffix p s = map_option rev (strip_prefix (rev p) (rev s))"

lemma strip_prefix_iff: "strip_prefix p s = Some r \<longleftrightarrow> s = p @ r"
  by (auto simp: strip_prefix_def) (metis append_take_drop_id)

lemma strip_suffix_iff: "strip_suffix p s = Some r \<longleftrightarrow> s = r @ p"
  by (auto simp: strip_suffix_def strip_prefix_iff rev_eq_append_conv) (metis rev_append rev_rev_ident)

text \<open>Bytes of seven bits are characters.\<close>

lemma utf8_front_ascii: "unat b < 128 \<Longrightarrow> utf8_front (b # bs) = (1, True)"
  by (simp add: utf8_front_def byte_at_def)

lemma utf8_ascii:
  assumes "list_all (\<lambda>b. unat b < 128) bs"
  shows "utf8_chars bs = map unat bs" and "utf8_valid bs" and "utf8_lossy bs = bs"
  using assms
  by (induction bs) (simp_all add: utf8_chars.simps utf8_valid.simps utf8_lossy.simps utf8_front_ascii utf8_first_def byte_at_def)

text \<open>\<open>Path::join\<close>: an absolute path replaces the base.\<close>

definition path_join :: "rstr \<Rightarrow> rstr \<Rightarrow> rstr" where
  "path_join base p =
     (if p \<noteq> [] \<and> hd p = 0x2F then p
      else if base = [] \<or> last base = 0x2F then base @ p
      else base @ 0x2F # p)"

end
