(* ===== verification/VT_Params.thy ===== *)
theory VT_Params
  imports Emux_Utf8
begin

text \<open>
  \<open>crates/emux-vt/src/params.rs\<close> and the \<open>Intermediates\<close> buffer of \<open>parser.rs\<close>: the two
  fixed-size accumulators of an escape sequence. The Rust arrays \<open>[u16; 32]\<close>, \<open>[bool; 32]\<close> and
  \<open>[u8; 4]\<close> are lists; \<open>params_wf\<close> and \<open>inter_wf\<close> say that the lengths and fill counts stay
  within the arrays, which every operation keeps, so no index or slice of this file panics.
\<close>

section \<open>Parameters\<close>

abbreviation MAX_PARAMS :: nat where "MAX_PARAMS \<equiv> 32"

record params =
  p_values :: "u16 list"
  p_subparam_flags :: "bool list"
  p_len :: nat
  p_current :: u32
  p_has_current :: bool
  p_trailing_sep :: bool
  p_pending_colon :: bool

definition params_new :: params where
  "params_new =
     \<lparr>p_values = replicate MAX_PARAMS 0, p_subparam_flags = replicate MAX_PARAMS False, p_len = 0,
      p_current = 0, p_has_current = False, p_trailing_sep = False, p_pending_colon = False\<rparr>"

definition params_clear :: "params \<Rightarrow> params" where
  "params_clear p =
     p\<lparr>p_len := 0, p_current := 0, p_has_current := False, p_trailing_sep := False,
       p_pending_colon := False\<rparr>"

text \<open>\<open>u32::saturating_mul\<close>, \<open>u32::saturating_add\<close> and \<open>self.current.min(u16::MAX as u32) as u16\<close>.\<close>

definition sat_u32 :: "nat \<Rightarrow> u32" where
  "sat_u32 n = of_nat (min n (2 ^ 32 - 1))"

definition sat_mul :: "u32 \<Rightarrow> u32 \<Rightarrow> u32" where
  "sat_mul a b = sat_u32 (unat a * unat b)"

definition sat_add :: "u32 \<Rightarrow> u32 \<Rightarrow> u32" where
  "sat_add a b = sat_u32 (unat a + unat b)"

definition clamp16 :: "u32 \<Rightarrow> u16" where
  "clamp16 c = ucast (min c 0xFFFF)"

definition pending_value :: "params \<Rightarrow> u16" where
  "pending_value p = (if p_has_current p then clamp16 (p_current p) else 0)"

text \<open>The block the \<open>;\<close> and \<open>:\<close> branches share: store the pending value if there is room.\<close>

definition params_store :: "params \<Rightarrow> params" where
  "params_store p =
     (if p_len p < MAX_PARAMS then
        p\<lparr>p_values := (p_values p)[p_len p := pending_value p],
          p_subparam_flags := (p_subparam_flags p)[p_len p := p_pending_colon p],
          p_len := p_len p + 1\<rparr>
      else p)"

definition params_push :: "params \<Rightarrow> u8 \<Rightarrow> params" where
  "params_push p b =
     (if 0x30 \<le> b \<and> b \<le> 0x39 then
        p\<lparr>p_has_current := True, p_trailing_sep := False,
          p_current := sat_add (sat_mul (p_current p) 10) (ucast (b - 0x30))\<rparr>
      else if b = 0x3B then
        (params_store p)\<lparr>p_current := 0, p_has_current := False, p_trailing_sep := True,
          p_pending_colon := False\<rparr>
      else if b = 0x3A then
        (params_store p)\<lparr>p_current := 0, p_has_current := False, p_pending_colon := True\<rparr>
      else p)"

definition params_finished :: "params \<Rightarrow> u16 list" where
  "params_finished p =
     take (p_len p) (p_values p) @
     (if p_len p < MAX_PARAMS then
        (if p_has_current p then [clamp16 (p_current p)]
         else if p_trailing_sep p then [0] else [])
      else [])"

definition params_finished_len :: "params \<Rightarrow> nat" where
  "params_finished_len p =
     (if p_len p < MAX_PARAMS \<and> (p_has_current p \<or> p_trailing_sep p) then p_len p + 1 else p_len p)"

definition params_get :: "params \<Rightarrow> nat \<Rightarrow> u16 \<Rightarrow> u16" where
  "params_get p i dflt =
     (if params_finished_len p \<le> i then dflt
      else if i < p_len p then p_values p ! i
      else if p_has_current p then clamp16 (p_current p) else 0)"

definition params_get_or :: "params \<Rightarrow> nat \<Rightarrow> u16 \<Rightarrow> u16" where
  "params_get_or p i dflt = (let v = params_get p i 0 in if v = 0 then dflt else v)"

definition params_subparam_flags :: "params \<Rightarrow> bool list" where
  "params_subparam_flags p =
     (let result = take (p_len p) (p_subparam_flags p) in
      if p_has_current p \<and> length result < MAX_PARAMS then result @ [p_pending_colon p]
      else if p_trailing_sep p \<and> \<not> p_has_current p \<and> length result < MAX_PARAMS
      then result @ [False] else result)"

definition params_is_empty :: "params \<Rightarrow> bool" where
  "params_is_empty p \<longleftrightarrow> params_finished_len p = 0"

definition params_wf :: "params \<Rightarrow> bool" where
  "params_wf p \<longleftrightarrow> length (p_values p) = MAX_PARAMS \<and> length (p_subparam_flags p) = MAX_PARAMS \<and>
     p_len p \<le> MAX_PARAMS"

lemma params_wf_new [simp, wf_pres]: "params_wf params_new"
  by (simp add: params_wf_def params_new_def)

lemma params_wf_clear [simp, wf_pres]: "params_wf p \<Longrightarrow> params_wf (params_clear p)"
  by (simp add: params_wf_def params_clear_def)

lemma params_wf_store: "params_wf p \<Longrightarrow> params_wf (params_store p)"
  by (simp add: params_wf_def params_store_def)

lemma params_wf_fields [simp]:
  "params_wf (p\<lparr>p_current := c\<rparr>) = params_wf p"
  "params_wf (p\<lparr>p_has_current := h\<rparr>) = params_wf p"
  "params_wf (p\<lparr>p_trailing_sep := t\<rparr>) = params_wf p"
  "params_wf (p\<lparr>p_pending_colon := q\<rparr>) = params_wf p"
  by (simp_all add: params_wf_def)

lemma params_wf_push [simp, wf_pres]: "params_wf p \<Longrightarrow> params_wf (params_push p b)"
  by (simp add: params_push_def params_wf_store)

lemma params_push_semicolon:
  "params_push p 0x3B =
    (params_store p)\<lparr>p_current := 0, p_has_current := False, p_trailing_sep := True,
       p_pending_colon := False\<rparr>"
  by (simp add: params_push_def)

lemma params_push_colon:
  "params_push p 0x3A =
    (params_store p)\<lparr>p_current := 0, p_has_current := False, p_pending_colon := True\<rparr>"
  by (simp add: params_push_def)

lemma length_params_finished: "params_wf p \<Longrightarrow> length (params_finished p) = params_finished_len p"
  by (auto simp: params_wf_def params_finished_def params_finished_len_def)

lemma params_finished_len_le: "params_wf p \<Longrightarrow> params_finished_len p \<le> MAX_PARAMS"
  by (auto simp: params_wf_def params_finished_len_def)

lemma length_params_flags: "params_wf p \<Longrightarrow> length (params_subparam_flags p) = params_finished_len p"
  by (auto simp: params_wf_def params_subparam_flags_def params_finished_len_def Let_def)

text \<open>\<open>get\<close> reads the list \<open>finished\<close> returns, and the default past its end.\<close>

lemma params_get_finished:
  "params_wf p \<Longrightarrow>
   params_get p i d = (if i < length (params_finished p) then params_finished p ! i else d)"
  by (auto simp: params_get_def params_finished_def params_finished_len_def params_wf_def nth_append
      not_le split: if_splits)

subsection \<open>Reading decimal parameters\<close>

lemma unat_sat_u32: "unat (sat_u32 n) = min n (2 ^ 32 - 1)"
proof -
  have "min n (2 ^ 32 - 1) < 2 ^ LENGTH(32)"
    by simp
  then show ?thesis
    unfolding sat_u32_def by (rule unat_of_nat_less)
qed

lemma sat_u32_min: "sat_u32 (min x (2 ^ 32 - 1) + d) = sat_u32 (x + d)"
  by (simp add: sat_u32_def min_def)

lemma unat_clamp16: "unat (clamp16 c) = min (unat c) 65535"
proof -
  have "unat (min c 0xFFFF) = min (unat c) 65535"
    by (simp add: min_def word_le_nat_alt)
  then show ?thesis
    by (simp add: clamp16_def unat_ucast_mod)
qed

text \<open>The value a run of digits leaves, and its accumulation step.\<close>

definition acc_dec :: "nat \<Rightarrow> u8 \<Rightarrow> nat" where
  "acc_dec a b = min (a * 10 + (unat b - 48)) (2 ^ 32 - 1)"

definition is_digit :: "u8 \<Rightarrow> bool" where
  "is_digit b \<longleftrightarrow> 0x30 \<le> b \<and> b \<le> 0x39"

lemma is_digit_unat: "is_digit b \<longleftrightarrow> 48 \<le> unat b \<and> unat b \<le> 57"
  by (simp add: is_digit_def word_le_nat_alt)

lemma params_push_digit:
  assumes "is_digit b"
  shows "params_push p b =
    p\<lparr>p_has_current := True, p_trailing_sep := False,
      p_current := of_nat (acc_dec (unat (p_current p)) b)\<rparr>"
proof -
  have "unat (b - 0x30) = unat b - 48"
    using assms by (subst unat_sub) (auto simp: is_digit_def)
  moreover have "unat b - 48 < 4294967296"
    using assms unfolding is_digit_unat by linarith
  ultimately have "unat (ucast (b - 0x30) :: u32) = unat b - 48"
    by (simp add: unat_ucast_mod)
  then have "sat_add (sat_mul (p_current p) 10) (ucast (b - 0x30))
      = of_nat (acc_dec (unat (p_current p)) b)"
    by (simp only: sat_add_def sat_mul_def unat_sat_u32 sat_u32_min)
       (simp add: sat_u32_def acc_dec_def)
  then show ?thesis
    using assms by (simp add: params_push_def is_digit_def)
qed

lemma unat_acc_dec [simp]: "unat (of_nat (acc_dec a b) :: u32) = acc_dec a b"
  by (rule unat_of_nat_less) (simp add: acc_dec_def)

lemma fold_push_digits:
  assumes "\<forall>b \<in> set ds. is_digit b" and "ds \<noteq> []"
  shows "fold (\<lambda>b p. params_push p b) ds p =
    p\<lparr>p_has_current := True, p_trailing_sep := False,
      p_current := of_nat (fold (\<lambda>b a. acc_dec a b) ds (unat (p_current p)))\<rparr>"
  using assms
proof (induction ds arbitrary: p)
  case Nil
  then show ?case by simp
next
  case (Cons b ds)
  then show ?case
    by (cases "ds = []") (simp_all add: params_push_digit)
qed

lemma fold_acc_dec_show_nat:
  "n < 2 ^ 32 \<Longrightarrow> fold (\<lambda>b a. acc_dec a b) (show_nat n) 0 = n"
proof (induction n rule: show_nat.induct)
  case (1 n)
  show ?case
  proof (cases "n < 10")
    case True
    then show ?thesis by (subst show_nat.simps) (simp add: acc_dec_def)
  next
    case False
    have "n mod 10 < 10" by simp
    then have "unat (byte (48 + n mod 10)) = 48 + n mod 10"
      by (intro unat_byte) linarith
    with 1 False show ?thesis
      by (subst show_nat.simps) (simp add: acc_dec_def)
  qed
qed

lemma is_digit_show_nat: "\<forall>b \<in> set (show_nat n). is_digit b"
  using show_nat_digits by (auto simp: is_digit_unat)

text \<open>One number, then a separator.\<close>

lemma push_number:
  assumes "p_current p = 0" and "n < 65536"
  shows "fold (\<lambda>b p. params_push p b) (show_nat n) p =
    p\<lparr>p_has_current := True, p_trailing_sep := False, p_current := of_nat n\<rparr>"
  using assms fold_push_digits [OF is_digit_show_nat show_nat_not_Nil, of n p]
  by (simp add: fold_acc_dec_show_nat)

lemma clamp16_of_nat: "n < 65536 \<Longrightarrow> clamp16 (of_nat n) = of_nat n"
proof -
  assume n: "n < 65536"
  then have "unat (of_nat n :: u32) = n"
    by (intro unat_of_nat_less) simp
  then have "unat (clamp16 (of_nat n)) = n"
    using n by (simp add: unat_clamp16)
  then show ?thesis
    using n by (intro unsigned_word_eqI [where ?'a = nat]) (simp add: unat_of_nat_less)
qed

text \<open>
  An accumulator that has taken in \<open>vs\<close> and whose last byte was a semicolon (or which is fresh).
\<close>

definition holds_values :: "params \<Rightarrow> u16 list \<Rightarrow> bool" where
  "holds_values p vs \<longleftrightarrow> params_wf p \<and> take (p_len p) (p_values p) = vs \<and>
     take (p_len p) (p_subparam_flags p) = replicate (length vs) False \<and>
     p_current p = 0 \<and> \<not> p_has_current p \<and> \<not> p_pending_colon p"

lemma holds_values_len: "holds_values p vs \<Longrightarrow> p_len p = length vs"
  by (auto simp: holds_values_def params_wf_def)

lemma holds_values_clear: "params_wf p \<Longrightarrow> holds_values (params_clear p) []"
  by (simp add: holds_values_def params_wf_clear) (simp add: params_clear_def)

lemma holds_values_push:
  assumes "holds_values p vs" and "length vs < MAX_PARAMS" and "n < 65536"
  shows "holds_values (fold (\<lambda>b p. params_push p b) (show_nat n @ [0x3B]) p) (vs @ [of_nat n])"
proof -
  have "p_len p = length vs"
    using assms(1) by (rule holds_values_len)
  then show ?thesis
    using assms
    by (auto simp: holds_values_def push_number params_push_semicolon params_store_def pending_value_def
        clamp16_of_nat params_wf_def take_Suc_conv_app_nth replicate_append_same)
qed

lemma holds_values_last:
  assumes "holds_values p vs" and "length vs < MAX_PARAMS" and "n < 65536"
  shows "params_finished (fold (\<lambda>b p. params_push p b) (show_nat n) p) = vs @ [of_nat n]"
    and "params_subparam_flags (fold (\<lambda>b p. params_push p b) (show_nat n) p)
           = replicate (Suc (length vs)) False"
  using assms holds_values_len [OF assms(1)]
  by (auto simp: holds_values_def push_number params_finished_def params_subparam_flags_def
      clamp16_of_nat params_wf_def Let_def replicate_append_same)

text \<open>A list of numbers printed with semicolons between them, and read back.\<close>

fun show_params :: "nat list \<Rightarrow> rstr" where
  "show_params [] = []"
| "show_params [n] = show_nat n"
| "show_params (n # ns) = show_nat n @ 0x3B # show_params ns"

lemma push_params:
  assumes "ns \<noteq> []" and "\<forall>n \<in> set ns. n < 65536" and "holds_values p vs"
    and "length vs + length ns \<le> MAX_PARAMS"
  shows "params_finished (fold (\<lambda>b p. params_push p b) (show_params ns) p) = vs @ map of_nat ns
       \<and> params_subparam_flags (fold (\<lambda>b p. params_push p b) (show_params ns) p)
           = replicate (length vs + length ns) False"
  using assms
proof (induction ns arbitrary: p vs rule: show_params.induct)
  case 1
  then show ?case by simp
next
  case (2 n)
  then show ?case
    by (simp add: holds_values_last)
next
  case (3 n m ns)
  have "holds_values (fold (\<lambda>b p. params_push p b) (show_nat n @ [0x3B]) p) (vs @ [of_nat n])"
    using 3 by (intro holds_values_push) auto
  from 3(1) [OF _ _ this] 3(3,5) show ?case
    by simp
qed

lemma show_params_bytes:
  "b \<in> set (show_params ns) \<Longrightarrow> 0x30 \<le> b \<and> b \<le> 0x3B"
proof (induction ns rule: show_params.induct)
  case (2 n)
  then show ?case
    using show_nat_digits [of b n] by (simp add: word_le_nat_alt)
next
  case (3 n m ns)
  then show ?case
    using show_nat_digits [of b n] by (auto simp: word_le_nat_alt)
qed simp

section \<open>Intermediates\<close>

abbreviation MAX_INTERMEDIATES :: nat where "MAX_INTERMEDIATES \<equiv> 4"

record intermediates =
  i_data :: "u8 list"
  i_len :: nat

definition inter_new :: intermediates where
  "inter_new = \<lparr>i_data = replicate MAX_INTERMEDIATES 0, i_len = 0\<rparr>"

definition inter_clear :: "intermediates \<Rightarrow> intermediates" where
  "inter_clear i = i\<lparr>i_len := 0\<rparr>"

definition inter_push :: "intermediates \<Rightarrow> u8 \<Rightarrow> intermediates" where
  "inter_push i b =
     (if i_len i < MAX_INTERMEDIATES
      then i\<lparr>i_data := (i_data i)[i_len i := b], i_len := i_len i + 1\<rparr> else i)"

definition inter_slice :: "intermediates \<Rightarrow> u8 list" where
  "inter_slice i = take (i_len i) (i_data i)"

definition inter_contains :: "intermediates \<Rightarrow> u8 \<Rightarrow> bool" where
  "inter_contains i b \<longleftrightarrow> b \<in> set (inter_slice i)"

definition inter_first :: "intermediates \<Rightarrow> u8 option" where
  "inter_first i = (if 0 < i_len i then Some (i_data i ! 0) else None)"

definition inter_wf :: "intermediates \<Rightarrow> bool" where
  "inter_wf i \<longleftrightarrow> length (i_data i) = MAX_INTERMEDIATES \<and> i_len i \<le> MAX_INTERMEDIATES"

lemma inter_wf_new [simp, wf_pres]: "inter_wf inter_new"
  by (simp add: inter_wf_def inter_new_def)

lemma inter_wf_clear [simp, wf_pres]: "inter_wf i \<Longrightarrow> inter_wf (inter_clear i)"
  by (simp add: inter_wf_def inter_clear_def)

lemma inter_wf_push [simp, wf_pres]: "inter_wf i \<Longrightarrow> inter_wf (inter_push i b)"
  by (simp add: inter_wf_def inter_push_def)

lemma inter_slice_clear [simp]: "inter_slice (inter_clear i) = []"
  by (simp add: inter_slice_def inter_clear_def)

text \<open>The buffer keeps the first four bytes pushed and drops the rest.\<close>

lemma inter_slice_push:
  "inter_wf i \<Longrightarrow>
   inter_slice (inter_push i b)
     = (if i_len i < MAX_INTERMEDIATES then inter_slice i @ [b] else inter_slice i)"
  by (auto simp: inter_wf_def inter_slice_def inter_push_def take_Suc_conv_app_nth)

lemma length_inter_slice: "inter_wf i \<Longrightarrow> length (inter_slice i) = i_len i"
  by (simp add: inter_wf_def inter_slice_def)

lemma inter_first_slice:
  "inter_wf i \<Longrightarrow> inter_first i = (case inter_slice i of [] \<Rightarrow> None | b # _ \<Rightarrow> Some b)"
  by (cases "i_data i"; cases "i_len i")
     (auto simp: inter_wf_def inter_first_def inter_slice_def)

end
