(* ===== verification/VT_Parser.thy ===== *)
theory VT_Parser
  imports VT_Params
begin

text \<open>
  \<open>crates/emux-vt/src/parser.rs\<close>: the byte-driven state machine. The trait \<open>Performer\<close> is the
  parameter \<open>perform\<close> of every handler, a function that may panic; \<open>performer\<close> is its contract as
  a locale. Each handler takes the parser and the performer's state and returns both.
\<close>

section \<open>Actions and state\<close>

datatype action =
    Print rchar
  | Execute u8
  | CsiDispatch params intermediates bool u8
  | EscDispatch intermediates bool u8
  | OscDispatch "u8 list list"
  | DcsHook params intermediates bool u8
  | DcsPut u8
  | DcsUnhook
  | ApcDispatch "u8 list"

datatype pstate =
    Ground | Escape | EscapeIntermediate | CsiEntry | CsiParam | CsiIntermediate | CsiIgnore
  | OscString | DcsEntry | DcsParam | DcsIntermediate | DcsPassthrough | DcsIgnore
  | SosPmApcString | Utf8

record parser =
  ps_state :: pstate
  ps_params :: params
  ps_inter :: intermediates
  ps_osc :: "u8 list"
  ps_dcs :: "u8 list"
  ps_utf8_buf :: "u8 list"
  ps_utf8_idx :: nat
  ps_utf8_len :: nat

abbreviation MAX_OSC_DATA :: nat where "MAX_OSC_DATA \<equiv> 65536"

definition parser_new :: parser where
  "parser_new =
     \<lparr>ps_state = Ground, ps_params = params_new, ps_inter = inter_new, ps_osc = [], ps_dcs = [],
      ps_utf8_buf = replicate 4 0, ps_utf8_idx = 0, ps_utf8_len = 0\<rparr>"

type_synonym 'p perform = "'p \<Rightarrow> action \<Rightarrow> 'p option"
type_synonym 'p result = "(parser \<times> 'p) option"

text \<open>The byte classes of the match arms.\<close>

definition is_c0 :: "u8 \<Rightarrow> bool" where
  "is_c0 b \<longleftrightarrow> b \<le> 0x17 \<or> b = 0x19 \<or> (0x1c \<le> b \<and> b \<le> 0x1f)"

definition printable :: "u8 \<Rightarrow> bool" where
  "printable b \<longleftrightarrow> 0x20 \<le> b \<and> b \<le> 0x7e"

definition between :: "u8 \<Rightarrow> u8 \<Rightarrow> u8 \<Rightarrow> bool" where
  "between lo hi b \<longleftrightarrow> lo \<le> b \<and> b \<le> hi"

text \<open>What entering a control or device sequence resets.\<close>

definition enter_seq :: "pstate \<Rightarrow> parser \<Rightarrow> parser" where
  "enter_seq st ps =
     ps\<lparr>ps_state := st, ps_params := params_clear (ps_params ps),
        ps_inter := inter_clear (ps_inter ps)\<rparr>"

definition start_utf8 :: "u8 \<Rightarrow> nat \<Rightarrow> parser \<Rightarrow> parser" where
  "start_utf8 b n ps =
     ps\<lparr>ps_utf8_buf := (ps_utf8_buf ps)[0 := b], ps_utf8_idx := 1, ps_utf8_len := n,
        ps_state := Utf8\<rparr>"

section \<open>Handlers, one per state\<close>

definition ground :: "'p perform \<Rightarrow> parser \<Rightarrow> 'p \<Rightarrow> u8 \<Rightarrow> 'p result" where
  "ground perform ps p b =
     (if b \<le> 0x1f then map_option (Pair ps) (perform p (Execute b))
      else if printable b then map_option (Pair ps) (perform p (Print (unat b)))
      else if between 0x80 0x8f b \<or> between 0x91 0x97 b \<or> b = 0x99 \<or> b = 0x9a then
        map_option (Pair ps) (perform p (Execute b))
      else if b = 0x90 then Some (enter_seq DcsEntry ps, p)
      else if b = 0x98 \<or> b = 0x9e \<or> b = 0x9f then Some (ps\<lparr>ps_state := SosPmApcString\<rparr>, p)
      else if b = 0x9b then Some (enter_seq CsiEntry ps, p)
      else if b = 0x9d then Some (ps\<lparr>ps_state := OscString, ps_osc := []\<rparr>, p)
      else if between 0xc0 0xdf b then Some (start_utf8 b 2 ps, p)
      else if between 0xe0 0xef b then Some (start_utf8 b 3 ps, p)
      else if between 0xf0 0xf7 b then Some (start_utf8 b 4 ps, p)
      else Some (ps, p))"

definition escape :: "'p perform \<Rightarrow> parser \<Rightarrow> 'p \<Rightarrow> u8 \<Rightarrow> 'p result" where
  "escape perform ps p b =
     (if is_c0 b then map_option (Pair ps) (perform p (Execute b))
      else if between 0x20 0x2f b then
        Some (ps\<lparr>ps_inter := inter_push (ps_inter ps) b, ps_state := EscapeIntermediate\<rparr>, p)
      else if between 0x30 0x4f b \<or> between 0x51 0x57 b \<or> b = 0x59 \<or> b = 0x5a \<or> b = 0x5c
              \<or> between 0x60 0x7e b then
        map_option (Pair (ps\<lparr>ps_state := Ground\<rparr>)) (perform p (EscDispatch (ps_inter ps) False b))
      else if b = 0x50 then Some (enter_seq DcsEntry ps, p)
      else if b = 0x58 \<or> b = 0x5e \<or> b = 0x5f then Some (ps\<lparr>ps_state := SosPmApcString\<rparr>, p)
      else if b = 0x5b then Some (enter_seq CsiEntry ps, p)
      else if b = 0x5d then Some (ps\<lparr>ps_state := OscString, ps_osc := []\<rparr>, p)
      else if b = 0x7f then Some (ps, p)
      else Some (ps\<lparr>ps_state := Ground\<rparr>, p))"

definition escape_intermediate :: "'p perform \<Rightarrow> parser \<Rightarrow> 'p \<Rightarrow> u8 \<Rightarrow> 'p result" where
  "escape_intermediate perform ps p b =
     (if is_c0 b then map_option (Pair ps) (perform p (Execute b))
      else if between 0x20 0x2f b then Some (ps\<lparr>ps_inter := inter_push (ps_inter ps) b\<rparr>, p)
      else if between 0x30 0x7e b then
        map_option (Pair (ps\<lparr>ps_state := Ground\<rparr>)) (perform p (EscDispatch (ps_inter ps) False b))
      else if b = 0x7f then Some (ps, p)
      else Some (ps\<lparr>ps_state := Ground\<rparr>, p))"

text \<open>The final byte of a control sequence: dispatch and return to ground.\<close>

definition csi_dispatch :: "'p perform \<Rightarrow> parser \<Rightarrow> 'p \<Rightarrow> u8 \<Rightarrow> 'p result" where
  "csi_dispatch perform ps p b =
     map_option (Pair (ps\<lparr>ps_state := Ground\<rparr>))
       (perform p (CsiDispatch (ps_params ps) (ps_inter ps) False b))"

definition csi_entry :: "'p perform \<Rightarrow> parser \<Rightarrow> 'p \<Rightarrow> u8 \<Rightarrow> 'p result" where
  "csi_entry perform ps p b =
     (if is_c0 b then map_option (Pair ps) (perform p (Execute b))
      else if between 0x20 0x2f b then
        Some (ps\<lparr>ps_inter := inter_push (ps_inter ps) b, ps_state := CsiIntermediate\<rparr>, p)
      else if between 0x30 0x3b b then
        Some (ps\<lparr>ps_params := params_push (ps_params ps) b, ps_state := CsiParam\<rparr>, p)
      else if between 0x3c 0x3f b then
        Some (ps\<lparr>ps_inter := inter_push (ps_inter ps) b, ps_state := CsiParam\<rparr>, p)
      else if between 0x40 0x7e b then csi_dispatch perform ps p b
      else if b = 0x7f then Some (ps, p)
      else Some (ps\<lparr>ps_state := Ground\<rparr>, p))"

definition csi_param :: "'p perform \<Rightarrow> parser \<Rightarrow> 'p \<Rightarrow> u8 \<Rightarrow> 'p result" where
  "csi_param perform ps p b =
     (if is_c0 b then map_option (Pair ps) (perform p (Execute b))
      else if between 0x20 0x2f b then
        Some (ps\<lparr>ps_inter := inter_push (ps_inter ps) b, ps_state := CsiIntermediate\<rparr>, p)
      else if between 0x30 0x3b b then Some (ps\<lparr>ps_params := params_push (ps_params ps) b\<rparr>, p)
      else if between 0x3c 0x3f b then Some (ps\<lparr>ps_state := CsiIgnore\<rparr>, p)
      else if between 0x40 0x7e b then csi_dispatch perform ps p b
      else if b = 0x7f then Some (ps, p)
      else Some (ps\<lparr>ps_state := Ground\<rparr>, p))"

definition csi_intermediate :: "'p perform \<Rightarrow> parser \<Rightarrow> 'p \<Rightarrow> u8 \<Rightarrow> 'p result" where
  "csi_intermediate perform ps p b =
     (if is_c0 b then map_option (Pair ps) (perform p (Execute b))
      else if between 0x20 0x2f b then Some (ps\<lparr>ps_inter := inter_push (ps_inter ps) b\<rparr>, p)
      else if between 0x30 0x3f b then Some (ps\<lparr>ps_state := CsiIgnore\<rparr>, p)
      else if between 0x40 0x7e b then csi_dispatch perform ps p b
      else if b = 0x7f then Some (ps, p)
      else Some (ps\<lparr>ps_state := Ground\<rparr>, p))"

definition csi_ignore :: "'p perform \<Rightarrow> parser \<Rightarrow> 'p \<Rightarrow> u8 \<Rightarrow> 'p result" where
  "csi_ignore perform ps p b =
     (if is_c0 b then map_option (Pair ps) (perform p (Execute b))
      else if between 0x40 0x7e b then Some (ps\<lparr>ps_state := Ground\<rparr>, p)
      else Some (ps, p))"

definition osc_string :: "'p perform \<Rightarrow> parser \<Rightarrow> 'p \<Rightarrow> u8 \<Rightarrow> 'p result" where
  "osc_string perform ps p b =
     (if b = 0x07 \<or> b = 0x9c then
        map_option (Pair (ps\<lparr>ps_state := Ground\<rparr>)) (perform p (OscDispatch (split_on 0x3B (ps_osc ps))))
      else if b \<le> 0x06 \<or> between 0x08 0x1f b then Some (ps, p)
      else if length (ps_osc ps) < MAX_OSC_DATA then Some (ps\<lparr>ps_osc := ps_osc ps @ [b]\<rparr>, p)
      else Some (ps, p))"

definition dcs_entry :: "'p perform \<Rightarrow> parser \<Rightarrow> 'p \<Rightarrow> u8 \<Rightarrow> 'p result" where
  "dcs_entry perform ps p b =
     (if between 0x20 0x2f b then
        Some (ps\<lparr>ps_inter := inter_push (ps_inter ps) b, ps_state := DcsIntermediate\<rparr>, p)
      else if between 0x30 0x39 b \<or> b = 0x3b then
        Some (ps\<lparr>ps_params := params_push (ps_params ps) b, ps_state := DcsParam\<rparr>, p)
      else if between 0x3c 0x3f b then
        Some (ps\<lparr>ps_inter := inter_push (ps_inter ps) b, ps_state := DcsParam\<rparr>, p)
      else if between 0x40 0x7e b then Some (ps\<lparr>ps_state := DcsPassthrough\<rparr>, p)
      else Some (ps\<lparr>ps_state := DcsIgnore\<rparr>, p))"

definition dcs_hook :: "'p perform \<Rightarrow> parser \<Rightarrow> 'p \<Rightarrow> u8 \<Rightarrow> 'p result" where
  "dcs_hook perform ps p b =
     map_option (Pair (ps\<lparr>ps_dcs := [], ps_state := DcsPassthrough\<rparr>))
       (perform p (DcsHook (ps_params ps) (ps_inter ps) False b))"

definition dcs_param :: "'p perform \<Rightarrow> parser \<Rightarrow> 'p \<Rightarrow> u8 \<Rightarrow> 'p result" where
  "dcs_param perform ps p b =
     (if between 0x30 0x39 b \<or> b = 0x3b then Some (ps\<lparr>ps_params := params_push (ps_params ps) b\<rparr>, p)
      else if between 0x20 0x2f b then
        Some (ps\<lparr>ps_inter := inter_push (ps_inter ps) b, ps_state := DcsIntermediate\<rparr>, p)
      else if between 0x40 0x7e b then dcs_hook perform ps p b
      else if b = 0x3a \<or> between 0x3c 0x3f b then Some (ps\<lparr>ps_state := DcsIgnore\<rparr>, p)
      else Some (ps, p))"

definition dcs_intermediate :: "'p perform \<Rightarrow> parser \<Rightarrow> 'p \<Rightarrow> u8 \<Rightarrow> 'p result" where
  "dcs_intermediate perform ps p b =
     (if between 0x20 0x2f b then Some (ps\<lparr>ps_inter := inter_push (ps_inter ps) b\<rparr>, p)
      else if between 0x40 0x7e b then dcs_hook perform ps p b
      else if between 0x30 0x3f b then Some (ps\<lparr>ps_state := DcsIgnore\<rparr>, p)
      else Some (ps, p))"

definition dcs_passthrough :: "'p perform \<Rightarrow> parser \<Rightarrow> 'p \<Rightarrow> u8 \<Rightarrow> 'p result" where
  "dcs_passthrough perform ps p b =
     (if b = 0x9c then map_option (Pair (ps\<lparr>ps_state := Ground\<rparr>)) (perform p DcsUnhook)
      else if is_c0 b \<or> between 0x20 0x7e b then map_option (Pair ps) (perform p (DcsPut b))
      else Some (ps, p))"

definition dcs_ignore :: "'p perform \<Rightarrow> parser \<Rightarrow> 'p \<Rightarrow> u8 \<Rightarrow> 'p result" where
  "dcs_ignore perform ps p b =
     (if b = 0x9c then Some (ps\<lparr>ps_state := Ground\<rparr>, p) else Some (ps, p))"

definition sos_pm_apc_string :: "'p perform \<Rightarrow> parser \<Rightarrow> 'p \<Rightarrow> u8 \<Rightarrow> 'p result" where
  "sos_pm_apc_string perform ps p b =
     (if b = 0x9c then Some (ps\<lparr>ps_state := Ground\<rparr>, p) else Some (ps, p))"

text \<open>
  The UTF-8 state: store the byte (an index panic if the buffer is full), and print the character
  when the announced number of bytes has come in and they are valid.
\<close>

definition utf8_byte :: "'p perform \<Rightarrow> parser \<Rightarrow> 'p \<Rightarrow> u8 \<Rightarrow> 'p result" where
  "utf8_byte perform ps p b =
     do {
       buf \<leftarrow> upd (ps_utf8_buf ps) (ps_utf8_idx ps) b;
       let ps1 = ps\<lparr>ps_utf8_buf := buf, ps_utf8_idx := ps_utf8_idx ps + 1\<rparr>;
       if ps_utf8_idx ps1 = ps_utf8_len ps1 then
         (case from_utf8 (take (ps_utf8_len ps1) buf) of
            Some (c # cs) \<Rightarrow>
              map_option (Pair (ps1\<lparr>ps_state := Ground\<rparr>)) (perform p (Print (utf8_first (c # cs))))
          | _ \<Rightarrow> Some (ps1\<lparr>ps_state := Ground\<rparr>, p))
       else Some (ps1, p)
     }"

definition dispatch_state :: "'p perform \<Rightarrow> parser \<Rightarrow> 'p \<Rightarrow> u8 \<Rightarrow> 'p result" where
  "dispatch_state perform ps p b =
     (case ps_state ps of
        Ground \<Rightarrow> ground perform ps p b
      | Escape \<Rightarrow> escape perform ps p b
      | EscapeIntermediate \<Rightarrow> escape_intermediate perform ps p b
      | CsiEntry \<Rightarrow> csi_entry perform ps p b
      | CsiParam \<Rightarrow> csi_param perform ps p b
      | CsiIntermediate \<Rightarrow> csi_intermediate perform ps p b
      | CsiIgnore \<Rightarrow> csi_ignore perform ps p b
      | OscString \<Rightarrow> osc_string perform ps p b
      | DcsEntry \<Rightarrow> dcs_entry perform ps p b
      | DcsParam \<Rightarrow> dcs_param perform ps p b
      | DcsIntermediate \<Rightarrow> dcs_intermediate perform ps p b
      | DcsPassthrough \<Rightarrow> dcs_passthrough perform ps p b
      | DcsIgnore \<Rightarrow> dcs_ignore perform ps p b
      | SosPmApcString \<Rightarrow> sos_pm_apc_string perform ps p b
      | Utf8 \<Rightarrow> None)"

definition advance_byte :: "'p perform \<Rightarrow> parser \<Rightarrow> 'p \<Rightarrow> u8 \<Rightarrow> 'p result" where
  "advance_byte perform ps p b =
     (if ps_state ps = Utf8 then utf8_byte perform ps p b
      else if b = 0x18 \<or> b = 0x1a then
        map_option (Pair (ps\<lparr>ps_state := Ground\<rparr>)) (perform p (Execute b))
      else if b = 0x1b then
        Some (ps\<lparr>ps_state := Escape, ps_inter := inter_clear (ps_inter ps)\<rparr>, p)
      else dispatch_state perform ps p b)"

text \<open>
  \<open>advance\<close>: in the ground state a run of printable ASCII is printed at once, then the next byte
  goes through the state machine.
\<close>

function advance :: "'p perform \<Rightarrow> parser \<Rightarrow> 'p \<Rightarrow> u8 list \<Rightarrow> 'p result" where
  "advance perform ps p bs =
     (if bs = [] then Some (ps, p)
      else if ps_state ps = Ground then
        do {
          p' \<leftarrow> foldM (\<lambda>q b. perform q (Print (unat b))) (takeWhile printable bs) p;
          case dropWhile printable bs of
            [] \<Rightarrow> Some (ps, p')
          | b # rest \<Rightarrow>
              (case advance_byte perform ps p' b of
                 None \<Rightarrow> None
               | Some (ps'', p'') \<Rightarrow> advance perform ps'' p'' rest)
        }
      else
        (case advance_byte perform ps p (hd bs) of
           None \<Rightarrow> None
         | Some (ps'', p'') \<Rightarrow> advance perform ps'' p'' (tl bs)))"
  by pat_completeness auto
termination
proof (relation "measure (\<lambda>(perform, ps, p, bs). length bs)", goal_cases)
  case (2 perform ps p bs p' b rest x ps'' p'')
  have "length (dropWhile printable bs) \<le> length bs"
    by (rule length_dropWhile_le)
  with 2 show ?case by simp
qed (auto simp: length_tl neq_Nil_conv)

declare advance.simps [simp del]

end
