(* ===== verification/VT_Parser_Props.thy ===== *)
theory VT_Parser_Props
  imports VT_Parser
begin

text \<open>
  What the state machine of \<open>VT_Parser\<close> guarantees whatever it is fed: it never panics by itself
  and keeps its buffers within their arrays (\<open>parser_wf\<close>), its fast path and its input chunking
  are invisible, and the performer only ever sees the stream of actions that \<open>actions_of\<close> lists.
  The locale \<open>performer\<close> is the contract of the trait: a performer that keeps its invariant on the
  actions it is ready for can be driven by any bytes that emit such actions only.
\<close>

section \<open>The collecting performer\<close>

text \<open>The \<open>Collector\<close> of the code's own tests: a performer that records the actions.\<close>

definition collect :: "action list perform" where
  "collect acts a = Some (acts @ [a])"

lemma foldM_collect [simp]: "foldM collect as acts = Some (acts @ as)"
  by (induction as arbitrary: acts) (auto simp: collect_def)

text \<open>Replaying what a step emitted into another performer.\<close>

definition via :: "'p perform \<Rightarrow> action list result \<Rightarrow> 'p \<Rightarrow> 'p result" where
  "via perform r p =
     (case r of None \<Rightarrow> None | Some (ps, as) \<Rightarrow> map_option (Pair ps) (foldM perform as p))"

lemma via_simps [simp]:
  "via perform None p = None"
  "via perform (Some (ps, [])) p = Some (ps, p)"
  "via perform (Some (ps, as)) p = map_option (Pair ps) (foldM perform as p)"
  by (simp_all add: via_def)

lemma via_emit [simp]:
  "via perform (map_option (Pair ps) (collect [] a)) p = map_option (Pair ps) (perform p a)"
  by (simp add: collect_def)

lemma via_if: "via perform (if c then r else s) p = (if c then via perform r p else via perform s p)"
  by simp

lemmas handler_defs =
  ground_def escape_def escape_intermediate_def csi_dispatch_def csi_entry_def csi_param_def
  csi_intermediate_def csi_ignore_def osc_string_def dcs_entry_def dcs_hook_def dcs_param_def
  dcs_intermediate_def dcs_passthrough_def dcs_ignore_def sos_pm_apc_string_def

lemma via_utf8_byte: "utf8_byte perform ps p b = via perform (utf8_byte collect ps [] b) p"
  by (auto simp: utf8_byte_def Let_def upd_def via_def collect_def split: option.split list.split)

lemma via_dispatch:
  "dispatch_state perform ps p b = via perform (dispatch_state collect ps [] b) p"
  by (cases "ps_state ps") (simp_all only: dispatch_state_def pstate.case handler_defs via_if
      via_emit via_simps foldM.simps option.map)

lemma via_advance_byte:
  "advance_byte perform ps p b = via perform (advance_byte collect ps [] b) p"
  by (simp add: advance_byte_def via_if via_utf8_byte [of perform] via_dispatch [of perform]
      del: map_option_eq_Some)

section \<open>The fast path is invisible\<close>

definition byte_step :: "'p perform \<Rightarrow> parser \<times> 'p \<Rightarrow> u8 \<Rightarrow> 'p result" where
  "byte_step perform = (\<lambda>(ps, p) b. advance_byte perform ps p b)"

lemma byte_step_Pair [simp]: "byte_step perform (ps, p) b = advance_byte perform ps p b"
  by (simp add: byte_step_def)

lemma printable_step:
  assumes "ps_state ps = Ground" and "printable b"
  shows "advance_byte perform ps p b = map_option (Pair ps) (perform p (Print (unat b)))"
proof -
  have "32 \<le> unat b"
    using assms(2) by (simp add: printable_def word_le_nat_alt)
  then have "b \<noteq> 0x18" "b \<noteq> 0x1a" "b \<noteq> 0x1b" "\<not> b \<le> 0x1f"
    by (auto simp: word_le_nat_alt)
  with assms show ?thesis
    by (simp add: advance_byte_def dispatch_state_def ground_def)
qed

lemma printable_run:
  "ps_state ps = Ground \<Longrightarrow> \<forall>b \<in> set bs. printable b \<Longrightarrow>
   foldM (byte_step perform) bs (ps, p)
     = map_option (Pair ps) (foldM (\<lambda>q b. perform q (Print (unat b))) bs p)"
proof (induction bs arbitrary: p)
  case Nil
  then show ?case by simp
next
  case (Cons b bs)
  then show ?case
    by (cases "perform p (Print (unat b))") (simp_all add: printable_step)
qed

lemma advance_bytes: "advance perform ps p bs = foldM (byte_step perform) bs (ps, p)"
proof (induction perform ps p bs rule: advance.induct)
  case (1 perform ps p bs)
  show ?case
  proof (cases "bs = [] \<or> ps_state ps \<noteq> Ground")
    case True
    with 1(2) show ?thesis
      by (subst advance.simps) (auto simp: neq_Nil_conv split: option.splits)
  next
    case False
    let ?run = "takeWhile printable bs" and ?rest = "dropWhile printable bs"
    have "foldM (byte_step perform) bs (ps, p)
        = Option.bind (foldM (byte_step perform) ?run (ps, p)) (foldM (byte_step perform) ?rest)"
      by (metis foldM_append takeWhile_dropWhile_id)
    also have "\<dots> = Option.bind (foldM (\<lambda>q b. perform q (Print (unat b))) ?run p)
        (\<lambda>p'. foldM (byte_step perform) ?rest (ps, p'))"
      using False by (subst printable_run) (auto dest: set_takeWhileD simp: map_option_case
          split: option.split)
    finally show ?thesis
      using False 1(1)
      by (subst advance.simps, cases ?rest)
         (auto simp del: dropWhile_eq_Nil_conv split: option.splits intro!: bind_option_cong)
  qed
qed

lemma advance_append:
  "advance perform ps p (bs @ cs)
     = Option.bind (advance perform ps p bs) (\<lambda>(ps', p'). advance perform ps' p' cs)"
  by (simp add: advance_bytes foldM_append case_prod_eta)

section \<open>The stream of actions\<close>

lemma via_bind:
  "via perform (Option.bind (map_option (Pair ps) (Some as)) f) p = via perform (f (ps, as)) p"
  by simp

lemma foldM_byte_step_collect:
  "foldM (byte_step collect) bs (ps, acts)
     = map_option (map_prod id (append acts)) (foldM (byte_step collect) bs (ps, []))"
proof (induction bs arbitrary: ps acts)
  case Nil
  then show ?case by simp
next
  case (Cons b bs)
  have step: "advance_byte collect ps acts b
      = map_option (map_prod id (append acts)) (advance_byte collect ps [] b)"
    by (subst via_advance_byte) (auto simp: via_def split: option.split)
  show ?case
  proof (cases "advance_byte collect ps [] b")
    case None
    then show ?thesis using step by simp
  next
    case (Some r)
    obtain ps' as where r: "r = (ps', as)"
      by (cases r)
    show ?thesis
      using step Some r Cons.IH [of ps' "acts @ as"] Cons.IH [of ps' as]
      by (simp add: option.map_comp comp_def prod.map_comp map_prod_def case_prod_unfold)
  qed
qed

lemma via_advance: "advance perform ps p bs = via perform (advance collect ps [] bs) p"
proof (simp only: advance_bytes, induction bs arbitrary: ps p)
  case Nil
  then show ?case by simp
next
  case (Cons b bs)
  show ?case
  proof (cases "advance_byte collect ps [] b")
    case None
    then show ?thesis
      by (simp add: via_advance_byte [of perform])
  next
    case (Some r)
    obtain ps' as where r: "r = (ps', as)"
      by (cases r)
    show ?thesis
    proof (cases "foldM (byte_step collect) bs (ps', [])")
      case None
      with Some r show ?thesis
        using Cons.IH foldM_byte_step_collect [of bs ps' as]
        by (cases "foldM perform as p") (simp_all add: via_advance_byte [of perform])
    next
      case (Some s)
      with \<open>advance_byte collect ps [] b = Some r\<close> r show ?thesis
        using Cons.IH foldM_byte_step_collect [of bs ps' as]
        by (cases s; cases "foldM perform as p")
           (simp_all add: via_advance_byte [of perform] foldM_append)
    qed
  qed
qed

definition actions_of :: "parser \<Rightarrow> u8 list \<Rightarrow> action list" where
  "actions_of ps bs = (case advance collect ps [] bs of None \<Rightarrow> [] | Some (_, as) \<Rightarrow> as)"

definition parser_after :: "parser \<Rightarrow> u8 list \<Rightarrow> parser" where
  "parser_after ps bs = (case advance collect ps [] bs of None \<Rightarrow> ps | Some (ps', _) \<Rightarrow> ps')"

section \<open>Invariant\<close>

definition parser_wf :: "parser \<Rightarrow> bool" where
  "parser_wf ps \<longleftrightarrow> params_wf (ps_params ps) \<and> inter_wf (ps_inter ps) \<and>
     length (ps_utf8_buf ps) = 4 \<and> length (ps_osc ps) \<le> MAX_OSC_DATA \<and>
     (ps_state ps = Utf8 \<longrightarrow>
        1 \<le> ps_utf8_idx ps \<and> ps_utf8_idx ps < ps_utf8_len ps \<and> ps_utf8_len ps \<le> 4)"

text \<open>What an emitted action carries.\<close>

fun action_wf :: "action \<Rightarrow> bool" where
  "action_wf (CsiDispatch ps i ig b) = (params_wf ps \<and> inter_wf i \<and> \<not> ig)"
| "action_wf (EscDispatch i ig b) = (inter_wf i \<and> \<not> ig)"
| "action_wf (DcsHook ps i ig b) = (params_wf ps \<and> inter_wf i \<and> \<not> ig)"
| "action_wf (OscDispatch parts) = (parts \<noteq> [] \<and> length (concat parts) \<le> MAX_OSC_DATA)"
| "action_wf (ApcDispatch d) = False"
| "action_wf _ = True"

lemma parser_wf_new [simp, wf_pres]: "parser_wf parser_new"
  by (simp add: parser_wf_def parser_new_def)

definition step_ok :: "action list result \<Rightarrow> bool" where
  "step_ok r \<longleftrightarrow> returns r (\<lambda>(ps, as). parser_wf ps \<and> (\<forall>a \<in> set as. action_wf a) \<and> length as \<le> 1)"

lemma step_ok_silent: "parser_wf ps \<Longrightarrow> step_ok (Some (ps, []))"
  by (simp add: step_ok_def)

lemma step_ok_emit:
  "parser_wf ps \<Longrightarrow> action_wf a \<Longrightarrow> step_ok (map_option (Pair ps) (collect [] a))"
  by (simp add: step_ok_def collect_def)

lemma step_ok_if: "(c \<Longrightarrow> step_ok r) \<Longrightarrow> (\<not> c \<Longrightarrow> step_ok s) \<Longrightarrow> step_ok (if c then r else s)"
  by simp

lemma parser_wf_enter [simp]: "parser_wf ps \<Longrightarrow> st \<noteq> Utf8 \<Longrightarrow> parser_wf (enter_seq st ps)"
  by (simp add: parser_wf_def enter_seq_def)

lemma parser_wf_state [simp]:
  "parser_wf ps \<Longrightarrow> st \<noteq> Utf8 \<Longrightarrow> parser_wf (ps\<lparr>ps_state := st\<rparr>)"
  by (simp add: parser_wf_def)

lemma parser_wf_params [simp]: "parser_wf ps \<Longrightarrow> params_wf q \<Longrightarrow> parser_wf (ps\<lparr>ps_params := q\<rparr>)"
  by (simp add: parser_wf_def)

lemma parser_wf_inter [simp]: "parser_wf ps \<Longrightarrow> inter_wf q \<Longrightarrow> parser_wf (ps\<lparr>ps_inter := q\<rparr>)"
  by (simp add: parser_wf_def)

lemma parser_wf_osc [simp]:
  "parser_wf ps \<Longrightarrow> length d \<le> MAX_OSC_DATA \<Longrightarrow> parser_wf (ps\<lparr>ps_osc := d\<rparr>)"
  by (simp add: parser_wf_def)

lemma parser_wf_dcs [simp]: "parser_wf (ps\<lparr>ps_dcs := d\<rparr>) = parser_wf ps"
  by (simp add: parser_wf_def)

lemma parser_wf_utf8 [simp]:
  "parser_wf ps \<Longrightarrow> 2 \<le> n \<Longrightarrow> n \<le> 4 \<Longrightarrow> parser_wf (start_utf8 b n ps)"
  by (simp add: parser_wf_def start_utf8_def)

lemma parser_wf_parts:
  "parser_wf ps \<Longrightarrow> params_wf (ps_params ps)" "parser_wf ps \<Longrightarrow> inter_wf (ps_inter ps)"
  "parser_wf ps \<Longrightarrow> length (ps_osc ps) \<le> MAX_OSC_DATA"
  by (simp_all add: parser_wf_def)

lemma osc_action_wf:
  "parser_wf ps \<Longrightarrow> action_wf (OscDispatch (split_on 0x3B (ps_osc ps)))"
  using length_concat_split_on [of "0x3B" "ps_osc ps"] by (simp add: parser_wf_def)

lemma step_ok_utf8: "parser_wf ps \<Longrightarrow> ps_state ps = Utf8 \<Longrightarrow> step_ok (utf8_byte collect ps [] b)"
  by (auto simp: utf8_byte_def parser_wf_def Let_def step_ok_def collect_def
      split: option.split list.split)

lemma step_ok_dispatch:
  assumes "parser_wf ps" and "ps_state ps \<noteq> Utf8"
  shows "step_ok (dispatch_state collect ps [] b)"
  using assms parser_wf_parts [OF assms(1)] osc_action_wf [OF assms(1)]
  by (cases "ps_state ps"; simp only: dispatch_state_def pstate.case handler_defs;
      (intro step_ok_if step_ok_emit step_ok_silent)?; simp)

lemma step_ok_advance_byte: "parser_wf ps \<Longrightarrow> step_ok (advance_byte collect ps [] b)"
  using parser_wf_parts [of ps]
  by (auto simp: advance_byte_def step_ok_utf8 step_ok_dispatch
      intro!: step_ok_emit step_ok_silent)

lemma collect_bytes_ok:
  "parser_wf ps \<Longrightarrow>
   returns (foldM (byte_step collect) bs (ps, []))
     (\<lambda>(ps', as). parser_wf ps' \<and> (\<forall>a \<in> set as. action_wf a) \<and> length as \<le> length bs)"
proof (induction bs arbitrary: ps)
  case Nil
  then show ?case by simp
next
  case (Cons b bs)
  from step_ok_advance_byte [OF Cons.prems] obtain ps' as
    where step: "advance_byte collect ps [] b = Some (ps', as)"
      and "parser_wf ps'" and as: "\<forall>a \<in> set as. action_wf a" "length as \<le> 1"
    unfolding step_ok_def returns_iff by blast
  from Cons.IH [OF \<open>parser_wf ps'\<close>] obtain ps'' bs' where
    "foldM (byte_step collect) bs (ps', []) = Some (ps'', bs')"
    "parser_wf ps''" "\<forall>a \<in> set bs'. action_wf a" "length bs' \<le> length bs"
    unfolding returns_iff by blast
  then show ?case
    using step as foldM_byte_step_collect [of bs ps' as] by auto
qed

lemma collect_advance:
  assumes "parser_wf ps"
  obtains ps' as where "advance collect ps [] bs = Some (ps', as)" "parser_wf ps'"
    "\<forall>a \<in> set as. action_wf a" "length as \<le> length bs"
  using collect_bytes_ok [OF assms, of bs] unfolding returns_iff advance_bytes by blast

lemma parser_after_wf: "parser_wf ps \<Longrightarrow> parser_wf (parser_after ps bs)"
  by (rule collect_advance [of ps bs]) (auto simp: parser_after_def)

lemma actions_of_wf: "parser_wf ps \<Longrightarrow> a \<in> set (actions_of ps bs) \<Longrightarrow> action_wf a"
  by (rule collect_advance [of ps bs]) (auto simp: actions_of_def)

lemma advance_via_actions:
  "parser_wf ps \<Longrightarrow>
   advance perform ps p bs
     = map_option (Pair (parser_after ps bs)) (foldM perform (actions_of ps bs) p)"
  by (rule collect_advance [of ps bs])
     (auto simp: parser_after_def actions_of_def via_advance [of perform])

section \<open>The contract of a performer\<close>

locale performer =
  fixes perform :: "'p \<Rightarrow> action \<Rightarrow> 'p option"
    and inv :: "'p \<Rightarrow> bool"
    and ready :: "action \<Rightarrow> bool"
  assumes perform_ok: "inv p \<Longrightarrow> action_wf a \<Longrightarrow> ready a \<Longrightarrow> returns (perform p a) inv"
begin

lemma replay_ok:
  "inv p \<Longrightarrow> \<forall>a \<in> set as. action_wf a \<and> ready a \<Longrightarrow> returns (foldM perform as p) inv"
  by (rule returns_foldM) (auto intro: perform_ok)

lemma drive_ok:
  assumes "parser_wf ps" and "inv p" and "\<forall>a \<in> set (actions_of ps bs). ready a"
  shows "returns (advance perform ps p bs) (\<lambda>(ps', p'). parser_wf ps' \<and> inv p')"
proof -
  have "returns (foldM perform (actions_of ps bs) p) inv"
    using assms actions_of_wf [OF assms(1)] by (intro replay_ok) auto
  then show ?thesis
    using assms(1) by (simp add: advance_via_actions parser_after_wf)
qed

end

interpretation collector: performer collect "\<lambda>_. True" "\<lambda>_. True"
  by unfold_locales (simp add: collect_def)

section \<open>Where the bytes of an OSC string come from\<close>

text \<open>
  Where the bytes of an OSC string come from: every byte of a dispatched OSC string was fed to the
  parser, so a property of all bytes fed is a property of all bytes of the strings dispatched.
\<close>

definition osc_all :: "(u8 \<Rightarrow> bool) \<Rightarrow> action \<Rightarrow> bool" where
  "osc_all Q a \<longleftrightarrow> (case a of OscDispatch parts \<Rightarrow> list_all (list_all Q) parts | _ \<Rightarrow> True)"

definition step_bytes :: "(u8 \<Rightarrow> bool) \<Rightarrow> action list result \<Rightarrow> bool" where
  "step_bytes Q r \<longleftrightarrow>
     (case r of None \<Rightarrow> True | Some (ps, as) \<Rightarrow> list_all Q (ps_osc ps) \<and> list_all (osc_all Q) as)"

lemma step_bytes_if: "(c \<Longrightarrow> step_bytes Q r) \<Longrightarrow> (\<not> c \<Longrightarrow> step_bytes Q s) \<Longrightarrow> step_bytes Q (if c then r else s)"
  by simp

lemma step_bytes_silent: "list_all Q (ps_osc ps) \<Longrightarrow> step_bytes Q (Some (ps, []))"
  by (simp add: step_bytes_def)

lemma step_bytes_emit:
  "list_all Q (ps_osc ps) \<Longrightarrow> osc_all Q a \<Longrightarrow> step_bytes Q (map_option (Pair ps) (collect [] a))"
  by (simp add: step_bytes_def collect_def)

lemma list_all_split_on: "list_all Q xs \<Longrightarrow> list_all (list_all Q) (split_on s xs)"
  by (induction xs) (auto split: list.splits)

lemma osc_all_simps [simp]:
  "osc_all Q (Print c)" "osc_all Q (Execute b)" "osc_all Q (CsiDispatch p i g b)"
  "osc_all Q (EscDispatch i g b)" "osc_all Q (DcsHook p i g b)" "osc_all Q (DcsPut b)" "osc_all Q DcsUnhook"
  "osc_all Q (OscDispatch parts) = list_all (list_all Q) parts"
  by (simp_all add: osc_all_def)

lemma step_bytes_dispatch:
  assumes "list_all Q (ps_osc ps)" "Q b" "ps_state ps \<noteq> Utf8"
  shows "step_bytes Q (dispatch_state collect ps [] b)"
  using assms list_all_split_on [OF assms(1)]
  by (cases "ps_state ps"; simp only: dispatch_state_def pstate.case handler_defs;
      (intro step_bytes_if step_bytes_emit step_bytes_silent)?;
      simp add: enter_seq_def start_utf8_def)

lemma step_bytes_utf8: "list_all Q (ps_osc ps) \<Longrightarrow> step_bytes Q (utf8_byte collect ps [] b)"
  by (cases "upd (ps_utf8_buf ps) (ps_utf8_idx ps) b")
     (auto simp: utf8_byte_def Let_def step_bytes_def collect_def split: option.split list.split)

lemma step_bytes_advance:
  "list_all Q (ps_osc ps) \<Longrightarrow> Q b \<Longrightarrow> step_bytes Q (advance_byte collect ps [] b)"
  by (auto simp: advance_byte_def step_bytes_utf8 step_bytes_dispatch
      intro!: step_bytes_emit step_bytes_silent)

lemma osc_bytes_run:
  "parser_wf ps \<Longrightarrow> list_all Q (ps_osc ps) \<Longrightarrow> list_all Q bs \<Longrightarrow>
   step_bytes Q (foldM (byte_step collect) bs (ps, []))"
proof (induction bs arbitrary: ps)
  case Nil
  then show ?case by (simp add: step_bytes_def)
next
  case (Cons b bs)
  from step_ok_advance_byte [OF Cons.prems(1)] obtain ps' as
    where step: "advance_byte collect ps [] b = Some (ps', as)" and wf: "parser_wf ps'"
    unfolding step_ok_def returns_iff by blast
  with step_bytes_advance [OF Cons.prems(2), of b] Cons.prems(3)
  have "list_all Q (ps_osc ps')" "list_all (osc_all Q) as"
    by (simp_all add: step_bytes_def)
  then show ?case
    using Cons.IH [OF wf] Cons.prems(3) step foldM_byte_step_collect [of bs ps' as]
    by (cases "foldM (byte_step collect) bs (ps', [])") (auto simp: step_bytes_def)
qed

lemma actions_of_osc_bytes:
  "parser_wf ps \<Longrightarrow> list_all Q (ps_osc ps) \<Longrightarrow> list_all Q bs \<Longrightarrow> list_all (osc_all Q) (actions_of ps bs)"
  using osc_bytes_run [of ps Q bs]
  by (auto simp: actions_of_def advance_bytes step_bytes_def split: option.splits)

end
