(* ===== verification/VT_Properties.thy ===== *)
theory VT_Properties
  imports VT_Parser_Props
begin

text \<open>
  The properties of the VT parser: totality and buffer bounds, transparency of the fast path and of
  chunking, independence of the performer, the round trips of text and of control sequences, the
  two ways an OSC string ends, and resynchronisation.
\<close>

section \<open>Runs of bytes\<close>

lemma between_ge: "between lo hi b \<Longrightarrow> lo \<le> b" and between_le: "between lo hi b \<Longrightarrow> b \<le> hi"
  by (simp_all add: between_def)

text \<open>A byte of at least 0x20 is none of the bytes that act in every state.\<close>

lemma not_anywhere:
  assumes "0x20 \<le> b"
  shows "b \<noteq> 0x18" "b \<noteq> 0x1a" "b \<noteq> 0x1b" "\<not> is_c0 b" "\<not> b \<le> 0x1f" "b \<noteq> 0x07" "\<not> b \<le> 0x06"
    "\<not> between 0x08 0x1f b"
  using assms by (auto simp: is_c0_def between_def word_le_nat_alt)

lemma param_byte:
  assumes "0x30 \<le> b" and "b \<le> 0x3B"
  shows "0x20 \<le> b" "\<not> between 0x20 0x2f b" "between 0x30 0x3b b"
  using assms by (auto simp: between_def word_le_nat_alt)

lemma csi_param_run:
  "ps_state ps = CsiParam \<Longrightarrow> \<forall>b \<in> set bs. 0x30 \<le> b \<and> b \<le> 0x3B \<Longrightarrow>
   foldM (byte_step perform) bs (ps, p)
     = Some (ps\<lparr>ps_params := fold (\<lambda>b q. params_push q b) bs (ps_params ps)\<rparr>, p)"
proof (induction bs arbitrary: ps)
  case Nil
  then show ?case by simp
next
  case (Cons b bs)
  then have "advance_byte perform ps p b = Some (ps\<lparr>ps_params := params_push (ps_params ps) b\<rparr>, p)"
    using param_byte [of b] not_anywhere [of b]
    by (simp add: advance_byte_def dispatch_state_def csi_param_def)
  with Cons show ?case by simp
qed

lemma csi_entry_run:
  assumes "ps_state ps = CsiEntry" and "bs \<noteq> []" and "\<forall>b \<in> set bs. 0x30 \<le> b \<and> b \<le> 0x3B"
  shows "foldM (byte_step perform) bs (ps, p)
     = Some (ps\<lparr>ps_params := fold (\<lambda>b q. params_push q b) bs (ps_params ps), ps_state := CsiParam\<rparr>, p)"
proof -
  obtain b cs where bs: "bs = b # cs"
    using assms(2) by (cases bs) auto
  then have "advance_byte perform ps p b
      = Some (ps\<lparr>ps_params := params_push (ps_params ps) b, ps_state := CsiParam\<rparr>, p)"
    using assms param_byte [of b] not_anywhere [of b]
    by (simp add: advance_byte_def dispatch_state_def csi_entry_def)
  with assms bs show ?thesis
    by (simp add: csi_param_run)
qed

lemma esc_step:
  "ps_state ps \<noteq> Utf8 \<Longrightarrow>
   advance_byte perform ps p 0x1b
     = Some (ps\<lparr>ps_state := Escape, ps_inter := inter_clear (ps_inter ps)\<rparr>, p)"
  by (simp add: advance_byte_def)

lemma esc_bracket:
  "ps_state ps = Escape \<Longrightarrow> advance_byte perform ps p 0x5b = Some (enter_seq CsiEntry ps, p)"
  by (simp add: advance_byte_def dispatch_state_def escape_def is_c0_def between_def)

lemma final_byte:
  assumes "between 0x40 0x7e f"
  shows "0x20 \<le> f" "\<not> between 0x20 0x2f f" "\<not> between 0x30 0x3b f" "\<not> between 0x3c 0x3f f"
    "\<not> between 0x30 0x3f f"
  using assms by (auto simp: between_def word_le_nat_alt)

lemma csi_final:
  assumes "ps_state ps = CsiParam \<or> ps_state ps = CsiEntry" and "between 0x40 0x7e f"
  shows "advance_byte perform ps p f
    = map_option (Pair (ps\<lparr>ps_state := Ground\<rparr>))
        (perform p (CsiDispatch (ps_params ps) (ps_inter ps) False f))"
  using assms(1) not_anywhere [OF final_byte(1) [OF assms(2)]] final_byte [OF assms(2)] assms(2)
  by (auto simp: advance_byte_def dispatch_state_def csi_param_def csi_entry_def csi_dispatch_def)

section \<open>UTF-8 text\<close>

definition text_char :: "rchar \<Rightarrow> bool" where
  "text_char c \<longleftrightarrow> is_scalar c \<and> (128 \<le> c \<or> (32 \<le> c \<and> c \<le> 126))"

text \<open>
  The lead byte moves a parser in ground state to \<open>Utf8\<close>; the bytes that follow fill the buffer.
\<close>

lemma utf8_fill:
  assumes "ps_state ps = Utf8" and "length (ps_utf8_buf ps) = 4" and "ps_utf8_len ps \<le> 4"
    and "ps_utf8_idx ps + length bs = ps_utf8_len ps" and "bs \<noteq> []"
    and "take (ps_utf8_idx ps) (ps_utf8_buf ps) @ bs = utf8_encode c" and "is_scalar c"
  shows "\<exists>buf. length buf = 4 \<and> (\<forall>p. foldM (byte_step perform) bs (ps, p)
    = map_option (Pair (ps\<lparr>ps_utf8_buf := buf, ps_utf8_idx := ps_utf8_len ps, ps_state := Ground\<rparr>))
        (perform p (Print c)))"
  using assms
proof (induction bs arbitrary: ps)
  case Nil
  then show ?case by simp
next
  case (Cons b bs)
  define buf where "buf = (ps_utf8_buf ps)[ps_utf8_idx ps := b]"
  have idx: "ps_utf8_idx ps < 4"
    using Cons.prems by simp
  then have u: "upd (ps_utf8_buf ps) (ps_utf8_idx ps) b = Some buf"
    using Cons.prems by (simp add: buf_def)
  have tk: "take (Suc (ps_utf8_idx ps)) buf = take (ps_utf8_idx ps) (ps_utf8_buf ps) @ [b]"
    using idx Cons.prems(2) by (simp add: buf_def take_Suc_conv_app_nth)
  show ?case
  proof (cases "bs = []")
    case True
    then have "take (ps_utf8_len ps) buf = utf8_encode c"
      using Cons.prems tk by simp
    moreover have "utf8_valid (utf8_encode c)" "utf8_first (utf8_encode c) = c"
      using utf8_valid_encode_append [of c "[]"] utf8_first_encode [of c "[]"] Cons.prems(7) by simp_all
    moreover obtain x xs where "utf8_encode c = x # xs"
      by (cases "utf8_encode c") auto
    ultimately have "advance_byte perform ps p b
      = map_option (Pair (ps\<lparr>ps_utf8_buf := buf, ps_utf8_idx := ps_utf8_len ps, ps_state := Ground\<rparr>))
        (perform p (Print c))" for p
      using Cons.prems True u by (simp add: advance_byte_def utf8_byte_def from_utf8_def)
    then show ?thesis
      using True Cons.prems(2) by (auto simp: buf_def intro!: exI [of _ buf])
  next
    case False
    let ?ps = "ps\<lparr>ps_utf8_buf := buf, ps_utf8_idx := ps_utf8_idx ps + 1\<rparr>"
    have "Suc (ps_utf8_idx ps) \<noteq> ps_utf8_len ps"
      using Cons.prems(4) False by (cases bs) auto
    then have "advance_byte perform ps p b = Some (?ps, p)" for p
      using Cons.prems False u by (auto simp: advance_byte_def utf8_byte_def Let_def)
    moreover have "\<exists>buf'. length buf' = 4 \<and> (\<forall>p. foldM (byte_step perform) bs (?ps, p)
      = map_option (Pair (?ps\<lparr>ps_utf8_buf := buf', ps_utf8_idx := ps_utf8_len ?ps, ps_state := Ground\<rparr>))
          (perform p (Print c)))"
      using Cons.prems False tk by (intro Cons.IH) (auto simp: buf_def)
    ultimately show ?thesis by auto
  qed
qed

lemma length_utf8_encode:
  "length (utf8_encode c) = (if c < 128 then 1 else if c < 2048 then 2 else if c < 65536 then 3 else 4)"
  by (simp add: utf8_encode_def)

lemma lead_step:
  assumes "is_scalar c" and "128 \<le> c" and "ps_state ps = Ground"
  shows "advance_byte perform ps p (hd (utf8_encode c))
    = Some (start_utf8 (hd (utf8_encode c)) (length (utf8_encode c)) ps, p)"
proof -
  let ?b = "hd (utf8_encode c)"
  have "c div 64 < 32" if "c < 2048" using that by simp
  moreover have "c div 4096 < 16" if "c < 65536" using that by simp
  moreover have "c div 262144 < 5" using assms(1) by (simp add: is_scalar_def) linarith
  ultimately have b: "unat ?b =
      (if c < 2048 then 192 + c div 64 else if c < 65536 then 224 + c div 4096 else 240 + c div 262144)"
    and "c div 64 < 32 \<or> 2048 \<le> c" "c div 4096 < 16 \<or> 65536 \<le> c"
    using assms by (auto simp: utf8_encode_def not_less)
  moreover have "192 \<le> unat ?b"
    using b by simp
  ultimately show ?thesis
    using assms \<open>c div 262144 < 5\<close>
    by (simp add: advance_byte_def dispatch_state_def ground_def printable_def between_def
        word_le_nat_alt word_unat_eq_iff) (auto simp: length_utf8_encode)
qed

lemma print_char:
  assumes "text_char c" and "parser_wf ps" and "ps_state ps = Ground"
  shows "\<exists>ps'. parser_wf ps' \<and> ps_state ps' = Ground \<and>
    (\<forall>p. foldM (byte_step perform) (utf8_encode c) (ps, p) = map_option (Pair ps') (perform p (Print c)))"
proof (cases "c < 128")
  case True
  then have "printable (byte c)" "unat (byte c) = c"
    using assms(1) by (auto simp: text_char_def printable_def word_le_nat_alt)
  with assms True show ?thesis
    by (intro exI [of _ ps]) (simp add: utf8_encode_def printable_step)
next
  case False
  have c: "is_scalar c" "128 \<le> c"
    using False assms(1) by (auto simp: text_char_def)
  obtain x xs where enc: "utf8_encode c = x # xs"
    by (cases "utf8_encode c") auto
  have n: "1 \<le> length xs" "length xs \<le> 3"
    using length_utf8_encode [of c] c enc by (auto split: if_splits)
  define qs where "qs = start_utf8 x (Suc (length xs)) ps"
  have step: "advance_byte perform ps p x = Some (qs, p)" for p
    using lead_step [OF c assms(3), of perform p] enc by (simp add: qs_def)
  have "\<exists>buf. length buf = 4 \<and> (\<forall>p. foldM (byte_step perform) xs (qs, p)
    = map_option (Pair (qs\<lparr>ps_utf8_buf := buf, ps_utf8_idx := ps_utf8_len qs, ps_state := Ground\<rparr>))
        (perform p (Print c)))"
  proof (rule utf8_fill)
    show "take (ps_utf8_idx qs) (ps_utf8_buf qs) @ xs = utf8_encode c"
      using assms(2) enc by (cases "ps_utf8_buf ps") (auto simp: qs_def start_utf8_def parser_wf_def)
  qed (use assms n c in \<open>auto simp: qs_def start_utf8_def parser_wf_def\<close>)
  then obtain buf where "length buf = 4"
    and "\<forall>p. foldM (byte_step perform) xs (qs, p)
      = map_option (Pair (qs\<lparr>ps_utf8_buf := buf, ps_utf8_idx := ps_utf8_len qs, ps_state := Ground\<rparr>))
          (perform p (Print c))"
    by blast
  with step enc assms show ?thesis
    by (intro exI [of _ "qs\<lparr>ps_utf8_buf := buf, ps_utf8_idx := ps_utf8_len qs, ps_state := Ground\<rparr>"])
       (auto simp: parser_wf_def qs_def start_utf8_def)
qed

lemma print_text:
  assumes "list_all text_char cs" and "parser_wf ps" and "ps_state ps = Ground"
  shows "\<exists>ps'. parser_wf ps' \<and> ps_state ps' = Ground \<and>
    (\<forall>p. foldM (byte_step perform) (concat (map utf8_encode cs)) (ps, p)
      = map_option (Pair ps') (foldM (\<lambda>q c. perform q (Print c)) cs p))"
  using assms
proof (induction cs arbitrary: ps)
  case Nil
  then show ?case by auto
next
  case (Cons c cs)
  then obtain qs where qs: "parser_wf qs" "ps_state qs = Ground"
    and c: "foldM (byte_step perform) (utf8_encode c) (ps, p) = map_option (Pair qs) (perform p (Print c))"
    for p using print_char [of c ps perform] by auto
  from Cons.IH [OF _ qs] Cons.prems(1) obtain ps' where "parser_wf ps'" "ps_state ps' = Ground"
    and "foldM (byte_step perform) (concat (map utf8_encode cs)) (qs, p)
      = map_option (Pair ps') (foldM (\<lambda>q c. perform q (Print c)) cs p)" for p
    by auto
  with c show ?case
    by (intro exI [of _ ps']) (auto simp: foldM_append map_option_case split: option.split)
qed

section \<open>Strings and their terminators\<close>

definition osc_byte :: "u8 \<Rightarrow> bool" where
  "osc_byte b \<longleftrightarrow> 0x20 \<le> b \<and> b \<noteq> 0x9c"

lemma osc_collect:
  "ps_state ps = OscString \<Longrightarrow> list_all osc_byte bs \<Longrightarrow> length (ps_osc ps) + length bs \<le> MAX_OSC_DATA \<Longrightarrow>
   foldM (byte_step perform) bs (ps, p) = Some (ps\<lparr>ps_osc := ps_osc ps @ bs\<rparr>, p)"
proof (induction bs arbitrary: ps)
  case Nil
  then show ?case by simp
next
  case (Cons b bs)
  then have "advance_byte perform ps p b = Some (ps\<lparr>ps_osc := ps_osc ps @ [b]\<rparr>, p)"
    using not_anywhere [of b]
    by (simp add: advance_byte_def dispatch_state_def osc_string_def osc_byte_def)
  with Cons show ?case by simp
qed

lemma esc_osc:
  "ps_state ps = Escape \<Longrightarrow>
   advance_byte perform ps p 0x5d = Some (ps\<lparr>ps_state := OscString, ps_osc := []\<rparr>, p)"
  by (simp add: advance_byte_def dispatch_state_def escape_def is_c0_def between_def)

lemma osc_body:
  assumes "ps_state ps \<noteq> Utf8" and "list_all osc_byte bs" and "length bs \<le> MAX_OSC_DATA"
  shows "foldM (byte_step perform) ([0x1b, 0x5d] @ bs) (ps, p)
    = Some (ps\<lparr>ps_inter := inter_clear (ps_inter ps), ps_state := OscString, ps_osc := bs\<rparr>, p)"
  using assms by (simp add: esc_step esc_osc osc_collect)

lemma can_step:
  "ps_state ps \<noteq> Utf8 \<Longrightarrow>
   advance_byte perform ps p 0x18 = map_option (Pair (ps\<lparr>ps_state := Ground\<rparr>)) (perform p (Execute 0x18))"
  by (simp add: advance_byte_def)

lemma csi_sequence:
  assumes "parser_wf ps" and "ps_state ps \<noteq> Utf8"
    and "ns \<noteq> []" and "list_all (\<lambda>n. n < 65536) ns" and "length ns \<le> MAX_PARAMS"
    and "between 0x40 0x7e f"
  shows "\<exists>ps' q i. advance perform ps p ([0x1b, 0x5b] @ show_params ns @ [f])
      = map_option (Pair ps') (perform p (CsiDispatch q i False f)) \<and> ps_state ps' = Ground \<and>
    params_finished q = map of_nat ns \<and>
    params_subparam_flags q = replicate (length ns) False \<and> inter_slice i = []"
proof -
  define es where "es = enter_seq CsiEntry
    (ps\<lparr>ps_state := Escape, ps_inter := inter_clear (ps_inter ps)\<rparr>)"
  define q where "q = fold (\<lambda>b q. params_push q b) (show_params ns) (params_clear (ps_params ps))"
  define qs where "qs = es\<lparr>ps_params := q, ps_state := CsiParam\<rparr>"
  have bytes: "\<forall>b \<in> set (show_params ns). 0x30 \<le> b \<and> b \<le> 0x3B"
    using show_params_bytes by blast
  have ne: "show_params ns \<noteq> []"
    using assms(3) by (cases ns rule: show_params.cases) auto
  have es: "ps_state es = CsiEntry" "ps_params es = params_clear (ps_params ps)"
    "inter_slice (ps_inter es) = []"
    by (simp_all add: es_def enter_seq_def)
  have "foldM (byte_step perform) ([0x1b, 0x5b] @ show_params ns) (ps, p) = Some (qs, p)"
    using assms(2) csi_entry_run [OF es(1) ne bytes]
    by (simp add: esc_step esc_bracket es_def [symmetric] es(2) q_def qs_def)
  then have "advance perform ps p (([0x1b, 0x5b] @ show_params ns) @ [f])
      = map_option (Pair (qs\<lparr>ps_state := Ground\<rparr>)) (perform p (CsiDispatch q (ps_inter es) False f))"
    using csi_final [of qs f perform p] assms(6)
    by (simp only: advance_bytes foldM_append) (simp add: qs_def)
  moreover have "params_finished q = map of_nat ns \<and> params_subparam_flags q = replicate (length ns) False"
    using push_params [OF assms(3) _ holds_values_clear, of "ps_params ps"] assms
    by (simp add: list_all_iff q_def parser_wf_def)
  ultimately show ?thesis
    using es(3) by (intro exI [of _ "qs\<lparr>ps_state := Ground\<rparr>"] exI [of _ q] exI [of _ "ps_inter es"]) simp
qed

section \<open>Properties\<close>

text \<open>
  C7: fed any bytes from its initial state, the parser does not panic, keeps its buffers within
  their arrays, and emits at most one well-formed action per byte.
\<close>
theorem parser_total:
  "\<exists>ps as. advance collect parser_new [] bs = Some (ps, as) \<and> parser_wf ps \<and>
     list_all action_wf as \<and> length as \<le> length bs"
  by (rule collect_advance [OF parser_wf_new, of bs]) (auto simp: list_all_iff)

text \<open>
  C6: the printable-ASCII fast path and the way the input is cut into reads are invisible:
  \<open>advance\<close> is the byte-by-byte loop, for every performer, and feeding a concatenation is feeding
  the parts in turn.
\<close>
theorem advance_streaming:
  "advance perform ps p bs = foldM (byte_step perform) bs (ps, p) \<and>
   advance perform ps p (bs @ cs)
     = Option.bind (advance perform ps p bs) (\<lambda>(ps', p'). advance perform ps' p' cs)"
  by (simp add: advance_append) (simp add: advance_bytes)

text \<open>
  The parser does not depend on what performs its actions: the run with any performer is the
  recorded stream of actions replayed into it, panics included.
\<close>
theorem advance_replays:
  assumes "parser_wf ps"
  shows "advance perform ps p bs
     = map_option (Pair (parser_after ps bs)) (foldM perform (actions_of ps bs) p)"
  using assms by (rule advance_via_actions)

theorem advance_replays_witness:
  "advance (\<lambda>n a. if a = DcsUnhook then None else Some (Suc n)) parser_new 0 [0x41, 0x0a]
     = map_option (Pair (parser_after parser_new [0x41, 0x0a]))
         (foldM (\<lambda>n a. if a = DcsUnhook then None else Some (Suc n)) (actions_of parser_new [0x41, 0x0a]) 0)"
  by (rule advance_replays) simp

text \<open>
  C8: a control sequence round trip: from any state but the middle of a UTF-8 character,
  \<open>ESC [ n1 ; ... ; nk f\<close> performs exactly one action, the dispatch of \<open>f\<close> with those parameters,
  no sub-parameter flags and no intermediates, and ends in the ground state.
\<close>
theorem csi_roundtrip:
  assumes "parser_wf ps" and "ps_state ps \<noteq> Utf8"
    and "ns \<noteq> []" and "list_all (\<lambda>n. n < 65536) ns" and "length ns \<le> MAX_PARAMS"
    and "between 0x40 0x7e f"
  shows "\<exists>ps' q i. advance perform ps p ([0x1b, 0x5b] @ show_params ns @ [f])
      = map_option (Pair ps') (perform p (CsiDispatch q i False f)) \<and> ps_state ps' = Ground \<and>
    params_finished q = map of_nat ns \<and>
    params_subparam_flags q = replicate (length ns) False \<and> inter_slice i = []"
  using assms by (rule csi_sequence)

theorem csi_roundtrip_witness:
  "\<exists>ps' q i. advance collect parser_new [] ([0x1b, 0x5b] @ show_params [5, 10] @ [0x48])
      = map_option (Pair ps') (collect [] (CsiDispatch q i False 0x48)) \<and> ps_state ps' = Ground \<and>
    params_finished q = map of_nat [5, 10] \<and>
    params_subparam_flags q = replicate (length [5, 10 :: nat]) False \<and> inter_slice i = []"
  by (rule csi_roundtrip) (simp_all add: parser_new_def parser_wf_new [unfolded parser_new_def] between_def)

text \<open>
  Text round trip: the UTF-8 encoding of printable characters, fed in the ground state, prints
  exactly those characters in order and leaves the parser in the ground state.
\<close>
theorem text_roundtrip:
  assumes "parser_wf ps" and "ps_state ps = Ground" and "list_all text_char cs"
  shows "actions_of ps (concat (map utf8_encode cs)) = map Print cs \<and>
    ps_state (parser_after ps (concat (map utf8_encode cs))) = Ground"
proof -
  have "foldM (\<lambda>q c. collect q (Print c)) cs acts = Some (acts @ map Print cs)" for acts
    by (induction cs arbitrary: acts) (auto simp: collect_def)
  with print_text [OF assms(3,1,2), of collect] show ?thesis
    by (auto simp: actions_of_def parser_after_def advance_bytes)
qed

theorem text_roundtrip_witness:
  "actions_of parser_new (concat (map utf8_encode [0x41, 0x4E2D, 0x1F600])) = map Print [0x41, 0x4E2D, 0x1F600] \<and>
   ps_state (parser_after parser_new (concat (map utf8_encode [0x41, 0x4E2D, 0x1F600]))) = Ground"
  by (rule text_roundtrip) (simp_all add: parser_new_def parser_wf_new [unfolded parser_new_def]
      text_char_def is_scalar_def)

text \<open>
  How an OSC string ends decides whether it is seen: ended by BEL it is dispatched, split at
  its semicolons; ended by the two-byte string terminator \<open>ESC \\<close> it is dropped, and only the
  (unhandled) escape dispatch of the backslash is performed.
\<close>
theorem osc_terminators:
  assumes "parser_wf ps" and "ps_state ps \<noteq> Utf8"
    and "list_all osc_byte bs" and "length bs \<le> MAX_OSC_DATA"
  shows "actions_of ps ([0x1b, 0x5d] @ bs @ [0x07]) = [OscDispatch (split_on 0x3B bs)] \<and>
    (\<exists>i. actions_of ps ([0x1b, 0x5d] @ bs @ [0x1b, 0x5c]) = [EscDispatch i False 0x5c] \<and>
         inter_slice i = [])"
proof -
  define qs where "qs = ps\<lparr>ps_inter := inter_clear (ps_inter ps), ps_state := OscString, ps_osc := bs\<rparr>"
  have body: "foldM (byte_step collect) ([0x1b, 0x5d] @ bs) (ps, []) = Some (qs, [])"
    using osc_body [OF assms(2-4)] by (simp add: qs_def)
  have bel: "advance_byte collect qs [] 0x07
      = Some (qs\<lparr>ps_state := Ground\<rparr>, [OscDispatch (split_on 0x3B bs)])"
    by (simp add: qs_def advance_byte_def dispatch_state_def osc_string_def collect_def)
  define es where "es = qs\<lparr>ps_state := Escape, ps_inter := inter_clear (ps_inter qs)\<rparr>"
  have st: "advance_byte collect qs [] 0x1b = Some (es, [])"
    "advance_byte collect es [] 0x5c
      = Some (es\<lparr>ps_state := Ground\<rparr>, [EscDispatch (ps_inter es) False 0x5c])"
    by (simp_all add: es_def qs_def esc_step advance_byte_def dispatch_state_def escape_def is_c0_def
        between_def collect_def)
  have "foldM (byte_step collect) (([0x1b, 0x5d] @ bs) @ [0x07]) (ps, [])
      = Some (qs\<lparr>ps_state := Ground\<rparr>, [OscDispatch (split_on 0x3B bs)])"
    by (subst foldM_append, subst body) (simp add: bel)
  moreover have "foldM (byte_step collect) (([0x1b, 0x5d] @ bs) @ [0x1b, 0x5c]) (ps, [])
      = Some (es\<lparr>ps_state := Ground\<rparr>, [EscDispatch (ps_inter es) False 0x5c])"
    by (subst foldM_append, subst body) (simp add: st)
  ultimately show ?thesis
    by (simp add: actions_of_def advance_bytes es_def)
qed

theorem osc_terminators_witness:
  "actions_of parser_new ([0x1b, 0x5d] @ [0x32, 0x3b, 0x54] @ [0x07])
     = [OscDispatch (split_on 0x3B [0x32, 0x3b, 0x54])] \<and>
   (\<exists>i. actions_of parser_new ([0x1b, 0x5d] @ [0x32, 0x3b, 0x54] @ [0x1b, 0x5c])
        = [EscDispatch i False 0x5c] \<and> inter_slice i = [])"
  by (rule osc_terminators) (simp_all add: parser_new_def parser_wf_new [unfolded parser_new_def]
      osc_byte_def)

lemma can_ground: "ps_state ps = Ground \<Longrightarrow> foldM (byte_step collect) (replicate n 0x18) (ps, as)
    = Some (ps, as @ replicate n (Execute 0x18))"
proof (induction n arbitrary: as)
  case (Suc n)
  then have "advance_byte collect ps as 0x18 = Some (ps, as @ [Execute 0x18])"
    by (cases ps) (simp add: can_step collect_def)
  with Suc show ?case by simp
qed simp

lemma can_from:
  assumes "ps_state ps \<noteq> Utf8"
  shows "\<exists>qs as. foldM (byte_step collect) (replicate (Suc n) 0x18) (ps, []) = Some (qs, as) \<and>
    ps_state qs = Ground"
  using assms by (auto simp: can_step collect_def can_ground)

lemma can_utf8:
  assumes "parser_wf ps" and "ps_state ps = Utf8" and "ps_utf8_len ps - ps_utf8_idx ps \<le> n"
  shows "\<exists>qs as. foldM (byte_step collect) (replicate n 0x18) (ps, []) = Some (qs, as) \<and> ps_state qs = Ground"
  using assms
proof (induction n arbitrary: ps)
  case 0
  then show ?case by (simp add: parser_wf_def)
next
  case (Suc n)
  have "step_ok (advance_byte collect ps [] 0x18)"
    using Suc.prems(1) by (rule step_ok_advance_byte)
  then obtain qs as where step: "advance_byte collect ps [] 0x18 = Some (qs, as)" and "parser_wf qs"
    unfolding step_ok_def returns_iff by blast
  from step have "ps_state qs = Ground \<or>
      (ps_state qs = Utf8 \<and> ps_utf8_idx qs = Suc (ps_utf8_idx ps) \<and> ps_utf8_len qs = ps_utf8_len ps)"
    using Suc.prems(2) by (auto simp: advance_byte_def utf8_byte_def Let_def upd_def
        split: if_splits option.splits list.splits)
  then have "\<exists>qs' as'. foldM (byte_step collect) (replicate n 0x18) (qs, []) = Some (qs', as') \<and>
      ps_state qs' = Ground"
  proof
    assume "ps_state qs = Ground"
    then show ?thesis by (simp add: can_ground)
  next
    assume "ps_state qs = Utf8 \<and> ps_utf8_idx qs = Suc (ps_utf8_idx ps) \<and> ps_utf8_len qs = ps_utf8_len ps"
    then show ?thesis
      using Suc.prems(3) \<open>parser_wf qs\<close> by (intro Suc.IH) auto
  qed
  with step show ?case
    using foldM_byte_step_collect [of _ qs as] by auto
qed

text \<open>
  Resynchronisation: whatever state a well-formed parser is in, four cancel bytes bring it
  back to the ground state (three may be eaten as the rest of a UTF-8 character).
\<close>
theorem cancel_resynchronises:
  assumes "parser_wf ps"
  shows "ps_state (parser_after ps (replicate 4 0x18)) = Ground"
proof -
  have "\<exists>qs as. foldM (byte_step collect) (replicate 4 0x18) (ps, []) = Some (qs, as) \<and> ps_state qs = Ground"
  proof (cases "ps_state ps = Utf8")
    case True
    with assms show ?thesis
      by (intro can_utf8) (auto simp: parser_wf_def)
  next
    case False
    then show ?thesis
      using can_from [of ps 3] by (simp add: eval_nat_numeral)
  qed
  then show ?thesis
    by (auto simp: parser_after_def advance_bytes)
qed

theorem cancel_resynchronises_witness:
  "ps_state (parser_after (parser_new\<lparr>ps_state := OscString\<rparr>) (replicate 4 0x18)) = Ground"
  by (rule cancel_resynchronises) simp

text \<open>
  A run of decimal digits of any length is read as its value clamped to 65535: neither the
  32-bit accumulator nor the 16-bit parameter wraps.
\<close>
theorem params_saturate:
  assumes "params_wf p" and "ds \<noteq> []" and "list_all is_digit ds" and "digits_val 10 0 ds = Some v"
  shows "unat (params_get (fold (\<lambda>b q. params_push q b) ds (params_clear p)) 0 d) = min v 65535"
proof -
  have acc: "fold (\<lambda>b a. acc_dec a b) ds (min a (2 ^ 32 - 1)) = min v (2 ^ 32 - 1)"
    if "digits_val 10 a ds = Some v" "list_all is_digit ds" for a v
    using that
  proof (induction ds arbitrary: a)
    case (Cons b ds)
    then have "digit_val 10 b = Some (unat b - 48)"
      by (auto simp: digit_val_def is_digit_unat Let_def)
    moreover have "acc_dec (min a (2 ^ 32 - 1)) b = min (a * 10 + (unat b - 48)) (2 ^ 32 - 1)"
      by (auto simp: acc_dec_def)
    ultimately show ?case
      using Cons by simp
  qed simp
  have "fold (\<lambda>b a. acc_dec a b) ds 0 = min v (2 ^ 32 - 1)"
    using acc [of 0 v] assms by simp
  then show ?thesis
    using assms by (simp add: fold_push_digits list_all_iff params_get_def params_finished_len_def
        params_clear_def unat_clamp16 unat_of_nat_less)
qed

theorem params_saturate_witness:
  "unat (params_get (fold (\<lambda>b q. params_push q b) [0x39, 0x39, 0x39, 0x39, 0x39, 0x39] (params_clear params_new)) 0 1)
     = min 999999 65535"
  by (rule params_saturate) (simp_all add: is_digit_def digit_val_def)

section \<open>Corners the parameter and device-control code leaves\<close>

text \<open>
  After a semicolon, a colon keeps the trailing-separator mark: the accumulator then reports one
  parameter more, with a flag saying it is not colon-separated although a colon precedes it.
\<close>
lemma stale_trailing_separator:
  assumes "params_wf p" "\<not> p_has_current p" "p_trailing_sep p" "p_len p < 31"
  shows "params_finished (params_push p 0x3A) = take (p_len p) (p_values p) @ [0, 0]"
    and "params_subparam_flags (params_push p 0x3A)
           = take (p_len p) (p_subparam_flags p) @ [p_pending_colon p, False]"
  using assms
  by (simp_all add: params_push_colon params_store_def pending_value_def params_wf_def
      params_finished_def params_subparam_flags_def take_Suc_conv_app_nth)

text \<open>
  A device control string without parameters is passed through without a hook: its data bytes and
  its unhook reach the performer, its final byte and its beginning do not.
\<close>
lemma dcs_without_hook:
  "actions_of parser_new [0x1b, 0x50, 0x71, 0x41, 0x9c] = [DcsPut 0x41, DcsUnhook]"
  by (simp add: actions_of_def advance_bytes advance_byte_def dispatch_state_def escape_def
      dcs_entry_def dcs_passthrough_def parser_new_def enter_seq_def is_c0_def between_def collect_def)

end
