(* ===== verification/Emux_Loops.thy ===== *)
theory Emux_Loops
  imports Emux_Prelude
begin

text \<open>
  The array loops of the terminal code. Each is the source's \<open>for\<close> loop over indices, written with
  \<open>foldM\<close> and panicking accesses, and a closed form for it: moving a block of elements up or down
  in place, filling a range, rotating a slice, and the bounded queue of the scrollback.
\<close>

section \<open>Total correctness of sequential composition\<close>

lemma returns_bindI:
  "returns m P \<Longrightarrow> (\<And>x. P x \<Longrightarrow> returns (f x) Q) \<Longrightarrow> returns (Option.bind m f) Q"
  by (cases m) simp_all

lemma returns_SomeI: "P x \<Longrightarrow> returns (Some x) P"
  by simp

lemma returns_mapI: "returns m (\<lambda>x. P (f x)) \<Longrightarrow> returns (map_option f m) P"
  by simp

lemma returns_weaken: "returns m P \<Longrightarrow> (\<And>x. P x \<Longrightarrow> Q x) \<Longrightarrow> returns m Q"
  by (cases m) simp_all

lemma returns_eq: "m = Some x \<Longrightarrow> P x \<Longrightarrow> returns m P"
  by simp

lemma returns_not_None: "returns m P \<Longrightarrow> m \<noteq> None"
  by (cases m) simp_all

section \<open>Arithmetic that panics\<close>

text \<open>\<open>a - b\<close> on \<open>usize\<close>.\<close>

definition usub :: "nat \<Rightarrow> nat \<Rightarrow> nat option" where
  "usub a b = (if b \<le> a then Some (a - b) else None)"

lemma usub_le [simp]: "b \<le> a \<Longrightarrow> usub a b = Some (a - b)"
  by (simp add: usub_def)

section \<open>Moving and filling blocks\<close>

text \<open>\<open>for i in a..b { v[i] = v[i + k].clone() }\<close>\<close>

definition copy_up :: "nat \<Rightarrow> 'a list \<Rightarrow> nat \<Rightarrow> 'a list option" where
  "copy_up k xs i = do { x \<leftarrow> idx xs (i + k); upd xs i x }"

text \<open>\<open>for i in (a..b).rev() { v[i + k] = v[i].clone() }\<close>\<close>

definition copy_down :: "nat \<Rightarrow> 'a list \<Rightarrow> nat \<Rightarrow> 'a list option" where
  "copy_down k xs i = do { x \<leftarrow> idx xs i; upd xs (i + k) x }"

text \<open>\<open>for i in (a + k..b).rev() { v[i] = v[i - k].clone() }\<close>\<close>

definition copy_from :: "nat \<Rightarrow> 'a list \<Rightarrow> nat \<Rightarrow> 'a list option" where
  "copy_from k xs i = do { j \<leftarrow> usub i k; x \<leftarrow> idx xs j; upd xs i x }"

lemma copy_up_loop:
  "a \<le> b \<Longrightarrow> b + k \<le> length xs \<Longrightarrow>
   foldM (copy_up k) [a..<b] xs = Some (take a xs @ take (b - a) (drop (a + k) xs) @ drop b xs)"
proof (induction "b - a" arbitrary: a xs)
  case 0
  then show ?case by simp
next
  case (Suc n)
  then have ab: "a < b" by linarith
  let ?ys = "xs[a := xs ! (a + k)]"
  have "foldM (copy_up k) [a..<b] xs = foldM (copy_up k) [Suc a..<b] ?ys"
    using ab Suc.prems by (simp add: upt_conv_Cons copy_up_def)
  also have "\<dots> = Some (take (Suc a) ?ys @ take (b - Suc a) (drop (Suc a + k) ?ys) @ drop b ?ys)"
    using Suc.hyps(1) [of "Suc a" ?ys] Suc.hyps(2) Suc.prems ab by simp
  also have "take (Suc a) ?ys = take a xs @ [xs ! (a + k)]"
    using ab Suc.prems by (simp add: take_Suc_conv_app_nth)
  also have "drop (Suc a + k) ?ys = drop (Suc a + k) xs"
    by simp
  also have "drop b ?ys = drop b xs"
    using ab by simp
  also have "(take a xs @ [xs ! (a + k)]) @ take (b - Suc a) (drop (Suc a + k) xs) @ drop b xs
      = take a xs @ take (b - a) (drop (a + k) xs) @ drop b xs"
  proof -
    have "drop (a + k) xs = xs ! (a + k) # drop (Suc a + k) xs"
      using ab Suc.prems Cons_nth_drop_Suc [of "a + k" xs] by simp
    moreover have "b - a = Suc (b - Suc a)"
      using ab by linarith
    ultimately show ?thesis by simp
  qed
  finally show ?case .
qed

lemma copy_down_loop:
  "a \<le> b \<Longrightarrow> b + k \<le> length xs \<Longrightarrow>
   foldM (copy_down k) (rev [a..<b]) xs
     = Some (take (a + k) xs @ take (b - a) (drop a xs) @ drop (b + k) xs)"
proof (induction b arbitrary: xs)
  case 0
  then show ?case by simp
next
  case (Suc b)
  show ?case
  proof (cases "a \<le> b")
    case True
    let ?ys = "xs[b + k := xs ! b]"
    have "foldM (copy_down k) (rev [a..<Suc b]) xs = foldM (copy_down k) (rev [a..<b]) ?ys"
      using True Suc.prems by (simp add: copy_down_def)
    also have "\<dots> = Some (take (a + k) ?ys @ take (b - a) (drop a ?ys) @ drop (b + k) ?ys)"
      using Suc.IH [of ?ys] True Suc.prems by simp
    also have "take (a + k) ?ys = take (a + k) xs"
      using True by simp
    also have "take (b - a) (drop a ?ys) = take (b - a) (drop a xs)"
      using True by (simp add: drop_update_swap)
    also have "drop (b + k) ?ys = xs ! b # drop (Suc b + k) xs"
      using Suc.prems by (subst Cons_nth_drop_Suc [symmetric]) simp_all
    also have "take (b - a) (drop a xs) @ xs ! b # drop (Suc b + k) xs
        = take (Suc b - a) (drop a xs) @ drop (Suc b + k) xs"
      using True Suc.prems by (simp add: Suc_diff_le take_Suc_conv_app_nth)
    finally show ?thesis .
  next
    case False
    with Suc.prems have "a = Suc b" by simp
    then show ?thesis by simp
  qed
qed

lemma foldM_map: "foldM f (map h xs) s = foldM (\<lambda>s x. f s (h x)) xs s"
  by (induction xs arbitrary: s) (auto intro!: bind_option_cong)

lemma copy_from_loop:
  assumes "a + k \<le> b" and "b \<le> length xs"
  shows "foldM (copy_from k) (rev [a + k..<b]) xs
     = Some (take (a + k) xs @ take (b - k - a) (drop a xs) @ drop b xs)"
proof -
  have "rev [a + k..<b] = map (\<lambda>i. i + k) (rev [a..<b - k])"
    unfolding rev_map [symmetric] using assms by (intro arg_cong [where f = rev] nth_equalityI) auto
  then have "foldM (copy_from k) (rev [a + k..<b]) xs = foldM (\<lambda>s i. copy_from k s (i + k)) (rev [a..<b - k]) xs"
    by (simp add: foldM_map)
  also have "(\<lambda>s i. copy_from k s (i + k)) = copy_down k"
    by (intro ext) (simp add: copy_from_def copy_down_def)
  finally show ?thesis
    using assms copy_down_loop [of a "b - k" k xs] by simp
qed

text \<open>\<open>for i in a..b { v[i] = x.clone() }\<close>\<close>

lemma fill_loop:
  "a \<le> b \<Longrightarrow> b \<le> length xs \<Longrightarrow>
   foldM (\<lambda>xs i. upd xs i x) [a..<b] xs = Some (take a xs @ replicate (b - a) x @ drop b xs)"
proof (induction "b - a" arbitrary: a xs)
  case 0
  then show ?case by simp
next
  case (Suc n)
  then have ab: "a < b" by linarith
  then have "foldM (\<lambda>xs i. upd xs i x) [a..<b] xs = foldM (\<lambda>xs i. upd xs i x) [Suc a..<b] (xs[a := x])"
    using Suc.prems by (simp add: upt_conv_Cons)
  also have "\<dots> = Some (take (Suc a) (xs[a := x]) @ replicate (b - Suc a) x @ drop b (xs[a := x]))"
    using Suc.hyps(1) [of "Suc a" "xs[a := x]"] Suc.hyps(2) Suc.prems ab by simp
  also have "take (Suc a) (xs[a := x]) = take a xs @ [x]"
    using ab Suc.prems by (simp add: take_Suc_conv_app_nth)
  also have "drop b (xs[a := x]) = drop b xs"
    using ab by simp
  also have "(take a xs @ [x]) @ replicate (b - Suc a) x @ drop b xs
      = take a xs @ replicate (b - a) x @ drop b xs"
    using ab Suc.hyps(2) by (metis Suc_diff_Suc append.assoc append_Cons append_Nil replicate_Suc)
  finally show ?case .
qed

text \<open>\<open>for x in v.iter_mut().take(b).skip(a) { *x = y }\<close>: no panic past the end.\<close>

definition fill_range :: "nat \<Rightarrow> nat \<Rightarrow> 'a \<Rightarrow> 'a list \<Rightarrow> 'a list" where
  "fill_range a b y xs = map (\<lambda>(i, x). if a \<le> i \<and> i < b then y else x) (enumerate 0 xs)"

lemma length_fill_range [simp]: "length (fill_range a b y xs) = length xs"
  by (simp add: fill_range_def)

lemma nth_fill_range:
  "i < length xs \<Longrightarrow> fill_range a b y xs ! i = (if a \<le> i \<and> i < b then y else xs ! i)"
  by (simp add: fill_range_def nth_enumerate_eq)

lemma fill_range_eq:
  "a \<le> b \<Longrightarrow> b \<le> length xs \<Longrightarrow> fill_range a b y xs = take a xs @ replicate (b - a) y @ drop b xs"
  by (rule nth_equalityI) (auto simp: nth_fill_range nth_append)

text \<open>\<open>v[a..b].rotate_left(k)\<close>, \<open>v[a..b].rotate_right(k)\<close>.\<close>

definition on_slice :: "nat \<Rightarrow> nat \<Rightarrow> ('a list \<Rightarrow> 'a list) \<Rightarrow> 'a list \<Rightarrow> 'a list option" where
  "on_slice a b f xs =
     (if a \<le> b \<and> b \<le> length xs then Some (take a xs @ f (drop a (take b xs)) @ drop b xs) else None)"

definition rotate_right :: "nat \<Rightarrow> 'a list \<Rightarrow> 'a list" where
  "rotate_right k xs = rotate (length xs - k) xs"

lemma rotate_left_eq: "k \<le> length xs \<Longrightarrow> rotate k xs = drop k xs @ take k xs"
  by (cases "k = length xs") (simp_all add: rotate_drop_take)

lemma rotate_right_eq:
  "k \<le> length xs \<Longrightarrow> rotate_right k xs = drop (length xs - k) xs @ take (length xs - k) xs"
  by (simp add: rotate_right_def rotate_left_eq)

section \<open>The bounded queue\<close>

text \<open>\<open>while q.len() > n { q.pop_front(); }\<close>\<close>

function pop_front_to :: "nat \<Rightarrow> 'a list \<Rightarrow> 'a list" where
  "pop_front_to n q = (if n < length q then pop_front_to n (tl q) else q)"
  by pat_completeness auto
termination
  by (relation "measure (\<lambda>(n, q). length q)") auto

declare pop_front_to.simps [simp del]

lemma pop_front_to_eq: "pop_front_to n q = take_last n q"
proof (induction n q rule: pop_front_to.induct)
  case (1 n q)
  show ?case
  proof (cases "n < length q")
    case True
    then obtain x xs where "q = x # xs" by (cases q) auto
    with True 1 show ?thesis
      by (subst pop_front_to.simps) (auto simp: take_last_def Suc_diff_le)
  next
    case False
    then show ?thesis
      by (subst pop_front_to.simps) (simp add: take_last_def)
  qed
qed

text \<open>\<open>while v.pop().is_some() {}\<close>\<close>

fun pop_all :: "'a list \<Rightarrow> 'a list" where
  "pop_all [] = []"
| "pop_all (x # xs) = pop_all (butlast (x # xs))"

lemma pop_all_eq [simp]: "pop_all xs = []"
  by (induction xs rule: pop_all.induct) (simp_all del: butlast.simps)

end
