(* ===== verification/Term_Cells.thy ===== *)
theory Term_Cells
  imports Emux_Loops VT_Params
begin

text \<open>
  The leaf types of the terminal: \<open>color.rs\<close>, \<open>cursor.rs\<close>, \<open>modes.rs\<close>, \<open>unicode.rs\<close> of
  \<open>crates/emux-term/src\<close>, \<open>charsets.rs\<close> of \<open>crates/emux-vt/src\<close>, and the cells and rows of
  \<open>grid.rs\<close>. A \<open>LineFlags\<close> has the one field \<open>continuation\<close> and is that field of the row.
\<close>

section \<open>Colours, attributes, cells\<close>

datatype color = DefaultColor | Indexed u8 | Rgb u8 u8 u8

datatype underline_style = UnderlineNone | UnderlineSingle | UnderlineDouble | UnderlineCurly

record cell_attrs =
  at_bold :: bool
  at_italic :: bool
  at_underline :: underline_style
  at_blink :: bool
  at_reverse :: bool
  at_invisible :: bool
  at_strikethrough :: bool
  at_protected :: bool

definition attrs_default :: cell_attrs where
  "attrs_default =
     \<lparr>at_bold = False, at_italic = False, at_underline = UnderlineNone, at_blink = False,
      at_reverse = False, at_invisible = False, at_strikethrough = False, at_protected = False\<rparr>"

definition attrs_is_default :: "cell_attrs \<Rightarrow> bool" where
  "attrs_is_default a \<longleftrightarrow> a = attrs_default"

record cell =
  c_char :: rchar
  c_width :: nat
  c_fg :: color
  c_bg :: color
  c_attrs :: cell_attrs
  c_hyperlink :: "rstr option"

definition cell_default :: cell where
  "cell_default =
     \<lparr>c_char = 0x20, c_width = 1, c_fg = DefaultColor, c_bg = DefaultColor,
      c_attrs = attrs_default, c_hyperlink = None\<rparr>"

record row =
  r_cells :: "cell list"
  r_continuation :: bool

definition row_new :: "nat \<Rightarrow> row" where
  "row_new cols = \<lparr>r_cells = replicate cols cell_default, r_continuation = False\<rparr>"

definition row_reset :: "row \<Rightarrow> row" where
  "row_reset r = \<lparr>r_cells = map (\<lambda>_. cell_default) (r_cells r), r_continuation = False\<rparr>"

text \<open>\<open>Vec::resize_with\<close>: truncate or append.\<close>

definition resize_with :: "nat \<Rightarrow> 'a \<Rightarrow> 'a list \<Rightarrow> 'a list" where
  "resize_with n x xs = take n xs @ replicate (n - length xs) x"

definition row_resize :: "nat \<Rightarrow> row \<Rightarrow> row" where
  "row_resize cols r = r\<lparr>r_cells := resize_with cols cell_default (r_cells r)\<rparr>"

lemma length_row_new [simp]: "length (r_cells (row_new cols)) = cols"
  by (simp add: row_new_def)

lemma length_row_reset [simp]: "length (r_cells (row_reset r)) = length (r_cells r)"
  by (simp add: row_reset_def)

lemma length_resize_with [simp]: "length (resize_with n x xs) = n"
  by (simp add: resize_with_def)

lemma length_row_resize [simp]: "length (r_cells (row_resize cols r)) = cols"
  by (simp add: row_resize_def)

lemma resize_with_same: "length xs = n \<Longrightarrow> resize_with n x xs = xs"
  by (simp add: resize_with_def)

lemma row_reset_new: "row_reset r = row_new (length (r_cells r))"
  by (simp add: row_reset_def row_new_def map_replicate_const)

section \<open>Cursors, character sets, modes\<close>

datatype cursor_shape = Block | Underline | Bar

record cursor =
  cur_row :: nat
  cur_col :: nat
  cur_visible :: bool
  cur_shape :: cursor_shape

definition cursor_default :: cursor where
  "cursor_default = \<lparr>cur_row = 0, cur_col = 0, cur_visible = True, cur_shape = Block\<rparr>"

datatype charset = Ascii | DecSpecialGraphics | Uk

definition dec_special_graphics :: "u8 \<Rightarrow> rchar" where
  "dec_special_graphics b =
     (if b = 0x6a then 0x2518 else if b = 0x6b then 0x2510 else if b = 0x6c then 0x250c
      else if b = 0x6d then 0x2514 else if b = 0x6e then 0x253c else if b = 0x71 then 0x2500
      else if b = 0x74 then 0x251c else if b = 0x75 then 0x2524 else if b = 0x76 then 0x2534
      else if b = 0x77 then 0x252c else if b = 0x78 then 0x2502 else if b = 0x61 then 0x2592
      else unat b)"

fun charset_map :: "charset \<Rightarrow> u8 \<Rightarrow> rchar" where
  "charset_map Ascii b = unat b"
| "charset_map Uk b = unat b"
| "charset_map DecSpecialGraphics b = dec_special_graphics b"

record saved_cursor =
  sv_row :: nat
  sv_col :: nat
  sv_attrs :: cell_attrs
  sv_fg :: color
  sv_bg :: color
  sv_charset_g0 :: charset
  sv_charset_g1 :: charset
  sv_active_charset :: u8
  sv_origin_mode :: bool
  sv_pending_wrap :: bool

datatype mouse_mode = MouseNone | MouseX10 | MouseNormal | MouseButtonEvent | MouseAnyEvent

record kitty_flags =
  kitty_bits :: u8

definition kitty_new :: kitty_flags where
  "kitty_new = \<lparr>kitty_bits = 0\<rparr>"

definition kitty_flag :: "nat \<Rightarrow> kitty_flags \<Rightarrow> bool" where
  "kitty_flag n k \<longleftrightarrow> and (kitty_bits k) (push_bit n 1) \<noteq> 0"

definition disambiguate_escape :: "kitty_flags \<Rightarrow> bool" where
  "disambiguate_escape k \<longleftrightarrow> kitty_flag 0 k"

definition report_event_types :: "kitty_flags \<Rightarrow> bool" where
  "report_event_types k \<longleftrightarrow> kitty_flag 1 k"

definition report_alternate_keys :: "kitty_flags \<Rightarrow> bool" where
  "report_alternate_keys k \<longleftrightarrow> kitty_flag 2 k"

definition report_all_keys_as_escape_codes :: "kitty_flags \<Rightarrow> bool" where
  "report_all_keys_as_escape_codes k \<longleftrightarrow> kitty_flag 3 k"

definition report_associated_text :: "kitty_flags \<Rightarrow> bool" where
  "report_associated_text k \<longleftrightarrow> kitty_flag 4 k"

record modes =
  md_application_cursor_keys :: bool
  md_application_keypad :: bool
  md_autowrap :: bool
  md_origin :: bool
  md_insert :: bool
  md_newline :: bool
  md_alt_screen :: bool
  md_bracketed_paste :: bool
  md_focus_tracking :: bool
  md_mouse_tracking :: mouse_mode
  md_mouse_sgr :: bool
  md_keyboard_mode :: kitty_flags
  md_allow_deccolm :: bool
  md_left_right_margin :: bool
  md_reverse_wrap :: bool

definition modes_default :: modes where
  "modes_default =
     \<lparr>md_application_cursor_keys = False, md_application_keypad = False, md_autowrap = True,
      md_origin = False, md_insert = False, md_newline = False, md_alt_screen = False,
      md_bracketed_paste = False, md_focus_tracking = False, md_mouse_tracking = MouseNone,
      md_mouse_sgr = False, md_keyboard_mode = kitty_new, md_allow_deccolm = False,
      md_left_right_margin = False, md_reverse_wrap = False\<rparr>"

section \<open>Character widths\<close>

definition within :: "nat \<Rightarrow> nat \<Rightarrow> nat \<Rightarrow> bool" where
  "within lo hi c \<longleftrightarrow> lo \<le> c \<and> c \<le> hi"

definition zero_width :: "rchar \<Rightarrow> bool" where
  "zero_width c \<longleftrightarrow>
     c = 0x200B \<or> c = 0x200C \<or> c = 0x200D \<or> c = 0xFEFF \<or> c = 0x2060 \<or> c = 0x2061 \<or>
     c = 0x2062 \<or> c = 0x2063 \<or> c = 0x2064 \<or> c = 0x180E"

definition combining :: "rchar \<Rightarrow> bool" where
  "combining c \<longleftrightarrow>
     within 0x0300 0x036F c \<or> within 0x1AB0 0x1AFF c \<or> within 0x1DC0 0x1DFF c \<or>
     within 0x20D0 0x20FF c \<or> within 0xFE20 0xFE2F c"

definition wide :: "rchar \<Rightarrow> bool" where
  "wide c \<longleftrightarrow>
     within 0x1100 0x115F c \<or> within 0x2329 0x232A c \<or> within 0x2E80 0x303E c \<or>
     within 0x3040 0x33BF c \<or> within 0x3400 0x4DBF c \<or> within 0x4E00 0x9FFF c \<or>
     within 0xA000 0xA4CF c \<or> within 0xAC00 0xD7A3 c \<or> within 0xF900 0xFAFF c \<or>
     within 0xFE10 0xFE19 c \<or> within 0xFE30 0xFE6F c \<or> within 0xFF01 0xFF60 c \<or>
     within 0xFFE0 0xFFE6 c \<or> within 0x1F000 0x1F9FF c \<or> within 0x20000 0x2FA1F c \<or>
     within 0x30000 0x3134F c"

definition char_width :: "rchar \<Rightarrow> nat" where
  "char_width c =
     (if c < 0x7F then (if 0x20 \<le> c then 1 else 0)
      else if zero_width c then 0
      else if combining c then 0
      else if wide c then 2
      else if c < 0x20 \<or> within 0x7F 0x9F c then 0
      else 1)"

lemma char_width_le2: "char_width c \<le> 2"
  by (simp add: char_width_def)

lemma char_width_cases:
  obtains "char_width c = 0" | "char_width c = 1" | "char_width c = 2"
  using char_width_le2 [of c] by (metis One_nat_def Suc_1 le_SucE le_zero_eq)

lemma char_width_ascii: "0x20 \<le> c \<Longrightarrow> c < 0x7F \<Longrightarrow> char_width c = 1"
  by (simp add: char_width_def)

end
