(* ===== verification/Term_Grid_Props.thy ===== *)
theory Term_Grid_Props
  imports Term_Grid
begin

text \<open>
  The grid as a function from positions to cells. \<open>with_cells F g\<close> is the grid \<open>g\<close> with the cell
  \<open>F r c\<close> at row \<open>r\<close> and column \<open>c\<close>, its flags, scrollback and sizes as they are; every operation on
  cells maps such a grid to such a grid, and the function it leaves is its closed form. The block
  operations on lines get closed forms over the list of lines.
\<close>

section \<open>Reading the invariant\<close>

lemma grid_okD:
  assumes "grid_ok C R g"
  shows grid_ok_cols: "g_cols g = C" and grid_ok_rows: "g_rows g = R"
    and grid_ok_lines: "length (g_lines g) = R"
    and grid_ok_line: "r < R \<Longrightarrow> length (r_cells (g_lines g ! r)) = C"
    and grid_ok_scrollback: "length (g_scrollback g) \<le> g_limit g"
  using assms by (auto simp: grid_ok_def list_all_length)

lemma grid_ok_mem: "grid_ok C R g \<Longrightarrow> l \<in> set (g_lines g) \<Longrightarrow> length (r_cells l) = C"
  by (auto simp: grid_ok_def list_all_iff)

lemma grid_ok_new: "grid_ok cols rows (grid_new cols rows)"
  by (simp add: grid_ok_def grid_new_def list_all_iff)

lemma grid_ok_set_lines:
  "grid_ok C R g \<Longrightarrow> length ls = R \<Longrightarrow> (\<And>l. l \<in> set ls \<Longrightarrow> length (r_cells l) = C) \<Longrightarrow>
   grid_ok C R (g\<lparr>g_lines := ls\<rparr>)"
  by (auto simp: grid_ok_def list_all_iff)

lemma grid_ok_set_scrollback:
  "grid_ok C R g \<Longrightarrow> length sb \<le> g_limit g \<Longrightarrow> grid_ok C R (g\<lparr>g_scrollback := sb\<rparr>)"
  by (auto simp: grid_ok_def)

lemma grid_ok_push_scrollback: "grid_ok C R g \<Longrightarrow> grid_ok C R (push_scrollback r g)"
  by (simp add: push_scrollback_def pop_front_to_eq grid_ok_def)

lemma grid_ok_pop_scrollback: "grid_ok C R g \<Longrightarrow> grid_ok C R (snd (pop_scrollback g))"
  by (auto simp: pop_scrollback_def grid_ok_def split: list.split)

lemma grid_ok_set_limit: "grid_ok C R g \<Longrightarrow> grid_ok C R (set_scrollback_limit n g)"
  by (simp add: set_scrollback_limit_def pop_front_to_eq grid_ok_def)

section \<open>Grids as functions\<close>

definition cell_of :: "grid \<Rightarrow> nat \<Rightarrow> nat \<Rightarrow> cell" where
  "cell_of g r c = r_cells (g_lines g ! r) ! c"

definition with_cells :: "(nat \<Rightarrow> nat \<Rightarrow> cell) \<Rightarrow> grid \<Rightarrow> grid" where
  "with_cells F g = g\<lparr>g_lines := map (\<lambda>r. (g_lines g ! r)
     \<lparr>r_cells := map (F r) [0..<length (r_cells (g_lines g ! r))]\<rparr>) [0..<length (g_lines g)]\<rparr>"

definition set_at :: "nat \<Rightarrow> nat \<Rightarrow> 'a \<Rightarrow> (nat \<Rightarrow> nat \<Rightarrow> 'a) \<Rightarrow> nat \<Rightarrow> nat \<Rightarrow> 'a" where
  "set_at r c x F = F(r := (F r)(c := x))"

lemma set_at_apply: "set_at r c x F r' c' = (if r' = r \<and> c' = c then x else F r' c')"
  by (simp add: set_at_def)

lemma with_cells_frame [simp]:
  "g_cols (with_cells F g) = g_cols g" "g_rows (with_cells F g) = g_rows g"
  "g_scrollback (with_cells F g) = g_scrollback g" "g_limit (with_cells F g) = g_limit g"
  "length (g_lines (with_cells F g)) = length (g_lines g)"
  by (simp_all add: with_cells_def)

lemma with_cells_line:
  "r < length (g_lines g) \<Longrightarrow>
   g_lines (with_cells F g) ! r
     = (g_lines g ! r)\<lparr>r_cells := map (F r) [0..<length (r_cells (g_lines g ! r))]\<rparr>"
  by (simp add: with_cells_def)

lemma with_cells_id: "with_cells (cell_of g) g = g"
proof -
  have "(g_lines g ! r)\<lparr>r_cells := map (cell_of g r) [0..<length (r_cells (g_lines g ! r))]\<rparr> = g_lines g ! r" for r
    unfolding cell_of_def map_nth by simp
  then show ?thesis
    by (simp add: with_cells_def map_nth)
qed

lemma with_cells_with [simp]: "with_cells F (with_cells H g) = with_cells F g"
  by (simp add: with_cells_def)

lemma grid_ok_with_cells [simp]: "grid_ok C R (with_cells F g) = grid_ok C R g"
  by (auto simp: grid_ok_def list_all_length with_cells_line)

lemma cell_of_with_cells:
  "grid_ok C R g \<Longrightarrow> r < R \<Longrightarrow> c < C \<Longrightarrow> cell_of (with_cells F g) r c = F r c"
  by (simp add: cell_of_def with_cells_line grid_okD)

lemma with_cells_cong:
  assumes "grid_ok C R g" and "\<And>r c. r < R \<Longrightarrow> c < C \<Longrightarrow> F r c = H r c"
  shows "with_cells F g = with_cells H g"
  using assms by (auto simp: with_cells_def grid_okD intro!: arg_cong [where f = "\<lambda>ls. g\<lparr>g_lines := ls\<rparr>"])

lemma cell_at_with_cells:
  "grid_ok C R g \<Longrightarrow> r < R \<Longrightarrow> c < C \<Longrightarrow> cell_at (with_cells F g) r c = Some (F r c)"
  by (simp add: cell_at_def with_cells_line grid_okD)

lemma cell_at_ok: "grid_ok C R g \<Longrightarrow> r < R \<Longrightarrow> c < C \<Longrightarrow> cell_at g r c = Some (cell_of g r c)"
  by (simp add: cell_at_def cell_of_def grid_okD)

lemma put_cell_with_cells:
  assumes "grid_ok C R g" "r < R" "c < C"
  shows "put_cell r c x (with_cells F g) = Some (with_cells (set_at r c x F) g)"
proof -
  have "(map (\<lambda>r. (g_lines g ! r)\<lparr>r_cells := map (F r) [0..<length (r_cells (g_lines g ! r))]\<rparr>)
          [0..<length (g_lines g)])[r := (g_lines g ! r)\<lparr>r_cells := (map (F r) [0..<C])[c := x]\<rparr>]
      = map (\<lambda>r'. (g_lines g ! r')
          \<lparr>r_cells := map (set_at r c x F r') [0..<length (r_cells (g_lines g ! r'))]\<rparr>) [0..<length (g_lines g)]"
    using assms
    by (intro nth_equalityI) (auto simp: nth_list_update grid_okD set_at_def intro!: row.fold_congs nth_equalityI)
  then show ?thesis
    using assms
    by (simp add: put_cell_def with_cells_line grid_okD put_line_def) (simp add: with_cells_def grid_okD)
qed

lemma put_cell_ok:
  "grid_ok C R g \<Longrightarrow> r < R \<Longrightarrow> c < C \<Longrightarrow>
   put_cell r c x g = Some (with_cells (set_at r c x (cell_of g)) g)"
  using put_cell_with_cells [of C R g r c x "cell_of g"] by (simp add: with_cells_id)

text \<open>A rectangle \<open>[t, b) x [l, r)\<close> of positions.\<close>

definition in_rect :: "nat \<Rightarrow> nat \<Rightarrow> nat \<Rightarrow> nat \<Rightarrow> nat \<Rightarrow> nat \<Rightarrow> bool" where
  "in_rect t b l r i j \<longleftrightarrow> t \<le> i \<and> i < b \<and> l \<le> j \<and> j < r"

lemma in_rect_empty [simp]: "\<not> in_rect t t a b i j"
  by (simp add: in_rect_def)

lemma put_range_with_cells:
  assumes "grid_ok C R g" "r < R" "b \<le> C"
  shows "foldM (\<lambda>g c. put_cell r c x g) [a..<b] (with_cells F g)
     = Some (with_cells (\<lambda>i j. if i = r \<and> a \<le> j \<and> j < b then x else F i j) g)"
  using assms(3)
proof (induction b)
  case 0
  then show ?case by simp
next
  case (Suc b)
  show ?case
  proof (cases "a \<le> b")
    case True
    have "set_at r b x (\<lambda>i j. if i = r \<and> a \<le> j \<and> j < b then x else F i j)
        = (\<lambda>i j. if i = r \<and> a \<le> j \<and> j < Suc b then x else F i j)"
      using True by (auto simp: set_at_def fun_eq_iff)
    with True Suc assms show ?thesis
      by (simp add: foldM_append put_cell_with_cells)
  next
    case False
    then have "(\<lambda>i j. if i = r \<and> a \<le> j \<and> j < Suc b then x else F i j) = F"
      by (auto simp: fun_eq_iff)
    then show ?thesis
      using False by simp
  qed
qed

section \<open>Cell operations in closed form\<close>

lemma reset_cell_with_cells:
  "grid_ok C R g \<Longrightarrow> r < R \<Longrightarrow> c < C \<Longrightarrow>
   reset_cell r c (with_cells F g) = Some (with_cells (set_at r c cell_default F) g)"
  by (simp add: reset_cell_def put_cell_with_cells)

lemma reset_range_with_cells:
  "grid_ok C R g \<Longrightarrow> r < R \<Longrightarrow> b \<le> C \<Longrightarrow>
   foldM (\<lambda>g c. reset_cell r c g) [a..<b] (with_cells F g)
     = Some (with_cells (\<lambda>i j. if i = r \<and> a \<le> j \<and> j < b then cell_default else F i j) g)"
  by (simp add: reset_cell_def put_range_with_cells)

lemma blank_cells_with_cells:
  "grid_ok C R g \<Longrightarrow> r < R \<Longrightarrow> b \<le> C \<Longrightarrow>
   blank_cells r a b (with_cells F g)
     = Some (with_cells (\<lambda>i j. if i = r \<and> a \<le> j \<and> j < b then cell_default else F i j) g)"
  by (simp add: blank_cells_def put_range_with_cells)

lemma copy_cells_with_cells:
  assumes "grid_ok C R g" "src < R" "dst < R" "src \<noteq> dst" "b \<le> C"
  shows "copy_cells src dst a b (with_cells F g)
     = Some (with_cells (\<lambda>i j. if i = dst \<and> a \<le> j \<and> j < b then F src j else F i j) g)"
  unfolding copy_cells_def using assms(5)
proof (induction b)
  case 0
  then show ?case by simp
next
  case (Suc b)
  show ?case
  proof (cases "a \<le> b")
    case True
    have "set_at dst b (F src b) (\<lambda>i j. if i = dst \<and> a \<le> j \<and> j < b then F src j else F i j)
        = (\<lambda>i j. if i = dst \<and> a \<le> j \<and> j < Suc b then F src j else F i j)"
      using True by (auto simp: set_at_def fun_eq_iff less_Suc_eq)
    with True Suc assms show ?thesis
      by (simp add: foldM_append put_cell_with_cells cell_at_with_cells)
  next
    case False
    then have "(\<lambda>i j. if i = dst \<and> a \<le> j \<and> j < Suc b then F src j else F i j) = F"
      by (auto simp: fun_eq_iff)
    then show ?thesis
      using False by simp
  qed
qed

lemma blank_rows_with_cells:
  assumes "grid_ok C R g" "d \<le> R" "b \<le> C"
  shows "foldM (\<lambda>g r. blank_cells r a b g) [t..<d] (with_cells F g)
     = Some (with_cells (\<lambda>i j. if in_rect t d a b i j then cell_default else F i j) g)"
  using assms(2)
proof (induction d)
  case 0
  then show ?case by (simp add: in_rect_def)
next
  case (Suc d)
  show ?case
  proof (cases "t \<le> d")
    case True
    have "(\<lambda>i j. if i = d \<and> a \<le> j \<and> j < b then cell_default
             else if in_rect t d a b i j then cell_default else F i j)
        = (\<lambda>i j. if in_rect t (Suc d) a b i j then cell_default else F i j)"
      using True by (auto simp: fun_eq_iff in_rect_def)
    with True Suc assms show ?thesis
      by (simp add: foldM_append blank_cells_with_cells)
  next
    case False
    then have "(\<lambda>i j. if in_rect t (Suc d) a b i j then cell_default else F i j) = F"
      by (auto simp: fun_eq_iff in_rect_def)
    then show ?thesis
      using False by simp
  qed
qed

lemma copy_rows_up_with_cells:
  assumes "grid_ok C R g" "d + n \<le> R" "b \<le> C" "0 < n" "t \<le> d"
  shows "foldM (\<lambda>g r. copy_cells (r + n) r a b g) [t..<d] (with_cells F g)
     = Some (with_cells (\<lambda>i j. if in_rect t d a b i j then F (i + n) j else F i j) g)"
  using assms(2,5)
proof (induction d)
  case 0
  then show ?case by simp
next
  case (Suc d)
  show ?case
  proof (cases "t \<le> d")
    case True
    have "(\<lambda>i j. if i = d \<and> a \<le> j \<and> j < b then (if in_rect t d a b (d + n) j then F (d + n + n) j else F (d + n) j)
             else if in_rect t d a b i j then F (i + n) j else F i j)
        = (\<lambda>i j. if in_rect t (Suc d) a b i j then F (i + n) j else F i j)"
      using True by (auto simp: fun_eq_iff in_rect_def)
    with True Suc assms show ?thesis
      by (simp add: foldM_append copy_cells_with_cells)
  next
    case False
    then have "t = Suc d" using Suc by simp
    then show ?thesis
      by simp
  qed
qed

lemma copy_rows_down_with_cells:
  assumes "grid_ok C R g" "d + n \<le> R" "b \<le> C" "0 < n" "t \<le> d"
  shows "foldM (\<lambda>g r. copy_cells r (r + n) a b g) (rev [t..<d]) (with_cells F g)
     = Some (with_cells (\<lambda>i j. if in_rect (t + n) (d + n) a b i j then F (i - n) j else F i j) g)"
  using assms(2,5)
proof (induction d arbitrary: F)
  case 0
  then show ?case by simp
next
  case (Suc d)
  show ?case
  proof (cases "t \<le> d")
    case True
    let ?H = "\<lambda>i j. if i = d + n \<and> a \<le> j \<and> j < b then F d j else F i j"
    have "(\<lambda>i j. if in_rect (t + n) (d + n) a b i j then ?H (i - n) j else ?H i j)
        = (\<lambda>i j. if in_rect (t + n) (Suc d + n) a b i j then F (i - n) j else F i j)"
      using True assms(4) by (auto simp: fun_eq_iff in_rect_def less_Suc_eq)
    with True Suc.IH [of ?H] Suc.prems assms show ?thesis
      by (simp add: copy_cells_with_cells)
  next
    case False
    then have "t = Suc d" using Suc by simp
    then show ?thesis
      by simp
  qed
qed

text \<open>The rectangle scrolls, for regions within the grid.\<close>

definition scrolled_up :: "nat \<Rightarrow> nat \<Rightarrow> nat \<Rightarrow> nat \<Rightarrow> nat \<Rightarrow> (nat \<Rightarrow> nat \<Rightarrow> cell) \<Rightarrow> nat \<Rightarrow> nat \<Rightarrow> cell" where
  "scrolled_up t b l r n F i j =
     (if in_rect t b l r i j then (if i + n < b then F (i + n) j else cell_default) else F i j)"

definition scrolled_down :: "nat \<Rightarrow> nat \<Rightarrow> nat \<Rightarrow> nat \<Rightarrow> nat \<Rightarrow> (nat \<Rightarrow> nat \<Rightarrow> cell) \<Rightarrow> nat \<Rightarrow> nat \<Rightarrow> cell" where
  "scrolled_down t b l r n F i j =
     (if in_rect t b l r i j then (if t + n \<le> i then F (i - n) j else cell_default) else F i j)"

lemma scroll_up_region_eq:
  assumes "grid_ok C R g" "b \<le> R" "r \<le> C"
  shows "grid_scroll_up_region t b l r n g = Some (with_cells (scrolled_up t b l r n (cell_of g)) g)"
proof (cases "b \<le> t \<or> r \<le> l \<or> n = 0")
  case True
  then have "scrolled_up t b l r n (cell_of g) = cell_of g"
    by (auto simp: scrolled_up_def in_rect_def fun_eq_iff)
  with True show ?thesis
    by (auto simp: grid_scroll_up_region_def with_cells_id)
next
  case False
  define m where "m = min n (b - t)"
  have m: "0 < m" "m \<le> b - t" "b - m + m = b" "t \<le> b - m" "min r (g_cols g) = r"
    using False assms by (auto simp: m_def grid_okD)
  let ?F = "cell_of g"
  have "(\<lambda>i j. if in_rect (b - m) b l r i j then cell_default
          else if in_rect t (b - m) l r i j then ?F (i + m) j else ?F i j) = scrolled_up t b l r n ?F"
    using False by (auto simp: fun_eq_iff in_rect_def scrolled_up_def m_def min_def split: if_splits)
  then show ?thesis
    using False m assms copy_rows_up_with_cells [of C R g "b - m" m r t l ?F]
    by (simp add: grid_scroll_up_region_def Let_def m_def [symmetric] grid_okD with_cells_id
        blank_rows_with_cells)
qed

lemma scroll_down_region_eq:
  assumes "grid_ok C R g" "b \<le> R" "r \<le> C"
  shows "grid_scroll_down_region t b l r n g = Some (with_cells (scrolled_down t b l r n (cell_of g)) g)"
proof (cases "b \<le> t \<or> r \<le> l \<or> n = 0")
  case True
  then have "scrolled_down t b l r n (cell_of g) = cell_of g"
    by (auto simp: scrolled_down_def in_rect_def fun_eq_iff)
  with True show ?thesis
    by (auto simp: grid_scroll_down_region_def with_cells_id)
next
  case False
  define m where "m = min n (b - t)"
  have m: "0 < m" "m \<le> b - t" "b - m + m = b" "t \<le> b - m" "min r (g_cols g) = r" "t + m \<le> R"
    using False assms by (auto simp: m_def grid_okD)
  let ?F = "cell_of g"
  have "(\<lambda>i j. if in_rect t (t + m) l r i j then cell_default
          else if in_rect (t + m) b l r i j then ?F (i - m) j else ?F i j) = scrolled_down t b l r n ?F"
    using False by (auto simp: fun_eq_iff in_rect_def scrolled_down_def m_def min_def split: if_splits)
  then show ?thesis
    using False m assms copy_rows_down_with_cells [of C R g "b - m" m r t l ?F]
    by (simp add: grid_scroll_down_region_def Let_def m_def [symmetric] grid_okD with_cells_id
        blank_rows_with_cells)
qed

section \<open>Line operations in closed form\<close>

text \<open>Shifting the elements of \<open>[a, b)\<close> by \<open>n\<close> places, with \<open>x\<close> in the places freed.\<close>

definition shift_up :: "nat \<Rightarrow> nat \<Rightarrow> nat \<Rightarrow> 'a \<Rightarrow> 'a list \<Rightarrow> 'a list" where
  "shift_up a b n x xs =
     (if b \<le> a then xs
      else let m = min n (b - a) in
        take a xs @ drop (a + m) (take b xs) @ replicate m x @ drop b xs)"

definition shift_down :: "nat \<Rightarrow> nat \<Rightarrow> nat \<Rightarrow> 'a \<Rightarrow> 'a list \<Rightarrow> 'a list" where
  "shift_down a b n x xs =
     (if b \<le> a then xs
      else let m = min n (b - a) in
        take a xs @ replicate m x @ drop a (take (b - m) xs) @ drop b xs)"

lemma length_shift_up [simp]: "b \<le> length xs \<Longrightarrow> length (shift_up a b n x xs) = length xs"
  by (auto simp: shift_up_def Let_def)

lemma length_shift_down [simp]: "b \<le> length xs \<Longrightarrow> length (shift_down a b n x xs) = length xs"
  by (auto simp: shift_down_def Let_def)

lemma nth_shift_up:
  "b \<le> length xs \<Longrightarrow> i < length xs \<Longrightarrow>
   shift_up a b n x xs ! i
     = (if a \<le> i \<and> i < b then (if i + n < b then xs ! (i + n) else x) else xs ! i)"
  by (auto simp: shift_up_def Let_def nth_append min_def add.commute)

lemma nth_shift_down:
  "b \<le> length xs \<Longrightarrow> i < length xs \<Longrightarrow>
   shift_down a b n x xs ! i
     = (if a \<le> i \<and> i < b then (if a + n \<le> i then xs ! (i - n) else x) else xs ! i)"
  by (auto simp: shift_down_def Let_def nth_append min_def)

lemma take_slice_drop: "a \<le> b \<Longrightarrow> take a xs @ drop a (take b xs) @ drop b xs = xs"
  by (metis append_assoc append_take_drop_id min.absorb1 take_take)

lemma shift_0 [simp]: "shift_up a b 0 x xs = xs" "shift_down a b 0 x xs = xs"
  by (simp_all add: shift_up_def shift_down_def take_slice_drop)

lemma shift_degenerate [simp]:
  "b \<le> a \<Longrightarrow> shift_up a b n x xs = xs" "b \<le> a \<Longrightarrow> shift_down a b n x xs = xs"
  by (simp_all add: shift_up_def shift_down_def)

lemma set_shift_up: "set (shift_up a b n x xs) \<subseteq> insert x (set xs)"
  by (auto simp: shift_up_def Let_def dest: in_set_takeD in_set_dropD)

lemma set_shift_down: "set (shift_down a b n x xs) \<subseteq> insert x (set xs)"
  by (auto simp: shift_down_def Let_def dest: in_set_takeD in_set_dropD)

text \<open>Shifting down and up again restores the block but for the elements pushed out.\<close>

lemma shift_up_down:
  assumes "b \<le> length xs" "a + n \<le> b"
  shows "shift_up a b n x (shift_down a b n y xs) = take (b - n) xs @ replicate n x @ drop b xs"
  using assms by (intro nth_equalityI) (auto simp: nth_shift_up nth_shift_down nth_append)

lemma grid_ok_shift:
  assumes "grid_ok C R g" "b \<le> R" "length (r_cells x) = C"
  shows "grid_ok C R (g\<lparr>g_lines := shift_up a b n x (g_lines g)\<rparr>)"
    and "grid_ok C R (g\<lparr>g_lines := shift_down a b n x (g_lines g)\<rparr>)"
  using assms set_shift_up [of a b n x "g_lines g"] set_shift_down [of a b n x "g_lines g"]
  by (auto intro!: grid_ok_set_lines simp: grid_okD dest: grid_ok_mem)

lemma blank_lines_eq:
  "foldM blank_line is g
     = map_option (\<lambda>ls. g\<lparr>g_lines := ls\<rparr>) (foldM (\<lambda>xs i. upd xs i (row_new (g_cols g))) is (g_lines g))"
proof (induction "is" arbitrary: g)
  case Nil
  then show ?case by simp
next
  case (Cons i "is")
  then show ?case
    by (cases "i < length (g_lines g)") (simp_all add: blank_line_def put_line_def option.map_comp comp_def)
qed

lemma blank_lines_loop:
  "a \<le> b \<Longrightarrow> b \<le> length (g_lines g) \<Longrightarrow>
   foldM blank_line [a..<b] g = Some (g\<lparr>g_lines :=
     take a (g_lines g) @ replicate (b - a) (row_new (g_cols g)) @ drop b (g_lines g)\<rparr>)"
  by (simp add: blank_lines_eq fill_loop)

lemma retire_loop:
  assumes "n \<le> length (g_lines g)" "length (g_scrollback g) \<le> g_limit g"
  shows "foldM retire_line [0..<n] g = Some (g\<lparr>
      g_lines := replicate n (row_new (g_cols g)) @ drop n (g_lines g),
      g_scrollback := take_last (g_limit g) (g_scrollback g @ take n (g_lines g))\<rparr>)"
  using assms(1)
proof (induction n)
  case 0
  then show ?case
    using assms(2) by simp
next
  case (Suc n)
  then have "drop n (g_lines g) = g_lines g ! n # drop (Suc n) (g_lines g)"
    by (simp add: Cons_nth_drop_Suc)
  with Suc show ?case
    by (simp add: foldM_append retire_line_def put_line_def push_scrollback_def pop_front_to_eq
        take_last_snoc nth_append list_update_append replicate_append_same take_Suc_conv_app_nth)
qed

lemma scroll_up_eq:
  assumes "grid_ok C R g" "b \<le> R"
  shows "grid_scroll_up t b n g = Some (g\<lparr>
     g_lines := shift_up t b n (row_new C) (g_lines g),
     g_scrollback := (if t = 0 then take_last (g_limit g) (g_scrollback g @ take (min n b) (g_lines g))
                      else g_scrollback g)\<rparr>)"
proof (cases "b \<le> t \<or> n = 0")
  case True
  then show ?thesis
    using assms by (auto simp: grid_scroll_up_def grid_okD)
next
  case False
  define m where "m = min n (b - t)"
  have m: "0 < m" "t + m \<le> b" "b - m \<le> b" "m \<le> R"
    using False assms by (auto simp: m_def)
  have mb: "t = 0 \<Longrightarrow> min n b = m"
    by (simp add: m_def)
  show ?thesis
    using False m assms
    by (simp add: grid_scroll_up_def Let_def m_def [symmetric] mb retire_loop grid_okD on_slice_def
        rotate_left_eq blank_lines_loop shift_up_def drop_take add.commute [of m t])
qed

lemma scroll_down_eq:
  assumes "grid_ok C R g" "b \<le> R"
  shows "grid_scroll_down t b n g = Some (g\<lparr>g_lines := shift_down t b n (row_new C) (g_lines g)\<rparr>)"
proof (cases "b \<le> t \<or> n = 0")
  case True
  then show ?thesis
    by (auto simp: grid_scroll_down_def)
next
  case False
  define m where "m = min n (b - t)"
  have m: "0 < m" "t + m \<le> b" "b - m \<le> b" "t \<le> b - m" "b - t - m = b - m - t"
    using False assms by (auto simp: m_def)
  show ?thesis
    using False m assms
    by (simp add: grid_scroll_down_def Let_def m_def [symmetric] grid_okD on_slice_def
        rotate_right_eq blank_lines_loop shift_down_def drop_take)
qed

lemma insert_lines_eq:
  assumes "grid_ok C R g" "t \<le> row" "row < b" "b \<le> R"
  shows "grid_insert_lines row n t b g = Some (g\<lparr>g_lines := shift_down row b n (row_new C) (g_lines g)\<rparr>)"
proof -
  define m where "m = min n (b - row)"
  have m: "row \<le> b - m" "b - m + m = b" "row + m \<le> b" "b - row - m = b - m - row"
    using assms by (auto simp: m_def)
  show ?thesis
    using m assms
    by (simp add: grid_insert_lines_def Let_def m_def [symmetric] grid_okD copy_down_loop blank_lines_loop
        shift_down_def drop_take)
qed

lemma delete_lines_eq:
  assumes "grid_ok C R g" "t \<le> row" "row < b" "b \<le> R"
  shows "grid_delete_lines row n t b g = Some (g\<lparr>g_lines := shift_up row b n (row_new C) (g_lines g)\<rparr>)"
proof -
  define m where "m = min n (b - row)"
  have m: "row \<le> b - m" "b - m + m = b" "row + m \<le> b" "b - m - row + row + m = b" "b - (row + m) = b - m - row"
    using assms by (auto simp: m_def)
  show ?thesis
    using m assms
    by (simp add: grid_delete_lines_def Let_def m_def [symmetric] grid_okD copy_up_loop blank_lines_loop
        shift_up_def drop_take add.commute)
qed

text \<open>The cells of one row.\<close>

definition set_row_cells :: "nat \<Rightarrow> cell list \<Rightarrow> grid \<Rightarrow> grid" where
  "set_row_cells r cs g = g\<lparr>g_lines := (g_lines g)[r := (g_lines g ! r)\<lparr>r_cells := cs\<rparr>]\<rparr>"

abbreviation row_cells :: "grid \<Rightarrow> nat \<Rightarrow> cell list" where
  "row_cells g r \<equiv> r_cells (g_lines g ! r)"

lemma grid_ok_set_row_cells:
  "grid_ok C R g \<Longrightarrow> length cs = C \<Longrightarrow> grid_ok C R (set_row_cells r cs g)"
  by (auto simp: set_row_cells_def intro!: grid_ok_set_lines dest: grid_ok_mem
      dest!: set_update_subset_insert [THEN subsetD] simp: grid_okD)

lemma insert_cells_eq:
  assumes "grid_ok C R g" "row < R"
  shows "insert_cells_bounded row col n rb g
     = Some (set_row_cells row (shift_down col (min rb C) n cell_default (row_cells g row)) g)"
proof (cases "min rb C \<le> col")
  case True
  then show ?thesis
    using assms by (simp add: insert_cells_bounded_def grid_okD shift_down_def set_row_cells_def)
next
  case False
  define b where "b = min rb C"
  define m where "m = min n (b - col)"
  have m0: "col < b" "m \<le> b - col" "b \<le> C"
    using False by (auto simp: m_def b_def)
  have m: "\<not> b \<le> col" "col + m \<le> b" "b \<le> C" "min (col + m) b = col + m" "b - m \<le> b" "b - m - col = b - col - m"
    using m0 by auto
  show ?thesis
    using m assms
    by (simp add: insert_cells_bounded_def Let_def grid_okD b_def [symmetric] m_def [symmetric] copy_from_loop
        fill_range_eq put_line_def shift_down_def drop_take set_row_cells_def)
qed

lemma delete_cells_eq:
  assumes "grid_ok C R g" "row < R"
  shows "delete_cells_bounded row col n rb g
     = Some (set_row_cells row (shift_up col (min rb C) n cell_default (row_cells g row)) g)"
proof (cases "min rb C \<le> col")
  case True
  then show ?thesis
    using assms by (simp add: delete_cells_bounded_def grid_okD shift_up_def set_row_cells_def)
next
  case False
  define b where "b = min rb C"
  define m where "m = min n (b - col)"
  have m0: "col < b" "m \<le> b - col" "b \<le> C"
    using False by (auto simp: m_def b_def)
  have m: "\<not> b \<le> col" "col + m \<le> b" "b \<le> C" "b - m + m = b" "col \<le> b - m" "b - (col + m) = b - m - col"
    using m0 by auto
  show ?thesis
    using m assms
    by (simp add: delete_cells_bounded_def Let_def grid_okD b_def [symmetric] m_def [symmetric] copy_up_loop
        fill_range_eq put_line_def shift_up_def drop_take set_row_cells_def add.commute)
qed

lemma clear_row_eq:
  "grid_ok C R g \<Longrightarrow> r < R \<Longrightarrow> clear_row r g = Some (g\<lparr>g_lines := (g_lines g)[r := row_new C]\<rparr>)"
  by (simp add: clear_row_def put_line_def grid_okD row_reset_new)

section \<open>Erasing in closed form\<close>

text \<open>
  What \<open>clear_region\<close> leaves in a row \<open>[l..=r]\<close>: blanks in the range, and a blank in place of a wide
  character's half that the range cuts off on either side.
\<close>

definition erased_row :: "nat \<Rightarrow> nat \<Rightarrow> nat \<Rightarrow> (nat \<Rightarrow> cell) \<Rightarrow> nat \<Rightarrow> cell" where
  "erased_row C l r f j =
     (if l \<le> j \<and> j \<le> r then cell_default
      else if Suc j = l \<and> l \<le> r \<and> c_width (f l) = 0 then cell_default
      else if j = r + 1 \<and> j < C \<and> c_width (f r) = 2 then cell_default
      else f j)"

definition blank_if :: "bool \<Rightarrow> nat \<Rightarrow> nat \<Rightarrow> (nat \<Rightarrow> nat \<Rightarrow> cell) \<Rightarrow> nat \<Rightarrow> nat \<Rightarrow> cell" where
  "blank_if p r c F = (if p then set_at r c cell_default F else F)"

lemma blank_if_apply: "blank_if p r c F i j = (if p \<and> i = r \<and> j = c then cell_default else F i j)"
  by (simp add: blank_if_def set_at_apply)

lemma reset_if_with_cells:
  assumes "grid_ok C R g" "r < R" "q \<longrightarrow> k < C \<and> c < C"
  shows "(if q then do {
            x \<leftarrow> cell_at (with_cells F g) r k;
            if c_width x = n then reset_cell r c (with_cells F g) else Some (with_cells F g) }
          else Some (with_cells F g))
      = Some (with_cells (blank_if (q \<and> c_width (F r k) = n) r c F) g)"
  using assms by (auto simp: cell_at_with_cells reset_cell_with_cells blank_if_def)

lemma clear_region_row_eq:
  assumes "grid_ok C R g" "i < R" "r < C"
  shows "clear_region_row l r (with_cells F g) i
     = Some (with_cells (F(i := erased_row C l r (F i))) g)"
proof -
  let ?G = "blank_if ((0 < l \<and> l \<le> r) \<and> c_width (F i l) = 0) i (l - 1) F"
  let ?H = "blank_if (r + 1 < C \<and> c_width (?G i r) = 2) i (r + 1) ?G"
  have left: "?G i r = F i r"
    by (auto simp: blank_if_apply)
  have "clear_region_row l r (with_cells F g) i
      = foldM (\<lambda>g c. reset_cell i c g) [l..<Suc r] (with_cells ?H g)"
  proof -
    have 1: "0 < l \<and> l \<le> r \<longrightarrow> l < C \<and> l - 1 < C"
      using assms(3) by auto
    have 2: "r + 1 < C \<longrightarrow> r < C \<and> r + 1 < C"
      by auto
    show ?thesis
      unfolding clear_region_row_def with_cells_frame grid_ok_cols [OF assms(1)]
        reset_if_with_cells [OF assms(1,2) 1] bind.bind_lunit
      unfolding with_cells_frame grid_ok_cols [OF assms(1)]
        reset_if_with_cells [OF assms(1,2) 2] bind.bind_lunit ..
  qed
  also have "\<dots> = Some (with_cells (\<lambda>i' j. if i' = i \<and> l \<le> j \<and> j < Suc r then cell_default else ?H i' j) g)"
    using assms by (intro reset_range_with_cells) auto
  also have "(\<lambda>i' j. if i' = i \<and> l \<le> j \<and> j < Suc r then cell_default else ?H i' j)
      = F(i := erased_row C l r (F i))"
    unfolding left by (intro ext) (auto simp: blank_if_apply erased_row_def)
  finally show ?thesis .
qed

lemma clear_region_rows_eq:
  assumes "grid_ok C R g" "b \<le> R" "r < C"
  shows "foldM (clear_region_row l r) [t..<b] (with_cells F g)
     = Some (with_cells (\<lambda>i. if t \<le> i \<and> i < b then erased_row C l r (F i) else F i) g)"
  using assms(2)
proof (induction b)
  case 0
  then show ?case by simp
next
  case (Suc b)
  show ?case
  proof (cases "t \<le> b")
    case True
    let ?H = "\<lambda>i. if t \<le> i \<and> i < b then erased_row C l r (F i) else F i"
    have "?H(b := erased_row C l r (?H b)) = (\<lambda>i. if t \<le> i \<and> i < Suc b then erased_row C l r (F i) else F i)"
      using True by (auto simp: fun_eq_iff)
    with True Suc assms show ?thesis
      by (simp add: foldM_append clear_region_row_eq)
  next
    case False
    then have "(\<lambda>i. if t \<le> i \<and> i < Suc b then erased_row C l r (F i) else F i) = F"
      by (auto simp: fun_eq_iff)
    then show ?thesis
      using False by simp
  qed
qed

lemma clear_region_eq:
  assumes "grid_ok C R g" "0 < C" "0 < R"
  shows "clear_region t l b r g = Some (with_cells (\<lambda>i.
     if t \<le> i \<and> i \<le> b then erased_row C l (min r (C - 1)) (cell_of g i) else cell_of g i) g)"
proof -
  have "clear_region t l b r g = Some (with_cells (\<lambda>i.
      if t \<le> i \<and> i < Suc (min b (R - 1)) then erased_row C l (min r (C - 1)) (cell_of g i)
      else cell_of g i) g)"
    using assms clear_region_rows_eq [of C R g "Suc (min b (R - 1))" "min r (C - 1)" l t "cell_of g"]
    by (simp add: clear_region_def grid_okD with_cells_id)
  also have "\<dots> = Some (with_cells (\<lambda>i.
      if t \<le> i \<and> i \<le> b then erased_row C l (min r (C - 1)) (cell_of g i) else cell_of g i) g)"
    using assms by (auto intro!: with_cells_cong [OF assms(1)] simp: less_Suc_eq_le)
  finally show ?thesis .
qed

lemma erase_chars_eq:
  assumes "grid_ok C R g" "row < R"
  shows "grid_erase_chars row col n g =
     (if C \<le> col then Some g
      else let e = min (col + n) C; f = cell_of g row in
        Some (with_cells ((cell_of g)(row := (\<lambda>j.
          if col \<le> j \<and> j < e then cell_default
          else if Suc j = col \<and> c_width (f col) = 0 then cell_default
          else if j = e \<and> col < e \<and> c_width (f (e - 1)) = 2 then cell_default
          else f j))) g))"
proof (cases "C \<le> col")
  case True
  then show ?thesis
    using assms by (simp add: grid_erase_chars_def grid_okD)
next
  case False
  define e where "e = min (col + n) C"
  have e: "col \<le> e" "e \<le> C"
    using False by (auto simp: e_def)
  let ?F = "cell_of g"
  let ?G = "blank_if (0 < col \<and> c_width (?F row col) = 0) row (col - 1) ?F"
  let ?H = "blank_if ((e < C \<and> col < e) \<and> c_width (?G row (e - 1)) = 2) row e ?G"
  have g: "with_cells ?F g = g"
    by (rule with_cells_id)
  have "grid_erase_chars row col n (with_cells ?F g)
      = foldM (\<lambda>g c. reset_cell row c g) [col..<e] (with_cells ?H g)"
  proof -
    have 1: "0 < col \<longrightarrow> col < C \<and> col - 1 < C"
      using False by auto
    have 2: "e < C \<and> col < e \<longrightarrow> e - 1 < C \<and> e < C"
      by auto
    have 3: "(R \<le> row \<or> C \<le> col) = False"
      using False assms(2) by simp
    show ?thesis
      unfolding grid_erase_chars_def Let_def with_cells_frame grid_ok_cols [OF assms(1)]
        grid_ok_rows [OF assms(1)] e_def [symmetric] 3 if_False
        reset_if_with_cells [OF assms(1,2) 1] bind.bind_lunit
      unfolding with_cells_frame grid_ok_cols [OF assms(1)]
        reset_if_with_cells [OF assms(1,2) 2] bind.bind_lunit ..
  qed
  also have "\<dots> = Some (with_cells (\<lambda>i' j. if i' = row \<and> col \<le> j \<and> j < e then cell_default else ?H i' j) g)"
    by (rule reset_range_with_cells [OF assms e(2)])
  also have "with_cells (\<lambda>i' j. if i' = row \<and> col \<le> j \<and> j < e then cell_default else ?H i' j) g
      = with_cells (?F(row := (\<lambda>j.
          if col \<le> j \<and> j < e then cell_default
          else if Suc j = col \<and> c_width (?F row col) = 0 then cell_default
          else if j = e \<and> col < e \<and> c_width (?F row (e - 1)) = 2 then cell_default
          else ?F row j))) g"
  proof (rule with_cells_cong [OF assms(1)])
    fix i j
    assume "j < C"
    show "(if i = row \<and> col \<le> j \<and> j < e then cell_default else ?H i j)
      = (?F(row := (\<lambda>j.
          if col \<le> j \<and> j < e then cell_default
          else if Suc j = col \<and> c_width (?F row col) = 0 then cell_default
          else if j = e \<and> col < e \<and> c_width (?F row (e - 1)) = 2 then cell_default
          else ?F row j))) i j"
      using \<open>j < C\<close> by (cases "col < e") (auto simp: blank_if_apply)
  qed
  finally show ?thesis
    using False unfolding g by (simp add: e_def [symmetric] Let_def)
qed

section \<open>No operation panics or breaks the invariant\<close>

lemma grid_cell_ok:
  "grid_ok C R g \<Longrightarrow> 0 < C \<Longrightarrow> 0 < R \<Longrightarrow>
   grid_cell g r c = Some (cell_of g (min r (R - 1)) (min c (C - 1)))"
  by (auto simp: grid_cell_def clamp_row_def clamp_col_def grid_okD intro!: cell_at_ok)

lemma grid_cell_mut_eq:
  assumes "grid_ok C R g" "0 < C" "0 < R"
  shows "grid_cell_mut r c f (with_cells F g) =
    (let i = min r (R - 1); j = min c (C - 1) in Some (with_cells (set_at i j (f (F i j)) F) g))"
proof -
  have b: "min r (R - 1) < R" "min c (C - 1) < C"
    using assms by auto
  show ?thesis
    by (simp only: grid_cell_mut_def grid_cell_def clamp_row_def clamp_col_def with_cells_frame
        grid_ok_cols [OF assms(1)] grid_ok_rows [OF assms(1)] Let_def
        cell_at_with_cells [OF assms(1) b] put_cell_with_cells [OF assms(1) b] bind.bind_lunit)
qed

lemma grid_cell_mut_ok:
  assumes "grid_ok C R g" "0 < C" "0 < R"
  shows "returns (grid_cell_mut r c f g) (grid_ok C R)"
  using assms grid_cell_mut_eq [OF assms, of r c f "cell_of g"] by (simp add: with_cells_id Let_def)

lemma grid_row_ok:
  "grid_ok C R g \<Longrightarrow> 0 < R \<Longrightarrow> grid_row g r = Some (g_lines g ! min r (R - 1))"
  by (auto simp: grid_row_def clamp_row_def grid_okD)

lemma grid_row_mut_eq:
  "grid_ok C R g \<Longrightarrow> 0 < R \<Longrightarrow>
   grid_row_mut r f g = Some (g\<lparr>g_lines := (g_lines g)[min r (R - 1) := f (g_lines g ! min r (R - 1))]\<rparr>)"
  by (simp add: grid_row_mut_def grid_row_ok put_line_def clamp_row_def grid_okD)

lemma grid_ok_line_update:
  "grid_ok C R g \<Longrightarrow> length (r_cells l) = C \<Longrightarrow> grid_ok C R (g\<lparr>g_lines := (g_lines g)[i := l]\<rparr>)"
  by (auto intro!: grid_ok_set_lines simp: grid_okD dest!: set_update_subset_insert [THEN subsetD]
      dest: grid_ok_mem)

lemma grid_row_mut_ok:
  assumes "grid_ok C R g" "0 < R" "\<And>l. length (r_cells (f l)) = length (r_cells l)"
  shows "returns (grid_row_mut r f g) (grid_ok C R)"
  using assms by (simp add: grid_row_mut_eq grid_ok_line_update grid_okD)

lemma grid_scroll_up_ok:
  "grid_ok C R g \<Longrightarrow> b \<le> R \<Longrightarrow> returns (grid_scroll_up t b n g) (grid_ok C R)"
  using grid_ok_set_scrollback [OF grid_ok_shift(1) [of C R g b "row_new C" t n]]
  by (simp add: scroll_up_eq grid_okD)

lemma grid_scroll_down_ok:
  "grid_ok C R g \<Longrightarrow> b \<le> R \<Longrightarrow> returns (grid_scroll_down t b n g) (grid_ok C R)"
  by (simp add: scroll_down_eq grid_ok_shift)

lemma grid_insert_lines_ok:
  "grid_ok C R g \<Longrightarrow> b \<le> R \<Longrightarrow> returns (grid_insert_lines row n t b g) (grid_ok C R)"
  by (cases "t \<le> row \<and> row < b") (auto simp: insert_lines_eq grid_ok_shift, auto simp: grid_insert_lines_def)

lemma grid_delete_lines_ok:
  "grid_ok C R g \<Longrightarrow> b \<le> R \<Longrightarrow> returns (grid_delete_lines row n t b g) (grid_ok C R)"
  by (cases "t \<le> row \<and> row < b") (auto simp: delete_lines_eq grid_ok_shift, auto simp: grid_delete_lines_def)

lemma scroll_up_region_ok:
  "grid_ok C R g \<Longrightarrow> b \<le> R \<Longrightarrow> r \<le> C \<Longrightarrow> returns (grid_scroll_up_region t b l r n g) (grid_ok C R)"
  by (simp add: scroll_up_region_eq)

lemma scroll_down_region_ok:
  "grid_ok C R g \<Longrightarrow> b \<le> R \<Longrightarrow> r \<le> C \<Longrightarrow> returns (grid_scroll_down_region t b l r n g) (grid_ok C R)"
  by (simp add: scroll_down_region_eq)

lemma clear_row_ok: "grid_ok C R g \<Longrightarrow> r < R \<Longrightarrow> returns (clear_row r g) (grid_ok C R)"
  by (simp add: clear_row_eq grid_ok_line_update)

lemma clear_region_ok:
  "grid_ok C R g \<Longrightarrow> 0 < C \<Longrightarrow> 0 < R \<Longrightarrow> returns (clear_region t l b r g) (grid_ok C R)"
  by (simp add: clear_region_eq)

lemma erase_chars_ok: "grid_ok C R g \<Longrightarrow> returns (grid_erase_chars row col n g) (grid_ok C R)"
  by (cases "row < R") (simp_all add: erase_chars_eq Let_def, simp add: grid_erase_chars_def grid_okD)

lemma insert_cells_ok:
  "grid_ok C R g \<Longrightarrow> row < R \<Longrightarrow> returns (insert_cells_bounded row col n rb g) (grid_ok C R)"
  by (simp add: insert_cells_eq grid_ok_set_row_cells grid_okD)

lemma delete_cells_ok:
  "grid_ok C R g \<Longrightarrow> row < R \<Longrightarrow> returns (delete_cells_bounded row col n rb g) (grid_ok C R)"
  by (simp add: delete_cells_eq grid_ok_set_row_cells grid_okD)

lemmas grid_pres = grid_cell_mut_ok grid_scroll_up_ok grid_scroll_down_ok grid_insert_lines_ok
  grid_delete_lines_ok scroll_up_region_ok scroll_down_region_ok clear_row_ok clear_region_ok
  erase_chars_ok insert_cells_ok delete_cells_ok

end
