(* ===== verification/Term_Resize.thy ===== *)
theory Term_Resize
  imports Term_Grid_Props
begin

text \<open>
  \<open>Grid::resize_with_cursor\<close> and \<open>Grid::reflow_lines\<close> of \<open>crates/emux-term/src/grid.rs\<close>: a change of
  the number of columns regroups the rows of a soft-wrapped line, a change of the number of rows moves
  lines between the screen and the scrollback. The outer \<open>while\<close> loop of \<open>reflow_lines\<close> walks an index
  over the rows; here it walks the rows that are left, with the index of the first as \<open>start\<close>.
\<close>

section \<open>Reflow\<close>

definition blank_cell :: "cell \<Rightarrow> bool" where
  "blank_cell c \<longleftrightarrow> \<not> (c_char c \<noteq> 0x20 \<or> c_width c \<noteq> 1 \<or> \<not> attrs_is_default (c_attrs c) \<or>
     c_fg c \<noteq> DefaultColor \<or> c_bg c \<noteq> DefaultColor \<or> c_hyperlink c \<noteq> None)"

fun content_len :: "cell list \<Rightarrow> nat \<Rightarrow> nat" where
  "content_len cs 0 = 0"
| "content_len cs (Suc n) = (if blank_cell (cs ! n) then content_len cs n else Suc n)"

definition div_ceil :: "nat \<Rightarrow> nat \<Rightarrow> nat option" where
  "div_ceil a b = (if b = 0 then None else Some ((a + b - 1) div b))"

text \<open>One row of a re-split line: the cells \<open>[r * n, (r + 1) * n)\<close> on a blank row.\<close>

definition split_row :: "nat \<Rightarrow> cell list \<Rightarrow> nat \<Rightarrow> row" where
  "split_row n cs r =
     (let row_start = r * n; row_end = min ((r + 1) * n) (length cs) in
      \<lparr>r_cells = resize_with n cell_default (drop row_start (take row_end cs)), r_continuation = 0 < r\<rparr>)"

type_synonym reflowed = "row list \<times> nat option"

definition push_split :: "nat \<Rightarrow> cell list \<Rightarrow> bool \<Rightarrow> nat \<Rightarrow> nat \<Rightarrow> reflowed \<Rightarrow> reflowed" where
  "push_split n cs cursor_in offset r =
     (\<lambda>(result, cur). (result @ [split_row n cs r],
        if cursor_in \<and> r * n \<le> offset \<and> offset < (r + 1) * n then Some (length result) else cur))"

definition reflow_line ::
  "nat \<Rightarrow> nat \<Rightarrow> nat option \<Rightarrow> nat \<Rightarrow> nat \<Rightarrow> row list \<Rightarrow> reflowed \<Rightarrow> reflowed option" where
  "reflow_line old_cols new_cols cursor_abs cursor_col start line =
     (\<lambda>(result, cur).
       let cursor_in = (case cursor_abs of None \<Rightarrow> False
                        | Some cr \<Rightarrow> start \<le> cr \<and> cr < start + length line) in
       if length line = 1 then
         Some (result @ [row_resize new_cols (hd line)], if cursor_in then Some (length result) else cur)
       else
         let offset = (case cursor_abs of None \<Rightarrow> 0
               | Some cr \<Rightarrow> if cursor_in then (cr - start) * old_cols + cursor_col else 0);
             cs = concat (map r_cells line);
             len = content_len cs (length cs) in
         if len = 0 then
           Some (result @ [row_new new_cols], if cursor_in then Some (length result) else cur)
         else do {
           num_rows \<leftarrow> div_ceil len new_cols;
           let (result, cur) = fold (push_split new_cols cs cursor_in offset) [0..<num_rows] (result, cur);
           Some (result, if cursor_in \<and> cur = None then Some (length result - 1) else cur) })"

function reflow_loop ::
  "nat \<Rightarrow> nat \<Rightarrow> nat option \<Rightarrow> nat \<Rightarrow> nat \<Rightarrow> row list \<Rightarrow> reflowed \<Rightarrow> reflowed option" where
  "reflow_loop old_cols new_cols cursor_abs cursor_col start [] acc = Some acc"
| "reflow_loop old_cols new_cols cursor_abs cursor_col start (r # rows) acc =
     (let line = r # takeWhile r_continuation rows in do {
        acc \<leftarrow> reflow_line old_cols new_cols cursor_abs cursor_col start line acc;
        reflow_loop old_cols new_cols cursor_abs cursor_col (start + length line)
          (dropWhile r_continuation rows) acc })"
  by pat_completeness auto
termination
  by (relation "measure (\<lambda>(_, _, _, _, _, rows, _). length rows)")
     (auto simp: less_Suc_eq_le intro: length_dropWhile_le)

definition reflow_lines ::
  "row list \<Rightarrow> nat \<Rightarrow> nat \<Rightarrow> nat option \<Rightarrow> nat \<Rightarrow> reflowed option" where
  "reflow_lines rows old_cols new_cols cursor_abs cursor_col =
     reflow_loop old_cols new_cols cursor_abs cursor_col 0 rows ([], None)"

section \<open>Resize\<close>

definition resize_cols ::
  "nat \<Rightarrow> nat \<Rightarrow> (nat \<times> nat) option \<Rightarrow> grid \<Rightarrow> (grid \<times> int) option" where
  "resize_cols new_cols new_rows cursor g = do {
     let sb_len = length (g_scrollback g);
     (reflowed, new_abs) \<leftarrow> reflow_lines (g_scrollback g @ g_lines g) (g_cols g) new_cols
        (map_option (\<lambda>(r, _). sb_len + r) cursor) (case cursor of None \<Rightarrow> 0 | Some (_, c) \<Rightarrow> c);
     let total = length reflowed;
     let vp_count = min total new_rows;
     let sb_count = total - vp_count;
     let delta = (case new_abs of None \<Rightarrow> 0
        | Some a \<Rightarrow> int (a - sb_count) - int (case cursor of None \<Rightarrow> 0 | Some (r, _) \<Rightarrow> r));
     Some (g\<lparr>g_scrollback := pop_front_to (g_limit g) (take sb_count reflowed),
             g_lines := drop sb_count reflowed, g_cols := new_cols\<rparr>, delta) }"

text \<open>Growing: the newest scrollback lines, in the order they are popped, go above the screen.\<close>

fun unscroll :: "nat \<Rightarrow> nat \<Rightarrow> row list \<Rightarrow> row list \<Rightarrow> row list \<times> row list" where
  "unscroll new_cols 0 sb acc = (sb, acc)"
| "unscroll new_cols (Suc n) sb acc =
     (if sb = [] then unscroll new_cols n sb acc
      else unscroll new_cols n (butlast sb) (acc @ [row_resize new_cols (last sb)]))"

definition grow_rows :: "nat \<Rightarrow> nat \<Rightarrow> grid \<Rightarrow> grid \<times> int" where
  "grow_rows new_cols new_rows g =
     (let extra = new_rows - length (g_lines g);
          from_scrollback = min extra (length (g_scrollback g));
          (sb, above) = unscroll new_cols from_scrollback (g_scrollback g) [];
          ls = above @ g_lines g in
      (g\<lparr>g_scrollback := sb, g_lines := ls @ replicate (new_rows - length ls) (row_new new_cols)\<rparr>,
       int from_scrollback))"

definition row_looks_empty :: "row \<Rightarrow> bool" where
  "row_looks_empty r \<longleftrightarrow> list_all (\<lambda>c. c_char c = 0x20 \<and> c_attrs c = attrs_default) (r_cells r)"

definition shrink_step :: "grid \<times> int \<Rightarrow> grid \<times> int" where
  "shrink_step = (\<lambda>(g, d).
     if g_lines g = [] then (g, d)
     else if row_looks_empty (last (g_lines g)) then (g\<lparr>g_lines := butlast (g_lines g)\<rparr>, d)
     else (push_scrollback (hd (g_lines g)) (g\<lparr>g_lines := tl (g_lines g)\<rparr>), d - 1))"

definition shrink_rows :: "nat \<Rightarrow> grid \<Rightarrow> grid \<times> int" where
  "shrink_rows new_rows g = (shrink_step ^^ (length (g_lines g) - new_rows)) (g, 0)"

definition resize_rows :: "nat \<Rightarrow> nat \<Rightarrow> grid \<Rightarrow> grid \<times> int" where
  "resize_rows new_cols new_rows g =
     (if length (g_lines g) < new_rows then grow_rows new_cols new_rows g
      else if new_rows < length (g_lines g) then shrink_rows new_rows g
      else (g, 0))"

definition resize_with_cursor ::
  "nat \<Rightarrow> nat \<Rightarrow> (nat \<times> nat) option \<Rightarrow> grid \<Rightarrow> (grid \<times> int) option" where
  "resize_with_cursor new_cols new_rows cursor g =
     (if new_cols = g_cols g \<and> new_rows = g_rows g then Some (g, 0)
      else do {
        (g, d) \<leftarrow> (if new_cols \<noteq> g_cols g then resize_cols new_cols new_rows cursor g else Some (g, 0));
        let (g, d') = resize_rows new_cols new_rows g;
        Some (g\<lparr>g_cols := new_cols, g_rows := new_rows\<rparr>, d + d') })"

definition grid_resize :: "nat \<Rightarrow> nat \<Rightarrow> grid \<Rightarrow> (grid \<times> int) option" where
  "grid_resize new_cols new_rows g = resize_with_cursor new_cols new_rows None g"

section \<open>Sizes after a resize\<close>

lemma split_row_length: "length (r_cells (split_row n cs r)) = n"
  by (simp add: split_row_def Let_def)

lemma fold_push_split:
  "fst (fold (push_split n cs cin off) is (result, cur)) = result @ map (split_row n cs) is"
  by (induction "is" arbitrary: result cur) (simp_all add: push_split_def)

text \<open>The rows a logical line becomes.\<close>

definition line_rows :: "nat \<Rightarrow> row list \<Rightarrow> row list" where
  "line_rows n line =
     (let cs = concat (map r_cells line); len = content_len cs (length cs) in
      if length line = 1 then [row_resize n (hd line)]
      else if len = 0 then [row_new n]
      else map (split_row n cs) [0..<(len + n - 1) div n])"

text \<open>A line of several rows with something in it: only those are divided by the new width.\<close>

definition wrapped_text :: "row list \<Rightarrow> bool" where
  "wrapped_text line \<longleftrightarrow> 1 < length line \<and> \<not> list_all blank_cell (concat (map r_cells line))"

lemma content_len_zero: "content_len cs n = 0 \<longleftrightarrow> (\<forall>i < n. blank_cell (cs ! i))"
  by (induction n) (auto simp: less_Suc_eq)

lemma wrapped_text_iff:
  "line \<noteq> [] \<Longrightarrow> wrapped_text line \<longleftrightarrow> length line \<noteq> 1 \<and>
     content_len (concat (map r_cells line)) (length (concat (map r_cells line))) \<noteq> 0"
  unfolding content_len_zero wrapped_text_def list_all_length by (cases line) auto

lemma reflow_line_rows:
  assumes "0 < n \<or> \<not> wrapped_text line" and "line \<noteq> []"
  shows "\<exists>cur'. reflow_line m n ca cc start line (result, cur) = Some (result @ line_rows n line, cur')"
proof (cases "length line = 1")
  case True
  then show ?thesis
    by (simp add: reflow_line_def line_rows_def)
next
  case multi: False
  define cs where "cs = concat (map r_cells line)"
  show ?thesis
  proof (cases "content_len cs (length cs) = 0")
    case True
    with multi show ?thesis
      by (simp add: reflow_line_def line_rows_def cs_def [symmetric] Let_def)
  next
    case False
    define cin where "cin = (case ca of None \<Rightarrow> False | Some cr \<Rightarrow> start \<le> cr \<and> cr < start + length line)"
    define off where "off = (case ca of None \<Rightarrow> 0 | Some cr \<Rightarrow> if cin then (cr - start) * m + cc else 0)"
    define k where "k = (content_len cs (length cs) + n - 1) div n"
    obtain res cur' where f: "fold (push_split n cs cin off) [0..<k] (result, cur) = (res, cur')"
      by fastforce
    then have res: "res = result @ map (split_row n cs) [0..<k]"
      using fold_push_split [of n cs cin off "[0..<k]" result cur] by simp
    have "0 < n"
      using assms wrapped_text_iff multi False by (auto simp: cs_def)
    with multi False f res show ?thesis
      by (simp add: reflow_line_def line_rows_def cs_def [symmetric] Let_def div_ceil_def
          cin_def [symmetric] off_def [symmetric] k_def [symmetric] del: One_nat_def)
  qed
qed

text \<open>The logical lines: a row and the continuation rows after it.\<close>

function logical_lines :: "row list \<Rightarrow> row list list" where
  "logical_lines [] = []"
| "logical_lines (r # rows) =
     (r # takeWhile r_continuation rows) # logical_lines (dropWhile r_continuation rows)"
  by pat_completeness auto
termination
  by (relation "measure length") (auto simp: less_Suc_eq_le intro: length_dropWhile_le)

lemma reflow_loop_rows:
  assumes "0 < n \<or> \<not> list_ex wrapped_text (logical_lines rows)"
  shows "\<exists>cur'. reflow_loop m n ca cc start rows (result, cur)
      = Some (result @ concat (map (line_rows n) (logical_lines rows)), cur')"
  using assms
proof (induction rows arbitrary: start result cur rule: logical_lines.induct)
  case 1
  then show ?case by simp
next
  case (2 r rows)
  define line where "line = r # takeWhile r_continuation rows"
  have "0 < n \<or> \<not> wrapped_text line" "line \<noteq> []"
    using 2(2) by (auto simp: line_def)
  from reflow_line_rows [OF this] obtain cur' where
      "reflow_line m n ca cc start line (result, cur) = Some (result @ line_rows n line, cur')"
    by blast
  then show ?case
    using 2(1) [of "start + length line" "result @ line_rows n line" cur'] 2(2)
    by (auto simp: line_def [symmetric] Let_def)
qed

lemma reflow_line_panics:
  "wrapped_text line \<Longrightarrow> reflow_line m 0 ca cc start line acc = None"
  using wrapped_text_iff [of line] by (cases acc; cases "line = []") (auto simp: reflow_line_def div_ceil_def Let_def wrapped_text_def)

lemma reflow_loop_panics:
  "list_ex wrapped_text (logical_lines rows) \<Longrightarrow> reflow_loop m 0 ca cc start rows acc = None"
proof (induction rows arbitrary: start acc rule: logical_lines.induct)
  case (2 r rows)
  then show ?case
    by (cases "reflow_line m 0 ca cc start (r # takeWhile r_continuation rows) acc")
       (auto simp: Let_def reflow_line_panics)
qed simp

lemma line_rows_length: "l \<in> set (line_rows n line) \<Longrightarrow> length (r_cells l) = n"
  by (auto simp: line_rows_def Let_def split_row_length split: if_splits)

lemma reflow_rows:
  assumes "0 < n \<or> \<not> list_ex wrapped_text (logical_lines rows)"
  shows "\<exists>cur'. reflow_lines rows m n ca cc = Some (concat (map (line_rows n) (logical_lines rows)), cur')"
  using reflow_loop_rows [OF assms, of m ca cc 0 "[]" None] by (simp add: reflow_lines_def)

lemma reflow_lines_length:
  "0 < n \<or> \<not> list_ex wrapped_text (logical_lines rows) \<Longrightarrow> returns (reflow_lines rows m n ca cc) (\<lambda>(ls, _). list_all (\<lambda>l. length (r_cells l) = n) ls)"
  using reflow_rows [of n rows m ca cc] by (auto simp: list_all_iff dest: line_rows_length)

text \<open>What holds of a grid between the two halves of a resize.\<close>

definition grid_lines_ok :: "nat \<Rightarrow> grid \<Rightarrow> bool" where
  "grid_lines_ok C g \<longleftrightarrow>
     list_all (\<lambda>l. length (r_cells l) = C) (g_lines g) \<and> length (g_scrollback g) \<le> g_limit g"

lemma resize_cols_ok:
  assumes "0 < n \<or> \<not> list_ex wrapped_text (logical_lines (g_scrollback g @ g_lines g))"
  shows "returns (resize_cols n rows cursor g) (\<lambda>(g', d). grid_lines_ok n g' \<and> g_limit g' = g_limit g)"
proof -
  obtain ls cur where "reflow_lines (g_scrollback g @ g_lines g) (g_cols g) n
        (map_option (\<lambda>(r, _). length (g_scrollback g) + r) cursor) (case cursor of None \<Rightarrow> 0 | Some (_, c) \<Rightarrow> c)
      = Some (ls, cur)" and "list_all (\<lambda>l. length (r_cells l) = n) ls"
    using reflow_lines_length [OF assms, unfolded returns_iff] by fastforce
  then show ?thesis
    by (auto simp: resize_cols_def Let_def grid_lines_ok_def list_all_iff pop_front_to_eq dest: in_set_dropD)
qed

lemma unscroll_props:
  "length sb \<ge> n \<Longrightarrow> unscroll C n sb acc = (sb', acc') \<Longrightarrow>
   length sb' = length sb - n \<and> length acc' = length acc + n \<and>
   (list_all (\<lambda>l. length (r_cells l) = C) acc \<longrightarrow> list_all (\<lambda>l. length (r_cells l) = C) acc')"
proof (induction C n sb acc rule: unscroll.induct)
  case (2 C n sb acc)
  then show ?case
    by (cases "sb = []") fastforce+
qed simp

lemma grow_rows_ok:
  assumes "grid_lines_ok C g" "length (g_lines g) \<le> R"
  shows "case grow_rows C R g of (g', d) \<Rightarrow>
    grid_lines_ok C g' \<and> length (g_lines g') = R \<and> g_limit g' = g_limit g"
proof -
  define n where "n = min (R - length (g_lines g)) (length (g_scrollback g))"
  obtain sb above where u: "unscroll C n (g_scrollback g) [] = (sb, above)"
    by fastforce
  have "length sb = length (g_scrollback g) - n \<and> length above = n \<and>
      list_all (\<lambda>l. length (r_cells l) = C) above"
    using unscroll_props [OF _ u] by (simp add: n_def)
  then show ?thesis
    using assms by (auto simp: grow_rows_def n_def [symmetric] u grid_lines_ok_def list_all_iff)
      (auto simp: n_def)
qed

lemma shrink_step_ok:
  assumes "grid_lines_ok C g" "g_lines g \<noteq> []"
  shows "case shrink_step (g, d) of (g', d') \<Rightarrow>
    grid_lines_ok C g' \<and> length (g_lines g') = length (g_lines g) - 1 \<and> g_limit g' = g_limit g"
  using assms
  by (auto simp: shrink_step_def grid_lines_ok_def push_scrollback_def pop_front_to_eq list_all_iff
      dest: in_set_butlastD list.set_sel(2))

lemma shrink_steps_ok:
  "grid_lines_ok C g \<Longrightarrow> n \<le> length (g_lines g) \<Longrightarrow>
   case (shrink_step ^^ n) (g, d) of (g', d') \<Rightarrow>
     grid_lines_ok C g' \<and> length (g_lines g') = length (g_lines g) - n \<and> g_limit g' = g_limit g"
proof (induction n)
  case 0
  then show ?case by simp
next
  case (Suc n)
  obtain g' d' where s: "(shrink_step ^^ n) (g, d) = (g', d')" by fastforce
  with Suc have g': "grid_lines_ok C g'" "length (g_lines g') = length (g_lines g) - n"
    "g_limit g' = g_limit g" and "g_lines g' \<noteq> []"
    by auto
  then show ?case
    using shrink_step_ok [of C g' d'] s by auto
qed

lemma resize_rows_ok:
  assumes "grid_lines_ok C g"
  shows "case resize_rows C R g of (g', d) \<Rightarrow>
    grid_lines_ok C g' \<and> length (g_lines g') = R \<and> g_limit g' = g_limit g"
  using assms grow_rows_ok [of C g R] shrink_steps_ok [of C g "length (g_lines g) - R" 0]
  by (auto simp: resize_rows_def shrink_rows_def)

lemma resize_cols_panics:
  "list_ex wrapped_text (logical_lines (g_scrollback g @ g_lines g)) \<Longrightarrow> resize_cols 0 rows cursor g = None"
  by (simp add: resize_cols_def reflow_lines_def reflow_loop_panics Let_def)

lemma resize_ok_iff:
  assumes "grid_ok C R g"
    and "0 < n \<or> n = C \<or> \<not> list_ex wrapped_text (logical_lines (g_scrollback g @ g_lines g))"
  shows "returns (resize_with_cursor n rows cursor g) (\<lambda>(g', d). grid_ok n rows g' \<and> g_limit g' = g_limit g)"
proof -
  have lines: "n = C \<Longrightarrow> grid_lines_ok n g"
    using assms(1) by (auto simp: grid_lines_ok_def grid_ok_def)
  have fin: "returns (let (g, d') = resize_rows n rows h in Some (g\<lparr>g_cols := n, g_rows := rows\<rparr>, d + d'))
      (\<lambda>(g', d). grid_ok n rows g' \<and> g_limit g' = g_limit h)" if "grid_lines_ok n h" for h d
    using resize_rows_ok [OF that, of rows]
    by (cases "resize_rows n rows h") (auto simp: grid_ok_def grid_lines_ok_def)
  show ?thesis
  proof (cases "n = C")
    case True
    then show ?thesis
      using assms lines fin [of g 0] by (auto simp: resize_with_cursor_def grid_okD)
  next
    case False
    have "returns (resize_cols n rows cursor g) (\<lambda>(g', d). grid_lines_ok n g' \<and> g_limit g' = g_limit g)"
      using assms(2) False by (intro resize_cols_ok) auto
    then obtain h d where h: "resize_cols n rows cursor g = Some (h, d)" "grid_lines_ok n h" "g_limit h = g_limit g"
      by (auto simp: returns_iff)
    show ?thesis
      using False h(3) fin [OF h(2), of d] by (simp add: resize_with_cursor_def grid_ok_cols [OF assms(1)] h(1))
  qed
qed

lemma resize_ok:
  "grid_ok C R g \<Longrightarrow> 0 < n \<Longrightarrow>
   returns (resize_with_cursor n rows cursor g) (\<lambda>(g', d). grid_ok n rows g' \<and> g_limit g' = g_limit g)"
  by (rule resize_ok_iff) simp_all

end
