(* ===== verification/Term_Resize_Props.thy ===== *)
theory Term_Resize_Props
  imports Term_Resize
begin

text \<open>
  What a reflow keeps. The text of a logical line is the cells of its rows put together, without the
  trailing blanks (\<open>strip\<close>); a reflow to at least as many columns keeps the text of every logical line,
  and their number and order.
\<close>

definition strip :: "cell list \<Rightarrow> cell list" where
  "strip cs = take (content_len cs (length cs)) cs"

definition line_text :: "row list \<Rightarrow> cell list" where
  "line_text line = strip (concat (map r_cells line))"

lemma content_len_le: "content_len cs n \<le> n"
  by (induction n) auto

lemma content_len_blank: "content_len cs n \<le> i \<Longrightarrow> i < n \<Longrightarrow> blank_cell (cs ! i)"
  by (induction n) (auto simp: less_Suc_eq split: if_splits)

lemma content_len_rev: "n \<le> length cs \<Longrightarrow> content_len cs n = length (dropWhile blank_cell (rev (take n cs)))"
  by (induction n) (simp_all add: take_Suc_conv_app_nth)

lemma strip_rev: "strip cs = rev (dropWhile blank_cell (rev cs))"
proof -
  have "rev (dropWhile blank_cell (rev cs)) = take (length (dropWhile blank_cell (rev cs))) cs"
    by (metis length_rev rev_take rev_rev_ident dropWhile_eq_drop length_drop diff_diff_cancel
        length_takeWhile_le rev_drop)
  then show ?thesis
    by (simp add: strip_def content_len_rev)
qed

lemma strip_append_blanks: "list_all blank_cell ys \<Longrightarrow> strip (xs @ ys) = strip xs"
  unfolding strip_rev rev_append by (subst dropWhile_append2) (auto simp: list_all_iff)

lemma strip_blanks: "list_all blank_cell cs \<Longrightarrow> strip cs = []"
  using strip_append_blanks [of cs "[]"] by (simp add: strip_def)

lemma blank_default [simp]: "blank_cell cell_default"
  by (simp add: blank_cell_def cell_default_def attrs_is_default_def)

lemma nth_resize_with:
  "i < n \<Longrightarrow> resize_with n x xs ! i = (if i < length xs then xs ! i else x)"
  by (auto simp: resize_with_def nth_append)

lemma concat_split_rows:
  "concat (map (\<lambda>r. r_cells (split_row n cs r)) [0..<k]) = resize_with (k * n) cell_default cs"
proof (induction k)
  case 0
  then show ?case by (simp add: resize_with_def)
next
  case (Suc k)
  have "resize_with (k * n) cell_default cs
      @ resize_with n cell_default (drop (k * n) (take (min ((k + 1) * n) (length cs)) cs))
      = resize_with (Suc k * n) cell_default cs"
    by (rule nth_equalityI) (auto simp: nth_append nth_resize_with)
  moreover have "r_cells (split_row n cs k)
      = resize_with n cell_default (drop (k * n) (take (min ((k + 1) * n) (length cs)) cs))"
    by (simp add: split_row_def Let_def)
  moreover have "concat (map (\<lambda>r. r_cells (split_row n cs r)) [0..<Suc k])
      = concat (map (\<lambda>r. r_cells (split_row n cs r)) [0..<k]) @ r_cells (split_row n cs k)"
    by simp
  ultimately show ?case
    using Suc by simp
qed

lemma div_ceil_enough: "0 < n \<Longrightarrow> l \<le> (l + n - 1) div n * (n :: nat)"
  using div_mult_mod_eq [of "l + n - 1" n] mod_less_divisor [of n "l + n - 1"] by linarith

text \<open>One logical line keeps its text, if its rows are not wider than the new width.\<close>

lemma line_text_rows:
  assumes "0 < n" "line \<noteq> []" "length line = 1 \<Longrightarrow> length (r_cells (hd line)) \<le> n"
  shows "line_text (line_rows n line) = line_text line"
proof -
  define cs where "cs = concat (map r_cells line)"
  define len where "len = content_len cs (length cs)"
  consider "length line = 1" | "length line \<noteq> 1" "len = 0" | "length line \<noteq> 1" "0 < len"
    by blast
  then show ?thesis
  proof cases
    case 1
    then obtain r where r: "line = [r]"
      by (cases line) auto
    then have "resize_with n cell_default (r_cells r)
        = r_cells r @ replicate (n - length (r_cells r)) cell_default"
      using assms(3) 1 by (simp add: resize_with_def)
    then show ?thesis
      using r by (simp add: line_text_def line_rows_def row_resize_def strip_append_blanks list_all_iff)
  next
    case 2
    then have "strip cs = []"
      by (simp add: strip_def len_def)
    then show ?thesis
      using 2 by (simp add: line_text_def line_rows_def cs_def [symmetric] len_def [symmetric] row_new_def
          strip_blanks list_all_iff)
  next
    case 3
    define k where "k = (len + n - 1) div n"
    have "len \<le> k * n"
      unfolding k_def by (rule div_ceil_enough [OF assms(1)])
    then have "list_all blank_cell (drop (k * n) cs)"
      by (auto simp: list_all_length len_def intro!: content_len_blank [of cs "length cs"])
    then have "strip (take (k * n) cs) = strip cs"
      using strip_append_blanks [of "drop (k * n) cs" "take (k * n) cs"] by simp
    then have "strip (resize_with (k * n) cell_default cs) = strip cs"
      by (simp add: resize_with_def strip_append_blanks list_all_iff)
    moreover have "line_rows n line = map (split_row n cs) [0..<k]"
      using 3 by (simp add: line_rows_def cs_def [symmetric] len_def [symmetric] k_def)
    ultimately show ?thesis
      by (simp add: line_text_def cs_def [symmetric] comp_def concat_split_rows)
  qed
qed

lemma logical_lines_block:
  assumes "ls \<noteq> []" "list_all r_continuation (tl ls)" "rest = [] \<or> \<not> r_continuation (hd rest)"
  shows "logical_lines (ls @ rest) = ls # logical_lines rest"
proof -
  obtain r ts where ls: "ls = r # ts"
    using assms(1) by (cases ls) auto
  have "takeWhile r_continuation rest = []" "dropWhile r_continuation rest = rest"
    using assms(3) by (cases rest; simp)+
  then have "takeWhile r_continuation (ts @ rest) = ts" "dropWhile r_continuation (ts @ rest) = rest"
    using assms(2) by (simp_all add: ls list_all_iff takeWhile_append2 dropWhile_append2)
  then show ?thesis
    by (simp add: ls)
qed

lemma line_rows_block: "0 < n \<Longrightarrow> line \<noteq> [] \<Longrightarrow> line_rows n line \<noteq> [] \<and> list_all r_continuation (tl (line_rows n line))"
proof -
  assume n: "0 < n" and "line \<noteq> []"
  have "tl (map (split_row n cs) [0..<k]) = map (split_row n cs) [1..<k]" for cs k
    by (cases k) (simp_all add: upt_conv_Cons del: upt_Suc)
  moreover have "(l + n - 1) div n \<noteq> 0" if "0 < l" for l
    using that n by (simp add: div_eq_0_iff)
  ultimately show ?thesis
    by (auto simp: line_rows_def Let_def list_all_iff split_row_def)
qed

lemma line_rows_head:
  assumes "0 < n" "line \<noteq> []" "\<not> r_continuation (hd line)"
  shows "\<not> r_continuation (hd (line_rows n line))"
proof -
  have "0 < (l + n - 1) div n" if "0 < l" for l
    using that assms(1) by (simp add: div_greater_zero_iff)
  then have "hd (map (split_row n cs) [0..<(l + n - 1) div n]) = split_row n cs 0" if "0 < l" for cs l
    using that by (simp add: hd_map)
  then show ?thesis
    using assms by (auto simp: line_rows_def Let_def row_resize_def row_new_def split_row_def)
qed

definition starts_fresh :: "row list \<Rightarrow> bool" where
  "starts_fresh rows \<longleftrightarrow> rows = [] \<or> \<not> r_continuation (hd rows)"

lemma starts_fresh_dropWhile: "starts_fresh (dropWhile r_continuation rows)"
  by (cases "dropWhile r_continuation rows = []") (simp_all add: starts_fresh_def hd_dropWhile)

lemma starts_fresh_reflow:
  assumes "0 < n" "starts_fresh rows"
  shows "starts_fresh (concat (map (line_rows n) (logical_lines rows)))"
proof (cases rows)
  case (Cons r rs)
  then show ?thesis
    using assms line_rows_head [of n "r # takeWhile r_continuation rs"]
      line_rows_block [of n "r # takeWhile r_continuation rs"]
    by (auto simp: starts_fresh_def)
qed (simp add: starts_fresh_def)

lemma logical_lines_reflow:
  "0 < n \<Longrightarrow> logical_lines (concat (map (line_rows n) (logical_lines rows)))
     = map (line_rows n) (logical_lines rows)"
proof (induction rows rule: logical_lines.induct)
  case 1
  then show ?case by simp
next
  case (2 r rows)
  have "starts_fresh (concat (map (line_rows n) (logical_lines (dropWhile r_continuation rows))))"
    by (rule starts_fresh_reflow [OF 2(2) starts_fresh_dropWhile])
  then show ?case
    using 2 line_rows_block [of n "r # takeWhile r_continuation rows"]
    by (simp add: logical_lines_block starts_fresh_def)
qed

lemma logical_lines_rows:
  "line \<in> set (logical_lines rows) \<Longrightarrow> line \<noteq> [] \<and> set line \<subseteq> set rows"
proof (induction rows rule: logical_lines.induct)
  case (2 r rows)
  then show ?case
    by (auto dest: set_takeWhileD set_dropWhileD)
qed simp

lemma reflow_keeps_text:
  assumes "0 < n" "list_all (\<lambda>l. length (r_cells l) \<le> n) rows"
    and "reflow_lines rows m n ca cc = Some (result, cur)"
  shows "map line_text (logical_lines result) = map line_text (logical_lines rows)"
proof -
  have "result = concat (map (line_rows n) (logical_lines rows))"
    using reflow_rows [of n rows m ca cc] assms(1,3) by auto
  then have "map line_text (logical_lines result) = map (\<lambda>l. line_text (line_rows n l)) (logical_lines rows)"
    by (simp add: logical_lines_reflow [OF assms(1)])
  also have "\<dots> = map line_text (logical_lines rows)"
  proof (rule map_cong [OF refl])
    fix line
    assume "line \<in> set (logical_lines rows)"
    then have "line \<noteq> []" "set line \<subseteq> set rows"
      using logical_lines_rows by blast+
    then show "line_text (line_rows n line) = line_text line"
      using assms(1,2) by (intro line_text_rows) (auto simp: list_all_iff subset_iff)
  qed
  finally show ?thesis .
qed

end
