(* ===== verification/Grid_Properties.thy ===== *)
theory Grid_Properties
  imports Term_Resize_Props
begin

text \<open>
  The properties of the terminal grid (\<open>grid.rs\<close>): scrolling loses no line but
  the oldest at the limit of the scrollback, inserting and deleting lines are scrolls, inserting and deleting
  cells are inverse, erasing never leaves half of a wide character, a resize gives the grid its new shape
  but for one panic, and a widening reflow keeps the text.
\<close>

text \<open>
  C30: scrolling the whole screen up by any number of lines, however full the scrollback is: the lines that
  leave the screen are appended to the scrollback, of which the newest as many as its limit stay, and blank
  lines come in below. So while there is room no line is lost: the scrollback followed by the screen is what
  it was, with the blank lines below; at the limit exactly the oldest lines are dropped.
\<close>
theorem scroll_up_keeps_history:
  assumes "grid_ok C R g"
  shows "returns (grid_scroll_up 0 R n g) (\<lambda>g'. grid_ok C R g' \<and> (let m = min n R in
     g_scrollback g' @ g_lines g' =
       drop (length (g_scrollback g) + m - g_limit g) (g_scrollback g @ g_lines g @ replicate m (row_new C)) \<and>
     length (g_scrollback g') = min (length (g_scrollback g) + m) (g_limit g)))"
proof -
  define m where "m = min n R"
  have len: "length (g_lines g) = R" "m \<le> R"
    using assms(1) by (simp_all add: grid_ok_lines m_def)
  have "returns (grid_scroll_up 0 R n g) (grid_ok C R)"
    using assms(1) by (intro grid_scroll_up_ok) simp_all
  moreover have "shift_up 0 R n (row_new C) (g_lines g) = drop m (g_lines g) @ replicate m (row_new C)"
    using len by (cases "R = 0") (simp_all add: shift_up_def m_def Let_def)
  moreover have "take_last (g_limit g) (g_scrollback g @ take m (g_lines g)) =
      drop (length (g_scrollback g) + m - g_limit g) (g_scrollback g @ take m (g_lines g))"
    using len by (simp add: take_last_def)
  moreover have "drop (m - g_limit g) (take m (g_lines g)) @ drop m (g_lines g) = drop (m - g_limit g) (g_lines g)"
    using len drop_append [of "m - g_limit g" "take m (g_lines g)" "drop m (g_lines g)"] by simp
  moreover have "length (g_scrollback g) \<le> g_limit g"
    using assms(1) by (simp add: grid_ok_def)
  ultimately show ?thesis
    using scroll_up_eq [OF assms(1) order.refl, of 0 n] len by (auto simp: m_def [symmetric] Let_def)
qed

theorem scroll_up_keeps_history_witness:
  "returns (grid_scroll_up 0 2 1 (grid_new 3 2)) (\<lambda>g'. grid_ok 3 2 g' \<and>
     g_scrollback g' @ g_lines g' = replicate 3 (row_new 3))"
  by (rule returns_mono [OF scroll_up_keeps_history [OF grid_ok_new [of 3 2]]])
     (simp add: grid_new_def numeral_3_eq_3 numeral_2_eq_2)

text \<open>
  Within the scroll region, inserting lines at the cursor is scrolling the region below the
  cursor down, and deleting lines, below the top of the screen, is scrolling it up: the two
  element-wise copy loops and the slice rotation compute the same.
\<close>
theorem insert_delete_lines_are_scrolls:
  assumes "grid_ok C R g" and "t \<le> row" and "row < b" and "b \<le> R"
  shows "grid_insert_lines row n t b g = grid_scroll_down row b n g \<and>
    (0 < row \<longrightarrow> grid_delete_lines row n t b g = grid_scroll_up row b n g)"
  using assms by (simp_all add: insert_lines_eq delete_lines_eq scroll_down_eq scroll_up_eq)

theorem insert_delete_lines_are_scrolls_witness:
  "grid_insert_lines 1 1 0 3 (grid_new 4 3) = grid_scroll_down 1 3 1 (grid_new 4 3) \<and>
   grid_delete_lines 1 1 0 3 (grid_new 4 3) = grid_scroll_up 1 3 1 (grid_new 4 3)"
  using insert_delete_lines_are_scrolls [OF grid_ok_new, of 0 1 3 3 1 4] by simp

text \<open>
  The margin-bounded scrolls over the full width move the same cells as the full-width ones: each
  row of the region ends with the cells the line scroll leaves there. (They differ in the rest: the
  bounded scroll leaves the soft-wrap flags where they were and adds nothing to the scrollback.)
\<close>
theorem region_scroll_moves_same_cells:
  assumes "grid_ok C R g" and "b \<le> R"
  shows "map_option (\<lambda>g'. map r_cells (g_lines g')) (grid_scroll_up_region t b 0 C n g)
      = map_option (\<lambda>g'. map r_cells (g_lines g')) (grid_scroll_up t b n g) \<and>
    map_option (\<lambda>g'. map r_cells (g_lines g')) (grid_scroll_down_region t b 0 C n g)
      = map_option (\<lambda>g'. map r_cells (g_lines g')) (grid_scroll_down t b n g)"
proof -
  have cells: "map r_cells (g_lines (with_cells F g)) = map (\<lambda>r. map (F r) [0..<C]) [0..<R]" for F
    using assms(1) by (simp add: with_cells_def grid_okD comp_def)
  have row: "r_cells (g_lines g ! i) = map (cell_of g i) [0..<C]" if "i < R" for i
    using grid_ok_line [OF assms(1) that] by (intro nth_equalityI) (simp_all add: cell_of_def)
  have "map_option (\<lambda>g'. map r_cells (g_lines g')) (grid_scroll_up_region t b 0 C n g)
      = map_option (\<lambda>g'. map r_cells (g_lines g')) (grid_scroll_up t b n g)"
    using assms
    by (simp add: scroll_up_region_eq scroll_up_eq cells)
       (rule nth_equalityI; auto simp: grid_okD nth_shift_up scrolled_up_def in_rect_def row row_new_def
         intro!: nth_equalityI)
  moreover have "map_option (\<lambda>g'. map r_cells (g_lines g')) (grid_scroll_down_region t b 0 C n g)
      = map_option (\<lambda>g'. map r_cells (g_lines g')) (grid_scroll_down t b n g)"
    using assms
    by (simp add: scroll_down_region_eq scroll_down_eq cells)
       (rule nth_equalityI; auto simp: grid_okD nth_shift_down scrolled_down_def in_rect_def row row_new_def
         intro!: nth_equalityI)
  ultimately show ?thesis ..
qed

theorem region_scroll_moves_same_cells_witness:
  "map_option (\<lambda>g'. map r_cells (g_lines g')) (grid_scroll_up_region 0 2 0 4 1 (grid_new 4 3))
      = map_option (\<lambda>g'. map r_cells (g_lines g')) (grid_scroll_up 0 2 1 (grid_new 4 3))"
  using region_scroll_moves_same_cells [OF grid_ok_new, of 2 3 0 4 1] by simp

text \<open>
  Inserting blank cells and deleting as many at the same place restores the row, except for the
  cells that the insertion pushed past the margin, which come back blank.
\<close>
theorem insert_delete_cells:
  assumes "grid_ok C R g" and "row < R" and "col + n \<le> rb" and "rb \<le> C"
  shows "Option.bind (insert_cells_bounded row col n rb g) (delete_cells_bounded row col n rb)
     = Some (set_row_cells row (take (rb - n) (row_cells g row) @ replicate n cell_default
         @ drop rb (row_cells g row)) g)"
proof -
  define h where "h = set_row_cells row (shift_down col rb n cell_default (row_cells g row)) g"
  have h: "insert_cells_bounded row col n rb g = Some h"
    using assms by (simp add: insert_cells_eq h_def min_absorb1)
  have "grid_ok C R h"
    using assms by (auto simp: h_def grid_okD intro!: grid_ok_set_row_cells)
  moreover have "row_cells h row = shift_down col rb n cell_default (row_cells g row)"
    using assms by (simp add: h_def set_row_cells_def grid_okD)
  moreover have "set_row_cells row cs h = set_row_cells row cs g" for cs
    using assms by (simp add: h_def set_row_cells_def grid_okD)
  ultimately show ?thesis
    using assms by (simp add: h delete_cells_eq min_absorb1 shift_up_down grid_okD)
qed

theorem insert_delete_cells_witness:
  "Option.bind (insert_cells_bounded 0 1 1 3 (grid_new 4 2)) (delete_cells_bounded 0 1 1 3)
     = Some (set_row_cells 0 (take (3 - 1) (row_cells (grid_new 4 2) 0) @ replicate 1 cell_default
         @ drop 3 (row_cells (grid_new 4 2) 0)) (grid_new 4 2))"
  by (rule insert_delete_cells [OF grid_ok_new]) simp_all

text \<open>
  A row in which every wide character is whole: a cell of width 2 is followed by its continuation, a
  continuation follows a cell of width 2.
\<close>

definition wide_row :: "nat \<Rightarrow> (nat \<Rightarrow> cell) \<Rightarrow> bool" where
  "wide_row C f \<longleftrightarrow> (\<forall>j < C.
     (c_width (f j) = 2 \<longrightarrow> j + 1 < C \<and> c_width (f (j + 1)) = 0) \<and>
     (c_width (f j) = 0 \<longrightarrow> 0 < j \<and> c_width (f (j - 1)) = 2))"

lemma default_width [simp]: "c_width cell_default = 1"
  by (simp add: cell_default_def)

lemma wide_row_head: "wide_row C f \<Longrightarrow> c_width (f j) = 2 \<Longrightarrow> j < C \<Longrightarrow> Suc j < C \<and> c_width (f (Suc j)) = 0"
  by (auto simp: wide_row_def)

lemma wide_row_tail: "wide_row C f \<Longrightarrow> c_width (f j) = 0 \<Longrightarrow> j < C \<Longrightarrow> 0 < j \<and> c_width (f (j - 1)) = 2"
  by (auto simp: wide_row_def)

lemma wide_row_cong:
  assumes "wide_row C f" "\<And>j. j < C \<Longrightarrow> h j = f j"
  shows "wide_row C h"
  unfolding wide_row_def
proof (intro allI impI)
  fix j
  assume j: "j < C"
  show "(c_width (h j) = 2 \<longrightarrow> j + 1 < C \<and> c_width (h (j + 1)) = 0) \<and>
      (c_width (h j) = 0 \<longrightarrow> 0 < j \<and> c_width (h (j - 1)) = 2)"
    using wide_row_head [OF assms(1) _ j] wide_row_tail [OF assms(1) _ j] assms(2) [of j]
      assms(2) [of "Suc j"] assms(2) [of "j - 1"] j by auto
qed

lemma wide_row_blank: "i < R \<Longrightarrow> wide_row C (cell_of (grid_new C R) i)"
  by (simp add: wide_row_def cell_of_def grid_new_def row_new_def)

text \<open>Blanking \<open>[l, e)\<close> with the repairs at both ends keeps wide characters whole.\<close>

definition erase_range :: "nat \<Rightarrow> nat \<Rightarrow> (nat \<Rightarrow> cell) \<Rightarrow> nat \<Rightarrow> cell" where
  "erase_range l e f j =
     (if l \<le> j \<and> j < e then cell_default
      else if Suc j = l \<and> c_width (f l) = 0 then cell_default
      else if j = e \<and> c_width (f (e - 1)) = 2 then cell_default
      else f j)"

lemma wide_row_erase:
  assumes w: "wide_row C f" and "l < e" "e \<le> C"
  shows "wide_row C (erase_range l e f)"
  unfolding wide_row_def
proof (intro allI impI conjI)
  fix j
  assume j: "j < C"
  let ?f = "erase_range l e f"
  have keep: "c_width (?f i) = c_width (f i) \<or> c_width (?f i) = 1" for i
    by (simp add: erase_range_def)
  have keep1: "?f i = f i" if "c_width (?f i) \<noteq> 1" for i
    using that by (auto simp: erase_range_def split: if_splits)
  {
    assume two: "c_width (?f j) = 2"
    then have fj: "?f j = f j" using keep1 [of j] by simp
    with two w j show "j + 1 < C"
      using wide_row_head [of C f j] by simp
    have cont: "c_width (f (Suc j)) = 0"
      using two fj wide_row_head [OF w _ j] by simp
    have out: "\<not> (l \<le> j \<and> j < e)"
      using two by (auto simp: erase_range_def)
    have "\<not> (l \<le> Suc j \<and> Suc j < e)"
    proof
      assume "l \<le> Suc j \<and> Suc j < e"
      with out have "Suc j = l" by simp
      with cont have "?f j = cell_default" using out by (simp add: erase_range_def)
      with two show False by simp
    qed
    moreover have "\<not> (Suc (Suc j) = l \<and> c_width (f l) = 0)"
    proof
      assume l: "Suc (Suc j) = l \<and> c_width (f l) = 0"
      then have "c_width (f (Suc j)) = 2"
        using wide_row_tail [OF w, of l] assms(2,3) by auto
      with cont show False by simp
    qed
    moreover have "\<not> (Suc j = e)"
      using out assms(2) by auto
    ultimately show "c_width (?f (j + 1)) = 0"
      using cont by (auto simp: erase_range_def)
  }
  {
    assume zero: "c_width (?f j) = 0"
    then have fj: "?f j = f j" using keep1 [of j] by simp
    with zero w j show "0 < j"
      using wide_row_tail [of C f j] by simp
    have head: "0 < j" "c_width (f (j - 1)) = 2"
      using zero fj wide_row_tail [OF w _ j] by simp_all
    have out: "\<not> (l \<le> j \<and> j < e)" "\<not> (j = e \<and> c_width (f (e - 1)) = 2)"
      using zero by (auto simp: erase_range_def split: if_splits)
    have "\<not> (l \<le> j - 1 \<and> j - 1 < e)"
      using out head assms(2) by (cases "j = e") auto
    moreover have "\<not> (j = l)"
      using out assms(2) by auto
    moreover have "\<not> (j - 1 = e \<and> c_width (f (e - 1)) = 2)"
    proof
      assume e: "j - 1 = e \<and> c_width (f (e - 1)) = 2"
      then have "c_width (f e) = 0"
        using wide_row_head [OF w, of "e - 1"] assms(2,3) by auto
      with head e show False by simp
    qed
    ultimately show "c_width (?f (j - 1)) = 2"
      using head by (auto simp: erase_range_def)
  }
qed

lemma erased_row_range: "l \<le> m \<Longrightarrow> j < C \<Longrightarrow> erased_row C l m f j = erase_range l (Suc m) f j"
  by (simp add: erased_row_def erase_range_def less_Suc_eq_le)

text \<open>
  C31: erasing never leaves half of a wide character: on a grid whose wide characters are whole, a
  non-empty \<open>clear_region\<close> and a non-empty \<open>erase_chars\<close> return a grid whose wide characters are whole.
\<close>
theorem erase_keeps_wide_chars:
  assumes "grid_ok C R g" and "list_all (\<lambda>i. wide_row C (cell_of g i)) [0..<R]"
    and "l \<le> r" and "l < C" and "0 < R" and "0 < n"
  shows "returns (clear_region t l b r g) (\<lambda>g'. list_all (\<lambda>i. wide_row C (cell_of g' i)) [0..<R]) \<and>
    returns (grid_erase_chars row l n g) (\<lambda>g'. list_all (\<lambda>i. wide_row C (cell_of g' i)) [0..<R])"
proof
  have wide: "wide_row C (cell_of g i)" if "i < R" for i
    using assms(2) that by (simp add: list_all_iff)
  have same: "wide_row C (cell_of (with_cells F g) i)" if "wide_row C (F i)" "i < R" for F i
    using that(1) by (rule wide_row_cong) (rule cell_of_with_cells [OF assms(1) that(2)])
  have m: "l \<le> min r (C - 1)" "min r (C - 1) < C"
    using assms(3,4) by auto
  have wer: "wide_row C (erased_row C l (min r (C - 1)) f)" if "wide_row C f" for f
    using m by (intro wide_row_cong [OF wide_row_erase [OF that] erased_row_range]) auto
  show "returns (clear_region t l b r g) (\<lambda>g'. list_all (\<lambda>i. wide_row C (cell_of g' i)) [0..<R])"
    using assms by (auto simp: clear_region_eq list_all_iff intro!: same wer [unfolded One_nat_def] wide)
  show "returns (grid_erase_chars row l n g) (\<lambda>g'. list_all (\<lambda>i. wide_row C (cell_of g' i)) [0..<R])"
  proof (cases "row < R")
    case True
    have "(\<lambda>j. if l \<le> j \<and> j < min (l + n) C then cell_default
        else if Suc j = l \<and> c_width (f l) = 0 then cell_default
        else if j = min (l + n) C \<and> l < min (l + n) C \<and> c_width (f (min (l + n) C - 1)) = 2 then cell_default
        else f j) = erase_range l (min (l + n) C) f" for f
      using assms(4,6) by (auto simp: erase_range_def fun_eq_iff)
    then show ?thesis
      using True assms
      by (auto simp: erase_chars_eq Let_def list_all_iff intro!: same wide_row_erase wide)
  next
    case False
    then show ?thesis
      using assms by (simp add: grid_erase_chars_def grid_okD)
  qed
qed

theorem erase_keeps_wide_chars_witness:
  "returns (clear_region 0 1 0 2 (grid_new 4 1)) (\<lambda>g'. list_all (\<lambda>i. wide_row 4 (cell_of g' i)) [0..<1]) \<and>
   returns (grid_erase_chars 0 1 2 (grid_new 4 1)) (\<lambda>g'. list_all (\<lambda>i. wide_row 4 (cell_of g' i)) [0..<1])"
proof -
  have "list_all (\<lambda>i. wide_row 4 (cell_of (grid_new 4 1) i)) [0..<1]"
    by (auto simp: list_all_iff intro: wide_row_blank)
  then show ?thesis
    using erase_keeps_wide_chars [OF grid_ok_new, of 4 1 1 2 2 0 0] by fastforce
qed

section \<open>Resizing\<close>

text \<open>
  C29: a resize, whatever the new numbers of rows and columns and the cursor, panics exactly if a grid of
  some columns is given none while the scrollback or the screen holds a soft-wrapped line with something in
  it (a division by the new width). In every other case the grid it returns has the new shape, every line as
  wide as the grid, and a scrollback within its limit.
\<close>
theorem resize_keeps_shape:
  assumes "grid_ok C R g"
  shows "if n = 0 \<and> C \<noteq> 0 \<and> list_ex wrapped_text (logical_lines (g_scrollback g @ g_lines g))
    then resize_with_cursor n rows cursor g = None
    else returns (resize_with_cursor n rows cursor g) (\<lambda>(g', d). grid_ok n rows g' \<and> g_limit g' = g_limit g)"
  using resize_ok_iff [OF assms, of n rows cursor] resize_cols_panics [of g rows cursor]
  by (auto simp: resize_with_cursor_def grid_ok_cols [OF assms])

definition two_row_line :: grid where
  "two_row_line = (grid_new 1 2)\<lparr>g_lines := [\<lparr>r_cells = [cell_default\<lparr>c_char := 0x61\<rparr>], r_continuation = False\<rparr>,
     \<lparr>r_cells = [cell_default\<lparr>c_char := 0x62\<rparr>], r_continuation = True\<rparr>]\<rparr>"

theorem resize_keeps_shape_witness:
  "returns (resize_with_cursor 2 5 (Some (1, 2)) two_row_line) (\<lambda>(g', d). grid_ok 2 5 g') \<and>
   resize_with_cursor 0 2 None two_row_line = None"
proof -
  have ok: "grid_ok 1 2 two_row_line"
    by (simp add: two_row_line_def grid_ok_def grid_new_def)
  have "list_ex wrapped_text (logical_lines (g_scrollback two_row_line @ g_lines two_row_line))"
    by (simp add: two_row_line_def grid_new_def wrapped_text_def blank_cell_def)
  then show ?thesis
    using resize_keeps_shape [OF ok, of 2 5 "Some (1, 2)"] resize_keeps_shape [OF ok, of 0 2 None]
    by (auto simp: returns_iff)
qed

text \<open>
  C9: a reflow to at least as many columns keeps the text: the logical lines before and after, each the
  cells of a row and its continuations without trailing blanks, are the same lines in the same order,
  and every new row has the new width.
\<close>
theorem widening_reflow_keeps_text:
  assumes "0 < n" and "list_all (\<lambda>l. length (r_cells l) \<le> n) rows"
  shows "returns (reflow_lines rows m n cursor_row cursor_col) (\<lambda>(result, _).
     map line_text (logical_lines result) = map line_text (logical_lines rows) \<and>
     list_all (\<lambda>l. length (r_cells l) = n) result)"
proof -
  obtain result cur where r: "reflow_lines rows m n cursor_row cursor_col = Some (result, cur)"
    using reflow_rows assms(1) by blast
  show ?thesis
    using reflow_keeps_text [OF assms r] reflow_lines_length [of n rows m cursor_row cursor_col] assms(1)
    by (simp add: r)
qed

definition text_row :: "bool \<Rightarrow> nat list \<Rightarrow> row" where
  "text_row cont cs = \<lparr>r_cells = map (\<lambda>c. cell_default\<lparr>c_char := c\<rparr>) cs, r_continuation = cont\<rparr>"

theorem widening_reflow_keeps_text_witness:
  "returns (reflow_lines [text_row False [97, 98], text_row True [99, 32]] 2 3 None 0) (\<lambda>(result, _).
     map line_text (logical_lines result)
       = map line_text (logical_lines [text_row False [97, 98], text_row True [99, 32]]) \<and>
     list_all (\<lambda>l. length (r_cells l) = 3) result)"
  by (rule widening_reflow_keeps_text) (simp_all add: text_row_def)

text \<open>
  Narrowing does not re-wrap a row that was not wrapped: it is cut off at the new width, and the
  cells beyond are gone when the grid is widened again.
\<close>
theorem narrowing_truncates:
  "let g = (grid_new 3 1)\<lparr>g_lines := [text_row False [97, 98, 99]]\<rparr> in
   Option.bind (grid_resize 2 1 g) (\<lambda>(h, _). Option.bind (grid_resize 3 1 h) (\<lambda>(k, _). row_text k 0))
     = Some [97, 98] \<and> row_text g 0 = Some [97, 98, 99]"
  by code_simp

lemma unscroll_eq:
  "n \<le> length sb \<Longrightarrow>
   unscroll C n sb acc = (take (length sb - n) sb, acc @ map (row_resize C) (rev (take_last n sb)))"
proof (induction n arbitrary: sb acc)
  case (Suc n)
  then have "sb \<noteq> []" by auto
  then have sb: "sb = butlast sb @ [last sb]" by simp
  have "take_last (Suc n) sb = take_last n (butlast sb) @ [last sb]"
    using Suc.prems by (subst sb) (simp add: take_last_def)
  moreover have "take (length (butlast sb) - n) (butlast sb) = take (length sb - Suc n) sb"
    using Suc.prems by (simp add: butlast_conv_take)
  ultimately show ?case
    using Suc \<open>sb \<noteq> []\<close> by simp
qed (simp add: take_last_def)

text \<open>
  Growing the screen brings the newest scrollback lines back above it in reverse order: the most
  recent line comes first, at the top of the screen.
\<close>
theorem growing_reverses_history:
  assumes "grid_ok C R g" and "R \<le> R'"
  shows "let k = min (R' - R) (length (g_scrollback g)) in
    returns (resize_with_cursor C R' cursor g) (\<lambda>(g', d).
      g_lines g' = rev (map (row_resize C) (take_last k (g_scrollback g))) @ g_lines g
        @ replicate (R' - R - k) (row_new C) \<and>
      g_scrollback g' = take (length (g_scrollback g) - k) (g_scrollback g) \<and> d = int k)"
proof -
  define k where "k = min (R' - R) (length (g_scrollback g))"
  have k: "k \<le> length (g_scrollback g)" by (simp add: k_def)
  have R: "length (g_lines g) = R"
    by (rule grid_ok_lines [OF assms(1)])
  show ?thesis
  proof (cases "R' = R")
    case True
    then show ?thesis
      using assms by (simp add: resize_with_cursor_def grid_okD take_last_def)
  next
    case False
    then show ?thesis
      using assms R k
      by (simp add: resize_with_cursor_def grid_ok_cols [OF assms(1)] grid_ok_rows [OF assms(1)]
          resize_rows_def grow_rows_def R k_def [symmetric] unscroll_eq [OF k] Let_def rev_map diff_diff_left
          add.commute)
  qed
qed

theorem growing_reverses_history_witness:
  "let g = (grid_new 1 1)\<lparr>g_scrollback := [text_row False [97], text_row False [98]]\<rparr>;
       k = min (3 - 1) (length (g_scrollback g)) in
    returns (resize_with_cursor 1 3 None g) (\<lambda>(g', d).
      g_lines g' = rev (map (row_resize 1) (take_last k (g_scrollback g))) @ g_lines g
        @ replicate (3 - 1 - k) (row_new 1) \<and>
      g_scrollback g' = take (length (g_scrollback g) - k) (g_scrollback g) \<and> d = int k)"
proof -
  have "grid_ok 1 1 ((grid_new 1 1)\<lparr>g_scrollback := [text_row False [97], text_row False [98]]\<rparr>)"
    by (simp add: grid_ok_def grid_new_def)
  from growing_reverses_history [OF this, of 3 None] show ?thesis
    by (simp add: Let_def)
qed

end
