(* ===== verification/Term_Base64.thy ===== *)
theory Term_Base64
  imports Emux_Utf8
begin

text \<open>
  The base64 encoder and decoder of \<open>crates/emux-term/src/selection.rs\<close>, which carry the clipboard of
  OSC 52. The decoder's constant table of 256 entries is the function \<open>decode_val\<close>; its index loop
  over four bytes at a time is recursion on the bytes that are left.
\<close>

unbundle bit_operations_syntax

definition b64_char :: "u32 \<Rightarrow> u8" where
  "b64_char v =
     (let n = unat v in
      byte (if n < 26 then 65 + n else if n < 52 then 97 + (n - 26) else if n < 62 then 48 + (n - 52)
            else if n = 62 then 43 else 47))"

definition decode_val :: "u8 \<Rightarrow> u8" where
  "decode_val b =
     (if 65 \<le> b \<and> b \<le> 90 then b - 65
      else if 97 \<le> b \<and> b \<le> 122 then 26 + (b - 97)
      else if 48 \<le> b \<and> b \<le> 57 then 52 + (b - 48)
      else if b = 43 then 62 else if b = 47 then 63 else 0xFF)"

text \<open>One chunk of one to three bytes.\<close>

definition encode_chunk :: "u8 list \<Rightarrow> u8 list" where
  "encode_chunk chunk =
     (let b0 = ucast (chunk ! 0) :: u32;
          b1 = (if 1 < length chunk then ucast (chunk ! 1) else 0) :: u32;
          b2 = (if 2 < length chunk then ucast (chunk ! 2) else 0) :: u32;
          triple = push_bit 16 b0 OR push_bit 8 b1 OR b2 in
      [b64_char (drop_bit 18 triple AND 0x3F), b64_char (drop_bit 12 triple AND 0x3F),
       if 1 < length chunk then b64_char (drop_bit 6 triple AND 0x3F) else 0x3D,
       if 2 < length chunk then b64_char (triple AND 0x3F) else 0x3D])"

fun chunks3 :: "'a list \<Rightarrow> 'a list list" where
  "chunks3 (a # b # c # xs) = [a, b, c] # chunks3 xs"
| "chunks3 [] = []"
| "chunks3 xs = [xs]"

definition base64_encode :: "u8 list \<Rightarrow> rstr" where
  "base64_encode input = concat (map encode_chunk (chunks3 input))"

fun decode_loop :: "u8 list \<Rightarrow> u8 list \<Rightarrow> u8 list option" where
  "decode_loop out (w # x # y # z # rest) =
     (let a = decode_val w; b = decode_val x; c = decode_val y; d = decode_val z in
      if a = 0xFF \<or> b = 0xFF \<or> c = 0xFF \<or> d = 0xFF then None
      else let triple = push_bit 18 (ucast a) OR push_bit 12 (ucast b) OR push_bit 6 (ucast c) OR ucast d :: u32 in
        decode_loop (out @ [ucast (drop_bit 16 triple), ucast (drop_bit 8 triple), ucast triple]) rest)"
| "decode_loop out [w, x, y] =
     (let a = decode_val w; b = decode_val x; c = decode_val y in
      if a = 0xFF \<or> b = 0xFF \<or> c = 0xFF then None
      else Some (out @ [push_bit 2 a OR drop_bit 4 b, push_bit 4 b OR drop_bit 2 c]))"
| "decode_loop out [w, x] =
     (let a = decode_val w; b = decode_val x in
      if a = 0xFF \<or> b = 0xFF then None else Some (out @ [push_bit 2 a OR drop_bit 4 b]))"
| "decode_loop out [w] = None"
| "decode_loop out [] = Some out"

definition base64_decode :: "rstr \<Rightarrow> u8 list option" where
  "base64_decode input = decode_loop [] (trim_end_of 0x3D input)"

definition osc52_clipboard :: "rstr \<Rightarrow> u8 list" where
  "osc52_clipboard text = 0x1b # ascii '']52;c;'' @ base64_encode text @ [0x1b, 0x5c]"

section \<open>Round trip\<close>

lemma u32_and_63: "unat (v AND 0x3F :: u32) < 64"
proof -
  have "v AND 0x3F = take_bit 6 v"
    by (simp add: take_bit_eq_mask mask_numeral)
  then show ?thesis
    by (simp only: unsigned_take_bit_eq) (simp add: take_bit_eq_mod)
qed

lemma decode_char: "unat v < 64 \<Longrightarrow> decode_val (b64_char v) = ucast v"
proof -
  assume v: "unat v < 64"
  have "list_all (\<lambda>n. decode_val (b64_char (of_nat n)) = ucast (of_nat n :: u32)) [0..<64]"
    by code_simp
  then have "\<forall>n < 64. decode_val (b64_char (of_nat n)) = ucast (of_nat n :: u32)"
    by (auto simp: list_all_iff)
  then have "decode_val (b64_char (of_nat (unat v))) = ucast (of_nat (unat v) :: u32)"
    using v by blast
  then show ?thesis by simp
qed

lemma decode_not_FF: "unat v < 64 \<Longrightarrow> ucast (v :: u32) \<noteq> (0xFF :: u8)"
proof
  assume v: "unat v < 64" and "ucast v = (0xFF :: u8)"
  then have "unat (ucast v :: u8) = 255" by simp
  then show False
    using v by (simp add: unat_ucast_mod)
qed

lemma chars_not_pad: "unat v < 64 \<Longrightarrow> b64_char v \<noteq> 0x3D"
  using decode_char [of v] decode_not_FF [of v] by (auto simp: decode_val_def)

text \<open>Six bits at a time put a 24-bit word together again.\<close>

lemma take_bit_split:
  "take_bit (m + k) (T :: 'a::len word) = push_bit k (take_bit m (drop_bit k T)) OR take_bit k T"
  by (rule bit_word_eqI) (auto simp: bit_simps)

lemma cast_u8_take_bit6: "ucast (ucast (take_bit 6 (T :: u32)) :: u8) = take_bit 6 T"
  by (rule bit_word_eqI) (auto simp: bit_simps)

lemma triple_split:
  fixes T :: u32
  shows "push_bit 18 (ucast (ucast (drop_bit 18 T AND 0x3F) :: u8))
     OR push_bit 12 (ucast (ucast (drop_bit 12 T AND 0x3F) :: u8))
     OR push_bit 6 (ucast (ucast (drop_bit 6 T AND 0x3F) :: u8))
     OR ucast (ucast (T AND 0x3F) :: u8) = take_bit 24 T"
proof -
  have m: "x AND 0x3F = take_bit 6 x" for x :: u32
    by (simp add: take_bit_eq_mask mask_numeral)
  have "take_bit 24 T = push_bit 18 (take_bit 6 (drop_bit 18 T)) OR (push_bit 12 (take_bit 6 (drop_bit 12 T))
      OR (push_bit 6 (take_bit 6 (drop_bit 6 T)) OR take_bit 6 T))"
    using take_bit_split [of 6 18 T] take_bit_split [of 6 12 T] take_bit_split [of 6 6 T] by simp
  then show ?thesis
    unfolding m cast_u8_take_bit6 by (simp only: or.assoc)
qed

lemma triple_bytes:
  fixes a b c :: u8
  defines "T \<equiv> push_bit 16 (ucast a) OR push_bit 8 (ucast b) OR ucast c :: u32"
  shows "take_bit 24 T = T" "ucast (drop_bit 16 T) = a" "ucast (drop_bit 8 T) = b" "ucast T = c"
  unfolding T_def by (rule bit_word_eqI; auto simp: bit_simps dest: bit_imp_le_length)+

lemma decode_encoded:
  fixes v :: u32
  shows "decode_val (b64_char (v AND 0x3F)) = ucast (v AND 0x3F)"
    and "ucast (v AND 0x3F) \<noteq> (0xFF :: u8)" and "b64_char (v AND 0x3F) \<noteq> 0x3D"
  using u32_and_63 [of v] by (simp_all only: decode_char decode_not_FF chars_not_pad not_False_eq_True)

lemma decode_four:
  "decode_loop out ([b64_char (drop_bit 18 T AND 0x3F), b64_char (drop_bit 12 T AND 0x3F),
       b64_char (drop_bit 6 T AND 0x3F), b64_char (T AND 0x3F)] @ rest)
     = decode_loop (out @ [ucast (drop_bit 16 (take_bit 24 T)), ucast (drop_bit 8 (take_bit 24 T)),
         ucast (take_bit 24 T)]) rest"
  by (simp only: append.simps decode_loop.simps Let_def decode_encoded simp_thms if_False triple_split)

lemma decode_three:
  "decode_loop out [b64_char (drop_bit 18 T AND 0x3F), b64_char (drop_bit 12 T AND 0x3F),
       b64_char (drop_bit 6 T AND 0x3F)]
     = Some (out @ [ucast (drop_bit 16 T), ucast (drop_bit 8 T)])"
proof -
  have m: "x AND 0x3F = take_bit 6 x" for x :: u32
    by (simp add: take_bit_eq_mask mask_numeral)
  have 1: "push_bit 2 (ucast (drop_bit 18 T AND 0x3F)) OR drop_bit 4 (ucast (drop_bit 12 T AND 0x3F))
      = (ucast (drop_bit 16 T) :: u8)"
    unfolding m by (rule bit_word_eqI) (auto simp: bit_simps)
  have 2: "push_bit 4 (ucast (drop_bit 12 T AND 0x3F)) OR drop_bit 2 (ucast (drop_bit 6 T AND 0x3F))
      = (ucast (drop_bit 8 T) :: u8)"
    unfolding m by (rule bit_word_eqI) (auto simp: bit_simps)
  show ?thesis
    by (simp only: decode_loop.simps Let_def decode_encoded simp_thms if_False 1 2)
qed

lemma decode_two:
  "decode_loop out [b64_char (drop_bit 18 T AND 0x3F), b64_char (drop_bit 12 T AND 0x3F)]
     = Some (out @ [ucast (drop_bit 16 T)])"
proof -
  have m: "x AND 0x3F = take_bit 6 x" for x :: u32
    by (simp add: take_bit_eq_mask mask_numeral)
  have 1: "push_bit 2 (ucast (drop_bit 18 T AND 0x3F)) OR drop_bit 4 (ucast (drop_bit 12 T AND 0x3F))
      = (ucast (drop_bit 16 T) :: u8)"
    unfolding m by (rule bit_word_eqI) (auto simp: bit_simps)
  show ?thesis
    by (simp only: decode_loop.simps Let_def decode_encoded simp_thms if_False 1)
qed

lemma decode_chunk3:
  "decode_loop out (encode_chunk [x, y, z] @ rest) = decode_loop (out @ [x, y, z]) rest"
proof -
  define T :: u32 where "T = push_bit 16 (ucast x) OR push_bit 8 (ucast y) OR ucast z"
  have "encode_chunk [x, y, z] = [b64_char (drop_bit 18 T AND 0x3F), b64_char (drop_bit 12 T AND 0x3F),
       b64_char (drop_bit 6 T AND 0x3F), b64_char (T AND 0x3F)]"
    unfolding T_def by (simp add: encode_chunk_def Let_def)
  then show ?thesis
    using triple_bytes [of x y z, folded T_def] by (simp only: decode_four)
qed

lemma encode_chunk2:
  obtains T where "encode_chunk [x, y] = [b64_char (drop_bit 18 T AND 0x3F), b64_char (drop_bit 12 T AND 0x3F),
       b64_char (drop_bit 6 T AND 0x3F), 0x3D]" "ucast (drop_bit 16 T) = x" "ucast (drop_bit 8 T) = y"
proof
  let ?T = "push_bit 16 (ucast x) OR push_bit 8 (ucast y) OR ucast (0 :: u8) :: u32"
  show "encode_chunk [x, y] = [b64_char (drop_bit 18 ?T AND 0x3F), b64_char (drop_bit 12 ?T AND 0x3F),
       b64_char (drop_bit 6 ?T AND 0x3F), 0x3D]"
    by (simp add: encode_chunk_def Let_def)
  show "ucast (drop_bit 16 ?T) = x" "ucast (drop_bit 8 ?T) = y"
    by (rule triple_bytes)+
qed

lemma encode_chunk1:
  obtains T where "encode_chunk [x] = [b64_char (drop_bit 18 T AND 0x3F), b64_char (drop_bit 12 T AND 0x3F),
       0x3D, 0x3D]" "ucast (drop_bit 16 T) = x"
proof
  let ?T = "push_bit 16 (ucast x) OR push_bit 8 (ucast (0 :: u8)) OR ucast (0 :: u8) :: u32"
  show "encode_chunk [x] = [b64_char (drop_bit 18 ?T AND 0x3F), b64_char (drop_bit 12 ?T AND 0x3F), 0x3D, 0x3D]"
    by (simp add: encode_chunk_def Let_def)
  show "ucast (drop_bit 16 ?T) = x"
    by (rule triple_bytes)
qed

lemma trim_end_append:
  "xs \<noteq> [] \<Longrightarrow> last xs \<noteq> c \<Longrightarrow> trim_end_of c (xs @ ys) = xs @ trim_end_of c ys"
proof -
  assume "xs \<noteq> []" "last xs \<noteq> c"
  then obtain zs z where "xs = zs @ [z]" "z \<noteq> c"
    by (cases xs rule: rev_cases) auto
  moreover have "dropWhile (\<lambda>x. x = c) (rev ys @ z # rev zs) = dropWhile (\<lambda>x. x = c) (rev ys) @ z # rev zs"
    using \<open>z \<noteq> c\<close> by (induction ys rule: rev_induct) simp_all
  ultimately show ?thesis
    by (simp add: trim_end_of_def)
qed

lemma decode_encode_loop: "decode_loop out (trim_end_of 0x3D (base64_encode bs)) = Some (out @ bs)"
proof (induction bs arbitrary: out rule: chunks3.induct [case_names three none one two])
  case (three a b c xs)
  define e where "e = encode_chunk [a, b, c]"
  have "e \<noteq> []" "last e \<noteq> 0x3D"
    by (simp_all add: e_def encode_chunk_def Let_def decode_encoded)
  then have "trim_end_of 0x3D (base64_encode (a # b # c # xs)) = e @ trim_end_of 0x3D (base64_encode xs)"
    by (simp add: base64_encode_def e_def [symmetric] trim_end_append)
  then show ?case
    using three by (simp add: e_def decode_chunk3)
next
  case none
  then show ?case by (simp add: base64_encode_def trim_end_of_def)
next
  case (one x)
  obtain T where e: "encode_chunk [x] = [b64_char (drop_bit 18 T AND 0x3F), b64_char (drop_bit 12 T AND 0x3F),
       0x3D, 0x3D]" and x: "ucast (drop_bit 16 T) = x"
    by (rule encode_chunk1)
  have "trim_end_of 0x3D (base64_encode [x])
      = [b64_char (drop_bit 18 T AND 0x3F), b64_char (drop_bit 12 T AND 0x3F)]"
    by (simp add: base64_encode_def e trim_end_of_def decode_encoded)
  then show ?case
    by (simp only: decode_two x)
next
  case (two x y)
  obtain T where e: "encode_chunk [x, y] = [b64_char (drop_bit 18 T AND 0x3F), b64_char (drop_bit 12 T AND 0x3F),
       b64_char (drop_bit 6 T AND 0x3F), 0x3D]" and x: "ucast (drop_bit 16 T) = x" "ucast (drop_bit 8 T) = y"
    by (rule encode_chunk2)
  have "trim_end_of 0x3D (base64_encode [x, y])
      = [b64_char (drop_bit 18 T AND 0x3F), b64_char (drop_bit 12 T AND 0x3F), b64_char (drop_bit 6 T AND 0x3F)]"
    by (simp add: base64_encode_def e trim_end_of_def decode_encoded)
  then show ?case
    by (simp only: decode_three x)
qed

end
