(* ===== verification/Term_Screen.thy ===== *)
theory Term_Screen
  imports Term_Resize Term_Base64 "HOL-Library.Product_Lexorder"
begin

text \<open>
  \<open>crates/emux-term/src/screen.rs\<close>: the \<open>Screen\<close> with its two grids, cursor, pen, margins, tab stops,
  palette, OSC state and damage list, and its operations. An operation that indexes the grid may panic
  and returns an option; the others are functions. \<open>Instant\<close> timestamps of marks and notifications are
  left out (nothing reads them). Colours of the palette are triples; the palette is a list of 256.
\<close>

section \<open>Types\<close>

datatype shell_mark_kind = PromptStart | CommandStart | OutputStart | CommandFinished int

record shell_mark =
  sm_kind :: shell_mark_kind
  sm_row :: nat

record notification =
  n_title :: rstr
  n_body :: rstr

record damage_region =
  dm_row :: nat
  dm_start :: nat
  dm_end :: nat

datatype damage_mode = DamageCell | DamageRow | DamageScreen | DamageScroll

datatype erase_display = EDBelow | EDAbove | EDAll | EDScrollback

datatype erase_line = ELToRight | ELToLeft | ELAll

datatype clear_tab_stop = TabCurrent | TabAll

type_synonym rgb = "u8 \<times> u8 \<times> u8"

record screen =
  s_grid :: grid
  s_cursor :: cursor
  s_saved_cursor :: "saved_cursor option"
  s_modes :: modes
  s_scroll_top :: nat
  s_scroll_bottom :: nat
  s_scroll_left :: nat
  s_scroll_right :: nat
  s_pen :: cell_attrs
  s_fg :: color
  s_bg :: color
  s_tab_stops :: "bool list"
  s_title :: rstr
  s_charset_g0 :: charset
  s_charset_g1 :: charset
  s_active_charset :: u8
  s_pending_wrap :: bool
  s_last_char :: "rchar option"
  s_palette :: "rgb list"
  s_sgr_stack :: "(cell_attrs \<times> color \<times> color) list"
  s_saved_modes :: "modes option"
  s_hyperlink :: "rstr option"
  s_bold_is_bright :: bool
  s_response_buf :: "u8 list"
  s_working_directory :: "rstr option"
  s_viewport_offset :: nat
  s_alt_grid :: grid
  s_alt_cursor :: cursor
  s_alt_saved_cursor :: "saved_cursor option"
  s_notifications :: "notification list"
  s_has_unread :: bool
  s_shell_marks :: "shell_mark list"
  s_clipboard :: "rstr option"
  s_passthrough :: "u8 list list"
  s_damage :: "damage_region list"
  s_damage_mode :: damage_mode

abbreviation DEFAULT_TAB_INTERVAL :: nat where "DEFAULT_TAB_INTERVAL \<equiv> 8"

section \<open>Construction\<close>

definition ansi_colors :: "rgb list" where
  "ansi_colors =
     [(0, 0, 0), (205, 0, 0), (0, 205, 0), (205, 205, 0), (0, 0, 238), (205, 0, 205), (0, 205, 205),
      (229, 229, 229)]"

definition bright_colors :: "rgb list" where
  "bright_colors =
     [(127, 127, 127), (255, 0, 0), (0, 255, 0), (255, 255, 0), (92, 92, 255), (255, 0, 255),
      (0, 255, 255), (255, 255, 255)]"

definition cube_level :: "nat \<Rightarrow> u8" where
  "cube_level i = (if i = 0 then 0 else 55 + 40 * of_nat i)"

definition default_palette :: "rgb list" where
  "default_palette =
     ansi_colors @ bright_colors @
     [(cube_level r, cube_level g, cube_level b). r \<leftarrow> [0..<6], g \<leftarrow> [0..<6], b \<leftarrow> [0..<6]] @
     [(let v = 8 + 10 * of_nat i in (v, v, v)). i \<leftarrow> [0..<24]]"

text \<open>\<open>while col < cols { tab_stops[col] = true; col += 8 }\<close>\<close>

function tab_loop :: "nat \<Rightarrow> nat \<Rightarrow> bool list \<Rightarrow> bool list" where
  "tab_loop cols col ts =
     (if col < cols then tab_loop cols (col + DEFAULT_TAB_INTERVAL) (ts[col := True]) else ts)"
  by pat_completeness auto
termination
  by (relation "measure (\<lambda>(cols, col, ts). cols - col)") auto

declare tab_loop.simps [simp del]

definition screen_new :: "nat \<Rightarrow> nat \<Rightarrow> screen" where
  "screen_new cols rows =
     \<lparr>s_grid = grid_new cols rows, s_cursor = cursor_default, s_saved_cursor = None,
      s_modes = modes_default, s_scroll_top = 0, s_scroll_bottom = rows, s_scroll_left = 0,
      s_scroll_right = cols, s_pen = attrs_default, s_fg = DefaultColor, s_bg = DefaultColor,
      s_tab_stops = tab_loop cols DEFAULT_TAB_INTERVAL (replicate cols False), s_title = [],
      s_charset_g0 = Ascii, s_charset_g1 = Ascii, s_active_charset = 0, s_pending_wrap = False,
      s_last_char = None, s_palette = default_palette, s_sgr_stack = [], s_saved_modes = None,
      s_hyperlink = None, s_bold_is_bright = False, s_response_buf = [], s_working_directory = None,
      s_viewport_offset = 0, s_alt_grid = grid_new cols rows, s_alt_cursor = cursor_default,
      s_alt_saved_cursor = None, s_notifications = [], s_has_unread = False, s_shell_marks = [],
      s_clipboard = None, s_passthrough = [], s_damage = [], s_damage_mode = DamageCell\<rparr>"

definition cols_of :: "screen \<Rightarrow> nat" where
  "cols_of s = g_cols (s_grid s)"

definition rows_of :: "screen \<Rightarrow> nat" where
  "rows_of s = g_rows (s_grid s)"

section \<open>Field updates\<close>

definition set_row :: "nat \<Rightarrow> screen \<Rightarrow> screen" where
  "set_row r s = s\<lparr>s_cursor := (s_cursor s)\<lparr>cur_row := r\<rparr>\<rparr>"

definition set_col :: "nat \<Rightarrow> screen \<Rightarrow> screen" where
  "set_col c s = s\<lparr>s_cursor := (s_cursor s)\<lparr>cur_col := c\<rparr>\<rparr>"

abbreviation row_of :: "screen \<Rightarrow> nat" where "row_of s \<equiv> cur_row (s_cursor s)"
abbreviation col_of :: "screen \<Rightarrow> nat" where "col_of s \<equiv> cur_col (s_cursor s)"

definition unwrap_pending :: "screen \<Rightarrow> screen" where
  "unwrap_pending s = s\<lparr>s_pending_wrap := False\<rparr>"

definition with_grid :: "(grid \<Rightarrow> grid option) \<Rightarrow> screen \<Rightarrow> screen option" where
  "with_grid f s = map_option (\<lambda>g. s\<lparr>s_grid := g\<rparr>) (f (s_grid s))"

section \<open>Damage\<close>

definition push_damage :: "nat \<Rightarrow> nat \<Rightarrow> nat \<Rightarrow> screen \<Rightarrow> screen" where
  "push_damage r a b s = s\<lparr>s_damage := s_damage s @ [\<lparr>dm_row = r, dm_start = a, dm_end = b\<rparr>]\<rparr>"

definition record_damage :: "nat \<Rightarrow> nat \<Rightarrow> nat \<Rightarrow> screen \<Rightarrow> screen" where
  "record_damage r a b s =
     (if rows_of s \<le> r then s
      else case s_damage_mode s of
        DamageCell \<Rightarrow> push_damage r a (min b (cols_of s)) s
      | DamageRow \<Rightarrow> push_damage r 0 (cols_of s) s
      | DamageScreen \<Rightarrow> push_damage 0 0 (cols_of s) s
      | DamageScroll \<Rightarrow> push_damage r a (min b (cols_of s)) s)"

definition record_scroll_damage :: "nat \<Rightarrow> nat \<Rightarrow> screen \<Rightarrow> screen" where
  "record_scroll_damage t b s = fold (\<lambda>r s. push_damage r 0 (cols_of s) s) [t..<b] s"

definition record_full_damage :: "screen \<Rightarrow> screen" where
  "record_full_damage s = fold (\<lambda>r s. push_damage r 0 (cols_of s) s) [0..<rows_of s] s"

text \<open>The loop of \<open>merge_damage\<close> over the sorted regions.\<close>

fun merge_loop :: "damage_region \<Rightarrow> damage_region list \<Rightarrow> damage_region list \<Rightarrow> damage_region list" where
  "merge_loop current [] merged = merged @ [current]"
| "merge_loop current (r # rs) merged =
     (if dm_row r = dm_row current \<and> dm_start r \<le> dm_end current
      then merge_loop (current\<lparr>dm_end := max (dm_end current) (dm_end r)\<rparr>) rs merged
      else merge_loop r rs (merged @ [current]))"

definition merge_damage :: "damage_region list \<Rightarrow> damage_region list" where
  "merge_damage regions =
     (case sort_key (\<lambda>r. (dm_row r, dm_start r)) regions of [] \<Rightarrow> [] | r # rs \<Rightarrow> merge_loop r rs [])"

definition take_damage :: "screen \<Rightarrow> damage_region list \<times> screen" where
  "take_damage s =
     (let damage = s_damage s; s = s\<lparr>s_damage := []\<rparr>;
          damage = (if s_damage_mode s = DamageScreen \<and> damage \<noteq> []
                    then map (\<lambda>r. \<lparr>dm_row = r, dm_start = 0, dm_end = cols_of s\<rparr>) [0..<rows_of s]
                    else damage);
          damage = (if s_damage_mode s = DamageCell \<or> s_damage_mode s = DamageScroll
                    then merge_damage damage else damage)
      in (damage, s))"

section \<open>Margins\<close>

definition has_lr_margins :: "screen \<Rightarrow> bool" where
  "has_lr_margins s \<longleftrightarrow>
     md_left_right_margin (s_modes s) \<and> (s_scroll_left s \<noteq> 0 \<or> s_scroll_right s \<noteq> cols_of s)"

definition effective_right :: "screen \<Rightarrow> nat" where
  "effective_right s = (if has_lr_margins s then s_scroll_right s else cols_of s)"

definition cursor_in_lr_margins :: "screen \<Rightarrow> bool" where
  "cursor_in_lr_margins s \<longleftrightarrow>
     \<not> has_lr_margins s \<or> (s_scroll_left s \<le> col_of s \<and> col_of s < s_scroll_right s)"

definition effective_fg :: "screen \<Rightarrow> color" where
  "effective_fg s =
     (case s_fg s of
        Indexed i \<Rightarrow> if s_bold_is_bright s \<and> at_bold (s_pen s) \<and> i < 8 then Indexed (i + 8) else s_fg s
      | _ \<Rightarrow> s_fg s)"

definition active_charset_of :: "screen \<Rightarrow> charset" where
  "active_charset_of s = (if s_active_charset s = 1 then s_charset_g1 s else s_charset_g0 s)"

definition map_char :: "screen \<Rightarrow> rchar \<Rightarrow> rchar" where
  "map_char s c = (if c \<le> 0x7e then charset_map (active_charset_of s) (of_nat c) else c)"

section \<open>Cursor movement\<close>

definition linefeed :: "screen \<Rightarrow> screen option" where
  "linefeed s = do {
     let s = unwrap_pending s;
     s \<leftarrow> (if row_of s + 1 = s_scroll_bottom s then
             (let s = record_scroll_damage (s_scroll_top s) (s_scroll_bottom s) s in
              if has_lr_margins s \<and> cursor_in_lr_margins s
              then with_grid (grid_scroll_up_region (s_scroll_top s) (s_scroll_bottom s)
                     (s_scroll_left s) (s_scroll_right s) 1) s
              else with_grid (grid_scroll_up (s_scroll_top s) (s_scroll_bottom s) 1) s)
           else if row_of s + 1 < rows_of s then Some (set_row (row_of s + 1) s)
           else Some s);
     Some (if md_newline (s_modes s) then set_col 0 s else s) }"

definition carriage_return :: "screen \<Rightarrow> screen" where
  "carriage_return s =
     unwrap_pending (if has_lr_margins s \<and> s_scroll_left s \<le> col_of s then set_col (s_scroll_left s) s
                     else set_col 0 s)"

definition backspace :: "screen \<Rightarrow> screen" where
  "backspace s =
     (if 0 < col_of s then unwrap_pending (set_col (col_of s - 1) s)
      else if md_reverse_wrap (s_modes s) \<and> md_autowrap (s_modes s) \<and> 0 < row_of s
      then unwrap_pending (set_col (cols_of s - 1) (set_row (row_of s - 1) s))
      else s)"

definition is_tab_stop :: "screen \<Rightarrow> nat \<Rightarrow> bool" where
  "is_tab_stop s c = (case get_opt (s_tab_stops s) c of None \<Rightarrow> False | Some t \<Rightarrow> t)"

definition tab :: "screen \<Rightarrow> screen" where
  "tab s =
     (let s = unwrap_pending s in
      case find (is_tab_stop s) [col_of s + 1..<cols_of s] of
        Some c \<Rightarrow> set_col c s
      | None \<Rightarrow> set_col (cols_of s - 1) s)"

definition tab_forward :: "nat \<Rightarrow> screen \<Rightarrow> screen" where
  "tab_forward count s = (tab ^^ count) s"

fun tab_backward_loop :: "nat \<Rightarrow> screen \<Rightarrow> screen" where
  "tab_backward_loop 0 s = s"
| "tab_backward_loop (Suc n) s =
     (if col_of s = 0 then s
      else case find (is_tab_stop s) (rev [0..<Suc (col_of s - 1)]) of
        Some c \<Rightarrow> tab_backward_loop n (set_col c s)
      | None \<Rightarrow> tab_backward_loop n (set_col 0 s))"

definition tab_backward :: "nat \<Rightarrow> screen \<Rightarrow> screen" where
  "tab_backward count s = tab_backward_loop count (unwrap_pending s)"

definition in_scroll_region :: "screen \<Rightarrow> bool" where
  "in_scroll_region s \<longleftrightarrow> s_scroll_top s \<le> row_of s \<and> row_of s < s_scroll_bottom s"

definition cursor_up :: "nat \<Rightarrow> screen \<Rightarrow> screen" where
  "cursor_up count s =
     (let upper = (if in_scroll_region s then s_scroll_top s else 0) in
      unwrap_pending (set_row (max (row_of s - count) upper) s))"

definition cursor_down :: "nat \<Rightarrow> screen \<Rightarrow> screen" where
  "cursor_down count s =
     (let lower = (if in_scroll_region s then s_scroll_bottom s - 1 else rows_of s - 1) in
      unwrap_pending (set_row (min (row_of s + count) lower) s))"

definition cursor_left :: "nat \<Rightarrow> screen \<Rightarrow> screen" where
  "cursor_left count s = unwrap_pending (set_col (col_of s - count) s)"

definition cursor_right :: "nat \<Rightarrow> screen \<Rightarrow> screen" where
  "cursor_right count s = unwrap_pending (set_col (min (col_of s + count) (cols_of s - 1)) s)"

definition cursor_position :: "nat \<Rightarrow> nat \<Rightarrow> screen \<Rightarrow> screen" where
  "cursor_position row col s =
     (let row = row - 1; col = col - 1 in
      unwrap_pending
        (if md_origin (s_modes s) then
           set_col (min (s_scroll_left s + col) (s_scroll_right s - 1))
             (set_row (min (s_scroll_top s + row) (s_scroll_bottom s - 1)) s)
         else set_col (min col (cols_of s - 1)) (set_row (min row (rows_of s - 1)) s)))"

section \<open>Printing\<close>

definition spacer_to_blank :: "cell \<Rightarrow> cell" where
  "spacer_to_blank x = x\<lparr>c_char := 0x20, c_width := 1\<rparr>"

text \<open>The wrap that the previous character left pending.\<close>

definition resolve_wrap :: "nat \<Rightarrow> screen \<Rightarrow> screen option" where
  "resolve_wrap right_edge s =
     (if s_pending_wrap s then do {
        s \<leftarrow> (if md_autowrap (s_modes s) then do {
                s \<leftarrow> with_grid (grid_row_mut (row_of s) (\<lambda>l. l\<lparr>r_continuation := False\<rparr>)) s;
                s \<leftarrow> linefeed (carriage_return s);
                with_grid (grid_row_mut (row_of s) (\<lambda>l. l\<lparr>r_continuation := True\<rparr>)) s }
              else do { e \<leftarrow> usub right_edge 1; Some (set_col e s) });
        Some (unwrap_pending s) }
      else Some s)"

text \<open>A wide character that does not fit on the line.\<close>

definition fit_wide :: "nat \<Rightarrow> nat \<Rightarrow> screen \<Rightarrow> screen option" where
  "fit_wide width right_edge s =
     (if width = 2 then do {
        e \<leftarrow> usub right_edge 1;
        if e \<le> col_of s then
          if md_autowrap (s_modes s) then do {
            s \<leftarrow> (if col_of s < cols_of s then with_grid (grid_cell_mut (row_of s) (col_of s) spacer_to_blank) s
                  else Some s);
            s \<leftarrow> linefeed (carriage_return s);
            with_grid (grid_row_mut (row_of s) (\<lambda>l. l\<lparr>r_continuation := True\<rparr>)) s }
          else
            (let s = set_col (right_edge - 2) s in
             Some (if cols_of s \<le> col_of s then set_col 0 s else s))
        else Some s }
      else Some s)"

text \<open>The other halves of the wide characters that are overwritten.\<close>

definition clear_fragments :: "nat \<Rightarrow> nat \<Rightarrow> nat \<Rightarrow> screen \<Rightarrow> screen option" where
  "clear_fragments width row col s = do {
     s \<leftarrow> (if col < cols_of s then do {
             x \<leftarrow> grid_cell (s_grid s) row col;
             s \<leftarrow> (if c_width x = 2 \<and> col + 1 < cols_of s
                   then with_grid (grid_cell_mut row (col + 1) spacer_to_blank) s else Some s);
             if c_width x = 0 \<and> 0 < col
             then with_grid (grid_cell_mut row (col - 1) (\<lambda>h. if c_width h = 2 then spacer_to_blank h else h)) s
             else Some s }
           else Some s);
     if width = 2 \<and> col + 1 < cols_of s then do {
       x \<leftarrow> grid_cell (s_grid s) row (col + 1);
       if c_width x = 2 \<and> col + 2 < cols_of s
       then with_grid (grid_cell_mut row (col + 2) spacer_to_blank) s else Some s }
     else Some s }"

definition pen_cell :: "rchar \<Rightarrow> nat \<Rightarrow> screen \<Rightarrow> cell \<Rightarrow> cell" where
  "pen_cell c width s x =
     x\<lparr>c_char := c, c_width := width, c_fg := effective_fg s, c_bg := s_bg s, c_attrs := s_pen s,
       c_hyperlink := s_hyperlink s\<rparr>"

definition put_char :: "rchar \<Rightarrow> nat \<Rightarrow> nat \<Rightarrow> nat \<Rightarrow> screen \<Rightarrow> screen option" where
  "put_char c width row col s = do {
     s \<leftarrow> (if col < cols_of s then with_grid (grid_cell_mut row col (pen_cell c width s)) s else Some s);
     if width = 2 \<and> col + 1 < cols_of s
     then with_grid (grid_cell_mut row (col + 1) (pen_cell 0x20 0 s)) s else Some s }"

definition advance_cursor :: "nat \<Rightarrow> nat \<Rightarrow> screen \<Rightarrow> screen option" where
  "advance_cursor right_edge new_col s =
     (if right_edge \<le> new_col then do {
        e \<leftarrow> usub right_edge 1;
        Some (if md_autowrap (s_modes s) then (set_col e s)\<lparr>s_pending_wrap := True\<rparr> else set_col e s) }
      else Some (set_col new_col s))"

definition write_char :: "rchar \<Rightarrow> screen \<Rightarrow> screen option" where
  "write_char c s =
     (let s = s\<lparr>s_viewport_offset := 0\<rparr>;
          c = map_char s c;
          s = s\<lparr>s_last_char := Some c\<rparr>;
          width = char_width c;
          right_edge = effective_right s
      in if cols_of s = 0 \<or> rows_of s = 0 then Some s
         else if width = 0 then Some s
         else do {
           s \<leftarrow> resolve_wrap right_edge s;
           s \<leftarrow> fit_wide width right_edge s;
           s \<leftarrow> (if md_insert (s_modes s)
                 then with_grid (insert_cells_bounded (row_of s) (col_of s) width (effective_right s)) s
                 else Some s);
           let row = row_of s;
           let col = col_of s;
           s \<leftarrow> clear_fragments width row col s;
           s \<leftarrow> put_char c width row col s;
           let s = record_damage row col (col + width) s;
           advance_cursor right_edge (col + width) s })"

section \<open>Erasing\<close>

definition reset_unprotected :: "cell \<Rightarrow> cell" where
  "reset_unprotected x = (if at_protected (c_attrs x) then x else cell_default)"

definition clear_region_impl :: "nat \<Rightarrow> nat \<Rightarrow> nat \<Rightarrow> nat \<Rightarrow> bool \<Rightarrow> screen \<Rightarrow> screen option" where
  "clear_region_impl t l b r selective s =
     (if selective then
        let b = min b (rows_of s - 1); r = min r (cols_of s - 1) in
        foldM (\<lambda>s i. foldM (\<lambda>s j. with_grid (grid_cell_mut i j reset_unprotected) s) [l..<Suc r] s) [t..<Suc b] s
      else with_grid (clear_region t l b r) s)"

definition clear_row_impl :: "nat \<Rightarrow> bool \<Rightarrow> screen \<Rightarrow> screen option" where
  "clear_row_impl r selective s =
     (if selective
      then foldM (\<lambda>s j. with_grid (grid_cell_mut r j reset_unprotected) s) [0..<cols_of s] s
      else with_grid (clear_row r) s)"

definition erase_display_impl :: "erase_display \<Rightarrow> bool \<Rightarrow> screen \<Rightarrow> screen option" where
  "erase_display_impl mode selective s =
     (let rows = rows_of s; cols = cols_of s; row = row_of s; col = col_of s in
      case mode of
        EDBelow \<Rightarrow> do {
          let s = record_damage row col cols s;
          let s = fold (\<lambda>r. record_damage r 0 cols) [row + 1..<rows] s;
          s \<leftarrow> clear_region_impl row col row (cols - 1) selective s;
          foldM (\<lambda>s r. clear_row_impl r selective s) [row + 1..<rows] s }
      | EDAbove \<Rightarrow> do {
          s \<leftarrow> foldM (\<lambda>s r. clear_row_impl r selective (record_damage r 0 cols s)) [0..<row] s;
          clear_region_impl row 0 row col selective (record_damage row 0 (col + 1) s) }
      | EDAll \<Rightarrow> foldM (\<lambda>s r. clear_row_impl r selective (record_damage r 0 cols s)) [0..<rows] s
      | EDScrollback \<Rightarrow>
          Some (s\<lparr>s_grid := (s_grid s)\<lparr>g_scrollback := pop_all (g_scrollback (s_grid s))\<rparr>\<rparr>))"

definition erase_display_op :: "erase_display \<Rightarrow> screen \<Rightarrow> screen option" where
  "erase_display_op mode = erase_display_impl mode False"

definition selective_erase_display :: "erase_display \<Rightarrow> screen \<Rightarrow> screen option" where
  "selective_erase_display mode = erase_display_impl mode True"

definition erase_line_impl :: "erase_line \<Rightarrow> bool \<Rightarrow> screen \<Rightarrow> screen option" where
  "erase_line_impl mode selective s =
     (let cols = cols_of s; row = row_of s; col = col_of s in
      case mode of
        ELToRight \<Rightarrow> clear_region_impl row col row (cols - 1) selective (record_damage row col cols s)
      | ELToLeft \<Rightarrow> clear_region_impl row 0 row col selective (record_damage row 0 (col + 1) s)
      | ELAll \<Rightarrow> clear_row_impl row selective (record_damage row 0 cols s))"

definition erase_line_op :: "erase_line \<Rightarrow> screen \<Rightarrow> screen option" where
  "erase_line_op mode = erase_line_impl mode False"

definition selective_erase_line :: "erase_line \<Rightarrow> screen \<Rightarrow> screen option" where
  "selective_erase_line mode = erase_line_impl mode True"

section \<open>Scrolling, inserting, deleting\<close>

definition screen_scroll_up :: "nat \<Rightarrow> screen \<Rightarrow> screen option" where
  "screen_scroll_up count s =
     (let s = record_scroll_damage (s_scroll_top s) (s_scroll_bottom s) s in
      if has_lr_margins s
      then with_grid (grid_scroll_up_region (s_scroll_top s) (s_scroll_bottom s) (s_scroll_left s)
             (s_scroll_right s) count) s
      else with_grid (grid_scroll_up (s_scroll_top s) (s_scroll_bottom s) count) s)"

definition screen_scroll_down :: "nat \<Rightarrow> screen \<Rightarrow> screen option" where
  "screen_scroll_down count s =
     (let s = record_scroll_damage (s_scroll_top s) (s_scroll_bottom s) s in
      if has_lr_margins s
      then with_grid (grid_scroll_down_region (s_scroll_top s) (s_scroll_bottom s) (s_scroll_left s)
             (s_scroll_right s) count) s
      else with_grid (grid_scroll_down (s_scroll_top s) (s_scroll_bottom s) count) s)"

definition insert_lines :: "nat \<Rightarrow> screen \<Rightarrow> screen option" where
  "insert_lines count s = do {
     s \<leftarrow> (if in_scroll_region s
           then with_grid (grid_insert_lines (row_of s) count (s_scroll_top s) (s_scroll_bottom s)) s
           else Some s);
     Some (unwrap_pending (set_col 0 s)) }"

definition delete_lines :: "nat \<Rightarrow> screen \<Rightarrow> screen option" where
  "delete_lines count s = do {
     s \<leftarrow> (if in_scroll_region s
           then with_grid (grid_delete_lines (row_of s) count (s_scroll_top s) (s_scroll_bottom s)) s
           else Some s);
     Some (unwrap_pending (set_col 0 s)) }"

definition insert_chars :: "nat \<Rightarrow> screen \<Rightarrow> screen option" where
  "insert_chars count s =
     (let right = effective_right s; s = record_damage (row_of s) (col_of s) right s in
      map_option unwrap_pending (with_grid (insert_cells_bounded (row_of s) (col_of s) count right) s))"

definition delete_chars :: "nat \<Rightarrow> screen \<Rightarrow> screen option" where
  "delete_chars count s =
     (let right = effective_right s; s = record_damage (row_of s) (col_of s) right s in
      map_option unwrap_pending (with_grid (delete_cells_bounded (row_of s) (col_of s) count right) s))"

definition erase_chars :: "nat \<Rightarrow> screen \<Rightarrow> screen option" where
  "erase_chars count s =
     (let row = row_of s; col = col_of s;
          s = record_damage row col (min (col + count) (cols_of s)) s in
      map_option unwrap_pending (with_grid (grid_erase_chars row col count) s))"

definition reverse_index :: "screen \<Rightarrow> screen option" where
  "reverse_index s = do {
     s \<leftarrow> (if row_of s = s_scroll_top s then
             (if has_lr_margins s \<and> cursor_in_lr_margins s
              then with_grid (grid_scroll_down_region (s_scroll_top s) (s_scroll_bottom s)
                     (s_scroll_left s) (s_scroll_right s) 1) s
              else with_grid (grid_scroll_down (s_scroll_top s) (s_scroll_bottom s) 1) s)
           else if 0 < row_of s then Some (set_row (row_of s - 1) s)
           else Some s);
     Some (unwrap_pending s) }"

definition index :: "screen \<Rightarrow> screen option" where
  "index s = linefeed s"

section \<open>Saving, margins, screens\<close>

definition save_cursor :: "screen \<Rightarrow> screen" where
  "save_cursor s = s\<lparr>s_saved_cursor := Some
     \<lparr>sv_row = row_of s, sv_col = col_of s, sv_attrs = s_pen s, sv_fg = s_fg s, sv_bg = s_bg s,
      sv_charset_g0 = s_charset_g0 s, sv_charset_g1 = s_charset_g1 s,
      sv_active_charset = s_active_charset s, sv_origin_mode = md_origin (s_modes s),
      sv_pending_wrap = s_pending_wrap s\<rparr>\<rparr>"

definition restore_cursor :: "screen \<Rightarrow> screen" where
  "restore_cursor s =
     (case s_saved_cursor s of
        Some v \<Rightarrow>
          (set_col (min (sv_col v) (cols_of s - 1)) (set_row (min (sv_row v) (rows_of s - 1)) s))
            \<lparr>s_pen := sv_attrs v, s_fg := sv_fg v, s_bg := sv_bg v, s_charset_g0 := sv_charset_g0 v,
             s_charset_g1 := sv_charset_g1 v, s_active_charset := sv_active_charset v,
             s_modes := (s_modes s)\<lparr>md_origin := sv_origin_mode v\<rparr>,
             s_pending_wrap := sv_pending_wrap v\<rparr>
      | None \<Rightarrow>
          (set_col 0 (set_row 0 s))
            \<lparr>s_pen := attrs_default, s_fg := DefaultColor, s_bg := DefaultColor, s_pending_wrap := False\<rparr>)"

definition home_cursor :: "screen \<Rightarrow> screen" where
  "home_cursor s =
     unwrap_pending
       (if md_origin (s_modes s) then set_col (s_scroll_left s) (set_row (s_scroll_top s) s)
        else set_col 0 (set_row 0 s))"

definition set_scroll_region :: "nat \<Rightarrow> nat \<Rightarrow> screen \<Rightarrow> screen" where
  "set_scroll_region upper lower s =
     (let rows = rows_of s;
          upper = (if upper = 0 then 1 else upper);
          lower = (if lower = 0 then rows else lower);
          upper = min (upper - 1) (rows - 1);
          lower = min lower rows
      in home_cursor (if upper + 1 < lower then s\<lparr>s_scroll_top := upper, s_scroll_bottom := lower\<rparr> else s))"

definition set_left_right_margin :: "nat \<Rightarrow> nat \<Rightarrow> screen \<Rightarrow> screen" where
  "set_left_right_margin left right s =
     (if \<not> md_left_right_margin (s_modes s) then s
      else let cols = cols_of s;
               left = (if left = 0 then 1 else left);
               right = (if right = 0 then cols else right);
               left = min (left - 1) (cols - 1);
               right = min right cols
           in home_cursor (if left + 1 < right then s\<lparr>s_scroll_left := left, s_scroll_right := right\<rparr> else s))"

definition set_alt_screen :: "bool \<Rightarrow> screen \<Rightarrow> screen" where
  "set_alt_screen b s = s\<lparr>s_modes := (s_modes s)\<lparr>md_alt_screen := b\<rparr>\<rparr>"

definition swap_screens :: "screen \<Rightarrow> screen" where
  "swap_screens s =
     s\<lparr>s_cursor := s_alt_cursor s, s_alt_cursor := s_cursor s, s_grid := s_alt_grid s,
       s_alt_grid := s_grid s\<rparr>"

definition enter_alt_screen :: "bool \<Rightarrow> screen \<Rightarrow> screen option" where
  "enter_alt_screen save_decsc s =
     (if md_alt_screen (s_modes s) then Some s
      else do {
        let s = set_alt_screen True s;
        let s = (if save_decsc then save_cursor s else s);
        let s = swap_screens s;
        s \<leftarrow> foldM (\<lambda>s r. with_grid (clear_row r) s) [0..<rows_of s] s;
        Some (record_full_damage (unwrap_pending
          (s\<lparr>s_cursor := cursor_default\<lparr>cur_visible := True\<rparr>\<rparr>))) })"

definition leave_alt_screen :: "bool \<Rightarrow> screen \<Rightarrow> screen" where
  "leave_alt_screen restore_decrc s =
     (if \<not> md_alt_screen (s_modes s) then s
      else
        let s = unwrap_pending (swap_screens (set_alt_screen False s));
            s = (if restore_decrc then restore_cursor s else s)
        in record_full_damage s)"

definition reset :: "screen \<Rightarrow> screen" where
  "reset s = screen_new (cols_of s) (rows_of s)"

definition set_tab_stop :: "screen \<Rightarrow> screen" where
  "set_tab_stop s =
     (if col_of s < length (s_tab_stops s) then s\<lparr>s_tab_stops := (s_tab_stops s)[col_of s := True]\<rparr> else s)"

definition clear_tab_stop_op :: "clear_tab_stop \<Rightarrow> screen \<Rightarrow> screen" where
  "clear_tab_stop_op mode s =
     (case mode of
        TabCurrent \<Rightarrow> if col_of s < length (s_tab_stops s)
          then s\<lparr>s_tab_stops := (s_tab_stops s)[col_of s := False]\<rparr> else s
      | TabAll \<Rightarrow> s\<lparr>s_tab_stops := map (\<lambda>_. False) (s_tab_stops s)\<rparr>)"

section \<open>Resizing\<close>

text \<open>A margin pair \<open>[lo, hi)\<close> of the old size \<open>m\<close> at the new size \<open>n\<close>.\<close>

definition resize_margins :: "nat \<Rightarrow> nat \<Rightarrow> nat \<times> nat \<Rightarrow> nat \<times> nat" where
  "resize_margins m n = (\<lambda>(lo, hi).
     if lo = 0 \<and> hi = m then (0, n)
     else let hi = min hi n; lo = min lo (hi - 1) in (lo, if hi = 0 then n else hi))"

definition default_tabs_from :: "nat \<Rightarrow> nat \<Rightarrow> bool list \<Rightarrow> bool list" where
  "default_tabs_from old_len new_cols ts =
     fold (\<lambda>c ts. if c mod DEFAULT_TAB_INTERVAL = 0 \<and> 0 < c then ts[c := True] else ts) [old_len..<new_cols] ts"

definition resize :: "nat \<Rightarrow> nat \<Rightarrow> screen \<Rightarrow> screen option" where
  "resize new_cols new_rows s = do {
     let old_rows = rows_of s;
     let old_cols = cols_of s;
     (g, cursor_delta) \<leftarrow> resize_with_cursor new_cols new_rows (Some (row_of s, col_of s)) (s_grid s);
     let s = set_row (nat (max (int (row_of s) + cursor_delta) 0)) (s\<lparr>s_grid := g\<rparr>);
     (ag, _) \<leftarrow> grid_resize new_cols new_rows (s_alt_grid s);
     let s = s\<lparr>s_alt_grid := ag\<rparr>;
     let (tp, bt) = resize_margins old_rows new_rows (s_scroll_top s, s_scroll_bottom s);
     let (lf, rt) = resize_margins old_cols new_cols (s_scroll_left s, s_scroll_right s);
     let s = s\<lparr>s_scroll_top := tp, s_scroll_bottom := bt, s_scroll_left := lf, s_scroll_right := rt\<rparr>;
     let s = set_col (min (col_of s) (new_cols - 1)) (set_row (min (row_of s) (new_rows - 1)) s);
     let s = s\<lparr>s_saved_cursor := map_option (\<lambda>v.
        v\<lparr>sv_row := min (sv_row v) (new_rows - 1), sv_col := min (sv_col v) (new_cols - 1)\<rparr>) (s_saved_cursor s)\<rparr>;
     let old_len = length (s_tab_stops s);
     let s = s\<lparr>s_tab_stops := default_tabs_from old_len new_cols (resize_with new_cols False (s_tab_stops s))\<rparr>;
     Some (unwrap_pending s) }"

section \<open>Resets, pen, palette\<close>

definition soft_reset :: "screen \<Rightarrow> screen" where
  "soft_reset s =
     s\<lparr>s_modes := modes_default, s_pen := attrs_default, s_fg := DefaultColor, s_bg := DefaultColor,
       s_charset_g0 := Ascii, s_charset_g1 := Ascii, s_active_charset := 0, s_saved_cursor := None,
       s_pending_wrap := False,
       s_cursor := (s_cursor s)\<lparr>cur_visible := True, cur_shape := Block\<rparr>,
       s_scroll_top := 0, s_scroll_bottom := rows_of s, s_scroll_left := 0, s_scroll_right := cols_of s\<rparr>"

definition decaln :: "screen \<Rightarrow> screen option" where
  "decaln s = do {
     let rows = rows_of s;
     let cols = cols_of s;
     s \<leftarrow> foldM (\<lambda>s r. foldM (\<lambda>s c. with_grid (grid_cell_mut r c (\<lambda>x.
             x\<lparr>c_char := 0x45, c_width := 1, c_fg := DefaultColor, c_bg := DefaultColor,
               c_attrs := attrs_default\<rparr>)) s) [0..<cols] s) [0..<rows] s;
     Some (unwrap_pending (set_col 0 (set_row 0 (s\<lparr>s_scroll_top := 0, s_scroll_bottom := rows\<rparr>)))) }"

definition set_cursor_style :: "u16 \<Rightarrow> screen \<Rightarrow> screen" where
  "set_cursor_style style s = s\<lparr>s_cursor := (s_cursor s)\<lparr>cur_shape :=
     (if style = 3 \<or> style = 4 then Underline else if style = 5 \<or> style = 6 then Bar else Block)\<rparr>\<rparr>"

definition palette_color :: "screen \<Rightarrow> u8 \<Rightarrow> rgb" where
  "palette_color s i = (case get_opt (s_palette s) (unat i) of None \<Rightarrow> (0, 0, 0) | Some c \<Rightarrow> c)"

definition set_palette_color :: "u8 \<Rightarrow> rgb \<Rightarrow> screen \<Rightarrow> screen" where
  "set_palette_color i c s =
     (if unat i < length (s_palette s) then s\<lparr>s_palette := (s_palette s)[unat i := c]\<rparr> else s)"

definition push_sgr :: "screen \<Rightarrow> screen" where
  "push_sgr s = s\<lparr>s_sgr_stack := s_sgr_stack s @ [(s_pen s, s_fg s, s_bg s)]\<rparr>"

definition pop_sgr :: "screen \<Rightarrow> screen" where
  "pop_sgr s =
     (if s_sgr_stack s = [] then s
      else case last (s_sgr_stack s) of (attrs, fg, bg) \<Rightarrow>
        s\<lparr>s_sgr_stack := butlast (s_sgr_stack s),
          s_pen := attrs\<lparr>at_protected := at_protected (s_pen s)\<rparr>, s_fg := fg, s_bg := bg\<rparr>)"

definition save_dec_modes :: "screen \<Rightarrow> screen" where
  "save_dec_modes s = s\<lparr>s_saved_modes := Some (s_modes s)\<rparr>"

definition restore_dec_modes :: "screen \<Rightarrow> screen" where
  "restore_dec_modes s =
     (case s_saved_modes s of None \<Rightarrow> s | Some m \<Rightarrow> s\<lparr>s_saved_modes := None, s_modes := m\<rparr>)"

section \<open>Rectangles\<close>

definition fill_rect :: "rchar \<Rightarrow> nat \<Rightarrow> nat \<Rightarrow> nat \<Rightarrow> nat \<Rightarrow> screen \<Rightarrow> screen option" where
  "fill_rect ch t l b r s =
     (let rows = rows_of s; cols = cols_of s;
          t = min (t - 1) (rows - 1); l = min (l - 1) (cols - 1); b = min b rows; r = min r cols in
      foldM (\<lambda>s i. foldM (\<lambda>s j. with_grid (grid_cell_mut i j (\<lambda>x.
        x\<lparr>c_char := ch, c_width := 1, c_fg := s_fg s, c_bg := s_bg s, c_attrs := s_pen s\<rparr>)) s) [l..<r] s)
        [t..<b] s)"

definition copy_rect :: "nat \<Rightarrow> nat \<Rightarrow> nat \<Rightarrow> nat \<Rightarrow> nat \<Rightarrow> nat \<Rightarrow> screen \<Rightarrow> screen option" where
  "copy_rect src_top src_left src_bottom src_right dst_top dst_left s =
     (let rows = rows_of s; cols = cols_of s;
          st = min (src_top - 1) (rows - 1); sl = min (src_left - 1) (cols - 1);
          sb = min src_bottom rows; sr = min src_right cols;
          dt = min (dst_top - 1) (rows - 1); dl = min (dst_left - 1) (cols - 1);
          h = sb - st; w = sr - sl
      in if h = 0 \<or> w = 0 then Some s
         else do {
           buf \<leftarrow> foldM (\<lambda>buf r. foldM (\<lambda>buf c.
                    if r < rows \<and> c < cols
                    then map_option (\<lambda>x. buf @ [x]) (grid_cell (s_grid s) r c)
                    else Some (buf @ [cell_default])) [sl..<sr] buf) [st..<sb] [];
           foldM (\<lambda>s dr. foldM (\<lambda>s dc.
             let tr = dt + dr; tc = dl + dc in
             if tr < rows \<and> tc < cols
             then do { x \<leftarrow> idx buf (dr * w + dc); with_grid (grid_cell_mut tr tc (\<lambda>_. x)) s }
             else Some s) [0..<w] s) [0..<h] s })"

definition selective_erase_rect :: "nat \<Rightarrow> nat \<Rightarrow> nat \<Rightarrow> nat \<Rightarrow> screen \<Rightarrow> screen option" where
  "selective_erase_rect t l b r s =
     (let rows = rows_of s; cols = cols_of s;
          t = min (t - 1) (rows - 1); l = min (l - 1) (cols - 1); b = min b rows; r = min r cols in
      foldM (\<lambda>s i. foldM (\<lambda>s j. with_grid (grid_cell_mut i j reset_unprotected) s) [l..<r] s) [t..<b] s)"

section \<open>Viewport, marks, notifications, clipboard\<close>

definition viewport_row :: "screen \<Rightarrow> nat \<Rightarrow> row option" where
  "viewport_row s display_row =
     (if s_viewport_offset s = 0 then grid_row (s_grid s) display_row
      else let sb_len = scrollback_len (s_grid s);
               virtual_row = sb_len + display_row - s_viewport_offset s in
        if virtual_row < sb_len
        then (case scrollback_row (s_grid s) virtual_row of Some r \<Rightarrow> Some r | None \<Rightarrow> grid_row (s_grid s) 0)
        else grid_row (s_grid s) (min (virtual_row - sb_len) (rows_of s - 1)))"

definition scroll_viewport_up :: "nat \<Rightarrow> screen \<Rightarrow> screen" where
  "scroll_viewport_up n s =
     s\<lparr>s_viewport_offset := min (s_viewport_offset s + n) (scrollback_len (s_grid s))\<rparr>"

definition scroll_viewport_down :: "nat \<Rightarrow> screen \<Rightarrow> screen" where
  "scroll_viewport_down n s = s\<lparr>s_viewport_offset := s_viewport_offset s - n\<rparr>"

definition scroll_viewport_reset :: "screen \<Rightarrow> screen" where
  "scroll_viewport_reset s = s\<lparr>s_viewport_offset := 0\<rparr>"

definition drain_response :: "screen \<Rightarrow> u8 list \<times> screen" where
  "drain_response s = (s_response_buf s, s\<lparr>s_response_buf := []\<rparr>)"

definition add_shell_mark :: "shell_mark_kind \<Rightarrow> screen \<Rightarrow> screen" where
  "add_shell_mark kind s = s\<lparr>s_shell_marks := s_shell_marks s @ [\<lparr>sm_kind = kind, sm_row = row_of s\<rparr>]\<rparr>"

definition prev_mark :: "screen \<Rightarrow> nat \<Rightarrow> shell_mark option" where
  "prev_mark s from_row = find (\<lambda>m. sm_row m < from_row) (rev (s_shell_marks s))"

definition next_mark :: "screen \<Rightarrow> nat \<Rightarrow> shell_mark option" where
  "next_mark s from_row = find (\<lambda>m. from_row < sm_row m) (s_shell_marks s)"

definition exit_code_of :: "shell_mark \<Rightarrow> int option" where
  "exit_code_of m = (case sm_kind m of CommandFinished e \<Rightarrow> Some e | _ \<Rightarrow> None)"

definition last_command_exit_code :: "screen \<Rightarrow> int option" where
  "last_command_exit_code s =
     (case List.map_filter exit_code_of (rev (s_shell_marks s)) of [] \<Rightarrow> None | e # _ \<Rightarrow> Some e)"

definition push_notification :: "rstr \<Rightarrow> rstr \<Rightarrow> screen \<Rightarrow> screen" where
  "push_notification title body s =
     s\<lparr>s_notifications := s_notifications s @ [\<lparr>n_title = title, n_body = body\<rparr>], s_has_unread := True\<rparr>"

definition clear_unread_notifications :: "screen \<Rightarrow> screen" where
  "clear_unread_notifications s = s\<lparr>s_has_unread := False\<rparr>"

definition drain_notifications :: "screen \<Rightarrow> notification list \<times> screen" where
  "drain_notifications s = (s_notifications s, s\<lparr>s_has_unread := False, s_notifications := []\<rparr>)"

definition set_clipboard :: "rstr \<Rightarrow> screen \<Rightarrow> screen" where
  "set_clipboard content s =
     s\<lparr>s_clipboard := Some content, s_passthrough := s_passthrough s @ [osc52_clipboard content]\<rparr>"

definition query_clipboard :: "screen \<Rightarrow> screen" where
  "query_clipboard s =
     s\<lparr>s_passthrough := s_passthrough s @ [0x1b # ascii '']52;c;?'' @ [0x1b, 0x5c]]\<rparr>"

definition drain_passthrough :: "screen \<Rightarrow> u8 list list \<times> screen" where
  "drain_passthrough s = (s_passthrough s, s\<lparr>s_passthrough := []\<rparr>)"

end
