(* ===== verification/Term_Screen_Props.thy ===== *)
theory Term_Screen_Props
  imports Term_Screen
begin

text \<open>
  The invariant of the screen and its preservation. \<open>screen_ok C R\<close>: both grids are \<open>C\<close> by \<open>R\<close>, neither
  is empty, the rows of both cursors are on the screen, the scroll region and the margins are non-empty
  and on the screen, there is a tab-stop flag per column and there are 256 palette entries. The cursor's
  column is not bounded: a change to fewer columns on the other screen may leave it past the edge, and
  every operation copes with that. Under the invariant no operation panics, and all of them keep it.
\<close>

definition screen_ok :: "nat \<Rightarrow> nat \<Rightarrow> screen \<Rightarrow> bool" where
  "screen_ok C R s \<longleftrightarrow>
     0 < C \<and> 0 < R \<and> grid_ok C R (s_grid s) \<and> grid_ok C R (s_alt_grid s) \<and>
     row_of s < R \<and> cur_row (s_alt_cursor s) < R \<and>
     s_scroll_top s < s_scroll_bottom s \<and> s_scroll_bottom s \<le> R \<and>
     s_scroll_left s < s_scroll_right s \<and> s_scroll_right s \<le> C \<and>
     length (s_tab_stops s) = C \<and> length (s_palette s) = 256"

lemma screen_okD:
  assumes "screen_ok C R s"
  shows "0 < C" "0 < R" "grid_ok C R (s_grid s)" "grid_ok C R (s_alt_grid s)" "row_of s < R"
    "cur_row (s_alt_cursor s) < R" "s_scroll_top s < s_scroll_bottom s" "s_scroll_bottom s \<le> R"
    "s_scroll_left s < s_scroll_right s" "s_scroll_right s \<le> C" "length (s_tab_stops s) = C"
    "length (s_palette s) = 256" "cols_of s = C" "rows_of s = R"
  using assms by (auto simp: screen_ok_def cols_of_def rows_of_def dest: grid_ok_cols grid_ok_rows)

lemma effective_right_bounds:
  "screen_ok C R s \<Longrightarrow> 0 < effective_right s \<and> effective_right s \<le> C"
  by (auto simp: effective_right_def screen_okD dest: screen_okD(9))

section \<open>Updates the invariant does not see\<close>

lemma screen_ok_fields [simp]:
  "screen_ok C R (s\<lparr>s_saved_cursor := a1\<rparr>) = screen_ok C R s"
  "screen_ok C R (s\<lparr>s_modes := a2\<rparr>) = screen_ok C R s"
  "screen_ok C R (s\<lparr>s_pen := a3\<rparr>) = screen_ok C R s"
  "screen_ok C R (s\<lparr>s_fg := a4\<rparr>) = screen_ok C R s"
  "screen_ok C R (s\<lparr>s_bg := a4\<rparr>) = screen_ok C R s"
  "screen_ok C R (s\<lparr>s_title := a5\<rparr>) = screen_ok C R s"
  "screen_ok C R (s\<lparr>s_charset_g0 := a6\<rparr>) = screen_ok C R s"
  "screen_ok C R (s\<lparr>s_charset_g1 := a6\<rparr>) = screen_ok C R s"
  "screen_ok C R (s\<lparr>s_active_charset := a7\<rparr>) = screen_ok C R s"
  "screen_ok C R (s\<lparr>s_pending_wrap := a8\<rparr>) = screen_ok C R s"
  "screen_ok C R (s\<lparr>s_last_char := a9\<rparr>) = screen_ok C R s"
  "screen_ok C R (s\<lparr>s_sgr_stack := b1\<rparr>) = screen_ok C R s"
  "screen_ok C R (s\<lparr>s_saved_modes := b2\<rparr>) = screen_ok C R s"
  "screen_ok C R (s\<lparr>s_hyperlink := b3\<rparr>) = screen_ok C R s"
  "screen_ok C R (s\<lparr>s_bold_is_bright := a8\<rparr>) = screen_ok C R s"
  "screen_ok C R (s\<lparr>s_response_buf := b4\<rparr>) = screen_ok C R s"
  "screen_ok C R (s\<lparr>s_working_directory := b5\<rparr>) = screen_ok C R s"
  "screen_ok C R (s\<lparr>s_viewport_offset := b6\<rparr>) = screen_ok C R s"
  "screen_ok C R (s\<lparr>s_alt_saved_cursor := a1\<rparr>) = screen_ok C R s"
  "screen_ok C R (s\<lparr>s_notifications := b7\<rparr>) = screen_ok C R s"
  "screen_ok C R (s\<lparr>s_has_unread := a8\<rparr>) = screen_ok C R s"
  "screen_ok C R (s\<lparr>s_shell_marks := b8\<rparr>) = screen_ok C R s"
  "screen_ok C R (s\<lparr>s_clipboard := b9\<rparr>) = screen_ok C R s"
  "screen_ok C R (s\<lparr>s_passthrough := c1\<rparr>) = screen_ok C R s"
  "screen_ok C R (s\<lparr>s_damage := c2\<rparr>) = screen_ok C R s"
  "screen_ok C R (s\<lparr>s_damage_mode := c3\<rparr>) = screen_ok C R s"
  by (simp_all add: screen_ok_def)

lemma screen_ok_unwrap [simp]: "screen_ok C R (unwrap_pending s) = screen_ok C R s"
  by (simp add: unwrap_pending_def)

lemma screen_ok_set_col [simp]: "screen_ok C R (set_col c s) = screen_ok C R s"
  by (simp add: set_col_def screen_ok_def)

lemma screen_ok_set_row: "screen_ok C R s \<Longrightarrow> r < R \<Longrightarrow> screen_ok C R (set_row r s)"
  by (simp add: set_row_def screen_ok_def)

lemma screen_ok_cursor:
  "screen_ok C R s \<Longrightarrow> cur_row c < R \<Longrightarrow> screen_ok C R (s\<lparr>s_cursor := c\<rparr>)"
  by (simp add: screen_ok_def)

lemma screen_ok_grid:
  "screen_ok C R s \<Longrightarrow> grid_ok C R g \<Longrightarrow> screen_ok C R (s\<lparr>s_grid := g\<rparr>)"
  by (simp add: screen_ok_def)

lemma screen_ok_margins_tb:
  "screen_ok C R s \<Longrightarrow> t < b \<Longrightarrow> b \<le> R \<Longrightarrow> screen_ok C R (s\<lparr>s_scroll_top := t, s_scroll_bottom := b\<rparr>)"
  by (simp add: screen_ok_def)

lemma screen_ok_margins_lr:
  "screen_ok C R s \<Longrightarrow> l < r \<Longrightarrow> r \<le> C \<Longrightarrow> screen_ok C R (s\<lparr>s_scroll_left := l, s_scroll_right := r\<rparr>)"
  by (simp add: screen_ok_def)

lemma screen_ok_tabs:
  "screen_ok C R s \<Longrightarrow> length ts = C \<Longrightarrow> screen_ok C R (s\<lparr>s_tab_stops := ts\<rparr>)"
  by (simp add: screen_ok_def)

lemma screen_ok_palette:
  "screen_ok C R s \<Longrightarrow> length p = 256 \<Longrightarrow> screen_ok C R (s\<lparr>s_palette := p\<rparr>)"
  by (simp add: screen_ok_def)

lemma with_grid_ok:
  "screen_ok C R s \<Longrightarrow> returns (f (s_grid s)) (grid_ok C R) \<Longrightarrow> returns (with_grid f s) (screen_ok C R)"
  by (auto simp: with_grid_def intro: returns_weaken screen_ok_grid)

lemma length_tab_loop [simp]: "length (tab_loop cols col ts) = length ts"
  by (induction cols col ts rule: tab_loop.induct) (subst tab_loop.simps, simp)

lemma length_default_palette: "length default_palette = 256"
  by code_simp

lemma screen_ok_new: "0 < C \<Longrightarrow> 0 < R \<Longrightarrow> screen_ok C R (screen_new C R)"
  by (simp add: screen_ok_def screen_new_def grid_ok_new length_default_palette cursor_default_def)

section \<open>Damage\<close>

lemma screen_ok_push_damage [simp]: "screen_ok C R (push_damage r a b s) = screen_ok C R s"
  by (simp add: push_damage_def)

lemma screen_ok_record_damage [simp]: "screen_ok C R (record_damage r a b s) = screen_ok C R s"
  by (simp add: record_damage_def split: damage_mode.split)

lemma screen_ok_fold_damage [simp]:
  "screen_ok C R (fold (\<lambda>r s. push_damage r (f r s) (h r s) s) rs s) = screen_ok C R s"
  by (induction rs arbitrary: s) simp_all

lemma screen_ok_fold_record [simp]:
  "screen_ok C R (fold (\<lambda>r. record_damage r a b) rs s) = screen_ok C R s"
  by (induction rs arbitrary: s) simp_all

lemma screen_ok_scroll_damage [simp]: "screen_ok C R (record_scroll_damage t b s) = screen_ok C R s"
  by (simp add: record_scroll_damage_def)

lemma screen_ok_full_damage [simp]: "screen_ok C R (record_full_damage s) = screen_ok C R s"
  by (simp add: record_full_damage_def)

lemma screen_ok_take_damage: "screen_ok C R s \<Longrightarrow> screen_ok C R (snd (take_damage s))"
  by (simp add: take_damage_def Let_def)

text \<open>What damage records leave alone.\<close>

lemma push_damage_frame [simp]:
  "s_grid (push_damage r a b s) = s_grid s" "s_cursor (push_damage r a b s) = s_cursor s"
  "s_modes (push_damage r a b s) = s_modes s" "s_scroll_top (push_damage r a b s) = s_scroll_top s"
  "s_scroll_bottom (push_damage r a b s) = s_scroll_bottom s"
  "s_scroll_left (push_damage r a b s) = s_scroll_left s"
  "s_scroll_right (push_damage r a b s) = s_scroll_right s" "s_pen (push_damage r a b s) = s_pen s"
  "s_damage_mode (push_damage r a b s) = s_damage_mode s"
  by (simp_all add: push_damage_def)

lemma fold_push_damage:
  "fold (\<lambda>r s. push_damage r a (cols_of s) s) rs s
     = s\<lparr>s_damage := s_damage s @ map (\<lambda>r. \<lparr>dm_row = r, dm_start = a, dm_end = cols_of s\<rparr>) rs\<rparr>"
  by (induction rs arbitrary: s) (simp_all add: push_damage_def cols_of_def)

lemma record_scroll_damage_eq:
  "record_scroll_damage t b s
     = s\<lparr>s_damage := s_damage s @ map (\<lambda>r. \<lparr>dm_row = r, dm_start = 0, dm_end = cols_of s\<rparr>) [t..<b]\<rparr>"
  by (simp add: record_scroll_damage_def fold_push_damage)

lemma record_damage_eq:
  "record_damage r a b s = s\<lparr>s_damage := s_damage (record_damage r a b s)\<rparr>"
  by (simp add: record_damage_def push_damage_def split: damage_mode.split)

lemma fold_record_damage: "\<exists>ds. fold (\<lambda>r. record_damage r a b) rs s = s\<lparr>s_damage := ds\<rparr>"
proof (induction rs arbitrary: s)
  case Nil
  have "s = s\<lparr>s_damage := s_damage s\<rparr>" by simp
  then show ?case by (metis fold_simps(1))
next
  case (Cons r rs)
  obtain d where "record_damage r a b s = s\<lparr>s_damage := d\<rparr>"
    using record_damage_eq by blast
  then show ?case
    using Cons.IH [of "s\<lparr>s_damage := d\<rparr>"] by auto
qed

section \<open>Operations that cannot panic\<close>

lemma linefeed_ok: "screen_ok C R s \<Longrightarrow> returns (linefeed s) (screen_ok C R)"
proof -
  assume "screen_ok C R s"
  define u where "u = unwrap_pending s"
  define v where "v = record_scroll_damage (s_scroll_top u) (s_scroll_bottom u) u"
  have ok: "screen_ok C R u" "screen_ok C R v"
    using \<open>screen_ok C R s\<close> by (simp_all add: u_def v_def)
  have nl: "screen_ok C R t \<Longrightarrow> screen_ok C R (if md_newline (s_modes t) then set_col 0 t else t)" for t
    by simp
  show ?thesis
    unfolding linefeed_def u_def [symmetric] Let_def v_def [symmetric]
    using ok screen_okD(7-10,13,14) [OF ok(1)] screen_okD(8,10) [OF ok(2)] screen_okD(3) [OF ok(2)]
    by (intro returns_bindI [of _ "screen_ok C R"] returns_SomeI nl returns_ifI with_grid_ok
        scroll_up_region_ok grid_scroll_up_ok screen_ok_set_row) auto
qed

lemma carriage_return_ok [simp]: "screen_ok C R (carriage_return s) = screen_ok C R s"
  by (simp add: carriage_return_def)

lemma backspace_ok: "screen_ok C R s \<Longrightarrow> screen_ok C R (backspace s)"
  by (auto simp: backspace_def intro!: screen_ok_set_row dest: screen_okD(5))

lemma tab_ok: "screen_ok C R s \<Longrightarrow> screen_ok C R (tab s)"
  by (simp add: tab_def Let_def split: option.split)

lemma tab_forward_ok: "screen_ok C R s \<Longrightarrow> screen_ok C R (tab_forward n s)"
  unfolding tab_forward_def by (induction n) (simp_all add: tab_ok)

lemma tab_backward_loop_ok: "screen_ok C R s \<Longrightarrow> screen_ok C R (tab_backward_loop n s)"
  by (induction n s rule: tab_backward_loop.induct) (auto split: option.split)

lemma tab_backward_ok: "screen_ok C R s \<Longrightarrow> screen_ok C R (tab_backward n s)"
  by (simp add: tab_backward_def tab_backward_loop_ok)

lemma cursor_up_ok: "screen_ok C R s \<Longrightarrow> screen_ok C R (cursor_up n s)"
  by (auto simp: cursor_up_def Let_def in_scroll_region_def intro!: screen_ok_set_row dest: screen_okD)

lemma cursor_down_ok: "screen_ok C R s \<Longrightarrow> screen_ok C R (cursor_down n s)"
  by (frule screen_okD(7); frule screen_okD(8); frule screen_okD(14))
     (auto simp: cursor_down_def Let_def min_def intro!: screen_ok_set_row dest: screen_okD(2,5))

lemma cursor_left_ok: "screen_ok C R s \<Longrightarrow> screen_ok C R (cursor_left n s)"
  by (simp add: cursor_left_def)

lemma cursor_right_ok: "screen_ok C R s \<Longrightarrow> screen_ok C R (cursor_right n s)"
  by (simp add: cursor_right_def)

lemma cursor_position_ok: "screen_ok C R s \<Longrightarrow> screen_ok C R (cursor_position r c s)"
  by (frule screen_okD(7); frule screen_okD(8); frule screen_okD(14))
     (auto simp: cursor_position_def Let_def min_def intro!: screen_ok_set_row dest: screen_okD(2))

lemma save_cursor_ok [simp]: "screen_ok C R (save_cursor s) = screen_ok C R s"
  by (simp add: save_cursor_def)

lemma restore_cursor_ok: "screen_ok C R s \<Longrightarrow> screen_ok C R (restore_cursor s)"
  by (frule screen_okD(2); frule screen_okD(14))
     (auto simp: restore_cursor_def min_def intro!: screen_ok_set_row split: option.split)

lemma home_cursor_ok: "screen_ok C R s \<Longrightarrow> screen_ok C R (home_cursor s)"
  by (frule screen_okD(2); frule screen_okD(7); frule screen_okD(8))
     (auto simp: home_cursor_def intro!: screen_ok_set_row)

lemma set_scroll_region_ok: "screen_ok C R s \<Longrightarrow> screen_ok C R (set_scroll_region t b s)"
  by (frule screen_okD(14))
     (auto simp: set_scroll_region_def Let_def intro!: home_cursor_ok screen_ok_margins_tb)

lemma set_left_right_margin_ok: "screen_ok C R s \<Longrightarrow> screen_ok C R (set_left_right_margin l r s)"
  by (frule screen_okD(13))
     (auto simp: set_left_right_margin_def Let_def intro!: home_cursor_ok screen_ok_margins_lr)

lemma swap_screens_ok: "screen_ok C R s \<Longrightarrow> screen_ok C R (swap_screens s)"
  by (simp add: swap_screens_def screen_ok_def)

lemma set_alt_screen_ok [simp]: "screen_ok C R (set_alt_screen b s) = screen_ok C R s"
  by (simp add: set_alt_screen_def)

lemma leave_alt_screen_ok: "screen_ok C R s \<Longrightarrow> screen_ok C R (leave_alt_screen d s)"
  by (simp add: leave_alt_screen_def Let_def swap_screens_ok restore_cursor_ok)

lemma reset_ok: "screen_ok C R s \<Longrightarrow> screen_ok C R (reset s)"
  by (frule screen_okD(1); frule screen_okD(2)) (simp add: reset_def screen_okD(13,14) screen_ok_new)

lemma set_tab_stop_ok: "screen_ok C R s \<Longrightarrow> screen_ok C R (set_tab_stop s)"
  by (auto simp: set_tab_stop_def intro!: screen_ok_tabs dest: screen_okD(11))

lemma clear_tab_stop_ok: "screen_ok C R s \<Longrightarrow> screen_ok C R (clear_tab_stop_op m s)"
  by (auto simp: clear_tab_stop_op_def intro!: screen_ok_tabs dest: screen_okD(11) split: clear_tab_stop.split)

lemma soft_reset_ok: "screen_ok C R s \<Longrightarrow> screen_ok C R (soft_reset s)"
  by (simp add: screen_ok_def soft_reset_def rows_of_def cols_of_def)
     (auto dest: grid_ok_cols grid_ok_rows)

lemma set_cursor_style_ok: "screen_ok C R s \<Longrightarrow> screen_ok C R (set_cursor_style n s)"
  by (auto simp: set_cursor_style_def intro!: screen_ok_cursor dest: screen_okD(5))

lemma set_palette_color_ok: "screen_ok C R s \<Longrightarrow> screen_ok C R (set_palette_color i c s)"
  by (auto simp: set_palette_color_def intro!: screen_ok_palette dest: screen_okD(12))

lemma push_sgr_ok [simp]: "screen_ok C R (push_sgr s) = screen_ok C R s"
  by (simp add: push_sgr_def)

lemma pop_sgr_ok [simp]: "screen_ok C R (pop_sgr s) = screen_ok C R s"
  by (simp add: pop_sgr_def split: prod.split)

lemma save_dec_modes_ok [simp]: "screen_ok C R (save_dec_modes s) = screen_ok C R s"
  by (simp add: save_dec_modes_def)

lemma restore_dec_modes_ok [simp]: "screen_ok C R (restore_dec_modes s) = screen_ok C R s"
  by (simp add: restore_dec_modes_def split: option.split)

lemma viewport_ok [simp]:
  "screen_ok C R (scroll_viewport_up n s) = screen_ok C R s"
  "screen_ok C R (scroll_viewport_down n s) = screen_ok C R s"
  "screen_ok C R (scroll_viewport_reset s) = screen_ok C R s"
  by (simp_all add: scroll_viewport_up_def scroll_viewport_down_def scroll_viewport_reset_def)

lemma osc_ops_ok [simp]:
  "screen_ok C R (add_shell_mark k s) = screen_ok C R s"
  "screen_ok C R (push_notification t b s) = screen_ok C R s"
  "screen_ok C R (clear_unread_notifications s) = screen_ok C R s"
  "screen_ok C R (set_clipboard x s) = screen_ok C R s"
  "screen_ok C R (query_clipboard s) = screen_ok C R s"
  by (simp_all add: add_shell_mark_def push_notification_def clear_unread_notifications_def
      set_clipboard_def query_clipboard_def)

lemma drains_ok [simp]:
  "screen_ok C R (snd (drain_response s)) = screen_ok C R s"
  "screen_ok C R (snd (drain_notifications s)) = screen_ok C R s"
  "screen_ok C R (snd (drain_passthrough s)) = screen_ok C R s"
  by (simp_all add: drain_response_def drain_notifications_def drain_passthrough_def)

section \<open>Operations on the grid\<close>

lemma screen_scroll_up_ok: "screen_ok C R s \<Longrightarrow> returns (screen_scroll_up n s) (screen_ok C R)"
  unfolding screen_scroll_up_def Let_def
  by (intro returns_ifI with_grid_ok scroll_up_region_ok grid_scroll_up_ok)
     (auto simp: record_scroll_damage_eq screen_okD)

lemma screen_scroll_down_ok: "screen_ok C R s \<Longrightarrow> returns (screen_scroll_down n s) (screen_ok C R)"
  unfolding screen_scroll_down_def Let_def
  by (intro returns_ifI with_grid_ok scroll_down_region_ok grid_scroll_down_ok)
     (auto simp: record_scroll_damage_eq screen_okD)

lemma reverse_index_ok: "screen_ok C R s \<Longrightarrow> returns (reverse_index s) (screen_ok C R)"
  unfolding reverse_index_def
  by (intro returns_bindI [of _ "screen_ok C R"] returns_ifI with_grid_ok scroll_down_region_ok
      grid_scroll_down_ok returns_SomeI)
     (auto simp: screen_okD intro!: screen_ok_set_row dest: screen_okD(5))

lemma index_ok: "screen_ok C R s \<Longrightarrow> returns (index s) (screen_ok C R)"
  by (simp add: index_def linefeed_ok)

lemma insert_lines_ok: "screen_ok C R s \<Longrightarrow> returns (insert_lines n s) (screen_ok C R)"
  unfolding insert_lines_def
  by (intro returns_bindI [of _ "screen_ok C R"] returns_ifI with_grid_ok grid_insert_lines_ok returns_SomeI)
     (auto simp: screen_okD)

lemma delete_lines_ok: "screen_ok C R s \<Longrightarrow> returns (delete_lines n s) (screen_ok C R)"
  unfolding delete_lines_def
  by (intro returns_bindI [of _ "screen_ok C R"] returns_ifI with_grid_ok grid_delete_lines_ok returns_SomeI)
     (auto simp: screen_okD)

lemma record_damage_grid [simp]: "s_grid (record_damage r a b s) = s_grid s"
  by (subst record_damage_eq) simp

lemma insert_chars_ok: "screen_ok C R s \<Longrightarrow> returns (insert_chars n s) (screen_ok C R)"
  unfolding insert_chars_def Let_def returns_map_option screen_ok_unwrap
  by (intro with_grid_ok insert_cells_ok) (auto simp: screen_okD)

lemma delete_chars_ok: "screen_ok C R s \<Longrightarrow> returns (delete_chars n s) (screen_ok C R)"
  unfolding delete_chars_def Let_def returns_map_option screen_ok_unwrap
  by (intro with_grid_ok delete_cells_ok) (auto simp: screen_okD)

lemma erase_chars_op_ok: "screen_ok C R s \<Longrightarrow> returns (erase_chars n s) (screen_ok C R)"
  unfolding erase_chars_def Let_def returns_map_option screen_ok_unwrap
  by (intro with_grid_ok erase_chars_ok) (auto simp: screen_okD)

text \<open>Loops over rows and cells of the screen.\<close>

lemma cell_mut_ok: "screen_ok C R s \<Longrightarrow> returns (with_grid (grid_cell_mut r c f) s) (screen_ok C R)"
  by (intro with_grid_ok grid_cell_mut_ok) (auto dest: screen_okD)

lemma row_mut_ok:
  "screen_ok C R s \<Longrightarrow> (\<And>l. length (r_cells (f l)) = length (r_cells l)) \<Longrightarrow>
   returns (with_grid (grid_row_mut r f) s) (screen_ok C R)"
  by (intro with_grid_ok grid_row_mut_ok) (auto dest: screen_okD)

lemma clear_region_impl_ok: "screen_ok C R s \<Longrightarrow> returns (clear_region_impl t l b r sel s) (screen_ok C R)"
  unfolding clear_region_impl_def Let_def
  by (intro returns_ifI returns_foldM cell_mut_ok with_grid_ok clear_region_ok) (auto dest: screen_okD)

lemma clear_row_impl_ok:
  "screen_ok C R s \<Longrightarrow> r < R \<Longrightarrow> returns (clear_row_impl r sel s) (screen_ok C R)"
  unfolding clear_row_impl_def
  by (intro returns_ifI returns_foldM cell_mut_ok with_grid_ok clear_row_ok) (auto dest: screen_okD)

lemma erase_display_impl_ok:
  assumes "screen_ok C R s"
  shows "returns (erase_display_impl m sel s) (screen_ok C R)"
proof (cases m)
  case EDBelow
  then show ?thesis
    using assms screen_okD(14) [OF assms]
    by (simp add: erase_display_impl_def Let_def del: returns_bind)
       (intro returns_bindI [of _ "screen_ok C R"] clear_region_impl_ok returns_foldM clear_row_impl_ok, auto)
next
  case EDAbove
  then show ?thesis
    using assms screen_okD(5) [OF assms]
    by (simp add: erase_display_impl_def Let_def del: returns_bind)
       (intro returns_bindI [of _ "screen_ok C R"] clear_region_impl_ok returns_foldM clear_row_impl_ok, auto)
next
  case EDAll
  then show ?thesis
    using assms screen_okD(14) [OF assms]
    by (simp add: erase_display_impl_def Let_def) (intro returns_foldM clear_row_impl_ok, auto)
next
  case EDScrollback
  then show ?thesis
    using assms by (auto simp: erase_display_impl_def Let_def intro!: screen_ok_grid grid_ok_set_scrollback
        dest: screen_okD(3))
qed

lemma erase_line_impl_ok: "screen_ok C R s \<Longrightarrow> returns (erase_line_impl m sel s) (screen_ok C R)"
  by (cases m)
     (auto simp: erase_line_impl_def Let_def intro!: clear_region_impl_ok clear_row_impl_ok dest: screen_okD(5))

lemma enter_alt_screen_ok: "screen_ok C R s \<Longrightarrow> returns (enter_alt_screen d s) (screen_ok C R)"
proof -
  assume s: "screen_ok C R s"
  define u where "u = swap_screens (if d then save_cursor (set_alt_screen True s) else set_alt_screen True s)"
  have u: "screen_ok C R u"
    using s by (auto simp: u_def intro!: swap_screens_ok)
  have "returns (foldM (\<lambda>s r. with_grid (clear_row r) s) [0..<rows_of u] u) (screen_ok C R)"
    using u screen_okD(14) [OF u] by (intro returns_foldM with_grid_ok clear_row_ok) (auto dest: screen_okD)
  then have "returns (Option.bind (foldM (\<lambda>s r. with_grid (clear_row r) s) [0..<rows_of u] u)
      (\<lambda>s. Some (record_full_damage (unwrap_pending (s\<lparr>s_cursor := cursor_default\<lparr>cur_visible := True\<rparr>\<rparr>))))) (screen_ok C R)"
    by (rule returns_bindI)
       (auto intro!: screen_ok_cursor simp: cursor_default_def dest: screen_okD(2))
  then show ?thesis
    using s by (auto simp: enter_alt_screen_def u_def Let_def)
qed

lemma decaln_ok: "screen_ok C R s \<Longrightarrow> returns (decaln s) (screen_ok C R)"
  unfolding decaln_def Let_def
  by (rule returns_bindI [of _ "screen_ok C R"])
     (auto intro!: returns_foldM cell_mut_ok screen_ok_set_row screen_ok_margins_tb dest: screen_okD)

lemma fill_rect_ok: "screen_ok C R s \<Longrightarrow> returns (fill_rect ch t l b r s) (screen_ok C R)"
  unfolding fill_rect_def Let_def by (intro returns_foldM cell_mut_ok)

lemma selective_erase_rect_ok:
  "screen_ok C R s \<Longrightarrow> returns (selective_erase_rect t l b r s) (screen_ok C R)"
  unfolding selective_erase_rect_def Let_def by (intro returns_foldM cell_mut_ok)

lemma returns_foldM_length:
  assumes "\<And>b x. x \<in> set xs \<Longrightarrow> returns (f b x) (\<lambda>b'. length b' = length b + k)"
  shows "returns (foldM f xs buf) (\<lambda>b. length b = length buf + k * length xs)"
  using assms
proof (induction xs arbitrary: buf)
  case (Cons x xs)
  have "returns (f buf x) (\<lambda>b'. length b' = length buf + k)"
    by (rule Cons.prems) simp
  then obtain b where "f buf x = Some b" "length b = length buf + k"
    by (auto simp: returns_iff)
  then show ?case
    using Cons.IH [of b] Cons.prems by (simp add: add.assoc)
qed simp

lemma grid_cell_total: "screen_ok C R s \<Longrightarrow> \<exists>x. grid_cell (s_grid s) r c = Some x"
  using grid_cell_ok [of C R "s_grid s" r c] by (auto dest: screen_okD)

lemma copy_rect_ok:
  assumes "screen_ok C R s"
  shows "returns (copy_rect stp sl sb sr dt dl s) (screen_ok C R)"
proof -
  define t where "t = min (stp - 1) (rows_of s - 1)"
  define l where "l = min (sl - 1) (cols_of s - 1)"
  define h where "h = min sb (rows_of s) - t"
  define w where "w = min sr (cols_of s) - l"
  have buf: "returns (foldM (\<lambda>buf r. foldM (\<lambda>buf c.
                    if r < rows_of s \<and> c < cols_of s
                    then map_option (\<lambda>x. buf @ [x]) (grid_cell (s_grid s) r c)
                    else Some (buf @ [cell_default])) [l..<min sr (cols_of s)] buf) [t..<min sb (rows_of s)] [])
      (\<lambda>b. length b = length ([] :: cell list) + w * length [t..<min sb (rows_of s)])"
  proof (rule returns_foldM_length)
    fix b :: "cell list" and r
    have "returns (foldM (\<lambda>buf c. if r < rows_of s \<and> c < cols_of s
            then map_option (\<lambda>x. buf @ [x]) (grid_cell (s_grid s) r c) else Some (buf @ [cell_default]))
          [l..<min sr (cols_of s)] b)
        (\<lambda>b'. length b' = length b + 1 * length [l..<min sr (cols_of s)])"
    proof (rule returns_foldM_length)
      fix b' :: "cell list" and c
      obtain x where "grid_cell (s_grid s) r c = Some x"
        using grid_cell_total [OF assms] by blast
      then show "returns (if r < rows_of s \<and> c < cols_of s
            then map_option (\<lambda>x. b' @ [x]) (grid_cell (s_grid s) r c) else Some (b' @ [cell_default]))
          (\<lambda>b''. length b'' = length b' + 1)"
        by simp
    qed
    then show "returns (foldM (\<lambda>buf c. if r < rows_of s \<and> c < cols_of s
            then map_option (\<lambda>x. buf @ [x]) (grid_cell (s_grid s) r c) else Some (buf @ [cell_default]))
          [l..<min sr (cols_of s)] b) (\<lambda>b'. length b' = length b + w)"
      by (simp add: w_def)
  qed
  have idx: "d * w + c < w * h" if "d < h" "c < w" for d c
  proof -
    have "d * w + c < Suc d * w" using that by simp
    also have "\<dots> \<le> h * w" using that by (intro mult_le_mono1) simp
    finally show ?thesis by (simp add: mult.commute)
  qed
  show ?thesis
    unfolding copy_rect_def Let_def t_def [symmetric] l_def [symmetric] h_def [symmetric] w_def [symmetric]
  proof (rule returns_ifI)
    show "returns (Some s) (screen_ok C R)" using assms by simp
  next
    show "returns (Option.bind (foldM (\<lambda>buf r. foldM (\<lambda>buf c.
                    if r < rows_of s \<and> c < cols_of s
                    then map_option (\<lambda>x. buf @ [x]) (grid_cell (s_grid s) r c)
                    else Some (buf @ [cell_default])) [l..<min sr (cols_of s)] buf) [t..<min sb (rows_of s)] [])
        (\<lambda>buf. foldM (\<lambda>sa dr. foldM (\<lambda>sa dc.
             if min (dt - 1) (rows_of s - 1) + dr < rows_of s \<and> min (dl - 1) (cols_of s - 1) + dc < cols_of s
             then Option.bind (idx buf (dr * w + dc))
               (\<lambda>x. with_grid (grid_cell_mut (min (dt - 1) (rows_of s - 1) + dr) (min (dl - 1) (cols_of s - 1) + dc) (\<lambda>_. x)) sa)
             else Some sa) [0..<w] sa) [0..<h] s)) (screen_ok C R)"
    proof (rule returns_bindI [OF buf])
      fix buf :: "cell list"
      assume "length buf = length ([] :: cell list) + w * length [t..<min sb (rows_of s)]"
      then have "length buf = w * h" by (simp add: h_def)
      then show "returns (foldM (\<lambda>sa dr. foldM (\<lambda>sa dc.
             if min (dt - 1) (rows_of s - 1) + dr < rows_of s \<and> min (dl - 1) (cols_of s - 1) + dc < cols_of s
             then Option.bind (idx buf (dr * w + dc))
               (\<lambda>x. with_grid (grid_cell_mut (min (dt - 1) (rows_of s - 1) + dr) (min (dl - 1) (cols_of s - 1) + dc) (\<lambda>_. x)) sa)
             else Some sa) [0..<w] sa) [0..<h] s) (screen_ok C R)"
        using assms idx by (intro returns_foldM returns_ifI) (auto intro: cell_mut_ok)
    qed
  qed
qed

section \<open>Printing\<close>

lemma resolve_wrap_ok:
  assumes "screen_ok C R s" "0 < e"
  shows "returns (resolve_wrap e s) (screen_ok C R)"
proof -
  have 1: "returns (with_grid (grid_row_mut r (\<lambda>l. l\<lparr>r_continuation := b\<rparr>)) t) (screen_ok C R)"
    if "screen_ok C R t" for t r b
    using that by (rule row_mut_ok) simp
  have "returns (Option.bind (with_grid (grid_row_mut (row_of s) (\<lambda>l. l\<lparr>r_continuation := False\<rparr>)) s)
      (\<lambda>s. Option.bind (linefeed (carriage_return s))
        (\<lambda>s. with_grid (grid_row_mut (row_of s) (\<lambda>l. l\<lparr>r_continuation := True\<rparr>)) s))) (screen_ok C R)"
    using assms by (intro returns_bindI [of _ "screen_ok C R"] 1 linefeed_ok) simp_all
  then have "returns (if md_autowrap (s_modes s)
      then Option.bind (with_grid (grid_row_mut (row_of s) (\<lambda>l. l\<lparr>r_continuation := False\<rparr>)) s)
        (\<lambda>s. Option.bind (linefeed (carriage_return s))
          (\<lambda>s. with_grid (grid_row_mut (row_of s) (\<lambda>l. l\<lparr>r_continuation := True\<rparr>)) s))
      else Option.bind (usub e 1) (\<lambda>e. Some (set_col e s))) (screen_ok C R)"
    using assms by simp
  then have "returns (Option.bind (if md_autowrap (s_modes s)
      then Option.bind (with_grid (grid_row_mut (row_of s) (\<lambda>l. l\<lparr>r_continuation := False\<rparr>)) s)
        (\<lambda>s. Option.bind (linefeed (carriage_return s))
          (\<lambda>s. with_grid (grid_row_mut (row_of s) (\<lambda>l. l\<lparr>r_continuation := True\<rparr>)) s))
      else Option.bind (usub e 1) (\<lambda>e. Some (set_col e s))) (\<lambda>s. Some (unwrap_pending s))) (screen_ok C R)"
    by (rule returns_bindI) simp
  then show ?thesis
    unfolding resolve_wrap_def using assms by (intro returns_ifI) simp_all
qed

lemma fit_wide_ok:
  assumes "screen_ok C R s" "0 < e"
  shows "returns (fit_wide w e s) (screen_ok C R)"
proof -
  have "returns (Option.bind (if col_of s < cols_of s then with_grid (grid_cell_mut (row_of s) (col_of s) spacer_to_blank) s else Some s)
      (\<lambda>s. Option.bind (linefeed (carriage_return s))
        (\<lambda>s. with_grid (grid_row_mut (row_of s) (\<lambda>l. l\<lparr>r_continuation := True\<rparr>)) s))) (screen_ok C R)"
    using assms
    by (intro returns_bindI [of _ "screen_ok C R"] returns_ifI cell_mut_ok linefeed_ok row_mut_ok) simp_all
  then show ?thesis
    using assms by (simp add: fit_wide_def Let_def)
qed

lemma clear_fragments_ok:
  assumes "screen_ok C R s"
  shows "returns (clear_fragments w r c s) (screen_ok C R)"
proof -
  have 1: "returns (Option.bind (grid_cell (s_grid t) i j) (\<lambda>x. if P x then with_grid (grid_cell_mut i' j' f) t else Some t)) (screen_ok C R)"
    if "screen_ok C R t" for t P i j i' j' f
    using grid_cell_total [OF that, of i j] cell_mut_ok [OF that, of i' j' f] that by auto
  have 2: "returns (Option.bind (grid_cell (s_grid s) r c) (\<lambda>x.
      Option.bind (if c_width x = 2 \<and> c + 1 < cols_of s then with_grid (grid_cell_mut r (c + 1) spacer_to_blank) s else Some s)
       (\<lambda>s. if c_width x = 0 \<and> 0 < c
            then with_grid (grid_cell_mut r (c - 1) (\<lambda>h. if c_width h = 2 then spacer_to_blank h else h)) s
            else Some s))) (screen_ok C R)"
  proof -
    obtain x where "grid_cell (s_grid s) r c = Some x"
      using grid_cell_total [OF assms] by blast
    moreover have "returns (Option.bind (if c_width x = 2 \<and> c + 1 < cols_of s then with_grid (grid_cell_mut r (c + 1) spacer_to_blank) s else Some s)
       (\<lambda>s. if c_width x = 0 \<and> 0 < c
            then with_grid (grid_cell_mut r (c - 1) (\<lambda>h. if c_width h = 2 then spacer_to_blank h else h)) s
            else Some s)) (screen_ok C R)"
      using assms by (intro returns_bindI [of _ "screen_ok C R"] returns_ifI cell_mut_ok) simp_all
    ultimately show ?thesis by simp
  qed
  show ?thesis
    unfolding clear_fragments_def using assms 1 2
    by (intro returns_bindI [of _ "screen_ok C R"] returns_ifI) simp_all
qed

lemma put_char_ok: "screen_ok C R s \<Longrightarrow> returns (put_char c w r j s) (screen_ok C R)"
  unfolding put_char_def
  by (intro returns_bindI [of _ "screen_ok C R"] returns_ifI cell_mut_ok) simp_all

lemma advance_cursor_ok: "screen_ok C R s \<Longrightarrow> 0 < e \<Longrightarrow> returns (advance_cursor e n s) (screen_ok C R)"
  by (simp add: advance_cursor_def)

lemma write_char_ok:
  assumes "screen_ok C R s"
  shows "returns (write_char c s) (screen_ok C R)"
proof -
  define d where "d = map_char (s\<lparr>s_viewport_offset := 0\<rparr>) c"
  define u where "u = s\<lparr>s_viewport_offset := 0, s_last_char := Some d\<rparr>"
  have u: "screen_ok C R u"
    using assms by (simp add: u_def)
  then have e: "0 < effective_right u"
    using effective_right_bounds by blast
  show ?thesis
    unfolding write_char_def Let_def d_def [symmetric] u_def [symmetric]
    using u e
    by (intro returns_ifI returns_SomeI returns_bindI [of _ "screen_ok C R"] resolve_wrap_ok fit_wide_ok
        with_grid_ok insert_cells_ok clear_fragments_ok put_char_ok advance_cursor_ok)
       (auto dest: screen_okD(3,5))
qed

section \<open>Resizing\<close>

lemma length_fold_tabs:
  "length (fold (\<lambda>c ts. if P c then ts[c := True] else ts) cs ts) = length ts"
  by (induction cs arbitrary: ts) simp_all

lemma length_default_tabs [simp]: "length (default_tabs_from a b ts) = length ts"
  by (simp add: default_tabs_from_def length_fold_tabs)

lemma resize_margins_ok:
  "0 < n \<Longrightarrow> lo < hi \<Longrightarrow> resize_margins m n (lo, hi) = (lo', hi') \<Longrightarrow> lo' < hi' \<and> hi' \<le> n"
  by (auto simp: resize_margins_def Let_def split: if_splits)

text \<open>
  A resize returns and keeps the invariant, provided the cursor of the screen that is not shown still
  has its row on the smaller screen: \<open>resize\<close> adjusts the shown cursor only.
\<close>

lemma resize_screen_ok:
  assumes s: "screen_ok C R s" and n: "0 < C'" "0 < R'" and alt: "cur_row (s_alt_cursor s) < R'"
  shows "returns (resize C' R' s) (screen_ok C' R')"
proof -
  obtain g d where g: "resize_with_cursor C' R' (Some (row_of s, col_of s)) (s_grid s) = Some (g, d)"
    "grid_ok C' R' g"
    using resize_ok [OF screen_okD(3) [OF s] n(1), of R' "Some (row_of s, col_of s)"]
    by (auto simp: returns_iff)
  obtain ag d' where ag: "grid_resize C' R' (s_alt_grid s) = Some (ag, d')" "grid_ok C' R' ag"
    using resize_ok [OF screen_okD(4) [OF s] n(1), of R' None] by (auto simp: returns_iff grid_resize_def)
  obtain tp bt where tb: "resize_margins R R' (s_scroll_top s, s_scroll_bottom s) = (tp, bt)" "tp < bt" "bt \<le> R'"
    using resize_margins_ok [OF n(2) screen_okD(7) [OF s]] by fastforce
  obtain lf rt where lr: "resize_margins C C' (s_scroll_left s, s_scroll_right s) = (lf, rt)" "lf < rt" "rt \<le> C'"
    using resize_margins_ok [OF n(1) screen_okD(9) [OF s]] by fastforce
  show ?thesis
    using n alt g(2) ag(2) tb(2,3) lr(2,3) screen_okD(12) [OF s]
    by (simp add: resize_def g(1) set_row_def set_col_def ag(1) screen_okD(13,14) [OF s] tb(1) lr(1))
       (simp add: screen_ok_def unwrap_pending_def)
qed

end
