(* ===== verification/Term_Performer.thy ===== *)
theory Term_Performer
  imports Term_Screen_Props VT_Parser_Props
begin

text \<open>
  \<open>crates/emux-term/src/performer.rs\<close>: what the screen does with each action of the parser. The match
  arms are chains of conditions on the final byte, in the order of the source. \<open>parse_color_spec\<close>
  slices a string by byte offsets, which panics off a character boundary, so its result is
  \<open>None\<close> for a panic and \<open>Some r\<close> for the function's own \<open>Option\<close> result \<open>r\<close>.
\<close>

section \<open>C0 controls\<close>

definition execute_c0 :: "u8 \<Rightarrow> screen \<Rightarrow> screen option" where
  "execute_c0 b s =
     (if b = 0x08 then Some (backspace s)
      else if b = 0x09 then Some (tab s)
      else if 0x0A \<le> b \<and> b \<le> 0x0C then linefeed s
      else if b = 0x0D then Some (carriage_return s)
      else if b = 0x0E then Some (s\<lparr>s_active_charset := 1\<rparr>)
      else if b = 0x0F then Some (s\<lparr>s_active_charset := 0\<rparr>)
      else Some s)"

section \<open>Select graphic rendition\<close>

definition reset_pen :: "screen \<Rightarrow> screen" where
  "reset_pen s =
     s\<lparr>s_pen := attrs_default\<lparr>at_protected := at_protected (s_pen s)\<rparr>, s_fg := DefaultColor,
       s_bg := DefaultColor\<rparr>"

definition set_color :: "bool \<Rightarrow> color \<Rightarrow> screen \<Rightarrow> screen" where
  "set_color is_fg c s = (if is_fg then s\<lparr>s_fg := c\<rparr> else s\<lparr>s_bg := c\<rparr>)"

definition parse_extended_color :: "u16 list \<Rightarrow> nat \<Rightarrow> bool \<Rightarrow> screen \<Rightarrow> nat \<times> screen" where
  "parse_extended_color ps i is_fg s =
     (if length ps \<le> i then (i, s)
      else if ps ! i = 5 then
        (if i + 1 < length ps then (i + 2, set_color is_fg (Indexed (ucast (ps ! (i + 1)))) s) else (i + 1, s))
      else if ps ! i = 2 then
        (if i + 3 < length ps
         then (i + 4, set_color is_fg (Rgb (ucast (ps ! (i + 1))) (ucast (ps ! (i + 2))) (ucast (ps ! (i + 3)))) s)
         else (i + 1, s))
      else (i + 1, s))"

definition pen_with :: "(cell_attrs \<Rightarrow> cell_attrs) \<Rightarrow> screen \<Rightarrow> screen" where
  "pen_with f s = s\<lparr>s_pen := f (s_pen s)\<rparr>"

definition underline_of :: "u16 \<Rightarrow> underline_style" where
  "underline_of n =
     (if n = 0 then UnderlineNone else if n = 1 then UnderlineSingle else if n = 2 then UnderlineDouble
      else if n = 3 then UnderlineCurly else UnderlineSingle)"

text \<open>One iteration of the loop of \<open>handle_sgr\<close>: the next index and the screen.\<close>

definition sgr_step :: "u16 list \<Rightarrow> bool list \<Rightarrow> nat \<Rightarrow> screen \<Rightarrow> nat \<times> screen" where
  "sgr_step ps flags i s =
     (let p = ps ! i in
      if p = 0 then (i + 1, reset_pen s)
      else if p = 1 then (i + 1, pen_with (\<lambda>a. a\<lparr>at_bold := True\<rparr>) s)
      else if p = 3 then (i + 1, pen_with (\<lambda>a. a\<lparr>at_italic := True\<rparr>) s)
      else if p = 4 then
        (if i + 1 < length ps \<and> get_opt flags (i + 1) = Some True
         then (i + 2, pen_with (\<lambda>a. a\<lparr>at_underline := underline_of (ps ! (i + 1))\<rparr>) s)
         else (i + 1, pen_with (\<lambda>a. a\<lparr>at_underline := UnderlineSingle\<rparr>) s))
      else if p = 5 then (i + 1, pen_with (\<lambda>a. a\<lparr>at_blink := True\<rparr>) s)
      else if p = 7 then (i + 1, pen_with (\<lambda>a. a\<lparr>at_reverse := True\<rparr>) s)
      else if p = 8 then (i + 1, pen_with (\<lambda>a. a\<lparr>at_invisible := True\<rparr>) s)
      else if p = 9 then (i + 1, pen_with (\<lambda>a. a\<lparr>at_strikethrough := True\<rparr>) s)
      else if p = 21 then (i + 1, pen_with (\<lambda>a. a\<lparr>at_underline := UnderlineDouble\<rparr>) s)
      else if p = 22 then (i + 1, pen_with (\<lambda>a. a\<lparr>at_bold := False\<rparr>) s)
      else if p = 23 then (i + 1, pen_with (\<lambda>a. a\<lparr>at_italic := False\<rparr>) s)
      else if p = 24 then (i + 1, pen_with (\<lambda>a. a\<lparr>at_underline := UnderlineNone\<rparr>) s)
      else if p = 25 then (i + 1, pen_with (\<lambda>a. a\<lparr>at_blink := False\<rparr>) s)
      else if p = 27 then (i + 1, pen_with (\<lambda>a. a\<lparr>at_reverse := False\<rparr>) s)
      else if p = 28 then (i + 1, pen_with (\<lambda>a. a\<lparr>at_invisible := False\<rparr>) s)
      else if p = 29 then (i + 1, pen_with (\<lambda>a. a\<lparr>at_strikethrough := False\<rparr>) s)
      else if 30 \<le> p \<and> p \<le> 37 then (i + 1, s\<lparr>s_fg := Indexed (ucast (p - 30))\<rparr>)
      else if p = 38 then parse_extended_color ps (i + 1) True s
      else if p = 39 then (i + 1, s\<lparr>s_fg := DefaultColor\<rparr>)
      else if 40 \<le> p \<and> p \<le> 47 then (i + 1, s\<lparr>s_bg := Indexed (ucast (p - 40))\<rparr>)
      else if p = 48 then parse_extended_color ps (i + 1) False s
      else if p = 49 then (i + 1, s\<lparr>s_bg := DefaultColor\<rparr>)
      else if 90 \<le> p \<and> p \<le> 97 then (i + 1, s\<lparr>s_fg := Indexed (ucast (p - 90 + 8))\<rparr>)
      else if 100 \<le> p \<and> p \<le> 107 then (i + 1, s\<lparr>s_bg := Indexed (ucast (p - 100 + 8))\<rparr>)
      else (i + 1, s))"

lemma parse_extended_color_le: "i \<le> fst (parse_extended_color ps i fg s)"
  by (simp add: parse_extended_color_def)

lemma sgr_step_less: "i < fst (sgr_step ps flags i s)"
  using parse_extended_color_le [of "i + 1" ps True s] parse_extended_color_le [of "i + 1" ps False s]
  by (simp add: sgr_step_def Let_def)

function sgr_loop :: "u16 list \<Rightarrow> bool list \<Rightarrow> nat \<Rightarrow> screen \<Rightarrow> screen" where
  "sgr_loop ps flags i s =
     (if i < length ps then sgr_loop ps flags (fst (sgr_step ps flags i s)) (snd (sgr_step ps flags i s)) else s)"
  by pat_completeness auto
termination
  by (relation "measure (\<lambda>(ps, flags, i, s). length ps - i)")
     (auto simp: case_prod_beta intro!: diff_less_mono2 sgr_step_less)

declare sgr_loop.simps [simp del]

definition handle_sgr :: "u16 list \<Rightarrow> bool list \<Rightarrow> screen \<Rightarrow> screen" where
  "handle_sgr ps flags s = (if ps = [] then reset_pen s else sgr_loop ps flags 0 s)"

section \<open>Modes\<close>

definition set_ansi_mode :: "u16 \<Rightarrow> bool \<Rightarrow> screen \<Rightarrow> screen" where
  "set_ansi_mode mode enable s =
     (if mode = 4 then s\<lparr>s_modes := (s_modes s)\<lparr>md_insert := enable\<rparr>\<rparr>
      else if mode = 20 then s\<lparr>s_modes := (s_modes s)\<lparr>md_newline := enable\<rparr>\<rparr>
      else s)"

definition set_mouse :: "mouse_mode \<Rightarrow> bool \<Rightarrow> screen \<Rightarrow> screen" where
  "set_mouse m enable s = s\<lparr>s_modes := (s_modes s)\<lparr>md_mouse_tracking := (if enable then m else MouseNone)\<rparr>\<rparr>"

text \<open>DECCOLM: 132 or 80 columns.\<close>

definition set_column_mode :: "bool \<Rightarrow> screen \<Rightarrow> screen option" where
  "set_column_mode enable s =
     (if \<not> md_allow_deccolm (s_modes s) then Some s
      else do {
        let new_cols = (if enable then 132 else 80);
        let rows = rows_of s;
        s \<leftarrow> resize new_cols rows s;
        s \<leftarrow> erase_display_op EDAll s;
        Some ((unwrap_pending (set_col 0 (set_row 0 s)))\<lparr>s_scroll_top := 0, s_scroll_bottom := rows\<rparr>) })"

definition set_private_mode :: "u16 \<Rightarrow> bool \<Rightarrow> screen \<Rightarrow> screen option" where
  "set_private_mode mode enable s =
     (if mode = 1 then Some (s\<lparr>s_modes := (s_modes s)\<lparr>md_application_cursor_keys := enable\<rparr>\<rparr>)
      else if mode = 3 then set_column_mode enable s
      else if mode = 6 then Some (cursor_position 1 1 (s\<lparr>s_modes := (s_modes s)\<lparr>md_origin := enable\<rparr>\<rparr>))
      else if mode = 7 then Some (s\<lparr>s_modes := (s_modes s)\<lparr>md_autowrap := enable\<rparr>\<rparr>)
      else if mode = 9 then Some (set_mouse MouseX10 enable s)
      else if mode = 45 then Some (s\<lparr>s_modes := (s_modes s)\<lparr>md_reverse_wrap := enable\<rparr>\<rparr>)
      else if mode = 40 then Some (s\<lparr>s_modes := (s_modes s)\<lparr>md_allow_deccolm := enable\<rparr>\<rparr>)
      else if mode = 69 then
        (let s = s\<lparr>s_modes := (s_modes s)\<lparr>md_left_right_margin := enable\<rparr>\<rparr> in
         Some (if enable then s else s\<lparr>s_scroll_left := 0, s_scroll_right := cols_of s\<rparr>))
      else if mode = 25 then Some (s\<lparr>s_cursor := (s_cursor s)\<lparr>cur_visible := enable\<rparr>\<rparr>)
      else if mode = 1000 then Some (set_mouse MouseNormal enable s)
      else if mode = 1002 then Some (set_mouse MouseButtonEvent enable s)
      else if mode = 1003 then Some (set_mouse MouseAnyEvent enable s)
      else if mode = 1004 then Some (s\<lparr>s_modes := (s_modes s)\<lparr>md_focus_tracking := enable\<rparr>\<rparr>)
      else if mode = 1006 then Some (s\<lparr>s_modes := (s_modes s)\<lparr>md_mouse_sgr := enable\<rparr>\<rparr>)
      else if mode = 47 \<or> mode = 1047 then
        (if enable then enter_alt_screen False s else Some (leave_alt_screen False s))
      else if mode = 1048 then Some (if enable then save_cursor s else restore_cursor s)
      else if mode = 1049 then
        (if enable then enter_alt_screen True s else Some (leave_alt_screen True s))
      else if mode = 2004 then Some (s\<lparr>s_modes := (s_modes s)\<lparr>md_bracketed_paste := enable\<rparr>\<rparr>)
      else Some s)"

definition set_modes :: "u16 list \<Rightarrow> bool \<Rightarrow> bool \<Rightarrow> screen \<Rightarrow> screen option" where
  "set_modes ps private enable s =
     foldM (\<lambda>s p. if private then set_private_mode p enable s else Some (set_ansi_mode p enable s)) ps s"

section \<open>Control sequences\<close>

definition csi_erase_display :: "u16 \<Rightarrow> bool \<Rightarrow> screen \<Rightarrow> screen option" where
  "csi_erase_display mode private s =
     (let erase = (if private then selective_erase_display else erase_display_op) in
      if mode = 0 then erase EDBelow s
      else if mode = 1 then erase EDAbove s
      else if mode = 2 then erase EDAll s
      else if mode = 3 then erase EDScrollback s
      else Some s)"

definition csi_erase_line :: "u16 \<Rightarrow> bool \<Rightarrow> screen \<Rightarrow> screen option" where
  "csi_erase_line mode private s =
     (let erase = (if private then selective_erase_line else erase_line_op) in
      if mode = 0 then erase ELToRight s
      else if mode = 1 then erase ELToLeft s
      else if mode = 2 then erase ELAll s
      else Some s)"

definition repeat_char :: "nat \<Rightarrow> screen \<Rightarrow> screen option" where
  "repeat_char count s =
     (case s_last_char s of None \<Rightarrow> Some s | Some c \<Rightarrow> foldM (\<lambda>s _. write_char c s) [0..<count] s)"

definition arg :: "params \<Rightarrow> nat \<Rightarrow> nat \<Rightarrow> nat" where
  "arg p i d = unat (params_get_or p i (of_nat d))"

definition ch :: "string \<Rightarrow> u8" where
  "ch c = hd (ascii c)"

definition handle_csi :: "params \<Rightarrow> u8 list \<Rightarrow> u8 \<Rightarrow> screen \<Rightarrow> screen option" where
  "handle_csi p ims act s =
     (let private = (ch ''?'' \<in> set ims) in
      if act = ch ''A'' then Some (cursor_up (arg p 0 1) s)
      else if act = ch ''B'' then Some (cursor_down (arg p 0 1) s)
      else if act = ch ''C'' then Some (cursor_right (arg p 0 1) s)
      else if act = ch ''D'' then Some (cursor_left (arg p 0 1) s)
      else if act = ch ''E'' then Some (carriage_return (cursor_down (arg p 0 1) s))
      else if act = ch ''F'' then Some (carriage_return (cursor_up (arg p 0 1) s))
      else if act = ch ''G'' then Some (cursor_position (row_of s + 1) (arg p 0 1) s)
      else if act = ch ''H'' \<or> act = ch ''f'' then Some (cursor_position (arg p 0 1) (arg p 1 1) s)
      else if act = ch ''J'' then csi_erase_display (params_get_or p 0 0) private s
      else if act = ch ''K'' then csi_erase_line (params_get_or p 0 0) private s
      else if act = ch ''L'' then insert_lines (arg p 0 1) s
      else if act = ch ''M'' then delete_lines (arg p 0 1) s
      else if act = ch ''P'' then delete_chars (arg p 0 1) s
      else if act = ch ''S'' then screen_scroll_up (arg p 0 1) s
      else if act = ch ''T'' then screen_scroll_down (arg p 0 1) s
      else if act = ch ''X'' then erase_chars (arg p 0 1) s
      else if act = ch ''I'' then Some (tab_forward (arg p 0 1) s)
      else if act = ch ''Z'' then Some (tab_backward (arg p 0 1) s)
      else if act = ch ''@'' then insert_chars (arg p 0 1) s
      else if act = 0x60 then Some (cursor_position (row_of s + 1) (arg p 0 1) s)
      else if act = ch ''a'' then Some (cursor_right (arg p 0 1) s)
      else if act = ch ''b'' then repeat_char (arg p 0 1) s
      else if act = ch ''d'' then Some (cursor_position (arg p 0 1) (col_of s + 1) s)
      else if act = ch ''e'' then Some (cursor_down (arg p 0 1) s)
      else if act = ch ''g'' then
        (let mode = params_get_or p 0 0 in
         Some (if mode = 0 then clear_tab_stop_op TabCurrent s else if mode = 3 then clear_tab_stop_op TabAll s else s))
      else if act = ch ''m'' then Some (handle_sgr (params_finished p) (params_subparam_flags p) s)
      else if act = ch ''u'' then Some (restore_cursor s)
      else if act = ch ''h'' then set_modes (params_finished p) private True s
      else if act = ch ''l'' then set_modes (params_finished p) private False s
      else if act = ch ''p'' then Some (if ch ''!'' \<in> set ims then soft_reset s else s)
      else if act = ch ''q'' then
        Some (if ch '' '' \<in> set ims then set_cursor_style (params_get_or p 0 0) s
              else if 0x22 \<in> set ims then
                (let v = params_get_or p 0 0 in
                 if v = 1 then pen_with (\<lambda>a. a\<lparr>at_protected := True\<rparr>) s
                 else if v = 0 \<or> v = 2 then pen_with (\<lambda>a. a\<lparr>at_protected := False\<rparr>) s else s)
              else s)
      else if act = ch ''r'' then
        Some (if private then restore_dec_modes s
              else set_scroll_region (arg p 0 1) (arg p 1 (rows_of s)) s)
      else if act = ch ''s'' then
        Some (if private then save_dec_modes s
              else if md_left_right_margin (s_modes s)
              then set_left_right_margin (arg p 0 1) (arg p 1 (cols_of s)) s
              else save_cursor s)
      else if act = ch ''x'' then
        (if ch ''$'' \<in> set ims then
           let code = params_get_or p 0 0;
               c = (if 32 \<le> code \<and> code \<le> 126 then unat (ucast code :: u8) else 0x20)
           in fill_rect c (arg p 1 1) (arg p 2 1) (arg p 3 (rows_of s)) (arg p 4 (cols_of s)) s
         else Some s)
      else if act = ch ''v'' then
        (if ch ''$'' \<in> set ims then
           copy_rect (arg p 0 1) (arg p 1 1) (arg p 2 (rows_of s)) (arg p 3 (cols_of s)) (arg p 5 1) (arg p 6 1) s
         else Some s)
      else if act = 0x7b then
        (if ch ''$'' \<in> set ims then
           selective_erase_rect (arg p 0 1) (arg p 1 1) (arg p 2 (rows_of s)) (arg p 3 (cols_of s)) s
         else if ch ''#'' \<in> set ims then Some (push_sgr s)
         else Some s)
      else if act = 0x7d then Some (if ch ''#'' \<in> set ims then pop_sgr s else s)
      else Some s)"

section \<open>Escape sequences\<close>

definition charset_from_designator :: "u8 \<Rightarrow> charset" where
  "charset_from_designator b =
     (if b = ch ''0'' then DecSpecialGraphics else if b = ch ''A'' then Uk else Ascii)"

definition handle_esc :: "u8 list \<Rightarrow> u8 \<Rightarrow> screen \<Rightarrow> screen option" where
  "handle_esc ims b s =
     (case ims of
        [] \<Rightarrow>
          if b = ch ''D'' then index s
          else if b = ch ''E'' then linefeed (carriage_return s)
          else if b = ch ''H'' then Some (set_tab_stop s)
          else if b = ch ''M'' then reverse_index s
          else if b = ch ''7'' then Some (save_cursor s)
          else if b = ch ''8'' then Some (restore_cursor s)
          else if b = ch ''='' then Some (s\<lparr>s_modes := (s_modes s)\<lparr>md_application_keypad := True\<rparr>\<rparr>)
          else if b = ch ''>'' then Some (s\<lparr>s_modes := (s_modes s)\<lparr>md_application_keypad := False\<rparr>\<rparr>)
          else if b = ch ''c'' then Some (reset s)
          else Some s
      | i # _ \<Rightarrow>
          if i = ch ''('' then Some (s\<lparr>s_charset_g0 := charset_from_designator b\<rparr>)
          else if i = ch '')'' then Some (s\<lparr>s_charset_g1 := charset_from_designator b\<rparr>)
          else if i = ch ''#'' \<and> b = ch ''8'' then decaln s
          else Some s)"

section \<open>Operating system commands\<close>

text \<open>\<open>str::from_utf8(bs).unwrap_or("")\<close>.\<close>

definition utf8_or_empty :: "u8 list \<Rightarrow> rstr" where
  "utf8_or_empty bs = (case from_utf8 bs of None \<Rightarrow> [] | Some s \<Rightarrow> s)"

text \<open>
  One hexadecimal channel \<open>u8::from_str_radix(&s[a..b], 16)\<close>: the slice may panic, the parse may fail.
\<close>

definition hex_slice :: "rstr \<Rightarrow> nat \<Rightarrow> nat \<Rightarrow> nat option option" where
  "hex_slice s a b = map_option (parse_unsigned 256 16) (str_slice s a b)"

definition three_channels ::
  "nat option option \<Rightarrow> nat option option \<Rightarrow> nat option option \<Rightarrow> (nat \<times> nat \<times> nat) option option" where
  "three_channels r g b = do {
     r \<leftarrow> r;
     case r of None \<Rightarrow> Some None | Some r \<Rightarrow> do {
       g \<leftarrow> g;
       case g of None \<Rightarrow> Some None | Some g \<Rightarrow> do {
         b \<leftarrow> b;
         case b of None \<Rightarrow> Some None | Some b \<Rightarrow> Some (Some (r, g, b)) } } }"

definition parse_color_spec :: "rstr \<Rightarrow> rgb option option" where
  "parse_color_spec spec =
     (case strip_prefix (ascii ''rgb:'') spec of
        Some rest \<Rightarrow>
          (let parts = split_on 0x2F rest in
           if length parts = 3 then
             (case (parse_unsigned 65536 16 (parts ! 0), parse_unsigned 65536 16 (parts ! 1),
                    parse_unsigned 65536 16 (parts ! 2)) of
                (Some r, Some g, Some b) \<Rightarrow>
                  if length (parts ! 0) \<le> 2 then Some (Some (of_nat r, of_nat g, of_nat b))
                  else Some (Some (of_nat (r div 256), of_nat (g div 256), of_nat (b div 256)))
              | _ \<Rightarrow> Some None)
           else Some None)
      | None \<Rightarrow>
          (case strip_prefix (ascii ''#'') spec of
             Some rest \<Rightarrow>
               if length rest = 3 then
                 map_option (map_option (\<lambda>(r, g, b). (of_nat (r * 17), of_nat (g * 17), of_nat (b * 17))))
                   (three_channels (hex_slice rest 0 1) (hex_slice rest 1 2) (hex_slice rest 2 3))
               else if length rest = 6 then
                 map_option (map_option (\<lambda>(r, g, b). (of_nat r, of_nat g, of_nat b)))
                   (three_channels (hex_slice rest 0 2) (hex_slice rest 2 4) (hex_slice rest 4 6))
               else Some None
           | None \<Rightarrow> Some None))"

definition palette_response :: "nat \<Rightarrow> rgb \<Rightarrow> u8 list" where
  "palette_response i = (\<lambda>(r, g, b).
     0x1b # ascii '']4;'' @ show_nat i @ ascii '';rgb:'' @ show_hex2 r @ show_hex2 r @ ascii ''/'' @
     show_hex2 g @ show_hex2 g @ ascii ''/'' @ show_hex2 b @ show_hex2 b @ [0x1b, 0x5c])"

definition osc_palette :: "u8 list list \<Rightarrow> screen \<Rightarrow> screen option" where
  "osc_palette parts s =
     (if 3 \<le> length parts then
        let spec = utf8_or_empty (parts ! 2) in
        case parse_unsigned 65536 10 (utf8_or_empty (parts ! 1)) of
          None \<Rightarrow> Some s
        | Some i \<Rightarrow>
            if i < 256 then
              if spec = ascii ''?'' then
                Some (s\<lparr>s_response_buf := s_response_buf s @ palette_response i (palette_color s (of_nat i))\<rparr>)
              else do {
                rgb \<leftarrow> parse_color_spec spec;
                Some (case rgb of None \<Rightarrow> s | Some c \<Rightarrow> set_palette_color (of_nat i) c s) }
            else Some s
      else Some s)"

definition osc_hyperlink :: "u8 list list \<Rightarrow> screen \<Rightarrow> screen" where
  "osc_hyperlink parts s =
     (if 3 \<le> length parts then
        let uri = utf8_or_empty (parts ! 2) in
        s\<lparr>s_hyperlink := (if uri = [] then None else Some uri)\<rparr>
      else if length parts = 2 then s\<lparr>s_hyperlink := None\<rparr>
      else s)"

definition part_text :: "u8 list list \<Rightarrow> nat \<Rightarrow> rstr" where
  "part_text parts i = (if i < length parts then utf8_lossy (parts ! i) else [])"

definition osc_notify777 :: "u8 list list \<Rightarrow> screen \<Rightarrow> screen" where
  "osc_notify777 parts s =
     (if 2 \<le> length parts \<and> utf8_or_empty (parts ! 1) = ascii ''notify''
      then push_notification (part_text parts 2) (part_text parts 3) s else s)"

definition osc_clipboard :: "u8 list list \<Rightarrow> screen \<Rightarrow> screen" where
  "osc_clipboard parts s =
     (if 3 \<le> length parts then
        let data = utf8_or_empty (parts ! 2) in
        if data = ascii ''?'' then query_clipboard s
        else (case base64_decode data of None \<Rightarrow> s
              | Some decoded \<Rightarrow> (case from_utf8 decoded of None \<Rightarrow> s | Some text \<Rightarrow> set_clipboard text s))
      else if length parts = 2 then query_clipboard s
      else s)"

definition osc_shell_mark :: "u8 list list \<Rightarrow> screen \<Rightarrow> screen" where
  "osc_shell_mark parts s =
     (if 2 \<le> length parts then
        let marker = utf8_or_empty (parts ! 1) in
        if marker = ascii ''A'' then add_shell_mark PromptStart s
        else if marker = ascii ''B'' then add_shell_mark CommandStart s
        else if marker = ascii ''C'' then add_shell_mark OutputStart s
        else if marker = ascii ''D'' then
          (let code = (if 3 \<le> length parts then
                 (case parse_i32 (case from_utf8 (parts ! 2) of None \<Rightarrow> ascii ''0'' | Some t \<Rightarrow> t)
                  of None \<Rightarrow> 0 | Some e \<Rightarrow> e) else 0)
           in add_shell_mark (CommandFinished code) s)
        else s
      else s)"

definition handle_osc :: "u8 list list \<Rightarrow> screen \<Rightarrow> screen option" where
  "handle_osc parts s =
     (if parts = [] then Some s
      else let cmd = utf8_or_empty (parts ! 0) in
        if cmd = ascii ''0'' \<or> cmd = ascii ''2'' then
          Some (if 1 < length parts then s\<lparr>s_title := utf8_lossy (parts ! 1)\<rparr> else s)
        else if cmd = ascii ''7'' then
          Some (if 1 < length parts then s\<lparr>s_working_directory := Some (utf8_lossy (parts ! 1))\<rparr> else s)
        else if cmd = ascii ''4'' then osc_palette parts s
        else if cmd = ascii ''8'' then Some (osc_hyperlink parts s)
        else if cmd = ascii ''9'' then Some (push_notification [] (part_text parts 1) s)
        else if cmd = ascii ''99'' then
          Some (push_notification []
            (if 2 < length parts then utf8_lossy (parts ! 2)
             else if 1 < length parts then utf8_lossy (parts ! 1) else []) s)
        else if cmd = ascii ''777'' then Some (osc_notify777 parts s)
        else if cmd = ascii ''52'' then Some (osc_clipboard parts s)
        else if cmd = ascii ''133'' then Some (osc_shell_mark parts s)
        else Some s)"

section \<open>The performer\<close>

definition perform :: "screen \<Rightarrow> action \<Rightarrow> screen option" where
  "perform s a =
     (case a of
        Print c \<Rightarrow> write_char c s
      | Execute b \<Rightarrow> execute_c0 b s
      | CsiDispatch p ims ignore act \<Rightarrow> if ignore then Some s else handle_csi p (inter_slice ims) act s
      | EscDispatch ims ignore b \<Rightarrow> if ignore then Some s else handle_esc (inter_slice ims) b s
      | OscDispatch parts \<Rightarrow> handle_osc parts s
      | _ \<Rightarrow> Some s)"

text \<open>Terminal output fed to a parser whose performer is a screen: \<open>parser.advance(&mut screen, bytes)\<close>.\<close>

definition feed :: "parser \<Rightarrow> screen \<Rightarrow> u8 list \<Rightarrow> (parser \<times> screen) option" where
  "feed ps s bs = advance perform ps s bs"

end
