(* ===== verification/Term_Terminal.thy ===== *)
theory Term_Terminal
  imports Term_Performer
begin

text \<open>
  The terminal: the parser driving the screen. The screen keeps its invariant under every action, so it
  satisfies the contract of the locale \<open>performer\<close>, and the runs of the two together are total but
  for one panic, the string slices of \<open>parse_color_spec\<close>, which \<open>splits_char\<close> pins down exactly.
\<close>

section \<open>Every action keeps the screen's invariant\<close>

text \<open>DECCOLM changes the number of columns; the number of rows is fixed.\<close>

definition screen_rows :: "nat \<Rightarrow> screen \<Rightarrow> bool" where
  "screen_rows R s \<longleftrightarrow> screen_ok (cols_of s) R s"

lemma screen_rowsI: "screen_ok C R s \<Longrightarrow> screen_rows R s"
  by (simp add: screen_rows_def screen_okD(13))

lemma returns_screen_rows: "returns m (screen_ok C R) \<Longrightarrow> returns m (screen_rows R)"
  by (auto intro: returns_weaken screen_rowsI)

lemma screen_rows_new: "0 < C \<Longrightarrow> 0 < R \<Longrightarrow> screen_rows R (screen_new C R)"
  by (rule screen_rowsI, rule screen_ok_new)

lemma pen_ops_ok [simp]:
  "screen_ok C R (reset_pen s) = screen_ok C R s" "screen_ok C R (set_color b c s) = screen_ok C R s"
  "screen_ok C R (pen_with f s) = screen_ok C R s"
  by (simp_all add: reset_pen_def set_color_def pen_with_def)

lemma parse_extended_color_ok [simp]:
  "screen_ok C R (snd (parse_extended_color ps i b s)) = screen_ok C R s"
  by (simp add: parse_extended_color_def)

lemma sgr_step_ok [simp]: "screen_ok C R (snd (sgr_step ps flags i s)) = screen_ok C R s"
  by (simp add: sgr_step_def Let_def)

lemma sgr_loop_ok [simp]: "screen_ok C R (sgr_loop ps flags i s) = screen_ok C R s"
  by (induction ps flags i s rule: sgr_loop.induct) (subst sgr_loop.simps, simp)

lemma handle_sgr_ok [simp]: "screen_ok C R (handle_sgr ps flags s) = screen_ok C R s"
  by (simp add: handle_sgr_def)

lemma execute_c0_ok: "screen_ok C R s \<Longrightarrow> returns (execute_c0 b s) (screen_ok C R)"
  by (auto simp: execute_c0_def backspace_ok tab_ok linefeed_ok)

lemma repeat_char_ok: "screen_ok C R s \<Longrightarrow> returns (repeat_char n s) (screen_ok C R)"
  by (auto simp: repeat_char_def split: option.split intro!: returns_foldM write_char_ok)

lemma csi_erase_ok:
  "screen_ok C R s \<Longrightarrow> returns (csi_erase_display m private s) (screen_ok C R)"
  "screen_ok C R s \<Longrightarrow> returns (csi_erase_line n private s) (screen_ok C R)"
  by (auto simp: csi_erase_display_def csi_erase_line_def Let_def erase_display_op_def
      selective_erase_display_def erase_line_op_def selective_erase_line_def
      intro: erase_display_impl_ok erase_line_impl_ok)

lemma set_column_mode_ok:
  assumes "screen_ok C R s"
  shows "returns (set_column_mode b s) (screen_rows R)"
proof (cases "md_allow_deccolm (s_modes s)")
  case True
  define n where "n = (if b then 132 else 80 :: nat)"
  have "returns (resize n R s) (screen_ok n R)"
    using assms by (intro resize_screen_ok [OF assms]) (auto simp: n_def dest: screen_okD)
  then have "returns (Option.bind (resize n R s) (erase_display_op EDAll)) (screen_ok n R)"
    by (rule returns_bindI) (simp add: erase_display_op_def erase_display_impl_ok)
  then have "returns (Option.bind (Option.bind (resize n R s) (erase_display_op EDAll))
      (\<lambda>s. Some ((unwrap_pending (set_col 0 (set_row 0 s)))\<lparr>s_scroll_top := 0, s_scroll_bottom := R\<rparr>)))
      (screen_ok n R)"
    by (rule returns_bindI)
       (auto intro!: screen_ok_margins_tb screen_ok_set_row dest: screen_okD(2))
  with True show ?thesis
    by (auto simp: set_column_mode_def screen_okD(14) [OF assms] n_def [symmetric]
        intro: returns_screen_rows simp del: returns_bind)
next
  case False
  then show ?thesis
    using assms by (simp add: set_column_mode_def screen_rowsI)
qed

lemma set_private_mode_ok:
  assumes "screen_ok C R s"
  shows "returns (set_private_mode m b s) (screen_rows R)"
proof -
  have lr: "returns (let s = s\<lparr>s_modes := x\<rparr> in
      Some (if b then s else s\<lparr>s_scroll_left := 0, s_scroll_right := cols_of s\<rparr>)) (screen_ok C R)" for x
    using assms screen_okD(1) [OF assms] screen_okD(13) [OF assms]
    by (auto simp: Let_def cols_of_def intro!: screen_ok_margins_lr)
  show ?thesis
    unfolding set_private_mode_def
    apply (intro returns_ifI set_column_mode_ok [OF assms])
    using assms enter_alt_screen_ok [OF assms] leave_alt_screen_ok [OF assms] lr
    by (auto intro!: screen_rowsI [of C] cursor_position_ok screen_ok_cursor restore_cursor_ok
        intro: returns_screen_rows simp: set_mouse_def dest: screen_okD(5))
qed

lemma set_ansi_mode_ok: "screen_rows R s \<Longrightarrow> screen_rows R (set_ansi_mode m b s)"
  by (simp add: set_ansi_mode_def screen_rows_def) (simp add: cols_of_def)

lemma set_private_mode_rows: "screen_rows R s \<Longrightarrow> returns (set_private_mode m b s) (screen_rows R)"
  using set_private_mode_ok [of "cols_of s" R s m b] by (simp add: screen_rows_def [of R s])

lemma set_modes_ok: "screen_rows R s \<Longrightarrow> returns (set_modes ps private b s) (screen_rows R)"
  unfolding set_modes_def
  by (intro returns_foldM returns_ifI returns_SomeI set_private_mode_rows set_ansi_mode_ok)

lemma handle_csi_ok:
  assumes "screen_ok C R s"
  shows "returns (handle_csi p ims act s) (screen_rows R)"
proof -
  have modes: "returns (set_modes ps prv b s) (screen_rows R)" for ps prv b
    by (rule set_modes_ok [OF screen_rowsI [OF assms]])
  show ?thesis
    unfolding handle_csi_def Let_def
    apply (intro returns_ifI modes returns_SomeI)
    using assms
    by (auto intro!: screen_rowsI [of C] returns_screen_rows [of _ C] cursor_up_ok cursor_down_ok cursor_left_ok
        cursor_right_ok cursor_position_ok tab_forward_ok tab_backward_ok clear_tab_stop_ok
        restore_cursor_ok soft_reset_ok set_cursor_style_ok set_scroll_region_ok
        set_left_right_margin_ok csi_erase_ok insert_lines_ok delete_lines_ok delete_chars_ok
        screen_scroll_up_ok screen_scroll_down_ok erase_chars_op_ok insert_chars_ok repeat_char_ok fill_rect_ok
        copy_rect_ok selective_erase_rect_ok)
qed

lemma handle_esc_ok: "screen_ok C R s \<Longrightarrow> returns (handle_esc ims b s) (screen_ok C R)"
  by (auto simp: handle_esc_def split: list.split intro!: index_ok linefeed_ok set_tab_stop_ok
      reverse_index_ok restore_cursor_ok reset_ok decaln_ok)

section \<open>The one panic\<close>

text \<open>
  An OSC 4 whose colour specification is sliced inside a character. Nothing of it depends on the
  screen.
\<close>

definition splits_char :: "action \<Rightarrow> bool" where
  "splits_char a \<longleftrightarrow>
     (case a of OscDispatch parts \<Rightarrow>
        parts \<noteq> [] \<and> utf8_or_empty (parts ! 0) = ascii ''4'' \<and> 3 \<le> length parts \<and>
        (case parse_unsigned 65536 10 (utf8_or_empty (parts ! 1)) of None \<Rightarrow> False | Some i \<Rightarrow> i < 256) \<and>
        parse_color_spec (utf8_or_empty (parts ! 2)) = None
      | _ \<Rightarrow> False)"

lemma osc_ops_rows [simp]:
  "screen_ok C R (osc_hyperlink parts s) = screen_ok C R s"
  "screen_ok C R (osc_notify777 parts s) = screen_ok C R s"
  "screen_ok C R (osc_clipboard parts s) = screen_ok C R s"
  "screen_ok C R (osc_shell_mark parts s) = screen_ok C R s"
  by (simp_all add: osc_hyperlink_def osc_notify777_def osc_clipboard_def osc_shell_mark_def Let_def
      split: option.split)

lemma ascii_spec_query: "parse_color_spec (ascii ''?'') = Some None"
  by code_simp

lemma osc_palette_ok:
  assumes "screen_ok C R s"
  shows "if \<exists>i. 3 \<le> length parts \<and> parse_unsigned 65536 10 (utf8_or_empty (parts ! 1)) = Some i \<and> i < 256 \<and>
           parse_color_spec (utf8_or_empty (parts ! 2)) = None
         then osc_palette parts s = None else returns (osc_palette parts s) (screen_ok C R)"
  using assms
  by (auto simp: osc_palette_def Let_def ascii_spec_query set_palette_color_ok split: option.split)

lemma handle_osc_ok:
  assumes "screen_ok C R s"
  shows "if splits_char (OscDispatch parts) then handle_osc parts s = None
         else returns (handle_osc parts s) (screen_ok C R)"
proof (cases "parts \<noteq> [] \<and> utf8_or_empty (parts ! 0) = ascii ''4''")
  case True
  then have "handle_osc parts s = osc_palette parts s"
    by (simp add: handle_osc_def ascii_def byte_def)
  moreover have "splits_char (OscDispatch parts) \<longleftrightarrow> (\<exists>i. 3 \<le> length parts \<and>
      parse_unsigned 65536 10 (utf8_or_empty (parts ! 1)) = Some i \<and> i < 256 \<and>
      parse_color_spec (utf8_or_empty (parts ! 2)) = None)"
    using True by (auto simp: splits_char_def split: option.splits)
  ultimately show ?thesis
    using osc_palette_ok [OF assms, of parts] by simp
next
  case False
  then have "\<not> splits_char (OscDispatch parts)"
    by (auto simp: splits_char_def)
  moreover have "returns (handle_osc parts s) (screen_ok C R)"
    unfolding handle_osc_def Let_def
    using assms False by (intro returns_ifI returns_SomeI) auto
  ultimately show ?thesis
    by simp
qed

lemma perform_ok:
  assumes "screen_rows R s" "action_wf a"
  shows "if splits_char a then perform s a = None else returns (perform s a) (screen_rows R)"
proof -
  have s: "screen_ok (cols_of s) R s"
    using assms(1) by (simp add: screen_rows_def)
  show ?thesis
    using assms handle_osc_ok [OF s]
    by (cases a)
       (auto simp: perform_def splits_char_def intro!: returns_screen_rows [of _ "cols_of s"] write_char_ok [OF s]
         execute_c0_ok [OF s] handle_csi_ok [OF s] handle_esc_ok [OF s] split: if_splits)
qed

interpretation terminal: performer perform "screen_rows R" "\<lambda>a. \<not> splits_char a"
  using perform_ok by unfold_locales (metis (full_types))

lemma replay_panics_iff:
  "screen_rows R s \<Longrightarrow> \<forall>a \<in> set as. action_wf a \<Longrightarrow>
   foldM perform as s = None \<longleftrightarrow> (\<exists>a \<in> set as. splits_char a)"
proof (induction as arbitrary: s)
  case Nil
  then show ?case by simp
next
  case (Cons a as)
  show ?case
  proof (cases "splits_char a")
    case True
    then show ?thesis
      using perform_ok [OF Cons.prems(1), of a] Cons.prems(2) by simp
  next
    case False
    then obtain t where "perform s a = Some t" "screen_rows R t"
      using perform_ok [OF Cons.prems(1), of a] Cons.prems(2) by (auto simp: returns_iff)
    then show ?thesis
      using Cons False by simp
  qed
qed

section \<open>Feeding a terminal\<close>

text \<open>
  Terminal output fed to a terminal, as the components above use it: when it panics, what it keeps, and
  that the way it is cut into reads does not matter.
\<close>

lemma feed_append:
  "feed ps s (bs @ cs) = Option.bind (feed ps s bs) (\<lambda>(ps', s'). feed ps' s' cs)"
  by (simp add: feed_def advance_append)

lemma feed_panics_iff:
  assumes "parser_wf ps" and "screen_rows R s"
  shows "feed ps s bs = None \<longleftrightarrow> list_ex splits_char (actions_of ps bs)"
proof -
  have "\<forall>a \<in> set (actions_of ps bs). action_wf a"
    using actions_of_wf [OF assms(1)] by blast
  from replay_panics_iff [OF assms(2) this] show ?thesis
    by (simp add: feed_def advance_via_actions [OF assms(1)] list_ex_iff)
qed

lemma feed_ok:
  assumes "parser_wf ps" and "screen_rows R s" and "\<not> list_ex splits_char (actions_of ps bs)"
  shows "returns (feed ps s bs) (\<lambda>(ps', s'). parser_wf ps' \<and> screen_rows R s')"
  unfolding feed_def using terminal.drive_ok [OF assms(1,2)] assms(3) by (auto simp: list_ex_iff)

end
