(* ===== verification/Terminal_Properties.thy ===== *)
theory Terminal_Properties
  imports Term_Terminal VT_Parser_Props VT_Properties
begin

text \<open>
  The properties of the terminal: what bytes do to a screen. The first ones are about every byte string
  (no panic but one, invariants), the others about what particular operations and sequences do.
\<close>

section \<open>Any bytes\<close>

text \<open>
  C1: terminal output cannot crash the terminal but in one way: fed any bytes, the parser and the screen
  panic if and only if the bytes dispatch an OSC 4 whose colour is sliced inside a character; otherwise
  they return, with the parser's buffers within their arrays and the screen's invariant kept.
\<close>
theorem terminal_panics_iff:
  assumes "parser_wf ps" and "screen_rows R s"
  shows "(feed ps s bs = None \<longleftrightarrow> list_ex splits_char (actions_of ps bs)) \<and>
    (\<not> list_ex splits_char (actions_of ps bs) \<longrightarrow>
      returns (feed ps s bs) (\<lambda>(ps', s'). parser_wf ps' \<and> screen_rows R s'))"
  using feed_panics_iff [OF assms] feed_ok [OF assms] by blast

lemma one_letter: "actions_of parser_new [0x41] = [Print 0x41]"
  by code_simp

theorem terminal_panics_iff_witness:
  "feed parser_new (screen_new 80 24) [0x41] \<noteq> None \<and>
   returns (feed parser_new (screen_new 80 24) [0x41]) (\<lambda>(ps', s'). parser_wf ps' \<and> screen_rows 24 s')"
  using terminal_panics_iff [OF parser_wf_new screen_rows_new, of 80 24 "[0x41]"] by (simp add: one_letter splits_char_def)

text \<open>The bytes \<open>ESC ] 4 ; 0 ; # e-acute 1 BEL\<close>.\<close>

definition crashing_output :: "u8 list" where
  "crashing_output = [0x1b, 0x5d, 0x34, 0x3b, 0x30, 0x3b, 0x23, 0xc3, 0xa9, 0x31, 0x07]"

lemma osc_bel:
  assumes "ps_state ps \<noteq> Utf8" and "list_all osc_byte bs" and "length bs \<le> MAX_OSC_DATA"
  shows "actions_of ps ([0x1b, 0x5d] @ bs @ [0x07]) = [OscDispatch (split_on 0x3B bs)]"
proof -
  have "foldM (byte_step collect) (([0x1b, 0x5d] @ bs) @ [0x07]) (ps, [])
      = Some (ps\<lparr>ps_inter := inter_clear (ps_inter ps), ps_state := Ground, ps_osc := bs\<rparr>,
          [OscDispatch (split_on 0x3B bs)])"
    by (subst foldM_append, subst osc_body [OF assms])
       (simp add: advance_byte_def dispatch_state_def osc_string_def collect_def)
  then show ?thesis
    by (simp add: actions_of_def advance_bytes)
qed

lemma crashing_split: "splits_char (OscDispatch [[0x34], [0x30], [0x23, 0xc3, 0xa9, 0x31]])"
proof -
  have 1: "utf8_or_empty [0x34] = ascii ''4''" "utf8_or_empty [0x30] = ascii ''0''"
    by code_simp+
  have 2: "utf8_or_empty [0x23, 0xc3, 0xa9, 0x31] = [0x23, 0xc3, 0xa9, 0x31]"
    by code_simp
  have 3: "parse_unsigned 65536 10 (ascii ''0'') = Some 0"
    by (simp add: parse_unsigned_def ascii_def byte_def digit_val_def)
  have 4: "strip_prefix (ascii ''rgb:'') [0x23, 0xc3, 0xa9, 0x31] = None"
    "strip_prefix (ascii ''#'') [0x23, 0xc3, 0xa9, 0x31] = Some [0xc3, 0xa9, 0x31]"
    "hex_slice [0xc3, 0xa9, 0x31] 0 1 = None"
    by code_simp+
  show ?thesis
    by (simp add: splits_char_def 1 2 3 4 [unfolded One_nat_def] parse_color_spec_def three_channels_def)
qed

lemma crashing_actions: "list_ex splits_char (actions_of parser_new crashing_output)"
proof -
  have "actions_of parser_new crashing_output = [OscDispatch [[0x34], [0x30], [0x23, 0xc3, 0xa9, 0x31]]]"
    using osc_bel [of parser_new "[0x34, 0x3b, 0x30, 0x3b, 0x23, 0xc3, 0xa9, 0x31]"]
    by (simp add: crashing_output_def osc_byte_def) (simp add: parser_new_def)
  then show ?thesis
    using crashing_split by simp
qed

text \<open>
  The panic is reachable from terminal output: a colour of three bytes that are not three
  characters, sent to a terminal of any size.
\<close>
theorem crashing_output_panics:
  assumes "0 < C" and "0 < R"
  shows "feed parser_new (screen_new C R) crashing_output = None"
  using feed_panics_iff [OF parser_wf_new screen_rows_new [OF assms]] crashing_actions by simp

theorem crashing_output_panics_witness:
  "feed parser_new (screen_new 80 24) crashing_output = None"
  by (rule crashing_output_panics) simp_all

text \<open>ASCII strings: every offset is a character boundary.\<close>

definition ascii_byte :: "u8 \<Rightarrow> bool" where
  "ascii_byte b \<longleftrightarrow> b < 0x80"

lemma char_boundary_ascii: "list_all ascii_byte s \<Longrightarrow> i \<le> length s \<Longrightarrow> char_boundary s i"
  by (auto simp: char_boundary_def list_all_length ascii_byte_def word_less_nat_alt not_le
      dest!: spec [of _ i])

lemma str_slice_ascii:
  "list_all ascii_byte s \<Longrightarrow> a \<le> b \<Longrightarrow> b \<le> length s \<Longrightarrow> str_slice s a b \<noteq> None"
  by (simp add: str_slice_def char_boundary_ascii)

lemma three_channels_total:
  "r \<noteq> None \<Longrightarrow> g \<noteq> None \<Longrightarrow> b \<noteq> None \<Longrightarrow> three_channels r g b \<noteq> None"
  by (auto simp: three_channels_def split: option.splits)

lemma parse_color_ascii:
  assumes "list_all ascii_byte spec"
  shows "parse_color_spec spec \<noteq> None"
proof -
  have rest: "list_all ascii_byte r" if "strip_prefix (ascii ''#'') spec = Some r" for r
    using that assms by (auto simp: strip_prefix_def list_all_iff dest: in_set_dropD split: if_splits)
  have hex: "hex_slice r a b \<noteq> None"
    if "strip_prefix (ascii ''#'') spec = Some r" "a \<le> b" "b \<le> length r" for r a b
    using str_slice_ascii [OF rest [OF that(1)] that(2,3)] by (simp add: hex_slice_def)
  show ?thesis
    using three_channels_total hex
    by (simp add: parse_color_spec_def Let_def split: option.split prod.split)
qed

lemma utf8_or_empty_cases: "utf8_or_empty bs = bs \<or> utf8_or_empty bs = []"
  by (auto simp: utf8_or_empty_def from_utf8_def)

lemma ascii_not_split:
  assumes "osc_all ascii_byte a"
  shows "\<not> splits_char a"
proof (cases a)
  case (OscDispatch parts)
  have "parse_color_spec (utf8_or_empty (parts ! 2)) \<noteq> None" if "3 \<le> length parts"
  proof -
    have "list_all ascii_byte (parts ! 2)"
      using assms that by (simp add: OscDispatch list_all_length)
    then show ?thesis
      using utf8_or_empty_cases [of "parts ! 2"] parse_color_ascii [of "parts ! 2"] parse_color_ascii [of "[]"]
      by (metis list.pred_inject(1))
  qed
  then show ?thesis
    by (auto simp: splits_char_def OscDispatch split: option.splits)
qed (simp_all add: splits_char_def)

text \<open>
  ASCII terminal output cannot crash the terminal: fed any bytes below 128, a new parser and a
  screen in its invariant return, and keep their invariants.
\<close>
theorem ascii_output_safe:
  assumes "screen_rows R s" and "list_all ascii_byte bs"
  shows "returns (feed parser_new s bs) (\<lambda>(ps', s'). parser_wf ps' \<and> screen_rows R s')"
proof -
  have "list_all ascii_byte (ps_osc parser_new)"
    by (simp add: parser_new_def)
  then have "\<forall>a \<in> set (actions_of parser_new bs). \<not> splits_char a"
    using actions_of_osc_bytes [OF parser_wf_new _ assms(2)] ascii_not_split by (auto simp: list_all_iff)
  then show ?thesis
    unfolding feed_def by (rule terminal.drive_ok [OF parser_wf_new assms(1)])
qed

theorem ascii_output_safe_witness:
  "returns (feed parser_new (screen_new 80 24) [0x1b, 0x5b, 0x33, 0x68, 0x41])
     (\<lambda>(ps', s'). parser_wf ps' \<and> screen_rows 24 s')"
  by (rule ascii_output_safe) (simp_all add: screen_rows_new ascii_byte_def)

end
