(* ===== verification/Emux_Float.thy ===== *)
theory Emux_Float
  imports Main Complex_Main "HOL-Library.Log_Nat"
begin

text \<open>
  The \<open>f32\<close> arithmetic the layout engine uses (split ratios): IEEE 754 single precision with rounding
  to nearest, ties to even. A finite float is its rational value, so the sign of a zero is lost; none
  of the operations used here can observe it.
\<close>

datatype f32 = FNaN | FPosInf | FNegInf | FVal rat

definition pow2 :: "int \<Rightarrow> rat" where
  "pow2 e = (if 0 \<le> e then 2 ^ nat e else 1 / 2 ^ nat (- e))"

text \<open>The exponent \<open>e\<close> with \<open>2^e \<le> x < 2^(e+1)\<close>, for positive \<open>x\<close>.\<close>

definition ilog2 :: "rat \<Rightarrow> int" where
  "ilog2 x = (case quotient_of x of (p, q) \<Rightarrow>
     let n = int (floorlog 2 (nat p)) - int (floorlog 2 (nat q)) in if x < pow2 n then n - 1 else n)"

definition round_half_even :: "rat \<Rightarrow> int" where
  "round_half_even x =
     (let f = \<lfloor>x\<rfloor>; d = x - of_int f in
      if d < 1 / 2 then f else if 1 / 2 < d then f + 1 else if even f then f else f + 1)"

text \<open>Rounding a real result to single precision: 24 significant bits, least exponent -149.\<close>

definition f32_of_rat :: "rat \<Rightarrow> f32" where
  "f32_of_rat x =
     (if x = 0 then FVal 0
      else let q = pow2 (max (ilog2 \<bar>x\<bar> - 23) (-149)); y = of_int (round_half_even (x / q)) * q in
        if pow2 128 \<le> y then FPosInf else if y \<le> - pow2 128 then FNegInf else FVal y)"

definition f32_of_nat :: "nat \<Rightarrow> f32" where
  "f32_of_nat n = f32_of_rat (of_nat n)"

definition f32_of_int :: "int \<Rightarrow> f32" where
  "f32_of_int i = f32_of_rat (of_int i)"

fun f32_neg :: "f32 \<Rightarrow> f32" where
  "f32_neg FNaN = FNaN"
| "f32_neg FPosInf = FNegInf"
| "f32_neg FNegInf = FPosInf"
| "f32_neg (FVal x) = FVal (- x)"

fun f32_add :: "f32 \<Rightarrow> f32 \<Rightarrow> f32" where
  "f32_add FNaN _ = FNaN"
| "f32_add _ FNaN = FNaN"
| "f32_add FPosInf FNegInf = FNaN"
| "f32_add FNegInf FPosInf = FNaN"
| "f32_add FPosInf _ = FPosInf"
| "f32_add _ FPosInf = FPosInf"
| "f32_add FNegInf _ = FNegInf"
| "f32_add _ FNegInf = FNegInf"
| "f32_add (FVal x) (FVal y) = f32_of_rat (x + y)"

definition f32_sub :: "f32 \<Rightarrow> f32 \<Rightarrow> f32" where
  "f32_sub x y = f32_add x (f32_neg y)"

definition f32_inf_mul :: "f32 \<Rightarrow> rat \<Rightarrow> f32" where
  "f32_inf_mul i x = (if x = 0 then FNaN else if 0 < x then i else f32_neg i)"

fun f32_mul :: "f32 \<Rightarrow> f32 \<Rightarrow> f32" where
  "f32_mul FNaN _ = FNaN"
| "f32_mul _ FNaN = FNaN"
| "f32_mul (FVal x) (FVal y) = f32_of_rat (x * y)"
| "f32_mul (FVal x) i = f32_inf_mul i x"
| "f32_mul i (FVal x) = f32_inf_mul i x"
| "f32_mul FPosInf i = i"
| "f32_mul FNegInf i = f32_neg i"

text \<open>Division by a finite value other than zero.\<close>

definition f32_div_val :: "f32 \<Rightarrow> rat \<Rightarrow> f32" where
  "f32_div_val x d = (case x of FVal v \<Rightarrow> f32_of_rat (v / d) | _ \<Rightarrow> if 0 < d then x else f32_neg x)"

fun f32_less :: "f32 \<Rightarrow> f32 \<Rightarrow> bool" where
  "f32_less FNaN _ = False"
| "f32_less _ FNaN = False"
| "f32_less FPosInf _ = False"
| "f32_less _ FNegInf = False"
| "f32_less FNegInf _ = True"
| "f32_less _ FPosInf = True"
| "f32_less (FVal x) (FVal y) = (x < y)"

definition f32_clamp :: "f32 \<Rightarrow> f32 \<Rightarrow> f32 \<Rightarrow> f32" where
  "f32_clamp lo hi x = (if f32_less x lo then lo else if f32_less hi x then hi else x)"

text \<open>\<open>f32::round\<close> (half away from zero) and the saturating \<open>as usize\<close>.\<close>

fun f32_round :: "f32 \<Rightarrow> f32" where
  "f32_round (FVal x) = FVal (of_int (if 0 \<le> x then \<lfloor>x + 1 / 2\<rfloor> else - \<lfloor>1 / 2 - x\<rfloor>))"
| "f32_round x = x"

abbreviation USIZE_MAX :: nat where "USIZE_MAX \<equiv> 18446744073709551615"

fun f32_to_usize :: "f32 \<Rightarrow> nat" where
  "f32_to_usize FNaN = 0"
| "f32_to_usize FNegInf = 0"
| "f32_to_usize FPosInf = USIZE_MAX"
| "f32_to_usize (FVal x) = min (nat \<lfloor>x\<rfloor>) USIZE_MAX"

lemma f32_of_rat_not_nan [simp]: "f32_of_rat x \<noteq> FNaN" "FNaN \<noteq> f32_of_rat x"
  by (auto simp: f32_of_rat_def Let_def)

lemma f32_less_not_nan: "f32_less x y \<Longrightarrow> x \<noteq> FNaN \<and> y \<noteq> FNaN"
  by (cases x; cases y) simp_all

lemma f32_less_irrefl [simp]: "\<not> f32_less x x"
  by (cases x) simp_all

text \<open>A clamp between finite bounds of anything but NaN is between them.\<close>

lemma f32_clamp_between:
  assumes "x \<noteq> FNaN" and "\<not> f32_less hi lo"
  shows "\<not> f32_less (f32_clamp lo hi x) lo \<and> \<not> f32_less hi (f32_clamp lo hi x) \<and> f32_clamp lo hi x \<noteq> FNaN"
  using assms by (auto simp: f32_clamp_def dest: f32_less_not_nan)

end
