(* ===== verification/Mux_Layout.thy ===== *)
theory Mux_Layout
  imports Emux_Prelude Emux_Float
begin

text \<open>
  \<open>crates/emux-mux/src/layout.rs\<close>: the binary tree that arranges the tiled panes of a tab. A method
  on \<open>&mut self\<close> returns its result with the new tree.
\<close>

type_synonym pane_id = u32

datatype split_direction = Horizontal | Vertical

datatype layout_node = Leaf pane_id | Split split_direction f32 layout_node layout_node

record pane_position =
  pp_col :: nat
  pp_row :: nat
  pp_cols :: nat
  pp_rows :: nat

section \<open>\<open>LayoutNode\<close>\<close>

fun node_pane_ids :: "layout_node \<Rightarrow> pane_id list" where
  "node_pane_ids (Leaf i) = [i]"
| "node_pane_ids (Split _ _ a b) = node_pane_ids a @ node_pane_ids b"

fun node_count :: "layout_node \<Rightarrow> nat" where
  "node_count (Leaf _) = 1"
| "node_count (Split _ _ a b) = node_count a + node_count b"

fun node_split :: "pane_id \<Rightarrow> pane_id \<Rightarrow> split_direction \<Rightarrow> layout_node \<Rightarrow> bool \<times> layout_node" where
  "node_split target new dir (Leaf i) =
     (if i = target then (True, Split dir (FVal (1 / 2)) (Leaf target) (Leaf new)) else (False, Leaf i))"
| "node_split target new dir (Split d r a b) =
     (case node_split target new dir a of
        (True, a') \<Rightarrow> (True, Split d r a' b)
      | (False, a') \<Rightarrow> (case node_split target new dir b of (found, b') \<Rightarrow> (found, Split d r a' b')))"

datatype remove_result = NotFound | Removed | Replaced layout_node

fun node_remove :: "pane_id \<Rightarrow> layout_node \<Rightarrow> remove_result \<times> layout_node" where
  "node_remove target (Leaf i) = (if i = target then Removed else NotFound, Leaf i)"
| "node_remove target (Split d r a b) =
     (case node_remove target a of
        (Removed, a') \<Rightarrow> (Replaced b, Split d r a' b)
      | (Replaced n, a') \<Rightarrow> (NotFound, Split d r n b)
      | (NotFound, a') \<Rightarrow>
          (case node_remove target b of
             (Removed, b') \<Rightarrow> (Replaced a', Split d r a' b')
           | (Replaced n, b') \<Rightarrow> (NotFound, Split d r a' n)
           | (NotFound, b') \<Rightarrow> (NotFound, Split d r a' b')))"

text \<open>How many of \<open>extent\<close> rows or columns the first child gets.\<close>

definition first_share :: "nat \<Rightarrow> f32 \<Rightarrow> nat" where
  "first_share extent ratio =
     min (max (f32_to_usize (f32_round (f32_mul (f32_of_nat extent) ratio))) 1) (extent - 1)"

type_synonym positions = "(pane_id \<times> pane_position) list"

fun compute_positions_inner :: "layout_node \<Rightarrow> nat \<Rightarrow> nat \<Rightarrow> nat \<Rightarrow> nat \<Rightarrow> positions \<Rightarrow> positions" where
  "compute_positions_inner (Leaf i) col row cols rows out =
     out @ [(i, \<lparr>pp_col = col, pp_row = row, pp_cols = cols, pp_rows = rows\<rparr>)]"
| "compute_positions_inner (Split Horizontal ratio a b) col row cols rows out =
     (let first_rows = first_share rows ratio; second_rows = rows - first_rows;
          out = compute_positions_inner a col row cols first_rows out
      in compute_positions_inner b col (row + first_rows) cols second_rows out)"
| "compute_positions_inner (Split Vertical ratio a b) col row cols rows out =
     (let first_cols = first_share cols ratio; second_cols = cols - first_cols;
          out = compute_positions_inner a col row first_cols rows out
      in compute_positions_inner b (col + first_cols) row second_cols rows out)"

definition RATIO_MIN :: f32 where "RATIO_MIN = f32_of_rat (1 / 10)"
definition RATIO_MAX :: f32 where "RATIO_MAX = f32_of_rat (9 / 10)"

fun node_adjust_ratio :: "pane_id \<Rightarrow> split_direction \<Rightarrow> f32 \<Rightarrow> layout_node \<Rightarrow> bool \<times> layout_node" where
  "node_adjust_ratio target axis delta (Leaf i) = (False, Leaf i)"
| "node_adjust_ratio target axis delta (Split d r a b) =
     (let in_first = target \<in> set (node_pane_ids a); in_second = target \<in> set (node_pane_ids b) in
      if \<not> in_first \<and> \<not> in_second then (False, Split d r a b)
      else if d = axis then
        (if in_first then (True, Split d (f32_clamp RATIO_MIN RATIO_MAX (f32_add r delta)) a b)
         else (True, Split d (f32_clamp RATIO_MIN RATIO_MAX (f32_sub r delta)) a b))
      else if in_first then
        (case node_adjust_ratio target axis delta a of (done, a') \<Rightarrow> (done, Split d r a' b))
      else (case node_adjust_ratio target axis delta b of (done, b') \<Rightarrow> (done, Split d r a b')))"

fun replace_leaf :: "pane_id \<Rightarrow> pane_id \<Rightarrow> layout_node \<Rightarrow> bool \<times> layout_node" where
  "replace_leaf old new (Leaf i) = (if i = old then (True, Leaf new) else (False, Leaf i))"
| "replace_leaf old new (Split d r a b) =
     (case replace_leaf old new a of
        (True, a') \<Rightarrow> (True, Split d r a' b)
      | (False, a') \<Rightarrow> (case replace_leaf old new b of (found, b') \<Rightarrow> (found, Split d r a' b')))"

definition node_swap_leaves :: "pane_id \<Rightarrow> pane_id \<Rightarrow> layout_node \<Rightarrow> bool \<times> layout_node" where
  "node_swap_leaves a b n =
     (let sentinel = - 1; (found, n1) = replace_leaf a sentinel n in
      if \<not> found then (False, n1)
      else let (found, n2) = replace_leaf b a n1 in
        if \<not> found then (False, snd (replace_leaf sentinel a n2))
        else (True, snd (replace_leaf sentinel b n2)))"

definition find_pos :: "pane_id \<Rightarrow> positions \<Rightarrow> pane_position option" where
  "find_pos target ps = map_option snd (find (\<lambda>p. fst p = target) ps)"

definition find_position :: "layout_node \<Rightarrow> pane_id \<Rightarrow> nat \<Rightarrow> nat \<Rightarrow> nat \<Rightarrow> nat \<Rightarrow> pane_position option" where
  "find_position n target col row cols rows = find_pos target (compute_positions_inner n col row cols rows [])"

section \<open>\<open>LayoutEngine\<close>\<close>

record layout_engine =
  le_root :: "layout_node option"

definition layout_new :: layout_engine where
  "layout_new = \<lparr>le_root = None\<rparr>"

definition layout_pane_ids :: "layout_engine \<Rightarrow> pane_id list" where
  "layout_pane_ids e = (case le_root e of Some n \<Rightarrow> node_pane_ids n | None \<Rightarrow> [])"

definition layout_split ::
  "pane_id \<Rightarrow> pane_id \<Rightarrow> split_direction \<Rightarrow> layout_engine \<Rightarrow> bool \<times> layout_engine" where
  "layout_split target new dir e =
     (case le_root e of
        None \<Rightarrow> (False, e)
      | Some n \<Rightarrow> (case node_split target new dir n of (found, n') \<Rightarrow> (found, e\<lparr>le_root := Some n'\<rparr>)))"

definition add_pane :: "pane_id \<Rightarrow> layout_engine \<Rightarrow> layout_engine" where
  "add_pane i e =
     (case le_root e of
        None \<Rightarrow> e\<lparr>le_root := Some (Leaf i)\<rparr>
      | Some _ \<Rightarrow>
          (let ids = layout_pane_ids e in
           if ids = [] then e else snd (layout_split (last ids) i Vertical e)))"

definition remove_pane :: "pane_id \<Rightarrow> layout_engine \<Rightarrow> bool \<times> layout_engine" where
  "remove_pane i e =
     (case le_root e of
        None \<Rightarrow> (False, e)
      | Some n \<Rightarrow>
          (case node_remove i n of
             (Removed, n') \<Rightarrow> (True, e\<lparr>le_root := None\<rparr>)
           | (Replaced r, n') \<Rightarrow> (True, e\<lparr>le_root := Some r\<rparr>)
           | (NotFound, n') \<Rightarrow>
               (let e = e\<lparr>le_root := Some n'\<rparr> in (i \<notin> set (layout_pane_ids e), e))))"

definition layout_count :: "layout_engine \<Rightarrow> nat" where
  "layout_count e = (case le_root e of Some n \<Rightarrow> node_count n | None \<Rightarrow> 0)"

definition layout_positions :: "layout_engine \<Rightarrow> nat \<Rightarrow> nat \<Rightarrow> positions" where
  "layout_positions e total_cols total_rows =
     (case le_root e of None \<Rightarrow> [] | Some n \<Rightarrow> compute_positions_inner n 0 0 total_cols total_rows [])"

definition layout_adjust_ratio ::
  "pane_id \<Rightarrow> split_direction \<Rightarrow> f32 \<Rightarrow> layout_engine \<Rightarrow> bool \<times> layout_engine" where
  "layout_adjust_ratio target axis delta e =
     (case le_root e of
        None \<Rightarrow> (False, e)
      | Some n \<Rightarrow> (case node_adjust_ratio target axis delta n of (done, n') \<Rightarrow> (done, e\<lparr>le_root := Some n'\<rparr>)))"

definition layout_swap_leaves :: "pane_id \<Rightarrow> pane_id \<Rightarrow> layout_engine \<Rightarrow> bool \<times> layout_engine" where
  "layout_swap_leaves a b e =
     (case le_root e of
        None \<Rightarrow> (False, e)
      | Some n \<Rightarrow> (case node_swap_leaves a b n of (found, n') \<Rightarrow> (found, e\<lparr>le_root := Some n'\<rparr>)))"

definition set_root :: "layout_node \<Rightarrow> layout_engine \<Rightarrow> layout_engine" where
  "set_root n e = e\<lparr>le_root := Some n\<rparr>"

text \<open>The panes beyond the slots of a template, split off the last leaf one after the other.\<close>

fun split_extra :: "pane_id \<Rightarrow> pane_id list \<Rightarrow> layout_node \<Rightarrow> layout_node" where
  "split_extra last_id [] n = n"
| "split_extra last_id (x # xs) n = split_extra x xs (snd (node_split last_id x Vertical n))"

definition apply_template :: "layout_node \<Rightarrow> pane_id list \<Rightarrow> layout_engine \<Rightarrow> layout_engine" where
  "apply_template template ids e =
     (if ids = [] then e
      else
        let template_ids = node_pane_ids template; slots = length template_ids;
            n = fold (\<lambda>(t, i) n. snd (replace_leaf t i n)) (zip template_ids ids) template;
            n = (if slots < length ids then split_extra (ids ! (slots - 1)) (drop slots ids) n else n);
            n = (if length ids < slots
                 then fold (\<lambda>t n. snd (node_remove t n)) (drop (length ids) template_ids) n else n)
        in e\<lparr>le_root := Some n\<rparr>)"

end
