(* ===== verification/Mux_Layout_Props.thy ===== *)
theory Mux_Layout_Props
  imports Mux_Layout "HOL-Library.Multiset"
begin

text \<open>
  The layout tree as a list. \<open>node_pane_ids\<close> abstracts a tree to the list of its leaves; each operation
  of the tree is an operation on that list (\<open>insert_after\<close>, \<open>remove1\<close>, a swap, nothing), and the
  positions of the leaves tile the rectangle whatever the ratios are. The locale \<open>arrangement\<close> states
  what a tab needs of its layout; the engine is an instance of it.
\<close>

section \<open>Operations on the list of leaves\<close>

fun insert_after :: "'a \<Rightarrow> 'a \<Rightarrow> 'a list \<Rightarrow> 'a list" where
  "insert_after t n [] = []"
| "insert_after t n (x # xs) = (if x = t then x # n # xs else x # insert_after t n xs)"

lemma insert_after_absent: "t \<notin> set xs \<Longrightarrow> insert_after t n xs = xs"
  by (induction xs) auto

lemma insert_after_append:
  "insert_after t n (xs @ ys) = (if t \<in> set xs then insert_after t n xs @ ys else xs @ insert_after t n ys)"
  by (induction xs) auto

lemma mset_insert_after: "t \<in> set xs \<Longrightarrow> mset (insert_after t n xs) = add_mset n (mset xs)"
  by (induction xs) auto

lemma set_insert_after: "t \<in> set xs \<Longrightarrow> set (insert_after t n xs) = insert n (set xs)"
  using mset_insert_after [of t xs n] by (metis set_mset_add_mset_insert set_mset_mset)

lemma distinct_insert_after: "distinct xs \<Longrightarrow> n \<notin> set xs \<Longrightarrow> distinct (insert_after t n xs)"
proof (cases "t \<in> set xs")
  case True
  assume "distinct xs" "n \<notin> set xs"
  then have "distinct (n # xs)"
    by simp
  moreover have "mset (insert_after t n xs) = mset (n # xs)"
    using True by (simp add: mset_insert_after)
  ultimately show ?thesis
    by (metis mset_eq_imp_distinct_iff)
qed (simp add: insert_after_absent)

text \<open>The first occurrence of \<open>x\<close> becomes \<open>y\<close>.\<close>

fun replace1 :: "'a \<Rightarrow> 'a \<Rightarrow> 'a list \<Rightarrow> 'a list" where
  "replace1 x y [] = []"
| "replace1 x y (z # zs) = (if z = x then y # zs else z # replace1 x y zs)"

lemma replace1_absent: "x \<notin> set zs \<Longrightarrow> replace1 x y zs = zs"
  by (induction zs) auto

lemma replace1_append:
  "replace1 x y (xs @ ys) = (if x \<in> set xs then replace1 x y xs @ ys else xs @ replace1 x y ys)"
  by (induction xs) auto

lemma mset_replace1: "x \<in> set zs \<Longrightarrow> mset (replace1 x y zs) = add_mset y (mset zs - {#x#})"
  by (induction zs) (auto simp: diff_add_mset_swap)

lemma length_replace1 [simp]: "length (replace1 x y zs) = length zs"
  by (induction zs) auto

definition swap_ids :: "'a \<Rightarrow> 'a \<Rightarrow> 'a \<Rightarrow> 'a" where
  "swap_ids a b x = (if x = a then b else if x = b then a else x)"

lemma replace1_map: "distinct zs \<Longrightarrow> replace1 x y zs = map (\<lambda>z. if z = x then y else z) zs"
proof (induction zs)
  case (Cons z zs)
  then show ?case
    by (auto simp: replace1_absent intro!: map_idI [symmetric])
qed simp

section \<open>The tree operations on the list of leaves\<close>

lemma node_pane_ids_not_Nil [simp]: "node_pane_ids n \<noteq> []"
  by (induction n) simp_all

lemma node_count_length: "node_count n = length (node_pane_ids n)"
  by (induction n) simp_all

lemma node_split_ids:
  "fst (node_split t x d n) = (t \<in> set (node_pane_ids n))"
  "node_pane_ids (snd (node_split t x d n)) = insert_after t x (node_pane_ids n)"
  by (induction n) (auto simp: insert_after_append insert_after_absent split: prod.splits bool.splits)

lemma replace_leaf_ids:
  "fst (replace_leaf x y n) = (x \<in> set (node_pane_ids n))"
  "node_pane_ids (snd (replace_leaf x y n)) = replace1 x y (node_pane_ids n)"
  by (induction n) (auto simp: replace1_append replace1_absent split: prod.splits bool.splits)

text \<open>What each result of \<open>node_remove\<close> means, for a tree with no leaf twice.\<close>

lemma node_remove_ids:
  assumes "distinct (node_pane_ids n)"
  shows "case node_remove t n of
      (Removed, n') \<Rightarrow> n = Leaf t
    | (Replaced r, n') \<Rightarrow> t \<in> set (node_pane_ids n) \<and> node_pane_ids r = remove1 t (node_pane_ids n)
    | (NotFound, n') \<Rightarrow> n \<noteq> Leaf t \<and> node_pane_ids n' = remove1 t (node_pane_ids n)"
  using assms
proof (induction n)
  case (Leaf i)
  then show ?case by simp
next
  case (Split d r a b)
  have a: "case node_remove t a of
      (Removed, n') \<Rightarrow> a = Leaf t
    | (Replaced r, n') \<Rightarrow> t \<in> set (node_pane_ids a) \<and> node_pane_ids r = remove1 t (node_pane_ids a)
    | (NotFound, n') \<Rightarrow> a \<noteq> Leaf t \<and> node_pane_ids n' = remove1 t (node_pane_ids a)"
    using Split.IH(1) Split.prems by simp
  have b: "case node_remove t b of
      (Removed, n') \<Rightarrow> b = Leaf t
    | (Replaced r, n') \<Rightarrow> t \<in> set (node_pane_ids b) \<and> node_pane_ids r = remove1 t (node_pane_ids b)
    | (NotFound, n') \<Rightarrow> b \<noteq> Leaf t \<and> node_pane_ids n' = remove1 t (node_pane_ids b)"
    using Split.IH(2) Split.prems by simp
  show ?case
    using a b Split.prems
    by (auto simp: remove1_append remove1_idem disjoint_iff split: prod.splits remove_result.splits)
qed

text \<open>A swap never changes which leaves there are.\<close>

definition exchange :: "'a \<Rightarrow> 'a \<Rightarrow> 'a multiset \<Rightarrow> 'a multiset" where
  "exchange x y M = (if 0 < count M x then add_mset y (M - {#x#}) else M)"

lemma exchange_back: "a \<in># M \<Longrightarrow> exchange s a (exchange a s M) = M"
  by (auto simp: exchange_def multiset_eq_iff)

lemma exchange_round:
  "a \<in># M \<Longrightarrow> 0 < count (exchange a s M) b \<Longrightarrow> exchange s b (exchange b a (exchange a s M)) = M"
  by (auto simp: exchange_def multiset_eq_iff split: if_splits)

lemma node_swap_leaves_mset: "mset (node_pane_ids (snd (node_swap_leaves a b n))) = mset (node_pane_ids n)"
proof -
  have repl: "mset (node_pane_ids (snd (replace_leaf x y m))) = exchange x y (mset (node_pane_ids m))" for x y m
    by (simp add: replace_leaf_ids mset_replace1 replace1_absent exchange_def)
  have found: "fst (replace_leaf x y m) = (0 < count (mset (node_pane_ids m)) x)" for x y m
    by (simp add: replace_leaf_ids)
  have none: "exchange x y M = M" if "\<not> 0 < count M x" for x y and M :: "'b multiset"
    using that by (simp add: exchange_def)
  show ?thesis
    by (simp add: node_swap_leaves_def Let_def case_prod_beta found repl exchange_back exchange_round none)
qed

text \<open>In a tree with no leaf twice and without the sentinel, a swap exchanges the two leaves.\<close>

lemma replace_leaf_distinct:
  assumes "distinct (node_pane_ids n)"
  shows "node_pane_ids (snd (replace_leaf x y n)) = map (\<lambda>z. if z = x then y else z) (node_pane_ids n)"
  using assms by (simp add: replace_leaf_ids replace1_map)

lemma node_swap_leaves_ids:
  assumes "distinct (node_pane_ids n)" and "- 1 \<notin> set (node_pane_ids n)"
    and "a \<in> set (node_pane_ids n)" and "b \<in> set (node_pane_ids n)" and "a \<noteq> b"
  shows "fst (node_swap_leaves a b n) \<and>
    node_pane_ids (snd (node_swap_leaves a b n)) = map (swap_ids a b) (node_pane_ids n)"
proof -
  define n1 where "n1 = snd (replace_leaf a (- 1) n)"
  define n2 where "n2 = snd (replace_leaf b a n1)"
  have 1: "node_pane_ids n1 = map (\<lambda>z. if z = a then - 1 else z) (node_pane_ids n)"
    unfolding n1_def using assms(1) by (rule replace_leaf_distinct)
  have d1: "distinct (node_pane_ids n1)" "b \<in> set (node_pane_ids n1)"
    using assms by (auto simp: 1 distinct_map inj_on_def)
  have 2: "node_pane_ids n2 = map (\<lambda>z. if z = b then a else z) (node_pane_ids n1)"
    unfolding n2_def using d1(1) by (rule replace_leaf_distinct)
  have d2: "distinct (node_pane_ids n2)"
    using assms by (auto simp: 1 2 distinct_map inj_on_def)
  have 3: "node_pane_ids (snd (replace_leaf (- 1) b n2)) = map (\<lambda>z. if z = - 1 then b else z) (node_pane_ids n2)"
    using d2 by (rule replace_leaf_distinct)
  have "node_swap_leaves a b n = (True, snd (replace_leaf (- 1) b n2))"
    using assms(3) d1(2)
    by (simp add: node_swap_leaves_def Let_def case_prod_beta replace_leaf_ids(1) n1_def n2_def)
  then show ?thesis
    using assms by (auto simp: 1 2 3 swap_ids_def)
qed

lemma node_adjust_ratio_ids [simp]: "node_pane_ids (snd (node_adjust_ratio t ax d n)) = node_pane_ids n"
  by (induction n) (simp_all add: Let_def case_prod_beta)

section \<open>Positions\<close>

lemma first_share_le: "first_share k r \<le> k"
  by (simp add: first_share_def)

lemma first_share_bounds: "2 \<le> k \<Longrightarrow> 1 \<le> first_share k r \<and> first_share k r < k"
  by (auto simp: first_share_def min_def max_def)

definition node_positions :: "layout_node \<Rightarrow> nat \<Rightarrow> nat \<Rightarrow> nat \<Rightarrow> nat \<Rightarrow> positions" where
  "node_positions n c r w h = compute_positions_inner n c r w h []"

lemma compute_positions_append: "compute_positions_inner n c r w h out = out @ node_positions n c r w h"
  unfolding node_positions_def
proof (induction n arbitrary: c r w h out)
  case (Split d q a b)
  show ?case
    by (cases d) (simp_all add: Let_def, (metis Split.IH append_assoc)+)
qed simp

lemma node_positions_simps [simp]:
  "node_positions (Leaf i) c r w h = [(i, \<lparr>pp_col = c, pp_row = r, pp_cols = w, pp_rows = h\<rparr>)]"
  "node_positions (Split Horizontal q a b) c r w h =
     node_positions a c r w (first_share h q) @ node_positions b c (r + first_share h q) w (h - first_share h q)"
  "node_positions (Split Vertical q a b) c r w h =
     node_positions a c r (first_share w q) h @ node_positions b (c + first_share w q) r (w - first_share w q) h"
  by (simp_all add: node_positions_def Let_def)
     (rule compute_positions_append [unfolded node_positions_def])+

lemma node_positions_ids: "map fst (node_positions n c r w h) = node_pane_ids n"
proof (induction n arbitrary: c r w h)
  case (Split d q a b)
  then show ?case
    by (cases d) simp_all
qed simp

definition covers :: "nat \<Rightarrow> nat \<Rightarrow> pane_id \<times> pane_position \<Rightarrow> bool" where
  "covers x y = (\<lambda>(i, p). pp_col p \<le> x \<and> x < pp_col p + pp_cols p \<and> pp_row p \<le> y \<and> y < pp_row p + pp_rows p)"

lemma node_positions_tile:
  "length (filter (covers x y) (node_positions n c r w h)) =
     (if c \<le> x \<and> x < c + w \<and> r \<le> y \<and> y < r + h then 1 else 0)"
proof (induction n arbitrary: c r w h)
  case (Leaf i)
  then show ?case by (simp add: covers_def)
next
  case (Split d q a b)
  show ?case
    using first_share_le [of h q] first_share_le [of w q] by (cases d) (auto simp: Split.IH)
qed

section \<open>Split ratios\<close>

text \<open>Every ratio of the tree is a number between the bounds of the clamp.\<close>

definition ratio_ok :: "f32 \<Rightarrow> bool" where
  "ratio_ok r \<longleftrightarrow> r \<noteq> FNaN \<and> \<not> f32_less r RATIO_MIN \<and> \<not> f32_less RATIO_MAX r"

fun ratios_ok :: "layout_node \<Rightarrow> bool" where
  "ratios_ok (Leaf _) = True"
| "ratios_ok (Split _ r a b) = (ratio_ok r \<and> ratios_ok a \<and> ratios_ok b)"

lemma ratio_bounds_eval: "RATIO_MIN = FVal (13421773 / 134217728)" "RATIO_MAX = FVal (15099494 / 16777216)"
  unfolding RATIO_MIN_def RATIO_MAX_def by code_simp+

lemma ratio_ok_half: "ratio_ok (FVal (1 / 2))"
  by (simp add: ratio_ok_def ratio_bounds_eval)

lemma ratio_ok_clamp: "x \<noteq> FNaN \<Longrightarrow> ratio_ok (f32_clamp RATIO_MIN RATIO_MAX x)"
  using f32_clamp_between [of x RATIO_MAX RATIO_MIN] by (simp add: ratio_ok_def ratio_bounds_eval)

lemma ratio_ok_finite: "ratio_ok r \<longleftrightarrow> (\<exists>x. r = FVal x \<and> 13421773 / 134217728 \<le> x \<and> x \<le> 15099494 / 16777216)"
  by (cases r) (auto simp: ratio_ok_def ratio_bounds_eval)

lemma node_split_ratios: "ratios_ok n \<Longrightarrow> ratios_ok (snd (node_split t x d n))"
  by (induction n) (auto simp: ratio_ok_half split: prod.splits bool.splits)

lemma replace_leaf_ratios: "ratios_ok (snd (replace_leaf x y n)) = ratios_ok n"
  by (induction n) (auto split: prod.splits bool.splits)

lemma node_remove_ratios:
  "ratios_ok n \<Longrightarrow> case node_remove t n of (res, n') \<Rightarrow> ratios_ok n' \<and> (\<forall>r. res = Replaced r \<longrightarrow> ratios_ok r)"
  by (induction n) (auto split: prod.splits remove_result.splits)

lemma node_adjust_ratios:
  assumes "ratios_ok n" and "delta = FVal x"
  shows "ratios_ok (snd (node_adjust_ratio t ax delta n))"
  using assms(1)
proof (induction n)
  case (Split d r a b)
  then obtain y where "r = FVal y"
    by (auto simp: ratio_ok_finite)
  then have "f32_add r delta \<noteq> FNaN" "f32_sub r delta \<noteq> FNaN"
    by (simp_all add: assms(2) f32_sub_def)
  then show ?case
    using Split by (auto simp: Let_def case_prod_beta intro!: ratio_ok_clamp)
qed simp

section \<open>The engine\<close>

lemma layout_ids_simps [simp]:
  "layout_pane_ids (e\<lparr>le_root := Some n\<rparr>) = node_pane_ids n"
  "layout_pane_ids (e\<lparr>le_root := None\<rparr>) = []"
  "layout_pane_ids layout_new = []"
  by (simp_all add: layout_pane_ids_def layout_new_def)

lemma layout_ids_Nil: "layout_pane_ids e = [] \<longleftrightarrow> le_root e = None"
  by (simp add: layout_pane_ids_def split: option.split)

lemma layout_count_length: "layout_count e = length (layout_pane_ids e)"
  by (simp add: layout_count_def layout_pane_ids_def node_count_length split: option.split)

lemma layout_split_ids:
  "fst (layout_split t x d e) = (t \<in> set (layout_pane_ids e))"
  "layout_pane_ids (snd (layout_split t x d e)) = insert_after t x (layout_pane_ids e)"
  by (simp_all add: layout_split_def layout_pane_ids_def case_prod_beta node_split_ids split: option.split)

lemma insert_after_last: "distinct xs \<Longrightarrow> xs \<noteq> [] \<Longrightarrow> insert_after (last xs) x xs = xs @ [x]"
proof (induction xs)
  case (Cons y ys)
  then show ?case
    by (auto simp: insert_after_absent)
qed simp

lemma add_pane_ids: "distinct (layout_pane_ids e) \<Longrightarrow> layout_pane_ids (add_pane i e) = layout_pane_ids e @ [i]"
proof (cases "le_root e")
  case None
  then show ?thesis by (simp add: add_pane_def layout_pane_ids_def)
next
  case (Some n)
  assume "distinct (layout_pane_ids e)"
  with Some show ?thesis
    by (simp add: add_pane_def Let_def layout_ids_Nil layout_split_ids insert_after_last)
qed

lemma remove_pane_ids:
  assumes "distinct (layout_pane_ids e)"
  shows "layout_pane_ids (snd (remove_pane i e)) = remove1 i (layout_pane_ids e)"
    and "fst (remove_pane i e) = (layout_pane_ids e \<noteq> [])"
proof -
  show "layout_pane_ids (snd (remove_pane i e)) = remove1 i (layout_pane_ids e)"
  proof (cases "le_root e")
    case None
    then show ?thesis by (simp add: remove_pane_def layout_pane_ids_def)
  next
    case (Some n)
    then show ?thesis
      using assms node_remove_ids [of n i]
      by (auto simp: remove_pane_def layout_pane_ids_def Let_def split: prod.splits remove_result.splits)
  qed
  show "fst (remove_pane i e) = (layout_pane_ids e \<noteq> [])"
  proof (cases "le_root e")
    case None
    then show ?thesis by (simp add: remove_pane_def layout_pane_ids_def)
  next
    case (Some n)
    then show ?thesis
      using assms node_remove_ids [of n i]
      by (auto simp: remove_pane_def layout_pane_ids_def Let_def split: prod.splits remove_result.splits)
  qed
qed

lemma swap_leaves_mset: "mset (layout_pane_ids (snd (layout_swap_leaves a b e))) = mset (layout_pane_ids e)"
  by (simp add: layout_swap_leaves_def layout_pane_ids_def case_prod_beta node_swap_leaves_mset split: option.split)

lemma swap_leaves_ids:
  assumes "distinct (layout_pane_ids e)" and "- 1 \<notin> set (layout_pane_ids e)"
    and "a \<in> set (layout_pane_ids e)" and "b \<in> set (layout_pane_ids e)" and "a \<noteq> b"
  shows "fst (layout_swap_leaves a b e) \<and>
    layout_pane_ids (snd (layout_swap_leaves a b e)) = map (swap_ids a b) (layout_pane_ids e)"
  using assms node_swap_leaves_ids [of _ a b]
  by (auto simp: layout_swap_leaves_def layout_pane_ids_def case_prod_beta split: option.splits)

lemma adjust_ratio_ids [simp]: "layout_pane_ids (snd (layout_adjust_ratio t ax d e)) = layout_pane_ids e"
  by (simp add: layout_adjust_ratio_def layout_pane_ids_def case_prod_beta split: option.split)

lemma layout_positions_ids: "map fst (layout_positions e w h) = layout_pane_ids e"
  by (simp add: layout_positions_def layout_pane_ids_def node_positions_ids node_positions_def [symmetric]
      split: option.split)

lemma layout_positions_tile:
  "length (filter (covers x y) (layout_positions e w h)) = (if layout_pane_ids e \<noteq> [] \<and> x < w \<and> y < h then 1 else 0)"
proof (cases "le_root e")
  case None
  then show ?thesis by (simp add: layout_positions_def layout_pane_ids_def)
next
  case (Some n)
  then show ?thesis
    using node_positions_tile [of x y n 0 0 w h]
    by (simp add: layout_positions_def layout_pane_ids_def node_positions_def)
qed

section \<open>What a tab needs of its layout\<close>

text \<open>
  The operations a tab calls and what they do to the list of panes and to the rectangle; the tab's
  lemmas about its layout rest on these laws only.
\<close>

locale arrangement =
  fixes ids :: "'l \<Rightarrow> pane_id list"
    and split_leaf :: "pane_id \<Rightarrow> pane_id \<Rightarrow> split_direction \<Rightarrow> 'l \<Rightarrow> bool \<times> 'l"
    and remove_leaf :: "pane_id \<Rightarrow> 'l \<Rightarrow> bool \<times> 'l"
    and swap_leaf :: "pane_id \<Rightarrow> pane_id \<Rightarrow> 'l \<Rightarrow> bool \<times> 'l"
  assumes split_ids: "ids (snd (split_leaf t x d l)) = insert_after t x (ids l)"
    and remove_ids: "distinct (ids l) \<Longrightarrow> ids (snd (remove_leaf t l)) = remove1 t (ids l)"
    and swap_mset: "mset (ids (snd (swap_leaf a b l))) = mset (ids l)"
begin

lemma split_fresh:
  assumes "distinct (ids l)" and "t \<in> set (ids l)" and "x \<notin> set (ids l)"
  shows "distinct (ids (snd (split_leaf t x d l))) \<and> set (ids (snd (split_leaf t x d l))) = insert x (set (ids l))"
  using assms by (simp add: split_ids distinct_insert_after set_insert_after)

lemma remove_leaf_set:
  assumes "distinct (ids l)"
  shows "distinct (ids (snd (remove_leaf t l))) \<and> set (ids (snd (remove_leaf t l))) = set (ids l) - {t}"
  using assms by (simp add: remove_ids)

lemma remove_split:
  assumes "distinct (ids l)" and "x \<notin> set (ids l)"
  shows "ids (snd (remove_leaf x (snd (split_leaf t x d l)))) = ids l"
proof -
  have "remove1 x (insert_after t x xs) = xs" if "x \<notin> set xs" for xs
    using that by (induction xs) (auto simp: remove1_idem)
  then show ?thesis
    using assms by (simp add: remove_ids split_ids distinct_insert_after)
qed

lemma swap_leaf_set:
  "distinct (ids (snd (swap_leaf a b l))) = distinct (ids l) \<and> set (ids (snd (swap_leaf a b l))) = set (ids l)"
  using swap_mset [of a b l] by (metis mset_eq_imp_distinct_iff mset_eq_setD)

lemma swap_leaf_distinct: "distinct (ids l) \<Longrightarrow> distinct (ids (snd (swap_leaf a b l)))"
  using swap_leaf_set by blast

end

text \<open>An arrangement that also gives each pane a rectangle.\<close>

locale tiling = arrangement +
  fixes place :: "'a \<Rightarrow> nat \<Rightarrow> nat \<Rightarrow> positions"
  assumes place_ids: "map fst (place l w h) = ids l"
    and place_tiles: "length (filter (covers x y) (place l w h)) = (if ids l \<noteq> [] \<and> x < w \<and> y < h then 1 else 0)"
begin

lemma place_all: "fst ` set (place l w h) = set (ids l)"
  using place_ids [of l w h] by (metis list.set_map)

lemma find_pos_placed: "i \<in> set (ids l) \<longleftrightarrow> (\<exists>p. find_pos i (place l w h) = Some p)"
proof -
  have "(\<exists>p. find_pos i ps = Some p) \<longleftrightarrow> i \<in> fst ` set ps" for ps
    by (induction ps) (auto simp: find_pos_def)
  then show ?thesis
    by (simp add: place_all)
qed

lemma one_pane_per_cell:
  assumes "ids l \<noteq> []" and "x < w" and "y < h"
  shows "\<exists>!p. p \<in> set (place l w h) \<and> covers x y p"
proof -
  have "length (filter (covers x y) (place l w h)) = 1"
    using assms by (simp add: place_tiles)
  then obtain p where p: "filter (covers x y) (place l w h) = [p]"
    by (auto simp: length_Suc_conv)
  have "q \<in> set (place l w h) \<and> covers x y q \<longleftrightarrow> q = p" for q
    using arg_cong [OF p, of set] by auto
  then show ?thesis
    by auto
qed

lemma nothing_outside:
  assumes "w \<le> x \<or> h \<le> y" and "p \<in> set (place l w h)"
  shows "\<not> covers x y p"
proof -
  have "filter (covers x y) (place l w h) = []"
    using assms(1) place_tiles [of x y l w h] by auto
  then show ?thesis
    using assms(2) by (simp add: filter_empty_conv)
qed

end

interpretation engine: tiling layout_pane_ids layout_split remove_pane layout_swap_leaves layout_positions
  by unfold_locales
    (simp_all add: layout_split_ids remove_pane_ids swap_leaves_mset layout_positions_ids layout_positions_tile
      del: One_nat_def)

end
