(* ===== verification/Mux_Pane.thy ===== *)
theory Mux_Pane
  imports Mux_Layout
begin

text \<open>
  \<open>crates/emux-mux/src/pane.rs\<close>: what the multiplexer keeps of a pane. The readers of the code are the
  fields of the record; paths and strings are bytes.
\<close>

record pane_size =
  ps_rows :: nat
  ps_cols :: nat

definition pane_size_new :: "nat \<Rightarrow> nat \<Rightarrow> pane_size" where
  "pane_size_new cols rows = \<lparr>ps_rows = rows, ps_cols = cols\<rparr>"

record pane_constraints =
  pc_fixed_rows :: "nat option"
  pc_fixed_cols :: "nat option"

record pane =
  pn_id :: pane_id
  pn_title :: rstr
  pn_previous_title :: "rstr option"
  pn_size :: pane_size
  pn_cleared :: bool
  pn_scroll_offset :: nat
  pn_constraints :: pane_constraints
  pn_scrollback :: "rstr list"
  pn_has_notification :: bool
  pn_notification_text :: "rstr option"
  pn_working_directory :: "rstr option"

definition pane_new :: "pane_id \<Rightarrow> nat \<Rightarrow> nat \<Rightarrow> pane" where
  "pane_new i cols rows =
     \<lparr>pn_id = i, pn_title = [], pn_previous_title = None, pn_size = pane_size_new cols rows,
      pn_cleared = False, pn_scroll_offset = 0,
      pn_constraints = \<lparr>pc_fixed_rows = None, pc_fixed_cols = None\<rparr>, pn_scrollback = [],
      pn_has_notification = False, pn_notification_text = None, pn_working_directory = None\<rparr>"

definition set_title :: "rstr \<Rightarrow> pane \<Rightarrow> pane" where
  "set_title t p = p\<lparr>pn_previous_title := Some (pn_title p), pn_title := t\<rparr>"

definition pane_undo_rename :: "pane \<Rightarrow> bool \<times> pane" where
  "pane_undo_rename p =
     (case pn_previous_title p of
        Some prev \<Rightarrow> (True, p\<lparr>pn_previous_title := None, pn_title := prev\<rparr>)
      | None \<Rightarrow> (False, p))"

definition set_cleared :: "bool \<Rightarrow> pane \<Rightarrow> pane" where
  "set_cleared b p = p\<lparr>pn_cleared := b\<rparr>"

definition pane_scroll_up :: "nat \<Rightarrow> pane \<Rightarrow> pane" where
  "pane_scroll_up lines p = p\<lparr>pn_scroll_offset := min (pn_scroll_offset p + lines) USIZE_MAX\<rparr>"

definition pane_scroll_down :: "nat \<Rightarrow> pane \<Rightarrow> pane" where
  "pane_scroll_down lines p = p\<lparr>pn_scroll_offset := pn_scroll_offset p - lines\<rparr>"

definition pane_scroll_to_top :: "pane \<Rightarrow> pane" where
  "pane_scroll_to_top p = p\<lparr>pn_scroll_offset := USIZE_MAX\<rparr>"

definition pane_scroll_to_bottom :: "pane \<Rightarrow> pane" where
  "pane_scroll_to_bottom p = p\<lparr>pn_scroll_offset := 0\<rparr>"

definition pane_resize :: "nat \<Rightarrow> nat \<Rightarrow> pane \<Rightarrow> pane" where
  "pane_resize cols rows p = p\<lparr>pn_size := pane_size_new cols rows\<rparr>"

definition set_constraints :: "pane_constraints \<Rightarrow> pane \<Rightarrow> pane" where
  "set_constraints c p = p\<lparr>pn_constraints := c\<rparr>"

definition has_fixed_cols :: "pane \<Rightarrow> bool" where
  "has_fixed_cols p \<longleftrightarrow> pc_fixed_cols (pn_constraints p) \<noteq> None"

definition has_fixed_rows :: "pane \<Rightarrow> bool" where
  "has_fixed_rows p \<longleftrightarrow> pc_fixed_rows (pn_constraints p) \<noteq> None"

definition pane_push_scrollback :: "rstr \<Rightarrow> pane \<Rightarrow> pane" where
  "pane_push_scrollback line p = p\<lparr>pn_scrollback := pn_scrollback p @ [line]\<rparr>"

definition set_working_directory :: "rstr \<Rightarrow> pane \<Rightarrow> pane" where
  "set_working_directory path p = p\<lparr>pn_working_directory := Some path\<rparr>"

definition set_notification :: "rstr \<Rightarrow> pane \<Rightarrow> pane" where
  "set_notification t p = p\<lparr>pn_has_notification := True, pn_notification_text := Some t\<rparr>"

definition clear_notification :: "pane \<Rightarrow> pane" where
  "clear_notification p = p\<lparr>pn_has_notification := False, pn_notification_text := None\<rparr>"

text \<open>No operation changes the identity of a pane.\<close>

lemma pane_ids_fixed [simp]:
  "pn_id (pane_new i c r) = i" "pn_id (set_title t p) = pn_id p" "pn_id (snd (pane_undo_rename p)) = pn_id p"
  "pn_id (set_cleared b p) = pn_id p" "pn_id (pane_scroll_up n p) = pn_id p"
  "pn_id (pane_scroll_down n p) = pn_id p" "pn_id (pane_scroll_to_top p) = pn_id p"
  "pn_id (pane_scroll_to_bottom p) = pn_id p" "pn_id (pane_resize c r p) = pn_id p"
  "pn_id (set_constraints k p) = pn_id p" "pn_id (pane_push_scrollback l p) = pn_id p"
  "pn_id (set_working_directory w p) = pn_id p" "pn_id (set_notification t p) = pn_id p"
  "pn_id (clear_notification p) = pn_id p"
  by (simp_all add: pane_new_def set_title_def pane_undo_rename_def set_cleared_def pane_scroll_up_def
      pane_scroll_down_def pane_scroll_to_top_def pane_scroll_to_bottom_def pane_resize_def
      set_constraints_def pane_push_scrollback_def set_working_directory_def set_notification_def
      clear_notification_def split: option.split)

end
