(* ===== verification/Mux_Tab.thy ===== *)
theory Mux_Tab
  imports Mux_Pane "HOL-Library.AList"
begin

text \<open>
  \<open>crates/emux-mux/src/tab.rs\<close>: a tab with its tiled panes (a layout and a map of panes), floating
  panes, focus, full screen and swap layouts. The \<open>HashMap\<close> of panes is an association list with
  distinct keys; the order in which the code iterates over it is unspecified, and the only list built
  from that order is that of \<open>sync_target_pane_ids\<close>. The pane counter is a \<open>u32\<close> that wraps.
\<close>

section \<open>Types\<close>

datatype focus_direction = FocusUp | FocusDown | FocusLeft | FocusRight

datatype resize_direction = ResizeUp | ResizeDown | ResizeLeft | ResizeRight

abbreviation MIN_PANE_COLS :: nat where "MIN_PANE_COLS \<equiv> 2"
abbreviation MIN_PANE_ROWS :: nat where "MIN_PANE_ROWS \<equiv> 2"
abbreviation MIN_FLOATING_COLS :: nat where "MIN_FLOATING_COLS \<equiv> 5"
abbreviation MIN_FLOATING_ROWS :: nat where "MIN_FLOATING_ROWS \<equiv> 2"

record floating_pane =
  fp_pane :: pane
  fp_x :: nat
  fp_y :: nat
  fp_width :: nat
  fp_height :: nat
  fp_visible :: bool

record swap_layout =
  sl_name :: rstr
  sl_min_panes :: "nat option"
  sl_max_panes :: "nat option"
  sl_layout :: layout_node

record tab =
  t_id :: u32
  t_name :: rstr
  t_previous_name :: "rstr option"
  t_layout :: layout_engine
  t_panes :: "(pane_id \<times> pane) list"
  t_active_pane :: "pane_id option"
  t_next_pane_id :: pane_id
  t_size :: pane_size
  t_fullscreen_pane :: "pane_id option"
  t_floating_panes :: "floating_pane list"
  t_show_floating :: bool
  t_swap_layouts :: "swap_layout list"
  t_current_swap_index :: "nat option"
  t_pixel_width :: "nat option"
  t_pixel_height :: "nat option"
  t_synchronized :: bool

abbreviation fp_id :: "floating_pane \<Rightarrow> pane_id" where "fp_id f \<equiv> pn_id (fp_pane f)"

definition tab_new :: "u32 \<Rightarrow> rstr \<Rightarrow> nat \<Rightarrow> nat \<Rightarrow> tab" where
  "tab_new i name cols rows =
     \<lparr>t_id = i, t_name = name, t_previous_name = None, t_layout = add_pane 0 layout_new,
      t_panes = [(0, pane_new 0 cols rows)], t_active_pane = Some 0, t_next_pane_id = 1,
      t_size = pane_size_new cols rows, t_fullscreen_pane = None, t_floating_panes = [],
      t_show_floating = True, t_swap_layouts = [], t_current_swap_index = None,
      t_pixel_width = None, t_pixel_height = None, t_synchronized = False\<rparr>"

definition tab_rename :: "rstr \<Rightarrow> tab \<Rightarrow> tab" where
  "tab_rename name t = t\<lparr>t_previous_name := Some (t_name t), t_name := name\<rparr>"

definition tab_undo_rename :: "tab \<Rightarrow> bool \<times> tab" where
  "tab_undo_rename t =
     (case t_previous_name t of
        Some prev \<Rightarrow> (True, t\<lparr>t_previous_name := None, t_name := prev\<rparr>)
      | None \<Rightarrow> (False, t))"

definition tab_pane_count :: "tab \<Rightarrow> nat" where
  "tab_pane_count t = length (t_panes t)"

definition tab_pane_ids :: "tab \<Rightarrow> pane_id list" where
  "tab_pane_ids t = layout_pane_ids (t_layout t)"

definition tab_pane :: "pane_id \<Rightarrow> tab \<Rightarrow> pane option" where
  "tab_pane i t = map_of (t_panes t) i"

definition active_pane_of :: "tab \<Rightarrow> pane option" where
  "active_pane_of t = Option.bind (t_active_pane t) (\<lambda>i. tab_pane i t)"

text \<open>\<open>if let Some(p) = self.panes.get_mut(&id)\<close>.\<close>

definition update_pane :: "pane_id \<Rightarrow> (pane \<Rightarrow> pane) \<Rightarrow> tab \<Rightarrow> tab" where
  "update_pane i f t = t\<lparr>t_panes := AList.map_entry i f (t_panes t)\<rparr>"

definition tiled_positions :: "tab \<Rightarrow> positions" where
  "tiled_positions t = layout_positions (t_layout t) (ps_cols (t_size t)) (ps_rows (t_size t))"

section \<open>Floating panes: lookup and order\<close>

definition find_floating_idx :: "pane_id \<Rightarrow> tab \<Rightarrow> nat option" where
  "find_floating_idx i t = position (\<lambda>f. fp_id f = i) (t_floating_panes t)"

definition find_floating :: "pane_id \<Rightarrow> tab \<Rightarrow> floating_pane option" where
  "find_floating i t = find (\<lambda>f. fp_id f = i) (t_floating_panes t)"

definition bring_floating_to_front :: "pane_id \<Rightarrow> tab \<Rightarrow> bool \<times> tab" where
  "bring_floating_to_front i t =
     (case find_floating_idx i t of
        Some k \<Rightarrow> (True, t\<lparr>t_floating_panes := remove_at k (t_floating_panes t) @ [t_floating_panes t ! k]\<rparr>)
      | None \<Rightarrow> (False, t))"

definition send_floating_to_back :: "pane_id \<Rightarrow> tab \<Rightarrow> bool \<times> tab" where
  "send_floating_to_back i t =
     (case find_floating_idx i t of
        Some k \<Rightarrow> (True, t\<lparr>t_floating_panes := t_floating_panes t ! k # remove_at k (t_floating_panes t)\<rparr>)
      | None \<Rightarrow> (False, t))"

definition swap_at :: "nat \<Rightarrow> nat \<Rightarrow> 'a list \<Rightarrow> 'a list" where
  "swap_at i j xs = xs[i := xs ! j, j := xs ! i]"

definition swap_floating_z_order :: "pane_id \<Rightarrow> pane_id \<Rightarrow> tab \<Rightarrow> bool \<times> tab" where
  "swap_floating_z_order a b t =
     (case (find_floating_idx a t, find_floating_idx b t) of
        (Some ia, Some ib) \<Rightarrow> (True, t\<lparr>t_floating_panes := swap_at ia ib (t_floating_panes t)\<rparr>)
      | _ \<Rightarrow> (False, t))"

section \<open>Sizes\<close>

definition sync_pane_sizes :: "tab \<Rightarrow> tab" where
  "sync_pane_sizes t =
     fold (\<lambda>(i, pos) t. update_pane i (pane_resize (pp_cols pos) (pp_rows pos)) t) (tiled_positions t) t"

definition tab_resize :: "nat \<Rightarrow> nat \<Rightarrow> tab \<Rightarrow> tab" where
  "tab_resize cols rows t = sync_pane_sizes (t\<lparr>t_size := pane_size_new cols rows\<rparr>)"

definition resize_axis :: "resize_direction \<Rightarrow> split_direction" where
  "resize_axis d = (if d = ResizeUp \<or> d = ResizeDown then Horizontal else Vertical)"

definition resize_pane :: "pane_id \<Rightarrow> resize_direction \<Rightarrow> int \<Rightarrow> tab \<Rightarrow> bool \<times> tab" where
  "resize_pane i dir amount t =
     (case tab_pane i t of
        None \<Rightarrow> (False, t)
      | Some p \<Rightarrow>
          let axis = resize_axis dir in
          if (case axis of Horizontal \<Rightarrow> has_fixed_rows p | Vertical \<Rightarrow> has_fixed_cols p) then (False, t)
          else
            let extent = (case axis of Horizontal \<Rightarrow> ps_rows (t_size t) | Vertical \<Rightarrow> ps_cols (t_size t)) in
            case f32_of_nat extent of
              FVal x \<Rightarrow>
                if x \<le> 0 then (False, t)
                else
                  let delta = f32_div_val (f32_of_int amount) x;
                      (adjusted, layout) = layout_adjust_ratio i axis delta (t_layout t);
                      t = t\<lparr>t_layout := layout\<rparr>
                  in (adjusted, if adjusted then sync_pane_sizes t else t)
            | _ \<Rightarrow> (False, t))"

section \<open>Swap layouts\<close>

definition register_swap_layout ::
  "rstr \<Rightarrow> nat option \<Rightarrow> nat option \<Rightarrow> layout_node \<Rightarrow> tab \<Rightarrow> tab" where
  "register_swap_layout name mn mx layout t =
     (let new = \<lparr>sl_name = name, sl_min_panes = mn, sl_max_panes = mx, sl_layout = layout\<rparr> in
      case position (\<lambda>sl. sl_name sl = name) (t_swap_layouts t) of
        Some k \<Rightarrow> t\<lparr>t_swap_layouts := (t_swap_layouts t)[k := new]\<rparr>
      | None \<Rightarrow> t\<lparr>t_swap_layouts := t_swap_layouts t @ [new]\<rparr>)"

definition applies_to :: "nat \<Rightarrow> swap_layout \<Rightarrow> bool" where
  "applies_to n sl \<longleftrightarrow>
     (case sl_min_panes sl of None \<Rightarrow> True | Some m \<Rightarrow> m \<le> n) \<and>
     (case sl_max_panes sl of None \<Rightarrow> True | Some m \<Rightarrow> n \<le> m)"

definition applicable_swap_layout_indices :: "nat \<Rightarrow> tab \<Rightarrow> nat list" where
  "applicable_swap_layout_indices n t =
     map fst (filter (\<lambda>(i, sl). applies_to n sl) (enumerate 0 (t_swap_layouts t)))"

definition apply_swap_layout_at :: "nat \<Rightarrow> tab \<Rightarrow> tab" where
  "apply_swap_layout_at k t =
     (let template = sl_layout (t_swap_layouts t ! k) in
      sync_pane_sizes
        (t\<lparr>t_layout := apply_template template (layout_pane_ids (t_layout t)) (t_layout t),
          t_current_swap_index := Some k\<rparr>))"

definition auto_swap_layout :: "tab \<Rightarrow> tab" where
  "auto_swap_layout t =
     (case applicable_swap_layout_indices (tab_pane_count t) t of
        k # _ \<Rightarrow> if t_current_swap_index t \<noteq> Some k then apply_swap_layout_at k t else t
      | [] \<Rightarrow> t\<lparr>t_current_swap_index := None\<rparr>)"

definition swap_position :: "tab \<Rightarrow> nat list \<Rightarrow> nat option" where
  "swap_position t applicable =
     Option.bind (t_current_swap_index t) (\<lambda>k. position (\<lambda>i. i = k) applicable)"

definition next_swap_layout :: "tab \<Rightarrow> tab" where
  "next_swap_layout t =
     (if t_swap_layouts t = [] then t
      else let applicable = applicable_swap_layout_indices (tab_pane_count t) t in
        if applicable = [] then t
        else let next_pos = (case swap_position t applicable of
                 Some pos \<Rightarrow> (pos + 1) mod length applicable | None \<Rightarrow> 0)
          in apply_swap_layout_at (applicable ! next_pos) t)"

definition prev_swap_layout :: "tab \<Rightarrow> tab" where
  "prev_swap_layout t =
     (if t_swap_layouts t = [] then t
      else let applicable = applicable_swap_layout_indices (tab_pane_count t) t in
        if applicable = [] then t
        else let prev_pos = (case swap_position t applicable of
                 Some pos \<Rightarrow> if pos = 0 then length applicable - 1 else pos - 1
               | None \<Rightarrow> length applicable - 1)
          in apply_swap_layout_at (applicable ! prev_pos) t)"

definition current_swap_layout_name :: "tab \<Rightarrow> rstr option" where
  "current_swap_layout_name t =
     map_option sl_name (Option.bind (t_current_swap_index t) (get_opt (t_swap_layouts t)))"

section \<open>Splitting, closing\<close>

definition can_split :: "pane_id \<Rightarrow> split_direction \<Rightarrow> tab \<Rightarrow> bool" where
  "can_split i dir t =
     (if (case tab_pane i t of
            Some p \<Rightarrow> (case dir of Vertical \<Rightarrow> has_fixed_cols p | Horizontal \<Rightarrow> has_fixed_rows p)
          | None \<Rightarrow> False)
      then False
      else (case find_pos i (tiled_positions t) of
              Some pos \<Rightarrow>
                (case dir of Vertical \<Rightarrow> MIN_PANE_COLS * 2 \<le> pp_cols pos
                 | Horizontal \<Rightarrow> MIN_PANE_ROWS * 2 \<le> pp_rows pos)
            | None \<Rightarrow> False))"

definition split_size :: "split_direction \<Rightarrow> pane_position \<Rightarrow> nat \<times> nat" where
  "split_size dir pos =
     (case dir of
        Horizontal \<Rightarrow> (pp_cols pos, pp_rows pos - pp_rows pos div 2)
      | Vertical \<Rightarrow> (pp_cols pos - pp_cols pos div 2, pp_rows pos))"

definition split_pane :: "split_direction \<Rightarrow> tab \<Rightarrow> pane_id option \<times> tab" where
  "split_pane dir t =
     (let t = t\<lparr>t_fullscreen_pane := None\<rparr> in
      case t_active_pane t of
        None \<Rightarrow> (None, t)
      | Some active \<Rightarrow>
          if \<not> can_split active dir t then (None, t)
          else
            let new_id = t_next_pane_id t; t = t\<lparr>t_next_pane_id := t_next_pane_id t + 1\<rparr> in
            case find_pos active (tiled_positions t) of
              None \<Rightarrow> (None, t)
            | Some pos \<Rightarrow>
                let (cols, rows) = split_size dir pos;
                    t = t\<lparr>t_panes := AList.update new_id (pane_new new_id cols rows) (t_panes t),
                          t_layout := snd (layout_split active new_id dir (t_layout t))\<rparr>;
                    t = sync_pane_sizes t;
                    t = t\<lparr>t_active_pane := Some new_id\<rparr>
                in (Some new_id, auto_swap_layout t))"

definition first_opt :: "'a list \<Rightarrow> 'a option" where
  "first_opt xs = (case xs of [] \<Rightarrow> None | x # _ \<Rightarrow> Some x)"

definition last_opt :: "'a list \<Rightarrow> 'a option" where
  "last_opt xs = (if xs = [] then None else Some (last xs))"

definition close_pane :: "pane_id \<Rightarrow> tab \<Rightarrow> bool \<times> tab" where
  "close_pane i t =
     (if tab_pane_count t \<le> 1 then (False, t)
      else if tab_pane i t = None then (False, t)
      else
        let t = (if t_fullscreen_pane t = Some i then t\<lparr>t_fullscreen_pane := None\<rparr> else t);
            t = t\<lparr>t_layout := snd (remove_pane i (t_layout t)), t_panes := AList.delete i (t_panes t)\<rparr>;
            t = (if t_active_pane t = Some i
                 then t\<lparr>t_active_pane := first_opt (layout_pane_ids (t_layout t))\<rparr> else t)
        in (True, auto_swap_layout (sync_pane_sizes t)))"

definition larger :: "(pane_id \<times> pane_position) \<Rightarrow> (pane_id \<times> pane_position) \<Rightarrow> bool" where
  "larger p q \<longleftrightarrow> pp_cols (snd p) * pp_rows (snd p) \<le> pp_cols (snd q) * pp_rows (snd q)"

text \<open>\<open>max_by_key\<close>: the last of the largest elements.\<close>

fun max_by_area :: "positions \<Rightarrow> (pane_id \<times> pane_position) option" where
  "max_by_area [] = None"
| "max_by_area (p # ps) =
     (case max_by_area ps of None \<Rightarrow> Some p | Some q \<Rightarrow> Some (if larger p q then q else p))"

definition split_largest_pane :: "tab \<Rightarrow> pane_id option \<times> tab" where
  "split_largest_pane t =
     (let t = t\<lparr>t_fullscreen_pane := None\<rparr> in
      case max_by_area (tiled_positions t) of
        None \<Rightarrow> (None, t)
      | Some (target, pos) \<Rightarrow>
          let dir = (if pp_rows pos \<le> pp_cols pos then Vertical else Horizontal);
              old_active = t_active_pane t;
              (result, t) = split_pane dir (t\<lparr>t_active_pane := Some target\<rparr>)
          in (result, if result = None then t\<lparr>t_active_pane := old_active\<rparr> else t))"

section \<open>Focus\<close>

definition focus_pane :: "pane_id \<Rightarrow> tab \<Rightarrow> bool \<times> tab" where
  "focus_pane i t =
     (if tab_pane i t \<noteq> None then
        (True, (if t_fullscreen_pane t \<noteq> None \<and> t_fullscreen_pane t \<noteq> Some i
                then t\<lparr>t_fullscreen_pane := None\<rparr> else t)\<lparr>t_active_pane := Some i\<rparr>)
      else if find_floating i t \<noteq> None then
        (True, snd (bring_floating_to_front i (t\<lparr>t_active_pane := Some i\<rparr>)))
      else (False, t))"

definition focus_cycle_ids :: "tab \<Rightarrow> pane_id list" where
  "focus_cycle_ids t =
     layout_pane_ids (t_layout t) @ (if t_show_floating t then map fp_id (t_floating_panes t) else [])"

text \<open>The part \<open>focus_next\<close> and \<open>focus_prev\<close> share: move to the id at the index given.\<close>

definition focus_cycled :: "pane_id \<Rightarrow> tab \<Rightarrow> tab" where
  "focus_cycled i t =
     (let t = t\<lparr>t_active_pane := Some i\<rparr> in
      if find_floating i t \<noteq> None then snd (bring_floating_to_front i t) else t)"

definition focus_next :: "tab \<Rightarrow> bool \<times> tab" where
  "focus_next t =
     (let t = t\<lparr>t_fullscreen_pane := None\<rparr>; ids = focus_cycle_ids t in
      if ids = [] then (False, t)
      else (case Option.bind (t_active_pane t) (\<lambda>active. position (\<lambda>i. i = active) ids) of
              Some pos \<Rightarrow> (True, focus_cycled (ids ! ((pos + 1) mod length ids)) t)
            | None \<Rightarrow> (True, t\<lparr>t_active_pane := first_opt ids\<rparr>)))"

definition focus_prev :: "tab \<Rightarrow> bool \<times> tab" where
  "focus_prev t =
     (let t = t\<lparr>t_fullscreen_pane := None\<rparr>; ids = focus_cycle_ids t in
      if ids = [] then (False, t)
      else (case Option.bind (t_active_pane t) (\<lambda>active. position (\<lambda>i. i = active) ids) of
              Some pos \<Rightarrow> (True, focus_cycled (ids ! (if pos = 0 then length ids - 1 else pos - 1)) t)
            | None \<Rightarrow> (True, t\<lparr>t_active_pane := last_opt ids\<rparr>)))"

definition ranges_overlap :: "nat \<Rightarrow> nat \<Rightarrow> nat \<Rightarrow> nat \<Rightarrow> bool" where
  "ranges_overlap a_start a_end b_start b_end \<longleftrightarrow> a_start < b_end \<and> b_start < a_end"

definition cols_overlap :: "pane_position \<Rightarrow> pane_position \<Rightarrow> bool" where
  "cols_overlap p q = ranges_overlap (pp_col p) (pp_col p + pp_cols p) (pp_col q) (pp_col q + pp_cols q)"

definition rows_overlap :: "pane_position \<Rightarrow> pane_position \<Rightarrow> bool" where
  "rows_overlap p q = ranges_overlap (pp_row p) (pp_row p + pp_rows p) (pp_row q) (pp_row q + pp_rows q)"

fun is_candidate :: "focus_direction \<Rightarrow> pane_position \<Rightarrow> pane_position \<Rightarrow> bool" where
  "is_candidate FocusUp pos active = (pp_row pos + pp_rows pos \<le> pp_row active \<and> cols_overlap pos active)"
| "is_candidate FocusDown pos active = (pp_row active + pp_rows active \<le> pp_row pos \<and> cols_overlap pos active)"
| "is_candidate FocusLeft pos active = (pp_col pos + pp_cols pos \<le> pp_col active \<and> rows_overlap pos active)"
| "is_candidate FocusRight pos active = (pp_col active + pp_cols active \<le> pp_col pos \<and> rows_overlap pos active)"

definition abs_diff :: "nat \<Rightarrow> nat \<Rightarrow> nat" where
  "abs_diff a b = (if a \<le> b then b - a else a - b)"

definition center_distance :: "pane_position \<Rightarrow> pane_position \<Rightarrow> nat" where
  "center_distance p q =
     abs_diff (pp_col p * 2 + pp_cols p) (pp_col q * 2 + pp_cols q) +
     abs_diff (pp_row p * 2 + pp_rows p) (pp_row q * 2 + pp_rows q)"

definition nearest ::
  "focus_direction \<Rightarrow> pane_id \<Rightarrow> pane_position \<Rightarrow> (pane_id \<times> nat) option \<Rightarrow> pane_id \<times> pane_position \<Rightarrow>
   (pane_id \<times> nat) option" where
  "nearest dir active active_pos best =
     (\<lambda>(i, pos).
        if i = active then best
        else if is_candidate dir pos active_pos then
          let dist = center_distance active_pos pos in
          (case best of
             None \<Rightarrow> Some (i, dist)
           | Some (j, d) \<Rightarrow> if dist < d then Some (i, dist) else best)
        else best)"

definition find_neighbor_in_direction :: "focus_direction \<Rightarrow> tab \<Rightarrow> pane_id option" where
  "find_neighbor_in_direction dir t = do {
     active \<leftarrow> t_active_pane t;
     active_pos \<leftarrow> find_pos active (tiled_positions t);
     map_option fst (foldl (nearest dir active active_pos) None (tiled_positions t)) }"

definition focus_direction_op :: "focus_direction \<Rightarrow> tab \<Rightarrow> bool \<times> tab" where
  "focus_direction_op dir t =
     (case find_neighbor_in_direction dir t of
        Some target \<Rightarrow> (True, t\<lparr>t_fullscreen_pane := None, t_active_pane := Some target\<rparr>)
      | None \<Rightarrow> (False, t))"

section \<open>Full screen and what is shown\<close>

definition toggle_fullscreen :: "tab \<Rightarrow> bool \<times> tab" where
  "toggle_fullscreen t =
     (if t_fullscreen_pane t \<noteq> None then (True, t\<lparr>t_fullscreen_pane := None\<rparr>)
      else (case t_active_pane t of
              Some active \<Rightarrow> (True, t\<lparr>t_fullscreen_pane := Some active\<rparr>)
            | None \<Rightarrow> (False, t)))"

definition toggle_fullscreen_by_id :: "pane_id \<Rightarrow> tab \<Rightarrow> bool \<times> tab" where
  "toggle_fullscreen_by_id i t =
     (if tab_pane i t = None then (False, t)
      else if t_fullscreen_pane t = Some i then (True, t\<lparr>t_fullscreen_pane := None\<rparr>)
      else (True, t\<lparr>t_fullscreen_pane := Some i, t_active_pane := Some i\<rparr>))"

definition floating_position :: "floating_pane \<Rightarrow> pane_id \<times> pane_position" where
  "floating_position f =
     (fp_id f, \<lparr>pp_col = fp_x f, pp_row = fp_y f, pp_cols = fp_width f, pp_rows = fp_height f\<rparr>)"

definition tab_positions :: "tab \<Rightarrow> positions" where
  "tab_positions t =
     (case t_fullscreen_pane t of
        Some fs \<Rightarrow> [(fs, \<lparr>pp_col = 0, pp_row = 0, pp_cols = ps_cols (t_size t), pp_rows = ps_rows (t_size t)\<rparr>)]
      | None \<Rightarrow> tiled_positions t) @
     (if t_show_floating t then map floating_position (filter fp_visible (t_floating_panes t)) else [])"

end
