(* ===== verification/Emux_Find.thy ===== *)
theory Emux_Find
  imports Emux_Prelude
begin

text \<open>
  Text functions of the standard library that several components use: trimming, joining lines, and
  substring search, with \<open>str::find\<close>, the loop that collects all matches of a query, and its
  specification.
\<close>

section \<open>Trimming and joining\<close>

text \<open>The characters with the Unicode property \<open>White_Space\<close>.\<close>

definition is_whitespace :: "nat \<Rightarrow> bool" where
  "is_whitespace c \<longleftrightarrow> (9 \<le> c \<and> c \<le> 13) \<or> c \<in> {0x20, 0x85, 0xa0, 0x1680, 0x2028, 0x2029, 0x202f, 0x205f, 0x3000} \<or>
     (0x2000 \<le> c \<and> c \<le> 0x200a)"

definition trim_end :: "nat list \<Rightarrow> nat list" where
  "trim_end cs = rev (dropWhile is_whitespace (rev cs))"

definition trim_text :: "nat list \<Rightarrow> nat list" where
  "trim_text cs = dropWhile is_whitespace (trim_end cs)"

lemma trim_end_Nil [simp]: "trim_end [] = []"
  by (simp add: trim_end_def)

text \<open>\<open>lines.join("\n")\<close>.\<close>

fun join_with :: "'a \<Rightarrow> 'a list list \<Rightarrow> 'a list" where
  "join_with c [] = []"
| "join_with c [l] = l"
| "join_with c (l # ls) = l @ c # join_with c ls"

lemma join_with_snoc: "ls \<noteq> [] \<Longrightarrow> join_with c (ls @ [l]) = join_with c ls @ c # l"
  by (induction c ls rule: join_with.induct) simp_all

section \<open>Finding\<close>

text \<open>\<open>v.iter().rposition(p)\<close>.\<close>

definition rposition :: "('a \<Rightarrow> bool) \<Rightarrow> 'a list \<Rightarrow> nat option" where
  "rposition P xs = map_option (\<lambda>i. length xs - 1 - i) (position P (rev xs))"

lemma rposition_append: "x \<notin> set ys \<Longrightarrow> rposition (\<lambda>y. y = x) (xs @ x # ys) = Some (length xs)"
proof (induction ys rule: rev_induct)
  case (snoc y ys)
  then show ?case
    by (auto simp: rposition_def split: option.splits)
qed (simp add: rposition_def)

lemma rposition_None: "rposition P xs = None \<longleftrightarrow> (\<forall>x \<in> set xs. \<not> P x)"
  by (simp add: rposition_def position_None)

lemma position_append: "x \<notin> set xs \<Longrightarrow> position (\<lambda>y. y = x) (xs @ x # ys) = Some (length xs)"
  by (induction xs) auto

lemma position_split: "position (\<lambda>y. y = x) zs = Some i \<Longrightarrow> zs = take i zs @ x # drop (Suc i) zs \<and> x \<notin> set (take i zs)"
  using position_Some [of "\<lambda>y. y = x" zs i] by (auto simp: id_take_nth_drop [symmetric] in_set_conv_nth)

lemma rposition_split: "rposition (\<lambda>y. y = x) zs = Some i \<Longrightarrow> zs = take i zs @ x # drop (Suc i) zs \<and> x \<notin> set (drop (Suc i) zs)"
proof -
  assume "rposition (\<lambda>y. y = x) zs = Some i"
  then obtain j where j: "position (\<lambda>y. y = x) (rev zs) = Some j" "i = length zs - 1 - j"
    by (auto simp: rposition_def)
  then have k: "j < length zs" "rev zs ! j = x" "\<forall>k < j. rev zs ! k \<noteq> x"
    using position_Some by fastforce+
  then have i: "i < length zs" "zs ! i = x"
    using j(2) by (auto simp: rev_nth)
  have "zs ! m \<noteq> x" if "i < m" "m < length zs" for m
    using k(3) [rule_format, of "length zs - Suc m"] that j(2) k(1) by (auto simp: rev_nth)
  then have "x \<notin> set (drop (Suc i) zs)"
    by (auto simp: in_set_conv_nth)
  then show ?thesis
    using i id_take_nth_drop [of i zs] by simp
qed

definition occurs_at :: "'a list \<Rightarrow> 'a list \<Rightarrow> nat \<Rightarrow> bool" where
  "occurs_at q t p \<longleftrightarrow> p + length q \<le> length t \<and> take (length q) (drop p t) = q"

lemma occurs_at_split: "occurs_at q t p \<longleftrightarrow> (\<exists>as bs. t = as @ q @ bs \<and> length as = p)"
proof
  assume occ: "occurs_at q t p"
  have "t = take p t @ take (length q) (drop p t) @ drop (length q) (drop p t)"
    by (simp only: append_take_drop_id)
  moreover have "length (take p t) = p"
    using occ by (simp add: occurs_at_def)
  ultimately show "\<exists>as bs. t = as @ q @ bs \<and> length as = p"
    using occ unfolding occurs_at_def by metis
qed (auto simp: occurs_at_def)

lemma occurs_at_drop: "occurs_at q (drop s t) p \<longleftrightarrow> (q = [] \<and> s + p > length t \<and> p \<le> length t - s) \<or> occurs_at q t (s + p)"
  by (auto simp: occurs_at_def add.commute)

fun str_find :: "'a list \<Rightarrow> 'a list \<Rightarrow> nat option" where
  "str_find q [] = (if q = [] then Some 0 else None)"
| "str_find q (c # t) = (if take (length q) (c # t) = q then Some 0 else map_option Suc (str_find q t))"

lemma occurs_at_Nil [simp]: "occurs_at q [] p \<longleftrightarrow> q = [] \<and> p = 0"
  by (auto simp: occurs_at_def)

lemma occurs_at_Cons: "occurs_at q (c # t) p \<longleftrightarrow> (if p = 0 then take (length q) (c # t) = q else occurs_at q t (p - 1))"
  by (cases p) (auto simp: occurs_at_def dest: arg_cong [where f = length])

lemma str_find_Some: "str_find q t = Some p \<longleftrightarrow> occurs_at q t p \<and> (\<forall>p' < p. \<not> occurs_at q t p')"
proof (induction q t arbitrary: p rule: str_find.induct)
  case (2 q c t)
  show ?case
  proof (cases p)
    case 0
    then show ?thesis
      by (simp add: occurs_at_Cons)
  next
    case (Suc k)
    then show ?thesis
      using 2 by (auto simp: occurs_at_Cons less_Suc_eq_0_disj split: if_splits)
  qed
qed auto

lemma str_find_None: "str_find q t = None \<longleftrightarrow> (\<forall>p. \<not> occurs_at q t p)"
proof
  assume none: "str_find q t = None"
  show "\<forall>p. \<not> occurs_at q t p"
  proof (intro allI notI)
    fix p
    assume occ: "occurs_at q t p"
    have "str_find q t = Some (LEAST p. occurs_at q t p)"
      unfolding str_find_Some using LeastI [of "occurs_at q t", OF occ] not_less_Least [of _ "occurs_at q t"] by blast
    with none show False
      by simp
  qed
next
  assume "\<forall>p. \<not> occurs_at q t p"
  then show "str_find q t = None"
    using str_find_Some [of q t] by (metis not_None_eq)
qed

text \<open>The loop: \<open>t[start..]\<close> panics past the end of the text.\<close>

function match_offsets :: "'a list \<Rightarrow> 'a list \<Rightarrow> nat \<Rightarrow> nat list option" where
  "match_offsets q t start =
     (if length t < start then None
      else (case str_find q (drop start t) of
              None \<Rightarrow> Some []
            | Some pos \<Rightarrow> map_option ((#) (start + pos)) (match_offsets q t (start + pos + max (length q) 1))))"
  by pat_completeness auto
termination
  by (relation "measure (\<lambda>(q, t, start). Suc (length t) - start)") auto

declare match_offsets.simps [simp del]

text \<open>
  The matches are occurrences, from left to right without overlap, and every occurrence begins inside
  a match.
\<close>

definition all_matches :: "'a list \<Rightarrow> 'a list \<Rightarrow> nat \<Rightarrow> nat list \<Rightarrow> bool" where
  "all_matches q t s ps \<longleftrightarrow> (\<forall>p \<in> set ps. s \<le> p \<and> occurs_at q t p) \<and> sorted_wrt (\<lambda>a b. a + length q \<le> b) ps \<and>
     (\<forall>p \<ge> s. occurs_at q t p \<longrightarrow> (\<exists>m \<in> set ps. m \<le> p \<and> p < m + length q))"

lemma match_offsets_all:
  "q \<noteq> [] \<Longrightarrow> s \<le> length t \<Longrightarrow> returns (match_offsets q t s) (all_matches q t s)"
proof (induction q t s rule: match_offsets.induct)
  case (1 q t s)
  have shift: "occurs_at q t p \<longleftrightarrow> occurs_at q (drop s t) (p - s)" if "s \<le> p" for p
    using that 1 by (simp add: occurs_at_drop)
  show ?case
  proof (cases "str_find q (drop s t)")
    case None
    then have "\<not> occurs_at q t p" if "s \<le> p" for p
      using that shift by (simp add: str_find_None)
    then show ?thesis
      using 1(3) None by (subst match_offsets.simps) (simp add: all_matches_def)
  next
    case (Some pos)
    let ?m = "s + pos"
    have m: "occurs_at q t ?m" "\<And>p. s \<le> p \<Longrightarrow> p < ?m \<Longrightarrow> \<not> occurs_at q t p"
      using Some shift by (auto simp: str_find_Some)
    then have len: "?m + length q \<le> length t" "max (length q) 1 = length q"
      using 1(2) by (simp_all add: occurs_at_def max_def Suc_le_eq) (cases q; simp)
    have "returns (match_offsets q t (?m + length q)) (all_matches q t (?m + length q))"
      using 1 Some len by simp
    moreover have "match_offsets q t s = map_option ((#) ?m) (match_offsets q t (?m + length q))"
      using 1(3) Some len by (subst match_offsets.simps) simp
    moreover have "all_matches q t s (?m # ps)" if ps: "all_matches q t (?m + length q) ps" for ps
      unfolding all_matches_def
    proof (intro conjI allI impI)
      show "\<forall>p \<in> set (?m # ps). s \<le> p \<and> occurs_at q t p"
        using ps m(1) by (fastforce simp: all_matches_def)
      show "sorted_wrt (\<lambda>a b. a + length q \<le> b) (?m # ps)"
        using ps by (simp add: all_matches_def)
      fix p
      assume p: "s \<le> p" "occurs_at q t p"
      then have "?m \<le> p"
        using m(2) [of p] by fastforce
      then show "\<exists>x \<in> set (?m # ps). x \<le> p \<and> p < x + length q"
        using ps p by (cases "p < ?m + length q") (auto simp: all_matches_def)
    qed
    ultimately show ?thesis
      by (auto simp: returns_iff)
  qed
qed

end
