(* ===== verification/Mux_SwapConfig.thy ===== *)
theory Mux_SwapConfig
  imports Mux_Tab Emux_Utf8 Emux_Find
begin

text \<open>
  \<open>crates/emux-mux/src/swap_config.rs\<close>: swap layouts from a TOML text. The TOML library is the argument
  \<open>from_str\<close>, which gives its error or the raw entries of the text. An \<open>f64\<close> is its value, like an \<open>f32\<close>.
\<close>

record raw_swap_layout =
  rw_name :: "rstr option"
  rw_pane_count :: "nat option"
  rw_min_panes :: "nat option"
  rw_max_panes :: "nat option"
  rw_template :: "rstr option"
  rw_direction :: "rstr option"
  rw_ratio :: "f32 option"
  rw_splits :: "rstr list option"

datatype layout_parse_error =
    TomlError rstr
  | InvalidPaneCount nat
  | UnknownTemplate rstr
  | InvalidRatio rstr

section \<open>Numbers\<close>

text \<open>\<open>str::trim\<close> of a string given by its bytes.\<close>

definition trim_str :: "rstr \<Rightarrow> rstr" where
  "trim_str s = concat (map utf8_encode (trim_text (utf8_chars s)))"

text \<open>\<open>str::parse::<f32>\<close>: a sign, then digits with an optional fraction and exponent, or a special name.\<close>

definition is_dec :: "u8 \<Rightarrow> bool" where
  "is_dec b \<longleftrightarrow> digit_val 10 b \<noteq> None"

definition dec_val :: "rstr \<Rightarrow> nat" where
  "dec_val ds = (case digits_val 10 0 ds of Some v \<Rightarrow> v | None \<Rightarrow> 0)"

definition parse_exponent :: "rstr \<Rightarrow> int option" where
  "parse_exponent s =
     (case s of
        [] \<Rightarrow> Some 0
      | b # r \<Rightarrow>
          if b = 0x65 \<or> b = 0x45 then
            (let (neg, ds) = (case r of [] \<Rightarrow> (False, []) | c # r' \<Rightarrow> if c = 0x2d then (True, r') else if c = 0x2b then (False, r') else (False, r)) in
             if ds = [] \<or> \<not> list_all is_dec ds then None
             else Some (if neg then - int (dec_val ds) else int (dec_val ds)))
          else None)"

definition pow10 :: "int \<Rightarrow> rat" where
  "pow10 e = (if 0 \<le> e then 10 ^ nat e else 1 / 10 ^ nat (- e))"

definition parse_decimal :: "rstr \<Rightarrow> rat option" where
  "parse_decimal s =
     (let whole = takeWhile is_dec s; r = dropWhile is_dec s;
          (frac, r) = (case r of [] \<Rightarrow> ([], []) | b # r' \<Rightarrow> if b = 0x2e then (takeWhile is_dec r', dropWhile is_dec r') else ([], r))
      in if whole = [] \<and> frac = [] then None
         else map_option (\<lambda>e. of_nat (dec_val (whole @ frac)) * pow10 (e - int (length frac))) (parse_exponent r))"

definition lower_ascii :: "u8 \<Rightarrow> u8" where
  "lower_ascii b = (if 0x41 \<le> b \<and> b \<le> 0x5a then b + 0x20 else b)"

definition parse_special :: "rstr \<Rightarrow> f32 option" where
  "parse_special s =
     (let l = map lower_ascii s in
      if l = ascii ''inf'' \<or> l = ascii ''infinity'' then Some FPosInf
      else if l = ascii ''nan'' then Some FNaN else None)"

definition parse_f32 :: "rstr \<Rightarrow> f32 option" where
  "parse_f32 s =
     (let (neg, r) = (case s of [] \<Rightarrow> (False, []) | b # r \<Rightarrow> if b = 0x2d then (True, r) else if b = 0x2b then (False, r) else (False, s))
      in if r = [] then None
         else map_option (\<lambda>x. if neg then f32_neg x else x)
           (case parse_decimal r of Some v \<Rightarrow> Some (f32_of_rat v) | None \<Rightarrow> parse_special r))"

fun f32_div :: "f32 \<Rightarrow> f32 \<Rightarrow> f32" where
  "f32_div FNaN _ = FNaN"
| "f32_div _ FNaN = FNaN"
| "f32_div (FVal x) (FVal y) =
     (if y = 0 then (if x = 0 then FNaN else if 0 < x then FPosInf else FNegInf) else f32_of_rat (x / y))"
| "f32_div (FVal x) _ = FVal 0"
| "f32_div i (FVal y) = (if y < 0 then f32_neg i else i)"
| "f32_div _ _ = FNaN"

text \<open>\<open>as f32\<close> of an \<open>f64\<close>.\<close>

definition f64_to_f32 :: "f32 \<Rightarrow> f32" where
  "f64_to_f32 x = (case x of FVal v \<Rightarrow> f32_of_rat v | _ \<Rightarrow> x)"

definition parse_percentage :: "rstr \<Rightarrow> layout_parse_error + f32" where
  "parse_percentage s =
     (let s = trim_str s in
      if s \<noteq> [] \<and> last s = 0x25 then
        (case parse_f32 (trim_str (butlast s)) of
           Some v \<Rightarrow> Inr (f32_div v (FVal 100))
         | None \<Rightarrow> Inl (InvalidRatio s))
      else Inl (InvalidRatio s))"

definition parse_ratio_from_splits :: "rstr list \<Rightarrow> layout_parse_error + f32" where
  "parse_ratio_from_splits splits =
     (case splits of
        [a, b] \<Rightarrow>
          (case parse_percentage a of
             Inl e \<Rightarrow> Inl e
           | Inr first \<Rightarrow> (case parse_percentage b of Inl e \<Rightarrow> Inl e | Inr _ \<Rightarrow> Inr first))
      | _ \<Rightarrow> Inl (InvalidRatio (ascii ''expected exactly 2 splits, got '' @ show_nat (length splits))))"

section \<open>Layouts\<close>

definition build_layout_node :: "nat \<Rightarrow> split_direction \<Rightarrow> f32 \<Rightarrow> layout_node" where
  "build_layout_node n dir ratio =
     (if n \<le> 1 then Leaf 100
      else if n = 2 then Split dir ratio (Leaf 100) (Leaf 101)
      else fold (\<lambda>i node. Split dir (f32_div (f32_of_nat i) (f32_add (f32_of_nat i) (FVal 1))) node (Leaf (100 + of_nat i)))
        [1..<n] (Leaf 100))"

definition or_else :: "'a option \<Rightarrow> 'a option \<Rightarrow> 'a option" where
  "or_else a b = (case a of Some x \<Rightarrow> Some x | None \<Rightarrow> b)"

definition parse_direction :: "rstr option \<Rightarrow> layout_parse_error + split_direction" where
  "parse_direction d =
     (case d of
        None \<Rightarrow> Inr Vertical
      | Some s \<Rightarrow>
          if s = ascii ''horizontal'' then Inr Horizontal
          else if s = ascii ''vertical'' then Inr Vertical
          else Inl (UnknownTemplate s))"

definition entry_ratio :: "raw_swap_layout \<Rightarrow> layout_parse_error + f32" where
  "entry_ratio raw =
     (case rw_splits raw of
        Some splits \<Rightarrow> parse_ratio_from_splits splits
      | None \<Rightarrow>
          (case rw_ratio raw of
             Some r \<Rightarrow> Inr (f64_to_f32 r)
           | None \<Rightarrow>
               (case rw_template raw of
                  Some t \<Rightarrow> if t = ascii ''vsplit'' \<or> t = ascii ''hsplit'' then Inr (FVal (1 / 2)) else Inl (UnknownTemplate t)
                | None \<Rightarrow> Inr (FVal (1 / 2)))))"

definition entry_slots :: "raw_swap_layout \<Rightarrow> nat" where
  "entry_slots raw =
     (case or_else (rw_pane_count raw) (or_else (rw_min_panes raw) (rw_pane_count raw)) of Some n \<Rightarrow> n | None \<Rightarrow> 2)"

definition parse_entry :: "nat \<Rightarrow> raw_swap_layout \<Rightarrow> layout_parse_error + swap_layout" where
  "parse_entry i raw =
     (let min_panes = or_else (rw_min_panes raw) (rw_pane_count raw);
          max_panes = or_else (rw_max_panes raw) (rw_pane_count raw)
      in if rw_pane_count raw = Some 0 then Inl (InvalidPaneCount 0)
         else if min_panes = Some 0 then Inl (InvalidPaneCount 0)
         else case parse_direction (rw_direction raw) of
             Inl e \<Rightarrow> Inl e
           | Inr dir \<Rightarrow>
               (case entry_ratio raw of
                  Inl e \<Rightarrow> Inl e
                | Inr ratio \<Rightarrow>
                    Inr \<lparr>sl_name = (case rw_name raw of Some n \<Rightarrow> n | None \<Rightarrow> ascii ''layout-'' @ show_nat i),
                         sl_min_panes = min_panes, sl_max_panes = max_panes,
                         sl_layout = build_layout_node (entry_slots raw) dir ratio\<rparr>))"

fun parse_entries :: "nat \<Rightarrow> raw_swap_layout list \<Rightarrow> layout_parse_error + swap_layout list" where
  "parse_entries i [] = Inr []"
| "parse_entries i (raw # raws) =
     (case parse_entry i raw of
        Inl e \<Rightarrow> Inl e
      | Inr sl \<Rightarrow> (case parse_entries (i + 1) raws of Inl e \<Rightarrow> Inl e | Inr sls \<Rightarrow> Inr (sl # sls)))"

definition parse_swap_layout_toml ::
  "(rstr \<Rightarrow> rstr + raw_swap_layout list) \<Rightarrow> rstr \<Rightarrow> layout_parse_error + swap_layout list" where
  "parse_swap_layout_toml from_str s =
     (case from_str s of Inl e \<Rightarrow> Inl (TomlError e) | Inr raws \<Rightarrow> parse_entries 0 raws)"

section \<open>The slots of a layout\<close>

lemma chain_ids:
  "node_pane_ids (fold (\<lambda>i node. Split dir (f i) node (Leaf (100 + of_nat i))) [1..<Suc n] (Leaf 100)) =
     map (\<lambda>i. 100 + of_nat i) [0..<Suc n]"
  by (induction n) simp_all

lemma build_layout_ids: "node_pane_ids (build_layout_node n dir r) = map (\<lambda>i. 100 + of_nat i) [0..<max 1 n]"
proof -
  consider "n \<le> 1" | "n = 2" | "2 < n"
    by linarith
  then show ?thesis
  proof cases
    case 3
    then obtain m where "n = Suc m"
      by (cases n) auto
    with 3 show ?thesis
      using chain_ids [of dir "\<lambda>i. f32_div (f32_of_nat i) (f32_add (f32_of_nat i) (FVal 1))" m]
      by (simp add: build_layout_node_def max_def del: upt_Suc)
  qed (simp_all add: build_layout_node_def upt_rec max_def)
qed

lemma parse_entries_nth:
  "parse_entries i raws = Inr sls \<Longrightarrow> length sls = length raws \<and> (\<forall>k < length raws. parse_entry (i + k) (raws ! k) = Inr (sls ! k))"
proof (induction i raws arbitrary: sls rule: parse_entries.induct)
  case (2 i raw raws)
  then show ?case
    by (auto split: sum.splits simp: nth_Cons split: nat.split)
qed simp

end
