(* ===== verification/Layout_Properties.thy ===== *)
theory Layout_Properties
  imports Mux_Layout_Props Mux_SwapConfig
begin

text \<open>The properties of the layout engine.\<close>

section \<open>Templates\<close>

lemma drop_cons_nth: "i < length xs \<Longrightarrow> drop i xs = xs ! i # drop (Suc i) xs"
  by (rule Cons_nth_drop_Suc [symmetric])

text \<open>Filling the slots replaces template leaves by panes one by one.\<close>

lemma fill_slots_mset:
  assumes "mset (node_pane_ids n) = M + mset (map fst ps)"
  shows "mset (node_pane_ids (fold (\<lambda>(t, i) n. snd (replace_leaf t i n)) ps n)) = M + mset (map snd ps)"
  using assms
proof (induction ps arbitrary: n M)
  case Nil
  then show ?case by simp
next
  case (Cons p ps)
  obtain t i where p: "p = (t, i)" by (cases p)
  have "t \<in># mset (node_pane_ids n)"
    by (simp add: Cons.prems p)
  then have "mset (node_pane_ids (snd (replace_leaf t i n))) = add_mset i (mset (node_pane_ids n) - {#t#})"
    by (simp add: replace_leaf_ids mset_replace1)
  also have "\<dots> = add_mset i M + mset (map fst ps)"
    by (simp add: Cons.prems p)
  finally show ?case
    using Cons.IH [of "snd (replace_leaf t i n)" "add_mset i M"] by (simp add: p)
qed

lemma fill_slots_order:
  assumes "node_pane_ids n = done @ ts" and "length ts \<le> length is" and "distinct ts"
    and "set done \<inter> set ts = {}" and "set is \<inter> set ts = {}"
  shows "node_pane_ids (fold (\<lambda>(t, i) n. snd (replace_leaf t i n)) (zip ts is) n) = done @ take (length ts) is"
  using assms
proof (induction ts arbitrary: n "done" "is")
  case Nil
  then show ?case by simp
next
  case (Cons t ts)
  obtain i js where i: "is = i # js"
    using Cons.prems(2) by (cases "is") auto
  have "t \<notin> set done"
    using Cons.prems(4) by auto
  then have "node_pane_ids (snd (replace_leaf t i n)) = (done @ [i]) @ ts"
    using Cons.prems by (simp add: replace_leaf_ids replace1_append i disjoint_iff)
  then show ?case
    using Cons.IH [of "snd (replace_leaf t i n)" "done @ [i]" js] Cons.prems by (simp add: i)
qed

lemma split_extra_mset:
  "last_id \<in> set (node_pane_ids n) \<Longrightarrow> mset (node_pane_ids (split_extra last_id xs n)) = mset (node_pane_ids n) + mset xs"
proof (induction xs arbitrary: last_id n)
  case (Cons x xs)
  have "x \<in> set (node_pane_ids (snd (node_split last_id x Vertical n)))"
    using Cons.prems by (simp add: node_split_ids set_insert_after)
  then show ?case
    using Cons.IH [of x] Cons.prems by (simp add: node_split_ids mset_insert_after)
qed simp

lemma split_extra_order:
  "distinct (node_pane_ids n @ xs) \<Longrightarrow> last_id = last (node_pane_ids n) \<Longrightarrow>
   node_pane_ids (split_extra last_id xs n) = node_pane_ids n @ xs"
proof (induction xs arbitrary: last_id n)
  case (Cons x xs)
  have "node_pane_ids (snd (node_split last_id x Vertical n)) = node_pane_ids n @ [x]"
    using Cons.prems by (simp add: node_split_ids insert_after_last)
  then show ?case
    using Cons.IH [of "snd (node_split last_id x Vertical n)" x] Cons.prems by simp
qed simp

lemma template_mset:
  assumes "length (node_pane_ids t) \<le> length is"
  shows "mset (layout_pane_ids (apply_template t is e)) = mset is"
proof -
  let ?ts = "node_pane_ids t"
  have ne: "is \<noteq> []" "?ts \<noteq> []"
    using assms by auto
  define n where "n = fold (\<lambda>(t, i) n. snd (replace_leaf t i n)) (zip ?ts is) t"
  have n: "mset (node_pane_ids n) = mset (take (length ?ts) is)"
  proof -
    have "map fst (zip ?ts is) = ?ts" "map snd (zip ?ts is) = take (length ?ts) is"
      using assms by (simp_all add: map_fst_zip_take map_snd_zip_take)
    then show ?thesis
      unfolding n_def using fill_slots_mset [of t "{#}" "zip ?ts is"] by simp
  qed
  show ?thesis
  proof (cases "length ?ts < length is")
    case False
    then show ?thesis
      using assms ne n by (simp add: apply_template_def Let_def n_def [symmetric])
  next
    case True
    have "is ! (length ?ts - 1) \<in> set (take (length ?ts) is)"
      using ne True by (metis One_nat_def diff_less in_set_conv_nth length_0_conv length_greater_0_conv
        length_take less_one min.absorb4 nth_take)
    then have "is ! (length ?ts - 1) \<in> set (node_pane_ids n)"
      using n by (metis mset_eq_setD)
    from split_extra_mset [OF this, of "drop (length ?ts) is"]
    show ?thesis
      using True ne n by (simp add: apply_template_def Let_def n_def [symmetric] flip: mset_append)
  qed
qed

lemma template_order:
  assumes "length (node_pane_ids t) \<le> length is" and "distinct (node_pane_ids t)" and "distinct is"
    and "set (node_pane_ids t) \<inter> set is = {}"
  shows "layout_pane_ids (apply_template t is e) = is"
proof -
  let ?ts = "node_pane_ids t"
  have ne: "is \<noteq> []" "?ts \<noteq> []"
    using assms by auto
  define n where "n = fold (\<lambda>(t, i) n. snd (replace_leaf t i n)) (zip ?ts is) t"
  have n: "node_pane_ids n = take (length ?ts) is"
    unfolding n_def using fill_slots_order [of t "[]" ?ts "is"] assms by (auto simp: disjoint_iff)
  show ?thesis
  proof (cases "length ?ts < length is")
    case False
    then show ?thesis
      using assms ne n by (simp add: apply_template_def Let_def n_def [symmetric])
  next
    case True
    have "last (node_pane_ids n) = is ! (length ?ts - 1)"
      using True ne n by (simp add: last_conv_nth)
    then show ?thesis
      using split_extra_order [of n "drop (length ?ts) is"] True ne n assms(3)
      by (simp add: apply_template_def Let_def n_def [symmetric])
  qed
qed

text \<open>
  A template with no more slots than there are panes arranges exactly the panes it is given, each
  once; when its slot ids are none of theirs, in their order.
\<close>
theorem template_arranges_panes:
  assumes "length (node_pane_ids t) \<le> length is"
  shows "mset (layout_pane_ids (apply_template t is e)) = mset is \<and>
    (distinct (node_pane_ids t) \<longrightarrow> distinct is \<longrightarrow> set (node_pane_ids t) \<inter> set is = {} \<longrightarrow>
      layout_pane_ids (apply_template t is e) = is)"
  using assms template_mset template_order by blast

theorem template_arranges_panes_witness:
  "mset (layout_pane_ids (apply_template (Split Vertical (FVal (1 / 2)) (Leaf 100) (Leaf 101)) [4, 7, 2] layout_new)) = mset [4, 7, 2] \<and>
   layout_pane_ids (apply_template (Split Vertical (FVal (1 / 2)) (Leaf 100) (Leaf 101)) [4, 7, 2] layout_new) = [4, 7, 2]"
  using template_arranges_panes [of "Split Vertical (FVal (1 / 2)) (Leaf 100) (Leaf 101)" "[4, 7, 2]" layout_new]
  by simp

text \<open>
  A template with two slots applied to one pane keeps its second slot: the result of the removal at
  the root is thrown away, and the layout shows a pane that does not exist beside the real one.
\<close>
theorem template_ghost_pane:
  "layout_pane_ids (apply_template (Split d r (Leaf 100) (Leaf 101)) [0] e) = [0, 101]"
  by (simp add: apply_template_def Let_def)

section \<open>The tree is a list of panes\<close>

text \<open>
  C10: the tree implements a list of panes without repetition: splitting a pane inserts the new one after
  it, adding appends, removing deletes, swapping exchanges, counting is the length, and adjusting a
  ratio changes nothing.
\<close>
theorem layout_refines_list:
  assumes "distinct (layout_pane_ids e)" and "- 1 \<notin> set (layout_pane_ids e)"
  shows "fst (layout_split t x d e) = (t \<in> set (layout_pane_ids e)) \<and>
    layout_pane_ids (snd (layout_split t x d e)) = insert_after t x (layout_pane_ids e) \<and>
    layout_pane_ids (add_pane x e) = layout_pane_ids e @ [x] \<and>
    layout_pane_ids (snd (remove_pane t e)) = remove1 t (layout_pane_ids e) \<and>
    (a \<in> set (layout_pane_ids e) \<and> b \<in> set (layout_pane_ids e) \<and> a \<noteq> b \<longrightarrow>
      layout_pane_ids (snd (layout_swap_leaves a b e)) = map (swap_ids a b) (layout_pane_ids e)) \<and>
    layout_count e = length (layout_pane_ids e) \<and>
    layout_pane_ids (snd (layout_adjust_ratio t d delta e)) = layout_pane_ids e"
  using assms
  by (simp add: add_pane_ids remove_pane_ids layout_count_length layout_split_ids swap_leaves_ids)

theorem layout_refines_list_witness:
  "layout_pane_ids (snd (layout_swap_leaves 0 1 (add_pane 1 (add_pane 0 layout_new)))) = [1, 0]"
proof -
  have "layout_pane_ids (add_pane 1 (add_pane 0 layout_new)) = [0, 1]"
    by (simp add: add_pane_ids)
  then show ?thesis
    using layout_refines_list [of "add_pane 1 (add_pane 0 layout_new)" 0 5 Vertical 0 1 FNaN]
    by (simp add: swap_ids_def)
qed

text \<open>
  C11: whatever the split ratios are, the positions of the panes tile the area of the tab: the panes are
  listed in the order of the tree, every cell of the area belongs to exactly one of them, and no pane
  reaches outside.
\<close>
theorem panes_tile_the_tab:
  assumes "layout_pane_ids e \<noteq> []"
  shows "map fst (layout_positions e w h) = layout_pane_ids e \<and>
    (\<forall>x < w. \<forall>y < h. \<exists>!p. p \<in> set (layout_positions e w h) \<and> covers x y p) \<and>
    (\<forall>x y. w \<le> x \<or> h \<le> y \<longrightarrow> (\<forall>p \<in> set (layout_positions e w h). \<not> covers x y p))"
  by (intro conjI allI impI ballI engine.place_ids engine.one_pane_per_cell assms
      engine.nothing_outside [of w _ h])

theorem panes_tile_the_tab_witness:
  "\<exists>!p. p \<in> set (layout_positions (add_pane 1 (add_pane 0 layout_new)) 80 24) \<and> covers 3 5 p"
  using panes_tile_the_tab [of "add_pane 1 (add_pane 0 layout_new)" 80 24] by (simp add: add_pane_ids)

section \<open>Ratios\<close>

text \<open>Some split above the pane is along the axis.\<close>

fun along :: "pane_id \<Rightarrow> split_direction \<Rightarrow> layout_node \<Rightarrow> bool" where
  "along t ax (Leaf i) = False"
| "along t ax (Split d r a b) =
     (if t \<in> set (node_pane_ids a) then d = ax \<or> along t ax a
      else t \<in> set (node_pane_ids b) \<and> (d = ax \<or> along t ax b))"

text \<open>
  Splitting and adjusting keep every ratio between a tenth and nine tenths (as single-precision
  numbers), for any finite adjustment, and an adjustment succeeds exactly when some split above the pane
  is along its axis.
\<close>
theorem ratios_stay_in_bounds:
  assumes "ratios_ok n"
  shows "ratios_ok (snd (node_split t x d n)) \<and> ratios_ok (snd (node_adjust_ratio t ax (FVal q) n)) \<and>
    fst (node_adjust_ratio t ax (FVal q) n) = along t ax n"
proof -
  have "fst (node_adjust_ratio t ax (FVal q) n) = along t ax n"
    by (induction n) (auto simp: Let_def case_prod_beta)
  then show ?thesis
    using assms by (simp add: node_split_ratios node_adjust_ratios)
qed

theorem ratios_stay_in_bounds_witness:
  "ratios_ok (snd (node_adjust_ratio 1 Vertical (FVal (1 / 80)) (Split Vertical (FVal (1 / 2)) (Leaf 0) (Leaf 1))))"
  using ratios_stay_in_bounds [of "Split Vertical (FVal (1 / 2)) (Leaf 0) (Leaf 1)" 1 5 Vertical Vertical "1 / 80"]
  by (simp add: ratio_ok_half)

section \<open>Configured swap layouts\<close>

text \<open>The properties of configured swap layouts: what they arrange when the tab applies them.\<close>

lemma parsed_slots:
  assumes "parse_entry i raw = Inr sl"
  shows "length (node_pane_ids (sl_layout sl)) = max 1 (entry_slots raw)"
    "sl_min_panes sl = or_else (rw_min_panes raw) (rw_pane_count raw)" "rw_pane_count raw \<noteq> Some 0"
  using assms by (auto simp: parse_entry_def Let_def build_layout_ids split: if_splits sum.splits)

definition two_slots_for_one_pane :: raw_swap_layout where
  "two_slots_for_one_pane = \<lparr>rw_name = None, rw_pane_count = Some 2, rw_min_panes = Some 1, rw_max_panes = None,
     rw_template = None, rw_direction = None, rw_ratio = None, rw_splits = None\<rparr>"

text \<open>
  What a configured layout arranges: an entry with a pane count and no other minimum applies only to
  tabs of at least that many panes, and its layout puts exactly the panes it is given in the tab, each
  once. An entry with a minimum below its pane count is accepted as well: with one and two, its layout
  applies to a tab of one pane and leaves in it a leaf that is no pane.
\<close>
theorem configured_layout_arranges:
  assumes "parse_swap_layout_toml from_str s = Inr sls" and "from_str s = Inr raws" and "k < length raws"
    and "rw_pane_count (raws ! k) = Some n" and "rw_min_panes (raws ! k) = None"
    and "applies_to (length is) (sls ! k)"
  shows "1 \<le> n \<and> n \<le> length is \<and> mset (layout_pane_ids (apply_template (sl_layout (sls ! k)) is e)) = mset is \<and>
    (\<exists>sl. parse_entry 0 two_slots_for_one_pane = Inr sl \<and> applies_to 1 sl \<and>
      layout_pane_ids (apply_template (sl_layout sl) [0] e) = [0, 101])"
proof -
  have entry: "parse_entry k (raws ! k) = Inr (sls ! k)"
    using assms(1-3) parse_entries_nth [of 0 raws sls] by (simp add: parse_swap_layout_toml_def)
  note slots = parsed_slots [OF entry]
  have "1 \<le> n" "n \<le> length is"
    using slots assms(4-6) by (simp_all add: or_else_def applies_to_def)
  moreover have "length (node_pane_ids (sl_layout (sls ! k))) = n"
    using slots(1) assms(4,5) \<open>1 \<le> n\<close> by (simp add: entry_slots_def or_else_def)
  ultimately have "mset (layout_pane_ids (apply_template (sl_layout (sls ! k)) is e)) = mset is"
    by (intro template_mset) simp
  moreover have "\<exists>sl. parse_entry 0 two_slots_for_one_pane = Inr sl \<and> applies_to 1 sl \<and>
      layout_pane_ids (apply_template (sl_layout sl) [0] e) = [0, 101]"
    by (simp add: parse_entry_def two_slots_for_one_pane_def Let_def or_else_def parse_direction_def entry_ratio_def
        entry_slots_def build_layout_node_def applies_to_def apply_template_def)
  ultimately show ?thesis
    using \<open>1 \<le> n\<close> \<open>n \<le> length is\<close> by blast
qed

definition three_panes :: raw_swap_layout where
  "three_panes = \<lparr>rw_name = None, rw_pane_count = Some 3, rw_min_panes = None, rw_max_panes = None,
     rw_template = None, rw_direction = Some (ascii ''horizontal''), rw_ratio = None, rw_splits = None\<rparr>"

theorem configured_layout_arranges_witness:
  "\<exists>sls. parse_swap_layout_toml (\<lambda>s. Inr [three_panes]) [] = Inr sls \<and>
     mset (layout_pane_ids (apply_template (sl_layout (sls ! 0)) [4, 7, 2] layout_new)) = mset [4, 7, 2]"
proof -
  obtain sl where sl: "parse_entry 0 three_panes = Inr sl"
    by (simp add: parse_entry_def three_panes_def Let_def or_else_def parse_direction_def entry_ratio_def)
  then have parsed: "parse_swap_layout_toml (\<lambda>s. Inr [three_panes]) [] = Inr [sl]"
    by (simp add: parse_swap_layout_toml_def)
  have "applies_to (length [4, 7, 2 :: u32]) ([sl] ! 0)"
    using sl by (auto simp: parse_entry_def three_panes_def Let_def or_else_def parse_direction_def entry_ratio_def applies_to_def)
  then show ?thesis
    using configured_layout_arranges [OF parsed refl, of 0 3 "[4, 7, 2]" layout_new] parsed
    by (auto simp: three_panes_def)
qed

end
