(* ===== verification/Mux_Floating.thy ===== *)
theory Mux_Floating
  imports Mux_Tab
begin

text \<open>
  The rest of \<open>tab.rs\<close>: floating panes, moving panes, operations on one pane, synchronised input.
\<close>

section \<open>Floating panes\<close>

text \<open>The default geometry: half of the tab, centred.\<close>

definition default_float :: "tab \<Rightarrow> nat \<times> nat \<times> nat \<times> nat" where
  "default_float t =
     (let w = max (ps_cols (t_size t) div 2) MIN_FLOATING_COLS;
          h = max (ps_rows (t_size t) div 2) MIN_FLOATING_ROWS
      in ((ps_cols (t_size t) - w) div 2, (ps_rows (t_size t) - h) div 2, w, h))"

definition push_floating :: "floating_pane \<Rightarrow> tab \<Rightarrow> tab" where
  "push_floating f t =
     t\<lparr>t_floating_panes := t_floating_panes t @ [f], t_show_floating := True, t_active_pane := Some (fp_id f)\<rparr>"

definition new_floating_pane_with_coords :: "nat \<Rightarrow> nat \<Rightarrow> nat \<Rightarrow> nat \<Rightarrow> tab \<Rightarrow> pane_id \<times> tab" where
  "new_floating_pane_with_coords x y w h t =
     (let i = t_next_pane_id t; t = t\<lparr>t_next_pane_id := t_next_pane_id t + 1\<rparr>;
          w = min (max w MIN_FLOATING_COLS) (ps_cols (t_size t));
          h = min (max h MIN_FLOATING_ROWS) (ps_rows (t_size t));
          x = min x (ps_cols (t_size t) - w);
          y = min y (ps_rows (t_size t) - h)
      in (i, push_floating \<lparr>fp_pane = pane_new i w h, fp_x = x, fp_y = y, fp_width = w, fp_height = h,
            fp_visible = True\<rparr> t))"

definition new_floating_pane :: "tab \<Rightarrow> pane_id \<times> tab" where
  "new_floating_pane t = (case default_float t of (x, y, w, h) \<Rightarrow> new_floating_pane_with_coords x y w h t)"

definition toggle_floating_panes :: "tab \<Rightarrow> tab" where
  "toggle_floating_panes t =
     (let t = t\<lparr>t_show_floating := \<not> t_show_floating t\<rparr> in
      if \<not> t_show_floating t then
        (case t_active_pane t of
           Some active \<Rightarrow>
             if find_floating active t \<noteq> None
             then t\<lparr>t_active_pane := first_opt (layout_pane_ids (t_layout t))\<rparr> else t
         | None \<Rightarrow> t)
      else (case last_opt (t_floating_panes t) of
              Some f \<Rightarrow> t\<lparr>t_active_pane := Some (fp_id f)\<rparr>
            | None \<Rightarrow> t))"

definition close_floating_pane :: "pane_id \<Rightarrow> tab \<Rightarrow> bool \<times> tab" where
  "close_floating_pane i t =
     (case find_floating_idx i t of
        None \<Rightarrow> (False, t)
      | Some k \<Rightarrow>
          let t = t\<lparr>t_floating_panes := remove_at k (t_floating_panes t)\<rparr> in
          (True,
           if t_active_pane t = Some i then
             t\<lparr>t_active_pane := (case last_opt (t_floating_panes t) of
                 Some f \<Rightarrow> Some (fp_id f)
               | None \<Rightarrow> first_opt (layout_pane_ids (t_layout t)))\<rparr>
           else t))"

definition embed_floating_pane :: "pane_id \<Rightarrow> tab \<Rightarrow> bool \<times> tab" where
  "embed_floating_pane i t =
     (case find_floating_idx i t of
        None \<Rightarrow> (False, t)
      | Some k \<Rightarrow>
          let f = t_floating_panes t ! k;
              t = t\<lparr>t_floating_panes := remove_at k (t_floating_panes t),
                    t_panes := AList.update i (fp_pane f) (t_panes t),
                    t_layout := add_pane i (t_layout t)\<rparr>
          in (True, (sync_pane_sizes t)\<lparr>t_active_pane := Some i\<rparr>))"

definition float_pane :: "pane_id \<Rightarrow> tab \<Rightarrow> bool \<times> tab" where
  "float_pane i t =
     (case tab_pane i t of
        None \<Rightarrow> (False, t)
      | Some p \<Rightarrow>
          if tab_pane_count t \<le> 1 then (False, t)
          else
            let t = t\<lparr>t_panes := AList.delete i (t_panes t), t_layout := snd (remove_pane i (t_layout t))\<rparr>;
                t = sync_pane_sizes t;
                (x, y, w, h) = default_float t
            in (True, (push_floating \<lparr>fp_pane = pane_resize w h p, fp_x = x, fp_y = y, fp_width = w,
                  fp_height = h, fp_visible = True\<rparr> t)\<lparr>t_active_pane := Some i\<rparr>))"

text \<open>\<open>if let Some(fp) = self.find_floating_mut(id)\<close>: the first with the id.\<close>

definition update_floating :: "pane_id \<Rightarrow> (floating_pane \<Rightarrow> floating_pane) \<Rightarrow> tab \<Rightarrow> bool \<times> tab" where
  "update_floating i f t =
     (case find_floating_idx i t of
        Some k \<Rightarrow> (True, t\<lparr>t_floating_panes := (t_floating_panes t)[k := f (t_floating_panes t ! k)]\<rparr>)
      | None \<Rightarrow> (False, t))"

definition resize_floating_pane :: "pane_id \<Rightarrow> nat \<Rightarrow> nat \<Rightarrow> tab \<Rightarrow> bool \<times> tab" where
  "resize_floating_pane i width height t =
     update_floating i
       (\<lambda>f. let w = min (max width MIN_FLOATING_COLS) (ps_cols (t_size t));
                h = min (max height MIN_FLOATING_ROWS) (ps_rows (t_size t))
            in f\<lparr>fp_x := min (fp_x f) (ps_cols (t_size t) - w), fp_y := min (fp_y f) (ps_rows (t_size t) - h),
                 fp_width := w, fp_height := h, fp_pane := pane_resize w h (fp_pane f)\<rparr>) t"

definition move_floating_pane :: "pane_id \<Rightarrow> nat \<Rightarrow> nat \<Rightarrow> tab \<Rightarrow> bool \<times> tab" where
  "move_floating_pane i x y t =
     update_floating i
       (\<lambda>f. f\<lparr>fp_x := min x (ps_cols (t_size t) - fp_width f),
              fp_y := min y (ps_rows (t_size t) - fp_height f)\<rparr>) t"

definition floating_pane_ids :: "tab \<Rightarrow> pane_id list" where
  "floating_pane_ids t = map fp_id (t_floating_panes t)"

definition floating_panes_overlap :: "pane_id \<Rightarrow> pane_id \<Rightarrow> tab \<Rightarrow> bool" where
  "floating_panes_overlap a b t =
     (case (find_floating a t, find_floating b t) of
        (Some fa, Some fb) \<Rightarrow>
          fp_x fa < fp_x fb + fp_width fb \<and> fp_x fb < fp_x fa + fp_width fa \<and>
          fp_y fa < fp_y fb + fp_height fb \<and> fp_y fb < fp_y fa + fp_height fa
      | _ \<Rightarrow> False)"

definition overlapping_floating_panes :: "tab \<Rightarrow> (pane_id \<times> pane_id) list" where
  "overlapping_floating_panes t =
     (let fs = t_floating_panes t; n = length fs in
      [(fp_id (fs ! i), fp_id (fs ! j)).
        i \<leftarrow> [0..<n], j \<leftarrow> [Suc i..<n], floating_panes_overlap (fp_id (fs ! i)) (fp_id (fs ! j)) t])"

section \<open>Moving panes\<close>

definition swap_panes :: "pane_id \<Rightarrow> pane_id \<Rightarrow> tab \<Rightarrow> bool \<times> tab" where
  "swap_panes a b t =
     (case layout_swap_leaves a b (t_layout t) of
        (swapped, layout) \<Rightarrow>
          let t = t\<lparr>t_layout := layout\<rparr> in (swapped, if swapped then sync_pane_sizes t else t))"

definition move_active_pane :: "focus_direction \<Rightarrow> tab \<Rightarrow> bool \<times> tab" where
  "move_active_pane dir t =
     (case t_active_pane t of
        None \<Rightarrow> (False, t)
      | Some active \<Rightarrow>
          (case find_neighbor_in_direction dir t of
             Some neighbor \<Rightarrow> swap_panes active neighbor t
           | None \<Rightarrow> (False, t)))"

definition move_pane_by_id :: "pane_id \<Rightarrow> focus_direction \<Rightarrow> tab \<Rightarrow> bool \<times> tab" where
  "move_pane_by_id i dir t =
     (let old_active = t_active_pane t;
          (result, t) = move_active_pane dir (t\<lparr>t_active_pane := Some i\<rparr>)
      in (result, if result then t else t\<lparr>t_active_pane := old_active\<rparr>))"

definition move_pane_backwards :: "pane_id \<Rightarrow> tab \<Rightarrow> bool \<times> tab" where
  "move_pane_backwards i t =
     (let ids = layout_pane_ids (t_layout t) in
      case position (\<lambda>j. j = i) ids of
        Some pos \<Rightarrow> if 0 < pos then swap_panes i (ids ! (pos - 1)) t else (False, t)
      | None \<Rightarrow> (False, t))"

section \<open>Operations on one pane, and the rest\<close>

definition set_pixel_dimensions :: "nat \<Rightarrow> nat \<Rightarrow> tab \<Rightarrow> tab" where
  "set_pixel_dimensions w h t = t\<lparr>t_pixel_width := Some w, t_pixel_height := Some h\<rparr>"

definition on_pane :: "pane_id \<Rightarrow> (pane \<Rightarrow> pane) \<Rightarrow> tab \<Rightarrow> bool \<times> tab" where
  "on_pane i f t = (if tab_pane i t \<noteq> None then (True, update_pane i f t) else (False, t))"

definition tab_scroll_up :: "pane_id \<Rightarrow> nat \<Rightarrow> tab \<Rightarrow> bool \<times> tab" where
  "tab_scroll_up i lines = on_pane i (pane_scroll_up lines)"

definition tab_scroll_down :: "pane_id \<Rightarrow> nat \<Rightarrow> tab \<Rightarrow> bool \<times> tab" where
  "tab_scroll_down i lines = on_pane i (pane_scroll_down lines)"

definition tab_scroll_to_top :: "pane_id \<Rightarrow> tab \<Rightarrow> bool \<times> tab" where
  "tab_scroll_to_top i = on_pane i pane_scroll_to_top"

definition tab_scroll_to_bottom :: "pane_id \<Rightarrow> tab \<Rightarrow> bool \<times> tab" where
  "tab_scroll_to_bottom i = on_pane i pane_scroll_to_bottom"

definition clear_pane :: "pane_id \<Rightarrow> tab \<Rightarrow> bool \<times> tab" where
  "clear_pane i = on_pane i (set_cleared True)"

definition tab_has_notification :: "tab \<Rightarrow> bool" where
  "tab_has_notification t \<longleftrightarrow>
     list_ex (\<lambda>(i, p). pn_has_notification p) (t_panes t) \<or>
     list_ex (\<lambda>f. pn_has_notification (fp_pane f)) (t_floating_panes t)"

definition notification_count :: "tab \<Rightarrow> nat" where
  "notification_count t =
     length (filter (\<lambda>(i, p). pn_has_notification p) (t_panes t)) +
     length (filter (\<lambda>f. pn_has_notification (fp_pane f)) (t_floating_panes t))"

definition toggle_sync :: "tab \<Rightarrow> bool \<times> tab" where
  "toggle_sync t = (\<not> t_synchronized t, t\<lparr>t_synchronized := \<not> t_synchronized t\<rparr>)"

definition sync_target_pane_ids :: "tab \<Rightarrow> pane_id list" where
  "sync_target_pane_ids t =
     filter (\<lambda>i. Some i \<noteq> t_active_pane t) (map fst (t_panes t)) @
     (if t_show_floating t then
        map fp_id (filter (\<lambda>f. fp_visible f \<and> Some (fp_id f) \<noteq> t_active_pane t) (t_floating_panes t))
      else [])"

end
