(* ===== verification/Mux_Tab_Props.thy ===== *)
theory Mux_Tab_Props
  imports Mux_Floating Layout_Properties
begin

text \<open>
  The invariant of a tab and that every operation keeps it. \<open>tab_ok\<close> says that the layout, the map of
  panes and the list of floating panes describe the same panes, that pane numbers are fresh, that the
  focus is on a pane that exists, that every tiled pane has the size of its place in the layout, and
  that the registered swap layouts fit the pane counts they apply to.
\<close>

section \<open>Association lists\<close>

lemma map_entry_keys [simp]: "map fst (AList.map_entry k f xs) = map fst xs"
  by (induction xs) auto

lemma map_entry_map_of: "map_of (AList.map_entry k f xs) i = (if i = k then map_option f (map_of xs k) else map_of xs i)"
  by (induction xs) auto

lemma map_entry_all:
  "(\<And>p. P k p \<Longrightarrow> P k (f p)) \<Longrightarrow> \<forall>(i, p) \<in> set xs. P i p \<Longrightarrow> \<forall>(i, p) \<in> set (AList.map_entry k f xs). P i p"
  by (induction xs) auto

lemma map_of_keys: "map_of xs i \<noteq> None \<longleftrightarrow> i \<in> fst ` set xs"
  by (simp add: map_of_eq_None_iff)

lemma update_new: "k \<notin> fst ` set xs \<Longrightarrow> AList.update k v xs = xs @ [(k, v)]"
  by (induction xs) auto

lemma delete_keys_distinct: "distinct (map fst xs) \<Longrightarrow> fst ` set (AList.delete k xs) = fst ` set xs - {k}"
  by (induction xs) (auto simp: rev_image_eqI)

lemma set_delete: "set (AList.delete k xs) \<subseteq> set xs"
  by (induction xs) auto

section \<open>The invariant\<close>

abbreviation keys :: "('a \<times> 'b) list \<Rightarrow> 'a set" where "keys xs \<equiv> fst ` set xs"

definition panes_ok :: "pane_id list \<Rightarrow> (pane_id \<times> pane) list \<Rightarrow> bool" where
  "panes_ok ids panes \<longleftrightarrow>
     ids \<noteq> [] \<and> distinct ids \<and> distinct (map fst panes) \<and> set ids = keys panes \<and> (\<forall>(i, p) \<in> set panes. pn_id p = i)"

definition floats_ok :: "pane_id set \<Rightarrow> floating_pane list \<Rightarrow> bool" where
  "floats_ok ks fs \<longleftrightarrow> distinct (map fp_id fs) \<and> set (map fp_id fs) \<inter> ks = {}"

text \<open>Every tiled pane has the size of its place.\<close>

definition sizes_ok :: "positions \<Rightarrow> (pane_id \<times> pane) list \<Rightarrow> bool" where
  "sizes_ok ps panes \<longleftrightarrow>
     list_all (\<lambda>(i, pos). map_option pn_size (map_of panes i) = Some (pane_size_new (pp_cols pos) (pp_rows pos))) ps"

text \<open>A swap layout has no more slots than the least number of panes it applies to.\<close>

definition fits :: "swap_layout \<Rightarrow> bool" where
  "fits sl \<longleftrightarrow>
     length (node_pane_ids (sl_layout sl)) \<le> max 1 (case sl_min_panes sl of None \<Rightarrow> 1 | Some m \<Rightarrow> m)"

definition tab_ids :: "tab \<Rightarrow> pane_id set" where
  "tab_ids t = keys (t_panes t) \<union> set (floating_pane_ids t)"

definition tab_ok :: "tab \<Rightarrow> bool" where
  "tab_ok t \<longleftrightarrow>
     panes_ok (tab_pane_ids t) (t_panes t) \<and>
     floats_ok (keys (t_panes t)) (t_floating_panes t) \<and>
     (\<forall>i \<in> tab_ids t. i < t_next_pane_id t) \<and>
     (\<forall>i. t_active_pane t = Some i \<longrightarrow> i \<in> tab_ids t) \<and>
     sizes_ok (tiled_positions t) (t_panes t) \<and>
     list_all fits (t_swap_layouts t) \<and>
     (\<forall>k. t_current_swap_index t = Some k \<longrightarrow> k < length (t_swap_layouts t))"

lemmas tab_ok_defs = tab_ok_def tab_ids_def floating_pane_ids_def tab_pane_ids_def tiled_positions_def

text \<open>Fields the invariant does not look at, and the focus.\<close>

lemma tab_ok_fields [simp]:
  "tab_ok (t\<lparr>t_fullscreen_pane := f\<rparr>) = tab_ok t"
  "tab_ok (t\<lparr>t_name := n\<rparr>) = tab_ok t"
  "tab_ok (t\<lparr>t_previous_name := pn\<rparr>) = tab_ok t"
  "tab_ok (t\<lparr>t_show_floating := b\<rparr>) = tab_ok t"
  "tab_ok (t\<lparr>t_pixel_width := w\<rparr>) = tab_ok t"
  "tab_ok (t\<lparr>t_pixel_height := w\<rparr>) = tab_ok t"
  "tab_ok (t\<lparr>t_synchronized := b\<rparr>) = tab_ok t"
  "tab_ok t \<Longrightarrow> tab_ok (t\<lparr>t_current_swap_index := None\<rparr>)"
  by (simp_all add: tab_ok_defs)

lemma tab_ok_focus: "tab_ok t \<Longrightarrow> (\<And>i. a = Some i \<Longrightarrow> i \<in> tab_ids t) \<Longrightarrow> tab_ok (t\<lparr>t_active_pane := a\<rparr>)"
  by (auto simp: tab_ok_defs)

lemma tab_okD:
  assumes "tab_ok t"
  shows "tab_pane_ids t \<noteq> []" "distinct (tab_pane_ids t)" "distinct (map fst (t_panes t))"
    "set (tab_pane_ids t) = keys (t_panes t)" "\<And>i p. (i, p) \<in> set (t_panes t) \<Longrightarrow> pn_id p = i"
    "distinct (map fp_id (t_floating_panes t))" "set (map fp_id (t_floating_panes t)) \<inter> keys (t_panes t) = {}"
    "\<And>i. i \<in> tab_ids t \<Longrightarrow> i < t_next_pane_id t" "\<And>i. t_active_pane t = Some i \<Longrightarrow> i \<in> tab_ids t"
    "list_all fits (t_swap_layouts t)" "\<And>k. t_current_swap_index t = Some k \<Longrightarrow> k < length (t_swap_layouts t)"
    "sizes_ok (tiled_positions t) (t_panes t)"
  using assms by (auto simp: tab_ok_def panes_ok_def floats_ok_def)

lemma tiled_in_tab_ids: "tab_ok t \<Longrightarrow> i \<in> set (tab_pane_ids t) \<Longrightarrow> i \<in> tab_ids t"
  by (simp add: tab_ids_def tab_okD)

lemma tab_pane_iff: "tab_pane i t \<noteq> None \<longleftrightarrow> i \<in> keys (t_panes t)"
  unfolding tab_pane_def by (rule map_of_keys)

lemma tab_pane_count: "tab_ok t \<Longrightarrow> tab_pane_count t = length (tab_pane_ids t)"
  using tab_okD(2-4) [of t] unfolding tab_pane_count_def
  by (metis distinct_card length_map list.set_map)

section \<open>Sizes follow the layout\<close>

definition synced :: "positions \<Rightarrow> (pane_id \<times> pane) list \<Rightarrow> (pane_id \<times> pane) list" where
  "synced ps panes = fold (\<lambda>(i, pos). AList.map_entry i (pane_resize (pp_cols pos) (pp_rows pos))) ps panes"

lemma sync_pane_sizes_eq: "sync_pane_sizes t = t\<lparr>t_panes := synced (tiled_positions t) (t_panes t)\<rparr>"
proof -
  have "fold (\<lambda>(i, pos) t. update_pane i (pane_resize (pp_cols pos) (pp_rows pos)) t) ps t
      = t\<lparr>t_panes := synced ps (t_panes t)\<rparr>" for ps
    by (induction ps arbitrary: t) (auto simp: synced_def update_pane_def)
  then show ?thesis
    by (simp add: sync_pane_sizes_def)
qed

lemma synced_keys [simp]: "map fst (synced ps panes) = map fst panes"
  by (induction ps arbitrary: panes) (auto simp: synced_def)

lemma synced_keys_set [simp]: "keys (synced ps panes) = keys panes"
  using synced_keys [of ps panes] by (metis list.set_map)

lemma synced_ids: "\<forall>(i, p) \<in> set panes. pn_id p = i \<Longrightarrow> \<forall>(i, p) \<in> set (synced ps panes). pn_id p = i"
proof (induction ps arbitrary: panes)
  case (Cons p ps)
  obtain i pos where p: "p = (i, pos)" by (cases p)
  have "\<forall>(j, q) \<in> set (AList.map_entry i (pane_resize (pp_cols pos) (pp_rows pos)) panes). pn_id q = j"
    using Cons.prems by (intro map_entry_all) auto
  from Cons.IH [OF this] show ?case
    by (simp add: synced_def p)
qed (simp add: synced_def)

lemma synced_other: "i \<notin> keys ps \<Longrightarrow> map_of (synced ps panes) i = map_of panes i"
  by (induction ps arbitrary: panes) (auto simp: synced_def map_entry_map_of)

lemma synced_sizes:
  "distinct (map fst ps) \<Longrightarrow> keys ps \<subseteq> keys panes \<Longrightarrow> sizes_ok ps (synced ps panes)"
proof (induction ps arbitrary: panes)
  case Nil
  then show ?case by (simp add: sizes_ok_def)
next
  case (Cons p ps)
  obtain i pos where p: "p = (i, pos)" by (cases p)
  let ?panes = "AList.map_entry i (pane_resize (pp_cols pos) (pp_rows pos)) panes"
  have keys: "keys ?panes = keys panes"
    using map_entry_keys [of i _ panes] by (metis list.set_map)
  have "sizes_ok ps (synced ps ?panes)"
    using Cons by (simp add: keys p)
  moreover obtain x where "map_of panes i = Some x"
    using Cons.prems(2) map_of_keys [of panes i] by (auto simp: p)
  then have "map_option pn_size (map_of (synced ps ?panes) i) = Some (pane_size_new (pp_cols pos) (pp_rows pos))"
    using Cons.prems(1) by (simp add: p synced_other map_entry_map_of pane_resize_def)
  ultimately show ?case
    by (simp add: sizes_ok_def p synced_def)
qed

text \<open>What an operation that changes the layout has to establish before it synchronises the sizes.\<close>

lemma tab_ok_sync:
  assumes "panes_ok (tab_pane_ids t) (t_panes t)" and "floats_ok (keys (t_panes t)) (t_floating_panes t)"
    and "\<And>i. i \<in> tab_ids t \<Longrightarrow> i < t_next_pane_id t"
    and "\<And>i. t_active_pane t = Some i \<Longrightarrow> i \<in> tab_ids t"
    and "list_all fits (t_swap_layouts t)"
    and "\<And>k. t_current_swap_index t = Some k \<Longrightarrow> k < length (t_swap_layouts t)"
  shows "tab_ok (sync_pane_sizes t)"
proof -
  have ids: "map fst (tiled_positions t) = tab_pane_ids t"
    by (simp add: tiled_positions_def tab_pane_ids_def engine.place_ids)
  have "sizes_ok (tiled_positions t) (synced (tiled_positions t) (t_panes t))"
  proof (rule synced_sizes)
    show "distinct (map fst (tiled_positions t))"
      using assms(1) by (simp add: ids panes_ok_def)
    have "keys (tiled_positions t) = set (tab_pane_ids t)"
      using ids by (metis list.set_map)
    then show "keys (tiled_positions t) \<subseteq> keys (t_panes t)"
      using assms(1) by (simp add: panes_ok_def)
  qed
  then show ?thesis
    using assms synced_ids [of "t_panes t" "tiled_positions t"]
    by (simp add: tab_ok_def sync_pane_sizes_eq panes_ok_def tab_ids_def tab_pane_ids_def
        floating_pane_ids_def tiled_positions_def)
qed

section \<open>Swap layouts\<close>

lemma applies_fits:
  assumes "fits sl" and "applies_to n sl" and "0 < n"
  shows "length (node_pane_ids (sl_layout sl)) \<le> n"
  using assms by (auto simp: fits_def applies_to_def split: option.splits)

lemma applicable_index:
  assumes "k \<in> set (applicable_swap_layout_indices n t)"
  shows "k < length (t_swap_layouts t) \<and> applies_to n (t_swap_layouts t ! k)"
  using assms by (auto simp: applicable_swap_layout_indices_def in_set_enumerate_eq)

lemma apply_swap_layout_ok:
  assumes "tab_ok t" and "k \<in> set (applicable_swap_layout_indices (tab_pane_count t) t)"
  shows "tab_ok (apply_swap_layout_at k t)"
proof -
  define template where "template = sl_layout (t_swap_layouts t ! k)"
  note k = applicable_index [OF assms(2)]
  have "fits (t_swap_layouts t ! k)"
    using k tab_okD(10) [OF assms(1)] by (simp add: list_all_length)
  moreover have "0 < tab_pane_count t"
    using tab_okD(1) [OF assms(1)] by (simp add: tab_pane_count [OF assms(1)])
  ultimately have "length (node_pane_ids template) \<le> length (tab_pane_ids t)"
    using applies_fits [of "t_swap_layouts t ! k" "tab_pane_count t"] k
    by (simp add: template_def tab_pane_count [OF assms(1)])
  then have m: "mset (layout_pane_ids (apply_template template (tab_pane_ids t) (t_layout t))) = mset (tab_pane_ids t)"
    by (rule template_mset)
  have "panes_ok (layout_pane_ids (apply_template template (tab_pane_ids t) (t_layout t))) (t_panes t)"
    using assms(1) m mset_eq_imp_distinct_iff [OF m] mset_eq_setD [OF m]
    by (auto simp: tab_ok_def panes_ok_def)
  then show ?thesis
    using assms(1) k
    by (auto simp: apply_swap_layout_at_def template_def [symmetric] Let_def tab_pane_ids_def
        intro!: tab_ok_sync) (auto simp: tab_ok_defs)
qed

lemma auto_swap_layout_ok: "tab_ok t \<Longrightarrow> tab_ok (auto_swap_layout t)"
  by (auto simp: auto_swap_layout_def intro!: apply_swap_layout_ok split: list.splits)

lemma next_swap_layout_ok: "tab_ok t \<Longrightarrow> tab_ok (next_swap_layout t)"
  by (auto simp: next_swap_layout_def Let_def intro!: apply_swap_layout_ok nth_mem
      split: option.splits)

lemma swap_position_less: "swap_position t xs = Some pos \<Longrightarrow> pos < length xs"
  by (auto simp: swap_position_def Option.bind_eq_Some_conv dest: position_Some)

lemma prev_swap_layout_ok: "tab_ok t \<Longrightarrow> tab_ok (prev_swap_layout t)"
  by (auto simp: prev_swap_layout_def Let_def intro!: apply_swap_layout_ok nth_mem
      dest!: swap_position_less split: option.splits)

lemma register_swap_layout_ok:
  assumes "tab_ok t" and "length (node_pane_ids layout) \<le> max 1 (case mn of None \<Rightarrow> 1 | Some m \<Rightarrow> m)"
  shows "tab_ok (register_swap_layout name mn mx layout t)"
proof -
  have "fits \<lparr>sl_name = name, sl_min_panes = mn, sl_max_panes = mx, sl_layout = layout\<rparr>"
    using assms(2) by (simp add: fits_def)
  then show ?thesis
    using assms(1)
    by (auto simp: register_swap_layout_def Let_def tab_ok_defs list_all_iff less_Suc_eq
        dest: set_update_subset_insert [THEN subsetD] split: option.split)
qed

section \<open>Splitting, closing, resizing\<close>

lemma word_less_Suc:
  fixes i n :: u32
  assumes "i < n \<or> i = n" and "n \<noteq> - 1"
  shows "i < n + 1"
proof -
  have "1 + n \<noteq> 0"
    using assms(2) by (metis add.commute eq_neg_iff_add_eq_0)
  then have "unat (n + 1) = Suc (unat n)"
    by (metis add.commute unatSuc)
  then show ?thesis
    using assms(1) by (auto simp: word_less_nat_alt)
qed

lemma next_id_fresh: "tab_ok t \<Longrightarrow> t_next_pane_id t \<notin> tab_ids t"
  using tab_okD(8) [of t "t_next_pane_id t"] by auto

lemma placed_iff: "(\<exists>p. find_pos i (tiled_positions t) = Some p) \<longleftrightarrow> i \<in> set (tab_pane_ids t)"
  unfolding tiled_positions_def tab_pane_ids_def by (rule engine.find_pos_placed [symmetric])

lemma can_split_tiled: "can_split i dir t \<Longrightarrow> i \<in> set (tab_pane_ids t)"
  by (subst placed_iff [symmetric]) (auto simp: can_split_def split: if_splits option.splits)

text \<open>A new tiled pane beside the pane \<open>a\<close>.\<close>

lemma add_tiled_ok:
  assumes "tab_ok t" and "a \<in> set (tab_pane_ids t)" and "t_next_pane_id t \<noteq> - 1"
    and "n = t_next_pane_id t" and "pn_id p = n"
  shows "tab_ok (sync_pane_sizes (t\<lparr>t_next_pane_id := n + 1, t_panes := AList.update n p (t_panes t),
      t_layout := snd (layout_split a n dir (t_layout t))\<rparr>))"
proof (rule tab_ok_sync)
  let ?t = "t\<lparr>t_next_pane_id := n + 1, t_panes := AList.update n p (t_panes t),
      t_layout := snd (layout_split a n dir (t_layout t))\<rparr>"
  have fresh: "n \<notin> keys (t_panes t)" "n \<notin> set (map fp_id (t_floating_panes t))"
    using next_id_fresh [OF assms(1)] by (simp_all add: tab_ids_def floating_pane_ids_def assms(4))
  have ids: "distinct (tab_pane_ids ?t) \<and> set (tab_pane_ids ?t) = insert n (set (tab_pane_ids t))"
    unfolding tab_pane_ids_def
    using engine.split_fresh [of "t_layout t" a n] tab_okD(2,4) [OF assms(1)] assms(2) fresh(1)
    by (simp add: tab_pane_ids_def)
  then have "tab_pane_ids ?t \<noteq> []"
    by auto
  with ids show "panes_ok (tab_pane_ids ?t) (t_panes ?t)"
    using tab_okD(3,4,5) [OF assms(1)] fresh(1) by (auto simp: panes_ok_def update_new assms(5))
  show "floats_ok (keys (t_panes ?t)) (t_floating_panes ?t)"
    using tab_okD(6,7) [OF assms(1)] fresh by (auto simp: floats_ok_def update_new)
  show "i < t_next_pane_id ?t" if "i \<in> tab_ids ?t" for i
  proof -
    have "i < n \<or> i = n"
      using that tab_okD(8) [OF assms(1), of i] fresh(1)
      by (auto simp: tab_ids_def floating_pane_ids_def update_new assms(4))
    then show ?thesis
      using assms(3,4) by (simp add: word_less_Suc)
  qed
  show "i \<in> tab_ids ?t" if "t_active_pane ?t = Some i" for i
    using that tab_okD(9) [OF assms(1), of i] fresh(1)
    by (auto simp: tab_ids_def floating_pane_ids_def update_new)
qed (use assms(1) tab_okD(10,11) in auto)

lemma split_pane_ok:
  assumes "tab_ok t" and "t_next_pane_id t \<noteq> - 1"
  shows "tab_ok (snd (split_pane dir t))"
proof -
  let ?t = "t\<lparr>t_fullscreen_pane := None\<rparr>"
  have t: "tab_ok ?t" "t_next_pane_id ?t \<noteq> - 1"
    using assms by simp_all
  show ?thesis
  proof (cases "t_active_pane ?t")
    case None
    then show ?thesis
      using t by (simp add: split_pane_def Let_def)
  next
    case (Some a)
    show ?thesis
    proof (cases "can_split a dir ?t")
      case False
      then show ?thesis
        using Some t by (simp add: split_pane_def Let_def)
    next
      case True
      let ?n = "t_next_pane_id t"
      have a: "a \<in> set (tab_pane_ids ?t)"
        using True by (rule can_split_tiled)
      then obtain pos where "find_pos a (tiled_positions ?t) = Some pos"
        using placed_iff [of a ?t] by blast
      then have pos: "find_pos a (tiled_positions (?t\<lparr>t_next_pane_id := ?n + 1\<rparr>)) = Some pos"
        by (simp add: tiled_positions_def)
      obtain c r where size: "split_size dir pos = (c, r)"
        by fastforce
      let ?u = "sync_pane_sizes (?t\<lparr>t_next_pane_id := ?n + 1,
          t_panes := AList.update ?n (pane_new ?n c r) (t_panes ?t),
          t_layout := snd (layout_split a ?n dir (t_layout ?t))\<rparr>)"
      have "tab_ok ?u"
        using t a by (intro add_tiled_ok) simp_all
      moreover have "?n \<in> tab_ids ?u"
        by (simp add: tab_ids_def sync_pane_sizes_eq AList.dom_update)
      ultimately have "tab_ok (auto_swap_layout (?u\<lparr>t_active_pane := Some ?n\<rparr>))"
        by (intro auto_swap_layout_ok tab_ok_focus) simp_all
      then show ?thesis
        using Some True pos size by (simp add: split_pane_def Let_def)
    qed
  qed
qed

text \<open>Removing the tiled pane \<open>i\<close>, which is not the only one.\<close>

lemma two_panes: "tab_ok t \<Longrightarrow> 1 < tab_pane_count t \<Longrightarrow> keys (t_panes t) - {i} \<noteq> {}"
proof -
  assume t: "tab_ok t" and n: "1 < tab_pane_count t"
  have "card (keys (t_panes t)) = tab_pane_count t"
    using distinct_card [OF tab_okD(3) [OF t]] by (simp add: tab_pane_count_def)
  then have "card (keys (t_panes t) - {i}) \<noteq> 0"
    using n by (simp add: card_Diff_singleton_if)
  then show ?thesis
    by auto
qed

lemma remove_tiled_ids:
  assumes "tab_ok t"
  shows "distinct (layout_pane_ids (snd (remove_pane i (t_layout t)))) \<and>
    set (layout_pane_ids (snd (remove_pane i (t_layout t)))) = keys (t_panes t) - {i}"
  using engine.remove_leaf_set [of "t_layout t" i] tab_okD(2,4) [OF assms] by (simp add: tab_pane_ids_def)

lemma removed_panes_ok:
  assumes "tab_ok t" and "1 < tab_pane_count t"
  shows "panes_ok (layout_pane_ids (snd (remove_pane i (t_layout t)))) (AList.delete i (t_panes t))"
  using remove_tiled_ids [OF assms(1), of i] two_panes [OF assms, of i] tab_okD(3,5) [OF assms(1)] set_delete [of i "t_panes t"]
  by (auto simp: panes_ok_def delete_keys_distinct AList.distinct_delete)

lemma first_opt_mem: "first_opt xs = Some x \<Longrightarrow> x \<in> set xs"
  by (cases xs) (simp_all add: first_opt_def)

lemma last_opt_mem: "last_opt xs = Some x \<Longrightarrow> x \<in> set xs"
  by (auto simp: last_opt_def split: if_splits)

lemma remove_tiled_ok:
  assumes "tab_ok t" and "1 < tab_pane_count t" and "\<And>j. a = Some j \<Longrightarrow> j \<in> tab_ids t - {i}"
  shows "tab_ok (sync_pane_sizes (t\<lparr>t_layout := snd (remove_pane i (t_layout t)),
      t_panes := AList.delete i (t_panes t), t_active_pane := a, t_fullscreen_pane := f\<rparr>))"
proof (rule tab_ok_sync)
  let ?t = "t\<lparr>t_layout := snd (remove_pane i (t_layout t)), t_panes := AList.delete i (t_panes t),
      t_active_pane := a, t_fullscreen_pane := f\<rparr>"
  show "panes_ok (tab_pane_ids ?t) (t_panes ?t)"
    using removed_panes_ok [OF assms(1,2)] by (simp add: tab_pane_ids_def)
  show "floats_ok (keys (t_panes ?t)) (t_floating_panes ?t)"
    using tab_okD(3,6,7) [OF assms(1)] by (auto simp: floats_ok_def delete_keys_distinct)
  show "j < t_next_pane_id ?t" if "j \<in> tab_ids ?t" for j
    using that tab_okD(8) [OF assms(1), of j] tab_okD(3) [OF assms(1)]
    by (auto simp: tab_ids_def floating_pane_ids_def delete_keys_distinct)
  show "j \<in> tab_ids ?t" if "t_active_pane ?t = Some j" for j
    using that assms(3) tab_okD(3) [OF assms(1)]
    by (auto simp: tab_ids_def floating_pane_ids_def delete_keys_distinct)
qed (use tab_okD(10,11) [OF assms(1)] in auto)

lemma close_pane_ok:
  assumes "tab_ok t"
  shows "tab_ok (snd (close_pane i t))"
proof (cases "tab_pane_count t \<le> 1 \<or> tab_pane i t = None")
  case True
  then show ?thesis
    using assms by (auto simp: close_pane_def)
next
  case False
  let ?f = "if t_fullscreen_pane t = Some i then None else t_fullscreen_pane t"
  let ?a = "if t_active_pane t = Some i then first_opt (layout_pane_ids (snd (remove_pane i (t_layout t))))
      else t_active_pane t"
  have "tab_ok (sync_pane_sizes (t\<lparr>t_layout := snd (remove_pane i (t_layout t)),
      t_panes := AList.delete i (t_panes t), t_active_pane := ?a, t_fullscreen_pane := ?f\<rparr>))"
    using False remove_tiled_ids [OF assms, of i] tab_okD(9) [OF assms]
    by (intro remove_tiled_ok [OF assms]) (auto simp: tab_ids_def dest!: first_opt_mem split: if_splits)
  moreover have "snd (close_pane i t) = auto_swap_layout (sync_pane_sizes (t\<lparr>t_layout := snd (remove_pane i (t_layout t)),
      t_panes := AList.delete i (t_panes t), t_active_pane := ?a, t_fullscreen_pane := ?f\<rparr>))"
    using False by (cases t) (auto simp: close_pane_def Let_def)
  ultimately show ?thesis
    by (simp add: auto_swap_layout_ok)
qed

end
