(* ===== verification/Mux_Tab_Steps.thy ===== *)
theory Mux_Tab_Steps
  imports Mux_Tab_Props
begin

text \<open>The remaining operations of a tab keep its invariant; commands and reachable tabs.\<close>

section \<open>Focus\<close>

lemma mset_remove_at: "k < length xs \<Longrightarrow> mset xs = add_mset (xs ! k) (mset (remove_at k xs))"
  unfolding remove_at_def by (subst id_take_nth_drop [of k xs]) simp_all

lemma tab_ids_focus [simp]:
  "tab_ids (t\<lparr>t_active_pane := a\<rparr>) = tab_ids t" "tab_ids (t\<lparr>t_fullscreen_pane := f\<rparr>) = tab_ids t"
  "tab_ids (t\<lparr>t_show_floating := b\<rparr>) = tab_ids t"
  by (simp_all add: tab_ids_def floating_pane_ids_def)

lemma tab_ok_floats:
  assumes "tab_ok t" and "mset (map fp_id fs) = mset (map fp_id (t_floating_panes t))"
  shows "tab_ok (t\<lparr>t_floating_panes := fs\<rparr>)"
  using assms mset_eq_imp_distinct_iff [OF assms(2)] mset_eq_setD [OF assms(2)]
  by (simp add: tab_ok_def floats_ok_def tab_ids_def floating_pane_ids_def tab_pane_ids_def tiled_positions_def)

lemma find_floating_idx_Some:
  "find_floating_idx i t = Some k \<Longrightarrow> k < length (t_floating_panes t) \<and> fp_id (t_floating_panes t ! k) = i"
  by (auto simp: find_floating_idx_def dest!: position_Some)

lemma find_floating_mem: "find_floating i t \<noteq> None \<longleftrightarrow> i \<in> set (floating_pane_ids t)"
  by (auto simp: find_floating_def floating_pane_ids_def find_None_iff)

lemma bring_floating_to_front_ok: "tab_ok t \<Longrightarrow> tab_ok (snd (bring_floating_to_front i t))"
  using mset_remove_at [of _ "t_floating_panes t"]
  by (auto simp: bring_floating_to_front_def intro!: tab_ok_floats dest!: find_floating_idx_Some split: option.split)

lemma send_floating_to_back_ok: "tab_ok t \<Longrightarrow> tab_ok (snd (send_floating_to_back i t))"
  using mset_remove_at [of _ "t_floating_panes t"]
  by (auto simp: send_floating_to_back_def intro!: tab_ok_floats dest!: find_floating_idx_Some split: option.split)

lemma mset_swap_at: "i < length xs \<Longrightarrow> j < length xs \<Longrightarrow> mset (swap_at i j xs) = mset xs"
  by (simp add: swap_at_def mset_swap)

lemma swap_floating_z_order_ok: "tab_ok t \<Longrightarrow> tab_ok (snd (swap_floating_z_order a b t))"
  by (auto simp: swap_floating_z_order_def mset_swap_at intro!: tab_ok_floats dest!: find_floating_idx_Some
      split: option.split)

lemma in_tab_ids: "i \<in> keys (t_panes t) \<Longrightarrow> i \<in> tab_ids t" "i \<in> set (floating_pane_ids t) \<Longrightarrow> i \<in> tab_ids t"
  by (simp_all add: tab_ids_def)

lemma tab_ok_focus_on: "tab_ok t \<Longrightarrow> i \<in> tab_ids t \<Longrightarrow> tab_ok (t\<lparr>t_active_pane := Some i\<rparr>)"
  by (rule tab_ok_focus) simp_all

lemma focus_pane_ok: "tab_ok t \<Longrightarrow> tab_ok (snd (focus_pane i t))"
  by (simp add: focus_pane_def tab_pane_iff find_floating_mem tab_ok_focus_on in_tab_ids bring_floating_to_front_ok
      del: not_None_eq)

lemma focus_cycle_mem: "tab_ok t \<Longrightarrow> i \<in> set (focus_cycle_ids t) \<Longrightarrow> i \<in> tab_ids t"
  using tab_okD(4) [of t]
  by (auto simp: focus_cycle_ids_def tab_ids_def floating_pane_ids_def tab_pane_ids_def split: if_splits)

lemma focus_cycled_ok: "tab_ok t \<Longrightarrow> i \<in> tab_ids t \<Longrightarrow> tab_ok (focus_cycled i t)"
  by (auto simp: focus_cycled_def Let_def intro!: bring_floating_to_front_ok tab_ok_focus)

lemma focus_next_ok: "tab_ok t \<Longrightarrow> tab_ok (snd (focus_next t))"
  by (auto simp: focus_next_def Let_def dest: first_opt_mem split: option.split
      intro!: focus_cycled_ok tab_ok_focus focus_cycle_mem nth_mem)

lemma focus_prev_ok: "tab_ok t \<Longrightarrow> tab_ok (snd (focus_prev t))"
  by (auto simp: focus_prev_def Let_def Option.bind_eq_Some_conv dest: last_opt_mem dest!: position_Some split: option.split
      intro!: focus_cycled_ok tab_ok_focus focus_cycle_mem nth_mem)

text \<open>The pane \<open>find_neighbor_in_direction\<close> finds is a tiled pane other than the active one.\<close>

lemma nearest_cases:
  "nearest dir a ap best (j, pos) = best \<or>
   (\<exists>d. nearest dir a ap best (j, pos) = Some (j, d) \<and> j \<noteq> a \<and> is_candidate dir pos ap)"
  by (cases best) (auto simp: nearest_def Let_def)

lemma foldl_nearest:
  assumes "foldl (nearest dir a ap) best ps = Some (i, d)"
  shows "best = Some (i, d) \<or> (i \<noteq> a \<and> (\<exists>pos. (i, pos) \<in> set ps \<and> is_candidate dir pos ap))"
  using assms
proof (induction ps arbitrary: best)
  case (Cons p ps)
  obtain j pos where p: "p = (j, pos)" by (cases p)
  have "nearest dir a ap best p = Some (i, d) \<or> (i \<noteq> a \<and> (\<exists>pos. (i, pos) \<in> set ps \<and> is_candidate dir pos ap))"
    using Cons by simp
  then show ?case
    using nearest_cases [of dir a ap best j pos] by (auto simp: p)
qed simp

lemma neighbor_tiled:
  assumes "find_neighbor_in_direction dir t = Some i"
  shows "i \<in> set (tab_pane_ids t) \<and> t_active_pane t \<noteq> Some i"
proof -
  obtain a ap d where a: "t_active_pane t = Some a"
      and "foldl (nearest dir a ap) None (tiled_positions t) = Some (i, d)"
    using assms by (auto simp: find_neighbor_in_direction_def Option.bind_eq_Some_conv)
  then obtain pos where "i \<noteq> a" "(i, pos) \<in> set (tiled_positions t)"
    using foldl_nearest by blast
  moreover have "i \<in> keys (tiled_positions t)"
    using calculation(2) by force
  ultimately show ?thesis
    using a by (simp add: tiled_positions_def tab_pane_ids_def engine.place_all)
qed

lemma focus_direction_ok: "tab_ok t \<Longrightarrow> tab_ok (snd (focus_direction_op dir t))"
  by (auto simp: focus_direction_op_def dest!: neighbor_tiled intro!: tab_ok_focus [of "t\<lparr>t_fullscreen_pane := None\<rparr>", simplified]
      tiled_in_tab_ids split: option.split)

lemma toggle_fullscreen_ok: "tab_ok t \<Longrightarrow> tab_ok (snd (toggle_fullscreen t))"
  by (auto simp: toggle_fullscreen_def split: option.split)

lemma toggle_fullscreen_by_id_ok: "tab_ok t \<Longrightarrow> tab_ok (snd (toggle_fullscreen_by_id i t))"
  using tab_pane_iff [of i t] by (auto simp: toggle_fullscreen_by_id_def intro!: tab_ok_focus_on in_tab_ids(1))

section \<open>Layout changes\<close>

lemma max_by_area_mem: "max_by_area ps = Some p \<Longrightarrow> p \<in> set ps"
  by (induction ps arbitrary: p) (auto split: option.splits if_splits)

lemma split_largest_pane_ok:
  assumes "tab_ok t" and "t_next_pane_id t \<noteq> - 1"
  shows "tab_ok (snd (split_largest_pane t))"
proof -
  obtain i pos where "max_by_area (tiled_positions t) = None \<or> max_by_area (tiled_positions t) = Some (i, pos)"
    by (cases "max_by_area (tiled_positions t)") auto
  then show ?thesis
  proof
    assume "max_by_area (tiled_positions t) = None"
    then show ?thesis
      using assms(1) by (simp add: split_largest_pane_def tiled_positions_def)
  next
    assume m: "max_by_area (tiled_positions t) = Some (i, pos)"
    let ?d = "if pp_rows pos \<le> pp_cols pos then Vertical else Horizontal"
    let ?t = "t\<lparr>t_fullscreen_pane := None, t_active_pane := Some i\<rparr>"
    have "i \<in> keys (tiled_positions t)"
      using max_by_area_mem [OF m] by force
    then have "i \<in> tab_ids t"
      using assms(1) by (simp add: tiled_positions_def tab_pane_ids_def engine.place_all tiled_in_tab_ids)
    then have "tab_ok ?t"
      using assms(1) by (intro tab_ok_focus) simp_all
    then have ok: "tab_ok (snd (split_pane ?d ?t))"
      using assms(2) by (intro split_pane_ok) simp_all
    have restored: "tab_ok (snd (split_pane ?d ?t)\<lparr>t_active_pane := t_active_pane t\<rparr>)" if "fst (split_pane ?d ?t) = None"
    proof -
      have "tab_ids (snd (split_pane ?d ?t)) = tab_ids t"
        using that by (auto simp: split_pane_def Let_def tab_ids_def floating_pane_ids_def split: option.splits prod.splits if_splits)
      then show ?thesis
        using ok tab_okD(9) [OF assms(1)] by (intro tab_ok_focus) simp_all
    qed
    have m': "max_by_area (tiled_positions (t\<lparr>t_fullscreen_pane := None\<rparr>)) = Some (i, pos)"
      using m by (simp add: tiled_positions_def)
    show ?thesis
      using ok restored by (simp add: split_largest_pane_def Let_def m' case_prod_beta)
  qed
qed

text \<open>An operation that rearranges the tiled panes and synchronises the sizes.\<close>

lemma rearranged_ok:
  assumes "tab_ok t" and "mset (layout_pane_ids l) = mset (tab_pane_ids t)"
  shows "tab_ok (sync_pane_sizes (t\<lparr>t_layout := l\<rparr>))"
proof -
  have "distinct (layout_pane_ids l)" "set (layout_pane_ids l) = set (tab_pane_ids t)" "layout_pane_ids l \<noteq> []"
    using tab_okD(1,2) [OF assms(1)] assms(2) by (metis mset_eq_imp_distinct_iff, metis mset_eq_setD, auto)
  then have "panes_ok (layout_pane_ids l) (t_panes t)"
    using assms(1) by (simp add: tab_ok_def panes_ok_def)
  then show ?thesis
    using assms(1) by (auto intro!: tab_ok_sync simp: tab_pane_ids_def) (auto simp: tab_ok_defs)
qed

lemma tab_resize_ok: "tab_ok t \<Longrightarrow> tab_ok (tab_resize c r t)"
  unfolding tab_resize_def by (rule tab_ok_sync) (auto simp: tab_ok_defs)

lemma resize_pane_ok: "tab_ok t \<Longrightarrow> tab_ok (snd (resize_pane i dir n t))"
proof -
  assume t: "tab_ok t"
  have adjust: "tab_ok (sync_pane_sizes (t\<lparr>t_layout := snd (layout_adjust_ratio i ax d (t_layout t))\<rparr>))" for ax d
    using t by (rule rearranged_ok) (simp add: tab_pane_ids_def)
  have same: "snd (layout_adjust_ratio i ax d (t_layout t)) = t_layout t"
    if "\<not> fst (layout_adjust_ratio i ax d (t_layout t))" for ax d
  proof -
    have "snd (node_adjust_ratio i ax d m) = m" if "\<not> fst (node_adjust_ratio i ax d m)" for m
      using that by (induction m) (auto simp: Let_def case_prod_beta split: if_splits)
    then show ?thesis
      using that by (auto simp: layout_adjust_ratio_def case_prod_beta split: option.splits)
  qed
  show ?thesis
    using t adjust same
    by (auto simp: resize_pane_def Let_def case_prod_beta split: option.split f32.split split_direction.split)
qed

lemma swap_leaves_found:
  assumes "a \<in> set (layout_pane_ids e)" and "b \<in> set (layout_pane_ids e)" and "a \<noteq> b"
  shows "fst (layout_swap_leaves a b e)"
proof -
  obtain n where n: "le_root e = Some n" "a \<in> set (node_pane_ids n)" "b \<in> set (node_pane_ids n)"
    using assms(1,2) by (cases "le_root e") (simp_all add: layout_pane_ids_def)
  have "b \<in># mset (replace1 a (- 1) (node_pane_ids n))"
    using n(2,3) assms(3) by (simp add: mset_replace1 in_diff_count)
  then show ?thesis
    using n by (simp add: layout_swap_leaves_def node_swap_leaves_def Let_def case_prod_beta replace_leaf_ids)
qed

lemma swap_panes_ok:
  assumes "tab_ok t" and "a \<in> set (tab_pane_ids t)" and "b \<in> set (tab_pane_ids t)" and "a \<noteq> b"
  shows "fst (swap_panes a b t) \<and> tab_ok (snd (swap_panes a b t))"
  using swap_leaves_found [of a "t_layout t" b] assms swap_leaves_mset [of a b "t_layout t"]
  by (auto simp: swap_panes_def tab_pane_ids_def case_prod_beta Let_def intro!: rearranged_ok)

lemma move_active_pane_ok: "tab_ok t \<Longrightarrow> tab_ok (snd (move_active_pane dir t))"
proof (cases "find_neighbor_in_direction dir t")
  case None
  then show "tab_ok t \<Longrightarrow> ?thesis"
    by (simp add: move_active_pane_def split: option.split)
next
  case (Some b)
  assume t: "tab_ok t"
  obtain a p where a: "t_active_pane t = Some a" "find_pos a (tiled_positions t) = Some p"
    using Some by (auto simp: find_neighbor_in_direction_def Option.bind_eq_Some_conv)
  then have "a \<in> set (tab_pane_ids t)"
    using placed_iff [of a t] by blast
  then show ?thesis
    using a Some neighbor_tiled [OF Some] swap_panes_ok [OF t, of a b]
    by (auto simp: move_active_pane_def)
qed

lemma move_pane_by_id_ok:
  assumes "tab_ok t"
  shows "tab_ok (snd (move_pane_by_id i dir t))"
proof -
  let ?t = "t\<lparr>t_active_pane := Some i\<rparr>"
  show ?thesis
  proof (cases "find_neighbor_in_direction dir ?t")
    case None
    then have "move_active_pane dir ?t = (False, ?t)"
      by (simp add: move_active_pane_def)
    then show ?thesis
      using assms by (simp add: move_pane_by_id_def Let_def)
  next
    case (Some b)
    then obtain p where "find_pos i (tiled_positions ?t) = Some p"
      by (auto simp: find_neighbor_in_direction_def Option.bind_eq_Some_conv)
    then have i: "i \<in> set (tab_pane_ids t)"
      using placed_iff [of i ?t] by (auto simp: tab_pane_ids_def)
    then have "tab_ok ?t"
      using assms by (intro tab_ok_focus_on tiled_in_tab_ids)
    moreover have "move_active_pane dir ?t = swap_panes i b ?t"
      using Some by (simp add: move_active_pane_def)
    ultimately show ?thesis
      using i neighbor_tiled [OF Some] swap_panes_ok [of ?t i b]
      by (auto simp: move_pane_by_id_def Let_def case_prod_beta tab_pane_ids_def)
  qed
qed

lemma move_pane_backwards_ok:
  assumes "tab_ok t"
  shows "tab_ok (snd (move_pane_backwards i t))"
proof (cases "position (\<lambda>j. j = i) (layout_pane_ids (t_layout t))")
  case None
  then show ?thesis
    using assms by (simp add: move_pane_backwards_def)
next
  case (Some pos)
  let ?ids = "tab_pane_ids t"
  have pos: "pos < length ?ids" "?ids ! pos = i"
    using position_Some [OF Some] by (simp_all add: tab_pane_ids_def)
  then have "?ids ! (pos - 1) \<noteq> i" if "0 < pos"
    using that nth_eq_iff_index_eq [OF tab_okD(2) [OF assms], of "pos - 1" pos] by auto
  then show ?thesis
    using Some pos assms swap_panes_ok [OF assms, of i "?ids ! (pos - 1)"]
    by (auto simp: move_pane_backwards_def Let_def tab_pane_ids_def)
qed

section \<open>Floating panes\<close>

lemma fresh_float_ok:
  assumes "tab_ok t" and "t_next_pane_id t \<noteq> - 1" and "fp_id f = t_next_pane_id t"
  shows "tab_ok (push_floating f (t\<lparr>t_next_pane_id := t_next_pane_id t + 1\<rparr>))"
proof -
  have fresh: "fp_id f \<notin> keys (t_panes t)" "fp_id f \<notin> set (map fp_id (t_floating_panes t))"
    using next_id_fresh [OF assms(1)] by (simp_all add: tab_ids_def floating_pane_ids_def assms(3))
  have less: "i < t_next_pane_id t + 1" if "i \<in> tab_ids t \<or> i = fp_id f" for i
    using that tab_okD(8) [OF assms(1), of i] assms(2,3) by (auto intro: word_less_Suc)
  show ?thesis
    using assms(1) fresh less
    by (auto simp: push_floating_def tab_ok_def floats_ok_def tab_ids_def floating_pane_ids_def tab_pane_ids_def
        tiled_positions_def del: imageE)
qed

lemma new_floating_ok:
  assumes "tab_ok t" and "t_next_pane_id t \<noteq> - 1"
  shows "tab_ok (snd (new_floating_pane_with_coords x y w h t))"
  using fresh_float_ok [OF assms] by (simp add: new_floating_pane_with_coords_def Let_def)

lemma new_floating_default_ok:
  assumes "tab_ok t" and "t_next_pane_id t \<noteq> - 1"
  shows "tab_ok (snd (new_floating_pane t))"
  using new_floating_ok [OF assms] by (simp add: new_floating_pane_def split: prod.split)

lemma first_tiled_in: "tab_ok t \<Longrightarrow> first_opt (layout_pane_ids (t_layout t)) = Some i \<Longrightarrow> i \<in> tab_ids t"
  using tiled_in_tab_ids [of t i] by (auto simp: tab_pane_ids_def dest: first_opt_mem)

lemma toggle_floating_ok: "tab_ok t \<Longrightarrow> tab_ok (toggle_floating_panes t)"
proof -
  assume t: "tab_ok t"
  have "fp_id f \<in> tab_ids t" if "last_opt (t_floating_panes t) = Some f" for f
    using last_opt_mem [OF that] by (auto intro: in_tab_ids(2) simp: floating_pane_ids_def)
  then show ?thesis
    using t by (auto simp: toggle_floating_panes_def Let_def first_tiled_in intro!: tab_ok_focus split: option.split)
qed

text \<open>Dropping the floating pane at an index.\<close>

lemma drop_float_ids:
  assumes "tab_ok t" and "find_floating_idx i t = Some k"
  shows "set (map fp_id (remove_at k (t_floating_panes t))) = set (floating_pane_ids t) - {i} \<and>
    distinct (map fp_id (remove_at k (t_floating_panes t)))"
proof -
  let ?fs = "t_floating_panes t"
  have "mset (map fp_id ?fs) = add_mset i (mset (map fp_id (remove_at k ?fs)))"
    using mset_remove_at [of k ?fs] find_floating_idx_Some [OF assms(2)] by simp
  then have m: "mset (map fp_id ?fs) = mset (i # map fp_id (remove_at k ?fs))"
    by simp
  have "distinct (i # map fp_id (remove_at k ?fs))"
    using tab_okD(6) [OF assms(1)] mset_eq_imp_distinct_iff [OF m] by blast
  then show ?thesis
    using mset_eq_setD [OF m] by (auto simp: floating_pane_ids_def)
qed

lemma drop_float_ok:
  assumes "tab_ok t" and "find_floating_idx i t = Some k" and "\<And>j. a = Some j \<Longrightarrow> j \<in> tab_ids t - {i}"
  shows "tab_ok (t\<lparr>t_floating_panes := remove_at k (t_floating_panes t), t_active_pane := a\<rparr>)"
proof -
  have "i \<notin> keys (t_panes t)"
  proof -
    have "i \<in> set (map fp_id (t_floating_panes t))"
      using find_floating_idx_Some [OF assms(2)] by force
    then show ?thesis
      using tab_okD(7) [OF assms(1)] by blast
  qed
  then show ?thesis
    using assms(1,3) drop_float_ids [OF assms(1,2)]
    by (auto simp: tab_ok_def floats_ok_def tab_ids_def floating_pane_ids_def tab_pane_ids_def tiled_positions_def
        del: imageE)
qed

lemma close_floating_ok: "tab_ok t \<Longrightarrow> tab_ok (snd (close_floating_pane i t))"
proof (cases "find_floating_idx i t")
  case None
  then show "tab_ok t \<Longrightarrow> ?thesis"
    by (simp add: close_floating_pane_def)
next
  case (Some k)
  assume t: "tab_ok t"
  let ?fs = "remove_at k (t_floating_panes t)"
  let ?a = "if t_active_pane t = Some i then (case last_opt ?fs of Some f \<Rightarrow> Some (fp_id f)
      | None \<Rightarrow> first_opt (layout_pane_ids (t_layout t))) else t_active_pane t"
  have tiled: "j \<in> tab_ids t - {i}" if "first_opt (layout_pane_ids (t_layout t)) = Some j" for j
  proof -
    have "j \<in> keys (t_panes t)"
      using first_opt_mem [OF that] tab_okD(4) [OF t] by (simp add: tab_pane_ids_def)
    moreover have "i \<in> set (map fp_id (t_floating_panes t))"
      using find_floating_idx_Some [OF Some] by force
    ultimately show ?thesis
      using tab_okD(7) [OF t] in_tab_ids(1) by blast
  qed
  have float: "fp_id f \<in> tab_ids t - {i}" if "last_opt ?fs = Some f" for f
    using last_opt_mem [OF that] drop_float_ids [OF t Some] in_tab_ids(2) [of _ t] by auto
  have "tab_ok (t\<lparr>t_floating_panes := ?fs, t_active_pane := ?a\<rparr>)"
    using t Some tiled float tab_okD(9) [OF t]
    by (intro drop_float_ok) (auto split: if_splits option.splits)
  moreover have "snd (close_floating_pane i t) = t\<lparr>t_floating_panes := ?fs, t_active_pane := ?a\<rparr>"
    using Some by (auto simp: close_floating_pane_def Let_def split: option.split)
  ultimately show ?thesis
    by simp
qed

lemma embed_floating_ok: "tab_ok t \<Longrightarrow> tab_ok (snd (embed_floating_pane i t))"
proof (cases "find_floating_idx i t")
  case None
  then show "tab_ok t \<Longrightarrow> ?thesis"
    by (simp add: embed_floating_pane_def)
next
  case (Some k)
  assume t: "tab_ok t"
  let ?p = "fp_pane (t_floating_panes t ! k)"
  let ?u = "t\<lparr>t_floating_panes := remove_at k (t_floating_panes t), t_panes := AList.update i ?p (t_panes t),
      t_layout := add_pane i (t_layout t), t_active_pane := Some i\<rparr>"
  have p: "pn_id ?p = i"
    using find_floating_idx_Some [OF Some] by simp
  have "i \<in> set (map fp_id (t_floating_panes t))"
    using find_floating_idx_Some [OF Some] by force
  then have i: "i \<notin> keys (t_panes t)" "i \<in> set (floating_pane_ids t)"
    using tab_okD(7) [OF t] by (auto simp: floating_pane_ids_def)
  have ids: "layout_pane_ids (add_pane i (t_layout t)) = tab_pane_ids t @ [i]"
    using add_pane_ids [of "t_layout t" i] tab_okD(2) [OF t] by (simp add: tab_pane_ids_def)
  have all: "tab_ids ?u = tab_ids t"
    using drop_float_ids [OF t Some] i by (auto simp: tab_ids_def floating_pane_ids_def AList.dom_update)
  have "tab_ok (sync_pane_sizes ?u)"
  proof (rule tab_ok_sync)
    have "tab_pane_ids ?u = tab_pane_ids t @ [i]"
      by (simp add: tab_pane_ids_def ids [unfolded tab_pane_ids_def])
    moreover have "t_panes ?u = t_panes t @ [(i, ?p)]"
      using i(1) by (simp add: update_new)
    ultimately show "panes_ok (tab_pane_ids ?u) (t_panes ?u)"
      using tab_okD(2-5) [OF t] i(1) by (simp add: panes_ok_def p) auto
    show "floats_ok (keys (t_panes ?u)) (t_floating_panes ?u)"
      using tab_okD(7) [OF t] drop_float_ids [OF t Some]
      by (auto simp: floats_ok_def AList.dom_update floating_pane_ids_def del: imageE)
    show "j < t_next_pane_id ?u" if "j \<in> tab_ids ?u" for j
      using that [unfolded all] tab_okD(8) [OF t, of j] by simp
    show "j \<in> tab_ids ?u" if "t_active_pane ?u = Some j" for j
      unfolding all using that i(2) by (simp add: in_tab_ids)
  qed (use tab_okD(10,11) [OF t] in auto)
  moreover have "snd (embed_floating_pane i t) = sync_pane_sizes ?u"
    using Some by (simp add: embed_floating_pane_def Let_def sync_pane_sizes_eq tiled_positions_def)
  ultimately show ?thesis
    by simp
qed

lemma float_pane_ok:
  assumes t: "tab_ok t"
  shows "tab_ok (snd (float_pane i t))"
proof (cases "tab_pane i t = None \<or> tab_pane_count t \<le> 1")
  case True
  then show ?thesis
    using t by (auto simp: float_pane_def split: option.split)
next
  case False
  then obtain p where p: "tab_pane i t = Some p"
    by auto
  have i: "i \<in> keys (t_panes t)" "pn_id p = i"
    using p tab_okD(5) [OF t] by (auto simp: tab_pane_def dest: map_of_SomeD intro: rev_image_eqI)
  let ?u = "sync_pane_sizes (t\<lparr>t_layout := snd (remove_pane i (t_layout t)),
      t_panes := AList.delete i (t_panes t), t_active_pane := None, t_fullscreen_pane := t_fullscreen_pane t\<rparr>)"
  have u: "tab_ok ?u"
    using False by (intro remove_tiled_ok [OF t]) simp_all
  have gone: "i \<notin> keys (t_panes ?u)" "i \<notin> set (map fp_id (t_floating_panes ?u))" "i < t_next_pane_id ?u"
    using tab_okD(3,7) [OF t] i tab_okD(8) [OF t in_tab_ids(1)]
    by (auto simp: sync_pane_sizes_eq delete_keys_distinct)
  have push: "tab_ok (push_floating f ?u)" if "fp_id f = i" for f
    using u gone that
    by (auto simp: push_floating_def tab_ok_def floats_ok_def tab_ids_def floating_pane_ids_def tab_pane_ids_def
        tiled_positions_def del: imageE)
  have order: "t\<lparr>t_panes := ps, t_layout := l\<rparr> = t\<lparr>t_layout := l, t_panes := ps\<rparr>" for ps l
    by simp
  obtain x y w h where d: "default_float t = (x, y, w, h)"
    by (cases "default_float t")
  have d': "default_float (t\<lparr>t_layout := l, t_panes := ps\<rparr>) = (x, y, w, h)" for ps l
    using d by (simp add: default_float_def)
  define f where "f = \<lparr>fp_pane = pane_resize w h p, fp_x = x, fp_y = y, fp_width = w, fp_height = h, fp_visible = True\<rparr>"
  have "snd (float_pane i t) = push_floating f ?u"
    using False p
    by (simp add: float_pane_def Let_def order d' f_def push_floating_def sync_pane_sizes_eq tiled_positions_def i(2))
  moreover have "fp_id f = i"
    by (simp add: f_def i(2))
  ultimately show ?thesis
    using push by simp
qed

lemma update_floating_ok:
  assumes "tab_ok t" and "\<And>f. fp_id (g f) = fp_id f"
  shows "tab_ok (snd (update_floating i g t))"
proof -
  have "map fp_id ((t_floating_panes t)[k := g (t_floating_panes t ! k)]) = map fp_id (t_floating_panes t)" for k
  proof (rule nth_equalityI)
    fix j
    assume "j < length (map fp_id ((t_floating_panes t)[k := g (t_floating_panes t ! k)]))"
    then show "map fp_id ((t_floating_panes t)[k := g (t_floating_panes t ! k)]) ! j = map fp_id (t_floating_panes t) ! j"
      by (cases "k = j") (simp_all add: assms(2))
  qed simp
  then show ?thesis
    using assms(1) by (auto simp: update_floating_def intro!: tab_ok_floats split: option.split)
qed

lemma floating_geometry_ok:
  "tab_ok t \<Longrightarrow> tab_ok (snd (resize_floating_pane i w h t))"
  "tab_ok t \<Longrightarrow> tab_ok (snd (move_floating_pane i x y t))"
  by (simp_all add: resize_floating_pane_def move_floating_pane_def Let_def update_floating_ok)

section \<open>Operations on one pane\<close>

lemma on_pane_ok:
  assumes t: "tab_ok t" and f: "\<And>p. pn_id (f p) = pn_id p \<and> pn_size (f p) = pn_size p"
  shows "tab_ok (snd (on_pane i f t))"
proof -
  have keys: "keys (AList.map_entry i f (t_panes t)) = keys (t_panes t)"
    by (metis list.set_map map_entry_keys)
  have "\<forall>(j, p) \<in> set (AList.map_entry i f (t_panes t)). pn_id p = j"
    using tab_okD(5) [OF t] f by (intro map_entry_all) auto
  moreover have "map_option pn_size (map_of (AList.map_entry i f (t_panes t)) j) = map_option pn_size (map_of (t_panes t) j)" for j
    using f by (cases "map_of (t_panes t) j"; cases "j = i") (simp_all add: map_entry_map_of)
  then have "sizes_ok ps (AList.map_entry i f (t_panes t)) = sizes_ok ps (t_panes t)" for ps
    by (simp add: sizes_ok_def)
  ultimately show ?thesis
    using t keys
    by (simp add: on_pane_def update_pane_def tab_ok_def panes_ok_def tab_ids_def tab_pane_ids_def
        floating_pane_ids_def tiled_positions_def)
qed

lemma one_pane_ops_ok:
  assumes "tab_ok t"
  shows "tab_ok (snd (tab_scroll_up i n t))" "tab_ok (snd (tab_scroll_down i n t))"
    "tab_ok (snd (tab_scroll_to_top i t))" "tab_ok (snd (tab_scroll_to_bottom i t))"
    "tab_ok (snd (clear_pane i t))"
  using assms
  by (simp_all add: tab_scroll_up_def tab_scroll_down_def tab_scroll_to_top_def tab_scroll_to_bottom_def
      clear_pane_def on_pane_ok pane_scroll_up_def pane_scroll_down_def pane_scroll_to_top_def
      pane_scroll_to_bottom_def set_cleared_def)

lemma tab_new_ok: "tab_ok (tab_new i name cols rows)"
proof -
  have "layout_positions (add_pane 0 layout_new) cols rows
      = [(0, \<lparr>pp_col = 0, pp_row = 0, pp_cols = cols, pp_rows = rows\<rparr>)]"
    by (simp add: layout_positions_def add_pane_def layout_new_def)
  then show ?thesis
    by (simp add: tab_ok_def tab_new_def panes_ok_def floats_ok_def sizes_ok_def tab_ids_def tab_pane_ids_def
        floating_pane_ids_def tiled_positions_def add_pane_ids pane_size_new_def pane_new_def)
qed

section \<open>Commands and reachable tabs\<close>

text \<open>Every call that changes a tab.\<close>

datatype tab_command =
    CSplit split_direction | CSplitLargest | CClose pane_id | CFocus pane_id | CFocusNext | CFocusPrev
  | CFocusDirection focus_direction | CResize nat nat | CResizePane pane_id resize_direction int
  | CFullscreen | CFullscreenById pane_id
  | CRegisterSwap rstr "nat option" "nat option" layout_node | CNextSwap | CPrevSwap | CAutoSwap
  | CNewFloating | CNewFloatingAt nat nat nat nat | CToggleFloating | CCloseFloating pane_id
  | CEmbed pane_id | CFloat pane_id | CResizeFloating pane_id nat nat | CMoveFloating pane_id nat nat
  | CToFront pane_id | CToBack pane_id | CSwapZ pane_id pane_id
  | CMove focus_direction | CMoveById pane_id focus_direction | CMoveBackwards pane_id
  | CScrollUp pane_id nat | CScrollDown pane_id nat | CScrollTop pane_id | CScrollBottom pane_id
  | CClear pane_id | CRename rstr | CUndoRename | CPixels nat nat | CToggleSync

fun tab_exec :: "tab_command \<Rightarrow> tab \<Rightarrow> tab" where
  "tab_exec (CSplit d) t = snd (split_pane d t)"
| "tab_exec CSplitLargest t = snd (split_largest_pane t)"
| "tab_exec (CClose i) t = snd (close_pane i t)"
| "tab_exec (CFocus i) t = snd (focus_pane i t)"
| "tab_exec CFocusNext t = snd (focus_next t)"
| "tab_exec CFocusPrev t = snd (focus_prev t)"
| "tab_exec (CFocusDirection d) t = snd (focus_direction_op d t)"
| "tab_exec (CResize c r) t = tab_resize c r t"
| "tab_exec (CResizePane i d n) t = snd (resize_pane i d n t)"
| "tab_exec CFullscreen t = snd (toggle_fullscreen t)"
| "tab_exec (CFullscreenById i) t = snd (toggle_fullscreen_by_id i t)"
| "tab_exec (CRegisterSwap name mn mx l) t = register_swap_layout name mn mx l t"
| "tab_exec CNextSwap t = next_swap_layout t"
| "tab_exec CPrevSwap t = prev_swap_layout t"
| "tab_exec CAutoSwap t = auto_swap_layout t"
| "tab_exec CNewFloating t = snd (new_floating_pane t)"
| "tab_exec (CNewFloatingAt x y w h) t = snd (new_floating_pane_with_coords x y w h t)"
| "tab_exec CToggleFloating t = toggle_floating_panes t"
| "tab_exec (CCloseFloating i) t = snd (close_floating_pane i t)"
| "tab_exec (CEmbed i) t = snd (embed_floating_pane i t)"
| "tab_exec (CFloat i) t = snd (float_pane i t)"
| "tab_exec (CResizeFloating i w h) t = snd (resize_floating_pane i w h t)"
| "tab_exec (CMoveFloating i x y) t = snd (move_floating_pane i x y t)"
| "tab_exec (CToFront i) t = snd (bring_floating_to_front i t)"
| "tab_exec (CToBack i) t = snd (send_floating_to_back i t)"
| "tab_exec (CSwapZ a b) t = snd (swap_floating_z_order a b t)"
| "tab_exec (CMove d) t = snd (move_active_pane d t)"
| "tab_exec (CMoveById i d) t = snd (move_pane_by_id i d t)"
| "tab_exec (CMoveBackwards i) t = snd (move_pane_backwards i t)"
| "tab_exec (CScrollUp i n) t = snd (tab_scroll_up i n t)"
| "tab_exec (CScrollDown i n) t = snd (tab_scroll_down i n t)"
| "tab_exec (CScrollTop i) t = snd (tab_scroll_to_top i t)"
| "tab_exec (CScrollBottom i) t = snd (tab_scroll_to_bottom i t)"
| "tab_exec (CClear i) t = snd (clear_pane i t)"
| "tab_exec (CRename n) t = tab_rename n t"
| "tab_exec CUndoRename t = snd (tab_undo_rename t)"
| "tab_exec (CPixels w h) t = set_pixel_dimensions w h t"
| "tab_exec CToggleSync t = snd (toggle_sync t)"

text \<open>
  What the command needs: a free pane number for a new pane (the counter wraps after \<open>2^32 - 1\<close> of
  them), a swap layout that fits the pane counts it is registered for.
\<close>

fun command_ok :: "tab_command \<Rightarrow> tab \<Rightarrow> bool" where
  "command_ok (CSplit d) t = (t_next_pane_id t \<noteq> - 1)"
| "command_ok CSplitLargest t = (t_next_pane_id t \<noteq> - 1)"
| "command_ok CNewFloating t = (t_next_pane_id t \<noteq> - 1)"
| "command_ok (CNewFloatingAt x y w h) t = (t_next_pane_id t \<noteq> - 1)"
| "command_ok (CRegisterSwap name mn mx l) t =
     (length (node_pane_ids l) \<le> max 1 (case mn of None \<Rightarrow> 1 | Some m \<Rightarrow> m))"
| "command_ok _ t = True"

lemma tab_exec_ok: "tab_ok t \<Longrightarrow> command_ok c t \<Longrightarrow> tab_ok (tab_exec c t)"
  by (cases c)
     (simp_all add: split_pane_ok split_largest_pane_ok close_pane_ok focus_pane_ok focus_next_ok focus_prev_ok
       focus_direction_ok tab_resize_ok resize_pane_ok toggle_fullscreen_ok toggle_fullscreen_by_id_ok
       register_swap_layout_ok next_swap_layout_ok prev_swap_layout_ok auto_swap_layout_ok new_floating_default_ok
       new_floating_ok toggle_floating_ok close_floating_ok embed_floating_ok float_pane_ok floating_geometry_ok
       bring_floating_to_front_ok send_floating_to_back_ok swap_floating_z_order_ok move_active_pane_ok
       move_pane_by_id_ok move_pane_backwards_ok one_pane_ops_ok tab_rename_def tab_undo_rename_def
       set_pixel_dimensions_def toggle_sync_def split: option.split)

inductive tab_reachable :: "tab \<Rightarrow> bool" where
  new: "tab_reachable (tab_new i name cols rows)"
| step: "tab_reachable t \<Longrightarrow> command_ok c t \<Longrightarrow> tab_reachable (tab_exec c t)"

lemma tab_reachable_ok: "tab_reachable t \<Longrightarrow> tab_ok t"
  by (induction rule: tab_reachable.induct) (simp_all add: tab_new_ok tab_exec_ok)

section \<open>Sequences of commands\<close>

text \<open>A command raises the counter of pane numbers by at most one.\<close>

lemma next_sync [frame_simps]: "t_next_pane_id (sync_pane_sizes t) = t_next_pane_id t"
  by (simp add: sync_pane_sizes_eq)

lemma next_swap_layouts [frame_simps]:
  "t_next_pane_id (apply_swap_layout_at k t) = t_next_pane_id t" "t_next_pane_id (auto_swap_layout t) = t_next_pane_id t"
  "t_next_pane_id (next_swap_layout t) = t_next_pane_id t" "t_next_pane_id (prev_swap_layout t) = t_next_pane_id t"
  "t_next_pane_id (register_swap_layout n mn mx l t) = t_next_pane_id t"
  by (simp_all add: apply_swap_layout_at_def auto_swap_layout_def next_swap_layout_def prev_swap_layout_def
      register_swap_layout_def Let_def frame_simps split: list.split option.split)

lemma next_close [frame_simps]: "t_next_pane_id (snd (close_pane i t)) = t_next_pane_id t"
  by (simp add: close_pane_def Let_def frame_simps)

lemma next_floats [frame_simps]:
  "t_next_pane_id (snd (bring_floating_to_front i t)) = t_next_pane_id t" "t_next_pane_id (snd (send_floating_to_back i t)) = t_next_pane_id t"
  "t_next_pane_id (snd (swap_floating_z_order a b t)) = t_next_pane_id t" "t_next_pane_id (push_floating f t) = t_next_pane_id t"
  "t_next_pane_id (snd (update_floating i g t)) = t_next_pane_id t" "t_next_pane_id (toggle_floating_panes t) = t_next_pane_id t"
  "t_next_pane_id (snd (close_floating_pane i t)) = t_next_pane_id t" "t_next_pane_id (snd (embed_floating_pane i t)) = t_next_pane_id t"
  by (auto simp: bring_floating_to_front_def send_floating_to_back_def swap_floating_z_order_def push_floating_def
      update_floating_def toggle_floating_panes_def close_floating_pane_def embed_floating_pane_def Let_def
      frame_simps split: option.split)

lemma next_float [frame_simps]: "t_next_pane_id (snd (float_pane i t)) = t_next_pane_id t"
  by (auto simp: float_pane_def Let_def frame_simps split: option.split prod.split)

lemma next_focus [frame_simps]:
  "t_next_pane_id (snd (focus_pane i t)) = t_next_pane_id t" "t_next_pane_id (snd (focus_next t)) = t_next_pane_id t" "t_next_pane_id (snd (focus_prev t)) = t_next_pane_id t"
  "t_next_pane_id (snd (focus_direction_op d t)) = t_next_pane_id t"
  by (auto simp: focus_pane_def focus_next_def focus_prev_def focus_cycled_def focus_direction_op_def Let_def
      frame_simps split: option.split)

lemma next_swap [frame_simps]: "t_next_pane_id (snd (swap_panes a b t)) = t_next_pane_id t"
  by (simp add: swap_panes_def case_prod_beta Let_def frame_simps)

lemma next_move [frame_simps]: "t_next_pane_id (snd (move_active_pane d t)) = t_next_pane_id t"
  by (simp add: move_active_pane_def frame_simps split: option.split)

lemma next_moves [frame_simps]:
  "t_next_pane_id (snd (move_pane_by_id i d t)) = t_next_pane_id t" "t_next_pane_id (snd (move_pane_backwards i t)) = t_next_pane_id t"
  by (simp_all add: move_pane_by_id_def move_pane_backwards_def Let_def case_prod_beta frame_simps split: option.split)

lemma next_rest [frame_simps]:
  "t_next_pane_id (tab_resize c r t) = t_next_pane_id t" "t_next_pane_id (snd (resize_pane i dir n t)) = t_next_pane_id t"
  "t_next_pane_id (snd (on_pane i f t)) = t_next_pane_id t" "t_next_pane_id (snd (tab_undo_rename t)) = t_next_pane_id t"
  "t_next_pane_id (snd (toggle_fullscreen t)) = t_next_pane_id t" "t_next_pane_id (snd (toggle_fullscreen_by_id i t)) = t_next_pane_id t"
  by (auto simp: tab_resize_def resize_pane_def on_pane_def update_pane_def tab_undo_rename_def toggle_fullscreen_def
      toggle_fullscreen_by_id_def Let_def case_prod_beta frame_simps split: option.split f32.split)

lemma next_split: "t_next_pane_id (snd (split_pane d t)) \<in> {t_next_pane_id t, t_next_pane_id t + 1}"
  by (auto simp: split_pane_def Let_def frame_simps split: option.split prod.split)

lemma next_split_at:
  "t_next_pane_id (snd (split_pane d (t\<lparr>t_fullscreen_pane := x, t_active_pane := y\<rparr>))) \<in> {t_next_pane_id t, t_next_pane_id t + 1}"
  using next_split [of d "t\<lparr>t_fullscreen_pane := x, t_active_pane := y\<rparr>"] by simp

lemma next_split_largest: "t_next_pane_id (snd (split_largest_pane t)) \<in> {t_next_pane_id t, t_next_pane_id t + 1}"
  using next_split_at by (auto simp: split_largest_pane_def Let_def case_prod_beta frame_simps split: option.split)

lemma next_new_floating:
  "t_next_pane_id (snd (new_floating_pane_with_coords x y w h t)) \<in> {t_next_pane_id t, t_next_pane_id t + 1}"
  "t_next_pane_id (snd (new_floating_pane t)) \<in> {t_next_pane_id t, t_next_pane_id t + 1}"
  by (auto simp: new_floating_pane_with_coords_def new_floating_pane_def Let_def frame_simps split: prod.split)

lemma next_exec: "t_next_pane_id (tab_exec c t) \<in> {t_next_pane_id t, t_next_pane_id t + 1}"
  using next_split next_split_largest next_new_floating
  by (cases c)
     (simp_all add: frame_simps resize_floating_pane_def move_floating_pane_def tab_scroll_up_def tab_scroll_down_def
       tab_scroll_to_top_def tab_scroll_to_bottom_def clear_pane_def tab_rename_def set_pixel_dimensions_def toggle_sync_def)


text \<open>
  Sequences of commands: no registered swap layout has more slots than the least pane count it is for.
\<close>

fun swap_fits :: "tab_command \<Rightarrow> bool" where
  "swap_fits (CRegisterSwap name mn mx l) =
     (length (node_pane_ids l) \<le> max 1 (case mn of None \<Rightarrow> 1 | Some m \<Rightarrow> m))"
| "swap_fits _ = True"

lemma command_okI: "swap_fits c \<Longrightarrow> t_next_pane_id t \<noteq> - 1 \<Longrightarrow> command_ok c t"
  by (cases c) simp_all

lemma unat_Suc_le: "unat (x + 1) \<le> unat x + 1" for x :: "'a::len word"
  by (cases "x + 1 = 0") (simp_all add: unat_plus_simple [symmetric] unat_word_ariths)

lemma unat_next_exec: "unat (t_next_pane_id (tab_exec c t)) \<le> unat (t_next_pane_id t) + 1"
  using next_exec [of c t] unat_Suc_le [of "t_next_pane_id t"] by auto

lemma not_maximal: "unat x + 1 < 2 ^ 32 \<Longrightarrow> x \<noteq> - 1" for x :: u32
  by (auto simp: unsigned_minus_1_eq_mask mask_eq_exp_minus_1)

lemma tab_run_ok:
  "tab_ok t \<Longrightarrow> unat (t_next_pane_id t) + length cs < 2 ^ 32 \<Longrightarrow> list_all swap_fits cs \<Longrightarrow> tab_ok (fold tab_exec cs t)"
proof (induction cs arbitrary: t)
  case (Cons c cs)
  have "t_next_pane_id t \<noteq> - 1"
    using Cons.prems(2) by (intro not_maximal) simp
  then have "tab_ok (tab_exec c t)"
    using Cons.prems by (intro tab_exec_ok command_okI) simp_all
  then show ?case
    using Cons unat_next_exec [of c t] by simp
qed simp

text \<open>A layout with more slots than that leaves a slot without a pane.\<close>

definition oversized_swap :: tab_command where
  "oversized_swap = CRegisterSwap [] None None (Split Vertical FNaN (Leaf 0) (Leaf 1))"

lemma oversized_ghost:
  fixes i name cols rows
  defines "u \<equiv> fold tab_exec [oversized_swap, CNextSwap] (tab_new i name cols rows)"
  shows "tab_pane_ids u = [0, 1] \<and> map fst (t_panes u) = [0]"
proof -
  let ?t = "tab_exec oversized_swap (tab_new i name cols rows)"
  have "applicable_swap_layout_indices (tab_pane_count ?t) ?t = [0]"
    by (simp add: oversized_swap_def register_swap_layout_def applicable_swap_layout_indices_def tab_new_def applies_to_def tab_pane_count_def)
  then have "u = apply_swap_layout_at 0 ?t"
    by (simp add: u_def next_swap_layout_def swap_position_def) (simp add: oversized_swap_def register_swap_layout_def tab_new_def)
  moreover have "tab_pane_ids (apply_swap_layout_at 0 ?t) = [0, 1]" "map fst (t_panes (apply_swap_layout_at 0 ?t)) = [0]"
    by (simp_all add: apply_swap_layout_at_def oversized_swap_def register_swap_layout_def tab_new_def apply_template_def
        add_pane_def layout_new_def layout_pane_ids_def tab_pane_ids_def sync_pane_sizes_eq Let_def)
  ultimately show ?thesis
    by simp
qed

end
