(* ===== verification/Tab_Properties.thy ===== *)
theory Tab_Properties
  imports Mux_Tab_Steps
begin

text \<open>The properties of a tab.\<close>

section \<open>Reachable tabs\<close>

text \<open>
  C4: after any sequence of fewer than two to the 32 minus one commands on a new tab, none of which
  registers a swap layout with more slots than the least pane count it applies to, the layout, the map of
  panes and the floating panes describe the same panes without repetition, pane numbers are fresh, the
  focus is on a pane that exists, and every tiled pane has the size of its place in the layout. The
  condition on swap layouts is needed: registering one with two slots for any pane count and applying it
  to one pane leaves a layout of panes 0 and 1 where only pane 0 exists.
\<close>
theorem reachable_tabs_ok:
  assumes "length cs < 2 ^ 32 - 1" and "list_all swap_fits cs"
  shows "tab_ok (fold tab_exec cs (tab_new i name cols rows)) \<and>
    (let u = fold tab_exec [oversized_swap, CNextSwap] (tab_new i name cols rows)
     in tab_pane_ids u = [0, 1] \<and> map fst (t_panes u) = [0])"
proof
  have "unat (t_next_pane_id (tab_new i name cols rows)) + length cs < 2 ^ 32"
    using assms(1) by (simp add: tab_new_def)
  then show "tab_ok (fold tab_exec cs (tab_new i name cols rows))"
    using tab_run_ok [OF tab_new_ok] assms(2) by simp
qed (use oversized_ghost [of i name cols rows] in \<open>simp only: Let_def\<close>)

theorem reachable_tabs_ok_witness:
  "tab_ok (fold tab_exec [CSplit Vertical, CRegisterSwap [] (Some 2) None (Split Vertical FNaN (Leaf 0) (Leaf 1)),
     CNextSwap, CFloat 1] (tab_new 0 [] 80 24))"
  by (rule reachable_tabs_ok [THEN conjunct1]) simp_all

text \<open>
  Full screen can be left on a pane that no longer exists: open a floating pane, make it full
  screen, close it, and the tab shows that pane alone.
\<close>
theorem stale_fullscreen:
  "tab_reachable (tab_exec (CCloseFloating 1) (tab_exec CFullscreen (tab_exec CNewFloating (tab_new 0 [] 80 24)))) \<and>
   tab_positions (tab_exec (CCloseFloating 1) (tab_exec CFullscreen (tab_exec CNewFloating (tab_new 0 [] 80 24))))
     = [(1, \<lparr>pp_col = 0, pp_row = 0, pp_cols = 80, pp_rows = 24\<rparr>)] \<and>
   tab_pane 1 (tab_exec (CCloseFloating 1) (tab_exec CFullscreen (tab_exec CNewFloating (tab_new 0 [] 80 24)))) = None \<and>
   floating_pane_ids (tab_exec (CCloseFloating 1) (tab_exec CFullscreen (tab_exec CNewFloating (tab_new 0 [] 80 24)))) = []"
proof (intro conjI)
  show "tab_reachable (tab_exec (CCloseFloating 1) (tab_exec CFullscreen (tab_exec CNewFloating (tab_new 0 [] 80 24))))"
    by (intro tab_reachable.intros) (simp_all add: tab_new_def)
qed (simp_all add: tab_new_def new_floating_pane_def new_floating_pane_with_coords_def default_float_def
    push_floating_def toggle_fullscreen_def close_floating_pane_def find_floating_idx_def remove_at_def
    last_opt_def first_opt_def tab_positions_def tab_pane_def floating_pane_ids_def pane_size_new_def Let_def
    pane_new_def add_pane_def layout_new_def)

section \<open>Focus\<close>

lemma focus_next_tiled:
  assumes "tab_ok t" and "t_show_floating t \<longrightarrow> t_floating_panes t = []"
    and "p < length (tab_pane_ids t)" and "t_active_pane t = Some (tab_pane_ids t ! p)"
  shows "snd (focus_next t) = t\<lparr>t_fullscreen_pane := None,
    t_active_pane := Some (tab_pane_ids t ! (Suc p mod length (tab_pane_ids t)))\<rparr>"
proof -
  let ?ids = "tab_pane_ids t"
  let ?t = "t\<lparr>t_fullscreen_pane := None\<rparr>"
  have ids: "focus_cycle_ids ?t = ?ids"
    using assms(2) by (auto simp: focus_cycle_ids_def tab_pane_ids_def)
  have "position (\<lambda>i. i = ?ids ! p) ?ids = Some p"
  proof (cases "position (\<lambda>i. i = ?ids ! p) ?ids")
    case None
    then show ?thesis
      using assms(3) by (auto simp: position_None)
  next
    case (Some q)
    then show ?thesis
      using position_Some [OF Some] nth_eq_iff_index_eq [OF tab_okD(2) [OF assms(1)], of q p] assms(3) by auto
  qed
  moreover have "?ids ! (Suc p mod length ?ids) \<in> keys (t_panes t)"
    using assms(3) tab_okD(4) [OF assms(1)] by (metis mod_less_divisor nth_mem length_pos_if_in_set)
  then have "find_floating (?ids ! (Suc p mod length ?ids))
      (?t\<lparr>t_active_pane := Some (?ids ! (Suc p mod length ?ids))\<rparr>) = None"
    using tab_okD(7) [OF assms(1)] by (auto simp: find_floating_def find_None_iff disjoint_iff del: imageE)
  ultimately show ?thesis
    using assms(3,4) by (auto simp: focus_next_def Let_def ids focus_cycled_def)
qed

text \<open>
  C33: repeated \<open>focus_next\<close> reaches every tiled pane: with no floating pane shown, the focus moves
  through the panes in layout order, around and around.
\<close>
theorem focus_next_cycles:
  assumes "tab_ok t" and "t_show_floating t \<longrightarrow> t_floating_panes t = []"
    and "p < length (tab_pane_ids t)" and "t_active_pane t = Some (tab_pane_ids t ! p)"
  shows "t_active_pane (((\<lambda>t. snd (focus_next t)) ^^ k) t)
    = Some (tab_pane_ids t ! ((p + k) mod length (tab_pane_ids t)))"
proof -
  let ?n = "length (tab_pane_ids t)"
  have "\<exists>u. ((\<lambda>t. snd (focus_next t)) ^^ k) t = u \<and> tab_ok u \<and> tab_pane_ids u = tab_pane_ids t \<and>
      (t_show_floating u \<longrightarrow> t_floating_panes u = []) \<and> t_active_pane u = Some (tab_pane_ids t ! ((p + k) mod ?n))"
  proof (induction k)
    case 0
    then show ?case using assms by simp
  next
    case (Suc k)
    then obtain u where u: "((\<lambda>t. snd (focus_next t)) ^^ k) t = u" "tab_ok u" "tab_pane_ids u = tab_pane_ids t"
        "t_show_floating u \<longrightarrow> t_floating_panes u = []" "t_active_pane u = Some (tab_pane_ids u ! ((p + k) mod ?n))"
      by auto
    have "0 < ?n"
      using assms(3) by linarith
    then have "(p + k) mod ?n < length (tab_pane_ids u)"
      by (simp add: u(3))
    from focus_next_tiled [OF u(2,4) this u(5)] focus_next_ok [OF u(2)] show ?case
      using u by (simp add: tab_pane_ids_def mod_Suc_eq)
  qed
  then show ?thesis
    by auto
qed

theorem focus_next_cycles_witness:
  "t_active_pane (((\<lambda>t. snd (focus_next t)) ^^ 3) (tab_new 0 [] 80 24)) = Some 0"
  using focus_next_cycles [of "tab_new 0 [] 80 24" 0 3] tab_new_ok [of 0 "[]" 80 24]
  by (simp add: tab_pane_ids_def tab_new_def add_pane_ids)

text \<open>The candidates of a direction, and the best of them so far.\<close>

definition candidate :: "focus_direction \<Rightarrow> pane_id \<Rightarrow> pane_position \<Rightarrow> pane_id \<times> pane_position \<Rightarrow> bool" where
  "candidate dir a ap = (\<lambda>(j, q). j \<noteq> a \<and> is_candidate dir q ap)"

lemma foldl_nearest_least:
  "case foldl (nearest dir a ap) best ps of
     None \<Rightarrow> best = None \<and> (\<forall>p \<in> set ps. \<not> candidate dir a ap p)
   | Some (i, d) \<Rightarrow>
       (best = Some (i, d) \<or> (\<exists>q. (i, q) \<in> set ps \<and> candidate dir a ap (i, q) \<and> d = center_distance ap q)) \<and>
       (\<forall>p \<in> set ps. candidate dir a ap p \<longrightarrow> d \<le> center_distance ap (snd p)) \<and>
       (\<forall>j e. best = Some (j, e) \<longrightarrow> d \<le> e)"
proof (induction ps arbitrary: best)
  case Nil
  then show ?case by (auto split: option.split)
next
  case (Cons p ps)
  obtain j q where p: "p = (j, q)" by (cases p)
  have "nearest dir a ap best p = best \<and> \<not> candidate dir a ap p \<or>
      candidate dir a ap p \<and> (nearest dir a ap best p = Some (j, center_distance ap q) \<and> (\<forall>i e. best = Some (i, e) \<longrightarrow> center_distance ap q \<le> e)
        \<or> nearest dir a ap best p = best \<and> (\<exists>i e. best = Some (i, e) \<and> e \<le> center_distance ap q))"
    by (cases best) (auto simp: nearest_def candidate_def p Let_def split: if_splits)
  then show ?case
    using Cons.IH [of "nearest dir a ap best p"]
    by (auto simp: p split: option.splits prod.splits) (force+)?
qed

text \<open>
  Where panes lie, by their cells: a pane is on the side of another if all its cells lie beyond those of
  the other in that direction and the two have a row (for left and right) or a column (for up and down) in
  common. The distance of two panes is that of their centres, along both axes.
\<close>

definition pane_cells :: "pane_position \<Rightarrow> (nat \<times> nat) set" where
  "pane_cells p = {pp_col p..<pp_col p + pp_cols p} \<times> {pp_row p..<pp_row p + pp_rows p}"

fun beyond :: "focus_direction \<Rightarrow> nat \<times> nat \<Rightarrow> nat \<times> nat \<Rightarrow> bool" where
  "beyond FocusLeft c d \<longleftrightarrow> fst d < fst c"
| "beyond FocusRight c d \<longleftrightarrow> fst c < fst d"
| "beyond FocusUp c d \<longleftrightarrow> snd d < snd c"
| "beyond FocusDown c d \<longleftrightarrow> snd c < snd d"

fun level :: "focus_direction \<Rightarrow> nat \<times> nat \<Rightarrow> nat \<times> nat \<Rightarrow> bool" where
  "level FocusLeft c d \<longleftrightarrow> snd c = snd d"
| "level FocusRight c d \<longleftrightarrow> snd c = snd d"
| "level FocusUp c d \<longleftrightarrow> fst c = fst d"
| "level FocusDown c d \<longleftrightarrow> fst c = fst d"

definition on_side :: "focus_direction \<Rightarrow> pane_position \<Rightarrow> pane_position \<Rightarrow> bool" where
  "on_side dir p q \<longleftrightarrow> (\<forall>c \<in> pane_cells p. \<forall>d \<in> pane_cells q. beyond dir c d) \<and>
     (\<exists>c \<in> pane_cells p. \<exists>d \<in> pane_cells q. level dir c d)"

definition pane_distance :: "pane_position \<Rightarrow> pane_position \<Rightarrow> rat" where
  "pane_distance p q =
     \<bar>(of_nat (pp_col p) + of_nat (pp_cols p) / 2) - (of_nat (pp_col q) + of_nat (pp_cols q) / 2)\<bar> +
     \<bar>(of_nat (pp_row p) + of_nat (pp_rows p) / 2) - (of_nat (pp_row q) + of_nat (pp_rows q) / 2)\<bar>"

lemma abs_diff_halves:
  "of_nat (abs_diff (a * 2 + b) (c * 2 + d)) = 2 * \<bar>((of_nat a :: rat) + of_nat b / 2) - (of_nat c + of_nat d / 2)\<bar>"
proof -
  have "(of_nat (abs_diff x y) :: rat) = \<bar>of_nat x - of_nat y\<bar>" for x y
    by (simp add: abs_diff_def of_nat_diff)
  then show ?thesis
    by (simp add: abs_if field_simps)
qed

lemma pane_distance_le: "pane_distance p q \<le> pane_distance p r \<longleftrightarrow> center_distance p q \<le> center_distance p r"
proof -
  have "of_nat (center_distance p q) = 2 * pane_distance p q" for q
    by (simp add: center_distance_def pane_distance_def abs_diff_halves)
  then show ?thesis
    by (metis mult_le_cancel_left_pos of_nat_le_iff zero_less_numeral)
qed

definition has_cell :: "pane_position \<Rightarrow> bool" where
  "has_cell p \<longleftrightarrow> 0 < pp_cols p \<and> 0 < pp_rows p"

lemma ordered_ranges:
  assumes "0 < m" and "0 < n"
  shows "(\<forall>x \<in> {a..<a + m}. \<forall>y \<in> {b..<b + n}. x < y) \<longleftrightarrow> a + m \<le> (b :: nat)"
    "(\<forall>x \<in> {a..<a + m}. \<forall>y \<in> {b..<b + n}. y < x) \<longleftrightarrow> b + n \<le> a"
proof -
  have *: "k + i \<le> l" if "\<forall>x \<in> {k..<k + i}. \<forall>y \<in> {l..<l + j}. x < y" "0 < i" "0 < j" for i j k l :: nat
  proof -
    have "k + i - 1 \<in> {k..<k + i}" "l \<in> {l..<l + j}"
      using that(2,3) by auto
    then show ?thesis
      using that(1) by fastforce
  qed
  show "(\<forall>x \<in> {a..<a + m}. \<forall>y \<in> {b..<b + n}. x < y) \<longleftrightarrow> a + m \<le> b"
    using * [of a m b n] assms by fastforce
  show "(\<forall>x \<in> {a..<a + m}. \<forall>y \<in> {b..<b + n}. y < x) \<longleftrightarrow> b + n \<le> a"
    using * [of b n a m] assms by fastforce
qed

lemma shared_ranges:
  "0 < m \<Longrightarrow> 0 < n \<Longrightarrow> (\<exists>x \<in> {a..<a + m}. \<exists>y \<in> {b..<b + n}. x = (y :: nat)) \<longleftrightarrow> ranges_overlap b (b + n) a (a + m)"
  by (auto simp: ranges_overlap_def intro!: bexI [of _ "max a b"])

lemma in_products:
  assumes "X \<noteq> {}" "X' \<noteq> {}" "Y \<noteq> {}" "Y' \<noteq> {}"
  shows "(\<forall>c \<in> X \<times> Y. \<forall>d \<in> X' \<times> Y'. R (fst c) (fst d)) \<longleftrightarrow> (\<forall>x \<in> X. \<forall>y \<in> X'. R x y)"
    "(\<forall>c \<in> X \<times> Y. \<forall>d \<in> X' \<times> Y'. S (snd c) (snd d)) \<longleftrightarrow> (\<forall>x \<in> Y. \<forall>y \<in> Y'. S x y)"
    "(\<exists>c \<in> X \<times> Y. \<exists>d \<in> X' \<times> Y'. R (fst c) (fst d)) \<longleftrightarrow> (\<exists>x \<in> X. \<exists>y \<in> X'. R x y)"
    "(\<exists>c \<in> X \<times> Y. \<exists>d \<in> X' \<times> Y'. S (snd c) (snd d)) \<longleftrightarrow> (\<exists>x \<in> Y. \<exists>y \<in> Y'. S x y)"
  using assms by (auto simp: ex_in_conv [symmetric] simp del: ex_in_conv)

lemma on_side_iff:
  assumes "has_cell p" and "has_cell q"
  shows "on_side dir p q \<longleftrightarrow> is_candidate dir q p"
proof -
  have pos: "0 < pp_cols p" "0 < pp_cols q" "0 < pp_rows p" "0 < pp_rows q"
    using assms by (simp_all add: has_cell_def)
  have ne: "{pp_col p..<pp_col p + pp_cols p} \<noteq> {}" "{pp_col q..<pp_col q + pp_cols q} \<noteq> {}"
      "{pp_row p..<pp_row p + pp_rows p} \<noteq> {}" "{pp_row q..<pp_row q + pp_rows q} \<noteq> {}"
    using pos by simp_all
  show ?thesis
    by (cases dir)
       (simp_all only: on_side_def pane_cells_def beyond.simps level.simps is_candidate.simps rows_overlap_def cols_overlap_def
         in_products [OF ne] in_products(1) [OF ne, of "\<lambda>x y. y < x"] in_products(2) [OF ne, of "\<lambda>x y. y < x"] ordered_ranges [OF pos(1,2)] ordered_ranges [OF pos(3,4)]
         shared_ranges [OF pos(1,2)] shared_ranges [OF pos(3,4)])
qed

lemma find_pos_in: "find_pos i ps = Some p \<Longrightarrow> (i, p) \<in> set ps"
  by (induction ps) (auto simp: find_pos_def split: if_splits)

text \<open>
  C32: moving the focus in a direction, where every tiled pane has a cell: it succeeds only from a tiled pane
  (not from a floating one), and then the focus is on another tiled pane that lies on that side of it, none
  of which is nearer, by the distance between centres; it leaves the tab as it is exactly when the active
  pane is not tiled or no tiled pane lies on that side.
\<close>
theorem neighbor_is_nearest:
  assumes "list_all (\<lambda>(j, q). has_cell q) (tiled_positions t)"
  shows "case focus_direction_op dir t of
      (False, u) \<Rightarrow> u = t \<and> (case t_active_pane t of None \<Rightarrow> True | Some a \<Rightarrow>
        (case find_pos a (tiled_positions t) of None \<Rightarrow> True | Some p \<Rightarrow>
           \<not> (\<exists>(j, q) \<in> set (tiled_positions t). j \<noteq> a \<and> on_side dir p q)))
    | (True, u) \<Rightarrow> (\<exists>a p i q. t_active_pane t = Some a \<and> (a, p) \<in> set (tiled_positions t) \<and>
        t_active_pane u = Some i \<and> (i, q) \<in> set (tiled_positions t) \<and> i \<noteq> a \<and> on_side dir p q \<and>
        \<not> (\<exists>(j, r) \<in> set (tiled_positions t). j \<noteq> a \<and> on_side dir p r \<and> pane_distance p r < pane_distance p q))"
proof (cases "Option.bind (t_active_pane t) (\<lambda>a. find_pos a (tiled_positions t))")
  case None
  then show ?thesis
    by (cases "t_active_pane t") (auto simp: focus_direction_op_def find_neighbor_in_direction_def)
next
  case (Some p)
  then obtain a where a: "t_active_pane t = Some a" "find_pos a (tiled_positions t) = Some p"
    by (cases "t_active_pane t") auto
  have side: "candidate dir a p (j, q) \<longleftrightarrow> j \<noteq> a \<and> on_side dir p q" if "(j, q) \<in> set (tiled_positions t)" for j q
    using assms that find_pos_in [OF a(2)] on_side_iff [of p q dir] by (auto simp: list_all_iff candidate_def)
  show ?thesis
  proof (cases "find_neighbor_in_direction dir t")
    case None
    then have "\<forall>x \<in> set (tiled_positions t). \<not> candidate dir a p x"
      using foldl_nearest_least [where dir = dir and a = a and ap = p and best = None and ps = "tiled_positions t"] a
      by (auto simp: find_neighbor_in_direction_def split: option.splits)
    then show ?thesis
      using None a side by (auto simp: focus_direction_op_def)
  next
    case (Some i)
    then obtain q where q: "(i, q) \<in> set (tiled_positions t)" "candidate dir a p (i, q)"
        "\<forall>x \<in> set (tiled_positions t). candidate dir a p x \<longrightarrow> center_distance p q \<le> center_distance p (snd x)"
      using foldl_nearest_least [where dir = dir and a = a and ap = p and best = None and ps = "tiled_positions t"] a
      by (auto simp: find_neighbor_in_direction_def split: option.splits)
    have "\<not> pane_distance p r < pane_distance p q" if "(j, r) \<in> set (tiled_positions t)" "j \<noteq> a" "on_side dir p r" for j r
      using q(3) that side [OF that(1)] by (auto simp: not_less pane_distance_le)
    then have "\<not> (\<exists>(j, r) \<in> set (tiled_positions t). j \<noteq> a \<and> on_side dir p r \<and> pane_distance p r < pane_distance p q)"
      by blast
    moreover have "i \<noteq> a" "on_side dir p q"
      using q(2) side [OF q(1)] by simp_all
    ultimately show ?thesis
      using Some a(1) find_pos_in [OF a(2)] q(1) unfolding focus_direction_op_def
      by (simp only: option.case prod.case bool.case tab.select_convs tab.update_convs) (intro exI [of _ a] exI [of _ p] exI [of _ i] exI [of _ q], simp)
  qed
qed

definition two_columns :: tab where
  "two_columns = (tab_new 0 [] 80 24)\<lparr>t_layout := \<lparr>le_root = Some (Split Vertical FNaN (Leaf 0) (Leaf 1))\<rparr>,
     t_active_pane := Some 1\<rparr>"

lemma two_columns_positions:
  "tiled_positions two_columns = [(0, \<lparr>pp_col = 0, pp_row = 0, pp_cols = 1, pp_rows = 24\<rparr>),
     (1, \<lparr>pp_col = 1, pp_row = 0, pp_cols = 79, pp_rows = 24\<rparr>)]"
proof -
  have "f32_mul x FNaN = FNaN" for x
    by (cases x) simp_all
  then have "first_share 80 FNaN = 1"
    by (simp add: first_share_def)
  then show ?thesis
    by (simp add: two_columns_def tiled_positions_def layout_positions_def tab_new_def pane_size_new_def)
qed

theorem neighbor_is_nearest_witness:
  "t_active_pane (snd (focus_direction_op FocusLeft two_columns)) = Some 0"
proof -
  have active: "t_active_pane two_columns = Some 1"
    by (simp add: two_columns_def)
  have pos: "find_pos 1 (tiled_positions two_columns) = Some \<lparr>pp_col = 1, pp_row = 0, pp_cols = 79, pp_rows = 24\<rparr>"
    by (simp add: two_columns_positions find_pos_def)
  have "on_side FocusLeft \<lparr>pp_col = 1, pp_row = 0, pp_cols = 79, pp_rows = 24\<rparr> \<lparr>pp_col = 0, pp_row = 0, pp_cols = 1, pp_rows = 24\<rparr>"
    by (simp add: on_side_iff has_cell_def rows_overlap_def ranges_overlap_def)
  moreover have cells: "list_all (\<lambda>(j, q). has_cell q) (tiled_positions two_columns)"
    by (simp add: two_columns_positions has_cell_def)
  moreover have "(0, \<lparr>pp_col = 0, pp_row = 0, pp_cols = 1, pp_rows = 24\<rparr>) \<in> set (tiled_positions two_columns)"
    by (simp add: two_columns_positions)
  moreover obtain moved u where r: "focus_direction_op FocusLeft two_columns = (moved, u)"
    by fastforce
  ultimately have "moved"
    using neighbor_is_nearest [of two_columns FocusLeft] unfolding r active by (cases moved) (auto simp: pos simp del: One_nat_def)
  then have "\<exists>i q. t_active_pane u = Some i \<and> (i, q) \<in> set (tiled_positions two_columns) \<and> i \<noteq> 1"
    using neighbor_is_nearest [of two_columns FocusLeft] cells unfolding r active by auto
  then show ?thesis
    by (auto simp: r two_columns_positions)
qed

section \<open>Splitting and closing\<close>

text \<open>
  Closing the pane that a split has just created brings back the panes and their order (with no swap
  layout registered).
\<close>
theorem close_undoes_split:
  assumes "tab_ok t" and "t_next_pane_id t \<noteq> - 1" and "t_swap_layouts t = []" and "split_pane dir t = (Some n, u)"
  shows "fst (close_pane n u) \<and> tab_pane_ids (snd (close_pane n u)) = tab_pane_ids t"
proof -
  have auto_swap: "auto_swap_layout v = v\<lparr>t_current_swap_index := None\<rparr>" if "t_swap_layouts v = []" for v
    using that by (simp add: auto_swap_layout_def applicable_swap_layout_indices_def)
  obtain a p where n: "n = t_next_pane_id t" and ids: "t_layout u = snd (layout_split a n dir (t_layout t))"
      and panes: "map fst (t_panes u) = map fst (AList.update n p (t_panes t))" and swaps: "t_swap_layouts u = []"
    using assms(3,4) by (auto simp: split_pane_def Let_def auto_swap sync_pane_sizes_eq split: if_splits option.splits prod.splits)
  have fresh: "n \<notin> keys (t_panes t)"
    using next_id_fresh [OF assms(1)] by (auto simp: n tab_ids_def)
  then have keys: "map fst (t_panes u) = map fst (t_panes t) @ [n]"
    by (simp add: panes update_new)
  then have "n \<in> keys (t_panes u)" "length (t_panes u) = Suc (length (t_panes t))"
    by (metis list.set_map in_set_conv_decomp, metis length_map length_append_singleton)
  moreover have "t_panes t \<noteq> []"
    using tab_okD(1,4) [OF assms(1)] by auto
  ultimately have "\<not> tab_pane_count u \<le> 1" "tab_pane n u \<noteq> None"
    by (auto simp: tab_pane_count_def tab_pane_iff simp del: not_None_eq)
  moreover have "layout_pane_ids (snd (remove_pane n (t_layout u))) = tab_pane_ids t"
    using engine.remove_split [of "t_layout t" n a dir] tab_okD(2,4) [OF assms(1)] fresh
    by (simp add: ids tab_pane_ids_def)
  ultimately show ?thesis
    using swaps by (auto simp: close_pane_def Let_def auto_swap sync_pane_sizes_eq tab_pane_ids_def)
qed

lemma split_pane_succeeds:
  assumes "t_active_pane t = Some a" and "can_split a dir (t\<lparr>t_fullscreen_pane := None\<rparr>)"
  shows "fst (split_pane dir t) = Some (t_next_pane_id t)"
proof -
  obtain pos where "find_pos a (tiled_positions t) = Some pos"
    using placed_iff [of a t] can_split_tiled [OF assms(2)] by (auto simp: tab_pane_ids_def)
  then have "find_pos a (tiled_positions (t\<lparr>t_fullscreen_pane := None, t_next_pane_id := k\<rparr>)) = Some pos" for k
    by (simp add: tiled_positions_def)
  then show ?thesis
    using assms by (simp add: split_pane_def Let_def case_prod_beta)
qed

lemma can_split_new: "can_split 0 Vertical ((tab_new 0 [] 80 24)\<lparr>t_fullscreen_pane := None\<rparr>)"
  by (simp add: can_split_def tiled_positions_def layout_positions_def tab_new_def add_pane_def layout_new_def
      pane_size_new_def find_pos_def tab_pane_def pane_new_def has_fixed_cols_def)

theorem close_undoes_split_witness:
  "tab_pane_ids (snd (close_pane 1 (snd (split_pane Vertical (tab_new 0 [] 80 24))))) = [0]"
proof -
  have "fst (split_pane Vertical (tab_new 0 [] 80 24)) = Some 1"
    using split_pane_succeeds [OF _ can_split_new] by (simp add: tab_new_def)
  then have "split_pane Vertical (tab_new 0 [] 80 24) = (Some 1, snd (split_pane Vertical (tab_new 0 [] 80 24)))"
    by (metis prod.collapse)
  from close_undoes_split [OF tab_new_ok _ _ this] show ?thesis
    by (simp add: tab_new_def tab_pane_ids_def add_pane_ids)
qed

end
