(* ===== verification/Mux_Session.thy ===== *)
theory Mux_Session
  imports Mux_Tab_Steps Emux_Loops Emux_Utf8
begin

text \<open>
  \<open>session.rs\<close>, \<open>window.rs\<close> and the data of \<open>project.rs\<close> of \<open>crates/emux-mux/src\<close>: a session and a window
  are strips of tabs with one of them active. An operation that indexes the strip returns an option,
  \<open>None\<close> for the panic. What the two share is the locale \<open>tab_strip\<close>.
\<close>

section \<open>Sessions\<close>

record project_info =
  pj_root :: rstr
  pj_name :: rstr
  pj_branch :: "rstr option"

record session =
  ss_id :: "64 word"
  ss_name :: rstr
  ss_previous_name :: "rstr option"
  ss_tabs :: "tab list"
  ss_active_tab :: nat
  ss_previous_tab :: "nat option"
  ss_next_tab_id :: u32
  ss_size :: pane_size
  ss_project :: "project_info option"

definition session_new :: "rstr \<Rightarrow> nat \<Rightarrow> nat \<Rightarrow> session" where
  "session_new name cols rows =
     \<lparr>ss_id = 0, ss_name = name, ss_previous_name = None, ss_tabs = [tab_new 0 (ascii ''Tab 1'') cols rows],
      ss_active_tab = 0, ss_previous_tab = None, ss_next_tab_id = 1, ss_size = pane_size_new cols rows,
      ss_project = None\<rparr>"

definition session_with_id :: "64 word \<Rightarrow> rstr \<Rightarrow> nat \<Rightarrow> nat \<Rightarrow> session" where
  "session_with_id i name cols rows = (session_new name cols rows)\<lparr>ss_id := i\<rparr>"

definition session_rename :: "rstr \<Rightarrow> session \<Rightarrow> session" where
  "session_rename name s = s\<lparr>ss_previous_name := Some (ss_name s), ss_name := name\<rparr>"

definition set_project :: "project_info \<Rightarrow> session \<Rightarrow> session" where
  "set_project p s = s\<lparr>ss_project := Some p\<rparr>"

definition project_name :: "session \<Rightarrow> rstr option" where
  "project_name s = map_option pj_name (ss_project s)"

definition git_branch :: "session \<Rightarrow> rstr option" where
  "git_branch s = Option.bind (ss_project s) pj_branch"

definition new_tab :: "rstr \<Rightarrow> session \<Rightarrow> u32 \<times> session" where
  "new_tab name s =
     (let i = ss_next_tab_id s;
          tabs = ss_tabs s @ [tab_new i name (ps_cols (ss_size s)) (ps_rows (ss_size s))]
      in (i, s\<lparr>ss_next_tab_id := i + 1, ss_tabs := tabs, ss_active_tab := length tabs - 1\<rparr>))"

text \<open>The active index after the tab at \<open>index\<close> is gone and \<open>n\<close> tabs are left.\<close>

definition active_after :: "nat \<Rightarrow> nat \<Rightarrow> nat \<Rightarrow> nat" where
  "active_after n index active = (if n \<le> active then n - 1 else if index < active then active - 1 else active)"

definition close_tab :: "nat \<Rightarrow> session \<Rightarrow> bool \<times> session" where
  "close_tab index s =
     (if length (ss_tabs s) \<le> 1 \<or> length (ss_tabs s) \<le> index then (False, s)
      else let tabs = remove_at index (ss_tabs s) in
        (True, s\<lparr>ss_tabs := tabs, ss_active_tab := active_after (length tabs) index (ss_active_tab s)\<rparr>))"

definition close_tab_by_id :: "u32 \<Rightarrow> session \<Rightarrow> bool \<times> session" where
  "close_tab_by_id i s =
     (if length (ss_tabs s) \<le> 1 then (False, s)
      else (case position (\<lambda>t. t_id t = i) (ss_tabs s) of
              Some k \<Rightarrow> close_tab k s
            | None \<Rightarrow> (False, s)))"

definition switch_tab :: "nat \<Rightarrow> session \<Rightarrow> bool \<times> session" where
  "switch_tab index s =
     (if index < length (ss_tabs s) then
        (True, (if index \<noteq> ss_active_tab s then s\<lparr>ss_previous_tab := Some (ss_active_tab s)\<rparr> else s)
           \<lparr>ss_active_tab := index\<rparr>)
      else (False, s))"

definition next_tab :: "session \<Rightarrow> bool \<times> session" where
  "next_tab s =
     (if length (ss_tabs s) \<le> 1 then (False, s)
      else (True, s\<lparr>ss_active_tab := (ss_active_tab s + 1) mod length (ss_tabs s)\<rparr>))"

definition prev_tab :: "session \<Rightarrow> bool \<times> session" where
  "prev_tab s =
     (if length (ss_tabs s) \<le> 1 then (False, s)
      else (True, s\<lparr>ss_active_tab := (if ss_active_tab s = 0 then length (ss_tabs s) - 1 else ss_active_tab s - 1)\<rparr>))"

definition active_tab_of :: "session \<Rightarrow> tab option" where
  "active_tab_of s = idx (ss_tabs s) (ss_active_tab s)"

definition tab_names :: "session \<Rightarrow> rstr list" where
  "tab_names s = map t_name (ss_tabs s)"

definition session_resize :: "nat \<Rightarrow> nat \<Rightarrow> session \<Rightarrow> session" where
  "session_resize cols rows s =
     s\<lparr>ss_size := pane_size_new cols rows, ss_tabs := map (tab_resize cols rows) (ss_tabs s)\<rparr>"

definition toggle_previous_tab :: "session \<Rightarrow> bool \<times> session" where
  "toggle_previous_tab s =
     (case ss_previous_tab s of
        Some prev \<Rightarrow>
          if prev < length (ss_tabs s)
          then (True, s\<lparr>ss_active_tab := prev, ss_previous_tab := Some (ss_active_tab s)\<rparr>) else (False, s)
      | None \<Rightarrow> (False, s))"

text \<open>\<open>slice::swap\<close>: a panic out of range.\<close>

definition swap_opt :: "nat \<Rightarrow> nat \<Rightarrow> 'a list \<Rightarrow> 'a list option" where
  "swap_opt i j xs = (if i < length xs \<and> j < length xs then Some (swap_at i j xs) else None)"

definition move_tab_left :: "session \<Rightarrow> (bool \<times> session) option" where
  "move_tab_left s =
     (if ss_active_tab s = 0 \<or> length (ss_tabs s) \<le> 1 then Some (False, s)
      else do {
        tabs \<leftarrow> swap_opt (ss_active_tab s) (ss_active_tab s - 1) (ss_tabs s);
        Some (True, s\<lparr>ss_tabs := tabs, ss_active_tab := ss_active_tab s - 1\<rparr>) })"

definition move_tab_right :: "session \<Rightarrow> (bool \<times> session) option" where
  "move_tab_right s = do {
     l \<leftarrow> usub (length (ss_tabs s)) 1;
     if l \<le> ss_active_tab s \<or> length (ss_tabs s) \<le> 1 then Some (False, s)
     else do {
       tabs \<leftarrow> swap_opt (ss_active_tab s) (ss_active_tab s + 1) (ss_tabs s);
       Some (True, s\<lparr>ss_tabs := tabs, ss_active_tab := ss_active_tab s + 1\<rparr>) } }"

definition move_tab_left_wrapping :: "session \<Rightarrow> (bool \<times> session) option" where
  "move_tab_left_wrapping s =
     (if length (ss_tabs s) \<le> 1 then Some (False, s)
      else if ss_active_tab s = 0 then
        Some (True, s\<lparr>ss_tabs := tl (ss_tabs s) @ [hd (ss_tabs s)], ss_active_tab := length (ss_tabs s) - 1\<rparr>)
      else do {
        tabs \<leftarrow> swap_opt (ss_active_tab s) (ss_active_tab s - 1) (ss_tabs s);
        Some (True, s\<lparr>ss_tabs := tabs, ss_active_tab := ss_active_tab s - 1\<rparr>) })"

definition move_tab_right_wrapping :: "session \<Rightarrow> (bool \<times> session) option" where
  "move_tab_right_wrapping s =
     (if length (ss_tabs s) \<le> 1 then Some (False, s)
      else if length (ss_tabs s) - 1 \<le> ss_active_tab s then do {
        t \<leftarrow> idx (ss_tabs s) (ss_active_tab s);
        Some (True, s\<lparr>ss_tabs := t # remove_at (ss_active_tab s) (ss_tabs s), ss_active_tab := 0\<rparr>) }
      else do {
        tabs \<leftarrow> swap_opt (ss_active_tab s) (ss_active_tab s + 1) (ss_tabs s);
        Some (True, s\<lparr>ss_tabs := tabs, ss_active_tab := ss_active_tab s + 1\<rparr>) })"

definition insert_at :: "nat \<Rightarrow> 'a \<Rightarrow> 'a list \<Rightarrow> 'a list" where
  "insert_at i x xs = take i xs @ x # drop i xs"

definition break_pane_to_new_tab :: "pane_id \<Rightarrow> session \<Rightarrow> (u32 option \<times> session) option" where
  "break_pane_to_new_tab i s = do {
     t \<leftarrow> idx (ss_tabs s) (ss_active_tab s);
     if tab_pane_count t \<le> 1 \<or> tab_pane i t = None then Some (None, s)
     else do {
       let tabs = (ss_tabs s)[ss_active_tab s := snd (close_pane i t)];
       let tab_id = ss_next_tab_id s;
       let new = tab_new tab_id (ascii ''Tab '' @ show_nat (unat (tab_id + 1)))
                   (ps_cols (ss_size s)) (ps_rows (ss_size s));
       Some (Some tab_id,
         s\<lparr>ss_tabs := insert_at (ss_active_tab s + 1) new tabs, ss_next_tab_id := tab_id + 1,
           ss_previous_tab := Some (ss_active_tab s), ss_active_tab := ss_active_tab s + 1\<rparr>) } }"

definition move_pane_to_new_tab_right :: "session \<Rightarrow> (u32 option \<times> session) option" where
  "move_pane_to_new_tab_right s = do {
     t \<leftarrow> idx (ss_tabs s) (ss_active_tab s);
     case t_active_pane t of None \<Rightarrow> Some (None, s) | Some i \<Rightarrow> break_pane_to_new_tab i s }"

definition undo_rename_tab :: "session \<Rightarrow> (bool \<times> session) option" where
  "undo_rename_tab s = do {
     t \<leftarrow> idx (ss_tabs s) (ss_active_tab s);
     let (b, t) = tab_undo_rename t;
     Some (b, s\<lparr>ss_tabs := (ss_tabs s)[ss_active_tab s := t]\<rparr>) }"

text \<open>A command on the active tab, through \<open>active_tab_mut\<close>.\<close>

definition on_active_tab :: "tab_command \<Rightarrow> session \<Rightarrow> session option" where
  "on_active_tab c s = do {
     t \<leftarrow> idx (ss_tabs s) (ss_active_tab s);
     Some (s\<lparr>ss_tabs := (ss_tabs s)[ss_active_tab s := tab_exec c t]\<rparr>) }"

section \<open>Windows\<close>

record window =
  w_id :: u32
  w_name :: rstr
  w_tabs :: "tab list"
  w_active_tab_idx :: nat
  w_next_tab_id :: u32
  w_size :: pane_size

definition window_new :: "u32 \<Rightarrow> rstr \<Rightarrow> nat \<Rightarrow> nat \<Rightarrow> window" where
  "window_new i name cols rows =
     \<lparr>w_id = i, w_name = name, w_tabs = [tab_new 0 (ascii ''Tab 1'') cols rows], w_active_tab_idx = 0,
      w_next_tab_id = 1, w_size = pane_size_new cols rows\<rparr>"

definition window_rename :: "rstr \<Rightarrow> window \<Rightarrow> window" where
  "window_rename name w = w\<lparr>w_name := name\<rparr>"

definition add_tab :: "rstr \<Rightarrow> window \<Rightarrow> u32 \<times> window" where
  "add_tab name w =
     (let i = w_next_tab_id w;
          tabs = w_tabs w @ [tab_new i name (ps_cols (w_size w)) (ps_rows (w_size w))]
      in (i, w\<lparr>w_next_tab_id := i + 1, w_tabs := tabs, w_active_tab_idx := length tabs - 1\<rparr>))"

definition remove_tab :: "nat \<Rightarrow> window \<Rightarrow> bool \<times> window" where
  "remove_tab index w =
     (if length (w_tabs w) \<le> 1 \<or> length (w_tabs w) \<le> index then (False, w)
      else let tabs = remove_at index (w_tabs w) in
        (True, w\<lparr>w_tabs := tabs, w_active_tab_idx := active_after (length tabs) index (w_active_tab_idx w)\<rparr>))"

definition remove_tab_by_id :: "u32 \<Rightarrow> window \<Rightarrow> bool \<times> window" where
  "remove_tab_by_id i w =
     (if length (w_tabs w) \<le> 1 then (False, w)
      else (case position (\<lambda>t. t_id t = i) (w_tabs w) of
              Some k \<Rightarrow> remove_tab k w
            | None \<Rightarrow> (False, w)))"

definition window_switch_tab :: "nat \<Rightarrow> window \<Rightarrow> bool \<times> window" where
  "window_switch_tab index w =
     (if index < length (w_tabs w) then (True, w\<lparr>w_active_tab_idx := index\<rparr>) else (False, w))"

definition window_next_tab :: "window \<Rightarrow> bool \<times> window" where
  "window_next_tab w =
     (if length (w_tabs w) \<le> 1 then (False, w)
      else (True, w\<lparr>w_active_tab_idx := (w_active_tab_idx w + 1) mod length (w_tabs w)\<rparr>))"

definition window_prev_tab :: "window \<Rightarrow> bool \<times> window" where
  "window_prev_tab w =
     (if length (w_tabs w) \<le> 1 then (False, w)
      else (True, w\<lparr>w_active_tab_idx := (if w_active_tab_idx w = 0 then length (w_tabs w) - 1 else w_active_tab_idx w - 1)\<rparr>))"

definition window_resize :: "nat \<Rightarrow> nat \<Rightarrow> window \<Rightarrow> window" where
  "window_resize cols rows w =
     w\<lparr>w_size := pane_size_new cols rows, w_tabs := map (tab_resize cols rows) (w_tabs w)\<rparr>"

section \<open>What sessions and windows share\<close>

locale tab_strip =
  fixes tabs :: "'s \<Rightarrow> tab list"
    and active :: "'s \<Rightarrow> nat"
    and close_at :: "nat \<Rightarrow> 's \<Rightarrow> bool \<times> 's"
    and switch_to :: "nat \<Rightarrow> 's \<Rightarrow> bool \<times> 's"
    and next_one prev_one :: "'s \<Rightarrow> bool \<times> 's"
  assumes close_law: "1 < length (tabs s) \<Longrightarrow> i < length (tabs s) \<Longrightarrow>
      tabs (snd (close_at i s)) = remove_at i (tabs s) \<and>
      active (snd (close_at i s)) = active_after (length (tabs s) - 1) i (active s)"
    and close_refused: "length (tabs s) \<le> 1 \<or> length (tabs s) \<le> i \<Longrightarrow> close_at i s = (False, s)"
    and switch_law: "i < length (tabs s) \<Longrightarrow> tabs (snd (switch_to i s)) = tabs s \<and> active (snd (switch_to i s)) = i"
    and next_law: "1 < length (tabs s) \<Longrightarrow>
      tabs (snd (next_one s)) = tabs s \<and> active (snd (next_one s)) = Suc (active s) mod length (tabs s)"
    and prev_law: "1 < length (tabs s) \<Longrightarrow> tabs (snd (prev_one s)) = tabs s \<and>
      active (snd (prev_one s)) = (if active s = 0 then length (tabs s) - 1 else active s - 1)"
begin

lemma close_in_range:
  assumes "active s < length (tabs s)"
  shows "active (snd (close_at i s)) < length (tabs (snd (close_at i s)))"
proof (cases "1 < length (tabs s) \<and> i < length (tabs s)")
  case True
  then show ?thesis
    using close_law [of s i] assms by (auto simp: active_after_def)
next
  case False
  then show ?thesis
    using close_refused [of s i] assms by auto
qed

text \<open>Closing another tab keeps the active one active.\<close>

lemma close_keeps_active:
  assumes "active s < length (tabs s)" and "i \<noteq> active s" and "i < length (tabs s)" and "1 < length (tabs s)"
  shows "tabs (snd (close_at i s)) ! active (snd (close_at i s)) = tabs s ! active s"
proof -
  have "remove_at i (tabs s) ! active_after (length (tabs s) - 1) i (active s) = tabs s ! active s"
  proof (cases "active s = length (tabs s) - 1")
    case True
    then have "i < length (tabs s) - 1" "Suc (length (tabs s) - 2) = active s"
      using assms by linarith+
    then show ?thesis
      using True assms by (simp add: remove_at_def active_after_def nth_append numeral_2_eq_2)
  next
    case False
    then show ?thesis
      using assms by (auto simp: remove_at_def active_after_def nth_append min_def)
  qed
  then show ?thesis
    using close_law [OF assms(4,3)] by simp
qed

lemma prev_next:
  assumes "active s < length (tabs s)" and "1 < length (tabs s)"
  shows "active (snd (prev_one (snd (next_one s)))) = active s"
  using assms next_law [of s] prev_law [of "snd (next_one s)"] by (auto simp: mod_Suc)

end

interpretation session_strip: tab_strip ss_tabs ss_active_tab close_tab switch_tab next_tab prev_tab
  by unfold_locales (auto simp: close_tab_def switch_tab_def next_tab_def prev_tab_def Let_def)

interpretation window_strip: tab_strip w_tabs w_active_tab_idx remove_tab window_switch_tab window_next_tab window_prev_tab
  by unfold_locales (auto simp: remove_tab_def window_switch_tab_def window_next_tab_def window_prev_tab_def Let_def)

end
