(* ===== verification/Session_Properties.thy ===== *)
theory Session_Properties
  imports Mux_Session
begin

text \<open>The invariant of a session and the properties of sessions and windows.\<close>

section \<open>The identity of a tab\<close>

text \<open>No operation changes the id of a tab.\<close>

lemma t_id_sync [frame_simps]: "t_id (sync_pane_sizes t) = t_id t"
  by (simp add: sync_pane_sizes_eq)

lemma t_id_swap_layouts [frame_simps]:
  "t_id (apply_swap_layout_at k t) = t_id t" "t_id (auto_swap_layout t) = t_id t"
  "t_id (next_swap_layout t) = t_id t" "t_id (prev_swap_layout t) = t_id t"
  "t_id (register_swap_layout n mn mx l t) = t_id t"
  by (simp_all add: apply_swap_layout_at_def auto_swap_layout_def next_swap_layout_def prev_swap_layout_def
      register_swap_layout_def Let_def frame_simps split: list.split option.split)

lemma t_id_split [frame_simps]: "t_id (snd (split_pane d t)) = t_id t"
  by (auto simp: split_pane_def Let_def frame_simps split: option.split prod.split)

lemma t_id_split_largest [frame_simps]: "t_id (snd (split_largest_pane t)) = t_id t"
  by (auto simp: split_largest_pane_def Let_def case_prod_beta frame_simps split: option.split)

lemma t_id_close [frame_simps]: "t_id (snd (close_pane i t)) = t_id t"
  by (simp add: close_pane_def Let_def frame_simps)

lemma t_id_floats [frame_simps]:
  "t_id (snd (bring_floating_to_front i t)) = t_id t" "t_id (snd (send_floating_to_back i t)) = t_id t"
  "t_id (snd (swap_floating_z_order a b t)) = t_id t" "t_id (push_floating f t) = t_id t"
  "t_id (snd (update_floating i g t)) = t_id t" "t_id (toggle_floating_panes t) = t_id t"
  "t_id (snd (close_floating_pane i t)) = t_id t" "t_id (snd (embed_floating_pane i t)) = t_id t"
  by (auto simp: bring_floating_to_front_def send_floating_to_back_def swap_floating_z_order_def push_floating_def
      update_floating_def toggle_floating_panes_def close_floating_pane_def embed_floating_pane_def Let_def
      frame_simps split: option.split)

lemma t_id_float [frame_simps]: "t_id (snd (float_pane i t)) = t_id t"
  by (auto simp: float_pane_def Let_def frame_simps split: option.split prod.split)

lemma t_id_new_floating [frame_simps]:
  "t_id (snd (new_floating_pane_with_coords x y w h t)) = t_id t" "t_id (snd (new_floating_pane t)) = t_id t"
  by (simp_all add: new_floating_pane_with_coords_def new_floating_pane_def Let_def frame_simps split: prod.split)

lemma t_id_focus [frame_simps]:
  "t_id (snd (focus_pane i t)) = t_id t" "t_id (snd (focus_next t)) = t_id t" "t_id (snd (focus_prev t)) = t_id t"
  "t_id (snd (focus_direction_op d t)) = t_id t"
  by (auto simp: focus_pane_def focus_next_def focus_prev_def focus_cycled_def focus_direction_op_def Let_def
      frame_simps split: option.split)

lemma t_id_move [frame_simps]:
  "t_id (snd (swap_panes a b t)) = t_id t" "t_id (snd (move_active_pane d t)) = t_id t"
  "t_id (snd (move_pane_by_id i d t)) = t_id t" "t_id (snd (move_pane_backwards i t)) = t_id t"
proof -
  show swap: "t_id (snd (swap_panes a b t)) = t_id t" for a b t
    by (simp add: swap_panes_def case_prod_beta Let_def frame_simps)
  show move: "t_id (snd (move_active_pane d t)) = t_id t" for t
    by (simp add: move_active_pane_def swap split: option.split)
  show "t_id (snd (move_pane_by_id i d t)) = t_id t"
    by (simp add: move_pane_by_id_def Let_def case_prod_beta move)
  show "t_id (snd (move_pane_backwards i t)) = t_id t"
    by (simp add: move_pane_backwards_def Let_def swap split: option.split)
qed

lemma t_id_rest [frame_simps]:
  "t_id (tab_resize c r t) = t_id t" "t_id (snd (resize_pane i dir n t)) = t_id t"
  "t_id (snd (on_pane i f t)) = t_id t" "t_id (snd (tab_undo_rename t)) = t_id t"
  "t_id (snd (toggle_fullscreen t)) = t_id t" "t_id (snd (toggle_fullscreen_by_id i t)) = t_id t"
  by (auto simp: tab_resize_def resize_pane_def on_pane_def update_pane_def tab_undo_rename_def toggle_fullscreen_def
      toggle_fullscreen_by_id_def Let_def case_prod_beta frame_simps split: option.split f32.split)

lemma tab_exec_id [frame_simps]: "t_id (tab_exec c t) = t_id t"
  by (cases c)
     (simp_all add: frame_simps resize_floating_pane_def move_floating_pane_def tab_scroll_up_def tab_scroll_down_def
       tab_scroll_to_top_def tab_scroll_to_bottom_def clear_pane_def tab_rename_def set_pixel_dimensions_def toggle_sync_def)

section \<open>The invariant of a session\<close>

definition tabs_ok :: "tab list \<Rightarrow> u32 \<Rightarrow> bool" where
  "tabs_ok ts n \<longleftrightarrow> ts \<noteq> [] \<and> distinct (map t_id ts) \<and> list_all (\<lambda>t. tab_ok t \<and> t_id t < n) ts"

definition session_ok :: "session \<Rightarrow> bool" where
  "session_ok s \<longleftrightarrow> tabs_ok (ss_tabs s) (ss_next_tab_id s) \<and> ss_active_tab s < length (ss_tabs s)"

lemma tabs_ok_append:
  assumes "tabs_ok ts n" and "n \<noteq> - 1"
  shows "tabs_ok (ts @ [tab_new n name c r]) (n + 1)"
proof -
  have "t_id t < n + 1" if "t_id t < n" for t
    using that assms(2) by (auto intro: word_less_Suc)
  moreover have "n < n + 1"
    using assms(2) by (auto intro: word_less_Suc)
  moreover have "t_id (tab_new n name c r) = n"
    by (simp add: tab_new_def)
  ultimately show ?thesis
    using assms(1) by (auto simp: tabs_ok_def tab_new_ok list_all_iff)
qed

lemma tabs_ok_mset:
  assumes "tabs_ok ts n" and "mset us = mset ts"
  shows "tabs_ok us n"
proof -
  have "mset (map t_id us) = mset (map t_id ts)"
    using assms(2) by simp
  from mset_eq_imp_distinct_iff [OF this] mset_eq_setD [OF assms(2)] show ?thesis
    using assms by (auto simp: tabs_ok_def list_all_iff)
qed

lemma tabs_ok_update:
  assumes "tabs_ok ts n" and "tab_ok t" and "k < length ts" and "t_id t = t_id (ts ! k)"
  shows "tabs_ok (ts[k := t]) n"
proof -
  have "map t_id (ts[k := t]) = map t_id ts"
    using assms(3,4) by (simp add: map_update list_update_same_conv)
  moreover have "\<forall>u \<in> set (ts[k := t]). tab_ok u \<and> t_id u < n"
    using assms by (auto simp: tabs_ok_def list_all_iff dest!: set_update_subset_insert [THEN subsetD])
  ultimately show ?thesis
    using assms(1) by (simp add: tabs_ok_def list_all_iff)
qed

lemma tabs_ok_remove_at:
  assumes "tabs_ok ts n" and "1 < length ts" and "k < length ts"
  shows "tabs_ok (remove_at k ts) n"
proof -
  have m: "mset (map t_id ts) = mset (t_id (ts ! k) # map t_id (remove_at k ts))"
    using mset_remove_at [OF assms(3)] by simp
  have "distinct (map t_id (remove_at k ts))"
    using assms(1) mset_eq_imp_distinct_iff [OF m] by (simp add: tabs_ok_def)
  moreover have "remove_at k ts \<noteq> []"
    using assms(2,3) by (auto simp: remove_at_def)
  ultimately show ?thesis
    using assms(1) set_remove_at [of k ts] by (auto simp: tabs_ok_def list_all_iff)
qed

section \<open>Commands of a session\<close>

datatype session_command =
    SNewTab rstr | SCloseTab nat | SCloseTabById u32 | SSwitchTab nat | SNextTab | SPrevTab | STogglePrevious
  | SResize nat nat | SMoveLeft | SMoveRight | SMoveLeftWrapping | SMoveRightWrapping | SBreakPane pane_id
  | SBreakActivePane | SUndoRenameTab | SRename rstr | SProject project_info | SOnTab tab_command

fun session_exec :: "session_command \<Rightarrow> session \<Rightarrow> session option" where
  "session_exec (SNewTab name) s = Some (snd (new_tab name s))"
| "session_exec (SCloseTab k) s = Some (snd (close_tab k s))"
| "session_exec (SCloseTabById i) s = Some (snd (close_tab_by_id i s))"
| "session_exec (SSwitchTab k) s = Some (snd (switch_tab k s))"
| "session_exec SNextTab s = Some (snd (next_tab s))"
| "session_exec SPrevTab s = Some (snd (prev_tab s))"
| "session_exec STogglePrevious s = Some (snd (toggle_previous_tab s))"
| "session_exec (SResize c r) s = Some (session_resize c r s)"
| "session_exec SMoveLeft s = map_option snd (move_tab_left s)"
| "session_exec SMoveRight s = map_option snd (move_tab_right s)"
| "session_exec SMoveLeftWrapping s = map_option snd (move_tab_left_wrapping s)"
| "session_exec SMoveRightWrapping s = map_option snd (move_tab_right_wrapping s)"
| "session_exec (SBreakPane i) s = map_option snd (break_pane_to_new_tab i s)"
| "session_exec SBreakActivePane s = map_option snd (move_pane_to_new_tab_right s)"
| "session_exec SUndoRenameTab s = map_option snd (undo_rename_tab s)"
| "session_exec (SRename n) s = Some (session_rename n s)"
| "session_exec (SProject p) s = Some (set_project p s)"
| "session_exec (SOnTab c) s = on_active_tab c s"

text \<open>What a command needs: a tab number, and for a command of the active tab what that command needs.\<close>

fun session_command_ok :: "session_command \<Rightarrow> session \<Rightarrow> bool" where
  "session_command_ok (SNewTab name) s = (ss_next_tab_id s \<noteq> - 1)"
| "session_command_ok (SBreakPane i) s = (ss_next_tab_id s \<noteq> - 1)"
| "session_command_ok SBreakActivePane s = (ss_next_tab_id s \<noteq> - 1)"
| "session_command_ok (SOnTab c) s = command_ok c (ss_tabs s ! ss_active_tab s)"
| "session_command_ok _ s = True"

lemma session_active_ok: "session_ok s \<Longrightarrow> tab_ok (ss_tabs s ! ss_active_tab s)"
  by (simp add: session_ok_def tabs_ok_def list_all_length)

lemma session_strip_ok:
  "session_ok s \<Longrightarrow> session_ok (snd (close_tab k s))"
  "session_ok s \<Longrightarrow> session_ok (snd (close_tab_by_id i s))"
  "session_ok s \<Longrightarrow> session_ok (snd (switch_tab k s))"
  "session_ok s \<Longrightarrow> session_ok (snd (next_tab s))"
  "session_ok s \<Longrightarrow> session_ok (snd (prev_tab s))"
  "session_ok s \<Longrightarrow> session_ok (snd (toggle_previous_tab s))"
proof -
  show close: "session_ok (snd (close_tab k s))" if "session_ok s" for k
  proof -
    have "tabs_ok (ss_tabs (snd (close_tab k s))) (ss_next_tab_id (snd (close_tab k s)))"
      using that by (auto simp: session_ok_def close_tab_def Let_def intro: tabs_ok_remove_at)
    then show ?thesis
      using that session_strip.close_in_range by (simp add: session_ok_def)
  qed
  show "session_ok (snd (close_tab_by_id i s))" if "session_ok s"
    using that close by (simp add: close_tab_by_id_def split: option.split)
qed (auto simp: session_ok_def switch_tab_def next_tab_def prev_tab_def toggle_previous_tab_def
    intro!: mod_less_divisor split: option.splits)

lemma new_tab_ok: "session_ok s \<Longrightarrow> ss_next_tab_id s \<noteq> - 1 \<Longrightarrow> session_ok (snd (new_tab name s))"
  by (simp add: session_ok_def new_tab_def Let_def tabs_ok_append)

lemma session_resize_ok: "session_ok s \<Longrightarrow> session_ok (session_resize c r s)"
  by (auto simp: session_ok_def session_resize_def tabs_ok_def comp_def t_id_rest tab_resize_ok list_all_iff)

lemma moved_ok:
  assumes "session_ok s" and "mset ts = mset (ss_tabs s)" and "k < length ts"
  shows "session_ok (s\<lparr>ss_tabs := ts, ss_active_tab := k\<rparr>)"
  using assms tabs_ok_mset by (auto simp: session_ok_def)

lemma move_tabs_ok:
  assumes s: "session_ok s"
  shows "returns (move_tab_left s) (\<lambda>(b, s). session_ok s)" "returns (move_tab_right s) (\<lambda>(b, s). session_ok s)"
    "returns (move_tab_left_wrapping s) (\<lambda>(b, s). session_ok s)"
    "returns (move_tab_right_wrapping s) (\<lambda>(b, s). session_ok s)"
proof -
  let ?k = "ss_active_tab s" and ?ts = "ss_tabs s"
  have k: "?k < length ?ts" "?ts \<noteq> []"
    using s by (auto simp: session_ok_def)
  have swap: "session_ok (s\<lparr>ss_tabs := swap_at ?k j ?ts, ss_active_tab := j\<rparr>)" if "j < length ?ts" for j
    using that s k by (intro moved_ok) (simp_all add: mset_swap_at, simp add: swap_at_def)
  show "returns (move_tab_left s) (\<lambda>(b, s). session_ok s)"
    using s k swap by (auto simp: move_tab_left_def swap_opt_def)
  show "returns (move_tab_right s) (\<lambda>(b, s). session_ok s)"
    using s k swap by (auto simp: move_tab_right_def swap_opt_def usub_def Suc_le_eq)
  have "session_ok (s\<lparr>ss_tabs := tl ?ts @ [hd ?ts], ss_active_tab := length ?ts - 1\<rparr>)"
    using s k by (intro moved_ok) (auto simp: neq_Nil_conv)
  then show "returns (move_tab_left_wrapping s) (\<lambda>(b, s). session_ok s)"
    using s k swap by (auto simp: move_tab_left_wrapping_def swap_opt_def)
  have "session_ok (s\<lparr>ss_tabs := ?ts ! ?k # remove_at ?k ?ts, ss_active_tab := 0\<rparr>)"
    using s k mset_remove_at [OF k(1)] by (intro moved_ok) simp_all
  then show "returns (move_tab_right_wrapping s) (\<lambda>(b, s). session_ok s)"
    using s k swap by (auto simp: move_tab_right_wrapping_def swap_opt_def)
qed

lemma mset_insert_at: "mset (insert_at k x xs) = add_mset x (mset xs)"
  by (simp add: insert_at_def) (metis append_take_drop_id mset_append)

lemma break_pane_ok:
  assumes s: "session_ok s" and "ss_next_tab_id s \<noteq> - 1"
  shows "returns (break_pane_to_new_tab i s) (\<lambda>(r, s). session_ok s)"
proof -
  let ?k = "ss_active_tab s" and ?ts = "ss_tabs s" and ?n = "ss_next_tab_id s"
  have k: "?k < length ?ts" and t: "tab_ok (?ts ! ?k)"
    using s session_active_ok by (auto simp: session_ok_def)
  let ?us = "?ts[?k := snd (close_pane i (?ts ! ?k))]"
  have "tabs_ok ?us ?n"
    using s k t close_pane_ok by (intro tabs_ok_update) (auto simp: session_ok_def frame_simps)
  then have "tabs_ok (?us @ [tab_new ?n name c r]) (?n + 1)" for name c r
    using assms(2) by (rule tabs_ok_append)
  then have "tabs_ok (insert_at (?k + 1) (tab_new ?n name c r) ?us) (?n + 1)" for name c r
    by (rule tabs_ok_mset) (simp add: mset_insert_at)
  moreover have "length (insert_at (?k + 1) x ?us) = Suc (length ?ts)" for x
    using k by (simp add: insert_at_def)
  ultimately show ?thesis
    using s k by (simp add: break_pane_to_new_tab_def Let_def) (simp add: session_ok_def)
qed

lemma on_active_tab_ok:
  assumes "session_ok s" and "command_ok c (ss_tabs s ! ss_active_tab s)"
  shows "returns (on_active_tab c s) session_ok"
proof -
  have "tabs_ok ((ss_tabs s)[ss_active_tab s := tab_exec c (ss_tabs s ! ss_active_tab s)]) (ss_next_tab_id s)"
    using assms session_active_ok [OF assms(1)]
    by (intro tabs_ok_update tab_exec_ok) (auto simp: session_ok_def frame_simps)
  then show ?thesis
    using assms(1) by (simp add: on_active_tab_def session_ok_def)
qed

lemma undo_rename_tab_ok:
  assumes "session_ok s"
  shows "returns (undo_rename_tab s) (\<lambda>(b, s). session_ok s)"
  using on_active_tab_ok [OF assms, of CUndoRename] by (auto simp: on_active_tab_def undo_rename_tab_def case_prod_beta)

lemma session_exec_ok:
  assumes "session_ok s" and "session_command_ok c s"
  shows "returns (session_exec c s) session_ok"
proof -
  have snd: "returns (map_option snd m) session_ok" if "returns m (\<lambda>(r, s). session_ok s)" for m :: "('r \<times> session) option"
    using that by (cases m) auto
  have right: "returns (move_pane_to_new_tab_right s) (\<lambda>(r, s). session_ok s)" if "ss_next_tab_id s \<noteq> - 1"
    using assms(1) break_pane_ok [OF assms(1) that]
    by (auto simp: move_pane_to_new_tab_right_def session_ok_def split: option.split)
  show ?thesis
    using assms
    by (cases c)
       (simp_all add: new_tab_ok session_strip_ok session_resize_ok snd move_tabs_ok break_pane_ok right
         undo_rename_tab_ok on_active_tab_ok del: returns_map_option,
        simp_all add: session_rename_def set_project_def session_ok_def)
qed

lemma session_new_ok: "session_ok (session_new name c r)"
  by (simp add: session_ok_def session_new_def tabs_ok_def tab_new_ok) (simp add: tab_new_def)

text \<open>Sequences of commands: the layouts fit, and there are numbers left for every one of them.\<close>

fun session_fits :: "session_command \<Rightarrow> bool" where
  "session_fits (SOnTab c) = swap_fits c"
| "session_fits _ = True"

definition numbers_left :: "nat \<Rightarrow> session \<Rightarrow> bool" where
  "numbers_left n s \<longleftrightarrow> unat (ss_next_tab_id s) + n < 2 ^ 32 \<and>
     list_all (\<lambda>t. unat (t_next_pane_id t) + n < 2 ^ 32) (ss_tabs s)"

lemma session_command_okI:
  assumes "session_fits c" and "numbers_left (Suc n) s" and "session_ok s"
  shows "session_command_ok c s"
proof -
  have "ss_next_tab_id s \<noteq> - 1"
    using assms(2) by (intro not_maximal) (simp add: numbers_left_def)
  moreover have "t_next_pane_id (ss_tabs s ! ss_active_tab s) \<noteq> - 1"
    using assms(2,3) by (intro not_maximal) (auto simp: numbers_left_def session_ok_def list_all_length)
  ultimately show ?thesis
    using assms(1) by (cases c) (auto intro: command_okI)
qed

text \<open>Where the tabs after a command come from.\<close>

definition tabs_from :: "session \<Rightarrow> session \<Rightarrow> bool" where
  "tabs_from s s' \<longleftrightarrow> ss_active_tab s' < length (ss_tabs s') \<and> ss_next_tab_id s' \<in> {ss_next_tab_id s, ss_next_tab_id s + 1} \<and>
     (\<forall>t \<in> set (ss_tabs s'). t_next_pane_id t = 1 \<or>
        (\<exists>u \<in> set (ss_tabs s). t_next_pane_id t \<in> {t_next_pane_id u, t_next_pane_id u + 1}))"

lemma tabs_from_same:
  "ss_active_tab s' < length (ss_tabs s') \<Longrightarrow> ss_next_tab_id s' = ss_next_tab_id s \<Longrightarrow> set (ss_tabs s') \<subseteq> set (ss_tabs s) \<Longrightarrow> tabs_from s s'"
  by (auto simp: tabs_from_def)

lemma tabs_from_update:
  assumes "k < length (ss_tabs s)" and "ss_active_tab s < length (ss_tabs s)"
    and "t_next_pane_id t \<in> {t_next_pane_id (ss_tabs s ! k), t_next_pane_id (ss_tabs s ! k) + 1}"
  shows "tabs_from s (s\<lparr>ss_tabs := (ss_tabs s)[k := t]\<rparr>)"
proof -
  have "t_next_pane_id v = 1 \<or> (\<exists>u \<in> set (ss_tabs s). t_next_pane_id v \<in> {t_next_pane_id u, t_next_pane_id u + 1})"
    if "v \<in> set ((ss_tabs s)[k := t])" for v
  proof -
    have "v = t \<or> v \<in> set (ss_tabs s)"
      using that set_update_subset_insert [of "ss_tabs s" k t] by blast
    then show ?thesis
      using assms(3) nth_mem [OF assms(1)] by blast
  qed
  then show ?thesis
    using assms(2) by (simp add: tabs_from_def)
qed

lemma swap_at_set: "i < length xs \<Longrightarrow> j < length xs \<Longrightarrow> set (swap_at i j xs) = set xs"
  using mset_swap_at [of i xs j] by (metis set_mset_mset)

lemma strip_tabs_from:
  assumes "ss_active_tab s < length (ss_tabs s)"
  shows "tabs_from s (snd (new_tab name s))" "tabs_from s (snd (close_tab k s))" "tabs_from s (snd (close_tab_by_id i s))"
    "tabs_from s (snd (switch_tab k s))" "tabs_from s (snd (next_tab s))" "tabs_from s (snd (prev_tab s))"
    "tabs_from s (snd (toggle_previous_tab s))" "tabs_from s (session_resize c r s)"
proof -
  show close: "tabs_from s (snd (close_tab k s))" for k
    using assms session_strip.close_in_range [OF assms, of k] set_remove_at [of k "ss_tabs s"]
    by (intro tabs_from_same) (auto simp: close_tab_def Let_def)
  show "tabs_from s (snd (close_tab_by_id i s))"
    using assms close by (auto simp: close_tab_by_id_def tabs_from_same split: option.split)
  show "tabs_from s (snd (new_tab name s))"
    using assms by (auto simp: tabs_from_def new_tab_def Let_def) (simp add: tab_new_def)
  show "tabs_from s (session_resize c r s)"
    using assms by (auto simp: tabs_from_def session_resize_def frame_simps)
  show "tabs_from s (snd (next_tab s))"
    using assms by (intro tabs_from_same) (auto simp: next_tab_def intro!: mod_less_divisor)
qed (use assms in \<open>auto intro!: tabs_from_same simp: switch_tab_def prev_tab_def toggle_previous_tab_def split: option.splits\<close>)

lemma moves_tabs_from:
  assumes "ss_active_tab s < length (ss_tabs s)"
  shows "returns (move_tab_left s) (\<lambda>(b, s'). tabs_from s s')" "returns (move_tab_right s) (\<lambda>(b, s'). tabs_from s s')"
    "returns (move_tab_left_wrapping s) (\<lambda>(b, s'). tabs_from s s')" "returns (move_tab_right_wrapping s) (\<lambda>(b, s'). tabs_from s s')"
proof -
  have swap: "tabs_from s (s\<lparr>ss_tabs := swap_at (ss_active_tab s) j (ss_tabs s), ss_active_tab := j\<rparr>)" if "j < length (ss_tabs s)" for j
    using that assms swap_at_set by (intro tabs_from_same) (simp_all add: swap_at_def)
  have same: "tabs_from s s"
    using assms by (simp add: tabs_from_same)
  have ne: "ss_tabs s \<noteq> []"
    using assms by auto
  show "returns (move_tab_left s) (\<lambda>(b, s'). tabs_from s s')"
    using assms swap same by (auto simp: move_tab_left_def swap_opt_def)
  show "returns (move_tab_right s) (\<lambda>(b, s'). tabs_from s s')"
    using assms swap same ne by (auto simp: move_tab_right_def swap_opt_def usub_def Suc_le_eq)
  have "tabs_from s (s\<lparr>ss_tabs := tl (ss_tabs s) @ [hd (ss_tabs s)], ss_active_tab := length (ss_tabs s) - 1\<rparr>)"
    using ne by (intro tabs_from_same) (auto dest: list.set_sel)
  then show "returns (move_tab_left_wrapping s) (\<lambda>(b, s'). tabs_from s s')"
    using assms swap same by (auto simp: move_tab_left_wrapping_def swap_opt_def)
  have "tabs_from s (s\<lparr>ss_tabs := ss_tabs s ! ss_active_tab s # remove_at (ss_active_tab s) (ss_tabs s), ss_active_tab := 0\<rparr>)"
    using assms set_remove_at [of "ss_active_tab s" "ss_tabs s"] by (intro tabs_from_same) auto
  then show "returns (move_tab_right_wrapping s) (\<lambda>(b, s'). tabs_from s s')"
    using assms swap same by (auto simp: move_tab_right_wrapping_def swap_opt_def)
qed

lemma break_tabs_from:
  assumes "ss_active_tab s < length (ss_tabs s)"
  shows "returns (break_pane_to_new_tab i s) (\<lambda>(b, s'). tabs_from s s')"
proof -
  let ?k = "ss_active_tab s" and ?ts = "ss_tabs s"
  let ?us = "?ts[?k := snd (close_pane i (?ts ! ?k))]"
  have "set (insert_at (?k + 1) t ?us) = insert t (set ?us)" for t
    using arg_cong [OF mset_insert_at [of "?k + 1" t ?us], of set_mset] by simp
  moreover have "?k + 1 < length (insert_at (?k + 1) t ?us)" for t
    using assms by (simp add: insert_at_def)
  moreover have "tabs_from s (s\<lparr>ss_tabs := ?us\<rparr>)"
    using assms by (intro tabs_from_update) (simp_all add: frame_simps)
  ultimately show ?thesis
    using assms by (auto simp: break_pane_to_new_tab_def Let_def tabs_from_def) (auto simp: tab_new_def)
qed

lemma exec_tabs_from:
  assumes s: "ss_active_tab s < length (ss_tabs s)"
  shows "returns (session_exec c s) (tabs_from s)"
proof -
  have same: "tabs_from s s"
    using s by (simp add: tabs_from_same)
  have snd: "returns (map_option snd m) (tabs_from s)" if "returns m (\<lambda>(r, s'). tabs_from s s')" for m :: "('r \<times> session) option"
    using that by (cases m) auto
  have "returns (move_pane_to_new_tab_right s) (\<lambda>(b, s'). tabs_from s s')"
    using s same break_tabs_from [OF s] by (simp add: move_pane_to_new_tab_right_def split: option.split)
  moreover have "tabs_from s (s\<lparr>ss_tabs := (ss_tabs s)[ss_active_tab s := tab_exec t (ss_tabs s ! ss_active_tab s)]\<rparr>)" for t
    using s next_exec by (intro tabs_from_update) simp_all
  moreover have "returns (undo_rename_tab s) (\<lambda>(b, s'). tabs_from s s')"
    using s by (auto simp: undo_rename_tab_def case_prod_beta frame_simps intro!: tabs_from_update)
  ultimately show ?thesis
    using s same
    by (cases c) (simp_all add: strip_tabs_from snd moves_tabs_from break_tabs_from on_active_tab_def del: returns_map_option,
      simp_all add: session_rename_def set_project_def tabs_from_def)
qed

lemma numbers_left_step:
  assumes "tabs_from s s'" and "numbers_left (Suc n) s"
  shows "numbers_left n s'"
proof -
  have "unat (t_next_pane_id t) + n < 2 ^ 32" if "t \<in> set (ss_tabs s')" for t
  proof (cases "t_next_pane_id t = 1")
    case True
    then show ?thesis
      using assms(2) by (simp add: numbers_left_def)
  next
    case False
    then obtain u where "u \<in> set (ss_tabs s)" "t_next_pane_id t \<in> {t_next_pane_id u, t_next_pane_id u + 1}"
      using assms(1) \<open>t \<in> set (ss_tabs s')\<close> by (auto simp: tabs_from_def)
    then show ?thesis
      using assms(2) unat_Suc_le [of "t_next_pane_id u"] by (auto simp: numbers_left_def list_all_iff dest!: bspec [of _ _ u])
  qed
  moreover have "unat (ss_next_tab_id s') + n < 2 ^ 32"
    using assms unat_Suc_le [of "ss_next_tab_id s"] by (auto simp: tabs_from_def numbers_left_def)
  ultimately show ?thesis
    by (simp add: numbers_left_def list_all_iff)
qed

lemma session_run:
  "ss_active_tab s < length (ss_tabs s) \<Longrightarrow>
   returns (foldM (\<lambda>s c. session_exec c s) cs s) (\<lambda>s'. ss_active_tab s' < length (ss_tabs s') \<and>
     (session_ok s \<and> numbers_left (length cs) s \<and> list_all session_fits cs \<longrightarrow> session_ok s'))"
proof (induction cs arbitrary: s)
  case (Cons c cs)
  obtain s' where s': "session_exec c s = Some s'" "tabs_from s s'"
    using exec_tabs_from [OF Cons.prems, of c] by (auto simp: returns_iff)
  have kept: "session_ok s' \<and> numbers_left (length cs) s'"
    if "session_ok s" "numbers_left (length (c # cs)) s" "list_all session_fits (c # cs)"
  proof -
    have "session_command_ok c s"
      using that by (intro session_command_okI [where n = "length cs"]) simp_all
    then show ?thesis
      using session_exec_ok [OF that(1), of c] numbers_left_step [OF s'(2), of "length cs"] that(2) s'(1) by (simp add: returns_iff)
  qed
  have "ss_active_tab s' < length (ss_tabs s')"
    using s'(2) by (simp add: tabs_from_def)
  from Cons.IH [OF this] show ?case
    using s'(1) kept by (auto simp: returns_iff)
qed simp

text \<open>
  C5: no sequence of commands can panic a session, whatever the commands are: every one of them returns,
  and the active index stays within the strip. If moreover no registered swap layout has more slots than
  the least pane count it applies to, and the numbers for tabs and panes do not run out, the session stays
  well formed: at least one tab, distinct tab numbers below the counter, every tab well formed. (With a
  layout of more slots this fails: \<open>reachable_tabs_ok\<close>.)
\<close>
theorem session_commands_safe:
  assumes "session_ok s"
  shows "returns (foldM (\<lambda>s c. session_exec c s) cs s) (\<lambda>s'. ss_active_tab s' < length (ss_tabs s') \<and>
    (list_all session_fits cs \<and> numbers_left (length cs) s \<longrightarrow> session_ok s'))"
  by (rule returns_mono [OF session_run]) (use assms in \<open>auto simp: session_ok_def\<close>)

theorem session_commands_safe_witness:
  "returns (foldM (\<lambda>s c. session_exec c s) [SNewTab [], SOnTab (CSplit Vertical), SMoveRightWrapping] (session_new [] 80 24))
     session_ok"
proof (rule returns_mono [OF session_commands_safe [OF session_new_ok]])
  have "numbers_left (length [SNewTab [], SOnTab (CSplit Vertical), SMoveRightWrapping]) (session_new [] 80 24)"
    by (simp add: numbers_left_def session_new_def tab_new_def)
  then show "session_ok s" if "ss_active_tab s < length (ss_tabs s) \<and>
      (list_all session_fits [SNewTab [], SOnTab (CSplit Vertical), SMoveRightWrapping] \<and>
       numbers_left (length [SNewTab [], SOnTab (CSplit Vertical), SMoveRightWrapping]) (session_new [] 80 24) \<longrightarrow> session_ok s)" for s
    using that by simp
qed

text \<open>
  C34: closing another tab keeps the active tab active, in a session and in a window, wherever the closed
  tab is; going to the next tab and back returns to it.
\<close>
theorem closing_keeps_active_tab:
  assumes "session_ok s" and "i \<noteq> ss_active_tab s" and "i < length (ss_tabs s)"
    and "w_active_tab_idx w < length (w_tabs w)" and "j \<noteq> w_active_tab_idx w" and "j < length (w_tabs w)"
  shows "active_tab_of (snd (close_tab i s)) = active_tab_of s \<and>
    active_tab_of (snd (prev_tab (snd (next_tab s)))) = active_tab_of s \<and>
    w_tabs (snd (remove_tab j w)) ! w_active_tab_idx (snd (remove_tab j w)) = w_tabs w ! w_active_tab_idx w"
proof -
  have n: "1 < length (ss_tabs s)" "ss_active_tab s < length (ss_tabs s)" "1 < length (w_tabs w)"
    using assms by (auto simp: session_ok_def)
  then show ?thesis
    using session_strip.close_keeps_active [of s i] session_strip.close_in_range [of s i]
      window_strip.close_keeps_active [of w j] session_strip.prev_next [of s] session_strip.next_law [of s]
      session_strip.prev_law [of "snd (next_tab s)"] assms
    by (simp add: active_tab_of_def)
qed

theorem closing_keeps_active_tab_witness:
  "active_tab_of (snd (close_tab 0 (snd (new_tab [0x41] (session_new [] 80 24))))) = Some (tab_new 1 [0x41] 80 24)"
proof -
  let ?s = "snd (new_tab [0x41] (session_new [] 80 24))" and ?w = "snd (add_tab [] (window_new 0 [] 80 24))"
  have "session_ok ?s"
    using session_new_ok [of "[]" 80 24] by (intro new_tab_ok) (simp_all add: session_new_def)
  from closing_keeps_active_tab [OF this, of 0 ?w 0] show ?thesis
    by (simp add: new_tab_def session_new_def add_tab_def window_new_def active_tab_of_def pane_size_new_def)
qed

text \<open>
  Breaking a pane out closes it and opens a tab with a fresh pane: the code's \<open>Move the active pane
  of the current tab to a new tab\<close> moves nothing (the title, the scrollback and the number of the pane
  are gone), and the tab it leaves has one pane less.
\<close>
theorem break_pane_opens_empty_tab:
  assumes "session_ok s" and "tab_pane i (ss_tabs s ! ss_active_tab s) \<noteq> None"
    and "1 < tab_pane_count (ss_tabs s ! ss_active_tab s)"
  shows "returns (break_pane_to_new_tab i s) (\<lambda>(r, s').
    r = Some (ss_next_tab_id s) \<and>
    map_option (\<lambda>t. map snd (t_panes t)) (active_tab_of s') = Some [pane_new 0 (ps_cols (ss_size s)) (ps_rows (ss_size s))] \<and>
    tab_pane i (ss_tabs s' ! ss_active_tab s) = None)"
proof -
  let ?k = "ss_active_tab s" and ?t = "ss_tabs s ! ss_active_tab s"
  have k: "?k < length (ss_tabs s)" and t: "tab_ok ?t"
    using assms(1) session_active_ok by (auto simp: session_ok_def)
  have swaps: "keys (t_panes (apply_swap_layout_at j u)) = keys (t_panes u)"
      "keys (t_panes (auto_swap_layout u)) = keys (t_panes u)" for j u
    by (auto simp: apply_swap_layout_at_def auto_swap_layout_def Let_def sync_pane_sizes_eq split: list.split)
  have "keys (t_panes (snd (close_pane i ?t))) = keys (t_panes ?t) - {i}"
  proof -
    obtain p where "tab_pane i ?t = Some p"
      using assms(2) by blast
    then show ?thesis
      using assms(3) tab_okD(3) [OF t]
      by (simp add: close_pane_def Let_def swaps sync_pane_sizes_eq delete_keys_distinct)
  qed
  then have "tab_pane i (snd (close_pane i ?t)) = None"
    using tab_pane_iff [of i "snd (close_pane i ?t)"] by auto
  then show ?thesis
    using assms(2,3) k
    by (auto simp: break_pane_to_new_tab_def Let_def insert_at_def nth_append active_tab_of_def tab_new_def min_def)
qed

definition two_pane_session :: session where
  "two_pane_session = (session_new [] 80 24)
     \<lparr>ss_tabs := [tab_exec (CEmbed 1) (tab_exec CNewFloating (tab_new 0 [] 80 24))]\<rparr>"

lemma two_pane_session_keys: "map fst (t_panes (ss_tabs two_pane_session ! 0)) = [0, 1]"
  by (simp add: two_pane_session_def embed_floating_pane_def new_floating_pane_def new_floating_pane_with_coords_def
      default_float_def push_floating_def tab_new_def find_floating_idx_def Let_def pane_new_def sync_pane_sizes_eq)

theorem break_pane_opens_empty_tab_witness:
  "returns (break_pane_to_new_tab 0 two_pane_session) (\<lambda>(r, s'). r = Some 1 \<and>
    map_option (\<lambda>t. map snd (t_panes t)) (active_tab_of s') = Some [pane_new 0 80 24] \<and>
    tab_pane 0 (ss_tabs s' ! 0) = None)"
proof -
  let ?t = "ss_tabs two_pane_session ! 0"
  have "tab_ok ?t"
    unfolding two_pane_session_def by (simp, intro tab_exec_ok embed_floating_ok new_floating_default_ok tab_new_ok)
      (simp_all add: tab_new_def)
  moreover have "t_id ?t = 0"
    by (simp add: two_pane_session_def frame_simps) (simp add: tab_new_def)
  ultimately have "session_ok two_pane_session"
    by (simp add: session_ok_def tabs_ok_def two_pane_session_def session_new_def)
  moreover have "tab_pane 0 ?t \<noteq> None"
  proof -
    have "keys (t_panes ?t) = {0, 1}"
      using arg_cong [OF two_pane_session_keys, of set] by simp
    then show ?thesis
      by (subst tab_pane_iff) simp
  qed
  moreover have "1 < tab_pane_count ?t"
    using arg_cong [OF two_pane_session_keys, of length] by (simp add: tab_pane_count_def)
  moreover have "ss_active_tab two_pane_session = 0" "ss_next_tab_id two_pane_session = 1"
      "ss_size two_pane_session = pane_size_new 80 24"
    by (simp_all add: two_pane_session_def session_new_def)
  ultimately show ?thesis
    using break_pane_opens_empty_tab [of two_pane_session 0] by (simp add: pane_size_new_def)
qed

end
