(* ===== verification/Ipc_Codec.thy ===== *)
theory Ipc_Codec
  imports Emux_Prelude
begin

unbundle bit_operations_syntax

text \<open>
  \<open>crates/emux-ipc/src/codec.rs\<close>: messages framed by a four-byte big-endian length. The JSON library
  is outside the repository: \<open>serde_json::to_vec\<close> and \<open>serde_json::from_slice\<close> are the arguments
  \<open>to_vec\<close> and \<open>from_slice\<close> of the definitions, \<open>None\<close> for the library's error. A reader is the bytes it
  will deliver before the end of the stream; a writer is a sink with the bytes it has taken and,
  where it will fail, the room it has left.
\<close>

section \<open>Errors, readers and writers\<close>

datatype io_kind = UnexpectedEof | InvalidData | WriteFailed

datatype codec_error = CodecIo io_kind | CodecJson

record sink =
  sk_bytes :: "u8 list"
  sk_room :: "nat option"

text \<open>\<open>write_all\<close>: on failure the sink has taken what it had room for.\<close>

definition write_all :: "u8 list \<Rightarrow> sink \<Rightarrow> (codec_error + unit) \<times> sink" where
  "write_all bs w =
     (case sk_room w of
        None \<Rightarrow> (Inr (), w\<lparr>sk_bytes := sk_bytes w @ bs\<rparr>)
      | Some n \<Rightarrow>
          ((if length bs \<le> n then Inr () else Inl (CodecIo WriteFailed)),
           w\<lparr>sk_bytes := sk_bytes w @ take n bs, sk_room := Some (n - length bs)\<rparr>))"

text \<open>\<open>read_exact\<close>: on failure the stream has been read to its end.\<close>

definition read_exact :: "nat \<Rightarrow> u8 list \<Rightarrow> (codec_error + u8 list) \<times> u8 list" where
  "read_exact n bs =
     (if length bs < n then (Inl (CodecIo UnexpectedEof), []) else (Inr (take n bs), drop n bs))"

section \<open>The length prefix\<close>

definition to_be_bytes :: "u32 \<Rightarrow> u8 list" where
  "to_be_bytes w = [ucast (drop_bit 24 w), ucast (drop_bit 16 w), ucast (drop_bit 8 w), ucast w]"

definition from_be_bytes :: "u8 list \<Rightarrow> u32" where
  "from_be_bytes bs = fold (\<lambda>b w. push_bit 8 w OR ucast b) bs 0"

lemma length_to_be_bytes [simp]: "length (to_be_bytes w) = 4"
  by (simp add: to_be_bytes_def)

lemma from_to_be_bytes [simp]: "from_be_bytes (to_be_bytes w) = w"
proof (rule bit_word_eqI)
  fix n
  assume "n < LENGTH(32)"
  then consider "n < 8" | "8 \<le> n" "n < 16" | "16 \<le> n" "n < 24" | "24 \<le> n" "n < 32"
    by fastforce
  then show "bit (from_be_bytes (to_be_bytes w)) n \<longleftrightarrow> bit w n"
    by cases (auto simp: from_be_bytes_def to_be_bytes_def bit_simps)
qed

section \<open>Frames\<close>

definition encode :: "('m \<Rightarrow> u8 list option) \<Rightarrow> 'm \<Rightarrow> codec_error + u8 list" where
  "encode to_vec msg =
     (case to_vec msg of
        None \<Rightarrow> Inl CodecJson
      | Some payload \<Rightarrow> Inr (to_be_bytes (of_nat (length payload)) @ payload))"

definition decode :: "(u8 list \<Rightarrow> 'm option) \<Rightarrow> u8 list \<Rightarrow> codec_error + 'm" where
  "decode from_slice data = (case from_slice data of None \<Rightarrow> Inl CodecJson | Some m \<Rightarrow> Inr m)"

definition write_message :: "('m \<Rightarrow> u8 list option) \<Rightarrow> 'm \<Rightarrow> sink \<Rightarrow> (codec_error + unit) \<times> sink" where
  "write_message to_vec msg w =
     (case encode to_vec msg of
        Inl e \<Rightarrow> (Inl e, w)
      | Inr bytes \<Rightarrow> write_all bytes w)"

definition MAX_MESSAGE_SIZE :: nat where
  "MAX_MESSAGE_SIZE = 16 * 1024 * 1024"

definition read_message :: "(u8 list \<Rightarrow> 'm option) \<Rightarrow> u8 list \<Rightarrow> (codec_error + 'm) \<times> u8 list" where
  "read_message from_slice r =
     (case read_exact 4 r of
        (Inl e, r) \<Rightarrow> (Inl e, r)
      | (Inr len_buf, r) \<Rightarrow>
          let len = unat (from_be_bytes len_buf) in
          if MAX_MESSAGE_SIZE < len then (Inl (CodecIo InvalidData), r)
          else (case read_exact len r of
                  (Inl e, r) \<Rightarrow> (Inl e, r)
                | (Inr payload, r) \<Rightarrow> (decode from_slice payload, r)))"

section \<open>Conversations\<close>

text \<open>Messages written one after the other, and as many read: each stops at its first error.\<close>

fun write_messages :: "('m \<Rightarrow> u8 list option) \<Rightarrow> 'm list \<Rightarrow> sink \<Rightarrow> (codec_error + unit) \<times> sink" where
  "write_messages to_vec [] w = (Inr (), w)"
| "write_messages to_vec (m # ms) w =
     (case write_message to_vec m w of
        (Inl e, w) \<Rightarrow> (Inl e, w)
      | (Inr _, w) \<Rightarrow> write_messages to_vec ms w)"

fun read_messages :: "(u8 list \<Rightarrow> 'm option) \<Rightarrow> nat \<Rightarrow> u8 list \<Rightarrow> (codec_error + 'm list) \<times> u8 list" where
  "read_messages from_slice 0 r = (Inr [], r)"
| "read_messages from_slice (Suc n) r =
     (case read_message from_slice r of
        (Inl e, r) \<Rightarrow> (Inl e, r)
      | (Inr m, r) \<Rightarrow>
          (case read_messages from_slice n r of (Inl e, r) \<Rightarrow> (Inl e, r) | (Inr ms, r) \<Rightarrow> (Inr (m # ms), r)))"

definition open_sink :: sink where
  "open_sink = \<lparr>sk_bytes = [], sk_room = None\<rparr>"

text \<open>The bytes of one frame.\<close>

definition frame :: "u8 list \<Rightarrow> u8 list" where
  "frame payload = to_be_bytes (of_nat (length payload)) @ payload"

lemma write_frame:
  "to_vec m = Some p \<Longrightarrow> sk_room w = None \<Longrightarrow>
   write_message to_vec m w = (Inr (), w\<lparr>sk_bytes := sk_bytes w @ frame p\<rparr>)"
  by (simp add: write_message_def encode_def write_all_def frame_def)

lemma read_exact_append [simp]: "length xs = n \<Longrightarrow> read_exact n (xs @ ys) = (Inr xs, ys)"
  by (simp add: read_exact_def)

lemma read_header:
  "read_message from_slice (to_be_bytes w @ r) =
     (if MAX_MESSAGE_SIZE < unat w then (Inl (CodecIo InvalidData), r)
      else if length r < unat w then (Inl (CodecIo UnexpectedEof), [])
      else (decode from_slice (take (unat w) r), drop (unat w) r))"
  by (simp add: read_message_def read_exact_def Let_def)

lemma unat_length: "length p \<le> MAX_MESSAGE_SIZE \<Longrightarrow> unat (of_nat (length p) :: u32) = length p"
  by (simp add: MAX_MESSAGE_SIZE_def unat_of_nat)

lemma read_frame:
  "length p \<le> MAX_MESSAGE_SIZE \<Longrightarrow> read_message from_slice (frame p @ r) = (decode from_slice p, r)"
  by (simp add: frame_def read_header unat_length)

lemma write_messages_frames:
  "list_all (\<lambda>m. to_vec m \<noteq> None) ms \<Longrightarrow> sk_room w = None \<Longrightarrow>
   write_messages to_vec ms w = (Inr (), w\<lparr>sk_bytes := sk_bytes w @ concat (map (\<lambda>m. frame (the (to_vec m))) ms)\<rparr>)"
  by (induction ms arbitrary: w) (auto simp: write_frame)

lemma read_messages_frames:
  assumes "\<And>m p. to_vec m = Some p \<Longrightarrow> from_slice p = Some m"
  shows "list_all (\<lambda>m. case to_vec m of None \<Rightarrow> False | Some p \<Rightarrow> length p \<le> MAX_MESSAGE_SIZE) ms \<Longrightarrow>
    read_messages from_slice (length ms) (concat (map (\<lambda>m. frame (the (to_vec m))) ms) @ r) = (Inr ms, r)"
  by (induction ms) (auto simp: read_frame decode_def assms split: option.splits)

section \<open>The messages\<close>

text \<open>
  \<open>crates/emux-ipc/src/messages.rs\<close>: the messages a client and the daemon exchange. Strings are their
  bytes; \<open>usize\<close> fields are \<open>nat\<close>, fields of a fixed width are words.
\<close>

abbreviation PROTOCOL_VERSION :: u32 where "PROTOCOL_VERSION \<equiv> 1"

datatype ipc_split = IpcHorizontal | IpcVertical

datatype client_message =
    Ping
  | GetVersion
  | KeyInput "u8 list"
  | Resize u16 u16
  | SpawnPane "rstr option"
  | KillPane u32
  | FocusPane u32
  | Detach
  | Attach u16 u16
  | ListSessions
  | KillSession rstr
  | SplitPane ipc_split "u16 option"
  | CapturePane u32
  | SendKeys u32 rstr
  | ListPanes
  | GetPaneInfo u32
  | ResizePane u32 u16 u16
  | SetPaneTitle u32 rstr

record session_entry =
  se_name :: rstr
  se_tabs :: nat
  se_panes :: nat
  se_cols :: nat
  se_rows :: nat

record pane_entry =
  pe_id :: u32
  pe_title :: rstr
  pe_cols :: u16
  pe_rows :: u16
  pe_active :: bool
  pe_has_notification :: bool

text \<open>The text of a pane is a list of lines of code points, joined with newlines.\<close>

datatype server_message =
    Pong
  | Version u32
  | Render u32 "rchar list"
  | SpawnResult u32
  | Error rstr
  | Ack
  | SessionList "session_entry list"
  | PaneCaptured u32 "rchar list"
  | PaneList "pane_entry list"
  | PaneInfo pane_entry
  | PtyOutput u32 "u8 list"
  | LayoutChanged
  | SessionEnded

end
