(* ===== verification/Ipc_Properties.thy ===== *)
theory Ipc_Properties
  imports Ipc_Codec
begin

text \<open>The properties of the framing codec.\<close>

text \<open>The JSON of a message whose text is given in the tests: a library stand-in that writes one digit.\<close>

definition digit_to_vec :: "bool \<Rightarrow> u8 list option" where
  "digit_to_vec b = Some [if b then 0x31 else 0x30]"

definition digit_from_slice :: "u8 list \<Rightarrow> bool option" where
  "digit_from_slice bs = (if bs = [0x31] then Some True else if bs = [0x30] then Some False else None)"

text \<open>
  C14: what one side writes the other reads: if the JSON library reads back what it wrote, and every
  message is serialised within the limit, then the messages read from the bytes of any conversation are
  the messages written, in their order, and what follows in the stream is left unread.
\<close>
theorem conversation_roundtrip:
  assumes "\<And>m p. to_vec m = Some p \<Longrightarrow> from_slice p = Some m"
    and "list_all (\<lambda>m. case to_vec m of None \<Rightarrow> False | Some p \<Rightarrow> length p \<le> MAX_MESSAGE_SIZE) ms"
  shows "fst (write_messages to_vec ms open_sink) = Inr () \<and>
    read_messages from_slice (length ms) (sk_bytes (snd (write_messages to_vec ms open_sink)) @ rest) = (Inr ms, rest)"
proof -
  have "list_all (\<lambda>m. to_vec m \<noteq> None) ms"
    using assms(2) by (auto simp: list_all_iff split: option.splits)
  then show ?thesis
    using read_messages_frames [OF assms] by (simp add: write_messages_frames open_sink_def)
qed

theorem conversation_roundtrip_witness:
  "read_messages digit_from_slice 2
     (sk_bytes (snd (write_messages digit_to_vec [True, False] open_sink)) @ [7]) = (Inr [True, False], [7])"
proof -
  have 1: "digit_from_slice p = Some m" if "digit_to_vec m = Some p" for m p
    using that by (cases m) (auto simp: digit_to_vec_def digit_from_slice_def)
  have "list_all (\<lambda>m. case digit_to_vec m of None \<Rightarrow> False | Some p \<Rightarrow> length p \<le> MAX_MESSAGE_SIZE) [True, False]"
    by (simp add: digit_to_vec_def MAX_MESSAGE_SIZE_def)
  with 1 show ?thesis
    using conversation_roundtrip [where rest = "[7]" and to_vec = digit_to_vec and from_slice = digit_from_slice
      and ms = "[True, False]"]
    by (simp del: write_messages.simps read_messages.simps add: numeral_2_eq_2)
qed

text \<open>
  How a frame is refused. A frame cut short anywhere is an end-of-file error and consumes the stream;
  a length above the limit is refused before its payload is read. The writer does not know the limit: a
  message serialised above it is written without an error, and the reader refuses it and takes the
  payload for the frames that follow.
\<close>
theorem frames_refused:
  assumes "length p \<le> MAX_MESSAGE_SIZE" and "k < length (frame p)"
    and "to_vec m = Some q" and "MAX_MESSAGE_SIZE < length q" and "length q < 2 ^ 32"
  shows "read_message from_slice (take k (frame p)) = (Inl (CodecIo UnexpectedEof), []) \<and>
    write_message to_vec m open_sink = (Inr (), open_sink\<lparr>sk_bytes := frame q\<rparr>) \<and>
    read_message from_slice (frame q) = (Inl (CodecIo InvalidData), q)"
proof (intro conjI)
  show "read_message from_slice (take k (frame p)) = (Inl (CodecIo UnexpectedEof), [])"
  proof (cases "k < 4")
    case True
    then show ?thesis
      by (simp add: read_message_def read_exact_def frame_def)
  next
    case False
    then have "k - 4 < length p"
      using assms(2) by (simp add: frame_def)
    then show ?thesis
      using False assms(1) by (simp add: frame_def read_header unat_length)
  qed
  have "unat (of_nat (length q) :: u32) = length q"
    using assms(5) by (simp add: unat_of_nat)
  then show "read_message from_slice (frame q) = (Inl (CodecIo InvalidData), q)"
    using assms(4) by (simp add: frame_def read_header)
  show "write_message to_vec m open_sink = (Inr (), open_sink\<lparr>sk_bytes := frame q\<rparr>)"
    using write_frame [where to_vec = to_vec and w = open_sink, OF assms(3)] by (simp add: open_sink_def)
qed

text \<open>A message of \<open>n\<close> spaces.\<close>

definition blank_to_vec :: "nat \<Rightarrow> u8 list option" where
  "blank_to_vec n = Some (replicate n 0x20)"

theorem frames_refused_witness:
  "read_message digit_from_slice (take 4 (frame [0x31])) = (Inl (CodecIo UnexpectedEof), []) \<and>
   fst (read_message digit_from_slice (sk_bytes (snd (write_message blank_to_vec (16 * 1024 * 1024 + 1) open_sink)))) =
     Inl (CodecIo InvalidData)"
proof -
  define n where "n = (16 * 1024 * 1024 + 1 :: nat)"
  have "length [0x31 :: u8] \<le> MAX_MESSAGE_SIZE" "4 < length (frame [0x31])"
    "blank_to_vec n = Some (replicate n 0x20)" "MAX_MESSAGE_SIZE < length (replicate n (0x20 :: u8))"
    "length (replicate n (0x20 :: u8)) < 2 ^ 32"
    by (simp_all add: MAX_MESSAGE_SIZE_def frame_def blank_to_vec_def) (simp_all add: n_def)
  from frames_refused [where from_slice = digit_from_slice and to_vec = blank_to_vec and m = n, OF this] show ?thesis
    unfolding n_def [symmetric] by simp
qed

end
