(* ===== verification/Daemon_Persistence.thy ===== *)
theory Daemon_Persistence
  imports Mux_Session
begin

text \<open>
  \<open>crates/emux-daemon/src/persistence.rs\<close>: what of a session is saved, how it is restored, and the
  files. The JSON library is the arguments \<open>to_string\<close> and \<open>from_str\<close>; the file system is a map from
  paths to contents with, for each call that may fail, the fault it meets.
\<close>

section \<open>Snapshots\<close>

record pane_snapshot =
  psn_id :: u32
  psn_title :: rstr
  psn_scrollback :: "rstr list"
  psn_working_directory :: "rstr option"
  psn_scroll_offset :: nat

record tab_snapshot =
  tsn_name :: rstr
  tsn_panes :: "pane_snapshot list"
  tsn_active_pane_id :: "u32 option"

record session_snapshot =
  sn_name :: rstr
  sn_cols :: nat
  sn_rows :: nat
  sn_tab_count :: nat
  sn_tab_names :: "rstr list"
  sn_tabs :: "tab_snapshot list"
  sn_active_tab_index :: nat

definition snapshot_pane :: "pane_id \<Rightarrow> pane \<Rightarrow> pane_snapshot" where
  "snapshot_pane i p =
     \<lparr>psn_id = i, psn_title = pn_title p, psn_scrollback = pn_scrollback p, psn_working_directory = None,
      psn_scroll_offset = pn_scroll_offset p\<rparr>"

definition snapshot_tab :: "tab \<Rightarrow> tab_snapshot" where
  "snapshot_tab t =
     \<lparr>tsn_name = t_name t,
      tsn_panes = List.map_filter (\<lambda>i. map_option (snapshot_pane i) (tab_pane i t)) (tab_pane_ids t),
      tsn_active_pane_id = t_active_pane t\<rparr>"

definition snapshot_from_session :: "session \<Rightarrow> session_snapshot" where
  "snapshot_from_session s =
     \<lparr>sn_name = ss_name s, sn_cols = ps_cols (ss_size s), sn_rows = ps_rows (ss_size s),
      sn_tab_count = length (ss_tabs s), sn_tab_names = tab_names s,
      sn_tabs = map snapshot_tab (ss_tabs s), sn_active_tab_index = ss_active_tab s\<rparr>"

definition restore_pane :: "pane_snapshot \<Rightarrow> pane \<Rightarrow> pane" where
  "restore_pane ps p =
     (let p = (if psn_title ps \<noteq> [] then set_title (psn_title ps) p else p) in
      case psn_working_directory ps of Some wd \<Rightarrow> set_working_directory wd p | None \<Rightarrow> p)"

definition restore_tab :: "tab_snapshot \<Rightarrow> tab \<Rightarrow> tab" where
  "restore_tab ts t = fold (\<lambda>ps t. update_pane (psn_id ps) (restore_pane ps) t) (tsn_panes ts) t"

text \<open>\<open>if let Some(tab) = session.tab_mut(i)\<close>.\<close>

definition update_tab :: "nat \<Rightarrow> (tab \<Rightarrow> tab) \<Rightarrow> session \<Rightarrow> session" where
  "update_tab i f s =
     (if i < length (ss_tabs s) then s\<lparr>ss_tabs := (ss_tabs s)[i := f (ss_tabs s ! i)]\<rparr> else s)"

definition session_from_snapshot :: "session_snapshot \<Rightarrow> session" where
  "session_from_snapshot snap =
     (let s = session_new (sn_name snap) (sn_cols snap) (sn_rows snap);
          s = (case sn_tab_names snap of name # _ \<Rightarrow> update_tab 0 (tab_rename name) s | [] \<Rightarrow> s);
          s = fold (\<lambda>name s. snd (new_tab name s)) (drop 1 (sn_tab_names snap)) s;
          s = fold (\<lambda>(i, ts) s. update_tab i (restore_tab ts) s) (enumerate 0 (sn_tabs snap)) s
      in if sn_active_tab_index snap < length (ss_tabs s) then snd (switch_tab (sn_active_tab_index snap) s) else s)"

section \<open>Paths\<close>

definition sessions_dir :: "rstr option \<Rightarrow> rstr option" where
  "sessions_dir home =
     map_option (\<lambda>h. path_join (path_join (path_join (path_join h (ascii ''.local'')) (ascii ''share'')) (ascii ''emux''))
       (ascii ''sessions'')) home"

definition default_snapshot_path :: "rstr option \<Rightarrow> rstr \<Rightarrow> rstr option" where
  "default_snapshot_path home session_name =
     map_option (\<lambda>dir. path_join dir (session_name @ ascii ''.json'')) (sessions_dir home)"

text \<open>
  \<open>Path::with_extension\<close> on a path that ends in a file name: what follows the last dot of the name
  goes, unless that dot starts it.
\<close>

definition split_last :: "u8 \<Rightarrow> u8 list \<Rightarrow> u8 list \<times> u8 list" where
  "split_last b p = (rev (dropWhile (\<lambda>x. x \<noteq> b) (rev p)), rev (takeWhile (\<lambda>x. x \<noteq> b) (rev p)))"

definition file_stem :: "rstr \<Rightarrow> rstr" where
  "file_stem name =
     (let (before, after) = split_last 0x2E name in
      if length before \<le> 1 then name else butlast before)"

definition with_extension :: "rstr \<Rightarrow> rstr \<Rightarrow> rstr" where
  "with_extension ext p =
     (let (dir, name) = split_last 0x2F p in dir @ file_stem name @ 0x2E # ext)"

section \<open>Files\<close>

type_synonym files = "rstr \<Rightarrow> u8 list option"

text \<open>What may go wrong during a save, \<open>WriteFault\<close> with the bytes that were written before it.\<close>

datatype save_fault = NoFault | DirFault | WriteFault nat | RenameFault

definition save_session ::
  "(session_snapshot \<Rightarrow> u8 list option) \<Rightarrow> save_fault \<Rightarrow> session \<Rightarrow> rstr \<Rightarrow> files \<Rightarrow> bool \<times> files" where
  "save_session to_string fault s path fs =
     (if fault = DirFault then (False, fs)
      else
        case to_string (snapshot_from_session s) of
          None \<Rightarrow> (False, fs)
        | Some json \<Rightarrow>
            let tmp_path = with_extension (ascii ''json.tmp'') path in
            (case fault of
               WriteFault n \<Rightarrow> (False, fs(tmp_path \<mapsto> take n json))
             | RenameFault \<Rightarrow> (False, fs(tmp_path \<mapsto> json))
             | _ \<Rightarrow> (True, fs(path \<mapsto> json, tmp_path := None))))"

definition load_snapshot :: "(u8 list \<Rightarrow> session_snapshot option) \<Rightarrow> rstr \<Rightarrow> files \<Rightarrow> session_snapshot option" where
  "load_snapshot from_str path fs = Option.bind (fs path) from_str"

definition load_session :: "(u8 list \<Rightarrow> session_snapshot option) \<Rightarrow> rstr \<Rightarrow> files \<Rightarrow> session option" where
  "load_session from_str path fs = map_option session_from_snapshot (load_snapshot from_str path fs)"

text \<open>\<open>list_sessions\<close>, over the entries of the directory.\<close>

definition has_extension :: "rstr \<Rightarrow> rstr \<Rightarrow> bool" where
  "has_extension ext p =
     (let name = snd (split_last 0x2F p); (before, after) = split_last 0x2E name in
      1 < length before \<and> after = ext)"

definition list_sessions ::
  "(u8 list \<Rightarrow> session_snapshot option) \<Rightarrow> rstr list \<Rightarrow> files \<Rightarrow> (rstr \<times> rstr) list" where
  "list_sessions from_str entries fs =
     List.map_filter (\<lambda>path. if has_extension (ascii ''json'') path
       then map_option (\<lambda>snap. (sn_name snap, path)) (load_snapshot from_str path fs) else None) entries"

end
