(* ===== verification/Persistence_Properties.thy ===== *)
theory Persistence_Properties
  imports Daemon_Persistence Session_Properties
begin

text \<open>The properties of saving and restoring a session.\<close>

section \<open>Files\<close>

lemma split_last_parts: "fst (split_last b p) @ snd (split_last b p) = p"
  unfolding split_last_def fst_conv snd_conv
  by (metis rev_append rev_rev_ident takeWhile_dropWhile_id)

lemma split_last_after: "b \<notin> set (snd (split_last b p))"
  by (auto simp: split_last_def dest: set_takeWhileD)

lemma split_last_before: "fst (split_last b p) = [] \<or> last (fst (split_last b p)) = b"
  using hd_dropWhile [of "\<lambda>x. x \<noteq> b" "rev p"] by (auto simp: split_last_def last_rev)

text \<open>The temporary file is another file: its last dot is not where that of the file may be.\<close>

lemma tmp_path_differs: "with_extension (ascii ''json.tmp'') p \<noteq> p"
proof -
  let ?d = "fst (split_last 0x2F p)" and ?n = "snd (split_last 0x2F p)"
  have p: "p = ?d @ ?n"
    by (simp add: split_last_parts)
  have "file_stem ?n @ ascii ''.json.tmp'' \<noteq> ?n"
  proof
    assume eq: "file_stem ?n @ ascii ''.json.tmp'' = ?n"
    define before after where "before = fst (split_last 0x2E ?n)" and "after = snd (split_last 0x2E ?n)"
    have n: "?n = before @ after"
      by (simp add: before_def after_def split_last_parts)
    have stem: "file_stem ?n = (if length before \<le> 1 then ?n else butlast before)"
      by (simp add: file_stem_def before_def case_prod_beta)
    have long: "\<not> length before \<le> 1"
      using eq stem by (auto simp: ascii_def)
    then have "before = butlast before @ [0x2E]"
      using split_last_before [of "0x2E" ?n] by (metis append_butlast_last_id before_def list.size(3) zero_le)
    then have "butlast before @ ascii ''.json.tmp'' = butlast before @ 0x2E # after"
      using eq stem long n by (metis append.assoc append_Cons append_Nil)
    then have "0x2E # after = ascii ''.json.tmp''"
      by simp
    then have "0x2E \<in> set after"
      by (simp add: ascii_def byte_def)
    then show False
      using split_last_after [of "0x2E" ?n] by (simp add: after_def)
  qed
  moreover have "with_extension (ascii ''json.tmp'') p = ?d @ file_stem ?n @ ascii ''.json.tmp''"
    by (simp add: with_extension_def case_prod_beta ascii_def byte_def)
  ultimately show ?thesis
    using p by (metis same_append_eq)
qed

lemma save_atomic:
  assumes "\<And>x json. to_string x = Some json \<Longrightarrow> from_str json = Some x"
  shows "case save_session to_string fault s path fs of (ok, fs') \<Rightarrow>
    load_snapshot from_str path fs' = (if ok then Some (snapshot_from_session s) else load_snapshot from_str path fs) \<and>
    (\<forall>q. q \<noteq> path \<longrightarrow> q \<noteq> with_extension (ascii ''json.tmp'') path \<longrightarrow> fs' q = fs q)"
  using assms tmp_path_differs [of path] tmp_path_differs [of path, symmetric]
  by (auto simp: save_session_def load_snapshot_def Let_def split: option.split save_fault.split)

text \<open>
  C15: a save is atomic: whatever fails during it (the directory, the write after any number of bytes, the
  rename), the snapshot at the path is the new one if the save is reported done, and otherwise the one
  that was there; no file but the temporary one beside it is touched.
\<close>
theorem save_is_atomic:
  assumes "\<And>x json. to_string x = Some json \<Longrightarrow> from_str json = Some x"
  shows "case save_session to_string fault s path fs of (ok, fs') \<Rightarrow>
    load_snapshot from_str path fs' = (if ok then Some (snapshot_from_session s) else load_snapshot from_str path fs) \<and>
    (q \<noteq> path \<and> q \<noteq> with_extension (ascii ''json.tmp'') path \<longrightarrow> fs' q = fs q)"
  using save_atomic [where to_string = to_string and from_str = from_str and fault = fault and s = s and path = path and fs = fs, OF assms]
  by auto

text \<open>A library stand-in that keeps one snapshot.\<close>

definition one_snapshot :: session_snapshot where
  "one_snapshot = snapshot_from_session (session_new [] 80 24)"

theorem save_is_atomic_witness:
  "load_snapshot (\<lambda>j. if j = [1, 2] then Some one_snapshot else None) (ascii ''/a.json'')
     (snd (save_session (\<lambda>x. if x = one_snapshot then Some [1, 2] else None) (WriteFault 1) (session_new [] 80 24)
        (ascii ''/a.json'') ((\<lambda>_. None)(ascii ''/a.json'' \<mapsto> [1, 2])))) = Some one_snapshot"
proof -
  let ?t = "\<lambda>x. if x = one_snapshot then Some [1, 2] else None"
  let ?f = "\<lambda>j. if j = [1, 2 :: u8] then Some one_snapshot else None"
  have "?f json = Some x" if "?t x = Some json" for x json
    using that by (auto split: if_splits)
  from save_is_atomic [where to_string = ?t and from_str = ?f and fault = "WriteFault 1" and s = "session_new [] 80 24"
      and path = "ascii ''/a.json''" and fs = "(\<lambda>_. None)(ascii ''/a.json'' \<mapsto> [1, 2])", OF this] show ?thesis
    by (simp add: case_prod_beta save_session_def load_snapshot_def)
qed

section \<open>What is restored\<close>

lemma map_entry_absent: "i \<notin> keys xs \<Longrightarrow> AList.map_entry i f xs = xs"
  by (induction xs) auto

lemma update_pane_eq: "update_pane i f t = snd (on_pane i f t)"
  using tab_pane_iff [of i t] by (auto simp: on_pane_def update_pane_def map_entry_absent)

lemma update_pane_tab [frame_simps]:
  "tab_pane j (update_pane i f t) = (if j = i then map_option f (tab_pane j t) else tab_pane j t)"
  "tab_pane_ids (update_pane i f t) = tab_pane_ids t" "t_id (update_pane i f t) = t_id t"
  "t_name (update_pane i f t) = t_name t"
  by (simp_all add: update_pane_def tab_pane_def map_entry_map_of tab_pane_ids_def)

lemma restore_pane_fields:
  "pn_id (restore_pane ps p) = pn_id p \<and> pn_size (restore_pane ps p) = pn_size p"
  "pn_title (restore_pane ps p) = (if psn_title ps = [] then pn_title p else psn_title ps)"
  by (simp_all add: restore_pane_def set_title_def set_working_directory_def Let_def split: option.split)

lemma restore_tab_ok: "tab_ok t \<Longrightarrow> tab_ok (restore_tab ts t)"
  unfolding restore_tab_def
  by (induction "tsn_panes ts" arbitrary: ts t)
     (simp_all add: fold_invariant [where P = tab_ok and Q = "\<lambda>_. True"] update_pane_eq on_pane_ok restore_pane_fields)

lemma restore_tab_frame:
  "tab_pane_ids (restore_tab ts t) = tab_pane_ids t \<and> t_id (restore_tab ts t) = t_id t \<and> t_name (restore_tab ts t) = t_name t"
  unfolding restore_tab_def
  by (rule fold_invariant [where Q = "\<lambda>_. True"]) (simp_all add: frame_simps)

lemma restore_tab_title:
  assumes "distinct xs" and "tab_pane i t = Some p"
  shows "map_option pn_title (tab_pane i (fold (\<lambda>ps t. update_pane (psn_id ps) (restore_pane ps) t)
      (List.map_filter (\<lambda>j. map_option (snapshot_pane j) (g j)) xs) t)) =
    Some (case (if i \<in> set xs then g i else None) of
            Some q \<Rightarrow> if pn_title q = [] then pn_title p else pn_title q
          | None \<Rightarrow> pn_title p)"
  using assms
proof (induction xs arbitrary: t p)
  case Nil
  then show ?case by simp
next
  case (Cons x xs)
  show ?case
  proof (cases "g x")
    case None
    then show ?thesis
      using Cons by (auto simp: map_filter_simps)
  next
    case (Some q)
    let ?t = "update_pane x (restore_pane (snapshot_pane x q)) t"
    have t: "tab_pane i ?t = Some (if i = x then restore_pane (snapshot_pane x q) p else p)"
      using Cons.prems by (cases "i = x") (auto simp: frame_simps)
    show ?thesis
      using Cons.IH [OF _ t] Cons.prems Some
      by (auto simp: map_filter_simps snapshot_pane_def restore_pane_fields split: option.split)
  qed
qed

text \<open>The tabs of the session that is rebuilt, before the panes are restored.\<close>

definition rebuilt :: "session_snapshot \<Rightarrow> session" where
  "rebuilt snap =
     (let s = session_new (sn_name snap) (sn_cols snap) (sn_rows snap);
          s = (case sn_tab_names snap of name # _ \<Rightarrow> update_tab 0 (tab_rename name) s | [] \<Rightarrow> s)
      in fold (\<lambda>name s. snd (new_tab name s)) (drop 1 (sn_tab_names snap)) s)"

text \<open>What a session that is being rebuilt looks like: \<open>n\<close> tabs of one pane each.\<close>

definition one_pane :: "tab \<Rightarrow> bool" where
  "one_pane t \<longleftrightarrow> tab_ok t \<and> tab_pane_ids t = [0] \<and> (\<exists>p. tab_pane 0 t = Some p \<and> pn_title p = [])"

lemma one_pane_new: "one_pane (tab_new i name c r)" "one_pane (tab_rename n t) = one_pane t"
  by (simp_all add: one_pane_def tab_new_ok tab_rename_def)
     (simp_all add: tab_new_def tab_pane_def tab_pane_ids_def add_pane_def layout_new_def layout_pane_ids_def pane_new_def
       tab_rename_def)

lemma new_tabs_fold:
  assumes "session_ok s" and "unat (ss_next_tab_id s) + length names < 2 ^ 32"
    and "list_all (one_pane) (ss_tabs s)" and "ss_size s = pane_size_new c r"
  shows "let s' = fold (\<lambda>name s. snd (new_tab name s)) names s in
    session_ok s' \<and> tab_names s' = tab_names s @ names \<and> list_all (one_pane) (ss_tabs s') \<and>
    ss_size s' = ss_size s \<and> ss_name s' = ss_name s"
  using assms
proof (induction names arbitrary: s)
  case Nil
  then show ?case by (simp add: Let_def)
next
  case (Cons name names)
  let ?s = "snd (new_tab name s)"
  have n: "ss_next_tab_id s \<noteq> - 1"
    using Cons.prems(2) by (auto simp: unsigned_minus_1_eq_mask mask_eq_exp_minus_1)
  then have u: "unat (ss_next_tab_id s + 1) = unat (ss_next_tab_id s) + 1"
    using unatSuc [of "ss_next_tab_id s"] by (simp add: add_eq_0_iff add.commute)
  have "session_ok ?s"
    using Cons.prems(1) n by (rule new_tab_ok)
  moreover have "unat (ss_next_tab_id ?s) + length names < 2 ^ 32"
    using Cons.prems(2) u by (simp add: new_tab_def Let_def)
  moreover have "list_all (one_pane) (ss_tabs ?s)" "ss_size ?s = ss_size s" "ss_name ?s = ss_name s"
    "tab_names ?s = tab_names s @ [name]"
    using Cons.prems(3,4) one_pane_new
    by (simp_all add: new_tab_def Let_def pane_size_new_def tab_names_def, simp add: tab_new_def)
  ultimately show ?case
    using Cons.IH [of ?s] Cons.prems(4) by (simp add: Let_def)
qed

lemma rebuilt_ok:
  assumes "sn_tab_names snap \<noteq> []" and "length (sn_tab_names snap) < 2 ^ 32"
  shows "session_ok (rebuilt snap)" "tab_names (rebuilt snap) = sn_tab_names snap"
    "list_all one_pane (ss_tabs (rebuilt snap))" "ss_size (rebuilt snap) = pane_size_new (sn_cols snap) (sn_rows snap)"
    "ss_name (rebuilt snap) = sn_name snap"
proof -
  obtain name names where names: "sn_tab_names snap = name # names"
    using assms(1) by (cases "sn_tab_names snap") auto
  let ?s = "update_tab 0 (tab_rename name) (session_new (sn_name snap) (sn_cols snap) (sn_rows snap))"
  have tabs: "ss_tabs ?s = [tab_rename name (tab_new 0 (ascii ''Tab 1'') (sn_cols snap) (sn_rows snap))]"
    by (simp add: update_tab_def session_new_def)
  have "tab_ok (tab_rename name (tab_new 0 n c r))" "t_id (tab_rename name (tab_new 0 n c r)) = 0" for n c r
    by (simp_all add: tab_rename_def tab_new_ok) (simp add: tab_new_def)
  then have "session_ok ?s"
    by (simp add: session_ok_def tabs_ok_def tabs) (simp add: update_tab_def session_new_def)
  moreover have "list_all one_pane (ss_tabs ?s)" "tab_names ?s = [name]"
    using tabs one_pane_new by (simp_all add: tab_names_def, simp add: tab_rename_def)
  moreover have "ss_next_tab_id ?s = 1" "ss_size ?s = pane_size_new (sn_cols snap) (sn_rows snap)"
    "ss_name ?s = sn_name snap"
    by (simp_all add: update_tab_def session_new_def)
  moreover have "rebuilt snap = fold (\<lambda>name s. snd (new_tab name s)) names ?s"
    by (simp add: rebuilt_def names)
  ultimately show "session_ok (rebuilt snap)" "tab_names (rebuilt snap) = sn_tab_names snap"
    "list_all one_pane (ss_tabs (rebuilt snap))" "ss_size (rebuilt snap) = pane_size_new (sn_cols snap) (sn_rows snap)"
    "ss_name (rebuilt snap) = sn_name snap"
    using new_tabs_fold [of ?s names] assms(2) names by (simp_all add: Let_def)
qed

lemma update_tab_ok:
  assumes "session_ok s" and "\<And>t. tab_ok t \<Longrightarrow> tab_ok (f t) \<and> t_id (f t) = t_id t"
  shows "session_ok (update_tab i f s)"
proof (cases "i < length (ss_tabs s)")
  case True
  then have "tab_ok (ss_tabs s ! i)"
    using assms(1) by (auto simp: session_ok_def tabs_ok_def list_all_length)
  with True show ?thesis
    using assms tabs_ok_update [of "ss_tabs s" "ss_next_tab_id s" "f (ss_tabs s ! i)" i]
    by (simp add: session_ok_def update_tab_def)
qed (simp add: update_tab_def assms(1))

text \<open>The loop over the saved tabs updates each tab once.\<close>

lemma update_tabs_fold:
  "k + length tss = length (ss_tabs s) \<Longrightarrow>
   fold (\<lambda>(i, ts) s. update_tab i (restore_tab ts) s) (enumerate k tss) s =
     s\<lparr>ss_tabs := take k (ss_tabs s) @ map2 restore_tab tss (drop k (ss_tabs s))\<rparr>"
proof (induction tss arbitrary: k s)
  case Nil
  then show ?case by simp
next
  case (Cons ts tss)
  then have "k < length (ss_tabs s)" by simp
  then show ?case
    using Cons by (simp add: update_tab_def take_Suc_conv_app_nth Cons_nth_drop_Suc [symmetric])
qed

lemma update_tabs_ok:
  "session_ok s \<Longrightarrow> session_ok (fold (\<lambda>(i, ts) s. update_tab i (restore_tab ts) s) xs s)"
  by (rule fold_invariant [where Q = "\<lambda>_. True"])
     (auto intro!: update_tab_ok simp: restore_tab_ok restore_tab_frame)

lemma switch_tab_ok: "session_ok s \<Longrightarrow> i < length (ss_tabs s) \<Longrightarrow>
  session_ok (snd (switch_tab i s)) \<and> ss_tabs (snd (switch_tab i s)) = ss_tabs s \<and> ss_active_tab (snd (switch_tab i s)) = i \<and>
  ss_size (snd (switch_tab i s)) = ss_size s \<and> ss_name (snd (switch_tab i s)) = ss_name s"
  using session_strip_ok(3) [of s i] by (simp add: switch_tab_def)

text \<open>The title of pane 0 comes back.\<close>

lemma restored_title:
  assumes "tab_ok t" and "one_pane t'"
  shows "map_option pn_title (tab_pane 0 (restore_tab (snapshot_tab t) t')) =
    Some (case tab_pane 0 t of Some p \<Rightarrow> pn_title p | None \<Rightarrow> [])"
proof -
  obtain p where p: "tab_pane 0 t' = Some p" "pn_title p = []"
    using assms(2) by (auto simp: one_pane_def)
  have "0 \<in> set (tab_pane_ids t) \<longleftrightarrow> tab_pane 0 t \<noteq> None"
    using tab_okD(4) [OF assms(1)] by (simp add: tab_pane_iff del: not_None_eq)
  then show ?thesis
    using restore_tab_title [OF tab_okD(2) [OF assms(1)] p(1), of "\<lambda>i. tab_pane i t"] p(2)
    by (auto simp: restore_tab_def snapshot_tab_def split: option.splits)
qed

text \<open>The tabs that are rebuilt under the saved names, and then restored.\<close>

lemma restored_tabs:
  assumes "list_all tab_ok ts" and "list_all one_pane ts'" and "length ts' = length ts" and "map t_name ts' = map t_name ts"
  defines "us \<equiv> map2 restore_tab (map snapshot_tab ts) ts'"
  shows "map t_name us = map t_name ts" and "map tab_pane_ids us = map (\<lambda>t. [0]) ts"
    and "map (\<lambda>t. map_option pn_title (tab_pane 0 t)) us = map (\<lambda>t. Some (case tab_pane 0 t of Some p \<Rightarrow> pn_title p | None \<Rightarrow> [])) ts"
proof -
  have "map t_name us = map t_name ts'"
    using assms(3) by (auto simp: us_def restore_tab_frame intro!: nth_equalityI)
  then show "map t_name us = map t_name ts"
    using assms(4) by simp
  show "map tab_pane_ids us = map (\<lambda>t. [0]) ts"
    using assms(2,3) by (auto simp: us_def restore_tab_frame one_pane_def list_all_length intro!: nth_equalityI)
  show "map (\<lambda>t. map_option pn_title (tab_pane 0 t)) us = map (\<lambda>t. Some (case tab_pane 0 t of Some p \<Rightarrow> pn_title p | None \<Rightarrow> [])) ts"
    using assms(1-3) by (auto simp: us_def restored_title list_all_length intro!: nth_equalityI)
qed

text \<open>
  C16: a session restored from its snapshot is a well-formed session with its name, its size, its tabs in
  order under their names and the active tab; each tab has one pane, number 0, with the title pane 0 had.
  Layouts, the other panes, the scrollback, the focus and the floating panes do not survive, although the
  snapshot holds most of them.
\<close>
theorem restore_after_save:
  assumes "session_ok s" and "length (ss_tabs s) < 2 ^ 32"
  shows "let r = session_from_snapshot (snapshot_from_session s) in
    session_ok r \<and> ss_name r = ss_name s \<and> ss_size r = ss_size s \<and> tab_names r = tab_names s \<and>
    ss_active_tab r = ss_active_tab s \<and> map tab_pane_ids (ss_tabs r) = map (\<lambda>t. [0]) (ss_tabs s) \<and>
    map (\<lambda>t. map_option pn_title (tab_pane 0 t)) (ss_tabs r) =
      map (\<lambda>t. Some (case tab_pane 0 t of Some p \<Rightarrow> pn_title p | None \<Rightarrow> [])) (ss_tabs s)"
proof -
  let ?snap = "snapshot_from_session s" and ?ts = "ss_tabs s"
  let ?b = "rebuilt ?snap"
  let ?r = "fold (\<lambda>(i, ts) s. update_tab i (restore_tab ts) s) (enumerate 0 (sn_tabs ?snap)) ?b"
  have s: "?ts \<noteq> []" "ss_active_tab s < length ?ts" "list_all tab_ok ?ts"
    using assms(1) by (auto simp: session_ok_def tabs_ok_def list_all_iff)
  have snap: "sn_tab_names ?snap = map t_name ?ts" "sn_tabs ?snap = map snapshot_tab ?ts" "sn_active_tab_index ?snap = ss_active_tab s"
      "pane_size_new (sn_cols ?snap) (sn_rows ?snap) = ss_size s" "sn_name ?snap = ss_name s"
    by (simp_all add: snapshot_from_session_def tab_names_def pane_size_new_def)
  note b = rebuilt_ok [of ?snap, unfolded snap]
  have made: "session_ok ?b" "map t_name (ss_tabs ?b) = map t_name ?ts" "list_all one_pane (ss_tabs ?b)" "ss_size ?b = ss_size s" "ss_name ?b = ss_name s"
    using b s assms(2) by (simp_all add: tab_names_def)
  have len: "length (ss_tabs ?b) = length ?ts"
    using arg_cong [OF made(2), of length] by simp
  have r: "?r = ?b\<lparr>ss_tabs := map2 restore_tab (map snapshot_tab ?ts) (ss_tabs ?b)\<rparr>"
    using update_tabs_fold [of 0 "map snapshot_tab ?ts" ?b] len by (simp add: snap)
  note tabs = restored_tabs [OF s(3) made(3) len made(2)]
  have "session_ok ?r"
    using made(1) by (rule update_tabs_ok)
  moreover have "session_from_snapshot ?snap =
      (if ss_active_tab s < length (ss_tabs ?r) then snd (switch_tab (ss_active_tab s) ?r) else ?r)"
    by (simp add: session_from_snapshot_def rebuilt_def Let_def snap(3))
  moreover have "ss_active_tab s < length (ss_tabs ?r)"
    using s(2) len by (simp add: r)
  moreover have "ss_size ?r = ss_size s" "ss_name ?r = ss_name s"
    using made(4,5) by (simp_all only: r) simp_all
  moreover have "ss_tabs ?r = map2 restore_tab (map snapshot_tab ?ts) (ss_tabs ?b)"
    by (simp add: r)
  ultimately show ?thesis
    using switch_tab_ok [of ?r "ss_active_tab s"] tabs by (simp add: Let_def tab_names_def)
qed

text \<open>Two tabs, the second active.\<close>

definition two_tabs :: session where
  "two_tabs = snd (new_tab [0x42] (session_new [0x41] 80 24))"

theorem restore_after_save_witness:
  "tab_names (session_from_snapshot (snapshot_from_session two_tabs)) = [ascii ''Tab 1'', [0x42]] \<and>
   ss_active_tab (session_from_snapshot (snapshot_from_session two_tabs)) = 1"
proof -
  have "session_ok two_tabs"
    unfolding two_tabs_def by (rule new_tab_ok [OF session_new_ok]) (simp add: session_new_def)
  moreover have "length (ss_tabs two_tabs) < 2 ^ 32" "tab_names two_tabs = [ascii ''Tab 1'', [0x42]]"
      "ss_active_tab two_tabs = 1"
    by (simp_all add: two_tabs_def new_tab_def session_new_def Let_def tab_names_def) (simp add: tab_new_def)
  ultimately show ?thesis
    using restore_after_save [of two_tabs] by (simp add: Let_def)
qed

end
