(* ===== verification/Daemon_Server.thy ===== *)
theory Daemon_Server
  imports Term_Terminal Ipc_Codec Daemon_Persistence
begin

text \<open>
  \<open>crates/emux-daemon/src/server.rs\<close>: the daemon's state, the answer to each message, the draining of
  the pseudo-terminals into the screens, the clients and the saves.

  The kernel is data: a PTY is the results its next reads will give (no more of them is \<open>WouldBlock\<close>),
  the bytes written to it and the room its buffer has; the listener is its queue of connections; starting a
  shell is the argument \<open>spawn\<close>. The map of terminals is an association list. \<open>None\<close> is a panic.
\<close>

section \<open>Pseudo-terminals\<close>

datatype pty_read = ReadOk "u8 list" | ReadErr

record pty =
  pty_reads :: "pty_read list"
  pty_written :: "u8 list"
  pty_room :: nat
  pty_error_text :: rstr

text \<open>A write to the non-blocking master takes what fits; with no room at all it is an error.\<close>

definition pty_write :: "u8 list \<Rightarrow> pty \<Rightarrow> nat option \<times> pty" where
  "pty_write bs p =
     (if bs \<noteq> [] \<and> pty_room p = 0 then (None, p)
      else let n = min (length bs) (pty_room p) in
        (Some n, p\<lparr>pty_written := pty_written p @ take n bs, pty_room := pty_room p - n\<rparr>))"

record pane_terminal =
  pt_pty :: pty
  pt_parser :: parser
  pt_screen :: screen

fun drain_reads :: "pty_read list \<Rightarrow> parser \<Rightarrow> screen \<Rightarrow> (pty_read list \<times> parser \<times> screen) option" where
  "drain_reads [] ps s = Some ([], ps, s)"
| "drain_reads (ReadErr # rs) ps s = Some (rs, ps, s)"
| "drain_reads (ReadOk bs # rs) ps s =
     (if bs = [] then Some (rs, ps, s)
      else do {
        (ps, s) \<leftarrow> feed ps s bs;
        drain_reads rs ps s })"

definition drain_pty_output :: "pane_terminal \<Rightarrow> pane_terminal option" where
  "drain_pty_output pt = do {
     (rs, ps, s) \<leftarrow> drain_reads (pty_reads (pt_pty pt)) (pt_parser pt) (pt_screen pt);
     Some (pt\<lparr>pt_pty := (pt_pty pt)\<lparr>pty_reads := rs\<rparr>, pt_parser := ps, pt_screen := s\<rparr>) }"

text \<open>\<open>spawn\<close> is given the size of the PTY, which is narrowed to 16 bits; the screen's is not.\<close>

type_synonym spawner = "u16 \<Rightarrow> u16 \<Rightarrow> pty option"

definition spawn_pane_terminal :: "spawner \<Rightarrow> nat \<Rightarrow> nat \<Rightarrow> pane_terminal option" where
  "spawn_pane_terminal spawn cols rows =
     map_option (\<lambda>p. \<lparr>pt_pty = p, pt_parser = parser_new, pt_screen = screen_new cols rows\<rparr>)
       (spawn (of_nat cols) (of_nat rows))"

section \<open>The server\<close>

record client_connection =
  cc_id :: "64 word"
  cc_in :: "u8 list"
  cc_out :: sink

record server =
  sv_socket_path :: rstr
  sv_incoming :: "(u8 list \<times> sink) list"
  sv_session :: session
  sv_clients :: "client_connection list"
  sv_next_client_id :: "64 word"
  sv_snapshot_path :: "rstr option"
  sv_last_save :: nat
  sv_dirty :: bool
  sv_pane_terminals :: "(pane_id \<times> pane_terminal) list"

datatype daemon_error =
    DaemonIo rstr
  | DaemonCodec codec_error
  | SocketExists rstr
  | NotConnected
  | InvalidClient "64 word"

text \<open>
  The socket that \<open>start\<close> claims on Unix: one that somebody answers on is refused, a stale one removed (the
  second result), then the listener is bound; \<open>bind_error\<close> is the kernel's.
\<close>

definition claim_socket ::
  "(rstr \<Rightarrow> bool) \<Rightarrow> (rstr \<Rightarrow> bool) \<Rightarrow> (rstr \<Rightarrow> rstr option) \<Rightarrow> rstr \<Rightarrow> (daemon_error + rstr) \<times> rstr list" where
  "claim_socket file_exists answers bind_error session_name =
     (let socket_path = ascii ''/tmp/emux-test-'' @ session_name in
      if file_exists socket_path \<and> answers socket_path then (Inl (SocketExists socket_path), [])
      else ((case bind_error socket_path of Some e \<Rightarrow> Inl (DaemonIo e) | None \<Rightarrow> Inr socket_path),
            if file_exists socket_path then [socket_path] else []))"

text \<open>
  \<open>start\<close>, once the socket is bound: \<open>loaded\<close> is the session \<open>load_session\<close> gave, if any, \<open>home\<close> the
  variable \<open>HOME\<close> and \<open>now\<close> the clock in seconds.
\<close>

definition server_start :: "session option \<Rightarrow> rstr option \<Rightarrow> nat \<Rightarrow> rstr \<Rightarrow> server" where
  "server_start loaded home now session_name =
     (let snapshot_path = default_snapshot_path home session_name;
          session = (case snapshot_path of
                       Some _ \<Rightarrow> (case loaded of Some s \<Rightarrow> s | None \<Rightarrow> session_new session_name 80 24)
                     | None \<Rightarrow> session_new session_name 80 24)
      in \<lparr>sv_socket_path = ascii ''/tmp/emux-test-'' @ session_name, sv_incoming = [], sv_session = session,
          sv_clients = [], sv_next_client_id = 1, sv_snapshot_path = snapshot_path, sv_last_save = now,
          sv_dirty = False, sv_pane_terminals = []\<rparr>)"

definition server_active_tab :: "server \<Rightarrow> tab option" where
  "server_active_tab sv = active_tab_of (sv_session sv)"

text \<open>An operation on \<open>session.active_tab_mut()\<close>: an index out of range is a panic.\<close>

definition on_session_tab :: "(tab \<Rightarrow> 'r \<times> tab) \<Rightarrow> session \<Rightarrow> ('r \<times> session) option" where
  "on_session_tab f s = do {
     t \<leftarrow> active_tab_of s;
     let (r, t) = f t;
     Some (r, s\<lparr>ss_tabs := (ss_tabs s)[ss_active_tab s := t]\<rparr>) }"

definition on_tab :: "(tab \<Rightarrow> 'r \<times> tab) \<Rightarrow> server \<Rightarrow> ('r \<times> server) option" where
  "on_tab f sv = map_option (\<lambda>(r, s). (r, sv\<lparr>sv_session := s\<rparr>)) (on_session_tab f (sv_session sv))"

definition mark_dirty :: "server \<Rightarrow> server" where
  "mark_dirty sv = sv\<lparr>sv_dirty := True\<rparr>"

section \<open>Clients\<close>

definition accept_client :: "server \<Rightarrow> (64 word) option \<times> server" where
  "accept_client sv =
     (case sv_incoming sv of
        [] \<Rightarrow> (None, sv)
      | (inp, out) # rest \<Rightarrow>
          let i = sv_next_client_id sv in
          (Some i, sv\<lparr>sv_incoming := rest, sv_next_client_id := i + 1,
                      sv_clients := sv_clients sv @ [\<lparr>cc_id = i, cc_in = inp, cc_out = out\<rparr>]\<rparr>))"

definition client_count :: "server \<Rightarrow> nat" where
  "client_count sv = length (sv_clients sv)"

definition client_ids :: "server \<Rightarrow> (64 word) list" where
  "client_ids sv = map cc_id (sv_clients sv)"

definition disconnect_client :: "64 word \<Rightarrow> server \<Rightarrow> server" where
  "disconnect_client i sv = sv\<lparr>sv_clients := filter (\<lambda>c. cc_id c \<noteq> i) (sv_clients sv)\<rparr>"

definition send_to_client ::
  "(server_message \<Rightarrow> u8 list option) \<Rightarrow> 64 word \<Rightarrow> server_message \<Rightarrow> server \<Rightarrow> (daemon_error + unit) \<times> server" where
  "send_to_client to_vec i msg sv =
     (case position (\<lambda>c. cc_id c = i) (sv_clients sv) of
        None \<Rightarrow> (Inl (InvalidClient i), sv)
      | Some k \<Rightarrow>
          let c = sv_clients sv ! k; (r, out) = write_message to_vec msg (cc_out c) in
          ((case r of Inl e \<Rightarrow> Inl (DaemonCodec e) | Inr _ \<Rightarrow> Inr ()),
           sv\<lparr>sv_clients := (sv_clients sv)[k := c\<lparr>cc_out := out\<rparr>]\<rparr>))"

definition recv_from_client ::
  "(u8 list \<Rightarrow> client_message option) \<Rightarrow> 64 word \<Rightarrow> server \<Rightarrow> (daemon_error + client_message) \<times> server" where
  "recv_from_client from_slice i sv =
     (case position (\<lambda>c. cc_id c = i) (sv_clients sv) of
        None \<Rightarrow> (Inl (InvalidClient i), sv)
      | Some k \<Rightarrow>
          let c = sv_clients sv ! k; (r, inp) = read_message from_slice (cc_in c) in
          ((case r of Inl e \<Rightarrow> Inl (DaemonCodec e) | Inr m \<Rightarrow> Inr m),
           sv\<lparr>sv_clients := (sv_clients sv)[k := c\<lparr>cc_in := inp\<rparr>]\<rparr>))"

definition broadcast_to_all_clients ::
  "(server_message \<Rightarrow> u8 list option) \<Rightarrow> server_message \<Rightarrow> server \<Rightarrow> (64 word) list \<times> server" where
  "broadcast_to_all_clients to_vec msg sv =
     (let sent = map (\<lambda>c. (cc_id c, write_message to_vec msg (cc_out c))) (sv_clients sv) in
      (List.map_filter (\<lambda>(i, r, out). case r of Inl e \<Rightarrow> Some i | Inr _ \<Rightarrow> None) sent,
       sv\<lparr>sv_clients := map (\<lambda>c. c\<lparr>cc_out := snd (write_message to_vec msg (cc_out c))\<rparr>) (sv_clients sv)\<rparr>))"

section \<open>Saving\<close>

abbreviation AUTO_SAVE_INTERVAL_SECS :: nat where "AUTO_SAVE_INTERVAL_SECS \<equiv> 30"

definition save_now ::
  "(session_snapshot \<Rightarrow> u8 list option) \<Rightarrow> save_fault \<Rightarrow> nat \<Rightarrow> server \<Rightarrow> files \<Rightarrow> bool \<times> server \<times> files" where
  "save_now to_string fault now sv fs =
     (case sv_snapshot_path sv of
        None \<Rightarrow> (True, sv, fs)
      | Some path \<Rightarrow>
          (case save_session to_string fault (sv_session sv) path fs of
             (False, fs) \<Rightarrow> (False, sv, fs)
           | (True, fs) \<Rightarrow> (True, sv\<lparr>sv_last_save := now, sv_dirty := False\<rparr>, fs)))"

definition maybe_auto_save ::
  "(session_snapshot \<Rightarrow> u8 list option) \<Rightarrow> save_fault \<Rightarrow> nat \<Rightarrow> server \<Rightarrow> files \<Rightarrow> bool \<times> server \<times> files" where
  "maybe_auto_save to_string fault now sv fs =
     (if \<not> sv_dirty sv then (False, sv, fs)
      else if now - sv_last_save sv < AUTO_SAVE_INTERVAL_SECS then (False, sv, fs)
      else (case save_now to_string fault now sv fs of (_, sv, fs) \<Rightarrow> (True, sv, fs)))"

text \<open>\<open>renamed\<close>: whether the socket file could be moved.\<close>

definition rename_session :: "bool \<Rightarrow> rstr option \<Rightarrow> rstr \<Rightarrow> server \<Rightarrow> bool \<times> server" where
  "rename_session renamed home new_name sv =
     (if renamed then
        (True, sv\<lparr>sv_session := session_rename new_name (sv_session sv),
                  sv_socket_path := ascii ''/tmp/emux-test-'' @ new_name,
                  sv_snapshot_path := default_snapshot_path home new_name, sv_dirty := True\<rparr>)
      else (False, sv))"

end
