(* ===== verification/Daemon_Handle.thy ===== *)
theory Daemon_Handle
  imports Daemon_Server Session_Properties
begin

text \<open>
  The message handler of \<open>crates/emux-daemon/src/server.rs\<close>: one definition per arm that does more than
  answer, and \<open>handle_message\<close> itself.
\<close>

definition pane_not_found :: "pane_id \<Rightarrow> server_message" where
  "pane_not_found i = Error (ascii ''pane '' @ show_nat (unat i) @ ascii '' not found'')"

definition session_resized :: "u16 \<Rightarrow> u16 \<Rightarrow> server \<Rightarrow> server" where
  "session_resized cols rows sv = sv\<lparr>sv_session := session_resize (unat cols) (unat rows) (sv_session sv)\<rparr>"

section \<open>Panes made and closed\<close>

definition spawn_direction :: "rstr option \<Rightarrow> split_direction" where
  "spawn_direction d = (if d = Some (ascii ''horizontal'') then Horizontal else Vertical)"

definition handle_spawn :: "rstr option \<Rightarrow> server \<Rightarrow> (server_message \<times> server) option" where
  "handle_spawn d sv = do {
     (r, sv) \<leftarrow> on_tab (split_pane (spawn_direction d)) sv;
     Some (case r of
             Some i \<Rightarrow> (SpawnResult i, mark_dirty sv)
           | None \<Rightarrow> (Error (ascii ''cannot split pane''), sv)) }"

definition handle_kill :: "pane_id \<Rightarrow> server \<Rightarrow> (server_message \<times> server) option" where
  "handle_kill i sv = do {
     (ok, sv) \<leftarrow> on_tab (close_pane i) sv;
     Some (if ok then (Ack, mark_dirty sv)
           else (Error (ascii ''cannot kill pane '' @ show_nat (unat i)), sv)) }"

fun mux_direction :: "ipc_split \<Rightarrow> split_direction" where
  "mux_direction IpcHorizontal = Horizontal"
| "mux_direction IpcVertical = Vertical"

text \<open>The size of a pane where it is shown, or the default given.\<close>

definition shown_size :: "nat \<times> nat \<Rightarrow> pane_id \<Rightarrow> tab \<Rightarrow> nat \<times> nat" where
  "shown_size dflt i t =
     (case find_pos i (tab_positions t) of Some p \<Rightarrow> (pp_cols p, pp_rows p) | None \<Rightarrow> dflt)"

definition attach_terminal :: "spawner \<Rightarrow> pane_id \<Rightarrow> nat \<times> nat \<Rightarrow> server \<Rightarrow> server option" where
  "attach_terminal spawn i sz sv =
     map_option (\<lambda>pt. sv\<lparr>sv_pane_terminals := AList.update i pt (sv_pane_terminals sv)\<rparr>)
       (spawn_pane_terminal spawn (fst sz) (snd sz))"

definition handle_split :: "spawner \<Rightarrow> ipc_split \<Rightarrow> server \<Rightarrow> (server_message \<times> server) option" where
  "handle_split spawn d sv = do {
     (r, sv) \<leftarrow> on_tab (split_pane (mux_direction d)) sv;
     case r of
       Some i \<Rightarrow> do {
         t \<leftarrow> server_active_tab sv;
         let sv = (case attach_terminal spawn i (shown_size (80, 24) i t) sv of Some sv \<Rightarrow> sv | None \<Rightarrow> sv);
         Some (SpawnResult i, mark_dirty sv) }
     | None \<Rightarrow> Some (Error (ascii ''cannot split pane''), sv) }"

definition spawn_terminal_for_pane :: "spawner \<Rightarrow> pane_id \<Rightarrow> server \<Rightarrow> (bool \<times> server) option" where
  "spawn_terminal_for_pane spawn i sv = do {
     t \<leftarrow> server_active_tab sv;
     Some (case attach_terminal spawn i (shown_size (80, 24) i t) sv of Some sv \<Rightarrow> (True, sv) | None \<Rightarrow> (False, sv)) }"

section \<open>What a pane shows\<close>

fun join_lines :: "rchar list list \<Rightarrow> rchar list" where
  "join_lines [] = []"
| "join_lines [l] = l"
| "join_lines (l # ls) = l @ 0x0A # join_lines ls"

definition screen_text :: "screen \<Rightarrow> rchar list option" where
  "screen_text s =
     map_option join_lines
       (foldM (\<lambda>ls r. map_option (\<lambda>l. ls @ [l]) (row_text (s_grid s) r)) [0..<rows_of s] [])"

definition handle_capture :: "pane_id \<Rightarrow> server \<Rightarrow> (server_message \<times> server) option" where
  "handle_capture i sv = do {
     t \<leftarrow> server_active_tab sv;
     if tab_pane i t = None then Some (pane_not_found i, sv)
     else (case map_of (sv_pane_terminals sv) i of
             Some pt \<Rightarrow> do {
               pt \<leftarrow> drain_pty_output pt;
               content \<leftarrow> screen_text (pt_screen pt);
               Some (PaneCaptured i content, sv\<lparr>sv_pane_terminals := AList.update i pt (sv_pane_terminals sv)\<rparr>) }
           | None \<Rightarrow>
               let (cols, rows) = shown_size (0, 0) i t in
               Some (PaneCaptured i (join_lines (replicate rows (replicate cols 0x20))), sv)) }"

text \<open>The number of bytes the PTY took is dropped: keys that did not fit are lost.\<close>

definition handle_send_keys :: "pane_id \<Rightarrow> rstr \<Rightarrow> server \<Rightarrow> (server_message \<times> server) option" where
  "handle_send_keys i ks sv = do {
     t \<leftarrow> server_active_tab sv;
     if tab_pane i t = None then Some (pane_not_found i, sv)
     else (case map_of (sv_pane_terminals sv) i of
             None \<Rightarrow> Some (Ack, sv)
           | Some pt \<Rightarrow>
               let (r, p) = pty_write ks (pt_pty pt);
                   sv = sv\<lparr>sv_pane_terminals := AList.update i (pt\<lparr>pt_pty := p\<rparr>) (sv_pane_terminals sv)\<rparr>
               in Some (if r = None then Error (ascii ''PTY write error: '' @ pty_error_text p) else Ack, sv)) }"

definition pane_entry_of :: "tab \<Rightarrow> pane_id \<times> pane_position \<Rightarrow> pane_entry" where
  "pane_entry_of t = (\<lambda>(i, pos).
     \<lparr>pe_id = i, pe_title = (case tab_pane i t of Some p \<Rightarrow> pn_title p | None \<Rightarrow> []),
      pe_cols = of_nat (pp_cols pos), pe_rows = of_nat (pp_rows pos), pe_active = (t_active_pane t = Some i),
      pe_has_notification = (case tab_pane i t of Some p \<Rightarrow> pn_has_notification p | None \<Rightarrow> False)\<rparr>)"

definition handle_pane_info :: "pane_id \<Rightarrow> server \<Rightarrow> (server_message \<times> server) option" where
  "handle_pane_info i sv = do {
     t \<leftarrow> server_active_tab sv;
     Some (case tab_pane i t of
             Some p \<Rightarrow>
               let (cols, rows) = shown_size (0, 0) i t in
               (PaneInfo \<lparr>pe_id = i, pe_title = pn_title p, pe_cols = of_nat cols, pe_rows = of_nat rows,
                  pe_active = (t_active_pane t = Some i), pe_has_notification = pn_has_notification p\<rparr>, sv)
           | None \<Rightarrow> (pane_not_found i, sv)) }"

text \<open>\<open>as i32\<close> and the subtraction, in 32 bits.\<close>

definition size_delta :: "u16 \<Rightarrow> nat \<Rightarrow> int" where
  "size_delta wanted actual = sint (ucast wanted - of_nat actual :: u32)"

definition resize_by :: "pane_id \<Rightarrow> int \<Rightarrow> int \<Rightarrow> tab \<Rightarrow> tab" where
  "resize_by i dcols drows t =
     (let t = (if dcols \<noteq> 0 then snd (resize_pane i ResizeRight dcols t) else t)
      in if drows \<noteq> 0 then snd (resize_pane i ResizeDown drows t) else t)"

definition handle_resize_pane :: "pane_id \<Rightarrow> u16 \<Rightarrow> u16 \<Rightarrow> server \<Rightarrow> (server_message \<times> server) option" where
  "handle_resize_pane i cols rows sv = do {
     t \<leftarrow> server_active_tab sv;
     if tab_pane i t = None then Some (pane_not_found i, sv)
     else (case find_pos i (tab_positions t) of
             Some pos \<Rightarrow> do {
               (_, sv) \<leftarrow> on_tab (\<lambda>t. ((),
                 resize_by i (size_delta cols (pp_cols pos)) (size_delta rows (pp_rows pos)) t)) sv;
               Some (Ack, mark_dirty sv) }
           | None \<Rightarrow> Some (Error (ascii ''cannot resize pane '' @ show_nat (unat i)), sv)) }"

section \<open>The handler\<close>

definition list_sessions_reply :: "server \<Rightarrow> (server_message \<times> server) option" where
  "list_sessions_reply sv = do {
     t \<leftarrow> server_active_tab sv;
     let s = sv_session sv;
     Some (SessionList [\<lparr>se_name = ss_name s, se_tabs = length (ss_tabs s), se_panes = tab_pane_count t,
                          se_cols = ps_cols (ss_size s), se_rows = ps_rows (ss_size s)\<rparr>], sv) }"

fun handle_message :: "spawner \<Rightarrow> 64 word \<Rightarrow> client_message \<Rightarrow> server \<Rightarrow> (server_message \<times> server) option" where
  "handle_message spawn c Ping sv = Some (Pong, sv)"
| "handle_message spawn c GetVersion sv = Some (Version PROTOCOL_VERSION, sv)"
| "handle_message spawn c (Resize cols rows) sv = Some (Ack, mark_dirty (session_resized cols rows sv))"
| "handle_message spawn c (FocusPane i) sv =
     map_option (\<lambda>(ok, sv). (if ok then Ack else pane_not_found i, sv)) (on_tab (focus_pane i) sv)"
| "handle_message spawn c (KeyInput data) sv = Some (Ack, sv)"
| "handle_message spawn c (SpawnPane d) sv = handle_spawn d sv"
| "handle_message spawn c (KillPane i) sv = handle_kill i sv"
| "handle_message spawn c Detach sv = Some (Ack, sv)"
| "handle_message spawn c ListSessions sv = list_sessions_reply sv"
| "handle_message spawn c (KillSession name) sv =
     Some (if name = ss_name (sv_session sv) then Ack else Error (ascii ''no such session: '' @ name), sv)"
| "handle_message spawn c (SplitPane d sz) sv = handle_split spawn d sv"
| "handle_message spawn c (CapturePane i) sv = handle_capture i sv"
| "handle_message spawn c (SendKeys i ks) sv = handle_send_keys i ks sv"
| "handle_message spawn c ListPanes sv =
     map_option (\<lambda>t. (PaneList (map (pane_entry_of t) (tab_positions t)), sv)) (server_active_tab sv)"
| "handle_message spawn c (GetPaneInfo i) sv = handle_pane_info i sv"
| "handle_message spawn c (ResizePane i cols rows) sv = handle_resize_pane i cols rows sv"
| "handle_message spawn c (SetPaneTitle i title) sv =
     map_option (\<lambda>(ok, sv). if ok then (Ack, mark_dirty sv) else (pane_not_found i, sv)) (on_tab (on_pane i (set_title title)) sv)"
| "handle_message spawn c (Attach cols rows) sv = Some (Ack, session_resized cols rows sv)"

text \<open>\<open>poll_pty_output\<close>, over the terminals in the order the map gives them.\<close>

definition poll_pty_output :: "server \<Rightarrow> server option" where
  "poll_pty_output sv =
     map_option (\<lambda>pts. sv\<lparr>sv_pane_terminals := pts\<rparr>)
       (foldM (\<lambda>pts (i, pt). map_option (\<lambda>pt. pts @ [(i, pt)]) (drain_pty_output pt)) (sv_pane_terminals sv) [])"

end
