(* ===== verification/Daemon_Props.thy ===== *)
theory Daemon_Props
  imports Daemon_Handle
begin

text \<open>
  The invariant of the daemon's server and the lemmas that every message keeps it: the draining of the
  terminals as one feed, the operations on the active tab, and the size of the terminal a split makes.
\<close>

section \<open>Draining\<close>

text \<open>The bytes a drain will read, and the reads it leaves.\<close>

fun pending_output :: "pty_read list \<Rightarrow> u8 list" where
  "pending_output [] = []"
| "pending_output (ReadErr # rs) = []"
| "pending_output (ReadOk bs # rs) = (if bs = [] then [] else bs @ pending_output rs)"

fun reads_left :: "pty_read list \<Rightarrow> pty_read list" where
  "reads_left [] = []"
| "reads_left (ReadErr # rs) = rs"
| "reads_left (ReadOk bs # rs) = (if bs = [] then rs else reads_left rs)"

lemma feed_Nil [simp]: "feed ps s [] = Some (ps, s)"
  by (simp add: feed_def advance_bytes)

text \<open>A drain is one feed of all the bytes: where the reads cut them does not matter.\<close>

lemma drain_reads_feed:
  "drain_reads rs ps s = map_option (\<lambda>(ps', s'). (reads_left rs, ps', s')) (feed ps s (pending_output rs))"
proof (induction rs ps s rule: drain_reads.induct)
  case (3 bs rs ps s)
  then show ?case
    by (cases "feed ps s bs") (auto simp: feed_append)
qed simp_all

definition terminal_ok :: "pane_terminal \<Rightarrow> bool" where
  "terminal_ok pt \<longleftrightarrow> parser_wf (pt_parser pt) \<and> (\<exists>R. screen_rows R (pt_screen pt))"

text \<open>The output that has not been read yet crashes the terminal.\<close>

definition output_crashes :: "pane_terminal \<Rightarrow> bool" where
  "output_crashes pt \<longleftrightarrow> list_ex splits_char (actions_of (pt_parser pt) (pending_output (pty_reads (pt_pty pt))))"

lemma drain_ok:
  assumes "terminal_ok pt"
  shows "if output_crashes pt then drain_pty_output pt = None else returns (drain_pty_output pt) terminal_ok"
proof -
  obtain R where R: "parser_wf (pt_parser pt)" "screen_rows R (pt_screen pt)"
    using assms by (auto simp: terminal_ok_def)
  let ?m = "feed (pt_parser pt) (pt_screen pt) (pending_output (pty_reads (pt_pty pt)))"
  show ?thesis
  proof (cases ?m)
    case None
    then have "output_crashes pt"
      using feed_panics_iff [OF R] by (simp add: output_crashes_def)
    then show ?thesis
      by (simp add: drain_pty_output_def drain_reads_feed None)
  next
    case (Some p)
    then have "\<not> output_crashes pt"
      using feed_panics_iff [OF R, of "pending_output (pty_reads (pt_pty pt))"] by (simp add: output_crashes_def)
    then show ?thesis
      using Some feed_ok [OF R, of "pending_output (pty_reads (pt_pty pt))"]
      by (cases p) (auto simp: output_crashes_def drain_pty_output_def drain_reads_feed terminal_ok_def returns_iff)
  qed
qed

lemma screen_text_total: "screen_rows R s \<Longrightarrow> screen_text s \<noteq> None"
proof -
  assume "screen_rows R s"
  then have "length (g_lines (s_grid s)) = rows_of s"
    using screen_okD(3,14) [of "cols_of s" R s] by (auto simp: screen_rows_def grid_ok_def)
  then have "returns (foldM (\<lambda>ls r. map_option (\<lambda>l. ls @ [l]) (row_text (s_grid s) r)) [0..<rows_of s] [])
      (\<lambda>_. True)"
    by (intro returns_foldM) (auto simp: row_text_def row_text_full_def)
  then show ?thesis
    by (auto simp: screen_text_def returns_iff)
qed

lemma spawned_ok: "spawn_pane_terminal spawn c r = Some pt \<Longrightarrow> 0 < c \<Longrightarrow> 0 < r \<Longrightarrow> terminal_ok pt"
  using screen_rows_new [of c r] by (auto simp: spawn_pane_terminal_def terminal_ok_def)

section \<open>The invariant\<close>

text \<open>No message registers a swap layout, so a daemon's session has none.\<close>

definition plain_tabs :: "session \<Rightarrow> bool" where
  "plain_tabs s \<longleftrightarrow> list_all (\<lambda>t. t_swap_layouts t = []) (ss_tabs s)"

definition server_ok :: "server \<Rightarrow> bool" where
  "server_ok sv \<longleftrightarrow> session_ok (sv_session sv) \<and> plain_tabs (sv_session sv) \<and>
     distinct (map fst (sv_pane_terminals sv)) \<and> list_all (\<lambda>(i, pt). terminal_ok pt) (sv_pane_terminals sv)"

lemma server_ok_fields [simp]:
  "server_ok (sv\<lparr>sv_dirty := b\<rparr>) = server_ok sv" "server_ok (mark_dirty sv) = server_ok sv"
  "server_ok (sv\<lparr>sv_last_save := t\<rparr>) = server_ok sv" "server_ok (sv\<lparr>sv_clients := cs\<rparr>) = server_ok sv"
  by (simp_all add: server_ok_def mark_dirty_def)

lemma session_active:
  assumes "session_ok s" and "plain_tabs s"
  obtains t where "active_tab_of s = Some t" "tab_ok t" "t_swap_layouts t = []" "t = ss_tabs s ! ss_active_tab s"
proof -
  have "ss_active_tab s < length (ss_tabs s)"
    using assms(1) by (simp add: session_ok_def)
  then show ?thesis
    using assms session_active_ok [of s] that by (auto simp: active_tab_of_def plain_tabs_def list_all_length)
qed

lemma server_active:
  assumes "server_ok sv"
  obtains t where "server_active_tab sv = Some t" "tab_ok t" "t_swap_layouts t = []"
  using assms session_active [of "sv_session sv"] by (auto simp: server_ok_def server_active_tab_def)

lemma update_all: "list_all P xs \<Longrightarrow> P (k, v) \<Longrightarrow> list_all P (AList.update k v xs)"
  by (induction xs) auto

lemma update_terminal_ok:
  assumes "server_ok sv" and "terminal_ok pt"
  shows "server_ok (sv\<lparr>sv_pane_terminals := AList.update i pt (sv_pane_terminals sv)\<rparr>)"
proof -
  have "list_all (\<lambda>(i, pt). terminal_ok pt) (AList.update i pt (sv_pane_terminals sv))"
    using assms by (intro update_all) (auto simp: server_ok_def)
  then show ?thesis
    using assms(1) by (simp add: server_ok_def distinct_update)
qed

text \<open>An operation of the active tab that keeps the tab well formed keeps the session, and the server, so.\<close>

lemma on_session_tab_ok:
  assumes s: "session_ok s" "plain_tabs s"
    and f: "\<And>t. active_tab_of s = Some t \<Longrightarrow> tab_ok t \<Longrightarrow> t_swap_layouts t = [] \<Longrightarrow>
      tab_ok (snd (f t)) \<and> t_id (snd (f t)) = t_id t \<and> t_swap_layouts (snd (f t)) = []"
  shows "returns (on_session_tab f s) (\<lambda>(r, s'). session_ok s' \<and> plain_tabs s' \<and> (\<exists>t. active_tab_of s = Some t \<and> tab_ok t \<and>
    t_swap_layouts t = [] \<and> r = fst (f t) \<and> active_tab_of s' = Some (snd (f t))))"
proof (rule session_active [OF s])
  fix t
  let ?ts = "(ss_tabs s)[ss_active_tab s := snd (f t)]"
  assume t: "active_tab_of s = Some t" "tab_ok t" "t_swap_layouts t = []" "t = ss_tabs s ! ss_active_tab s"
  have k: "ss_active_tab s < length (ss_tabs s)"
    using s by (simp add: session_ok_def)
  have "session_ok (s\<lparr>ss_tabs := ?ts\<rparr>)"
    using s f [OF t(1-3)] k t(4) tabs_ok_update [of "ss_tabs s" "ss_next_tab_id s" "snd (f t)" "ss_active_tab s"]
    by (simp add: session_ok_def)
  moreover have "plain_tabs (s\<lparr>ss_tabs := ?ts\<rparr>)"
    using s f [OF t(1-3)]
    by (auto simp: plain_tabs_def list_all_iff dest!: set_update_subset_insert [THEN subsetD])
  ultimately show ?thesis
    using t k by (simp add: on_session_tab_def case_prod_beta Let_def) (simp add: active_tab_of_def)
qed

lemma on_tab_ok:
  assumes sv: "server_ok sv"
    and f: "\<And>t. server_active_tab sv = Some t \<Longrightarrow> tab_ok t \<Longrightarrow> t_swap_layouts t = [] \<Longrightarrow>
      tab_ok (snd (f t)) \<and> t_id (snd (f t)) = t_id t \<and> t_swap_layouts (snd (f t)) = []"
  shows "returns (on_tab f sv) (\<lambda>(r, sv'). server_ok sv' \<and> (\<exists>t. server_active_tab sv = Some t \<and> tab_ok t \<and>
    t_swap_layouts t = [] \<and> r = fst (f t) \<and> server_active_tab sv' = Some (snd (f t))))"
  using on_session_tab_ok [of "sv_session sv" f] sv f
  by (auto simp: on_tab_def server_active_tab_def server_ok_def returns_iff)

lemma session_resized_ok: "server_ok sv \<Longrightarrow> server_ok (session_resized c r sv)"
  using session_resize_ok [of "sv_session sv"]
  by (auto simp: server_ok_def session_resized_def plain_tabs_def session_resize_def tab_resize_def sync_pane_sizes_eq
      list_all_iff)

section \<open>Operations on a tab without swap layouts\<close>

lemma auto_swap_plain: "t_swap_layouts t = [] \<Longrightarrow> auto_swap_layout t = t\<lparr>t_current_swap_index := None\<rparr>"
  by (simp add: auto_swap_layout_def applicable_swap_layout_indices_def)

lemma plain_sync [simp]: "t_swap_layouts (sync_pane_sizes t) = t_swap_layouts t"
  by (simp add: sync_pane_sizes_eq)

lemma plain_ops:
  assumes "t_swap_layouts t = []"
  shows "t_swap_layouts (snd (focus_pane i t)) = []" "t_swap_layouts (snd (split_pane d t)) = []"
    "t_swap_layouts (snd (close_pane i t)) = []" "t_swap_layouts (snd (resize_pane i rd n t)) = []"
    "t_swap_layouts (snd (on_pane i f t)) = []"
  using assms
  by (auto simp: focus_pane_def bring_floating_to_front_def split_pane_def close_pane_def resize_pane_def on_pane_def
      update_pane_def Let_def auto_swap_plain case_prod_beta split: option.split f32.split)

lemma set_title_on_pane:
  "tab_ok t \<Longrightarrow> tab_ok (snd (on_pane i (set_title x) t)) \<and> t_id (snd (on_pane i (set_title x) t)) = t_id t"
  by (auto simp: on_pane_ok set_title_def) (simp add: on_pane_def update_pane_def)

section \<open>The pane a split makes\<close>

lemma find_pos_append:
  "find_pos i (ps @ qs) = (if i \<in> fst ` set ps then find_pos i ps else find_pos i qs)"
  by (induction ps) (auto simp: find_pos_def)

text \<open>What the new leaf gets of the rectangle of the leaf it is split off.\<close>

definition second_half :: "split_direction \<Rightarrow> pane_position \<Rightarrow> nat \<times> nat" where
  "second_half d p =
     (case d of
        Horizontal \<Rightarrow> (pp_cols p, pp_rows p - first_share (pp_rows p) (FVal (1 / 2)))
      | Vertical \<Rightarrow> (pp_cols p - first_share (pp_cols p) (FVal (1 / 2)), pp_rows p))"

lemma node_positions_keys: "fst ` set (node_positions n c r w h) = set (node_pane_ids n)"
  using node_positions_ids [of n c r w h] by (metis list.set_map)

lemma node_split_second:
  assumes "x \<notin> set (node_pane_ids n)" and "find_pos t (node_positions n c r w h) = Some p"
  shows "\<exists>q. find_pos x (node_positions (snd (node_split t x d n)) c r w h) = Some q \<and>
    (pp_cols q, pp_rows q) = second_half d p"
  using assms
proof (induction n arbitrary: c r w h p)
  case (Leaf i)
  then show ?case
    by (cases d) (auto simp: find_pos_def second_half_def split: if_splits)
next
  case (Split e ratio a b)
  have x: "x \<notin> set (node_pane_ids a)" "x \<notin> set (node_pane_ids b)"
    using Split.prems(1) by auto
  have found: "fst (node_split t x d a) = (t \<in> set (node_pane_ids a))"
    by (rule node_split_ids)
  have in_a: "x \<in> set (node_pane_ids (snd (node_split t x d a))) \<longleftrightarrow> t \<in> set (node_pane_ids a)"
    using x by (cases "t \<in> set (node_pane_ids a)") (simp_all add: node_split_ids set_insert_after insert_after_absent)
  show ?case
  proof (cases e)
    case Horizontal
    then show ?thesis
      using Split.prems(2) Split.IH(1) [OF x(1), of c r w "first_share h ratio" p]
        Split.IH(2) [OF x(2), of c "r + first_share h ratio" w "h - first_share h ratio" p] found in_a x
      by (auto simp: find_pos_append node_positions_keys case_prod_beta split: bool.splits prod.splits if_splits)
  next
    case Vertical
    then show ?thesis
      using Split.prems(2) Split.IH(1) [OF x(1), of c r "first_share w ratio" h p]
        Split.IH(2) [OF x(2), of "c + first_share w ratio" r "w - first_share w ratio" h p] found in_a x
      by (auto simp: find_pos_append node_positions_keys case_prod_beta split: bool.splits prod.splits if_splits)
  qed
qed

lemma layout_split_second:
  assumes "x \<notin> set (layout_pane_ids e)" and "find_pos t (layout_positions e w h) = Some p"
  shows "\<exists>q. find_pos x (layout_positions (snd (layout_split t x d e)) w h) = Some q \<and>
    (pp_cols q, pp_rows q) = second_half d p"
proof (cases "le_root e")
  case None
  then show ?thesis
    using assms(2) by (simp add: layout_positions_def find_pos_def)
next
  case (Some n)
  then show ?thesis
    using assms node_split_second [of x n t 0 0 w h p d]
    by (auto simp: layout_split_def layout_positions_def layout_pane_ids_def node_positions_def split: prod.split)
qed

lemma second_half_pos:
  assumes "0 < pp_cols p" "0 < pp_rows p" and "case d of Horizontal \<Rightarrow> 2 \<le> pp_rows p | Vertical \<Rightarrow> 2 \<le> pp_cols p"
  shows "0 < fst (second_half d p) \<and> 0 < snd (second_half d p)"
  using assms first_share_bounds by (cases d) (auto simp: second_half_def)

lemma find_pos_Some_append: "find_pos i ps = Some p \<Longrightarrow> find_pos i (ps @ qs) = Some p"
  by (induction ps) (auto simp: find_pos_def)

lemma split_pane_made:
  assumes t: "tab_ok t" "t_swap_layouts t = []" and made: "fst (split_pane d t) = Some i"
  shows "\<exists>a p. t_active_pane t = Some a \<and> find_pos a (tiled_positions t) = Some p \<and> i = t_next_pane_id t \<and>
    (case d of Horizontal \<Rightarrow> 4 \<le> pp_rows p | Vertical \<Rightarrow> 4 \<le> pp_cols p) \<and>
    shown_size dflt i (snd (split_pane d t)) = second_half d p \<and>
    tab_pane i (snd (split_pane d t)) \<noteq> None"
proof -
  let ?t = "t\<lparr>t_fullscreen_pane := None\<rparr>" and ?n = "t_next_pane_id t"
  have same: "tiled_positions ?t = tiled_positions t" "tiled_positions (?t\<lparr>t_next_pane_id := k\<rparr>) = tiled_positions t" for k
    by (simp_all add: tiled_positions_def)
  obtain a where a: "t_active_pane t = Some a" "can_split a d ?t"
    using made by (auto simp: split_pane_def Let_def split: option.splits if_splits)
  then obtain p where p: "find_pos a (tiled_positions t) = Some p"
      "case d of Horizontal \<Rightarrow> 4 \<le> pp_rows p | Vertical \<Rightarrow> 4 \<le> pp_cols p"
    by (auto simp: can_split_def same split: if_splits option.splits split_direction.splits)
  obtain c r where size: "split_size d p = (c, r)"
    by fastforce
  let ?e = "snd (layout_split a ?n d (t_layout t))"
  let ?u = "?t\<lparr>t_next_pane_id := ?n + 1, t_panes := AList.update ?n (pane_new ?n c r) (t_panes t), t_layout := ?e\<rparr>"
  have result: "split_pane d t = (Some ?n, (sync_pane_sizes ?u)\<lparr>t_active_pane := Some ?n, t_current_swap_index := None\<rparr>)"
    using a p(1) size by (simp add: split_pane_def Let_def same auto_swap_plain t(2))
  have "?n \<notin> set (tab_pane_ids t)"
    using next_id_fresh [OF t(1)] tiled_in_tab_ids [OF t(1)] by blast
  then obtain q where q: "find_pos ?n (layout_positions ?e (ps_cols (t_size t)) (ps_rows (t_size t))) = Some q"
      "(pp_cols q, pp_rows q) = second_half d p"
    using layout_split_second p(1) by (metis tab_pane_ids_def tiled_positions_def)
  have "find_pos ?n (tab_positions (snd (split_pane d t))) = Some q"
    by (simp add: result tab_positions_def sync_pane_sizes_eq tiled_positions_def q(1) find_pos_Some_append)
  moreover have "tab_pane ?n (snd (split_pane d t)) \<noteq> None"
    by (simp add: tab_pane_iff result sync_pane_sizes_eq AList.dom_update del: not_None_eq)
  moreover have "i = ?n"
    using made result by simp
  ultimately show ?thesis
    using a(1) p q(2) by (simp add: shown_size_def del: not_None_eq)
qed

section \<open>Every message\<close>

text \<open>The output a message would read crashes a terminal.\<close>

fun message_crashes :: "client_message \<Rightarrow> server \<Rightarrow> bool" where
  "message_crashes (CapturePane i) sv \<longleftrightarrow>
     (case server_active_tab sv of Some t \<Rightarrow> tab_pane i t \<noteq> None | None \<Rightarrow> False) \<and>
     (case map_of (sv_pane_terminals sv) i of Some pt \<Rightarrow> output_crashes pt | None \<Rightarrow> False)"
| "message_crashes _ sv \<longleftrightarrow> False"

text \<open>
  What a message needs: for a new pane a pane number that is left, and for a new terminal that the pane
  split has a width and a height.
\<close>

definition splittable :: "tab \<Rightarrow> bool" where
  "splittable t \<longleftrightarrow>
     (case Option.bind (t_active_pane t) (\<lambda>a. find_pos a (tiled_positions t)) of
        Some p \<Rightarrow> 0 < pp_cols p \<and> 0 < pp_rows p
      | None \<Rightarrow> True)"

fun message_ok :: "client_message \<Rightarrow> tab \<Rightarrow> bool" where
  "message_ok (SpawnPane d) t = (t_next_pane_id t \<noteq> - 1)"
| "message_ok (SplitPane d sz) t = (t_next_pane_id t \<noteq> - 1 \<and> splittable t)"
| "message_ok _ t = True"

lemma on_tab_split:
  assumes "server_ok sv" and "\<And>t. server_active_tab sv = Some t \<Longrightarrow> t_next_pane_id t \<noteq> - 1"
  shows "returns (on_tab (split_pane d) sv) (\<lambda>(r, sv'). server_ok sv' \<and> (\<exists>t. server_active_tab sv = Some t \<and> tab_ok t \<and>
    t_swap_layouts t = [] \<and> r = fst (split_pane d t) \<and> server_active_tab sv' = Some (snd (split_pane d t))))"
  using assms by (intro on_tab_ok) (simp_all add: split_pane_ok plain_ops frame_simps)

lemma handle_spawn_ok:
  assumes "server_ok sv" and "\<And>t. server_active_tab sv = Some t \<Longrightarrow> t_next_pane_id t \<noteq> - 1"
  shows "returns (handle_spawn d sv) (\<lambda>(r, sv'). server_ok sv')"
  using on_tab_split [OF assms, of "spawn_direction d"]
  by (auto simp: handle_spawn_def returns_iff split: option.split)

lemma handle_kill_ok: "server_ok sv \<Longrightarrow> returns (handle_kill i sv) (\<lambda>(r, sv'). server_ok sv')"
  using on_tab_ok [of sv "close_pane i"]
  by (auto simp: handle_kill_def returns_iff close_pane_ok plain_ops frame_simps)

lemma attach_terminal_ok:
  "server_ok sv \<Longrightarrow> attach_terminal spawn i sz sv = Some sv' \<Longrightarrow> 0 < fst sz \<Longrightarrow> 0 < snd sz \<Longrightarrow> server_ok sv'"
  by (auto simp: attach_terminal_def intro!: update_terminal_ok dest: spawned_ok)

lemma handle_split_ok:
  assumes sv: "server_ok sv" and t: "\<And>t. server_active_tab sv = Some t \<Longrightarrow> t_next_pane_id t \<noteq> - 1 \<and> splittable t"
  shows "returns (handle_split spawn d sv) (\<lambda>(r, sv'). server_ok sv')"
proof (rule returns_exE [OF on_tab_split [OF sv, of "mux_direction d"]])
  fix x
  assume x: "on_tab (split_pane (mux_direction d)) sv = Some x" and "case x of (r, sv') \<Rightarrow>
    server_ok sv' \<and> (\<exists>t. server_active_tab sv = Some t \<and> tab_ok t \<and> t_swap_layouts t = [] \<and>
      r = fst (split_pane (mux_direction d) t) \<and> server_active_tab sv' = Some (snd (split_pane (mux_direction d) t)))"
  then obtain r sv' t where r: "x = (r, sv')" "server_ok sv'" "server_active_tab sv = Some t" "tab_ok t"
      "t_swap_layouts t = []" "r = fst (split_pane (mux_direction d) t)"
      "server_active_tab sv' = Some (snd (split_pane (mux_direction d) t))"
    by auto
  show ?thesis
  proof (cases r)
    case None
    then show ?thesis
      using x r by (simp add: handle_split_def)
  next
    case (Some i)
    then obtain a p where p: "t_active_pane t = Some a" "find_pos a (tiled_positions t) = Some p"
        "case mux_direction d of Horizontal \<Rightarrow> 4 \<le> pp_rows p | Vertical \<Rightarrow> 4 \<le> pp_cols p"
        "shown_size (80, 24) i (snd (split_pane (mux_direction d) t)) = second_half (mux_direction d) p"
      using split_pane_made [OF r(4,5), of "mux_direction d" i "(80, 24)"] r(6) by auto
    then have "0 < fst (second_half (mux_direction d) p) \<and> 0 < snd (second_half (mux_direction d) p)"
      using t [OF r(3)] by (intro second_half_pos) (auto simp: splittable_def split: split_direction.splits)
    then show ?thesis
      using x r Some p(4) attach_terminal_ok [OF r(2), of spawn i "second_half (mux_direction d) p"] by (auto simp: handle_split_def Let_def split: option.split)
  qed
qed (use t in auto)

lemma handle_capture_ok:
  assumes sv: "server_ok sv"
  shows "if message_crashes (CapturePane i) sv then handle_capture i sv = None
    else returns (handle_capture i sv) (\<lambda>(r, sv'). server_ok sv')"
proof (rule server_active [OF sv])
  fix t
  assume t: "server_active_tab sv = Some t"
  show ?thesis
  proof (cases "tab_pane i t = None \<or> map_of (sv_pane_terminals sv) i = None")
    case True
    then show ?thesis
      using sv t by (auto simp: handle_capture_def case_prod_beta split: option.split)
  next
    case False
    then obtain pt where pt: "map_of (sv_pane_terminals sv) i = Some pt" "tab_pane i t \<noteq> None"
      by blast
    then have ok: "terminal_ok pt"
      using sv map_of_SomeD [OF pt(1)] by (auto simp: server_ok_def list_all_iff)
    show ?thesis
    proof (cases "output_crashes pt")
      case True
      then show ?thesis
        using drain_ok [OF ok] pt t by (simp add: handle_capture_def del: not_None_eq)
    next
      case False
      then obtain pt' where pt': "drain_pty_output pt = Some pt'" "terminal_ok pt'"
        using drain_ok [OF ok] by (auto simp: returns_iff)
      then obtain l where "screen_text (pt_screen pt') = Some l"
        using screen_text_total by (auto simp: terminal_ok_def)
      then show ?thesis
        using False pt pt' t update_terminal_ok [OF sv pt'(2)] by (simp add: handle_capture_def del: not_None_eq)
    qed
  qed
qed

lemma handle_send_keys_ok:
  assumes sv: "server_ok sv"
  shows "returns (handle_send_keys i ks sv) (\<lambda>(r, sv'). server_ok sv')"
proof (rule server_active [OF sv])
  fix t
  assume t: "server_active_tab sv = Some t"
  show ?thesis
  proof (cases "map_of (sv_pane_terminals sv) i")
    case None
    then show ?thesis
      using sv t by (simp add: handle_send_keys_def)
  next
    case (Some pt)
    then have "terminal_ok pt"
      using sv map_of_SomeD [OF Some] by (auto simp: server_ok_def list_all_iff)
    then have "terminal_ok (pt\<lparr>pt_pty := p\<rparr>)" for p
      by (simp add: terminal_ok_def)
    then show ?thesis
      using sv t Some update_terminal_ok [OF sv] by (simp add: handle_send_keys_def case_prod_beta Let_def)
  qed
qed

lemma handle_resize_pane_ok:
  assumes sv: "server_ok sv"
  shows "returns (handle_resize_pane i c r sv) (\<lambda>(r, sv'). server_ok sv')"
proof (rule server_active [OF sv])
  fix t
  assume t: "server_active_tab sv = Some t"
  have "returns (on_tab (\<lambda>t. ((), resize_by i x y t)) sv) (\<lambda>x. server_ok (snd x))" for x y
    by (rule returns_mono [OF on_tab_ok [OF sv]]) (auto simp: resize_by_def Let_def resize_pane_ok plain_ops frame_simps)
  then show ?thesis
    using sv t by (simp add: handle_resize_pane_def case_prod_beta split: option.split)
qed

lemma handle_message_ok:
  assumes sv: "server_ok sv" and t: "\<And>t. server_active_tab sv = Some t \<Longrightarrow> message_ok msg t"
  shows "if message_crashes msg sv then handle_message spawn c msg sv = None
    else returns (handle_message spawn c msg sv) (\<lambda>(r, sv'). server_ok sv')"
proof (rule server_active [OF sv])
  fix u
  assume u: "server_active_tab sv = Some u"
  have tab: "returns (on_tab f sv) (\<lambda>x. server_ok (snd x))"
    if "\<And>t. tab_ok t \<Longrightarrow> t_swap_layouts t = [] \<Longrightarrow> tab_ok (snd (f t)) \<and> t_id (snd (f t)) = t_id t \<and> t_swap_layouts (snd (f t)) = []"
    for f :: "tab \<Rightarrow> bool \<times> tab"
    by (rule returns_mono [OF on_tab_ok [OF sv, of f]]) (use that in auto)
  have focus: "returns (on_tab (focus_pane i) sv) (\<lambda>x. server_ok (snd x))" for i
    by (rule tab) (simp add: focus_pane_ok plain_ops frame_simps)
  have title: "returns (on_tab (on_pane i (set_title x)) sv) (\<lambda>x. server_ok (snd x))" for i x
    by (rule tab) (simp add: set_title_on_pane plain_ops)
  have title2: "returns (on_tab (on_pane i (set_title x)) sv) (\<lambda>y. server_ok (snd (case y of (ok, sv) \<Rightarrow>
      if ok then (Ack, mark_dirty sv) else (pane_not_found i, sv))))" for i x
    by (rule returns_mono [OF title]) auto
  note parts = session_resized_ok [OF sv] handle_kill_ok [OF sv] handle_send_keys_ok [OF sv] handle_resize_pane_ok [OF sv]
  show ?thesis
  proof (cases msg)
    case (CapturePane i)
    then show ?thesis
      using handle_capture_ok [OF sv, of i] by simp
  next
    case (SpawnPane d)
    then show ?thesis
      using handle_spawn_ok [OF sv] t by simp
  next
    case (SplitPane d n)
    then show ?thesis
      using handle_split_ok [OF sv] t by simp
  next
    case (GetPaneInfo i)
    then show ?thesis
      using sv u by (simp add: handle_pane_info_def case_prod_beta split: option.split)
  next
    case ListSessions
    then show ?thesis
      using sv u by (simp add: list_sessions_reply_def Let_def)
  next
    case (FocusPane i)
    then show ?thesis
      using focus [of i] by (simp add: case_prod_beta)
  next
    case (SetPaneTitle i x)
    then show ?thesis
      using title2 [of i x] by (simp add: case_prod_beta)
  qed (use sv u parts in simp_all)
qed

end
