(* ===== verification/Daemon_Properties.thy ===== *)
theory Daemon_Properties
  imports Daemon_Props Persistence_Properties
begin

text \<open>The properties of the daemon: what any message does, what a capture shows, and the saves.\<close>

lemma server_start_ok: "server_ok (server_start None home now name)"
proof -
  have "sv_session (server_start None home now name) = session_new name 80 24"
      "sv_pane_terminals (server_start None home now name) = []"
    by (simp_all add: server_start_def Let_def split: option.split)
  moreover have "plain_tabs (session_new name 80 24)"
    by (simp add: plain_tabs_def session_new_def) (simp add: tab_new_def)
  ultimately show ?thesis
    by (simp add: server_ok_def session_new_ok)
qed

text \<open>A message for a new pane is answered even when no number is free or the pane has no cell.\<close>

lemma on_tab_returns: "server_ok sv \<Longrightarrow> \<exists>x. on_tab f sv = Some x"
  by (rule server_active) (auto simp: on_tab_def on_session_tab_def server_active_tab_def case_prod_beta)

lemma on_tab_active:
  "server_ok sv \<Longrightarrow> on_tab f sv = Some (r, sv') \<Longrightarrow> \<exists>t. server_active_tab sv' = Some t"
  by (auto simp: on_tab_def on_session_tab_def server_active_tab_def active_tab_of_def server_ok_def session_ok_def
      case_prod_beta Let_def idx_def split: if_splits)

lemma new_pane_returns:
  assumes "server_ok sv"
  shows "\<exists>x. handle_spawn d sv = Some x" "\<exists>x. handle_split spawn e sv = Some x"
proof -
  obtain r sv' where "on_tab (split_pane (spawn_direction d)) sv = Some (r, sv')"
    using on_tab_returns [OF assms] by fastforce
  then show "\<exists>x. handle_spawn d sv = Some x"
    by (simp add: handle_spawn_def split: option.split)
  obtain r sv' where r: "on_tab (split_pane (mux_direction e)) sv = Some (r, sv')"
    using on_tab_returns [OF assms] by fastforce
  obtain t where "server_active_tab sv' = Some t"
    using on_tab_active [OF assms r] by blast
  with r show "\<exists>x. handle_split spawn e sv = Some x"
    by (simp add: handle_split_def Let_def split: option.split)
qed

text \<open>
  C3: in every state of the daemon's invariant (a well-formed session without swap layouts, every
  terminal's parser well formed and its screen of at least one cell, with the rows of its cursors within it)
  a message panics if and only if it captures a pane whose unread output slices an OSC 4 colour inside a
  character. Every other message is answered, and the invariant holds again, for a message that makes a pane
  if a pane number is free, and for one that starts its terminal if the pane that is split has a width and
  a height. (Without that the invariant is lost, and the daemon can panic: \<open>zero_width_pane_crashes\<close>.)
\<close>
theorem daemon_message_safe:
  assumes "server_ok sv" and "server_active_tab sv = Some t"
  shows "(handle_message spawn c msg sv = None \<longleftrightarrow> message_crashes msg sv) \<and>
    ((\<forall>d. msg = SpawnPane d \<longrightarrow> t_next_pane_id t \<noteq> - 1) \<and>
     (\<forall>d sz. msg = SplitPane d sz \<longrightarrow> t_next_pane_id t \<noteq> - 1 \<and> splittable t) \<and> \<not> message_crashes msg sv \<longrightarrow>
     returns (handle_message spawn c msg sv) (\<lambda>(reply, sv'). server_ok sv'))"
proof (cases "message_ok msg t")
  case True
  then show ?thesis
    using handle_message_ok [OF assms(1), of msg spawn c] assms(2) by (auto simp: returns_iff split: if_splits)
next
  case False
  then show ?thesis
    using new_pane_returns [OF assms(1)] by (cases msg) auto
qed

theorem daemon_message_safe_witness:
  "returns (handle_message (\<lambda>c r. None) 1 (SplitPane IpcVertical None) (server_start None None 0 [])) (\<lambda>(reply, sv'). server_ok sv')"
proof -
  let ?t = "tab_new 0 (ascii ''Tab 1'') 80 24"
  have "server_active_tab (server_start None None 0 []) = Some ?t"
    by (simp add: server_active_tab_def active_tab_of_def server_start_def session_new_def default_snapshot_path_def
        sessions_dir_def)
  moreover have "splittable ?t" "t_next_pane_id ?t \<noteq> - 1"
    by (simp_all add: splittable_def tiled_positions_def layout_positions_def add_pane_def layout_new_def tab_new_def
        pane_size_new_def find_pos_def)
  ultimately show ?thesis
    using daemon_message_safe [OF server_start_ok, where spawn = "\<lambda>c r. None" and c = 1 and msg = "SplitPane IpcVertical None"]
    by auto
qed

text \<open>
  C13: what a capture shows: the reply holds the text of the screen after all the unread output of the pane,
  fed as one string wherever the reads cut it; a second capture answers the same.
\<close>
theorem capture_shows_all_output:
  assumes "server_ok sv" and "server_active_tab sv = Some t" and "tab_pane i t \<noteq> None"
    and "map_of (sv_pane_terminals sv) i = Some pt" and "reads_left (pty_reads (pt_pty pt)) = []"
    and "feed (pt_parser pt) (pt_screen pt) (pending_output (pty_reads (pt_pty pt))) = Some (ps, s)"
  shows "returns (handle_message spawn c (CapturePane i) sv) (\<lambda>(reply, sv').
    screen_text s \<noteq> None \<and> reply = PaneCaptured i (the (screen_text s)) \<and>
    handle_message spawn c (CapturePane i) sv' = Some (reply, sv'))"
proof -
  have "terminal_ok pt"
    using assms(1) map_of_SomeD [OF assms(4)] by (auto simp: server_ok_def list_all_iff)
  moreover define pt' where "pt' = pt\<lparr>pt_pty := (pt_pty pt)\<lparr>pty_reads := []\<rparr>, pt_parser := ps, pt_screen := s\<rparr>"
  moreover have drain: "drain_pty_output pt = Some pt'"
    using assms(5,6) by (simp add: drain_pty_output_def drain_reads_feed pt'_def)
  ultimately have "terminal_ok pt'"
    using drain_ok [of pt] by (simp split: if_splits)
  then obtain l where l: "screen_text s = Some l"
    using screen_text_total by (fastforce simp: terminal_ok_def pt'_def)
  let ?sv = "sv\<lparr>sv_pane_terminals := AList.update i pt' (sv_pane_terminals sv)\<rparr>"
  have "server_active_tab ?sv = Some t" "map_of (sv_pane_terminals ?sv) i = Some pt'" "drain_pty_output pt' = Some pt'"
    using assms(2) by (simp_all add: server_active_tab_def update_conv' drain_pty_output_def pt'_def)
  moreover have "AList.update i pt' (AList.update i pt' (sv_pane_terminals sv)) = AList.update i pt' (sv_pane_terminals sv)"
    by (simp add: update_last)
  moreover have "screen_text (pt_screen pt') = Some l"
    using l by (simp add: pt'_def)
  ultimately show ?thesis
    using assms(2-4) drain l by (simp add: handle_capture_def del: not_None_eq)
qed

text \<open>A pane whose shell has printed \<open>AB\<close> in two pieces.\<close>

definition captured_server :: server where
  "captured_server = (server_start None None 0 [])
     \<lparr>sv_pane_terminals := [(0, \<lparr>pt_pty = \<lparr>pty_reads = [ReadOk [0x41], ReadOk [0x42]], pty_written = [], pty_room = 0, pty_error_text = []\<rparr>,
        pt_parser = parser_new, pt_screen = screen_new 80 24\<rparr>)]\<rparr>"

lemma captured_actions: "actions_of parser_new [0x41, 0x42] = [Print 0x41, Print 0x42]"
  by code_simp

theorem capture_shows_all_output_witness:
  "returns (handle_message (\<lambda>c r. None) 1 (CapturePane 0) captured_server) (\<lambda>(reply, sv').
     handle_message (\<lambda>c r. None) 1 (CapturePane 0) sv' = Some (reply, sv'))"
proof -
  have R: "screen_rows 24 (screen_new 80 24)"
    by (simp add: screen_rows_new)
  have "\<not> list_ex splits_char (actions_of parser_new [0x41, 0x42])"
    by (simp add: captured_actions splits_char_def)
  then obtain ps s where feed: "feed parser_new (screen_new 80 24) [0x41, 0x42] = Some (ps, s)"
    using feed_ok [OF parser_wf_new R, of "[0x41, 0x42]"] by (auto simp: returns_iff)
  have "terminal_ok \<lparr>pt_pty = p, pt_parser = parser_new, pt_screen = screen_new 80 24\<rparr>" for p
    using R by (auto simp: terminal_ok_def)
  then have "server_ok captured_server"
    using server_start_ok [of None 0 "[]"] by (simp add: server_ok_def captured_server_def)
  moreover have "server_active_tab captured_server = Some (tab_new 0 (ascii ''Tab 1'') 80 24)"
    by (simp add: captured_server_def server_start_def server_active_tab_def active_tab_of_def session_new_def
        default_snapshot_path_def sessions_dir_def)
  moreover have "tab_pane 0 (tab_new 0 (ascii ''Tab 1'') 80 24) \<noteq> None"
    by (simp add: tab_pane_def tab_new_def)
  ultimately show ?thesis
    using capture_shows_all_output [where sv = captured_server and i = 0 and spawn = "\<lambda>c r. None" and c = 1, of _ _ ps s] feed
    by (fastforce simp: captured_server_def intro: returns_mono)
qed

section \<open>Panes without a column\<close>

lemma erase_action:
  "case actions_of parser_new [0x1b, 0x5b, 0x4b] of
     [CsiDispatch p ims ignore act] \<Rightarrow> \<not> ignore \<and> inter_slice ims = [] \<and> act = 0x4b \<and> params_get_or p 0 0 = 0
   | _ \<Rightarrow> False"
  by code_simp

lemma erase_line_no_column:
  assumes "0 < R"
  shows "erase_line_op ELToRight (screen_new 0 R) = None"
proof -
  let ?s = "record_damage 0 0 0 (screen_new 0 R)"
  have s: "row_of (screen_new 0 R) = 0" "col_of (screen_new 0 R) = 0" "cols_of (screen_new 0 R) = 0"
    by (simp_all add: screen_new_def cols_of_def cursor_default_def grid_new_def)
  have g: "s_grid ?s = grid_new 0 R"
    by (simp add: record_damage_def push_damage_def Let_def split: damage_mode.split) (simp add: screen_new_def)
  have "reset_cell 0 0 (grid_new 0 R) = None"
    using assms by (simp add: reset_cell_def grid_new_def row_new_def put_cell_def cell_at_def)
  then have "clear_region 0 0 0 0 (grid_new 0 R) = None"
    by (simp add: clear_region_def clear_region_row_def Let_def grid_new_def)
  then show ?thesis
    by (simp add: erase_line_op_def erase_line_impl_def Let_def s clear_region_impl_def with_grid_def g [simplified])
qed

lemma no_column_feed:
  assumes "0 < R"
  shows "feed parser_new (screen_new 0 R) [0x1b, 0x5b, 0x4b] = None"
proof -
  obtain p ims ignore act where a: "actions_of parser_new [0x1b, 0x5b, 0x4b] = [CsiDispatch p ims ignore act]"
      "\<not> ignore" "inter_slice ims = []" "act = 0x4b" "params_get_or p 0 0 = 0"
    using erase_action
    by (cases "actions_of parser_new [0x1b, 0x5b, 0x4b]" rule: remdups_adj.cases) (auto split: action.splits)
  have "handle_csi p [] 0x4b (screen_new 0 R) = None"
    using a(5) erase_line_no_column [OF assms]
    by (simp add: handle_csi_def csi_erase_line_def ch_def ascii_def byte_def Let_def)
  then show ?thesis
    using a by (simp add: feed_def advance_via_actions perform_def)
qed

text \<open>A shell that clears the line it is on when it starts.\<close>

definition clearing_shell :: spawner where
  "clearing_shell cols rows =
     Some \<lparr>pty_reads = [ReadOk [0x1b, 0x5b, 0x4b]], pty_written = [], pty_room = 0, pty_error_text = []\<rparr>"

lemma split_made:
  assumes "t_active_pane t = Some a" and "can_split a d (t\<lparr>t_fullscreen_pane := None\<rparr>)"
    and "find_pos a (tiled_positions t) = Some p"
  shows "fst (split_pane d t) = Some (t_next_pane_id t)"
  using assms by (simp add: split_pane_def Let_def case_prod_beta tiled_positions_def)

text \<open>
  Why a terminal needs a column: the daemon accepts a session of no columns and splits its panes,
  and the first clear-line sequence the shell of such a pane prints panics the daemon at the next
  capture. (Only the side that is split is checked against a minimum.)
\<close>
theorem zero_width_pane_crashes:
  assumes "server_ok sv" and "server_active_tab sv = Some t" and "t_next_pane_id t \<noteq> - 1"
    and "t_active_pane t = Some a" and "can_split a Horizontal (t\<lparr>t_fullscreen_pane := None\<rparr>)"
    and "find_pos a (tiled_positions t) = Some p" and "pp_cols p = 0"
  shows "returns (handle_message clearing_shell c (SplitPane IpcHorizontal n) sv) (\<lambda>(reply, sv').
    case reply of SpawnResult i \<Rightarrow> handle_message clearing_shell c (CapturePane i) sv' = None | _ \<Rightarrow> False)"
proof -
  let ?t = "snd (split_pane Horizontal t)" and ?i = "t_next_pane_id t"
  note made = split_made [OF assms(4-6)]
  obtain sv' where on: "on_tab (split_pane Horizontal) sv = Some (Some ?i, sv')" "server_active_tab sv' = Some ?t"
      "tab_ok t" "t_swap_layouts t = []"
    using on_tab_split [OF assms(1), of Horizontal] assms(2,3) made by (fastforce simp: returns_iff)
  obtain h where size: "shown_size (80, 24) ?i ?t = (0, h)" "0 < h" "tab_pane ?i ?t \<noteq> None"
    using split_pane_made [OF on(3,4) made, of "(80, 24)"] assms(4,6,7) first_share_bounds [of "pp_rows p"]
    by (auto simp: second_half_def)
  let ?pt = "\<lparr>pt_pty = \<lparr>pty_reads = [ReadOk [0x1b, 0x5b, 0x4b]], pty_written = [], pty_room = 0, pty_error_text = []\<rparr>,
      pt_parser = parser_new, pt_screen = screen_new 0 h\<rparr>"
  have spawned: "spawn_pane_terminal clearing_shell 0 h = Some ?pt"
    by (simp add: spawn_pane_terminal_def clearing_shell_def)
  have drained: "drain_pty_output ?pt = None"
    using no_column_feed [OF size(2)] by (simp add: drain_pty_output_def)
  have "handle_split clearing_shell IpcHorizontal sv =
      Some (SpawnResult ?i, mark_dirty (sv'\<lparr>sv_pane_terminals := AList.update ?i ?pt (sv_pane_terminals sv')\<rparr>))"
    using on size by (simp add: handle_split_def attach_terminal_def spawned)
  then show ?thesis
    using on(2) size(3) drained
    by (simp add: handle_capture_def mark_dirty_def server_active_tab_def update_conv' del: not_None_eq)
qed

definition no_columns :: server where
  "no_columns = snd (the (handle_message clearing_shell 1 (Resize 0 24) (server_start None None 0 [])))"

lemma resized_single: "tab_resize c r (tab_new i n c' r') = tab_new i n c r"
  by (simp add: tab_resize_def sync_pane_sizes_eq tab_new_def tiled_positions_def layout_positions_def add_pane_def
      layout_new_def synced_def pane_resize_def pane_new_def find_pos_def pane_size_new_def)

theorem zero_width_pane_crashes_witness:
  "returns (handle_message clearing_shell 1 (SplitPane IpcHorizontal None) no_columns) (\<lambda>(reply, sv').
    case reply of SpawnResult i \<Rightarrow> handle_message clearing_shell 1 (CapturePane i) sv' = None | _ \<Rightarrow> False)"
proof -
  let ?t = "tab_new 0 (ascii ''Tab 1'') 0 24"
  have "server_ok no_columns"
    using session_resized_ok [OF server_start_ok] by (simp add: no_columns_def)
  moreover have "server_active_tab no_columns = Some ?t"
    by (simp add: no_columns_def server_start_def server_active_tab_def active_tab_of_def session_new_def mark_dirty_def
        session_resized_def session_resize_def resized_single default_snapshot_path_def sessions_dir_def)
  moreover have pos: "tiled_positions ?t = [(0, \<lparr>pp_col = 0, pp_row = 0, pp_cols = 0, pp_rows = 24\<rparr>)]"
    by (simp add: tiled_positions_def layout_positions_def add_pane_def layout_new_def tab_new_def pane_size_new_def)
  moreover have "can_split 0 Horizontal (?t\<lparr>t_fullscreen_pane := None\<rparr>)"
  proof -
    have "?t\<lparr>t_fullscreen_pane := None\<rparr> = ?t"
      by (simp add: tab_new_def)
    then show ?thesis
      by (simp add: can_split_def pos find_pos_def) (simp add: tab_pane_def tab_new_def pane_new_def has_fixed_rows_def)
  qed
  moreover have "t_next_pane_id ?t \<noteq> - 1" "t_active_pane ?t = Some 0"
    by (simp_all add: tab_new_def)
  ultimately show ?thesis
    by (intro zero_width_pane_crashes [where t = ?t and a = 0
        and p = "\<lparr>pp_col = 0, pp_row = 0, pp_cols = 0, pp_rows = 24\<rparr>"]) (simp_all add: find_pos_def)
qed

section \<open>Saves\<close>

text \<open>
  The auto-save: a server that is not dirty, or saved less than 30 seconds ago, is left as it is. Past
  that, a save that works puts the session at its path and clears the flag; one that fails keeps the flag
  and the clock, so the next call tries again, and keeps the old snapshot; both are reported as done,
  although the comment promises \<open>true if a save was performed\<close>.
\<close>
theorem auto_save_outcome:
  assumes "\<And>x json. to_string x = Some json \<Longrightarrow> from_str json = Some x" and "sv_snapshot_path sv = Some path"
  shows "case maybe_auto_save to_string fault now sv fs of (done, sv', fs') \<Rightarrow>
    sv_session sv' = sv_session sv \<and>
    (if \<not> done then sv' = sv \<and> fs' = fs \<and> (\<not> sv_dirty sv \<or> now - sv_last_save sv < AUTO_SAVE_INTERVAL_SECS)
     else if sv_dirty sv' then sv' = sv \<and> load_snapshot from_str path fs' = load_snapshot from_str path fs
     else sv_last_save sv' = now \<and>
       load_snapshot from_str path fs' = Some (snapshot_from_session (sv_session sv)))"
proof -
  obtain ok fs' where r: "save_session to_string fault (sv_session sv) path fs = (ok, fs')"
    by fastforce
  then have "load_snapshot from_str path fs' =
      (if ok then Some (snapshot_from_session (sv_session sv)) else load_snapshot from_str path fs)"
    using save_atomic [where to_string = to_string and from_str = from_str and s = "sv_session sv" and fault = fault and path = path and fs = fs, OF assms(1)] by simp
  then show ?thesis
    using assms(2) r by (cases ok) (auto simp: maybe_auto_save_def save_now_def)
qed

theorem auto_save_outcome_witness:
  "case maybe_auto_save (\<lambda>x. None) NoFault 40 (mark_dirty (server_start None (Some []) 0 [])) (\<lambda>_. None) of
     (done, sv', fs') \<Rightarrow> done \<and> sv_dirty sv'"
proof -
  let ?sv = "mark_dirty (server_start None (Some []) 0 [])"
  obtain path where "sv_snapshot_path ?sv = Some path"
    by (simp add: mark_dirty_def server_start_def default_snapshot_path_def sessions_dir_def Let_def)
  moreover have "sv_last_save ?sv = 0" "sv_dirty ?sv"
    by (simp_all add: mark_dirty_def server_start_def Let_def)
  moreover have "load_snapshot (\<lambda>x. None) q fs = None" for q fs
    by (simp add: load_snapshot_def)
  moreover obtain d sv' fs' where "maybe_auto_save (\<lambda>x. None) NoFault 40 ?sv (\<lambda>_. None) = (d, sv', fs')"
    using prod_cases3 by blast
  ultimately show ?thesis
    using auto_save_outcome [where to_string = "\<lambda>x. None" and from_str = "\<lambda>x. None" and fault = NoFault
      and now = 40 and fs = "\<lambda>_. None" and sv = ?sv and path = path]
    by (auto split: if_splits)
qed

end
