(* ===== verification/App_Write.thy ===== *)
theory App_Write
  imports Emux_Prelude
begin

text \<open>
  \<open>pty_write_all\<close> of \<open>bins/emux/src/app.rs\<close>: the loop that writes all of a buffer to a non-blocking
  PTY, sleeping while the PTY is full. What the kernel answers to the writes is a schedule, a function
  from the number of the write; the loop may wait for ever, and then has no result.
\<close>

datatype write_outcome = Takes nat | Blocks | Fails

record write_result =
  wr_ok :: bool
  wr_written :: "u8 list"
  wr_slept :: nat

partial_function (option) write_loop ::
  "(nat \<Rightarrow> write_outcome) \<Rightarrow> nat \<Rightarrow> nat \<Rightarrow> nat \<Rightarrow> u8 list \<Rightarrow> u8 list \<Rightarrow> write_result option" where
  "write_loop sched i backoff slept out data =
     (if data = [] then Some \<lparr>wr_ok = True, wr_written = out, wr_slept = slept\<rparr>
      else (case sched i of
              Takes n \<Rightarrow>
                if n = 0 then Some \<lparr>wr_ok = False, wr_written = out, wr_slept = slept\<rparr>
                else write_loop sched (i + 1) 10 slept (out @ take n data) (drop n data)
            | Blocks \<Rightarrow> write_loop sched (i + 1) (min (backoff * 2) 1000) (slept + backoff) out data
            | Fails \<Rightarrow> Some \<lparr>wr_ok = False, wr_written = out, wr_slept = slept\<rparr>))"

definition pty_write_all :: "(nat \<Rightarrow> write_outcome) \<Rightarrow> u8 list \<Rightarrow> write_result option" where
  "pty_write_all sched data = write_loop sched 0 10 0 [] data"

section \<open>When it returns\<close>

lemma write_loop_done [simp]:
  "write_loop sched i backoff slept out [] = Some \<lparr>wr_ok = True, wr_written = out, wr_slept = slept\<rparr>"
  by (subst write_loop.simps) simp

text \<open>The loop goes through the blocked writes, sleeping at most a millisecond for each.\<close>

lemma write_loop_blocked:
  assumes "\<And>j. i \<le> j \<Longrightarrow> j < i + n \<Longrightarrow> sched j = Blocks" and "backoff \<le> 1000" and "data \<noteq> []"
  shows "\<exists>backoff' slept'. backoff' \<le> 1000 \<and> slept' \<le> slept + n * 1000 \<and>
    write_loop sched i backoff slept out data = write_loop sched (i + n) backoff' slept' out data"
  using assms
proof (induction n arbitrary: i backoff slept)
  case 0
  then show ?case by auto
next
  case (Suc n)
  have "sched i = Blocks"
    using Suc.prems(1) [of i] by simp
  then have step: "write_loop sched i backoff slept out data =
      write_loop sched (i + 1) (min (backoff * 2) 1000) (slept + backoff) out data"
    using Suc.prems(3) by (subst write_loop.simps) simp
  have "\<exists>b s. b \<le> 1000 \<and> s \<le> (slept + backoff) + n * 1000 \<and>
      write_loop sched (i + 1) (min (backoff * 2) 1000) (slept + backoff) out data = write_loop sched ((i + 1) + n) b s out data"
    using Suc.prems by (intro Suc.IH) auto
  then show ?case
  proof (elim exE conjE)
    fix b s
    assume "b \<le> 1000" "s \<le> slept + backoff + n * 1000"
      "write_loop sched (i + 1) (min (backoff * 2) 1000) (slept + backoff) out data = write_loop sched (i + 1 + n) b s out data"
    then show ?case
      using step Suc.prems(2) by (intro exI [of _ b] exI [of _ s]) simp
  qed
qed

text \<open>A schedule that always takes something again, sooner or later.\<close>

definition fair :: "(nat \<Rightarrow> write_outcome) \<Rightarrow> bool" where
  "fair sched \<longleftrightarrow> (\<forall>i. \<exists>j \<ge> i. sched j \<noteq> Blocks)"

lemma write_loop_returns:
  assumes "fair sched" and "backoff \<le> 1000"
  shows "returns (write_loop sched i backoff slept out data) (\<lambda>r. \<exists>k \<le> length data.
    wr_written r = out @ take k data \<and> (wr_ok r \<longleftrightarrow> k = length data))"
  using assms(2)
proof (induction data arbitrary: i backoff slept out rule: length_induct)
  case (1 data)
  show ?case
  proof (cases "data = []")
    case True
    then show ?thesis by simp
  next
    case False
    define j where "j = (LEAST j. i \<le> j \<and> sched j \<noteq> Blocks)"
    have j: "i \<le> j" "sched j \<noteq> Blocks"
      using assms(1) LeastI_ex [of "\<lambda>j. i \<le> j \<and> sched j \<noteq> Blocks"] by (auto simp: fair_def j_def)
    have "sched k = Blocks" if "i \<le> k" "k < i + (j - i)" for k
      using that not_less_Least [of k "\<lambda>j. i \<le> j \<and> sched j \<noteq> Blocks"] j(1) by (auto simp: j_def)
    from write_loop_blocked [where sched = sched and i = i and n = "j - i" and slept = slept and out = out, OF this "1.prems" False] obtain b s where
      b: "b \<le> 1000" "write_loop sched i backoff slept out data = write_loop sched j b s out data"
      using j(1) by auto
    show ?thesis
    proof (cases "sched j")
      case (Takes n)
      show ?thesis
      proof (cases "n = 0")
        case True
        then have "write_loop sched j b s out data = Some \<lparr>wr_ok = False, wr_written = out, wr_slept = s\<rparr>"
          using False Takes by (subst write_loop.simps) simp
        then show ?thesis
          unfolding b(2) by auto
      next
        case n: False
        then have step: "write_loop sched j b s out data =
            write_loop sched (j + 1) 10 s (out @ take n data) (drop n data)"
          using False Takes by (subst write_loop.simps) simp
        have "returns (write_loop sched (j + 1) 10 s (out @ take n data) (drop n data)) (\<lambda>r. \<exists>k \<le> length (drop n data).
            wr_written r = (out @ take n data) @ take k (drop n data) \<and> (wr_ok r \<longleftrightarrow> k = length (drop n data)))"
          using n False by (intro "1.IH" [rule_format]) simp_all
        then show ?thesis
          unfolding b(2) step
        proof (rule returns_mono, elim exE conjE)
          fix r k
          assume k: "k \<le> length (drop n data)" "wr_written r = (out @ take n data) @ take k (drop n data)"
            "wr_ok r \<longleftrightarrow> k = length (drop n data)"
          have "wr_written r = out @ take (min (n + k) (length data)) data"
            using k(2) by (simp add: take_add [symmetric] min_def)
          moreover have "wr_ok r \<longleftrightarrow> min (n + k) (length data) = length data"
            using k(1,3) n False by (cases "length data \<le> n") auto
          ultimately show "\<exists>k \<le> length data. wr_written r = out @ take k data \<and> (wr_ok r \<longleftrightarrow> k = length data)"
            by (intro exI [of _ "min (n + k) (length data)"]) simp
        qed
      qed
    next
      case Fails
      then have "write_loop sched j b s out data = Some \<lparr>wr_ok = False, wr_written = out, wr_slept = s\<rparr>"
        using False by (subst write_loop.simps) simp
      then show ?thesis
        unfolding b(2) by auto
    qed (use j in simp)
  qed
qed

text \<open>A program that never reads its input: the loop waits for ever.\<close>

lemma write_loop_stuck:
  assumes "\<And>j. i \<le> j \<Longrightarrow> sched j = Blocks" and "data \<noteq> []"
  shows "write_loop sched i backoff slept out data = None"
proof -
  have "(\<forall>j \<ge> i. sched j = Blocks) \<longrightarrow> data = []" if "write_loop sched i backoff slept out data = Some r" for r
    by (rule write_loop.raw_induct [OF _ that, where P = "\<lambda>k i b s out data r. (\<forall>j \<ge> i. k j = Blocks) \<longrightarrow> data = []"])
       (auto split: if_splits write_outcome.splits, metis Suc_leD)
  then show ?thesis
    using assms by fastforce
qed

end
