(* ===== verification/App_Ipc.thy ===== *)
theory App_Ipc
  imports Daemon_Props App_Write
begin

text \<open>
  \<open>bins/emux/src/ipc_handler.rs\<close>: the message handler that the running daemon and the stand-alone program
  share. The trait \<open>PaneAccess\<close> is a record of operations on the caller's terminals; what the handler
  relies on is the locale \<open>pane_access\<close>. \<open>None\<close> is a panic, or a write that never returns.
\<close>

section \<open>The trait\<close>

record 'p pane_ops =
  po_capture :: "pane_id \<Rightarrow> 'p \<Rightarrow> (rchar list option \<times> 'p) option"
  po_send :: "pane_id \<Rightarrow> u8 list \<Rightarrow> 'p \<Rightarrow> ((rstr + unit) \<times> 'p) option"
  po_remove :: "pane_id \<Rightarrow> 'p \<Rightarrow> 'p"
  po_spawn :: "pane_id \<Rightarrow> nat \<Rightarrow> nat \<Rightarrow> 'p \<Rightarrow> (rstr + unit) \<times> 'p"

record 'p ipc_result =
  ir_response :: server_message
  ir_sync_sizes :: bool
  ir_session :: session
  ir_panes :: 'p

definition reply :: "session \<Rightarrow> 'p \<Rightarrow> server_message \<Rightarrow> 'p ipc_result" where
  "reply s p m = \<lparr>ir_response = m, ir_sync_sizes = False, ir_session = s, ir_panes = p\<rparr>"

definition reply_with_sync :: "session \<Rightarrow> 'p \<Rightarrow> server_message \<Rightarrow> 'p ipc_result" where
  "reply_with_sync s p m = \<lparr>ir_response = m, ir_sync_sizes = True, ir_session = s, ir_panes = p\<rparr>"

section \<open>The handler\<close>

text \<open>The arms of \<open>SplitPane\<close> and \<open>SpawnPane\<close>, which differ in how they read the direction.\<close>

definition ipc_split_arm :: "'p pane_ops \<Rightarrow> split_direction \<Rightarrow> session \<Rightarrow> 'p \<Rightarrow> 'p ipc_result option" where
  "ipc_split_arm ops dir s p = do {
     (r, s) \<leftarrow> on_session_tab (split_pane dir) s;
     case r of
       Some i \<Rightarrow> do {
         t \<leftarrow> active_tab_of s;
         let (cols, rows) = shown_size (80, 24) i t;
         Some (case po_spawn ops i cols rows p of
                 (Inr _, p) \<Rightarrow> reply_with_sync s p (SpawnResult i)
               | (Inl e, p) \<Rightarrow> reply s p (Error (ascii ''spawn error: '' @ e))) }
     | None \<Rightarrow> Some (reply s p (Error (ascii ''cannot split pane''))) }"

definition ipc_resize_pane :: "pane_id \<Rightarrow> u16 \<Rightarrow> u16 \<Rightarrow> session \<Rightarrow> 'p \<Rightarrow> 'p ipc_result option" where
  "ipc_resize_pane i cols rows s p = do {
     t \<leftarrow> active_tab_of s;
     if tab_pane i t = None then Some (reply s p (pane_not_found i))
     else (case find_pos i (tab_positions t) of
             Some pos \<Rightarrow> do {
               (_, s) \<leftarrow> on_session_tab (\<lambda>t. ((),
                 resize_by i (size_delta cols (pp_cols pos)) (size_delta rows (pp_rows pos)) t)) s;
               Some (reply_with_sync s p Ack) }
           | None \<Rightarrow> Some (reply s p (pane_not_found i))) }"

fun handle_ipc :: "'p pane_ops \<Rightarrow> client_message \<Rightarrow> session \<Rightarrow> 'p \<Rightarrow> 'p ipc_result option" where
  "handle_ipc ops Ping s p = Some (reply s p Pong)"
| "handle_ipc ops GetVersion s p = Some (reply s p (Version PROTOCOL_VERSION))"
| "handle_ipc ops (Resize cols rows) s p = Some (reply (session_resize (unat cols) (unat rows) s) p Ack)"
| "handle_ipc ops ListSessions s p = do {
     t \<leftarrow> active_tab_of s;
     Some (reply s p (SessionList [\<lparr>se_name = ss_name s, se_tabs = length (ss_tabs s), se_panes = tab_pane_count t,
       se_cols = ps_cols (ss_size s), se_rows = ps_rows (ss_size s)\<rparr>])) }"
| "handle_ipc ops ListPanes s p = do {
     t \<leftarrow> active_tab_of s;
     Some (reply s p (PaneList (map (pane_entry_of t) (tab_positions t)))) }"
| "handle_ipc ops (GetPaneInfo i) s p = do {
     t \<leftarrow> active_tab_of s;
     Some (reply s p (case tab_pane i t of
             Some q \<Rightarrow>
               let (cols, rows) = shown_size (0, 0) i t in
               PaneInfo \<lparr>pe_id = i, pe_title = pn_title q, pe_cols = of_nat cols, pe_rows = of_nat rows,
                 pe_active = (t_active_pane t = Some i), pe_has_notification = pn_has_notification q\<rparr>
           | None \<Rightarrow> pane_not_found i)) }"
| "handle_ipc ops (CapturePane i) s p = do {
     (r, p) \<leftarrow> po_capture ops i p;
     Some (reply s p (case r of Some content \<Rightarrow> PaneCaptured i content | None \<Rightarrow> pane_not_found i)) }"
| "handle_ipc ops (SendKeys i ks) s p = do {
     (r, p) \<leftarrow> po_send ops i ks p;
     Some (reply s p (case r of Inr _ \<Rightarrow> Ack | Inl e \<Rightarrow> Error e)) }"
| "handle_ipc ops (SetPaneTitle i title) s p = do {
     (ok, s) \<leftarrow> on_session_tab (on_pane i (set_title title)) s;
     Some (reply s p (if ok then Ack else pane_not_found i)) }"
| "handle_ipc ops (FocusPane i) s p = do {
     (ok, s) \<leftarrow> on_session_tab (focus_pane i) s;
     Some (reply s p (if ok then Ack else pane_not_found i)) }"
| "handle_ipc ops (SplitPane d sz) s p = ipc_split_arm ops (mux_direction d) s p"
| "handle_ipc ops (SpawnPane d) s p = ipc_split_arm ops (spawn_direction d) s p"
| "handle_ipc ops (KillPane i) s p = do {
     (ok, s) \<leftarrow> on_session_tab (close_pane i) s;
     Some (if ok then reply_with_sync s (po_remove ops i p) Ack
           else reply s p (Error (ascii ''cannot kill pane '' @ show_nat (unat i)))) }"
| "handle_ipc ops (ResizePane i cols rows) s p = ipc_resize_pane i cols rows s p"
| "handle_ipc ops (Attach cols rows) s p = Some (reply s p Ack)"
| "handle_ipc ops Detach s p = Some (reply s p Ack)"
| "handle_ipc ops (KillSession name) s p = Some (reply s p Ack)"
| "handle_ipc ops (KeyInput data) s p = Some (reply s p Ack)"

section \<open>What the handler relies on\<close>

text \<open>
  The terminals have an invariant; a capture or a write returns where it is safe; whatever returns keeps
  the invariant. A new terminal needs at least one cell.
\<close>

fun session_message_ok :: "client_message \<Rightarrow> tab \<Rightarrow> bool" where
  "session_message_ok (SpawnPane d) t = (t_next_pane_id t \<noteq> - 1 \<and> splittable t)"
| "session_message_ok (SplitPane d sz) t = (t_next_pane_id t \<noteq> - 1 \<and> splittable t)"
| "session_message_ok _ t = True"

definition ipc_kept :: "('p \<Rightarrow> bool) \<Rightarrow> 'p ipc_result \<Rightarrow> bool" where
  "ipc_kept good r \<longleftrightarrow> session_ok (ir_session r) \<and> plain_tabs (ir_session r) \<and> good (ir_panes r)"

lemma ipc_kept_reply [simp]:
  "ipc_kept good (reply s p m) \<longleftrightarrow> session_ok s \<and> plain_tabs s \<and> good p"
  "ipc_kept good (reply_with_sync s p m) \<longleftrightarrow> session_ok s \<and> plain_tabs s \<and> good p"
  by (simp_all add: ipc_kept_def reply_def reply_with_sync_def)

locale pane_access =
  fixes ops :: "'p pane_ops"
    and good :: "'p \<Rightarrow> bool"
    and safe :: "client_message \<Rightarrow> 'p \<Rightarrow> bool"
  assumes capture_law: "good p \<Longrightarrow> safe (CapturePane i) p \<Longrightarrow> returns (po_capture ops i p) (\<lambda>r. good (snd r))"
    and send_law: "good p \<Longrightarrow> safe (SendKeys i ks) p \<Longrightarrow> returns (po_send ops i ks p) (\<lambda>r. good (snd r))"
    and remove_law: "good p \<Longrightarrow> good (po_remove ops i p)"
    and spawn_law: "good p \<Longrightarrow> 0 < c \<Longrightarrow> 0 < r \<Longrightarrow> good (snd (po_spawn ops i c r p))"
begin

lemma split_arm_kept:
  assumes s: "session_ok s" "plain_tabs s" and p: "good p"
    and t: "\<And>t. active_tab_of s = Some t \<Longrightarrow> t_next_pane_id t \<noteq> - 1 \<and> splittable t"
  shows "returns (ipc_split_arm ops d s p) (ipc_kept good)"
proof -
  have "returns (on_session_tab (split_pane d) s) (\<lambda>(r, s'). session_ok s' \<and> plain_tabs s' \<and>
      (\<exists>t. active_tab_of s = Some t \<and> tab_ok t \<and> t_swap_layouts t = [] \<and> r = fst (split_pane d t) \<and>
        active_tab_of s' = Some (snd (split_pane d t))))"
    using s t by (intro on_session_tab_ok) (simp_all add: split_pane_ok plain_ops frame_simps)
  then obtain r s' t' where r: "on_session_tab (split_pane d) s = Some (r, s')" "session_ok s'" "plain_tabs s'"
      "active_tab_of s = Some t'" "tab_ok t'" "t_swap_layouts t' = []" "r = fst (split_pane d t')"
      "active_tab_of s' = Some (snd (split_pane d t'))"
    by (auto simp: returns_iff)
  show ?thesis
  proof (cases r)
    case None
    then show ?thesis
      using r p by (simp add: ipc_split_arm_def)
  next
    case (Some i)
    then obtain q where q: "find_pos (the (t_active_pane t')) (tiled_positions t') = Some q"
        "t_active_pane t' \<noteq> None" "case d of Horizontal \<Rightarrow> 4 \<le> pp_rows q | Vertical \<Rightarrow> 4 \<le> pp_cols q"
        "shown_size (80, 24) i (snd (split_pane d t')) = second_half d q"
      using split_pane_made [OF r(5,6), of d i "(80, 24)"] r(7) by auto
    then have "0 < fst (second_half d q) \<and> 0 < snd (second_half d q)"
      using t [OF r(4)] by (intro second_half_pos) (auto simp: splittable_def split: split_direction.splits)
    then have "good (snd (po_spawn ops i (fst (second_half d q)) (snd (second_half d q)) p))"
      using spawn_law [OF p] by blast
    then show ?thesis
      using r(1-3,8) Some q(4)
      by (cases "po_spawn ops i (fst (second_half d q)) (snd (second_half d q)) p")
         (auto simp: ipc_split_arm_def case_prod_beta split: sum.split)
  qed
qed

lemma session_arm_kept:
  assumes "session_ok s" "plain_tabs s"
    and "\<And>t. tab_ok t \<Longrightarrow> t_swap_layouts t = [] \<Longrightarrow> tab_ok (snd (f t)) \<and> t_id (snd (f t)) = t_id t \<and> t_swap_layouts (snd (f t)) = []"
  shows "returns (on_session_tab f s) (\<lambda>x. session_ok (snd x) \<and> plain_tabs (snd x))"
  by (rule returns_mono [OF on_session_tab_ok [OF assms(1,2), of f]]) (use assms(3) in auto)

lemma resize_pane_kept:
  assumes s: "session_ok s" "plain_tabs s" and p: "good p"
  shows "returns (ipc_resize_pane i c r s p) (ipc_kept good)"
proof (rule session_active [OF s])
  fix t
  assume t: "active_tab_of s = Some t"
  have "returns (on_session_tab (\<lambda>t. ((), resize_by i x y t)) s) (\<lambda>x. session_ok (snd x) \<and> plain_tabs (snd x))" for x y
    using s by (rule session_arm_kept) (auto simp: resize_by_def Let_def resize_pane_ok plain_ops frame_simps)
  then show ?thesis
    using s p t by (simp add: ipc_resize_pane_def case_prod_beta split: option.split)
qed

text \<open>Every message is answered, and the session and the terminals keep their invariants.\<close>

lemma handle_ipc_kept:
  assumes s: "session_ok s" "plain_tabs s" and p: "good p" and m: "safe msg p"
    and t: "\<And>t. active_tab_of s = Some t \<Longrightarrow> session_message_ok msg t"
  shows "returns (handle_ipc ops msg s p) (ipc_kept good)"
proof (rule session_active [OF s])
  fix u
  assume u: "active_tab_of s = Some u"
  have resize: "session_ok (session_resize c r s)" "plain_tabs (session_resize c r s)" for c r
    using s session_resize_ok [OF s(1)]
    by (auto simp: plain_tabs_def session_resize_def tab_resize_def sync_pane_sizes_eq list_all_iff)
  note arms = session_arm_kept [OF s] focus_pane_ok close_pane_ok plain_ops set_title_on_pane frame_simps
  show ?thesis
  proof (cases msg)
    case (CapturePane i)
    then show ?thesis
      using s capture_law [OF p, of i] m by (simp add: case_prod_beta)
  next
    case (SendKeys i ks)
    then show ?thesis
      using s send_law [OF p, of i ks] m by (simp add: case_prod_beta)
  next
    case (SplitPane d n)
    then show ?thesis
      using split_arm_kept [OF s p] t by simp
  next
    case (SpawnPane d)
    then show ?thesis
      using split_arm_kept [OF s p] t by simp
  next
    case (FocusPane i)
    then show ?thesis
      using p session_arm_kept [OF s, of "focus_pane i"] by (simp add: arms case_prod_beta)
  next
    case (SetPaneTitle i x)
    then show ?thesis
      using p session_arm_kept [OF s, of "on_pane i (set_title x)"] by (simp add: arms case_prod_beta)
  next
    case (KillPane i)
    have "returns (on_session_tab (close_pane i) s) (\<lambda>x. session_ok (snd x) \<and> plain_tabs (snd x))"
      by (simp add: arms)
    then show ?thesis
      unfolding KillPane using p remove_law [OF p, of i]
      by (simp add: case_prod_beta del: returns_bind) (auto simp: returns_iff)
  next
    case (ResizePane i c r)
    then show ?thesis
      using resize_pane_kept [OF s p] by simp
  qed (use s p u resize in simp_all)
qed

end

end
