(* ===== verification/Render_Damage.thy ===== *)
theory Render_Damage
  imports Emux_Prelude
begin

text \<open>\<open>crates/emux-render/src/damage.rs\<close>: which rows of a pane have to be drawn again.\<close>

record damage_tracker =
  dt_dirty_rows :: "bool list"
  dt_full_redraw :: bool

definition tracker_new :: "nat \<Rightarrow> damage_tracker" where
  "tracker_new rows = \<lparr>dt_dirty_rows = replicate rows False, dt_full_redraw = True\<rparr>"

definition mark_row :: "nat \<Rightarrow> damage_tracker \<Rightarrow> damage_tracker" where
  "mark_row row d =
     (if row < length (dt_dirty_rows d) then d\<lparr>dt_dirty_rows := (dt_dirty_rows d)[row := True]\<rparr> else d)"

definition mark_all :: "damage_tracker \<Rightarrow> damage_tracker" where
  "mark_all d = d\<lparr>dt_full_redraw := True\<rparr>"

definition tracker_clear :: "damage_tracker \<Rightarrow> damage_tracker" where
  "tracker_clear d = d\<lparr>dt_dirty_rows := map (\<lambda>_. False) (dt_dirty_rows d), dt_full_redraw := False\<rparr>"

definition is_dirty :: "nat \<Rightarrow> damage_tracker \<Rightarrow> bool" where
  "is_dirty row d \<longleftrightarrow>
     dt_full_redraw d \<or> (case get_opt (dt_dirty_rows d) row of Some b \<Rightarrow> b | None \<Rightarrow> False)"

definition needs_redraw :: "damage_tracker \<Rightarrow> bool" where
  "needs_redraw d \<longleftrightarrow> dt_full_redraw d \<or> list_ex (\<lambda>b. b) (dt_dirty_rows d)"

definition dirty_rows :: "damage_tracker \<Rightarrow> nat list" where
  "dirty_rows d = filter (\<lambda>r. is_dirty r d) [0..<length (dt_dirty_rows d)]"

definition tracker_resize :: "nat \<Rightarrow> damage_tracker \<Rightarrow> damage_tracker" where
  "tracker_resize rows d =
     d\<lparr>dt_dirty_rows := take rows (dt_dirty_rows d) @ replicate (rows - length (dt_dirty_rows d)) False,
       dt_full_redraw := True\<rparr>"

text \<open>The rows a sequence of marks leaves dirty are those marked that exist.\<close>

lemma marked_length [simp]: "length (dt_dirty_rows (fold mark_row rs d)) = length (dt_dirty_rows d)"
  by (induction rs arbitrary: d) (simp_all add: mark_row_def)

lemma is_dirty_mark:
  "is_dirty r (mark_row k d) \<longleftrightarrow> is_dirty r d \<or> r = k \<and> r < length (dt_dirty_rows d)"
  by (auto simp: mark_row_def is_dirty_def get_opt_def nth_list_update)

lemma is_dirty_marks:
  "is_dirty r (fold mark_row rs d) \<longleftrightarrow> is_dirty r d \<or> r \<in> set rs \<and> r < length (dt_dirty_rows d)"
proof (induction rs arbitrary: d)
  case (Cons k rs)
  have "length (dt_dirty_rows (mark_row k d)) = length (dt_dirty_rows d)"
    by (simp add: mark_row_def)
  then show ?case
    using Cons [of "mark_row k d"] by (auto simp: is_dirty_mark)
qed simp

lemma dirty_after_marks:
  "is_dirty r (fold mark_row rs (tracker_clear d)) \<longleftrightarrow> r \<in> set rs \<and> r < length (dt_dirty_rows d)"
  by (simp add: is_dirty_marks) (auto simp: tracker_clear_def is_dirty_def get_opt_def)

lemma needs_redraw_rows: "0 < length (dt_dirty_rows d) \<Longrightarrow> needs_redraw d \<longleftrightarrow> dirty_rows d \<noteq> []"
  by (fastforce simp: needs_redraw_def dirty_rows_def is_dirty_def get_opt_def filter_empty_conv list_ex_length)

end
