(* ===== verification/App_Panes.thy ===== *)
theory App_Panes
  imports App_Ipc Render_Damage
begin

text \<open>
  The two implementations of \<open>PaneAccess\<close>: the daemon's terminals (\<open>DaemonPanes\<close> of
  \<open>bins/emux/src/daemon.rs\<close>) and those of the stand-alone program (\<open>StandalonePaneAccess\<close> of
  \<open>event_loop.rs\<close>, with \<open>app.rs\<close> and \<open>operations.rs\<close>). Each is an instance of the locale
  \<open>pane_access\<close>. \<open>sched\<close> gives for every pane how the kernel answers the writes to its PTY.
\<close>

section \<open>The daemon's terminals\<close>

type_synonym terminals = "(pane_id \<times> pane_terminal) list"
type_synonym schedules = "pane_id \<Rightarrow> nat \<Rightarrow> write_outcome"

definition daemon_capture :: "pane_id \<Rightarrow> terminals \<Rightarrow> (rchar list option \<times> terminals) option" where
  "daemon_capture i pts =
     (case map_of pts i of
        None \<Rightarrow> Some (None, pts)
      | Some pt \<Rightarrow> do {
          pt \<leftarrow> drain_pty_output pt;
          content \<leftarrow> screen_text (pt_screen pt);
          Some (Some content, AList.update i pt pts) })"

definition pane_missing :: "pane_id \<Rightarrow> rstr" where
  "pane_missing i = ascii ''pane '' @ show_nat (unat i) @ ascii '' not found''"

text \<open>The write itself, and its result.\<close>

definition send_to_pty :: "(nat \<Rightarrow> write_outcome) \<Rightarrow> u8 list \<Rightarrow> pty \<Rightarrow> ((rstr + unit) \<times> pty) option" where
  "send_to_pty k data p =
     map_option (\<lambda>r. ((if wr_ok r then Inr () else Inl (ascii ''write error: '' @ pty_error_text p)),
         p\<lparr>pty_written := pty_written p @ wr_written r\<rparr>))
       (pty_write_all k data)"

definition daemon_send :: "schedules \<Rightarrow> pane_id \<Rightarrow> u8 list \<Rightarrow> terminals \<Rightarrow> ((rstr + unit) \<times> terminals) option" where
  "daemon_send sched i data pts =
     (case map_of pts i of
        None \<Rightarrow> Some (Inl (pane_missing i), pts)
      | Some pt \<Rightarrow> do {
          (r, p) \<leftarrow> send_to_pty (sched i) data (pt_pty pt);
          Some (r, AList.update i (pt\<lparr>pt_pty := p\<rparr>) pts) })"

definition daemon_spawn :: "spawner \<Rightarrow> rstr \<Rightarrow> pane_id \<Rightarrow> nat \<Rightarrow> nat \<Rightarrow> terminals \<Rightarrow> (rstr + unit) \<times> terminals" where
  "daemon_spawn spawn etext i cols rows pts =
     (case spawn_pane_terminal spawn cols rows of
        Some pt \<Rightarrow> (Inr (), AList.update i pt pts)
      | None \<Rightarrow> (Inl (ascii ''spawn error: '' @ etext), pts))"

definition daemon_ops :: "schedules \<Rightarrow> spawner \<Rightarrow> rstr \<Rightarrow> terminals pane_ops" where
  "daemon_ops sched spawn etext =
     \<lparr>po_capture = daemon_capture, po_send = daemon_send sched, po_remove = AList.delete,
      po_spawn = daemon_spawn spawn etext\<rparr>"

definition terminals_ok :: "terminals \<Rightarrow> bool" where
  "terminals_ok pts \<longleftrightarrow> distinct (map fst pts) \<and> list_all (\<lambda>(i, pt). terminal_ok pt) pts"

lemma terminals_ok_update: "terminals_ok pts \<Longrightarrow> terminal_ok pt \<Longrightarrow> terminals_ok (AList.update i pt pts)"
  by (simp add: terminals_ok_def distinct_update update_all)

lemma terminals_ok_lookup: "terminals_ok pts \<Longrightarrow> map_of pts i = Some pt \<Longrightarrow> terminal_ok pt"
  using map_of_SomeD by (fastforce simp: terminals_ok_def list_all_iff)

lemma terminal_ok_pty [simp]: "terminal_ok (pt\<lparr>pt_pty := p\<rparr>) = terminal_ok pt"
  by (simp add: terminal_ok_def)

text \<open>
  A capture is safe if the output it reads does not crash the terminal, sending keys if the write to the
  pane's PTY ends.
\<close>

fun daemon_safe :: "schedules \<Rightarrow> client_message \<Rightarrow> terminals \<Rightarrow> bool" where
  "daemon_safe sched (CapturePane i) pts = (case map_of pts i of Some pt \<Rightarrow> \<not> output_crashes pt | None \<Rightarrow> True)"
| "daemon_safe sched (SendKeys i ks) pts = (map_of pts i \<noteq> None \<longrightarrow> pty_write_all (sched i) ks \<noteq> None)"
| "daemon_safe sched _ pts = True"

lemma send_to_pty_returns: "fair k \<Longrightarrow> send_to_pty k data p \<noteq> None"
  using write_loop_returns [of k 10 0 0 "[]" data] by (auto simp: send_to_pty_def pty_write_all_def returns_iff)

interpretation daemon_panes: pane_access "daemon_ops sched spawn etext" terminals_ok "daemon_safe sched"
  for sched spawn etext
proof
  fix pts :: terminals and i ks c r
  assume ok: "terminals_ok pts"
  show "returns (po_capture (daemon_ops sched spawn etext) i pts) (\<lambda>r. terminals_ok (snd r))"
    if safe: "daemon_safe sched (CapturePane i) pts"
  proof (cases "map_of pts i")
    case None
    then show ?thesis
      using ok by (simp add: daemon_ops_def daemon_capture_def)
  next
    case (Some pt)
    then obtain pt' where pt': "drain_pty_output pt = Some pt'" "terminal_ok pt'"
      using safe drain_ok [OF terminals_ok_lookup [OF ok Some]] by (auto simp: returns_iff)
    then obtain l where "screen_text (pt_screen pt') = Some l"
      using screen_text_total by (fastforce simp: terminal_ok_def)
    then show ?thesis
      using Some pt' terminals_ok_update [OF ok pt'(2)] by (simp add: daemon_ops_def daemon_capture_def)
  qed
  show "returns (po_send (daemon_ops sched spawn etext) i ks pts) (\<lambda>r. terminals_ok (snd r))"
    if safe: "daemon_safe sched (SendKeys i ks) pts"
  proof (cases "map_of pts i")
    case None
    then show ?thesis
      using ok by (simp add: daemon_ops_def daemon_send_def)
  next
    case (Some pt)
    then obtain x where "send_to_pty (sched i) ks (pt_pty pt) = Some x"
      using safe Some by (auto simp: send_to_pty_def)
    then show ?thesis
      using Some terminals_ok_update [OF ok] terminals_ok_lookup [OF ok Some]
      by (simp add: daemon_ops_def daemon_send_def case_prod_beta)
  qed
  show "terminals_ok (po_remove (daemon_ops sched spawn etext) i pts)"
    using ok set_delete [of i pts] by (auto simp: daemon_ops_def terminals_ok_def distinct_delete list_all_iff)
  show "terminals_ok (snd (po_spawn (daemon_ops sched spawn etext) i c r pts))" if "0 < c" "0 < r"
    using ok that spawned_ok by (auto simp: daemon_ops_def daemon_spawn_def intro: terminals_ok_update split: option.split)
qed

section \<open>The terminals of the stand-alone program\<close>

record pane_state =
  pst_pty :: pty
  pst_parser :: parser
  pst_screen :: screen
  pst_damage :: damage_tracker

type_synonym pane_states = "(pane_id \<times> pane_state) list"

definition spawn_pane_state :: "spawner \<Rightarrow> nat \<Rightarrow> nat \<Rightarrow> pane_state option" where
  "spawn_pane_state spawn cols rows =
     map_option (\<lambda>p. \<lparr>pst_pty = p, pst_parser = parser_new,
         pst_screen = (screen_new cols rows)\<lparr>s_damage_mode := DamageRow\<rparr>, pst_damage = tracker_new rows\<rparr>)
       (spawn (of_nat cols) (of_nat rows))"

text \<open>Unlike the daemon's, this capture does not read the PTY first.\<close>

definition standalone_capture :: "pane_id \<Rightarrow> pane_states \<Rightarrow> (rchar list option \<times> pane_states) option" where
  "standalone_capture i pss =
     (case map_of pss i of
        None \<Rightarrow> Some (None, pss)
      | Some ps \<Rightarrow> map_option (\<lambda>content. (Some content, pss)) (screen_text (pst_screen ps)))"

definition standalone_send :: "schedules \<Rightarrow> pane_id \<Rightarrow> u8 list \<Rightarrow> pane_states \<Rightarrow> ((rstr + unit) \<times> pane_states) option" where
  "standalone_send sched i data pss =
     (case map_of pss i of
        None \<Rightarrow> Some (Inl (pane_missing i), pss)
      | Some ps \<Rightarrow> do {
          (r, p) \<leftarrow> send_to_pty (sched i) data (pst_pty ps);
          Some (r, AList.update i (ps\<lparr>pst_pty := p\<rparr>) pss) })"

definition standalone_spawn :: "spawner \<Rightarrow> rstr \<Rightarrow> pane_id \<Rightarrow> nat \<Rightarrow> nat \<Rightarrow> pane_states \<Rightarrow> (rstr + unit) \<times> pane_states" where
  "standalone_spawn spawn etext i cols rows pss =
     (case spawn_pane_state spawn cols rows of
        Some ps \<Rightarrow> (Inr (), AList.update i ps pss)
      | None \<Rightarrow> (Inl (ascii ''spawn error: '' @ etext), pss))"

definition standalone_ops :: "schedules \<Rightarrow> spawner \<Rightarrow> rstr \<Rightarrow> pane_states pane_ops" where
  "standalone_ops sched spawn etext =
     \<lparr>po_capture = standalone_capture, po_send = standalone_send sched, po_remove = AList.delete,
      po_spawn = standalone_spawn spawn etext\<rparr>"

definition pane_state_ok :: "pane_state \<Rightarrow> bool" where
  "pane_state_ok ps \<longleftrightarrow> parser_wf (pst_parser ps) \<and> (\<exists>R. screen_rows R (pst_screen ps))"

definition pane_states_ok :: "pane_states \<Rightarrow> bool" where
  "pane_states_ok pss \<longleftrightarrow> distinct (map fst pss) \<and> list_all (\<lambda>(i, ps). pane_state_ok ps) pss"

fun standalone_safe :: "schedules \<Rightarrow> client_message \<Rightarrow> pane_states \<Rightarrow> bool" where
  "standalone_safe sched (SendKeys i ks) pss = (map_of pss i \<noteq> None \<longrightarrow> fair (sched i))"
| "standalone_safe sched _ pss = True"

lemma pane_states_update: "pane_states_ok pss \<Longrightarrow> pane_state_ok ps \<Longrightarrow> pane_states_ok (AList.update i ps pss)"
  by (simp add: pane_states_ok_def distinct_update update_all)

lemma pane_states_lookup: "pane_states_ok pss \<Longrightarrow> map_of pss i = Some ps \<Longrightarrow> pane_state_ok ps"
  using map_of_SomeD by (fastforce simp: pane_states_ok_def list_all_iff)

lemma screen_rows_mode [simp]: "screen_rows R (s\<lparr>s_damage_mode := m\<rparr>) = screen_rows R s"
  by (simp add: screen_rows_def cols_of_def)

lemma spawned_state_ok: "spawn_pane_state spawn c r = Some ps \<Longrightarrow> 0 < c \<Longrightarrow> 0 < r \<Longrightarrow> pane_state_ok ps"
  using screen_rows_new [of c r] by (auto simp: spawn_pane_state_def pane_state_ok_def)

interpretation standalone_panes: pane_access "standalone_ops sched spawn etext" pane_states_ok "standalone_safe sched"
  for sched spawn etext
proof
  fix pss :: pane_states and i ks c r
  assume ok: "pane_states_ok pss"
  show "returns (po_capture (standalone_ops sched spawn etext) i pss) (\<lambda>r. pane_states_ok (snd r))"
  proof (cases "map_of pss i")
    case None
    then show ?thesis
      using ok by (simp add: standalone_ops_def standalone_capture_def)
  next
    case (Some ps)
    then obtain l where "screen_text (pst_screen ps) = Some l"
      using screen_text_total pane_states_lookup [OF ok Some] by (fastforce simp: pane_state_ok_def)
    then show ?thesis
      using Some ok by (simp add: standalone_ops_def standalone_capture_def)
  qed
  show "returns (po_send (standalone_ops sched spawn etext) i ks pss) (\<lambda>r. pane_states_ok (snd r))"
    if safe: "standalone_safe sched (SendKeys i ks) pss"
  proof (cases "map_of pss i")
    case None
    then show ?thesis
      using ok by (simp add: standalone_ops_def standalone_send_def)
  next
    case (Some ps)
    then obtain x where "send_to_pty (sched i) ks (pst_pty ps) = Some x"
      using safe send_to_pty_returns [of "sched i" ks "pst_pty ps"] by auto
    moreover have "pane_state_ok (ps\<lparr>pst_pty := p\<rparr>)" for p
      using pane_states_lookup [OF ok Some] by (simp add: pane_state_ok_def)
    ultimately show ?thesis
      using Some pane_states_update [OF ok] by (simp add: standalone_ops_def standalone_send_def case_prod_beta)
  qed
  show "pane_states_ok (po_remove (standalone_ops sched spawn etext) i pss)"
    using ok set_delete [of i pss] by (auto simp: standalone_ops_def pane_states_ok_def distinct_delete list_all_iff)
  show "pane_states_ok (snd (po_spawn (standalone_ops sched spawn etext) i c r pss))" if "0 < c" "0 < r"
    using ok that spawned_state_ok
    by (auto simp: standalone_ops_def standalone_spawn_def intro: pane_states_update split: option.split)
qed

text \<open>\<open>sync_pty_sizes\<close>: every shown pane gets the size it is shown with. (The PTY's own size is left out.)\<close>

definition sync_pane :: "pane_position \<Rightarrow> pane_state \<Rightarrow> pane_state option" where
  "sync_pane pos ps =
     (if cols_of (pst_screen ps) \<noteq> pp_cols pos \<or> rows_of (pst_screen ps) \<noteq> pp_rows pos then
        map_option (\<lambda>s. ps\<lparr>pst_screen := s, pst_damage := mark_all (tracker_resize (pp_rows pos) (pst_damage ps))\<rparr>)
          (resize (pp_cols pos) (pp_rows pos) (pst_screen ps))
      else Some (ps\<lparr>pst_damage := mark_all (pst_damage ps)\<rparr>))"

definition sync_pty_sizes :: "tab \<Rightarrow> pane_states \<Rightarrow> pane_states option" where
  "sync_pty_sizes t pss =
     foldM (\<lambda>pss (i, pos).
         case map_of pss i of
           Some ps \<Rightarrow> map_option (\<lambda>ps. AList.update i ps pss) (sync_pane pos ps)
         | None \<Rightarrow> Some pss)
       (tab_positions t) pss"

lemma sync_pane_ok:
  assumes "pane_state_ok ps" and "0 < pp_cols pos" and "0 < pp_rows pos"
    and "cur_row (s_alt_cursor (pst_screen ps)) < pp_rows pos"
  shows "returns (sync_pane pos ps) (\<lambda>ps'. pane_state_ok ps' \<and> cols_of (pst_screen ps') = pp_cols pos \<and>
    rows_of (pst_screen ps') = pp_rows pos)"
proof -
  obtain R where R: "screen_rows R (pst_screen ps)" "parser_wf (pst_parser ps)"
    using assms(1) by (auto simp: pane_state_ok_def)
  then have s: "screen_ok (cols_of (pst_screen ps)) R (pst_screen ps)"
    by (simp add: screen_rows_def)
  have "returns (resize (pp_cols pos) (pp_rows pos) (pst_screen ps)) (screen_ok (pp_cols pos) (pp_rows pos))"
    using resize_screen_ok [OF s] assms(2-4) by simp
  then have "returns (resize (pp_cols pos) (pp_rows pos) (pst_screen ps)) (\<lambda>s. (\<exists>R. screen_rows R s) \<and>
      cols_of s = pp_cols pos \<and> rows_of s = pp_rows pos)"
    by (rule returns_mono) (blast intro: screen_rowsI dest: screen_okD(13,14))
  then show ?thesis
    using R assms(1) by (auto simp: sync_pane_def pane_state_ok_def)
qed

end
