(* ===== verification/App_Daemon.thy ===== *)
theory App_Daemon
  imports App_Panes
begin

text \<open>
  The daemon's loop, \<open>run_daemon_loop_inner\<close> of \<open>bins/emux/src/daemon.rs\<close>: one iteration accepts a
  connection, reads the PTYs, streams what it read to the attached clients, and answers one message of
  every other client. A stream is the bytes it will deliver, whether its peer may still send, and the sink
  of what is written to it; a read that finds too few bytes on an open stream times out, and what it had
  read of the frame is gone.
\<close>

section \<open>Streams\<close>

record stream =
  st_in :: "u8 list"
  st_open :: bool
  st_out :: sink

datatype 'm received = Received 'm | TimedOut | Broken

definition daemon_read :: "(u8 list \<Rightarrow> 'm option) \<Rightarrow> stream \<Rightarrow> 'm received \<times> stream" where
  "daemon_read from_slice st =
     (let (r, inp) = read_message from_slice (st_in st) in
      ((case r of
          Inr m \<Rightarrow> Received m
        | Inl e \<Rightarrow> if e = CodecIo UnexpectedEof \<and> st_open st then TimedOut else Broken),
       st\<lparr>st_in := inp\<rparr>))"

definition respond :: "(server_message \<Rightarrow> u8 list option) \<Rightarrow> server_message \<Rightarrow> stream \<Rightarrow> stream" where
  "respond to_vec m st = st\<lparr>st_out := snd (write_message to_vec m (st_out st))\<rparr>"

section \<open>Reading the PTYs\<close>

text \<open>One PTY until it has no more, with the pieces read.\<close>

fun poll_reads ::
  "pane_id \<Rightarrow> pty_read list \<Rightarrow> parser \<Rightarrow> screen \<Rightarrow> (pane_id \<times> u8 list) list \<Rightarrow>
   (pty_read list \<times> parser \<times> screen \<times> (pane_id \<times> u8 list) list) option" where
  "poll_reads i [] ps s out = Some ([], ps, s, out)"
| "poll_reads i (ReadErr # rs) ps s out = Some (rs, ps, s, out)"
| "poll_reads i (ReadOk bs # rs) ps s out =
     (if bs = [] then Some (rs, ps, s, out)
      else do {
        (ps, s) \<leftarrow> feed ps s bs;
        poll_reads i rs ps s (out @ [(i, bs)]) })"

fun poll_terminals :: "terminals \<Rightarrow> (terminals \<times> (pane_id \<times> u8 list) list) option" where
  "poll_terminals [] = Some ([], [])"
| "poll_terminals ((i, pt) # pts) = do {
     (rs, ps, s, out) \<leftarrow> poll_reads i (pty_reads (pt_pty pt)) (pt_parser pt) (pt_screen pt) [];
     (pts, out') \<leftarrow> poll_terminals pts;
     Some ((i, pt\<lparr>pt_pty := (pt_pty pt)\<lparr>pty_reads := rs\<rparr>, pt_parser := ps, pt_screen := s\<rparr>) # pts, out @ out') }"

section \<open>Streaming\<close>

definition encoded_output :: "(server_message \<Rightarrow> u8 list option) \<Rightarrow> (pane_id \<times> u8 list) list \<Rightarrow> u8 list list" where
  "encoded_output to_vec outs =
     List.map_filter (\<lambda>(i, d). case encode to_vec (PtyOutput i d) of Inr bytes \<Rightarrow> Some bytes | Inl _ \<Rightarrow> None) outs"

text \<open>All frames to one client, until a write fails.\<close>

fun stream_frames :: "u8 list list \<Rightarrow> sink \<Rightarrow> bool \<times> sink" where
  "stream_frames [] w = (True, w)"
| "stream_frames (f # fs) w =
     (case write_all f w of
        (Inr _, w) \<Rightarrow> stream_frames fs w
      | (Inl _, w) \<Rightarrow> (False, w))"

definition stream_to_attached :: "u8 list list \<Rightarrow> stream list \<Rightarrow> stream list" where
  "stream_to_attached fs cs =
     List.map_filter (\<lambda>c. case stream_frames fs (st_out c) of
         (True, w) \<Rightarrow> Some (c\<lparr>st_out := w\<rparr>)
       | (False, w) \<Rightarrow> None) cs"

section \<open>Messages\<close>

record daemon =
  d_session :: session
  d_terminals :: terminals
  d_attached :: "stream list"
  d_clients :: "(64 word \<times> stream) list"
  d_next_id :: "64 word"
  d_shutdown :: bool

record environment =
  en_to_vec :: "server_message \<Rightarrow> u8 list option"
  en_from_slice :: "u8 list \<Rightarrow> client_message option"
  en_sched :: schedules
  en_spawn :: spawner
  en_error :: rstr

datatype fate = Stay | Leave | Attached

text \<open>\<open>KeyInput\<close>: the bytes go to the active pane of the active tab; a write error is logged.\<close>

definition key_input :: "environment \<Rightarrow> u8 list \<Rightarrow> daemon \<Rightarrow> daemon option" where
  "key_input env data d = do {
     t \<leftarrow> active_tab_of (d_session d);
     case t_active_pane t of
       None \<Rightarrow> Some d
     | Some i \<Rightarrow>
         if map_of (d_terminals d) i = None then Some d
         else do {
           (_, pts) \<leftarrow> daemon_send (en_sched env) i data (d_terminals d);
           Some (d\<lparr>d_terminals := pts\<rparr>) } }"

definition dispatch_message ::
  "environment \<Rightarrow> client_message \<Rightarrow> daemon \<Rightarrow> (server_message \<times> fate \<times> daemon) option" where
  "dispatch_message env m d =
     (case m of
        Attach cols rows \<Rightarrow>
          Some (Ack, Attached, d\<lparr>d_session := session_resize (unat cols) (unat rows) (d_session d)\<rparr>)
      | KillSession name \<Rightarrow>
          Some (Ack, Leave, if name = ss_name (d_session d) then d\<lparr>d_shutdown := True\<rparr> else d)
      | Detach \<Rightarrow> Some (Ack, Leave, d)
      | KeyInput data \<Rightarrow> map_option (\<lambda>d. (Ack, Leave, d)) (key_input env data d)
      | other \<Rightarrow>
          map_option (\<lambda>r. (ir_response r, Leave, d\<lparr>d_session := ir_session r, d_terminals := ir_panes r\<rparr>))
            (handle_ipc (daemon_ops (en_sched env) (en_spawn env) (en_error env)) other (d_session d) (d_terminals d)))"

definition serve_client :: "environment \<Rightarrow> stream \<Rightarrow> daemon \<Rightarrow> (fate \<times> stream \<times> daemon) option" where
  "serve_client env st d =
     (case daemon_read (en_from_slice env) st of
        (Received m, st) \<Rightarrow>
          map_option (\<lambda>(reply, fate, d). (fate, respond (en_to_vec env) reply st, d)) (dispatch_message env m d)
      | (TimedOut, st) \<Rightarrow> Some (Stay, st, d)
      | (Broken, st) \<Rightarrow> Some (Leave, st, d))"

text \<open>
  The clients one after the other. Those that attach join the attached ones last first, as the list of
  removals is gone through from its end.
\<close>

fun serve_clients ::
  "environment \<Rightarrow> (64 word \<times> stream) list \<Rightarrow> daemon \<Rightarrow> ((64 word \<times> stream) list \<times> stream list \<times> daemon) option" where
  "serve_clients env [] d = Some ([], [], d)"
| "serve_clients env ((c, st) # cs) d = do {
     (fate, st, d) \<leftarrow> serve_client env st d;
     (stay, joined, d) \<leftarrow> serve_clients env cs d;
     Some (case fate of
             Stay \<Rightarrow> ((c, st) # stay, joined, d)
           | Leave \<Rightarrow> (stay, joined, d)
           | Attached \<Rightarrow> (stay, joined @ [st], d)) }"

section \<open>An iteration\<close>

definition accept :: "stream option \<Rightarrow> daemon \<Rightarrow> daemon" where
  "accept incoming d =
     (case incoming of
        None \<Rightarrow> d
      | Some st \<Rightarrow> d\<lparr>d_clients := d_clients d @ [(d_next_id d, st)], d_next_id := d_next_id d + 1\<rparr>)"

definition poll_and_stream :: "environment \<Rightarrow> daemon \<Rightarrow> daemon option" where
  "poll_and_stream env d = do {
     (pts, outs) \<leftarrow> poll_terminals (d_terminals d);
     Some (d\<lparr>d_terminals := pts, d_attached := stream_to_attached (encoded_output (en_to_vec env) outs) (d_attached d)\<rparr>) }"

definition daemon_iteration :: "environment \<Rightarrow> stream option \<Rightarrow> daemon \<Rightarrow> daemon option" where
  "daemon_iteration env incoming d = do {
     d \<leftarrow> poll_and_stream env (accept incoming d);
     (stay, joined, d) \<leftarrow> serve_clients env (d_clients d) d;
     Some (d\<lparr>d_clients := stay, d_attached := d_attached d @ joined\<rparr>) }"

text \<open>\<open>start\<close>: the session and the terminal of its first pane.\<close>

definition daemon_start :: "spawner \<Rightarrow> rstr \<Rightarrow> daemon" where
  "daemon_start spawn name =
     \<lparr>d_session = session_new name 80 24,
      d_terminals = (case spawn_pane_terminal spawn 80 24 of Some pt \<Rightarrow> [(0, pt)] | None \<Rightarrow> []),
      d_attached = [], d_clients = [], d_next_id = 1, d_shutdown = False\<rparr>"

text \<open>The loop, given the connections that arrive; it ends when a client has killed the session.\<close>

fun daemon_loop :: "environment \<Rightarrow> stream option list \<Rightarrow> daemon \<Rightarrow> daemon option" where
  "daemon_loop env [] d = Some d"
| "daemon_loop env (c # cs) d =
     (if d_shutdown d then Some d else Option.bind (daemon_iteration env c d) (daemon_loop env cs))"

end
