(* ===== verification/App_Properties.thy ===== *)
theory App_Properties
  imports App_Daemon
begin

text \<open>
  The properties of the running daemon: the write loop to a PTY, the output streamed to the attached
  clients, and the answer to a message.
\<close>

section \<open>The write loop\<close>

text \<open>A kernel that is full before every write and then takes one byte.\<close>

definition slow_kernel :: "nat \<Rightarrow> write_outcome" where
  "slow_kernel i = (if even i then Blocks else Takes 1)"

lemma slow_kernel_fair: "fair slow_kernel"
  unfolding fair_def
proof
  fix i :: nat
  have "i \<le> 2 * i + 1 \<and> slow_kernel (2 * i + 1) \<noteq> Blocks"
    by (simp add: slow_kernel_def)
  then show "\<exists>j \<ge> i. slow_kernel j \<noteq> Blocks"
    by blast
qed

text \<open>
  C18: \<open>pty_write_all\<close> ends whenever the PTY does not stay full for ever: it then has written a prefix of
  the data, all of it exactly when it reports success. If the program in the pane never reads its input,
  the loop never ends, and with it the daemon, which has one thread.
\<close>
theorem pty_write_all_returns:
  assumes "fair sched" and "\<And>i. stuck i = Blocks" and "data \<noteq> []"
  shows "returns (pty_write_all sched data) (\<lambda>r. \<exists>k \<le> length data.
      wr_written r = take k data \<and> (wr_ok r \<longleftrightarrow> k = length data)) \<and>
    pty_write_all stuck data = None"
  using write_loop_returns [OF assms(1), of 10 0 0 "[]" data] write_loop_stuck [of 0 stuck data 10 0 "[]"] assms(2,3)
  by (simp add: pty_write_all_def)

theorem pty_write_all_returns_witness:
  "returns (pty_write_all slow_kernel [1, 2, 3]) (\<lambda>r. \<exists>k \<le> 3.
     wr_written r = take k [1, 2, 3] \<and> (wr_ok r \<longleftrightarrow> k = 3)) \<and>
   pty_write_all (\<lambda>i. Blocks) [1, 2, 3] = None"
  using pty_write_all_returns [of slow_kernel "\<lambda>i. Blocks" "[1, 2, 3]"] slow_kernel_fair by (simp add: numeral_3_eq_3)

section \<open>What the attached clients see\<close>

text \<open>The pieces a poll reads from one PTY.\<close>

fun pieces :: "pty_read list \<Rightarrow> u8 list list" where
  "pieces [] = []"
| "pieces (ReadErr # rs) = []"
| "pieces (ReadOk bs # rs) = (if bs = [] then [] else bs # pieces rs)"

lemma concat_pieces [simp]: "concat (pieces rs) = pending_output rs"
  by (induction rs rule: pieces.induct) simp_all

lemma poll_reads_feed:
  "poll_reads i rs ps s out =
     map_option (\<lambda>(ps', s'). (reads_left rs, ps', s', out @ map (Pair i) (pieces rs))) (feed ps s (pending_output rs))"
proof (induction i rs ps s out rule: poll_reads.induct)
  case (3 i bs rs ps s out)
  then show ?case
    by (cases "feed ps s bs") (auto simp: feed_append)
qed simp_all

text \<open>What a client does with the messages it receives for the terminal it shows pane \<open>i\<close> with.\<close>

definition show_output :: "pane_id \<Rightarrow> parser \<times> screen \<Rightarrow> server_message \<Rightarrow> (parser \<times> screen) option" where
  "show_output i st m =
     (case m of PtyOutput j data \<Rightarrow> if j = i then feed (fst st) (snd st) data else Some st | _ \<Rightarrow> Some st)"

abbreviation output_messages :: "(pane_id \<times> u8 list) list \<Rightarrow> server_message list" where
  "output_messages \<equiv> map (\<lambda>(i, data). PtyOutput i data)"

lemma show_output_own:
  "foldM (show_output i) (output_messages (map (Pair i) ps)) st = feed (fst st) (snd st) (concat ps)"
  by (induction ps arbitrary: st) (auto simp: show_output_def feed_append split_beta intro!: bind_option_cong)

lemma show_output_other:
  "i \<notin> fst ` set outs \<Longrightarrow> foldM (show_output i) (output_messages outs) st = Some st"
  by (induction outs) (auto simp: show_output_def)

lemma polled_keys:
  "poll_terminals pts = Some (pts', outs) \<Longrightarrow> map fst pts' = map fst pts \<and> fst ` set outs \<subseteq> fst ` set pts"
proof (induction pts arbitrary: pts' outs)
  case (Cons x pts)
  obtain i pt where x: "x = (i, pt)"
    by (cases x)
  then show ?case
    using Cons.prems Cons.IH by (auto simp: poll_reads_feed bind_eq_Some_conv) (metis fst_conv imageI subsetD)
qed simp

lemma polled_messages:
  "poll_terminals pts = Some (pts', outs) \<Longrightarrow> (i, bs) \<in> set outs \<Longrightarrow>
   \<exists>pt. (i, pt) \<in> set pts \<and> bs \<in> set (pieces (pty_reads (pt_pty pt)))"
proof (induction pts arbitrary: pts' outs)
  case (Cons x pts)
  obtain j pt where x: "x = (j, pt)"
    by (cases x)
  then show ?case
    using Cons.prems Cons.IH by (auto simp: poll_reads_feed bind_eq_Some_conv) fastforce+
qed simp

text \<open>The messages of one poll, shown from a terminal's old state, give its new one.\<close>

lemma polled_terminal:
  "poll_terminals pts = Some (pts', outs) \<Longrightarrow> distinct (map fst pts) \<Longrightarrow> map_of pts i = Some pt \<Longrightarrow>
   \<exists>pt'. map_of pts' i = Some pt' \<and>
     foldM (show_output i) (output_messages outs) (pt_parser pt, pt_screen pt) = Some (pt_parser pt', pt_screen pt')"
proof (induction pts arbitrary: pts' outs)
  case (Cons x pts)
  obtain j q where x: "x = (j, q)"
    by (cases x)
  obtain ps s rest out' where r: "feed (pt_parser q) (pt_screen q) (pending_output (pty_reads (pt_pty q))) = Some (ps, s)"
      "poll_terminals pts = Some (rest, out')" "outs = map (Pair j) (pieces (pty_reads (pt_pty q))) @ out'"
      "pts' = (j, q\<lparr>pt_pty := (pt_pty q)\<lparr>pty_reads := reads_left (pty_reads (pt_pty q))\<rparr>, pt_parser := ps, pt_screen := s\<rparr>) # rest"
    using Cons.prems(1) x by (auto simp: poll_reads_feed bind_eq_Some_conv)
  have j: "j \<notin> fst ` set pts"
    using Cons.prems(2) x by simp
  show ?case
  proof (cases "j = i")
    case True
    have "foldM (show_output i) (output_messages out') (ps, s) = Some (ps, s)"
      using polled_keys [OF r(2)] j True by (intro show_output_other) auto
    then show ?thesis
      using Cons.prems(3) x True r by (simp add: foldM_append show_output_own del: map_map)
  next
    case False
    have "foldM (show_output i) (output_messages (map (Pair j) ps)) st = Some st" for ps st
      using False by (intro show_output_other) auto
    then show ?thesis
      using Cons.IH [OF r(2)] Cons.prems x False r by (simp add: foldM_append del: map_map)
  qed
qed simp

lemma stream_frames_open: "sk_room w = None \<Longrightarrow> stream_frames fs w = (True, w\<lparr>sk_bytes := sk_bytes w @ concat fs\<rparr>)"
  by (induction fs arbitrary: w) (auto simp: write_all_def)

lemma stream_open:
  "list_all (\<lambda>c. sk_room (st_out c) = None) cs \<Longrightarrow>
   stream_to_attached fs cs = map (\<lambda>c. c\<lparr>st_out := (st_out c)\<lparr>sk_bytes := sk_bytes (st_out c) @ concat fs\<rparr>\<rparr>) cs"
  by (induction cs) (auto simp: stream_to_attached_def stream_frames_open map_filter_simps)

lemma encoded_frames:
  "list_all (\<lambda>m. to_vec m \<noteq> None) (output_messages outs) \<Longrightarrow>
   encoded_output to_vec outs = map (\<lambda>m. frame (the (to_vec m))) (output_messages outs)"
  by (induction outs) (auto simp: encoded_output_def map_filter_simps encode_def frame_def)


text \<open>
  C12: a client that is attached sees what the daemon sees: the bytes a poll streams to it are frames, the
  messages read from them are the pieces of output in order, and applied to copies of the daemon's terminals
  they turn every pane's old parser and screen into its new ones. (JSON must read back what it wrote, the
  pieces must be serialised within the limit of a frame, and the client's stream must take them.)
\<close>
theorem attached_client_mirrors:
  assumes "distinct (map fst (d_terminals d))" and "poll_and_stream env d = Some d'"
    and "\<And>m p. en_to_vec env m = Some p \<Longrightarrow> from_slice p = Some m"
    and "\<And>i pt bs. (i, pt) \<in> set (d_terminals d) \<Longrightarrow> bs \<in> set (pieces (pty_reads (pt_pty pt))) \<Longrightarrow>
      case en_to_vec env (PtyOutput i bs) of None \<Rightarrow> False | Some p \<Rightarrow> length p \<le> MAX_MESSAGE_SIZE"
    and "list_all (\<lambda>c. sk_room (st_out c) = None) (d_attached d)"
  shows "\<exists>ms B. d_attached d' = map (\<lambda>c. c\<lparr>st_out := (st_out c)\<lparr>sk_bytes := sk_bytes (st_out c) @ B\<rparr>\<rparr>) (d_attached d) \<and>
    read_messages from_slice (length ms) (B @ rest) = (Inr ms, rest) \<and>
    (\<forall>i pt. map_of (d_terminals d) i = Some pt \<longrightarrow> (\<exists>pt'. map_of (d_terminals d') i = Some pt' \<and>
      foldM (show_output i) ms (pt_parser pt, pt_screen pt) = Some (pt_parser pt', pt_screen pt')))"
proof -
  obtain pts' outs where poll: "poll_terminals (d_terminals d) = Some (pts', outs)"
      and d': "d' = d\<lparr>d_terminals := pts', d_attached := stream_to_attached (encoded_output (en_to_vec env) outs) (d_attached d)\<rparr>"
    using assms(2) by (auto simp: poll_and_stream_def bind_eq_Some_conv)
  let ?ms = "output_messages outs"
  let ?B = "concat (map (\<lambda>m. frame (the (en_to_vec env m))) ?ms)"
  have sized: "list_all (\<lambda>m. case en_to_vec env m of None \<Rightarrow> False | Some p \<Rightarrow> length p \<le> MAX_MESSAGE_SIZE) ?ms"
    unfolding list_all_iff using polled_messages [OF poll] assms(4) by fastforce
  then have "list_all (\<lambda>m. en_to_vec env m \<noteq> None) ?ms"
    by (auto simp: list_all_iff split: option.splits)
  then have "d_attached d' = map (\<lambda>c. c\<lparr>st_out := (st_out c)\<lparr>sk_bytes := sk_bytes (st_out c) @ ?B\<rparr>\<rparr>) (d_attached d)"
    by (simp add: d' stream_open [OF assms(5)] encoded_frames del: map_map)
  moreover have "read_messages from_slice (length ?ms) (?B @ rest) = (Inr ?ms, rest)"
    using assms(3) sized by (rule read_messages_frames)
  moreover have "\<exists>pt'. map_of (d_terminals d') i = Some pt' \<and>
      foldM (show_output i) ?ms (pt_parser pt, pt_screen pt) = Some (pt_parser pt', pt_screen pt')"
    if "map_of (d_terminals d) i = Some pt" for i pt
    using polled_terminal [OF poll assms(1) that] by (simp add: d')
  ultimately show ?thesis
    by blast
qed

text \<open>A stand-in for the JSON of output messages: the pane number and the data.\<close>

definition raw_to_vec :: "server_message \<Rightarrow> u8 list option" where
  "raw_to_vec m = (case m of PtyOutput i data \<Rightarrow> Some (to_be_bytes i @ data) | _ \<Rightarrow> None)"

definition raw_from_slice :: "u8 list \<Rightarrow> server_message option" where
  "raw_from_slice p = Some (PtyOutput (from_be_bytes (take 4 p)) (drop 4 p))"

definition sample_pty :: "pty_read list \<Rightarrow> pty" where
  "sample_pty rs = \<lparr>pty_reads = rs, pty_written = [], pty_room = 0, pty_error_text = []\<rparr>"

definition sample_environment :: environment where
  "sample_environment = \<lparr>en_to_vec = raw_to_vec, en_from_slice = (\<lambda>p. None), en_sched = (\<lambda>i. slow_kernel),
     en_spawn = (\<lambda>c r. Some (sample_pty [ReadOk (ascii ''ok'')])), en_error = []\<rparr>"

definition sample_daemon :: daemon where
  "sample_daemon = (daemon_start (en_spawn sample_environment) [])
     \<lparr>d_attached := [\<lparr>st_in = [], st_open = True, st_out = open_sink\<rparr>]\<rparr>"

lemma sample_terminals:
  "d_terminals sample_daemon = [(0, \<lparr>pt_pty = sample_pty [ReadOk (ascii ''ok'')], pt_parser = parser_new, pt_screen = screen_new 80 24\<rparr>)]"
  by (simp add: sample_daemon_def daemon_start_def sample_environment_def spawn_pane_terminal_def)

theorem attached_client_mirrors_witness:
  "\<exists>d' ms B. poll_and_stream sample_environment sample_daemon = Some d' \<and>
     map (\<lambda>c. sk_bytes (st_out c)) (d_attached d') = [B] \<and>
     read_messages raw_from_slice (length ms) (B @ []) = (Inr ms, [])"
proof -
  have "terminal_ok (snd (hd (d_terminals sample_daemon)))"
    by (rule spawned_ok [where spawn = "en_spawn sample_environment" and c = 80 and r = 24])
       (simp_all add: sample_terminals sample_environment_def spawn_pane_terminal_def)
  then obtain R where R: "screen_rows R (screen_new 80 24)"
    by (auto simp: sample_terminals terminal_ok_def)
  have "\<not> list_ex splits_char (actions_of parser_new (ascii ''ok''))"
    by code_simp
  from feed_ok [OF _ R this] obtain ps s where fed: "feed parser_new (screen_new 80 24) (ascii ''ok'') = Some (ps, s)"
    by (auto simp: returns_iff)
  then have "poll_terminals (d_terminals sample_daemon) \<noteq> None"
    by (simp add: sample_terminals sample_pty_def poll_reads_feed ascii_def)
  then obtain d' where d': "poll_and_stream sample_environment sample_daemon = Some d'"
    by (auto simp: poll_and_stream_def)
  have 1: "raw_from_slice p = Some m" if "en_to_vec sample_environment m = Some p" for m p
    using that by (auto simp: sample_environment_def raw_to_vec_def raw_from_slice_def split: server_message.splits)
  have 2: "case en_to_vec sample_environment (PtyOutput i bs) of None \<Rightarrow> False | Some p \<Rightarrow> length p \<le> MAX_MESSAGE_SIZE"
    if "(i, pt) \<in> set (d_terminals sample_daemon)" "bs \<in> set (pieces (pty_reads (pt_pty pt)))" for i pt bs
    using that by (auto simp: sample_terminals sample_pty_def sample_environment_def raw_to_vec_def ascii_def MAX_MESSAGE_SIZE_def)
  have 3: "distinct (map fst (d_terminals sample_daemon))" "list_all (\<lambda>c. sk_room (st_out c) = None) (d_attached sample_daemon)"
    by (simp_all add: sample_terminals) (simp add: sample_daemon_def open_sink_def)
  have "\<exists>ms B. d_attached d' = map (\<lambda>c. c\<lparr>st_out := (st_out c)\<lparr>sk_bytes := sk_bytes (st_out c) @ B\<rparr>\<rparr>) (d_attached sample_daemon) \<and>
      read_messages raw_from_slice (length ms) (B @ []) = (Inr ms, []) \<and>
      (\<forall>i pt. map_of (d_terminals sample_daemon) i = Some pt \<longrightarrow> (\<exists>pt'. map_of (d_terminals d') i = Some pt' \<and>
        foldM (show_output i) ms (pt_parser pt, pt_screen pt) = Some (pt_parser pt', pt_screen pt')))"
    by (rule attached_client_mirrors [OF 3(1) d']) (use 1 2 3(2) in blast)+
  then show ?thesis
    using d' by (auto simp: sample_daemon_def open_sink_def)
qed

section \<open>Answers\<close>

definition daemon_ok :: "daemon \<Rightarrow> bool" where
  "daemon_ok d \<longleftrightarrow> session_ok (d_session d) \<and> plain_tabs (d_session d) \<and> terminals_ok (d_terminals d)"

lemma daemon_ok_fields [simp]:
  "daemon_ok (d\<lparr>d_shutdown := b\<rparr>) = daemon_ok d"
  "daemon_ok (d\<lparr>d_terminals := pts\<rparr>) \<longleftrightarrow> session_ok (d_session d) \<and> plain_tabs (d_session d) \<and> terminals_ok pts"
  "daemon_ok (d\<lparr>d_session := s, d_terminals := pts\<rparr>) \<longleftrightarrow> session_ok s \<and> plain_tabs s \<and> terminals_ok pts"
  by (simp_all add: daemon_ok_def)

text \<open>
  A message is never answered if it captures a pane whose unread output slices an OSC 4 colour inside a
  character, or makes the daemon write to a PTY that never takes the bytes.
\<close>

fun unanswered :: "environment \<Rightarrow> client_message \<Rightarrow> daemon \<Rightarrow> bool" where
  "unanswered env (CapturePane i) d \<longleftrightarrow>
     (case map_of (d_terminals d) i of Some pt \<Rightarrow> output_crashes pt | None \<Rightarrow> False)"
| "unanswered env (SendKeys i ks) d \<longleftrightarrow> map_of (d_terminals d) i \<noteq> None \<and> pty_write_all (en_sched env i) ks = None"
| "unanswered env (KeyInput data) d \<longleftrightarrow>
     (case Option.bind (active_tab_of (d_session d)) t_active_pane of
        Some i \<Rightarrow> map_of (d_terminals d) i \<noteq> None \<and> pty_write_all (en_sched env i) data = None
      | None \<Rightarrow> False)"
| "unanswered env _ d \<longleftrightarrow> False"

lemma unanswered_unsafe: "\<not> unanswered env m d \<Longrightarrow> daemon_safe (en_sched env) m (d_terminals d)"
  by (cases m) (auto split: option.splits)

lemma key_input_ok:
  assumes "daemon_ok d" and "\<not> unanswered env (KeyInput data) d"
  shows "returns (key_input env data d) daemon_ok"
proof -
  have s: "session_ok (d_session d)" "plain_tabs (d_session d)" and pts: "terminals_ok (d_terminals d)"
    using assms(1) by (simp_all add: daemon_ok_def)
  show ?thesis
  proof (rule session_active [OF s])
    fix t
    assume t: "active_tab_of (d_session d) = Some t"
    show ?thesis
    proof (cases "t_active_pane t")
      case None
      then show ?thesis
        using assms(1) t by (simp add: key_input_def)
    next
      case (Some i)
      then have "daemon_safe (en_sched env) (SendKeys i data) (d_terminals d)"
        using assms(2) t Some by auto
      then have "returns (daemon_send (en_sched env) i data (d_terminals d)) (\<lambda>r. terminals_ok (snd r))"
        using daemon_panes.send_law [OF pts, of "en_sched env" i data] by (simp add: daemon_ops_def)
      then show ?thesis
        using assms(1) t Some s by (auto simp: key_input_def returns_iff)
    qed
  qed
qed

definition fate_of :: "client_message \<Rightarrow> fate" where
  "fate_of m = (case m of Attach c r \<Rightarrow> Attached | _ \<Rightarrow> Leave)"

lemma dispatch_fate: "dispatch_message env m d = Some (r, fate, d') \<Longrightarrow> fate = fate_of m"
  by (cases m) (auto simp: dispatch_message_def fate_of_def simp del: handle_ipc.simps)

lemma dispatch_message_ok:
  assumes "daemon_ok d" and "\<not> unanswered env m d"
    and "\<And>t. active_tab_of (d_session d) = Some t \<Longrightarrow> session_message_ok m t"
  shows "returns (dispatch_message env m d) (\<lambda>(reply, fate, d'). daemon_ok d')"
proof -
  have s: "session_ok (d_session d)" "plain_tabs (d_session d)" and pts: "terminals_ok (d_terminals d)"
    using assms(1) by (simp_all add: daemon_ok_def)
  have resize: "session_ok (session_resize c r (d_session d))" "plain_tabs (session_resize c r (d_session d))" for c r
    using s session_resize_ok [OF s(1)]
    by (auto simp: plain_tabs_def session_resize_def tab_resize_def sync_pane_sizes_eq list_all_iff)
  have "returns (handle_ipc (daemon_ops (en_sched env) (en_spawn env) (en_error env)) m (d_session d) (d_terminals d)) (ipc_kept terminals_ok)"
    using unanswered_unsafe [OF assms(2)] assms(3) by (rule daemon_panes.handle_ipc_kept [OF s pts])
  then have handled: "returns (handle_ipc (daemon_ops (en_sched env) (en_spawn env) (en_error env)) m (d_session d) (d_terminals d))
      (\<lambda>r. daemon_ok (d\<lparr>d_session := ir_session r, d_terminals := ir_panes r\<rparr>))"
    by (rule returns_mono) (simp add: ipc_kept_def)
  show ?thesis
  proof (cases m)
    case (KeyInput data)
    then show ?thesis
      using key_input_ok [OF assms(1)] assms(2) by (simp add: dispatch_message_def)
  qed (use handled assms(1) pts resize in \<open>simp_all add: dispatch_message_def daemon_ok_def del: handle_ipc.simps\<close>)
qed

lemma split_arm_returns:
  assumes "session_ok s" "plain_tabs s"
  shows "ipc_split_arm ops dir s p \<noteq> None"
proof (rule session_active [OF assms])
  fix t
  assume t: "active_tab_of s = Some t"
  obtain r u where u: "split_pane dir t = (r, u)"
    by fastforce
  have k: "ss_active_tab s < length (ss_tabs s)"
    using assms(1) by (simp add: session_ok_def)
  then have "active_tab_of (s\<lparr>ss_tabs := (ss_tabs s)[ss_active_tab s := u]\<rparr>) = Some u"
    by (simp add: active_tab_of_def)
  then show ?thesis
    using t u by (simp add: ipc_split_arm_def on_session_tab_def case_prod_beta Let_def split: option.split)
qed

lemma dispatch_unanswered:
  assumes "daemon_ok d"
  shows "dispatch_message env m d = None \<longleftrightarrow> unanswered env m d"
proof
  assume none: "dispatch_message env m d = None"
  show "unanswered env m d"
  proof (rule ccontr)
    assume "\<not> unanswered env m d"
    then obtain t where "\<not> session_message_ok m t"
      using dispatch_message_ok [OF assms, of env m] none by fastforce
    then show False
      using none assms by (cases m) (simp_all add: dispatch_message_def daemon_ok_def split_arm_returns)
  qed
next
  have pts: "terminals_ok (d_terminals d)"
    using assms by (simp add: daemon_ok_def)
  assume "unanswered env m d"
  then show "dispatch_message env m d = None"
    using drain_ok [OF terminals_ok_lookup [OF pts]]
    by (cases m) (auto simp: dispatch_message_def daemon_ops_def daemon_capture_def daemon_send_def send_to_pty_def key_input_def
        split: option.splits bind_splits)
qed

text \<open>
  C19: a client that sends a message gets one answer, unless the message can have none. Serving a client
  fails to return exactly if its message captures a pane whose unread output slices an OSC 4 colour inside a
  character (a panic), or writes to a pane whose PTY never takes the bytes (a loop). Whenever it returns, one
  frame has been written to the client, and it moves to the attached clients exactly if the message was
  \<open>Attach\<close>; any other client is disconnected. The daemon's invariant (a well-formed session without swap
  layouts, every terminal's parser and screen in theirs) holds again, for a message that makes a pane if a
  pane number is free and the pane that is split has a width and a height. A client whose message has not
  arrived yet keeps its place and changes nothing. Every reply can be encoded and the stream takes every byte.
\<close>
theorem one_answer_per_message:
  assumes "daemon_ok d" and "\<And>m. en_to_vec env m \<noteq> None" and "sk_room (st_out st) = None"
  shows "(serve_client env st d = None \<longleftrightarrow>
      (\<exists>m. fst (daemon_read (en_from_slice env) st) = Received m \<and> unanswered env m d)) \<and>
    (case serve_client env st d of None \<Rightarrow> True | Some (fate, st', d') \<Rightarrow>
      (case fst (daemon_read (en_from_slice env) st) of
         Received m \<Rightarrow> (\<exists>r p. en_to_vec env r = Some p \<and> sk_bytes (st_out st') = sk_bytes (st_out st) @ frame p) \<and>
           fate = (case m of Attach c r \<Rightarrow> Attached | _ \<Rightarrow> Leave) \<and>
           (\<forall>t. active_tab_of (d_session d) = Some t \<and> session_message_ok m t \<longrightarrow> daemon_ok d')
       | TimedOut \<Rightarrow> fate = Stay \<and> st_out st' = st_out st \<and> d' = d
       | Broken \<Rightarrow> fate = Leave \<and> st_out st' = st_out st \<and> d' = d))"
proof -
  obtain x st1 where read: "daemon_read (en_from_slice env) st = (x, st1)"
    by (cases "daemon_read (en_from_slice env) st")
  then have out: "st_out st1 = st_out st"
    by (auto simp: daemon_read_def case_prod_beta Let_def)
  show ?thesis
  proof (cases x)
    case (Received m)
    note unread = dispatch_unanswered [OF assms(1), of env m]
    show ?thesis
    proof (cases "dispatch_message env m d")
      case None
      then show ?thesis
        using unread read Received by (simp add: serve_client_def)
    next
      case (Some y)
      then obtain r fate d' where r: "dispatch_message env m d = Some (r, fate, d')"
        by (cases y) auto
      have "daemon_ok d'" if "active_tab_of (d_session d) = Some t" "session_message_ok m t" for t
        using dispatch_message_ok [OF assms(1), of env m] that unread r by (auto simp: returns_iff)
      moreover obtain p where p: "en_to_vec env r = Some p"
        using assms(2) [of r] by blast
      moreover have "st_out (respond (en_to_vec env) r st1) = (st_out st)\<lparr>sk_bytes := sk_bytes (st_out st) @ frame p\<rparr>"
        using write_frame [where to_vec = "en_to_vec env", OF p assms(3)] out by (simp add: respond_def)
      ultimately show ?thesis
        using r unread dispatch_fate [OF r] read Received by (auto simp: serve_client_def fate_of_def)
    qed
  qed (use assms(1) read out in \<open>simp_all add: serve_client_def\<close>)
qed

text \<open>The daemon starts with its invariant.\<close>

lemma daemon_start_ok: "daemon_ok (daemon_start spawn name)"
proof -
  have "session_ok (session_new name 80 24)" "plain_tabs (session_new name 80 24)"
    by (rule session_new_ok) (simp add: plain_tabs_def session_new_def tab_new_def)
  moreover have "terminals_ok (d_terminals (daemon_start spawn name))"
    using spawned_ok [of spawn 80 24] by (auto simp: daemon_start_def terminals_ok_def split: option.split)
  ultimately show ?thesis
    by (simp add: daemon_ok_def daemon_start_def)
qed

definition ping_environment :: environment where
  "ping_environment = \<lparr>en_to_vec = (\<lambda>m. Some [0x22]), en_from_slice = (\<lambda>p. Some Ping), en_sched = (\<lambda>i. slow_kernel),
     en_spawn = (\<lambda>c r. None), en_error = []\<rparr>"

definition ping_stream :: stream where
  "ping_stream = \<lparr>st_in = frame [0x22], st_open = True, st_out = open_sink\<rparr>"

theorem one_answer_per_message_witness:
  "returns (serve_client ping_environment ping_stream (daemon_start (\<lambda>c r. None) []))
     (\<lambda>(fate, st', d'). daemon_ok d' \<and> fate = Leave \<and> sk_bytes (st_out st') = frame [0x22])"
proof -
  let ?d = "daemon_start (\<lambda>c r. None) []"
  have read: "fst (daemon_read (en_from_slice ping_environment) ping_stream) = Received Ping"
    using read_frame [of "[0x22]" "\<lambda>p. Some Ping" "[]"]
    by (simp add: daemon_read_def ping_environment_def ping_stream_def MAX_MESSAGE_SIZE_def decode_def)
  have "\<exists>u. active_tab_of (d_session ?d) = Some u \<and> session_message_ok Ping u"
    by (simp add: daemon_start_def active_tab_of_def session_new_def)
  moreover have "en_to_vec ping_environment m \<noteq> None" for m
    by (simp add: ping_environment_def)
  moreover have "sk_room (st_out ping_stream) = None"
    by (simp add: ping_stream_def open_sink_def)
  ultimately show ?thesis
    using one_answer_per_message [OF daemon_start_ok, of ping_environment ping_stream "\<lambda>c r. None" "[]"] read
    by (auto simp: returns_iff ping_environment_def ping_stream_def open_sink_def)
qed

end
