(* ===== verification/Term_Input.thy ===== *)
theory Term_Input
  imports Emux_Utf8
begin

text \<open>
  \<open>crates/emux-term/src/input.rs\<close>: key and mouse events as the bytes a program in a pane expects. Sums
  of bytes and of 16-bit coordinates wrap, as they do in the release build.
\<close>

section \<open>Keys\<close>

datatype key =
    KChar rchar
  | KEnter
  | KTab
  | KBackspace
  | KEscape
  | KUp
  | KDown
  | KLeft
  | KRight
  | KHome
  | KEnd
  | KPageUp
  | KPageDown
  | KInsert
  | KDelete
  | KF u8

record modifiers =
  mo_shift :: bool
  mo_alt :: bool
  mo_ctrl :: bool

definition mods_none :: modifiers where
  "mods_none = \<lparr>mo_shift = False, mo_alt = False, mo_ctrl = False\<rparr>"

definition mods_ctrl :: modifiers where
  "mods_ctrl = mods_none\<lparr>mo_ctrl := True\<rparr>"

definition mods_alt :: modifiers where
  "mods_alt = mods_none\<lparr>mo_alt := True\<rparr>"

definition mods_shift :: modifiers where
  "mods_shift = mods_none\<lparr>mo_shift := True\<rparr>"

definition mods_param :: "modifiers \<Rightarrow> nat" where
  "mods_param m = 1 + (if mo_shift m then 1 else 0) + (if mo_alt m then 2 else 0) + (if mo_ctrl m then 4 else 0)"

definition mods_any :: "modifiers \<Rightarrow> bool" where
  "mods_any m \<longleftrightarrow> mo_shift m \<or> mo_alt m \<or> mo_ctrl m"

definition is_lower :: "rchar \<Rightarrow> bool" where
  "is_lower c \<longleftrightarrow> 97 \<le> c \<and> c \<le> 122"

definition is_upper :: "rchar \<Rightarrow> bool" where
  "is_upper c \<longleftrightarrow> 65 \<le> c \<and> c \<le> 90"

text \<open>The C0 code of a letter, and the \<open>CSI u\<close> form of a character.\<close>

definition c0_code :: "rchar \<Rightarrow> u8" where
  "c0_code c = byte c - 97 + 1"

definition csi_u :: "rchar \<Rightarrow> modifiers \<Rightarrow> u8 list" where
  "csi_u c m = [0x1b, 0x5b] @ show_nat c @ [0x3b] @ show_nat (mods_param m) @ ascii ''u''"

definition encode_space :: "modifiers \<Rightarrow> u8 list" where
  "encode_space m =
     (if \<not> mods_any m then [0x20]
      else if mo_ctrl m \<and> \<not> mo_alt m \<and> \<not> mo_shift m then [0]
      else if mo_alt m \<and> \<not> mo_ctrl m \<and> \<not> mo_shift m then [0x1b, 0x20]
      else if mo_ctrl m \<and> mo_alt m \<and> \<not> mo_shift m then [0x1b, 0]
      else csi_u 32 m)"

definition encode_char :: "rchar \<Rightarrow> modifiers \<Rightarrow> bool \<Rightarrow> u8 list" where
  "encode_char c m disambiguate =
     (if c = 0x20 then encode_space m
      else if mo_ctrl m \<and> \<not> mo_alt m \<and> is_lower c then
        (if disambiguate \<and> c = 0x69 then csi_u c m else [c0_code c])
      else if mo_ctrl m \<and> \<not> mo_alt m \<and> is_upper c then csi_u c m
      else if mo_ctrl m \<and> mo_alt m \<and> is_lower c then [0x1b, c0_code c]
      else if mo_ctrl m \<and> mo_alt m \<and> is_upper c then csi_u c m
      else if mo_alt m \<and> \<not> mo_ctrl m \<and> \<not> mo_shift m then 0x1b # utf8_encode c
      else utf8_encode c)"

definition encode_enter :: "modifiers \<Rightarrow> bool \<Rightarrow> u8 list" where
  "encode_enter m newline_mode = (if newline_mode then [0x0d, 0x0a] else [0x0d])"

definition encode_tab :: "modifiers \<Rightarrow> u8 list" where
  "encode_tab m =
     (if mo_shift m \<and> \<not> mo_ctrl m \<and> \<not> mo_alt m then [0x1b, 0x5b] @ ascii ''Z''
      else if mo_alt m \<and> \<not> mo_ctrl m \<and> \<not> mo_shift m then [0x1b, 0x09]
      else [0x09])"

definition encode_backspace :: "modifiers \<Rightarrow> u8 list" where
  "encode_backspace m =
     (if mo_ctrl m \<and> \<not> mo_alt m then [0x08]
      else if mo_alt m \<and> \<not> mo_ctrl m then [0x1b, 0x7f]
      else [0x7f])"

definition encode_escape :: "modifiers \<Rightarrow> u8 list" where
  "encode_escape m = [0x1b]"

definition encode_cursor :: "u8 \<Rightarrow> modifiers \<Rightarrow> bool \<Rightarrow> u8 list" where
  "encode_cursor suffix m app_cursor =
     (if mods_any m then [0x1b, 0x5b] @ ascii ''1;'' @ show_nat (mods_param m) @ [suffix]
      else if app_cursor then [0x1b, 0x4f, suffix]
      else [0x1b, 0x5b, suffix])"

definition encode_home_end :: "u8 \<Rightarrow> modifiers \<Rightarrow> bool \<Rightarrow> u8 list" where
  "encode_home_end suffix m app_cursor = encode_cursor suffix m app_cursor"

definition encode_tilde_key :: "nat \<Rightarrow> modifiers \<Rightarrow> u8 list" where
  "encode_tilde_key code m =
     (if mods_any m then [0x1b, 0x5b] @ show_nat code @ [0x3b] @ show_nat (mods_param m) @ [0x7e]
      else [0x1b, 0x5b] @ show_nat code @ [0x7e])"

definition encode_function_key :: "u8 \<Rightarrow> modifiers \<Rightarrow> u8 list" where
  "encode_function_key n m =
     (if 1 \<le> n \<and> n \<le> 4 then
        (let suffix = (if n = 1 then 0x50 else if n = 2 then 0x51 else if n = 3 then 0x52 else 0x53) in
         if mods_any m then [0x1b, 0x5b] @ ascii ''1;'' @ show_nat (mods_param m) @ [suffix]
         else [0x1b, 0x4f, suffix])
      else if 5 \<le> n \<and> n \<le> 12 then
        encode_tilde_key (if n = 5 then 15 else if n = 6 then 17 else if n = 7 then 18 else if n = 8 then 19
          else if n = 9 then 20 else if n = 10 then 21 else if n = 11 then 23 else 24) m
      else [])"

fun encode_key :: "key \<Rightarrow> modifiers \<Rightarrow> bool \<Rightarrow> bool \<Rightarrow> bool \<Rightarrow> bool \<Rightarrow> u8 list" where
  "encode_key (KChar c) m ac ak nl dis = encode_char c m dis"
| "encode_key KEnter m ac ak nl dis = encode_enter m nl"
| "encode_key KTab m ac ak nl dis = encode_tab m"
| "encode_key KBackspace m ac ak nl dis = encode_backspace m"
| "encode_key KEscape m ac ak nl dis = encode_escape m"
| "encode_key KUp m ac ak nl dis = encode_cursor 0x41 m ac"
| "encode_key KDown m ac ak nl dis = encode_cursor 0x42 m ac"
| "encode_key KLeft m ac ak nl dis = encode_cursor 0x44 m ac"
| "encode_key KRight m ac ak nl dis = encode_cursor 0x43 m ac"
| "encode_key KHome m ac ak nl dis = encode_home_end 0x48 m ac"
| "encode_key KEnd m ac ak nl dis = encode_home_end 0x46 m ac"
| "encode_key KPageUp m ac ak nl dis = encode_tilde_key 5 m"
| "encode_key KPageDown m ac ak nl dis = encode_tilde_key 6 m"
| "encode_key KInsert m ac ak nl dis = encode_tilde_key 2 m"
| "encode_key KDelete m ac ak nl dis = encode_tilde_key 3 m"
| "encode_key (KF n) m ac ak nl dis = encode_function_key n m"

section \<open>The mouse\<close>

datatype mouse_event =
    MPress u8 u16 u16
  | MRelease u16 u16
  | MDrag u8 u16 u16
  | MScrollUp u16 u16
  | MScrollDown u16 u16

datatype mouse_encoding = EncodeNormal | EncodeSgr

definition encode_mouse_normal :: "mouse_event \<Rightarrow> u8 list" where
  "encode_mouse_normal ev =
     (let (button, col, row) =
        (case ev of
           MPress b c r \<Rightarrow> (b + 32, c, r)
         | MRelease c r \<Rightarrow> (3 + 32, c, r)
         | MDrag b c r \<Rightarrow> (b + 32 + 32, c, r)
         | MScrollUp c r \<Rightarrow> (64 + 32, c, r)
         | MScrollDown c r \<Rightarrow> (65 + 32, c, r))
      in [0x1b, 0x5b, 0x4d, button, ucast col + 33, ucast row + 33])"

definition sgr_report :: "u8 \<Rightarrow> u16 \<Rightarrow> u16 \<Rightarrow> u8 \<Rightarrow> u8 list" where
  "sgr_report b c r final =
     [0x1b, 0x5b, 0x3c] @ show_nat (unat b) @ [0x3b] @ show_nat (unat (c + 1)) @ [0x3b] @ show_nat (unat (r + 1)) @ [final]"

fun encode_mouse_sgr :: "mouse_event \<Rightarrow> u8 list" where
  "encode_mouse_sgr (MPress b c r) = sgr_report b c r 0x4d"
| "encode_mouse_sgr (MRelease c r) = sgr_report 0 c r 0x6d"
| "encode_mouse_sgr (MDrag b c r) = sgr_report (b + 32) c r 0x4d"
| "encode_mouse_sgr (MScrollUp c r) = sgr_report 64 c r 0x4d"
| "encode_mouse_sgr (MScrollDown c r) = sgr_report 65 c r 0x4d"

definition encode_mouse :: "mouse_event \<Rightarrow> mouse_encoding \<Rightarrow> u8 list" where
  "encode_mouse ev mode = (case mode of EncodeNormal \<Rightarrow> encode_mouse_normal ev | EncodeSgr \<Rightarrow> encode_mouse_sgr ev)"

section \<open>Keypad, paste and focus\<close>

datatype keypad_key =
    Num0 | Num1 | Num2 | Num3 | Num4 | Num5 | Num6 | Num7 | Num8 | Num9
  | KpDecimal | KpSeparator | KpStar | KpPlus | KpMinus | KpSlash | KpEnter | KpEqual

fun keypad_suffix :: "keypad_key \<Rightarrow> u8" where
  "keypad_suffix Num0 = 0x70"
| "keypad_suffix Num1 = 0x71"
| "keypad_suffix Num2 = 0x72"
| "keypad_suffix Num3 = 0x73"
| "keypad_suffix Num4 = 0x74"
| "keypad_suffix Num5 = 0x75"
| "keypad_suffix Num6 = 0x76"
| "keypad_suffix Num7 = 0x77"
| "keypad_suffix Num8 = 0x78"
| "keypad_suffix Num9 = 0x79"
| "keypad_suffix KpDecimal = 0x6e"
| "keypad_suffix KpSeparator = 0x6c"
| "keypad_suffix KpStar = 0x6a"
| "keypad_suffix KpPlus = 0x6b"
| "keypad_suffix KpMinus = 0x6d"
| "keypad_suffix KpSlash = 0x6f"
| "keypad_suffix KpEnter = 0x4d"
| "keypad_suffix KpEqual = 0x58"

fun keypad_char :: "keypad_key \<Rightarrow> u8" where
  "keypad_char Num0 = 0x30"
| "keypad_char Num1 = 0x31"
| "keypad_char Num2 = 0x32"
| "keypad_char Num3 = 0x33"
| "keypad_char Num4 = 0x34"
| "keypad_char Num5 = 0x35"
| "keypad_char Num6 = 0x36"
| "keypad_char Num7 = 0x37"
| "keypad_char Num8 = 0x38"
| "keypad_char Num9 = 0x39"
| "keypad_char KpDecimal = 0x2e"
| "keypad_char KpSeparator = 0x2c"
| "keypad_char KpStar = 0x2a"
| "keypad_char KpPlus = 0x2b"
| "keypad_char KpMinus = 0x2d"
| "keypad_char KpSlash = 0x2f"
| "keypad_char KpEnter = 0x0d"
| "keypad_char KpEqual = 0x3d"

definition encode_keypad :: "keypad_key \<Rightarrow> bool \<Rightarrow> u8 list" where
  "encode_keypad k app_mode = (if app_mode then [0x1b, 0x4f, keypad_suffix k] else [keypad_char k])"

definition encode_paste :: "rstr \<Rightarrow> bool \<Rightarrow> u8 list" where
  "encode_paste text bracketed =
     (if bracketed then [0x1b] @ ascii ''[200~'' @ text @ [0x1b] @ ascii ''[201~'' else text)"

definition encode_focus :: "bool \<Rightarrow> bool \<Rightarrow> u8 list" where
  "encode_focus focused reporting =
     (if reporting then (if focused then [0x1b, 0x5b, 0x49] else [0x1b, 0x5b, 0x4f]) else [])"

end
