(* ===== verification/Input_Properties.thy ===== *)
theory Input_Properties
  imports Term_Input VT_Properties
begin

text \<open>
  The properties of the input encoder, read by the parser of the terminal itself: what a program that
  parses the bytes with it learns of the event.
\<close>

section \<open>Control sequences with a private marker\<close>

lemma csi_marked_sequence:
  assumes "parser_wf ps" and "ps_state ps \<noteq> Utf8" and "between 0x3c 0x3f m"
    and "ns \<noteq> []" and "list_all (\<lambda>n. n < 65536) ns" and "length ns \<le> MAX_PARAMS"
    and "between 0x40 0x7e f"
  shows "\<exists>ps' q i. advance perform ps p ([0x1b, 0x5b, m] @ show_params ns @ [f])
      = map_option (Pair ps') (perform p (CsiDispatch q i False f)) \<and> ps_state ps' = Ground \<and>
    params_finished q = map of_nat ns \<and> inter_slice i = [m]"
proof -
  define es where "es = enter_seq CsiEntry (ps\<lparr>ps_state := Escape, ps_inter := inter_clear (ps_inter ps)\<rparr>)"
  define qs where "qs = es\<lparr>ps_inter := inter_push (ps_inter es) m, ps_state := CsiParam\<rparr>"
  define q where "q = fold (\<lambda>b q. params_push q b) (show_params ns) (params_clear (ps_params ps))"
  have bytes: "\<forall>b \<in> set (show_params ns). 0x30 \<le> b \<and> b \<le> 0x3B"
    using show_params_bytes by blast
  have es: "ps_state es = CsiEntry" "ps_params es = params_clear (ps_params ps)" "inter_slice (ps_inter es) = []"
      "inter_wf (ps_inter es)" "i_len (ps_inter es) = 0"
    using assms(1) by (simp_all add: es_def enter_seq_def parser_wf_def) (simp add: inter_clear_def)
  have "0x20 \<le> m" "\<not> between 0x20 0x2f m" "\<not> between 0x30 0x3b m"
    using assms(3) by (auto simp: between_def word_le_nat_alt)
  then have "advance_byte perform es p m = Some (qs, p)"
    using assms(3) es(1) not_anywhere [of m] by (simp add: advance_byte_def dispatch_state_def csi_entry_def qs_def)
  then have "foldM (byte_step perform) ([0x1b, 0x5b, m] @ show_params ns) (ps, p) = Some (qs\<lparr>ps_params := q\<rparr>, p)"
    using assms(2) csi_param_run [of qs "show_params ns" perform p] bytes
    by (simp add: esc_step esc_bracket es_def [symmetric] q_def) (simp add: qs_def es(2))
  then have "advance perform ps p (([0x1b, 0x5b, m] @ show_params ns) @ [f])
      = map_option (Pair (qs\<lparr>ps_params := q, ps_state := Ground\<rparr>)) (perform p (CsiDispatch q (ps_inter qs) False f))"
    using csi_final [of "qs\<lparr>ps_params := q\<rparr>" f perform p] assms(7)
    by (simp only: advance_bytes foldM_append) (simp add: qs_def)
  moreover have "params_finished q = map of_nat ns"
    using push_params [OF assms(4) _ holds_values_clear, of "ps_params ps"] assms
    by (simp add: list_all_iff q_def parser_wf_def)
  moreover have "inter_slice (ps_inter qs) = [m]"
    using es by (simp add: qs_def inter_slice_push)
  ultimately show ?thesis
    by (intro exI [of _ "qs\<lparr>ps_params := q, ps_state := Ground\<rparr>"] exI [of _ q] exI [of _ "ps_inter qs"]) simp
qed

section \<open>Modified keys\<close>

text \<open>The first parameter and the final byte of a key that is sent as a control sequence.\<close>

fun csi_form :: "key \<Rightarrow> (nat \<times> u8) option" where
  "csi_form KUp = Some (1, 0x41)"
| "csi_form KDown = Some (1, 0x42)"
| "csi_form KRight = Some (1, 0x43)"
| "csi_form KLeft = Some (1, 0x44)"
| "csi_form KHome = Some (1, 0x48)"
| "csi_form KEnd = Some (1, 0x46)"
| "csi_form KInsert = Some (2, 0x7e)"
| "csi_form KDelete = Some (3, 0x7e)"
| "csi_form KPageUp = Some (5, 0x7e)"
| "csi_form KPageDown = Some (6, 0x7e)"
| "csi_form (KF n) =
     (if n \<in> {1, 2, 3, 4} then Some (1, 0x4f + n)
      else map_option (\<lambda>c. (c, 0x7e)) (map_of [(5, 15), (6, 17), (7, 18), (8, 19), (9, 20), (10, 21), (11, 23), (12, 24)] n))"
| "csi_form _ = None"

lemma word_range: "a \<le> n \<Longrightarrow> n \<le> b \<Longrightarrow> n \<in> set (map of_nat [unat a..<Suc (unat b)])" for n :: "'a::len word"
  by (simp add: word_le_nat_alt less_Suc_eq_le del: upt_Suc) (rule image_eqI [of _ _ "unat n"], simp_all)

lemma function_range: "(1 \<le> n \<and> n \<le> 4) = (n \<in> {1, 2, 3, 4})" "(5 \<le> n \<and> n \<le> 12) = (n \<in> {5, 6, 7, 8, 9, 10, 11, 12})"
  for n :: u8
  using word_range [of 1 n 4] word_range [of 5 n 12] by (auto simp: upt_rec)

lemma mods_param_inj: "mods_param m = mods_param m' \<Longrightarrow> m = m'"
  by (auto simp: mods_param_def split: if_splits intro!: modifiers.equality)

lemma mods_param_small [simp]: "mods_param m < 65536"
  by (simp add: mods_param_def)

lemma csi_form_bytes:
  assumes "csi_form k = Some (n, f)" and "mods_any m"
  shows "encode_key k m ac ak nl dis = [0x1b, 0x5b] @ show_params [n, mods_param m] @ [f]" "n < 25" "between 0x40 0x7e f"
proof -
  have one: "ascii ''1;'' = show_nat 1 @ [0x3b]"
    by (simp add: ascii_def show_nat.simps byte_def)
  show "encode_key k m ac ak nl dis = [0x1b, 0x5b] @ show_params [n, mods_param m] @ [f]"
    using assms by (cases k) (auto simp: encode_cursor_def encode_home_end_def encode_tilde_key_def encode_function_key_def
        function_range one split: if_splits)
  show "n < 25" "between 0x40 0x7e f"
    using assms(1) by (cases k; auto simp: between_def split: if_splits)+
qed

lemma csi_form_inj: "csi_form k = Some (n, f) \<Longrightarrow> csi_form k' = Some (n, f) \<Longrightarrow> k = k'"
  by (cases k; cases k') (auto split: if_splits)

text \<open>
  C22: a key with modifiers that has a control sequence (the arrows, Home, End, the editing and the function
  keys) is read by a parser in any state but the middle of a character as exactly one dispatch, whatever
  the modes; and the key and its modifiers can be told from it: no other key has the same first parameter
  and final byte, no other modifiers the same second parameter.
\<close>
theorem modified_key_roundtrip:
  assumes "parser_wf ps" and "ps_state ps \<noteq> Utf8" and "mods_any m" and "csi_form k = Some (n, f)"
  shows "\<exists>ps' q i. advance collect ps [] (encode_key k m ac ak nl dis) = Some (ps', [CsiDispatch q i False f]) \<and>
    ps_state ps' = Ground \<and> params_finished q = [of_nat n, of_nat (mods_param m)] \<and> inter_slice i = [] \<and>
    (\<forall>k'. csi_form k' = Some (n, f) \<longrightarrow> k' = k) \<and> (\<forall>m'. mods_param m' = mods_param m \<longrightarrow> m' = m)"
proof -
  note bytes = csi_form_bytes(1) [OF assms(4,3), of ac ak nl dis] csi_form_bytes(2,3) [OF assms(4,3)]
  have "list_all (\<lambda>n. n < 65536) [n, mods_param m]" "length [n, mods_param m] \<le> MAX_PARAMS"
    using bytes(2) by simp_all
  from csi_sequence [OF assms(1,2) _ this bytes(3), of collect "[]"]
  have "\<exists>ps' q i. advance collect ps [] (encode_key k m ac ak nl dis) = Some (ps', [CsiDispatch q i False f]) \<and>
      ps_state ps' = Ground \<and> params_finished q = [of_nat n, of_nat (mods_param m)] \<and> inter_slice i = []"
    unfolding bytes(1) by (simp add: collect_def) blast
  then show ?thesis
    using csi_form_inj [OF _ assms(4)] mods_param_inj by blast
qed

theorem modified_key_roundtrip_witness:
  "\<exists>ps' q i. advance collect parser_new [] (encode_key (KF 5) mods_ctrl True True False False) = Some (ps', [CsiDispatch q i False 0x7e]) \<and>
    ps_state ps' = Ground \<and> params_finished q = [15, 5]"
  using modified_key_roundtrip [OF parser_wf_new, of mods_ctrl "KF 5" 15 "0x7e" True True False False]
  by (auto simp: parser_new_def mods_any_def mods_ctrl_def mods_none_def mods_param_def)

section \<open>The mouse\<close>

text \<open>The button, the position and the final byte of a report.\<close>

fun report_of :: "mouse_event \<Rightarrow> u8 \<times> u16 \<times> u16 \<times> u8" where
  "report_of (MPress b c r) = (b, c, r, 0x4d)"
| "report_of (MRelease c r) = (0, c, r, 0x6d)"
| "report_of (MDrag b c r) = (b + 32, c, r, 0x4d)"
| "report_of (MScrollUp c r) = (64, c, r, 0x4d)"
| "report_of (MScrollDown c r) = (65, c, r, 0x4d)"

text \<open>
  An SGR mouse report is read as one dispatch marked with \<open><\<close>, whose three parameters are the button
  and the position counted from one, and whose final byte tells a release from the rest: the whole 16-bit
  position can be read back. The older encoding keeps the position modulo 256 only: an event 256 columns
  further right has the same bytes.
\<close>
theorem mouse_report_roundtrip:
  assumes "parser_wf ps" and "ps_state ps \<noteq> Utf8" and "report_of ev = (b, c, r, f)"
  shows "(\<exists>ps' q i. advance collect ps [] (encode_mouse ev EncodeSgr) = Some (ps', [CsiDispatch q i False f]) \<and>
      ps_state ps' = Ground \<and> params_finished q = [ucast b, c + 1, r + 1] \<and> inter_slice i = [0x3c]) \<and>
    encode_mouse (MPress b c r) EncodeNormal = encode_mouse (MPress b (c + 256) r) EncodeNormal"
proof
  have sgr: "encode_mouse ev EncodeSgr = sgr_report b c r f" "f = 0x4d \<or> f = 0x6d"
    using assms(3) by (cases ev; auto simp: encode_mouse_def)+
  have report: "sgr_report b c r f = [0x1b, 0x5b, 0x3c] @ show_params [unat b, unat (c + 1), unat (r + 1)] @ [f]"
    by (simp add: sgr_report_def)
  have "unat b < 65536" "unat w < 65536" for w :: u16
    using unsigned_less [of b, where ?'a = nat] unsigned_less [of w, where ?'a = nat] by simp_all
  then have "list_all (\<lambda>n. n < 65536) [unat b, unat (c + 1), unat (r + 1)]"
    by simp
  moreover have "of_nat (unat b) = (ucast b :: u16)"
    by simp
  ultimately show "\<exists>ps' q i. advance collect ps [] (encode_mouse ev EncodeSgr) = Some (ps', [CsiDispatch q i False f]) \<and>
      ps_state ps' = Ground \<and> params_finished q = [ucast b, c + 1, r + 1] \<and> inter_slice i = [0x3c]"
    using csi_marked_sequence [OF assms(1,2), of "0x3c" "[unat b, unat (c + 1), unat (r + 1)]" f collect "[]"] sgr
    unfolding sgr(1) report by (auto simp: collect_def between_def)
  have "ucast (c + 256 :: u16) = (ucast c :: u8)"
    by (simp add: word_unat_eq_iff unat_ucast_mod unat_word_ariths mod_mod_cancel)
  then show "encode_mouse (MPress b c r) EncodeNormal = encode_mouse (MPress b (c + 256) r) EncodeNormal"
    by (simp add: encode_mouse_def encode_mouse_normal_def)
qed

theorem mouse_report_roundtrip_witness:
  "(\<exists>ps' q i. advance collect parser_new [] (encode_mouse (MDrag 0 299 9) EncodeSgr) = Some (ps', [CsiDispatch q i False 0x4d]) \<and>
      params_finished q = [32, 300, 10]) \<and>
   encode_mouse (MPress 32 299 9) EncodeNormal = encode_mouse (MPress 32 555 9) EncodeNormal"
  using mouse_report_roundtrip [OF parser_wf_new, of "MDrag 0 299 9" 32 299 9 "0x4d"] by (auto simp: parser_new_def)

section \<open>Paste\<close>

text \<open>
  Text that holds the end marker of a bracketed paste ends the brackets: what follows it in the pasted
  text reaches the program outside them, as if it had been typed.
\<close>
lemma paste_leaves_brackets:
  "encode_paste (t @ [0x1b] @ ascii ''[201~'' @ u) True = encode_paste t True @ u @ [0x1b] @ ascii ''[201~''"
  by (simp add: encode_paste_def)

end
