(* ===== verification/Term_Search.thy ===== *)
theory Term_Search
  imports Term_Screen Emux_Find
begin

text \<open>
  \<open>crates/emux-term/src/search.rs\<close>: search in the scrollback and the viewport. The text of a row is its
  code points. \<open>str::to_lowercase\<close>, a table of Unicode, is the argument \<open>lower\<close>; the \<open>regex\<close> crate is the
  argument \<open>regex_new\<close>, which gives an error message or the function from a text to the start and the end
  of each of its matches.
\<close>

record search_match =
  mt_row :: nat
  mt_col :: nat
  mt_len :: nat

record search_state =
  qs_query :: "rchar list"
  qs_matches :: "search_match list"
  qs_current :: "nat option"
  qs_case_sensitive :: bool
  qs_regex :: bool

datatype search_error = InvalidRegex rstr

type_synonym regex = "rchar list \<Rightarrow> (nat \<times> nat) list"
type_synonym regex_compiler = "rchar list \<Rightarrow> rstr + regex"

section \<open>Matches\<close>

definition row_matches :: "nat \<Rightarrow> rchar list \<Rightarrow> rchar list \<Rightarrow> search_match list option" where
  "row_matches r q haystack =
     map_option (map (\<lambda>col. \<lparr>mt_row = r, mt_col = col, mt_len = length q\<rparr>)) (match_offsets q haystack 0)"

definition find_all_matches ::
  "(rchar list \<Rightarrow> rchar list) \<Rightarrow> rchar list list \<Rightarrow> rchar list \<Rightarrow> bool \<Rightarrow> search_match list option" where
  "find_all_matches lower texts query case_sensitive =
     (if query = [] then Some []
      else let fold_case = (if case_sensitive then id else lower) in
        foldM (\<lambda>ms (r, text). map_option ((@) ms) (row_matches r (fold_case query) (fold_case text)))
          (enumerate 0 texts) [])"

definition find_all_matches_regex ::
  "regex_compiler \<Rightarrow> rchar list list \<Rightarrow> rchar list \<Rightarrow> bool \<Rightarrow> search_error + search_match list" where
  "find_all_matches_regex regex_new texts pattern case_sensitive =
     (case regex_new (if case_sensitive then pattern else map of_char ''(?i)'' @ pattern) of
        Inl e \<Rightarrow> Inl (InvalidRegex e)
      | Inr re \<Rightarrow> Inr (concat (map (\<lambda>(r, text).
          map (\<lambda>(s, e). \<lparr>mt_row = r, mt_col = s, mt_len = e - s\<rparr>) (re text)) (enumerate 0 texts))))"

definition next_match_index :: "nat option \<Rightarrow> nat \<Rightarrow> nat option" where
  "next_match_index current n =
     (if n = 0 then None else Some (case current of Some i \<Rightarrow> (i + 1) mod n | None \<Rightarrow> 0))"

definition prev_match_index :: "nat option \<Rightarrow> nat \<Rightarrow> nat option" where
  "prev_match_index current n =
     (if n = 0 then None
      else Some (case current of Some i \<Rightarrow> if i = 0 then n - 1 else i - 1 | None \<Rightarrow> n - 1))"

section \<open>Searching a screen\<close>

definition all_row_texts :: "screen \<Rightarrow> rchar list list option" where
  "all_row_texts s = do {
     viewport \<leftarrow> foldM (\<lambda>ls r. map_option (\<lambda>l. ls @ [l]) (row_text (s_grid s) r)) [0..<rows_of s] [];
     Some (map (scrollback_row_text (s_grid s)) [0..<scrollback_len (s_grid s)] @ viewport) }"

record screen_searcher =
  sr_state :: "search_state option"

definition searcher_new :: screen_searcher where
  "searcher_new = \<lparr>sr_state = None\<rparr>"

definition first_in_viewport :: "nat \<Rightarrow> search_match list \<Rightarrow> nat option" where
  "first_in_viewport sb ms =
     (if ms = [] then None
      else (case position (\<lambda>m. sb \<le> mt_row m) ms of Some i \<Rightarrow> Some i | None \<Rightarrow> Some 0))"

definition last_in_scrollback :: "nat \<Rightarrow> search_match list \<Rightarrow> nat option" where
  "last_in_scrollback sb ms =
     (if ms = [] then None
      else (case rposition (\<lambda>m. mt_row m < sb) ms of Some i \<Rightarrow> Some i | None \<Rightarrow> Some (length ms - 1)))"

definition search_forward ::
  "(rchar list \<Rightarrow> rchar list) \<Rightarrow> screen \<Rightarrow> rchar list \<Rightarrow> bool \<Rightarrow> screen_searcher \<Rightarrow> (search_match list \<times> screen_searcher) option" where
  "search_forward lower s query case_sensitive sr = do {
     texts \<leftarrow> all_row_texts s;
     ms \<leftarrow> find_all_matches lower texts query case_sensitive;
     Some (ms, \<lparr>sr_state = Some \<lparr>qs_query = query, qs_matches = ms,
       qs_current = first_in_viewport (scrollback_len (s_grid s)) ms,
       qs_case_sensitive = case_sensitive, qs_regex = False\<rparr>\<rparr>) }"

definition search_backward ::
  "(rchar list \<Rightarrow> rchar list) \<Rightarrow> screen \<Rightarrow> rchar list \<Rightarrow> bool \<Rightarrow> screen_searcher \<Rightarrow> (search_match list \<times> screen_searcher) option" where
  "search_backward lower s query case_sensitive sr = do {
     texts \<leftarrow> all_row_texts s;
     ms \<leftarrow> find_all_matches lower texts query case_sensitive;
     Some (ms, \<lparr>sr_state = Some \<lparr>qs_query = query, qs_matches = ms,
       qs_current = last_in_scrollback (scrollback_len (s_grid s)) ms,
       qs_case_sensitive = case_sensitive, qs_regex = False\<rparr>\<rparr>) }"

text \<open>An invalid pattern leaves the state of the last search.\<close>

definition search_regex ::
  "regex_compiler \<Rightarrow> screen \<Rightarrow> rchar list \<Rightarrow> bool \<Rightarrow> screen_searcher \<Rightarrow>
   ((search_error + search_match list) \<times> screen_searcher) option" where
  "search_regex regex_new s pattern case_sensitive sr = do {
     texts \<leftarrow> all_row_texts s;
     Some (case find_all_matches_regex regex_new texts pattern case_sensitive of
         Inl e \<Rightarrow> (Inl e, sr)
       | Inr ms \<Rightarrow> (Inr ms, \<lparr>sr_state = Some \<lparr>qs_query = pattern, qs_matches = ms,
           qs_current = first_in_viewport (scrollback_len (s_grid s)) ms,
           qs_case_sensitive = case_sensitive, qs_regex = True\<rparr>\<rparr>)) }"

text \<open>The outer \<open>option\<close> is a panic, the inner one the code's result.\<close>

definition search_next :: "screen_searcher \<Rightarrow> (search_match option \<times> screen_searcher) option" where
  "search_next sr =
     (case sr_state sr of
        None \<Rightarrow> Some (None, sr)
      | Some st \<Rightarrow>
          if qs_matches st = [] then Some (None, sr)
          else let n = (case qs_current st of Some i \<Rightarrow> (i + 1) mod length (qs_matches st) | None \<Rightarrow> 0) in do {
            m \<leftarrow> idx (qs_matches st) n;
            Some (Some m, sr\<lparr>sr_state := Some (st\<lparr>qs_current := Some n\<rparr>)\<rparr>) })"

definition search_prev :: "screen_searcher \<Rightarrow> (search_match option \<times> screen_searcher) option" where
  "search_prev sr =
     (case sr_state sr of
        None \<Rightarrow> Some (None, sr)
      | Some st \<Rightarrow>
          if qs_matches st = [] then Some (None, sr)
          else let n = (case qs_current st of
                          Some i \<Rightarrow> if i = 0 then length (qs_matches st) - 1 else i - 1
                        | None \<Rightarrow> length (qs_matches st) - 1) in do {
            m \<leftarrow> idx (qs_matches st) n;
            Some (Some m, sr\<lparr>sr_state := Some (st\<lparr>qs_current := Some n\<rparr>)\<rparr>) })"

definition clear_search :: "screen_searcher \<Rightarrow> screen_searcher" where
  "clear_search sr = sr\<lparr>sr_state := None\<rparr>"

definition current_match :: "screen_searcher \<Rightarrow> search_match option" where
  "current_match sr = do { st \<leftarrow> sr_state sr; i \<leftarrow> qs_current st; get_opt (qs_matches st) i }"

definition visible_matches :: "screen \<Rightarrow> screen_searcher \<Rightarrow> search_match list" where
  "visible_matches s sr =
     (case sr_state sr of
        None \<Rightarrow> []
      | Some st \<Rightarrow> filter (\<lambda>m. scrollback_len (s_grid s) \<le> mt_row m \<and> mt_row m < scrollback_len (s_grid s) + rows_of s)
          (qs_matches st))"

end
