(* ===== verification/Search_Properties.thy ===== *)
theory Search_Properties
  imports Term_Search Term_Terminal "HOL-Library.Multiset"
begin

text \<open>
  The properties of the search of a screen: it finds every occurrence of the query, in order, and the
  commands that follow go through the matches in a cycle.
\<close>

section \<open>The texts of the rows\<close>

definition line_text :: "row \<Rightarrow> rchar list" where
  "line_text l = trim_end_of 0x20 (cells_text (r_cells l))"

lemma row_text_line: "r < length (g_lines g) \<Longrightarrow> row_text g r = Some (line_text (g_lines g ! r))"
  by (simp add: row_text_def row_text_full_def line_text_def)

lemma collect_rows:
  "n \<le> length (g_lines g) \<Longrightarrow>
   foldM (\<lambda>ls r. map_option (\<lambda>l. ls @ [l]) (row_text g r)) [0..<n] [] = Some (map line_text (take n (g_lines g)))"
  by (induction n) (auto simp: foldM_append row_text_line take_Suc_conv_app_nth)

lemma all_row_texts_eq:
  assumes "screen_rows R s"
  shows "all_row_texts s = Some (map line_text (g_scrollback (s_grid s) @ g_lines (s_grid s)))"
proof -
  have rows: "length (g_lines (s_grid s)) = rows_of s"
    using assms screen_okD(3,14) [of "cols_of s" R s] by (auto simp: screen_rows_def grid_ok_def)
  have "map (scrollback_row_text (s_grid s)) [0..<scrollback_len (s_grid s)] = map line_text (g_scrollback (s_grid s))"
    by (rule nth_equalityI) (simp_all add: scrollback_len_def scrollback_row_text_def scrollback_row_text_full_def line_text_def)
  then show ?thesis
    using rows collect_rows [of "rows_of s" "s_grid s"] by (simp add: all_row_texts_def)
qed

section \<open>All matches\<close>

definition match_before :: "search_match \<Rightarrow> search_match \<Rightarrow> bool" where
  "match_before a b \<longleftrightarrow> mt_row a < mt_row b \<or> (mt_row a = mt_row b \<and> mt_col a + mt_len a \<le> mt_col b)"

text \<open>
  Occurrences of the query, in the order of the text and without overlap, such that no occurrence lies
  outside all of them.
\<close>

definition finds_all :: "rchar list \<Rightarrow> rchar list list \<Rightarrow> search_match list \<Rightarrow> bool" where
  "finds_all q texts ms \<longleftrightarrow>
     (\<forall>m \<in> set ms. mt_len m = length q \<and> mt_row m < length texts \<and> occurs_at q (texts ! mt_row m) (mt_col m)) \<and>
     sorted_wrt match_before ms \<and>
     (\<forall>r < length texts. \<forall>p. occurs_at q (texts ! r) p \<longrightarrow>
        (\<exists>m \<in> set ms. mt_row m = r \<and> mt_col m \<le> p \<and> p < mt_col m + mt_len m))"

lemma finds_all_snoc:
  assumes "finds_all q texts ms" and "all_matches q t 0 ps"
  shows "finds_all q (texts @ [t]) (ms @ map (\<lambda>col. \<lparr>mt_row = length texts, mt_col = col, mt_len = length q\<rparr>) ps)"
proof -
  have 1: "mt_len m = length q \<and> mt_row m < length texts \<and> occurs_at q (texts ! mt_row m) (mt_col m)" if "m \<in> set ms" for m
    using assms(1) that by (simp add: finds_all_def)
  have 2: "\<forall>p \<in> set ps. occurs_at q t p"
    using assms(2) by (simp add: all_matches_def)
  have "sorted_wrt match_before (map (\<lambda>col. \<lparr>mt_row = length texts, mt_col = col, mt_len = length q\<rparr>) ps)"
    using assms(2) by (simp add: all_matches_def sorted_wrt_map match_before_def)
  then have 3: "sorted_wrt match_before (ms @ map (\<lambda>col. \<lparr>mt_row = length texts, mt_col = col, mt_len = length q\<rparr>) ps)"
    using assms(1) 1 by (auto simp: sorted_wrt_append finds_all_def match_before_def)
  have 4: "\<exists>m \<in> set ms. mt_row m = r \<and> mt_col m \<le> p \<and> p < mt_col m + mt_len m"
    if "r < length texts" "occurs_at q (texts ! r) p" for r p
    using assms(1) that unfolding finds_all_def by blast
  have 5: "\<exists>c \<in> set ps. c \<le> p \<and> p < c + length q" if "occurs_at q t p" for p
    using assms(2) that unfolding all_matches_def by blast
  let ?new = "map (\<lambda>col. \<lparr>mt_row = length texts, mt_col = col, mt_len = length q\<rparr>) ps"
  show ?thesis
    unfolding finds_all_def
  proof (intro conjI allI impI ballI)
    fix r p
    assume r: "r < length (texts @ [t])" "occurs_at q ((texts @ [t]) ! r) p"
    show "\<exists>m \<in> set (ms @ ?new). mt_row m = r \<and> mt_col m \<le> p \<and> p < mt_col m + mt_len m"
    proof (cases "r < length texts")
      case True
      then show ?thesis
        using 4 [of r p] r(2) by (auto simp: nth_append)
    next
      case False
      then show ?thesis
        using 5 [of p] r by (auto simp: less_Suc_eq bex_Un)
    qed
  qed (use 1 2 3 in \<open>auto simp: nth_append less_SucI\<close>)
qed

lemma find_all_rows:
  assumes "q \<noteq> []"
  shows "returns (foldM (\<lambda>ms (r, text). map_option ((@) ms) (row_matches r q (fold_case text))) (enumerate 0 texts) [])
    (finds_all q (map fold_case texts))"
proof (induction texts rule: rev_induct)
  case Nil
  then show ?case
    by (simp add: finds_all_def)
next
  case (snoc t texts)
  have "returns (match_offsets q (fold_case t) 0) (all_matches q (fold_case t) 0)"
    using assms by (intro match_offsets_all) auto
  then obtain ps where ps: "match_offsets q (fold_case t) 0 = Some ps" "all_matches q (fold_case t) 0 ps"
    by (auto simp: returns_iff)
  obtain ms where ms: "foldM (\<lambda>ms (r, text). map_option ((@) ms) (row_matches r q (fold_case text))) (enumerate 0 texts) [] = Some ms"
      "finds_all q (map fold_case texts) ms"
    using snoc.IH by (auto simp: returns_iff)
  show ?case
    using ms ps finds_all_snoc [OF ms(2) ps(2)] by (simp add: enumerate_append_eq foldM_append row_matches_def)
qed

text \<open>What is compared: the characters themselves, or what lower case makes of them.\<close>

definition compared :: "(rchar list \<Rightarrow> rchar list) \<Rightarrow> bool \<Rightarrow> rchar list \<Rightarrow> rchar list" where
  "compared lower cs = (if cs then id else lower)"

lemma find_all_matches_all:
  "q \<noteq> [] \<Longrightarrow> compared lower cs q \<noteq> [] \<Longrightarrow>
   returns (find_all_matches lower texts q cs) (finds_all (compared lower cs q) (map (compared lower cs) texts))"
  using find_all_rows [of "compared lower cs q" "compared lower cs" texts]
  by (cases cs) (simp_all add: find_all_matches_def compared_def)

lemma find_all_total: "lower q \<noteq> [] \<Longrightarrow> find_all_matches lower texts q False \<noteq> None"
  using find_all_matches_all [of q lower False texts]
  by (cases "q = []") (auto simp: find_all_matches_def compared_def returns_iff)

lemma position_find: "map_option ((!) xs) (position P xs) = List.find P xs"
  by (induction xs) (auto simp: option.map_comp comp_def)

lemma position_get:
  "(case position P xs of Some i \<Rightarrow> get_opt xs i | None \<Rightarrow> d) = (case List.find P xs of Some x \<Rightarrow> Some x | None \<Rightarrow> d)"
  using position_Some [of P xs] by (auto simp: position_find [symmetric] get_opt_def split: option.split)

text \<open>
  C21: a search, with case or without, returns every occurrence of the query: the matches are occurrences,
  in the order of the rows and columns and without overlap, and no occurrence lies outside all of them. This
  holds of the search over any rows, which is the program's own (\<open>run_search\<close>: the rows on the screen,
  without case), and of the search of a screen, over the scrollback and the viewport, whose current match is
  the first one in the viewport, or the first of all if there is none there. Occurrences are those in
  what is compared, the lowered query and rows of a search without case: their columns are columns of the
  lowered row, which differ from those of the row where lowering changes the number of characters. Lowering
  must leave something of the query.
\<close>
theorem search_finds_everything:
  assumes "screen_rows R s" and "q \<noteq> []" and "compared lower cs q \<noteq> []"
  shows "returns (find_all_matches lower rows q cs) (finds_all (compared lower cs q) (map (compared lower cs) rows)) \<and>
    returns (search_forward lower s q cs sr) (\<lambda>(ms, sr').
      finds_all (compared lower cs q)
        (map (\<lambda>l. compared lower cs (line_text l)) (g_scrollback (s_grid s) @ g_lines (s_grid s))) ms \<and>
      current_match sr' = (case List.find (\<lambda>m. length (g_scrollback (s_grid s)) \<le> mt_row m) ms of
          Some m \<Rightarrow> Some m
        | None \<Rightarrow> (case ms of [] \<Rightarrow> None | m # _ \<Rightarrow> Some m)))"
proof -
  have current: "current_match \<lparr>sr_state = Some \<lparr>qs_query = q, qs_matches = ms, qs_current = first_in_viewport sb ms,
        qs_case_sensitive = cs, qs_regex = b\<rparr>\<rparr>
      = (case List.find (\<lambda>m. sb \<le> mt_row m) ms of Some m \<Rightarrow> Some m | None \<Rightarrow> (case ms of [] \<Rightarrow> None | m # _ \<Rightarrow> Some m))" for ms sb cs b
    using position_get [where P = "\<lambda>m. sb \<le> mt_row m" and xs = ms and d = "Some (hd ms)"]
    by (cases ms) (auto simp: current_match_def first_in_viewport_def get_opt_def split: option.splits if_splits)
  note found = find_all_matches_all [OF assms(2,3)]
  show ?thesis
    using found [of rows] found [of "map line_text (g_scrollback (s_grid s) @ g_lines (s_grid s))"]
      all_row_texts_eq [OF assms(1)] current
    by (simp add: search_forward_def scrollback_len_def comp_def)
qed

text \<open>Lower case for the letters A to Z, and a screen that is searched without case.\<close>

definition lower_letters :: "rchar list \<Rightarrow> rchar list" where
  "lower_letters = map (\<lambda>c. if 0x41 \<le> c \<and> c \<le> 0x5a then c + 0x20 else c)"

theorem search_finds_everything_witness:
  "returns (find_all_matches lower_letters [map of_char ''xAb''] (map of_char ''aB'') False)
     (finds_all (map of_char ''ab'') [map of_char ''xab'']) \<and>
   returns (search_forward lower_letters (screen_new 80 24) (map of_char ''aB'') False searcher_new) (\<lambda>(ms, sr'). True)"
proof -
  obtain R where R: "screen_rows R (screen_new 80 24)"
    using screen_rows_new [of 80 24] by auto
  have ab: "compared lower_letters False (map of_char ''aB'') = map of_char ''ab''"
      "compared lower_letters False (map of_char ''xAb'') = map of_char ''xab''"
    by (simp_all add: compared_def lower_letters_def of_char_def)
  show ?thesis
    using search_finds_everything [OF R, of "map of_char ''aB''" lower_letters False "[map of_char ''xAb'']" searcher_new] ab
    by (auto simp: returns_iff)
qed

section \<open>Going through the matches\<close>

lemma next_step:
  assumes "sr_state sr = Some st" and "qs_current st = Some i" and "i < length (qs_matches st)"
  shows "search_next sr = Some (Some (qs_matches st ! (Suc i mod length (qs_matches st))),
    sr\<lparr>sr_state := Some (st\<lparr>qs_current := Some (Suc i mod length (qs_matches st))\<rparr>)\<rparr>)"
proof -
  have "0 < length (qs_matches st)"
    using assms(3) by linarith
  then show ?thesis
    using assms by (auto simp: search_next_def Let_def)
qed

lemma prev_step:
  assumes "sr_state sr = Some st" and "qs_current st = Some i" and "i < length (qs_matches st)"
  shows "search_prev sr = Some (Some (qs_matches st ! (if i = 0 then length (qs_matches st) - 1 else i - 1)),
    sr\<lparr>sr_state := Some (st\<lparr>qs_current := Some (if i = 0 then length (qs_matches st) - 1 else i - 1)\<rparr>)\<rparr>)"
  using assms by (auto simp: search_prev_def Let_def)

text \<open>The matches that \<open>n\<close> commands in a row show.\<close>

fun next_times :: "nat \<Rightarrow> screen_searcher \<Rightarrow> (search_match option list \<times> screen_searcher) option" where
  "next_times 0 sr = Some ([], sr)"
| "next_times (Suc n) sr = do {
     (m, sr) \<leftarrow> search_next sr;
     (ms, sr) \<leftarrow> next_times n sr;
     Some (m # ms, sr) }"

lemma next_times_rotate:
  "sr_state sr = Some st \<Longrightarrow> qs_current st = Some i \<Longrightarrow> i < length (qs_matches st) \<Longrightarrow>
   next_times n sr = Some (map (\<lambda>k. Some (qs_matches st ! ((i + Suc k) mod length (qs_matches st)))) [0..<n],
     sr\<lparr>sr_state := Some (st\<lparr>qs_current := Some ((i + n) mod length (qs_matches st))\<rparr>)\<rparr>)"
proof (induction n arbitrary: sr st i)
  case 0
  then show ?case
    by simp
next
  case (Suc n)
  let ?l = "length (qs_matches st)"
  let ?st = "st\<lparr>qs_current := Some (Suc i mod ?l)\<rparr>"
  have "0 < ?l"
    using Suc.prems(3) by linarith
  then have "next_times n (sr\<lparr>sr_state := Some ?st\<rparr>) =
      Some (map (\<lambda>k. Some (qs_matches ?st ! ((Suc i mod ?l + Suc k) mod length (qs_matches ?st)))) [0..<n],
        (sr\<lparr>sr_state := Some ?st\<rparr>)\<lparr>sr_state := Some (?st\<lparr>qs_current := Some ((Suc i mod ?l + n) mod length (qs_matches ?st))\<rparr>)\<rparr>)"
    by (intro Suc.IH) simp_all
  moreover have "(Suc i mod ?l + k) mod ?l = (i + Suc k) mod ?l" for k
    by (simp add: mod_add_left_eq)
  moreover have "Suc (Suc i mod ?l + k) mod ?l = Suc (Suc (i + k)) mod ?l" for k
    by (metis add_Suc mod_Suc_eq mod_add_left_eq)
  ultimately show ?case
    using next_step [OF Suc.prems] by (simp add: upt_conv_Cons map_Suc_upt [symmetric] del: upt_Suc)
qed

lemma mset_rotated: "mset (rotate n xs) = mset xs"
proof (induction n)
  case (Suc n)
  have "mset (rotate1 ys) = mset ys" for ys :: "'a list"
    by (cases ys) simp_all
  with Suc show ?case
    by simp
qed simp

text \<open>
  The commands go through the matches in a cycle: from any current match, as many \<open>search_next\<close> as there
  are matches show every match once and end at the current one; and \<open>search_prev\<close> takes back a
  \<open>search_next\<close>.
\<close>
theorem search_next_cycles:
  assumes "sr_state sr = Some st" and "qs_current st = Some i" and "i < length (qs_matches st)"
  shows "\<exists>ms. next_times (length (qs_matches st)) sr = Some (map Some ms, sr) \<and>
      mset ms = mset (qs_matches st) \<and> last ms = qs_matches st ! i \<and>
    Option.bind (search_next sr) (\<lambda>(m, sr'). search_prev sr') = Some (Some (qs_matches st ! i), sr)"
proof -
  let ?ms = "qs_matches st" and ?l = "length (qs_matches st)"
  let ?r = "map (\<lambda>k. ?ms ! ((i + Suc k) mod ?l)) [0..<?l]"
  have l: "0 < ?l"
    using assms(3) by linarith
  have st: "sr\<lparr>sr_state := Some (st\<lparr>qs_current := Some i\<rparr>)\<rparr> = sr"
    using assms(1,2) by simp
  have rotated: "?r = rotate (Suc i) ?ms"
    by (rule nth_equalityI) (simp_all add: nth_rotate add.commute del: rotate_Suc)
  have "next_times ?l sr = Some (map Some ?r, sr)"
    using next_times_rotate [OF assms, of ?l] assms(3) st by (simp add: comp_def)
  moreover have "mset ?r = mset ?ms"
    unfolding rotated by (rule mset_rotated)
  moreover have "last ?r = ?ms ! i"
    using l assms(3) by (simp add: last_map last_upt)
  moreover have "Option.bind (search_next sr) (\<lambda>(m, sr'). search_prev sr') = Some (Some (?ms ! i), sr)"
  proof (cases "Suc i < ?l")
    case True
    then show ?thesis
      using next_step [OF assms] prev_step [of "sr\<lparr>sr_state := Some (st\<lparr>qs_current := Some (Suc i)\<rparr>)\<rparr>" "st\<lparr>qs_current := Some (Suc i)\<rparr>" "Suc i"] st
      by simp
  next
    case False
    then have "Suc i = ?l" "?l - Suc 0 = i"
      using assms(3) by linarith+
    then show ?thesis
      using next_step [OF assms] prev_step [of "sr\<lparr>sr_state := Some (st\<lparr>qs_current := Some 0\<rparr>)\<rparr>" "st\<lparr>qs_current := Some 0\<rparr>" 0] st l
      by simp
  qed
  ultimately show ?thesis
    by blast
qed

text \<open>Three matches, the second one current.\<close>

definition sample_search :: search_state where
  "sample_search = \<lparr>qs_query = [0x61], qs_matches = map (\<lambda>c. \<lparr>mt_row = 0, mt_col = c, mt_len = 1\<rparr>) [0, 4, 9],
     qs_current = Some 1, qs_case_sensitive = True, qs_regex = False\<rparr>"

theorem search_next_cycles_witness:
  "\<exists>ms. next_times 3 \<lparr>sr_state = Some sample_search\<rparr> = Some (map Some ms, \<lparr>sr_state = Some sample_search\<rparr>) \<and>
     mset ms = mset (qs_matches sample_search) \<and> mt_col (last ms) = 4"
proof -
  have "length (qs_matches sample_search) = 3" "qs_current sample_search = Some 1" "mt_col (qs_matches sample_search ! 1) = 4"
    by (simp_all add: sample_search_def)
  then show ?thesis
    using search_next_cycles [of "\<lparr>sr_state = Some sample_search\<rparr>" sample_search 1] by auto
qed

end
