(* ===== verification/Term_Selection.thy ===== *)
theory Term_Selection
  imports Term_Grid Emux_Find
begin

text \<open>
  The \<open>Selection\<close> of \<open>crates/emux-term/src/selection.rs\<close>: a selection in the scrollback and the viewport,
  and the text copied from it.
\<close>

record selection_point =
  sp_row :: nat
  sp_col :: nat

datatype selection_mode = SelNormal | SelRectangular

datatype selection_state = SelNone | Selecting | Selected

record selection =
  sel_start :: selection_point
  sel_end :: selection_point
  sel_mode :: selection_mode
  sel_state :: selection_state

definition point_new :: "nat \<Rightarrow> nat \<Rightarrow> selection_point" where
  "point_new row col = \<lparr>sp_row = row, sp_col = col\<rparr>"

text \<open>The order of the points: by row, then by column.\<close>

definition point_le :: "selection_point \<Rightarrow> selection_point \<Rightarrow> bool" where
  "point_le p q \<longleftrightarrow> sp_row p < sp_row q \<or> (sp_row p = sp_row q \<and> sp_col p \<le> sp_col q)"

definition selection_start :: "selection_point \<Rightarrow> selection_mode \<Rightarrow> selection" where
  "selection_start p mode = \<lparr>sel_start = p, sel_end = p, sel_mode = mode, sel_state = Selecting\<rparr>"

definition selection_extend :: "selection_point \<Rightarrow> selection \<Rightarrow> selection" where
  "selection_extend p sel = sel\<lparr>sel_end := p\<rparr>"

definition selection_finalize :: "selection \<Rightarrow> selection" where
  "selection_finalize sel = sel\<lparr>sel_state := Selected\<rparr>"

definition selection_ordered :: "selection \<Rightarrow> selection_point \<times> selection_point" where
  "selection_ordered sel =
     (if point_le (sel_start sel) (sel_end sel) then (sel_start sel, sel_end sel) else (sel_end sel, sel_start sel))"

definition selection_contains :: "selection \<Rightarrow> nat \<Rightarrow> nat \<Rightarrow> bool" where
  "selection_contains sel row col =
     (let (b, e) = selection_ordered sel in
      case sel_mode sel of
        SelNormal \<Rightarrow>
          if row < sp_row b \<or> sp_row e < row then False
          else if sp_row b = sp_row e then sp_col b \<le> col \<and> col \<le> sp_col e
          else if row = sp_row b then sp_col b \<le> col
          else if row = sp_row e then col \<le> sp_col e
          else True
      | SelRectangular \<Rightarrow>
          let left = min (sp_col b) (sp_col e); right = max (sp_col b) (sp_col e) in
          sp_row b \<le> row \<and> row \<le> sp_row e \<and> left \<le> col \<and> col \<le> right)"

definition row_full_text :: "grid \<Rightarrow> nat \<Rightarrow> nat \<Rightarrow> rchar list option" where
  "row_full_text g abs_row sb =
     (if abs_row < sb then Some (scrollback_row_text_full g abs_row)
      else if abs_row - sb < g_rows g then row_text_full g (abs_row - sb)
      else Some [])"

text \<open>The characters from column \<open>s\<close> to column \<open>e\<close>, as far as there are any, without the blanks at the end.\<close>

definition copied_slice :: "nat \<Rightarrow> nat \<Rightarrow> rchar list \<Rightarrow> rchar list" where
  "copied_slice s e chars =
     (let sc = min s (length chars); ec = min (e + 1) (length chars) in
      if sc < ec then trim_end (take (ec - sc) (drop sc chars)) else [])"

definition copy_row :: "selection \<Rightarrow> grid \<Rightarrow> nat \<Rightarrow> rchar list option" where
  "copy_row sel g r = do {
     chars \<leftarrow> row_full_text g r (scrollback_len g);
     let (b, e) = selection_ordered sel;
     Some (case sel_mode sel of
         SelNormal \<Rightarrow>
           copied_slice (if r = sp_row b then sp_col b else 0)
             (if r = sp_row e then sp_col e else length chars - 1) chars
       | SelRectangular \<Rightarrow>
           copied_slice (min (sp_col b) (min (sp_col (sel_start sel)) (sp_col (sel_end sel))))
             (max (sp_col b) (max (sp_col (sel_start sel)) (sp_col (sel_end sel)))) chars) }"

definition selection_text :: "selection \<Rightarrow> grid \<Rightarrow> rchar list option" where
  "selection_text sel g =
     (let (b, e) = selection_ordered sel in
      foldM (\<lambda>out r. map_option (\<lambda>t. out @ t @ (if r < sp_row e then [0x0a] else [])) (copy_row sel g r))
        [sp_row b..<Suc (sp_row e)] [])"

end
