(* ===== verification/Selection_Properties.thy ===== *)
theory Selection_Properties
  imports Term_Selection Term_Grid_Props
begin

text \<open>What is copied is what is highlighted.\<close>

section \<open>Slices of a row\<close>

lemma filter_enumerate_interval:
  "map snd (filter (\<lambda>(i, x). a \<le> i \<and> i \<le> b) (enumerate n xs)) = take (Suc b - max a n) (drop (a - n) xs)"
proof (induction xs arbitrary: n)
  case (Cons x xs)
  show ?case
  proof (cases "a \<le> n")
    case True
    then show ?thesis
      using Cons.IH [of "Suc n"] by (auto simp: max_def Suc_diff_le)
  next
    case False
    then have "a - n = Suc (a - Suc n)" "max a n = a" "max a (Suc n) = a"
      by simp_all
    then show ?thesis
      using Cons.IH [of "Suc n"] False by simp
  qed
qed simp

lemma copied_slice_eq: "copied_slice s e chars = trim_end (take (Suc e - s) (drop s chars))"
proof (cases "s < length chars")
  case True
  have "take (min (Suc e) (length chars) - s) (drop s chars) = take (Suc e - s) (drop s chars)"
    by (cases "Suc e \<le> length chars") simp_all
  then show ?thesis
    using True by (auto simp: copied_slice_def Let_def)
qed (simp add: copied_slice_def)

text \<open>The characters of a row that the selection contains.\<close>

definition highlighted :: "selection \<Rightarrow> nat \<Rightarrow> rchar list \<Rightarrow> rchar list" where
  "highlighted sel r chars = map snd (filter (\<lambda>(c, x). selection_contains sel r c) (enumerate 0 chars))"

lemma highlighted_interval:
  assumes "\<And>c. c < length chars \<Longrightarrow> selection_contains sel r c \<longleftrightarrow> s \<le> c \<and> c \<le> e"
  shows "trim_end (highlighted sel r chars) = copied_slice s e chars"
proof -
  have "filter (\<lambda>(c, x). selection_contains sel r c) (enumerate 0 chars) = filter (\<lambda>(c, x). s \<le> c \<and> c \<le> e) (enumerate 0 chars)"
    using assms by (intro filter_cong) (auto simp: in_set_enumerate_eq)
  then show ?thesis
    using filter_enumerate_interval [of s e 0 chars] by (simp add: highlighted_def copied_slice_eq)
qed

section \<open>Rows\<close>

definition full_text :: "grid \<Rightarrow> nat \<Rightarrow> rchar list" where
  "full_text g r = (let ls = map (\<lambda>l. cells_text (r_cells l)) (g_scrollback g @ g_lines g) in if r < length ls then ls ! r else [])"

lemma row_full_text_eq: "grid_ok C R g \<Longrightarrow> row_full_text g r (scrollback_len g) = Some (full_text g r)"
  by (auto simp: row_full_text_def full_text_def scrollback_row_text_full_def row_text_full_def scrollback_len_def
      grid_ok_def nth_append)

lemma ordered_rows: "selection_ordered sel = (b, e) \<Longrightarrow> sp_row b \<le> sp_row e"
  by (auto simp: selection_ordered_def point_le_def split: if_splits)

lemma copy_row_eq:
  assumes "grid_ok C R g" and "selection_ordered sel = (b, e)" and "sp_row b \<le> r" and "r \<le> sp_row e"
  shows "copy_row sel g r = Some (trim_end (highlighted sel r (full_text g r)))"
proof (cases "sel_mode sel")
  case SelNormal
  have "selection_contains sel r c \<longleftrightarrow> (if r = sp_row b then sp_col b else 0) \<le> c \<and>
      c \<le> (if r = sp_row e then sp_col e else length (full_text g r) - 1)" if "c < length (full_text g r)" for c
    using assms that SelNormal by (auto simp: selection_contains_def)
  then show ?thesis
    using assms SelNormal by (simp add: copy_row_def row_full_text_eq highlighted_interval)
next
  case SelRectangular
  have "min (sp_col b) (min (sp_col (sel_start sel)) (sp_col (sel_end sel))) = min (sp_col b) (sp_col e)"
      "max (sp_col b) (max (sp_col (sel_start sel)) (sp_col (sel_end sel))) = max (sp_col b) (sp_col e)"
    using assms(2) by (auto simp: selection_ordered_def split: if_splits)
  moreover have "selection_contains sel r c \<longleftrightarrow> min (sp_col b) (sp_col e) \<le> c \<and> c \<le> max (sp_col b) (sp_col e)" for c
    using assms SelRectangular by (simp add: selection_contains_def Let_def)
  ultimately show ?thesis
    using assms SelRectangular by (simp add: copy_row_def row_full_text_eq highlighted_interval)
qed

lemma copy_rows:
  assumes "grid_ok C R g" and "selection_ordered sel = (b, e)"
  shows "sp_row b + n \<le> sp_row e \<Longrightarrow>
    foldM (\<lambda>out r. map_option (\<lambda>t. out @ t @ (if r < sp_row e then [0x0a] else [])) (copy_row sel g r))
      [sp_row b..<Suc (sp_row b + n)] []
    = Some (join_with 0x0a (map (\<lambda>r. trim_end (highlighted sel r (full_text g r))) [sp_row b..<Suc (sp_row b + n)]) @
        (if sp_row b + n < sp_row e then [0x0a] else []))"
proof (induction n)
  case 0
  then show ?case
    using copy_row_eq [OF assms, of "sp_row b"] by simp
next
  case (Suc n)
  have "[sp_row b..<Suc (sp_row b + Suc n)] = [sp_row b..<Suc (sp_row b + n)] @ [sp_row b + Suc n]"
    by simp
  then show ?case
    using Suc copy_row_eq [OF assms, of "sp_row b + Suc n"]
    by (simp add: foldM_append join_with_snoc del: upt_Suc)
qed

lemma selection_text_eq:
  assumes "grid_ok C R g" and "selection_ordered sel = (b, e)"
  shows "selection_text sel g = Some (join_with 0x0a
    (map (\<lambda>r. trim_end (highlighted sel r (full_text g r))) [sp_row b..<Suc (sp_row e)]))"
  using copy_rows [OF assms, of "sp_row e - sp_row b"] ordered_rows [OF assms(2)] assms(2)
  by (simp add: selection_text_def)

lemma selection_text_total: "grid_ok C R g \<Longrightarrow> selection_text sel g \<noteq> None"
  using selection_text_eq [of C R g sel] by (cases "selection_ordered sel") simp

text \<open>
  C20: the text copied from a selection is what \<open>contains\<close> highlights: of every row from the first to the
  last, the characters whose column the selection contains, without the blanks at the end, joined with
  newlines; in both modes, whichever way the selection was dragged, in the scrollback and the viewport.
\<close>
theorem copied_text_is_highlighted:
  assumes "grid_ok C R g" and "selection_ordered sel = (b, e)"
  shows "selection_text sel g = Some (join_with 0x0a
    (map (\<lambda>r. trim_end (highlighted sel r (full_text g r))) [sp_row b..<Suc (sp_row e)]))"
  using assms by (rule selection_text_eq)

theorem copied_text_is_highlighted_witness:
  "\<exists>t. selection_text (selection_extend (point_new 0 3) (selection_start (point_new 2 1) SelRectangular)) (grid_new 8 4) = Some t"
proof -
  have "grid_ok 8 4 (grid_new 8 4)"
    by (rule grid_ok_new)
  from copied_text_is_highlighted [OF this, of "selection_extend (point_new 0 3) (selection_start (point_new 2 1) SelRectangular)" "point_new 0 3" "point_new 2 1"]
  show ?thesis
    by (simp add: selection_ordered_def selection_extend_def selection_start_def point_new_def point_le_def)
qed

end
