(* ===== verification/Term_Hints.thy ===== *)
theory Term_Hints
  imports Term_Grid Emux_Find "HOL-Library.Product_Lexorder"
begin

text \<open>
  \<open>crates/emux-term/src/hints.rs\<close>: the patterns of hint mode. The five regular expressions are compiled by
  the \<open>regex\<close> crate: a record of functions from a text to the start and the end of each match. Offsets
  count characters.
\<close>

datatype hint_kind = HintUrl | HintFilePath | HintGitSha | HintIpAddress | HintEmail | HintNumber

record hint_match =
  hm_text :: "rchar list"
  hm_kind :: hint_kind
  hm_start_row :: nat
  hm_start_col :: nat
  hm_end_row :: nat
  hm_end_col :: nat

type_synonym finder = "rchar list \<Rightarrow> (nat \<times> nat) list"

record hint_regexes =
  re_url :: finder
  re_file_path :: finder
  re_git_sha :: finder
  re_ip_address :: finder
  re_email :: finder

type_synonym span = "nat \<times> nat \<times> rchar list"

definition matched :: "rchar list \<Rightarrow> nat \<times> nat \<Rightarrow> span" where
  "matched text m = (fst m, snd m, take (snd m - fst m) (drop (fst m) text))"

definition detect_urls :: "hint_regexes \<Rightarrow> rchar list \<Rightarrow> span list" where
  "detect_urls re text = map (matched text) (re_url re text)"

definition detect_file_paths :: "hint_regexes \<Rightarrow> rchar list \<Rightarrow> span list" where
  "detect_file_paths re text =
     filter (\<lambda>(s, e, t). take 2 t \<noteq> [0x2f, 0x2f]) (map (matched text) (re_file_path re text))"

definition is_digit :: "rchar \<Rightarrow> bool" where
  "is_digit c \<longleftrightarrow> 48 \<le> c \<and> c \<le> 57"

definition is_letter :: "rchar \<Rightarrow> bool" where
  "is_letter c \<longleftrightarrow> (65 \<le> c \<and> c \<le> 90) \<or> (97 \<le> c \<and> c \<le> 122)"

definition detect_git_shas :: "hint_regexes \<Rightarrow> rchar list \<Rightarrow> span list" where
  "detect_git_shas re text =
     filter (\<lambda>(s, e, t). list_ex is_digit t \<and> list_ex is_letter t) (map (matched text) (re_git_sha re text))"

definition detect_ip_addresses :: "hint_regexes \<Rightarrow> rchar list \<Rightarrow> span list" where
  "detect_ip_addresses re text = map (matched text) (re_ip_address re text)"

definition detect_emails :: "hint_regexes \<Rightarrow> rchar list \<Rightarrow> span list" where
  "detect_emails re text = map (matched text) (re_email re text)"

definition overlaps_any :: "nat \<Rightarrow> nat \<Rightarrow> (nat \<times> nat) list \<Rightarrow> bool" where
  "overlaps_any s e ranges \<longleftrightarrow> list_ex (\<lambda>(rs, re). s < re \<and> rs < e) ranges"

definition row_to_text :: "row \<Rightarrow> rchar list" where
  "row_to_text r = trim_end (cells_text (r_cells r))"

text \<open>\<open>byte_to_col\<close> counts the characters before an offset, which here is the offset itself.\<close>

definition hint_at :: "hint_kind \<Rightarrow> nat \<Rightarrow> span \<Rightarrow> hint_match" where
  "hint_at kind r sp =
     (let (s, e, t) = sp in
      \<lparr>hm_text = t, hm_kind = kind, hm_start_row = r, hm_start_col = s, hm_end_row = r, hm_end_col = e - 1\<rparr>)"

definition ranges_of :: "span list \<Rightarrow> (nat \<times> nat) list" where
  "ranges_of = map (\<lambda>(s, e, t). (s, e))"

definition outside :: "(nat \<times> nat) list \<Rightarrow> span \<Rightarrow> bool" where
  "outside ranges sp \<longleftrightarrow> (let (s, e, t) = sp in \<not> overlaps_any s e ranges)"

definition row_hints :: "hint_regexes \<Rightarrow> nat \<Rightarrow> rchar list \<Rightarrow> hint_match list" where
  "row_hints re r text =
     (let urls = detect_urls re text; emails = detect_emails re text;
          file_paths = detect_file_paths re text; git_shas = detect_git_shas re text;
          url_ranges = ranges_of urls; email_ranges = ranges_of emails; fp_ranges = ranges_of file_paths
      in map (hint_at HintUrl r) urls @
         map (hint_at HintEmail r) emails @
         map (hint_at HintIpAddress r) (filter (outside url_ranges) (detect_ip_addresses re text)) @
         map (hint_at HintFilePath r)
           (filter (\<lambda>sp. outside url_ranges sp \<and> outside email_ranges sp) file_paths) @
         map (hint_at HintGitSha r)
           (filter (\<lambda>sp. outside url_ranges sp \<and> outside email_ranges sp \<and> outside fp_ranges sp) git_shas))"

definition same_place :: "hint_match \<Rightarrow> hint_match \<Rightarrow> bool" where
  "same_place a b \<longleftrightarrow> hm_start_row a = hm_start_row b \<and> hm_start_col a = hm_start_col b \<and>
     hm_end_row a = hm_end_row b \<and> hm_end_col a = hm_end_col b"

text \<open>\<open>dedup_by\<close> removes an element that is the same as the last one kept.\<close>

fun dedup_by :: "('a \<Rightarrow> 'a \<Rightarrow> bool) \<Rightarrow> 'a list \<Rightarrow> 'a list" where
  "dedup_by same [] = []"
| "dedup_by same [x] = [x]"
| "dedup_by same (x # y # xs) = (if same y x then dedup_by same (x # xs) else x # dedup_by same (y # xs))"

definition detect_hints :: "hint_regexes \<Rightarrow> row list \<Rightarrow> hint_match list" where
  "detect_hints re rows =
     dedup_by same_place (sort_key (\<lambda>m. (hm_start_row m, hm_start_col m))
       (concat (map (\<lambda>(r, l). row_hints re r (row_to_text l)) (enumerate 0 rows))))"

definition hint_labels :: "rchar list" where
  "hint_labels = [97..<123] @ [65..<91]"

definition assign_labels :: "hint_match list \<Rightarrow> (rchar \<times> hint_match) list" where
  "assign_labels ms = zip hint_labels ms"

section \<open>Order, overlaps and labels\<close>

lemma set_dedup: "set (dedup_by same xs) \<subseteq> set xs"
  by (induction same xs rule: dedup_by.induct) auto

lemma sorted_dedup: "sorted (map f xs) \<Longrightarrow> sorted (map f (dedup_by same xs))"
proof (induction same xs rule: dedup_by.induct)
  case (3 same x y xs)
  have "f x \<le> f z" if "z \<in> set (dedup_by same (y # xs))" for z
    using that 3(3) set_dedup [of same "y # xs"] by auto
  with 3 show ?case
    by auto
qed simp_all

lemma overlaps_sym: "overlaps_any s e ranges \<longleftrightarrow> (\<exists>(s', e') \<in> set ranges. s < e' \<and> s' < e)"
  by (auto simp: overlaps_any_def list_ex_iff)

text \<open>
  The hints come by row and column; a path, a SHA or an address never lies on a URL of its row; labels
  are distinct and go to the first 52 hints.
\<close>

lemma hints_sorted: "sorted (map (\<lambda>m. (hm_start_row m, hm_start_col m)) (detect_hints re rows))"
  unfolding detect_hints_def by (rule sorted_dedup) simp

lemma row_hints_off_urls:
  assumes "m \<in> set (row_hints re r text)" and "hm_kind m \<notin> {HintUrl, HintEmail}" and "(s, e, t) \<in> set (detect_urls re text)"
  shows "\<exists>s' e'. hm_start_col m = s' \<and> hm_end_col m = e' - 1 \<and> (e' \<le> s \<or> e \<le> s')"
  using assms by (auto simp: row_hints_def Let_def hint_at_def outside_def ranges_of_def overlaps_sym not_less; fastforce)

lemma labels_distinct: "distinct (map fst (assign_labels ms)) \<and> map snd (assign_labels ms) = take 52 ms"
proof -
  have "distinct hint_labels" "length hint_labels = 52"
    by (auto simp: hint_labels_def)
  then show ?thesis
    by (simp add: assign_labels_def map_fst_zip_take map_snd_zip_take min.commute distinct_take) (metis min_def take_all_iff linorder_not_le nat_le_linear)
qed

end
