(* ===== verification/Mux_Domain.thy ===== *)
theory Mux_Domain
  imports Emux_Utf8 Emux_Find
begin

text \<open>
  \<open>crates/emux-mux/src/domain.rs\<close>: where a session runs, and the destination string of a remote one, with
  the round trip between the two. Strings are bytes.
\<close>

datatype domain =
    Local
  | Remote (dm_host: rstr) (dm_user: "rstr option") (dm_port: "u16 option")

datatype domain_parse_error = EmptyHost | EmptyUser | InvalidPort rstr

definition is_local :: "domain \<Rightarrow> bool" where
  "is_local d \<longleftrightarrow> d = Local"

definition is_remote :: "domain \<Rightarrow> bool" where
  "is_remote d \<longleftrightarrow> d \<noteq> Local"

definition destination :: "rstr \<Rightarrow> rstr option \<Rightarrow> u16 option \<Rightarrow> rstr" where
  "destination host user port =
     (case user of Some u \<Rightarrow> u @ [0x40] | None \<Rightarrow> []) @ host @
     (case port of Some p \<Rightarrow> 0x3a # show_nat (unat p) | None \<Rightarrow> [])"

definition ssh_destination :: "domain \<Rightarrow> rstr option" where
  "ssh_destination d = (case d of Local \<Rightarrow> None | Remote host user port \<Rightarrow> Some (destination host user port))"

definition show_domain :: "domain \<Rightarrow> rstr" where
  "show_domain d = (case d of Local \<Rightarrow> ascii ''local'' | Remote host user port \<Rightarrow> destination host user port)"

definition show_domain_error :: "domain_parse_error \<Rightarrow> rstr" where
  "show_domain_error e =
     (case e of
        EmptyHost \<Rightarrow> ascii ''host cannot be empty''
      | EmptyUser \<Rightarrow> ascii ''user cannot be empty''
      | InvalidPort s \<Rightarrow> ascii ''invalid port: '' @ s)"

definition split_user :: "rstr \<Rightarrow> domain_parse_error + rstr option \<times> rstr" where
  "split_user s =
     (case position (\<lambda>b. b = 0x40) s of
        Some i \<Rightarrow> if take i s = [] then Inl EmptyUser else Inr (Some (take i s), drop (i + 1) s)
      | None \<Rightarrow> Inr (None, s))"

definition split_port :: "rstr \<Rightarrow> domain_parse_error + rstr \<times> u16 option" where
  "split_port rest =
     (case rposition (\<lambda>b. b = 0x3a) rest of
        Some i \<Rightarrow>
          (case parse_unsigned (2 ^ 16) 10 (drop (i + 1) rest) of
             Some p \<Rightarrow> Inr (take i rest, Some (of_nat p))
           | None \<Rightarrow> Inl (InvalidPort (drop (i + 1) rest)))
      | None \<Rightarrow> Inr (rest, None))"

definition parse_remote :: "rstr \<Rightarrow> domain_parse_error + domain" where
  "parse_remote s =
     (if s = [] then Inl EmptyHost
      else case split_user s of
          Inl e \<Rightarrow> Inl e
        | Inr (user, rest) \<Rightarrow>
            (case split_port rest of
               Inl e \<Rightarrow> Inl e
             | Inr (host, port) \<Rightarrow> if host = [] then Inl EmptyHost else Inr (Remote host user port)))"

section \<open>The round trip\<close>

text \<open>The remote domains a destination string can name.\<close>

fun nameable :: "domain \<Rightarrow> bool" where
  "nameable Local = False"
| "nameable (Remote host user port) \<longleftrightarrow> host \<noteq> [] \<and>
     (case user of Some u \<Rightarrow> u \<noteq> [] \<and> 0x40 \<notin> set u | None \<Rightarrow> 0x40 \<notin> set host) \<and>
     (port = None \<longrightarrow> 0x3a \<notin> set host)"

lemma show_nat_no: "b \<in> {0x3a, 0x40, 43} \<Longrightarrow> b \<notin> set (show_nat n)"
  using show_nat_digits [of b n] by auto

lemma parse_port: "parse_unsigned (2 ^ 16) 10 (show_nat (unat p)) = Some (unat p)" for p :: u16
proof -
  have "case show_nat (unat p) of [] \<Rightarrow> True | b # r \<Rightarrow> b \<noteq> 43"
    using show_nat_no [of 43 "unat p"] by (auto split: list.split)
  then show ?thesis
    using digits_val_show_nat [of "unat p"] unsigned_less [of p, where ?'a = nat]
    by (auto simp: parse_unsigned_def Let_def split: list.splits)
qed

lemma split_port_destination:
  "port = None \<longrightarrow> 0x3a \<notin> set host \<Longrightarrow>
   split_port (host @ (case port of Some p \<Rightarrow> 0x3a # show_nat (unat p) | None \<Rightarrow> [])) = Inr (host, port)"
proof (cases port)
  case None
  assume "port = None \<longrightarrow> 0x3a \<notin> set host"
  then have "rposition (\<lambda>b. b = 0x3a) host = None"
    using None by (auto simp: rposition_None)
  with None show ?thesis
    by (simp add: split_port_def)
next
  case (Some p)
  then show ?thesis
    using parse_port [of p] rposition_append [of "0x3a" "show_nat (unat p)" host] by (simp add: split_port_def show_nat_no)
qed

lemma destination_roundtrip:
  assumes "nameable (Remote host user port)"
  shows "parse_remote (destination host user port) = Inr (Remote host user port)"
proof -
  let ?rest = "host @ (case port of Some p \<Rightarrow> 0x3a # show_nat (unat p) | None \<Rightarrow> [])"
  have port: "split_port ?rest = Inr (host, port)"
    using assms by (intro split_port_destination) simp
  have "split_user (destination host user port) = Inr (user, ?rest)"
  proof (cases user)
    case None
    then have "\<forall>b \<in> set ?rest. b \<noteq> 0x40"
      using assms show_nat_no by (auto split: option.splits)
    then have "position (\<lambda>b. b = 0x40) ?rest = None"
      by (simp add: position_None)
    then show ?thesis
      using None by (simp add: split_user_def destination_def)
  next
    case (Some u)
    then show ?thesis
      using assms position_append [of "0x40" u ?rest] by (simp add: split_user_def destination_def)
  qed
  then show ?thesis
    using port assms by (auto simp: parse_remote_def destination_def)
qed

lemma parsed_nameable: "parse_remote s = Inr d \<Longrightarrow> nameable d"
  by (auto simp: parse_remote_def split_user_def split_port_def position_None rposition_None
      split: if_splits option.splits sum.splits prod.splits
      dest!: position_split in_set_takeD)

text \<open>
  Destinations round trip: the string of a remote domain names that domain again, if it has a host, no
  empty user, and no separator inside its parts; every domain the parser returns is such a one, so
  parsing is a projection.
\<close>
theorem domain_roundtrip:
  "(nameable d \<longrightarrow> (\<exists>s. ssh_destination d = Some s \<and> parse_remote s = Inr d)) \<and>
   (parse_remote t = Inr d \<longrightarrow> (\<exists>s. ssh_destination d = Some s \<and> parse_remote s = Inr d))"
proof -
  have "nameable d \<longrightarrow> (\<exists>s. ssh_destination d = Some s \<and> parse_remote s = Inr d)"
    by (cases d) (auto simp: ssh_destination_def destination_roundtrip simp del: nameable.simps(2))
  then show ?thesis
    using parsed_nameable by blast
qed

theorem domain_roundtrip_witness:
  "parse_remote (the (ssh_destination (Remote (ascii ''h'') (Some (ascii ''u'')) (Some 22)))) =
     Inr (Remote (ascii ''h'') (Some (ascii ''u'')) (Some 22))"
  using domain_roundtrip [of "Remote (ascii ''h'') (Some (ascii ''u'')) (Some 22)" "[]"]
  by (auto simp: ascii_def byte_def)

text \<open>An IPv6 address without a port is taken apart at its last colon.\<close>

lemma ipv6_refused: "parse_remote (ascii ''fe80::a'') = Inl (InvalidPort (ascii ''a''))"
  by (simp add: parse_remote_def split_user_def split_port_def rposition_def ascii_def byte_def parse_unsigned_def
      digit_val_def Let_def)

end
