(* ===== verification/Mux_Template.thy ===== *)
theory Mux_Template
  imports Mux_Session Emux_Find
begin

text \<open>
  \<open>crates/emux-mux/src/layout_template.rs\<close> and \<open>project.rs\<close>: project layout templates, the git repository a
  directory is in, and the walks up the directories that find them. The TOML library and the file system are
  arguments: \<open>from_str\<close> and \<open>to_string\<close> of the one, \<open>read\<close> of the other, which gives the text of a file or the
  error. A path is its components.
\<close>

datatype split_dir = DirHorizontal | DirVertical

record pane_template =
  pl_command :: "rstr option"
  pl_cwd :: "rstr option"
  pl_split :: split_dir
  pl_size :: "u16 option"
  pl_title :: "rstr option"

record layout_template =
  lt_name :: rstr
  lt_panes :: "pane_template list"

definition default_split :: split_dir where
  "default_split = DirHorizontal"

definition TEMPLATE_FILENAME :: rstr where
  "TEMPLATE_FILENAME = ascii ''.emux.toml''"

type_synonym path = "rstr list"

definition show_path :: "path \<Rightarrow> rstr" where
  "show_path p = concat (map (\<lambda>c. 0x2f # c) p)"

definition parse_template :: "(rstr \<Rightarrow> rstr + layout_template) \<Rightarrow> rstr \<Rightarrow> rstr + layout_template" where
  "parse_template from_str s =
     (case from_str s of Inl e \<Rightarrow> Inl (ascii ''TOML parse error: '' @ e) | Inr t \<Rightarrow> Inr t)"

definition load_template ::
  "(rstr \<Rightarrow> rstr + layout_template) \<Rightarrow> (path \<Rightarrow> rstr + rstr) \<Rightarrow> path \<Rightarrow> rstr + layout_template" where
  "load_template from_str read p =
     (case read p of
        Inl e \<Rightarrow> Inl (ascii ''failed to read '' @ show_path p @ ascii '': '' @ e)
      | Inr content \<Rightarrow> parse_template from_str content)"

text \<open>What one directory holds: a template that is a file and loads.\<close>

definition template_in ::
  "(rstr \<Rightarrow> rstr + layout_template) \<Rightarrow> (path \<Rightarrow> rstr + rstr) \<Rightarrow> (path \<Rightarrow> bool) \<Rightarrow> path \<Rightarrow> (path \<times> layout_template) option" where
  "template_in from_str read is_file dir =
     (let candidate = dir @ [TEMPLATE_FILENAME] in
      if is_file candidate
      then (case load_template from_str read candidate of Inr t \<Rightarrow> Some (candidate, t) | Inl e \<Rightarrow> None)
      else None)"

function find_project_template ::
  "(rstr \<Rightarrow> rstr + layout_template) \<Rightarrow> (path \<Rightarrow> rstr + rstr) \<Rightarrow> (path \<Rightarrow> bool) \<Rightarrow> path \<Rightarrow> (path \<times> layout_template) option" where
  "find_project_template from_str read is_file dir =
     (case template_in from_str read is_file dir of
        Some r \<Rightarrow> Some r
      | None \<Rightarrow> if dir = [] then None else find_project_template from_str read is_file (butlast dir))"
  by pat_completeness auto
termination
  by (relation "measure (\<lambda>(f, r, i, dir). length dir)") auto

declare find_project_template.simps [simp del]

definition save_template ::
  "(layout_template \<Rightarrow> rstr + rstr) \<Rightarrow> (path \<Rightarrow> rstr \<Rightarrow> rstr option) \<Rightarrow> layout_template \<Rightarrow> path \<Rightarrow> rstr + unit" where
  "save_template to_string write t p =
     (case to_string t of
        Inl e \<Rightarrow> Inl (ascii ''serialization error: '' @ e)
      | Inr content \<Rightarrow>
          (case write p content of
             Some e \<Rightarrow> Inl (ascii ''failed to write '' @ show_path p @ ascii '': '' @ e)
           | None \<Rightarrow> Inr ()))"

section \<open>The project of a directory\<close>

text \<open>\<open>exists\<close>, \<open>is_file\<close> and \<open>is_dir\<close> of the file system; \<open>pop\<close> fails on the root.\<close>

function git_root_from :: "(path \<Rightarrow> bool) \<Rightarrow> path \<Rightarrow> path option" where
  "git_root_from exist current =
     (if exist (current @ [ascii ''.git'']) then Some current
      else if current = [] then None else git_root_from exist (butlast current))"
  by pat_completeness auto
termination
  by (relation "measure (\<lambda>(e, current). length current)") auto

declare git_root_from.simps [simp del]

definition find_git_root :: "(path \<Rightarrow> bool) \<Rightarrow> (path \<Rightarrow> bool) \<Rightarrow> path \<Rightarrow> path option" where
  "find_git_root is_file exist start =
     (if is_file start then (if start = [] then None else git_root_from exist (butlast start))
      else git_root_from exist start)"

definition read_git_branch :: "(path \<Rightarrow> rstr + rstr) \<Rightarrow> path \<Rightarrow> rstr option" where
  "read_git_branch read git_dir =
     (case read (git_dir @ [ascii ''HEAD'']) of
        Inl e \<Rightarrow> None
      | Inr contents \<Rightarrow>
          let trimmed = trim_text (utf8_chars contents) in
          (case strip_prefix (utf8_chars (ascii ''ref: '')) trimmed of
             Some ref_target \<Rightarrow>
               map_option (\<lambda>b. concat (map utf8_encode b)) (strip_prefix (utf8_chars (ascii ''refs/heads/'')) ref_target)
           | None \<Rightarrow> None))"

text \<open>\<open>file_name\<close> is none for the root and for \<open>..\<close>, \<open>to_str\<close> for bytes that are no UTF-8.\<close>

definition file_name_str :: "path \<Rightarrow> rstr option" where
  "file_name_str p =
     (if p = [] \<or> last p = ascii ''..'' \<or> \<not> utf8_valid (last p) then None else Some (last p))"

definition detect_project ::
  "(path \<Rightarrow> bool) \<Rightarrow> (path \<Rightarrow> bool) \<Rightarrow> (path \<Rightarrow> bool) \<Rightarrow> (path \<Rightarrow> rstr + rstr) \<Rightarrow> path \<Rightarrow> project_info option" where
  "detect_project is_file is_dir exist read cwd =
     (case find_git_root is_file exist cwd of
        None \<Rightarrow> None
      | Some dir \<Rightarrow>
          (case file_name_str dir of
             None \<Rightarrow> None
           | Some name \<Rightarrow>
               let git_dir = dir @ [ascii ''.git''] in
               Some \<lparr>pj_root = show_path dir, pj_name = name,
                 pj_branch = (if is_dir git_dir then read_git_branch read git_dir else None)\<rparr>))"

section \<open>The nearest directory\<close>

text \<open>Both walks return what the nearest directory has, upwards from the start, that has anything.\<close>

definition nearest_up :: "('p list \<Rightarrow> 'r option) \<Rightarrow> 'p list \<Rightarrow> 'r option" where
  "nearest_up has dir =
     (case filter (\<lambda>n. has (take n dir) \<noteq> None) (rev [0..<Suc (length dir)]) of
        [] \<Rightarrow> None
      | n # _ \<Rightarrow> has (take n dir))"

lemma nearest_Nil [simp]: "nearest_up has [] = has []"
  by (cases "has []") (simp_all add: nearest_up_def)

lemma nearest_snoc [simp]: "nearest_up has (dir @ [c]) = (case has (dir @ [c]) of Some r \<Rightarrow> Some r | None \<Rightarrow> nearest_up has dir)"
proof -
  have here: "filter (\<lambda>n. has (take n (dir @ [c])) \<noteq> None) (rev [0..<Suc (length dir)]) =
      filter (\<lambda>n. has (take n dir) \<noteq> None) (rev [0..<Suc (length dir)])"
    by (intro filter_cong) auto
  have "n \<le> length dir" if "filter (\<lambda>n. has (take n dir) \<noteq> None) (rev [0..<Suc (length dir)]) = n # ns" for n ns
  proof -
    have "n \<in> set (filter (\<lambda>n. has (take n dir) \<noteq> None) (rev [0..<Suc (length dir)]))"
      unfolding that by simp
    then show ?thesis
      by (auto split: if_splits)
  qed
  then show ?thesis
    unfolding nearest_up_def length_append_singleton upt_Suc_append [OF le0, of "Suc (length dir)"] rev_append filter_append here
    by (auto simp del: upt_Suc split: option.split list.split)
qed

lemma find_project_template_nearest:
  "find_project_template from_str read is_file dir = nearest_up (template_in from_str read is_file) dir"
proof (induction dir rule: rev_induct)
  case Nil
  show ?case
    by (subst find_project_template.simps) (simp split: option.split)
next
  case (snoc c dir)
  then show ?case
    by (subst find_project_template.simps) (simp split: option.split)
qed

lemma git_root_nearest:
  "git_root_from exist dir = nearest_up (\<lambda>d. if exist (d @ [ascii ''.git'']) then Some d else None) dir"
proof (induction dir rule: rev_induct)
  case Nil
  show ?case
    by (subst git_root_from.simps) simp
next
  case (snoc c dir)
  then show ?case
    by (subst git_root_from.simps) simp
qed

end
