(* ===== verification/Mux_Search.thy ===== *)
theory Mux_Search
  imports Mux_Session Mux_Floating Emux_Find
begin

text \<open>
  \<open>crates/emux-mux/src/search.rs\<close>: search in the scrollback of every pane of a session. Lines are bytes; a
  match of a query in them begins and ends between characters, and its column counts characters. The
  \<open>regex\<close> crate is the argument \<open>regex_new\<close>: \<open>None\<close> for an invalid pattern, or the matches of a text.
\<close>

record search_line_result =
  slr_row :: nat
  slr_col :: nat
  slr_matched_text :: rstr
  slr_line_content :: rstr

record global_search_result =
  gsr_pane_id :: pane_id
  gsr_pane_title :: rstr
  gsr_tab_index :: nat
  gsr_row :: nat
  gsr_col :: nat
  gsr_matched_text :: rstr
  gsr_line_content :: rstr

type_synonym byte_regex = "rstr \<Rightarrow> (rstr \<Rightarrow> (nat \<times> nat) list) option"

definition char_count :: "rstr \<Rightarrow> nat" where
  "char_count s = length (utf8_chars s)"

definition line_results :: "rstr \<Rightarrow> nat \<Rightarrow> rstr \<Rightarrow> search_line_result list option" where
  "line_results query r line =
     map_option (map (\<lambda>off. \<lparr>slr_row = r, slr_col = char_count (take off line), slr_matched_text = query, slr_line_content = line\<rparr>))
       (match_offsets query line 0)"

definition search_lines_plain :: "rstr list \<Rightarrow> rstr \<Rightarrow> search_line_result list option" where
  "search_lines_plain lines query =
     foldM (\<lambda>out (r, line). map_option ((@) out) (line_results query r line)) (enumerate 0 lines) []"

definition search_lines_regex :: "byte_regex \<Rightarrow> rstr list \<Rightarrow> rstr \<Rightarrow> search_line_result list" where
  "search_lines_regex regex_new lines pattern =
     (case regex_new pattern of
        None \<Rightarrow> []
      | Some re \<Rightarrow> concat (map (\<lambda>(r, line).
          map (\<lambda>(s, e). \<lparr>slr_row = r, slr_col = char_count (take s line),
              slr_matched_text = take (e - s) (drop s line), slr_line_content = line\<rparr>) (re line)) (enumerate 0 lines)))"

definition search_lines :: "byte_regex \<Rightarrow> rstr list \<Rightarrow> rstr \<Rightarrow> bool \<Rightarrow> search_line_result list option" where
  "search_lines regex_new lines query regex =
     (if query = [] \<or> lines = [] then Some []
      else if regex then Some (search_lines_regex regex_new lines query)
      else search_lines_plain lines query)"

text \<open>\<open>str::lines\<close>: a carriage return before the newline belongs to the line end; no empty last line.\<close>

definition strip_cr :: "rstr \<Rightarrow> rstr" where
  "strip_cr l = (if l \<noteq> [] \<and> last l = 0x0d then butlast l else l)"

definition str_lines :: "rstr \<Rightarrow> rstr list" where
  "str_lines s =
     (let parts = split_on 0x0a s in map strip_cr (butlast parts) @ (if last parts = [] then [] else [last parts]))"

definition search_text :: "byte_regex \<Rightarrow> rstr \<Rightarrow> rstr \<Rightarrow> bool \<Rightarrow> (nat \<times> nat \<times> rstr) list option" where
  "search_text regex_new text query regex =
     (if query = [] \<or> text = [] then Some []
      else map_option (map (\<lambda>r. (slr_row r, slr_col r, slr_matched_text r)))
        (search_lines regex_new (str_lines text) query regex))"

definition global_result :: "pane_id \<Rightarrow> pane \<Rightarrow> nat \<Rightarrow> search_line_result \<Rightarrow> global_search_result" where
  "global_result i p tab_index m =
     \<lparr>gsr_pane_id = i, gsr_pane_title = pn_title p, gsr_tab_index = tab_index, gsr_row = slr_row m, gsr_col = slr_col m,
      gsr_matched_text = slr_matched_text m, gsr_line_content = slr_line_content m\<rparr>"

definition search_pane ::
  "byte_regex \<Rightarrow> rstr \<Rightarrow> bool \<Rightarrow> nat \<Rightarrow> pane_id \<times> pane option \<Rightarrow> global_search_result list option" where
  "search_pane regex_new query regex tab_index ip =
     (case snd ip of
        None \<Rightarrow> Some []
      | Some p \<Rightarrow> map_option (map (global_result (fst ip) p tab_index)) (search_lines regex_new (pn_scrollback p) query regex))"

text \<open>The tiled panes of a tab in layout order, then the floating ones.\<close>

definition searched_panes :: "tab \<Rightarrow> (pane_id \<times> pane option) list" where
  "searched_panes t =
     map (\<lambda>i. (i, tab_pane i t)) (tab_pane_ids t) @
     map (\<lambda>i. (i, map_option fp_pane (find_floating i t))) (floating_pane_ids t)"

definition search_tab :: "byte_regex \<Rightarrow> rstr \<Rightarrow> bool \<Rightarrow> nat \<times> tab \<Rightarrow> global_search_result list option" where
  "search_tab regex_new query regex it =
     foldM (\<lambda>out ip. map_option ((@) out) (search_pane regex_new query regex (fst it) ip)) (searched_panes (snd it)) []"

definition search_session :: "byte_regex \<Rightarrow> session \<Rightarrow> rstr \<Rightarrow> bool \<Rightarrow> global_search_result list option" where
  "search_session regex_new s query regex =
     (if query = [] then Some []
      else foldM (\<lambda>out it. map_option ((@) out) (search_tab regex_new query regex it)) (enumerate 0 (ss_tabs s)) [])"

section \<open>What a search returns\<close>

text \<open>Collecting the results of a total search is concatenation.\<close>

lemma collect_total: "(\<And>x. x \<in> set xs \<Longrightarrow> f x = Some (g x)) \<Longrightarrow> foldM (\<lambda>out x. map_option ((@) out) (f x)) xs out = Some (out @ concat (map g xs))"
  by (induction xs arbitrary: out) auto

definition line_hits :: "rstr \<Rightarrow> nat \<Rightarrow> rstr \<Rightarrow> search_line_result list" where
  "line_hits q r line = the (line_results q r line)"

lemma line_results_total: "q \<noteq> [] \<Longrightarrow> line_results q r line = Some (line_hits q r line)"
  using match_offsets_all [of q 0 line] by (auto simp: line_hits_def line_results_def returns_iff)

lemma plain_hits:
  assumes "q \<noteq> []"
  shows "search_lines rx lines q False = Some (concat (map (\<lambda>(r, line). line_hits q r line) (enumerate 0 lines)))"
  using assms collect_total [of "enumerate 0 lines" "\<lambda>(r, line). line_results q r line" "\<lambda>(r, line). line_hits q r line" "[]"]
  by (auto simp: search_lines_def search_lines_plain_def line_results_total case_prod_unfold)

definition pane_hits :: "rstr \<Rightarrow> nat \<Rightarrow> pane_id \<times> pane option \<Rightarrow> global_search_result list" where
  "pane_hits q k ip =
     (case snd ip of None \<Rightarrow> []
      | Some p \<Rightarrow> map (global_result (fst ip) p k) (concat (map (\<lambda>(r, line). line_hits q r line) (enumerate 0 (pn_scrollback p)))))"

lemma session_hits:
  assumes "q \<noteq> []"
  shows "search_session rx s q False =
    Some (concat (map (\<lambda>(k, t). concat (map (pane_hits q k) (searched_panes t))) (enumerate 0 (ss_tabs s))))"
proof -
  have "search_pane rx q False k ip = Some (pane_hits q k ip)" for k ip
    using plain_hits [OF assms] by (simp add: search_pane_def pane_hits_def split: option.split)
  then have "search_tab rx q False it = Some (concat (map (pane_hits q (fst it)) (searched_panes (snd it))))" for it
    using collect_total [of "searched_panes (snd it)" "search_pane rx q False (fst it)" "pane_hits q (fst it)" "[]"]
    by (simp add: search_tab_def)
  then show ?thesis
    using assms collect_total [of "enumerate 0 (ss_tabs s)" "search_tab rx q False"
        "\<lambda>it. concat (map (pane_hits q (fst it)) (searched_panes (snd it)))" "[]"]
    by (simp add: search_session_def case_prod_unfold)
qed

end
