(* ===== verification/Config_Types.thy ===== *)
theory Config_Types
  imports Emux_Float Emux_Utf8 Emux_Find "HOL-Library.AList"
begin

text \<open>
  \<open>crates/emux-config\<close>: the options, the theme and the key bindings with their defaults, and the merge of
  a partial configuration into them. A TOML value is a datatype with the constructors of the \<open>toml\<close> crate;
  its parser, and the conversions between values and a \<open>Config\<close>, are arguments.
\<close>

section \<open>Keys, theme and options\<close>

record key_bindings =
  kb_split_down :: rstr
  kb_split_right :: rstr
  kb_close_pane :: rstr
  kb_focus_up :: rstr
  kb_focus_down :: rstr
  kb_focus_left :: rstr
  kb_focus_right :: rstr
  kb_new_tab :: rstr
  kb_close_tab :: rstr
  kb_next_tab :: rstr
  kb_prev_tab :: rstr
  kb_detach :: rstr
  kb_search :: rstr
  kb_toggle_fullscreen :: rstr
  kb_toggle_float :: rstr
  kb_copy_mode :: rstr
  kb_scroll_up :: rstr
  kb_scroll_down :: rstr

definition key_bindings_default :: key_bindings where
  "key_bindings_default =
     \<lparr>kb_split_down = ascii ''Leader+D'', kb_split_right = ascii ''Leader+R'', kb_close_pane = ascii ''Leader+X'',
      kb_focus_up = ascii ''Leader+Up'', kb_focus_down = ascii ''Leader+Down'', kb_focus_left = ascii ''Leader+Left'',
      kb_focus_right = ascii ''Leader+Right'', kb_new_tab = ascii ''Leader+T'', kb_close_tab = ascii ''Leader+W'',
      kb_next_tab = ascii ''Leader+N'', kb_prev_tab = ascii ''Leader+P'', kb_detach = ascii ''Leader+Q'',
      kb_search = ascii ''Leader+/'', kb_toggle_fullscreen = ascii ''Leader+F'', kb_toggle_float = ascii ''Leader+G'',
      kb_copy_mode = ascii ''Leader+['', kb_scroll_up = ascii ''Leader+PageUp'', kb_scroll_down = ascii ''Leader+PageDown''\<rparr>"

record theme =
  th_background :: rstr
  th_foreground :: rstr
  th_cursor :: rstr
  th_selection_bg :: rstr
  th_colors :: "rstr list"
  th_statusbar_bg :: rstr
  th_accent :: rstr
  th_border_active :: rstr
  th_border_inactive :: rstr
  th_powerline :: bool

definition default_statusbar_bg :: rstr where
  "default_statusbar_bg = ascii ''#080808''"

definition default_accent :: rstr where
  "default_accent = ascii ''#00AFFF''"

definition default_border_active :: rstr where
  "default_border_active = ascii ''#00AFFF''"

definition default_border_inactive :: rstr where
  "default_border_inactive = ascii ''#303030''"

definition default_powerline :: bool where
  "default_powerline = True"

definition theme_default :: theme where
  "theme_default =
     \<lparr>th_background = ascii ''#282C34'', th_foreground = ascii ''#ABB2BF'', th_cursor = ascii ''#528BFF'',
      th_selection_bg = ascii ''#3E4451'',
      th_colors = map ascii [''#1D1F21'', ''#CC6666'', ''#B5BD68'', ''#F0C674'', ''#81A2BE'', ''#B294BB'', ''#8ABEB7'', ''#C5C8C6'',
        ''#666666'', ''#D54E53'', ''#B9CA4A'', ''#E7C547'', ''#7AA6DA'', ''#C397D8'', ''#70C0B1'', ''#EAEAEA''],
      th_statusbar_bg = default_statusbar_bg, th_accent = default_accent, th_border_active = default_border_active,
      th_border_inactive = default_border_inactive, th_powerline = default_powerline\<rparr>"

record config =
  cf_theme :: theme
  cf_keys :: key_bindings
  cf_font_size :: f32
  cf_font_family :: "rstr option"
  cf_scrollback_limit :: nat
  cf_tab_width :: nat
  cf_cursor_shape :: rstr
  cf_cursor_blink :: bool
  cf_bold_is_bright :: bool

definition config_default :: config where
  "config_default =
     \<lparr>cf_theme = theme_default, cf_keys = key_bindings_default, cf_font_size = FVal 14, cf_font_family = None,
      cf_scrollback_limit = 10000, cf_tab_width = 8, cf_cursor_shape = ascii ''block'', cf_cursor_blink = True,
      cf_bold_is_bright = False\<rparr>"

section \<open>Merging\<close>

datatype toml =
    TString rstr
  | TInteger int
  | TFloat f32
  | TBoolean bool
  | TDatetime rstr
  | TArray "toml list"
  | TTable "(rstr \<times> toml) list"

lemma toml_member_size [termination_simp]: "(k, v) \<in> set ov \<Longrightarrow> size v < Suc (size_list (size_prod (\<lambda>x. 0) size) ov)"
  by (induction ov) auto

fun deep_merge :: "toml \<Rightarrow> toml \<Rightarrow> toml" where
  "deep_merge (TTable b) (TTable ov) =
     TTable (fold (\<lambda>(k, v) m. AList.update k (case map_of m k of Some w \<Rightarrow> deep_merge w v | None \<Rightarrow> v) m) ov b)"
| "deep_merge b ov = ov"

definition merge_with_defaults :: "(config \<Rightarrow> toml) \<Rightarrow> (toml \<Rightarrow> config option) \<Rightarrow> toml \<Rightarrow> config" where
  "merge_with_defaults try_from try_into partial =
     (case try_into (deep_merge (try_from config_default) partial) of Some c \<Rightarrow> c | None \<Rightarrow> config_default)"

section \<open>Loading\<close>

datatype config_error = ConfigIo rstr | ConfigParse rstr

record config_library =
  cl_from_str :: "rstr \<Rightarrow> rstr + toml"
  cl_try_from :: "config \<Rightarrow> toml"
  cl_try_into :: "toml \<Rightarrow> config option"
  cl_read :: "rstr \<Rightarrow> rstr + rstr"

definition show_config_error :: "config_error \<Rightarrow> rstr" where
  "show_config_error e =
     (case e of ConfigIo m \<Rightarrow> ascii ''IO error: '' @ m | ConfigParse m \<Rightarrow> ascii ''TOML parse error: '' @ m)"

definition config_path :: "rstr option \<Rightarrow> rstr option" where
  "config_path home =
     map_option (\<lambda>h. path_join (path_join (path_join h (ascii ''.config'')) (ascii ''emux'')) (ascii ''config.toml'')) home"

text \<open>\<open>str::trim\<close> of the content is part of what the parser is given.\<close>

definition trim_bytes :: "rstr \<Rightarrow> rstr" where
  "trim_bytes s = concat (map utf8_encode (trim_text (utf8_chars s)))"

definition load_from_path :: "config_library \<Rightarrow> rstr \<Rightarrow> config_error + config" where
  "load_from_path lib p =
     (case cl_read lib p of
        Inl e \<Rightarrow> Inl (ConfigIo e)
      | Inr content \<Rightarrow>
          (case cl_from_str lib (trim_bytes content) of
             Inl e \<Rightarrow> Inl (ConfigParse e)
           | Inr v \<Rightarrow> Inr (merge_with_defaults (cl_try_from lib) (cl_try_into lib) v)))"

definition load_config :: "config_library \<Rightarrow> rstr option \<Rightarrow> (rstr \<Rightarrow> bool) \<Rightarrow> config" where
  "load_config lib home exists =
     (case config_path home of
        None \<Rightarrow> config_default
      | Some p \<Rightarrow>
          if \<not> exists p then config_default
          else (case load_from_path lib p of Inr c \<Rightarrow> c | Inl e \<Rightarrow> config_default))"

text \<open>The watcher; \<open>mtime\<close> is the modification time of the file now, \<open>None\<close> if there is none.\<close>

record config_watcher =
  cw_path :: rstr
  cw_last_mtime :: "nat option"

definition watcher_new :: "rstr \<Rightarrow> nat option \<Rightarrow> config_watcher" where
  "watcher_new p mtime = \<lparr>cw_path = p, cw_last_mtime = mtime\<rparr>"

definition watcher_for_default_path :: "rstr option \<Rightarrow> (rstr \<Rightarrow> nat option) \<Rightarrow> config_watcher option" where
  "watcher_for_default_path home mtime_of = map_option (\<lambda>p. watcher_new p (mtime_of p)) (config_path home)"

definition watcher_check :: "config_library \<Rightarrow> nat option \<Rightarrow> config_watcher \<Rightarrow> config option \<times> config_watcher" where
  "watcher_check lib mtime w =
     (let changed = (case (cw_last_mtime w, mtime) of
                       (Some prev, Some cur) \<Rightarrow> cur \<noteq> prev
                     | (None, Some _) \<Rightarrow> True
                     | _ \<Rightarrow> False)
      in if changed then
           ((case load_from_path lib (cw_path w) of Inr c \<Rightarrow> Some c | Inl e \<Rightarrow> None), w\<lparr>cw_last_mtime := mtime\<rparr>)
         else (None, w))"

section \<open>What a merge keeps\<close>

text \<open>The value at a path of keys.\<close>

fun toml_get :: "rstr list \<Rightarrow> toml \<Rightarrow> toml option" where
  "toml_get [] v = Some v"
| "toml_get (k # ks) (TTable m) = Option.bind (map_of m k) (toml_get ks)"
| "toml_get (k # ks) _ = None"

text \<open>A table names every key once, at every depth.\<close>

fun toml_wf :: "toml \<Rightarrow> bool" where
  "toml_wf (TTable m) \<longleftrightarrow> distinct (map fst m) \<and> (\<forall>(k, v) \<in> set m. toml_wf v)"
| "toml_wf _ = True"

lemma merged_lookup:
  "distinct (map fst ov) \<Longrightarrow>
   map_of (fold (\<lambda>(k, v) m. AList.update k (case map_of m k of Some w \<Rightarrow> f w v | None \<Rightarrow> v) m) ov b) k =
     (case map_of ov k of
        None \<Rightarrow> map_of b k
      | Some v \<Rightarrow> Some (case map_of b k of Some w \<Rightarrow> f w v | None \<Rightarrow> v))"
proof (induction ov arbitrary: b)
  case (Cons a ov)
  obtain l v where a: "a = (l, v)"
    by (cases a)
  show ?case
  proof (cases "k = l")
    case True
    then have "map_of ov k = None"
      using Cons.prems a by (simp add: map_of_eq_None_iff)
    then show ?thesis
      using Cons a True by (simp add: update_conv' split: option.split)
  next
    case False
    then show ?thesis
      using Cons a by (auto simp: update_conv' split: option.split)
  qed
qed simp

definition is_table :: "toml \<Rightarrow> bool" where
  "is_table v \<longleftrightarrow> (case v of TTable _ \<Rightarrow> True | _ \<Rightarrow> False)"

lemma deep_merge_leaf: "\<not> is_table b \<or> \<not> is_table ov \<Longrightarrow> deep_merge b ov = ov"
  by (cases b; cases ov) (simp_all add: is_table_def)

text \<open>The value that a merge has at a path, in one and in two tables.\<close>

definition merged_at :: "rstr list \<Rightarrow> toml \<Rightarrow> toml \<Rightarrow> bool" where
  "merged_at p b ov \<longleftrightarrow>
    (\<forall>v. toml_get p ov = Some v \<and> \<not> is_table v \<longrightarrow> toml_get p (deep_merge b ov) = Some v) \<and>
    (\<forall>q k ks m. p = q @ k # ks \<and> toml_get q ov = Some (TTable m) \<and> map_of m k = None \<and>
        (\<exists>n. toml_get q b = Some (TTable n)) \<longrightarrow> toml_get p (deep_merge b ov) = toml_get p b)"

lemma merged_at_no_table:
  assumes "\<not> (is_table b \<and> is_table ov)"
  shows "merged_at (x # xs) b ov"
proof (cases "is_table ov")
  case False
  then have "toml_get (x # xs) ov = None" "\<And>q k ks m. \<not> (x # xs = q @ k # ks \<and> toml_get q ov = Some (TTable m))"
    by (cases ov; force simp: Cons_eq_append_conv is_table_def)+
  then show ?thesis
    unfolding merged_at_def by (metis option.distinct(1))
next
  case True
  then have b: "\<not> is_table b"
    using assms by blast
  then have "toml_get q b \<noteq> Some (TTable n)" for q n
    by (cases q; cases b) (auto simp: is_table_def)
  then show ?thesis
    using b by (auto simp: merged_at_def deep_merge_leaf)
qed

lemma merged_at_table:
  assumes "distinct (map fst o')" and "\<And>v w. map_of o' x = Some v \<Longrightarrow> merged_at xs w v"
  shows "merged_at (x # xs) (TTable n) (TTable o')"
proof -
  have here: "toml_get (x # xs) (deep_merge (TTable n) (TTable o')) =
      Option.bind (case map_of o' x of None \<Rightarrow> map_of n x
        | Some v \<Rightarrow> Some (case map_of n x of Some w \<Rightarrow> deep_merge w v | None \<Rightarrow> v)) (toml_get xs)"
    using merged_lookup [OF assms(1), of deep_merge n x] by simp
  show ?thesis
  proof (cases "map_of o' x")
    case None
    have "toml_get (x # xs) (deep_merge (TTable n) (TTable o')) = toml_get (x # xs) (TTable n)" "toml_get (x # xs) (TTable o') = None"
      using here None by simp_all
    then show ?thesis
      unfolding merged_at_def by (metis option.distinct(1))
  next
    case v: (Some v)
    show ?thesis
    proof (cases "map_of n x")
      case None
      then show ?thesis
        using here v by (auto simp: merged_at_def Cons_eq_append_conv)
    next
      case (Some w)
      have "toml_get (x # xs) (deep_merge (TTable n) (TTable o')) = toml_get xs (deep_merge w v)"
        using here Some v by simp
      then show ?thesis
        using assms(2) [OF v, of w] Some v by (fastforce simp: merged_at_def Cons_eq_append_conv)
    qed
  qed
qed

lemma merged_at_all: "toml_wf ov \<Longrightarrow> merged_at p b ov"
proof (induction p arbitrary: b ov)
  case Nil
  then show ?case
    by (auto simp: merged_at_def deep_merge_leaf)
next
  case (Cons x xs)
  show ?case
  proof (cases "is_table b \<and> is_table ov")
    case True
    then obtain n o' where tables: "b = TTable n" "ov = TTable o'"
      by (auto simp: is_table_def split: toml.splits)
    have "merged_at xs w v" if "map_of o' x = Some v" for v w
      using Cons.IH Cons.prems map_of_SomeD [OF that] by (auto simp: tables)
    then show ?thesis
      using merged_at_table Cons.prems by (simp add: tables)
  qed (rule merged_at_no_table)
qed

text \<open>
  C36: a partial configuration overrides exactly what it names: the merged value at a path is that of the
  overlay where the overlay has a value there that is no table; where the overlay stops short of the path
  with the path's key missing in a table, it is the value of the defaults.
\<close>
theorem merge_overrides:
  assumes "toml_wf ov"
  shows "(\<forall>v. toml_get p ov = Some v \<and> \<not> is_table v \<longrightarrow> toml_get p (deep_merge b ov) = Some v) \<and>
    (\<forall>q k ks m. p = q @ k # ks \<and> toml_get q ov = Some (TTable m) \<and> map_of m k = None \<and>
        (\<exists>n. toml_get q b = Some (TTable n)) \<longrightarrow> toml_get p (deep_merge b ov) = toml_get p b)"
  using merged_at_all [OF assms] unfolding merged_at_def .

definition sample_overlay :: toml where
  "sample_overlay = TTable [(ascii ''keys'', TTable [(ascii ''detach'', TString (ascii ''Alt+Q''))])]"

definition sample_base :: toml where
  "sample_base = TTable [(ascii ''keys'', TTable [(ascii ''detach'', TString (ascii ''Leader+Q'')), (ascii ''search'', TString (ascii ''Leader+/''))])]"

theorem merge_overrides_witness:
  "toml_get [ascii ''keys'', ascii ''detach''] (deep_merge sample_base sample_overlay) = Some (TString (ascii ''Alt+Q'')) \<and>
   toml_get [ascii ''keys'', ascii ''search''] (deep_merge sample_base sample_overlay) = Some (TString (ascii ''Leader+/''))"
proof
  have names: "ascii ''detach'' \<noteq> ascii ''search''" "ascii ''search'' \<noteq> ascii ''detach''"
    by (simp_all add: ascii_def byte_def)
  have wf: "toml_wf sample_overlay"
    by (simp add: sample_overlay_def)
  show "toml_get [ascii ''keys'', ascii ''detach''] (deep_merge sample_base sample_overlay) = Some (TString (ascii ''Alt+Q''))"
    using merge_overrides [OF wf, of "[ascii ''keys'', ascii ''detach'']" sample_base]
    by (simp add: sample_overlay_def is_table_def)
  have "toml_get [ascii ''keys''] sample_overlay = Some (TTable [(ascii ''detach'', TString (ascii ''Alt+Q''))])"
      "map_of [(ascii ''detach'', TString (ascii ''Alt+Q''))] (ascii ''search'') = None"
      "\<exists>n. toml_get [ascii ''keys''] sample_base = Some (TTable n)"
    using names by (simp_all add: sample_overlay_def sample_base_def)
  then have "toml_get [ascii ''keys'', ascii ''search''] (deep_merge sample_base sample_overlay) =
      toml_get [ascii ''keys'', ascii ''search''] sample_base"
    using merge_overrides [OF wf, of "[ascii ''keys'', ascii ''search'']" sample_base] by (metis append_Cons append_Nil)
  then show "toml_get [ascii ''keys'', ascii ''search''] (deep_merge sample_base sample_overlay) = Some (TString (ascii ''Leader+/''))"
    using names by (simp add: sample_base_def)
qed

end
