(* ===== verification/App_Keys.thy ===== *)
theory App_Keys
  imports Config_Types Term_Input Term_Screen
begin

text \<open>
  The key bindings of \<open>bins/emux/src/keybindings.rs\<close> and \<open>translate_key\<close> of \<open>input.rs\<close>. The key codes
  and modifiers are those of the \<open>crossterm\<close> crate: the ones the program names, and \<open>KcOther\<close> and
  \<open>km_other\<close> for the rest. A binding is read as its characters; \<open>lower\<close> is \<open>str::to_lowercase\<close>.
\<close>

section \<open>Key events\<close>

datatype key_code =
    KcChar rchar
  | KcF u8
  | KcUp
  | KcDown
  | KcLeft
  | KcRight
  | KcTab
  | KcBackTab
  | KcEnter
  | KcEsc
  | KcBackspace
  | KcDelete
  | KcInsert
  | KcHome
  | KcEnd
  | KcPageUp
  | KcPageDown
  | KcOther nat

record key_mods =
  km_shift :: bool
  km_control :: bool
  km_alt :: bool
  km_other :: bool

record key_event =
  ke_code :: key_code
  ke_modifiers :: key_mods

definition key_mods_empty :: key_mods where
  "key_mods_empty = \<lparr>km_shift = False, km_control = False, km_alt = False, km_other = False\<rparr>"

definition key_mods_contain :: "key_mods \<Rightarrow> key_mods \<Rightarrow> bool" where
  "key_mods_contain m n \<longleftrightarrow> (km_shift n \<longrightarrow> km_shift m) \<and> (km_control n \<longrightarrow> km_control m) \<and>
     (km_alt n \<longrightarrow> km_alt m) \<and> (km_other n \<longrightarrow> km_other m)"

section \<open>Parsing a binding\<close>

type_synonym binding = "(key_mods \<times> key_code) option"

abbreviation chars :: "string \<Rightarrow> rchar list" where
  "chars s \<equiv> map of_char s"

text \<open>One part between plus signs: a modifier, or the key, of which the last one counts.\<close>

definition binding_part ::
  "(rchar list \<Rightarrow> rchar list) \<Rightarrow> rchar list \<Rightarrow> key_mods \<times> rchar list option \<Rightarrow> key_mods \<times> rchar list option" where
  "binding_part lower part st =
     (let normalized = trim_text part; name = lower normalized; (m, k) = st in
      if name = chars ''leader'' then (m\<lparr>km_control := True, km_shift := True\<rparr>, k)
      else if name = chars ''ctrl'' \<or> name = chars ''control'' then (m\<lparr>km_control := True\<rparr>, k)
      else if name = chars ''shift'' then (m\<lparr>km_shift := True\<rparr>, k)
      else if name = chars ''alt'' \<or> name = chars ''meta'' \<or> name = chars ''opt'' \<or> name = chars ''option''
        then (m\<lparr>km_alt := True\<rparr>, k)
      else (m, Some normalized))"

definition named_key :: "rchar list \<Rightarrow> key_code option" where
  "named_key name =
     (if name = chars ''up'' then Some KcUp
      else if name = chars ''down'' then Some KcDown
      else if name = chars ''left'' then Some KcLeft
      else if name = chars ''right'' then Some KcRight
      else if name = chars ''tab'' then Some KcTab
      else if name = chars ''enter'' \<or> name = chars ''return'' then Some KcEnter
      else if name = chars ''esc'' \<or> name = chars ''escape'' then Some KcEsc
      else if name = chars ''backspace'' then Some KcBackspace
      else if name = chars ''delete'' \<or> name = chars ''del'' then Some KcDelete
      else if name = chars ''insert'' \<or> name = chars ''ins'' then Some KcInsert
      else if name = chars ''home'' then Some KcHome
      else if name = chars ''end'' then Some KcEnd
      else if name = chars ''pageup'' then Some KcPageUp
      else if name = chars ''pagedown'' then Some KcPageDown
      else None)"

definition key_of_name :: "(rchar list \<Rightarrow> rchar list) \<Rightarrow> rchar list \<Rightarrow> key_code option" where
  "key_of_name lower key_str =
     (let name = lower key_str in
      case named_key name of
        Some code \<Rightarrow> Some code
      | None \<Rightarrow>
          if name \<noteq> [] \<and> hd name = of_char (CHR ''f'') \<and> 1 < length (concat (map utf8_encode name)) then
            map_option (\<lambda>n. KcF (of_nat n)) (parse_unsigned 256 10 (concat (map utf8_encode (tl name))))
          else (case key_str of [c] \<Rightarrow> Some (KcChar c) | _ \<Rightarrow> None))"

definition parse_keybinding :: "(rchar list \<Rightarrow> rchar list) \<Rightarrow> rstr \<Rightarrow> binding" where
  "parse_keybinding lower b =
     (let parts = split_on (of_char (CHR ''+'')) (utf8_chars b) in
      if parts = [] then None
      else let (m, k) = fold (binding_part lower) parts (key_mods_empty, None) in
        case k of None \<Rightarrow> None | Some key_str \<Rightarrow> map_option (Pair m) (key_of_name lower key_str))"

section \<open>The parsed bindings\<close>

record parsed_bindings =
  pb_split_down :: binding
  pb_split_right :: binding
  pb_close_pane :: binding
  pb_focus_up :: binding
  pb_focus_down :: binding
  pb_focus_left :: binding
  pb_focus_right :: binding
  pb_new_tab :: binding
  pb_close_tab :: binding
  pb_next_tab :: binding
  pb_prev_tab :: binding
  pb_detach :: binding
  pb_search :: binding
  pb_toggle_fullscreen :: binding
  pb_toggle_float :: binding
  pb_scroll_up :: binding
  pb_scroll_down :: binding
  pb_copy_mode :: binding

definition bindings_from_config :: "(rchar list \<Rightarrow> rchar list) \<Rightarrow> key_bindings \<Rightarrow> parsed_bindings" where
  "bindings_from_config lower ks =
     (let p = parse_keybinding lower in
      \<lparr>pb_split_down = p (kb_split_down ks), pb_split_right = p (kb_split_right ks),
       pb_close_pane = p (kb_close_pane ks), pb_focus_up = p (kb_focus_up ks),
       pb_focus_down = p (kb_focus_down ks), pb_focus_left = p (kb_focus_left ks),
       pb_focus_right = p (kb_focus_right ks), pb_new_tab = p (kb_new_tab ks),
       pb_close_tab = p (kb_close_tab ks), pb_next_tab = p (kb_next_tab ks), pb_prev_tab = p (kb_prev_tab ks),
       pb_detach = p (kb_detach ks), pb_search = p (kb_search ks),
       pb_toggle_fullscreen = p (kb_toggle_fullscreen ks), pb_toggle_float = p (kb_toggle_float ks),
       pb_scroll_up = p (kb_scroll_up ks), pb_scroll_down = p (kb_scroll_down ks),
       pb_copy_mode = p (kb_copy_mode ks)\<rparr>)"

definition ascii_lower :: "rchar \<Rightarrow> rchar" where
  "ascii_lower c = (if is_upper c then c + 32 else c)"

text \<open>A key with more modifiers than the binding's matches too.\<close>

definition matches_binding :: "key_event \<Rightarrow> binding \<Rightarrow> bool" where
  "matches_binding key b =
     (case b of
        None \<Rightarrow> False
      | Some (m, code) \<Rightarrow>
          if \<not> key_mods_contain (ke_modifiers key) m then False
          else (case (code, ke_code key) of
                  (KcChar bc, KcChar kc) \<Rightarrow> ascii_lower bc = ascii_lower kc
                | _ \<Rightarrow> code = ke_code key))"

section \<open>The bytes of a key\<close>

text \<open>Keys without an arm send nothing, \<open>BackTab\<close> (Shift and Tab) among them.\<close>

fun translated_key :: "key_code \<Rightarrow> key option" where
  "translated_key (KcChar c) = Some (KChar c)"
| "translated_key KcEnter = Some KEnter"
| "translated_key KcBackspace = Some KBackspace"
| "translated_key KcTab = Some KTab"
| "translated_key KcEsc = Some KEscape"
| "translated_key KcUp = Some KUp"
| "translated_key KcDown = Some KDown"
| "translated_key KcLeft = Some KLeft"
| "translated_key KcRight = Some KRight"
| "translated_key KcHome = Some KHome"
| "translated_key KcEnd = Some KEnd"
| "translated_key KcPageUp = Some KPageUp"
| "translated_key KcPageDown = Some KPageDown"
| "translated_key KcInsert = Some KInsert"
| "translated_key KcDelete = Some KDelete"
| "translated_key (KcF n) = Some (KF n)"
| "translated_key KcBackTab = None"
| "translated_key (KcOther n) = None"

definition translate_key :: "key_event \<Rightarrow> screen \<Rightarrow> u8 list" where
  "translate_key ev s =
     (let m = \<lparr>mo_shift = km_shift (ke_modifiers ev), mo_alt = km_alt (ke_modifiers ev),
               mo_ctrl = km_control (ke_modifiers ev)\<rparr> in
      case translated_key (ke_code ev) of
        None \<Rightarrow> []
      | Some k \<Rightarrow> encode_key k m (md_application_cursor_keys (s_modes s)) (md_application_keypad (s_modes s))
          (md_newline (s_modes s)) False)"

end
