(* ===== verification/App_State.thy ===== *)
theory App_State
  imports App_Panes App_Keys Term_Selection Term_Search
begin

text \<open>
  The state of the program, \<open>App\<close> of \<open>bins/emux/src/app.rs\<close>, the commands and their results
  (\<open>command.rs\<close>), and the command a key stands for (\<open>resolve_keybinding\<close> of \<open>keybindings.rs\<close>). A search
  query is its characters.
\<close>

section \<open>The application\<close>

datatype input_mode = InputNormal | InputSearch | InputCopy

record copy_mode_state =
  cm_row :: nat
  cm_col :: nat
  cm_scrollback_len :: nat
  cm_selection :: "selection option"

record mouse_selection =
  ms_pane_id :: pane_id
  ms_selection :: selection

record border_drag =
  bd_pane_id :: pane_id
  bd_vertical :: bool
  bd_last_col :: u16
  bd_last_row :: u16

datatype exit_reason = ExitQuit | ExitDetach

record application =
  ap_session :: session
  ap_panes :: pane_states
  ap_config :: config
  ap_bindings :: parsed_bindings
  ap_daemon_mode :: bool
  ap_input_mode :: input_mode
  ap_search_query :: "rchar list"
  ap_search_state :: search_state
  ap_search_direction_active :: bool
  ap_copy_mode :: "copy_mode_state option"
  ap_border_drag :: "border_drag option"
  ap_mouse_selection :: "mouse_selection option"

definition search_state_default :: search_state where
  "search_state_default =
     \<lparr>qs_query = [], qs_matches = [], qs_current = None, qs_case_sensitive = False, qs_regex = False\<rparr>"

text \<open>The application \<open>run_event_loop\<close> starts with: one tab and the terminal of its pane.\<close>

definition app_new ::
  "(rchar list \<Rightarrow> rchar list) \<Rightarrow> config \<Rightarrow> bool \<Rightarrow> pane_state \<Rightarrow> nat \<Rightarrow> nat \<Rightarrow> application" where
  "app_new lower cfg daemon_mode ps cols pane_rows =
     \<lparr>ap_session = session_new (ascii ''main'') cols pane_rows, ap_panes = [(0, ps)], ap_config = cfg,
      ap_bindings = bindings_from_config lower (cf_keys cfg), ap_daemon_mode = daemon_mode,
      ap_input_mode = InputNormal, ap_search_query = [], ap_search_state = search_state_default,
      ap_search_direction_active = False, ap_copy_mode = None, ap_border_drag = None,
      ap_mouse_selection = None\<rparr>"

section \<open>Commands and their results\<close>

datatype app_command =
    CmdSplitPane split_direction
  | CmdCloseActivePane
  | CmdNewTab
  | CmdCloseTab
  | CmdNextTab
  | CmdPrevTab
  | CmdFocusDirection focus_direction
  | CmdToggleFullscreen
  | CmdToggleFloat
  | CmdScrollUp nat
  | CmdScrollDown nat
  | CmdEnterSearchMode
  | CmdExitSearchMode
  | CmdEnterCopyMode
  | CmdExitCopyMode
  | CmdSearchAppendChar rchar
  | CmdSearchDeleteChar
  | CmdSearchNextMatch
  | CmdSearchPrevMatch
  | CmdCopyMoveLeft
  | CmdCopyMoveDown
  | CmdCopyMoveUp
  | CmdCopyMoveRight
  | CmdCopyStartOfLine
  | CmdCopyEndOfLine
  | CmdCopyGotoTop
  | CmdCopyGotoBottom
  | CmdCopyHalfPageUp
  | CmdCopyHalfPageDown
  | CmdCopyToggleSelection
  | CmdCopyYank
  | CmdForwardKeyToPty "u8 list"
  | CmdForwardPaste "u8 list"
  | CmdForwardFocus bool
  | CmdQuit
  | CmdDetach
  | CmdFocusPane pane_id
  | CmdStartBorderDrag border_drag
  | CmdContinueBorderDrag u16 u16
  | CmdEndBorderDrag
  | CmdStartMouseSelection pane_id selection_point
  | CmdExtendMouseSelection selection_point
  | CmdFinalizeMouseSelection
  | CmdForwardMouseToPty pane_id "u8 list"
  | CmdScrollPaneUp pane_id nat
  | CmdScrollPaneDown pane_id nat
  | CmdResize u16 u16
  | CmdReloadConfig config

record dispatch_result =
  dr_needs_render :: bool
  dr_force_clear :: bool
  dr_exit :: "exit_reason option"
  dr_pty_writes :: "(pane_id \<times> u8 list) list"
  dr_spawn_pane :: "(pane_id \<times> nat \<times> nat) option"
  dr_yanked_text :: "rchar list option"
  dr_clipboard_text :: "rchar list option"

definition result_none :: dispatch_result where
  "result_none = \<lparr>dr_needs_render = False, dr_force_clear = False, dr_exit = None, dr_pty_writes = [],
     dr_spawn_pane = None, dr_yanked_text = None, dr_clipboard_text = None\<rparr>"

definition result_render :: dispatch_result where
  "result_render = result_none\<lparr>dr_needs_render := True\<rparr>"

definition result_render_clear :: dispatch_result where
  "result_render_clear = result_none\<lparr>dr_needs_render := True, dr_force_clear := True\<rparr>"

section \<open>From a key to its command\<close>

record resolve_context =
  rc_input_mode :: input_mode
  rc_bindings :: parsed_bindings
  rc_daemon_mode :: bool
  rc_search_query :: "rchar list"
  rc_search_direction_active :: bool
  rc_forward_bytes :: "u8 list"

definition resolve_normal_key :: "key_event \<Rightarrow> resolve_context \<Rightarrow> app_command" where
  "resolve_normal_key key ctx =
     (let pb = rc_bindings ctx in
      if matches_binding key (pb_detach pb) then (if rc_daemon_mode ctx then CmdDetach else CmdQuit)
      else if matches_binding key (pb_search pb) then CmdEnterSearchMode
      else if matches_binding key (pb_split_down pb) then CmdSplitPane Horizontal
      else if matches_binding key (pb_split_right pb) then CmdSplitPane Vertical
      else if matches_binding key (pb_close_pane pb) then CmdCloseActivePane
      else if matches_binding key (pb_focus_up pb) then CmdFocusDirection FocusUp
      else if matches_binding key (pb_focus_down pb) then CmdFocusDirection FocusDown
      else if matches_binding key (pb_focus_left pb) then CmdFocusDirection FocusLeft
      else if matches_binding key (pb_focus_right pb) then CmdFocusDirection FocusRight
      else if matches_binding key (pb_new_tab pb) then CmdNewTab
      else if matches_binding key (pb_next_tab pb) then CmdNextTab
      else if matches_binding key (pb_prev_tab pb) then CmdPrevTab
      else if matches_binding key (pb_close_tab pb) then CmdCloseTab
      else if matches_binding key (pb_toggle_fullscreen pb) then CmdToggleFullscreen
      else if matches_binding key (pb_toggle_float pb) then CmdToggleFloat
      else if matches_binding key (pb_scroll_up pb) then CmdScrollUp 0
      else if matches_binding key (pb_scroll_down pb) then CmdScrollDown 0
      else if matches_binding key (pb_copy_mode pb) then CmdEnterCopyMode
      else CmdForwardKeyToPty (rc_forward_bytes ctx))"

definition resolve_search_key :: "key_event \<Rightarrow> resolve_context \<Rightarrow> app_command" where
  "resolve_search_key key ctx =
     (let active = rc_search_query ctx \<noteq> [] \<and> rc_search_direction_active ctx in
      case ke_code key of
        KcEsc \<Rightarrow> CmdExitSearchMode
      | KcEnter \<Rightarrow> CmdExitSearchMode
      | KcBackspace \<Rightarrow> CmdSearchDeleteChar
      | KcChar c \<Rightarrow>
          if c = of_char (CHR ''n'') \<and> ke_modifiers key = key_mods_empty \<and> active then CmdSearchNextMatch
          else if c = of_char (CHR ''N'') \<and> km_shift (ke_modifiers key) \<and> active then CmdSearchPrevMatch
          else CmdSearchAppendChar c
      | _ \<Rightarrow> CmdExitSearchMode)"

definition copy_char_command :: "rchar \<Rightarrow> bool \<Rightarrow> app_command" where
  "copy_char_command c ctrl =
     (if c = of_char (CHR ''q'') then CmdExitCopyMode
      else if c = of_char (CHR ''h'') then CmdCopyMoveLeft
      else if c = of_char (CHR ''j'') then CmdCopyMoveDown
      else if c = of_char (CHR ''k'') then CmdCopyMoveUp
      else if c = of_char (CHR ''l'') then CmdCopyMoveRight
      else if c = of_char (CHR ''0'') then CmdCopyStartOfLine
      else if c = of_char (CHR ''$'') then CmdCopyEndOfLine
      else if c = of_char (CHR ''g'') then CmdCopyGotoTop
      else if c = of_char (CHR ''G'') then CmdCopyGotoBottom
      else if c = of_char (CHR ''u'') \<and> ctrl then CmdCopyHalfPageUp
      else if c = of_char (CHR ''d'') \<and> ctrl then CmdCopyHalfPageDown
      else if c = of_char (CHR ''v'') then CmdCopyToggleSelection
      else if c = of_char (CHR ''y'') then CmdCopyYank
      else CmdExitCopyMode)"

definition resolve_copy_key :: "key_event \<Rightarrow> app_command" where
  "resolve_copy_key key =
     (case ke_code key of
        KcChar c \<Rightarrow> copy_char_command c (km_control (ke_modifiers key))
      | KcLeft \<Rightarrow> CmdCopyMoveLeft
      | KcDown \<Rightarrow> CmdCopyMoveDown
      | KcUp \<Rightarrow> CmdCopyMoveUp
      | KcRight \<Rightarrow> CmdCopyMoveRight
      | _ \<Rightarrow> CmdExitCopyMode)"

definition resolve_keybinding :: "key_event \<Rightarrow> resolve_context \<Rightarrow> app_command" where
  "resolve_keybinding key ctx =
     (case rc_input_mode ctx of
        InputCopy \<Rightarrow> resolve_copy_key key
      | InputSearch \<Rightarrow> resolve_search_key key ctx
      | InputNormal \<Rightarrow> resolve_normal_key key ctx)"

end
