(* ===== verification/App_Dispatch.thy ===== *)
theory App_Dispatch
  imports App_State
begin

text \<open>
  \<open>dispatch\<close> of \<open>bins/emux/src/command.rs\<close>: the state transition of a command and the side effects it asks
  the event loop for. \<open>None\<close> is a panic. \<open>lower\<close> is \<open>str::to_lowercase\<close>.
\<close>

section \<open>Helpers\<close>

definition app_active_pane :: "application \<Rightarrow> pane_id option option" where
  "app_active_pane a = map_option t_active_pane (active_tab_of (ap_session a))"

definition on_app_tab :: "(tab \<Rightarrow> 'r \<times> tab) \<Rightarrow> application \<Rightarrow> ('r \<times> application) option" where
  "on_app_tab f a = map_option (\<lambda>(r, s). (r, a\<lparr>ap_session := s\<rparr>)) (on_session_tab f (ap_session a))"

text \<open>\<open>if let Some(ps) = app.panes.get_mut(&id)\<close>.\<close>

definition on_pane_state :: "pane_id \<Rightarrow> (pane_state \<Rightarrow> pane_state) \<Rightarrow> application \<Rightarrow> application" where
  "on_pane_state i f a =
     (case map_of (ap_panes a) i of
        None \<Rightarrow> a
      | Some ps \<Rightarrow> a\<lparr>ap_panes := AList.update i (f ps) (ap_panes a)\<rparr>)"

definition dirty_pane :: "pane_state \<Rightarrow> pane_state" where
  "dirty_pane ps = ps\<lparr>pst_damage := mark_all (pst_damage ps)\<rparr>"

definition mark_all_dirty :: "application \<Rightarrow> application" where
  "mark_all_dirty a = a\<lparr>ap_panes := map (\<lambda>(i, ps). (i, dirty_pane ps)) (ap_panes a)\<rparr>"

text \<open>The active pane, if the tab has one.\<close>

definition on_active_pane :: "(pane_state \<Rightarrow> pane_state) \<Rightarrow> application \<Rightarrow> application option" where
  "on_active_pane f a =
     map_option (\<lambda>active. case active of None \<Rightarrow> a | Some i \<Rightarrow> on_pane_state i f a) (app_active_pane a)"

definition mark_active_dirty :: "application \<Rightarrow> application option" where
  "mark_active_dirty = on_active_pane dirty_pane"

definition scroll_view :: "(nat \<Rightarrow> screen \<Rightarrow> screen) \<Rightarrow> nat \<Rightarrow> pane_state \<Rightarrow> pane_state" where
  "scroll_view f n ps = dirty_pane (ps\<lparr>pst_screen := f n (pst_screen ps)\<rparr>)"

section \<open>Tabs and panes\<close>

definition dispatch_split_pane :: "split_direction \<Rightarrow> application \<Rightarrow> (dispatch_result \<times> application) option" where
  "dispatch_split_pane d a = do {
     (r, a) \<leftarrow> on_app_tab (split_pane d) a;
     t \<leftarrow> active_tab_of (ap_session a);
     let result = (case r of
         None \<Rightarrow> result_render
       | Some i \<Rightarrow>
           let (cols, rows) = shown_size (80, 24) i t in
           result_render\<lparr>dr_spawn_pane := Some (i, cols, rows)\<rparr>);
     Some (result, mark_all_dirty a) }"

definition dispatch_close_active_pane :: "application \<Rightarrow> (dispatch_result \<times> application) option" where
  "dispatch_close_active_pane a = do {
     t \<leftarrow> active_tab_of (ap_session a);
     case t_active_pane t of
       None \<Rightarrow> Some (result_render, a)
     | Some i \<Rightarrow>
         if 1 < tab_pane_count t then do {
           (_, a) \<leftarrow> on_app_tab (close_pane i) a;
           Some (result_render_clear, mark_all_dirty (a\<lparr>ap_panes := AList.delete i (ap_panes a)\<rparr>)) }
         else Some (result_render, a) }"

definition dispatch_new_tab :: "application \<Rightarrow> (dispatch_result \<times> application) option" where
  "dispatch_new_tab a = do {
     let s = ap_session a;
     let (tab_id, s') = new_tab (ascii ''Tab '' @ show_nat (length (ss_tabs s))) s;
     t \<leftarrow> active_tab_of s';
     i \<leftarrow> idx (tab_pane_ids t) 0;
     Some (result_render\<lparr>dr_spawn_pane := Some (i, ps_cols (ss_size s), ps_rows (ss_size s))\<rparr>,
       mark_all_dirty (a\<lparr>ap_session := s'\<rparr>)) }"

definition dispatch_close_tab :: "application \<Rightarrow> (dispatch_result \<times> application) option" where
  "dispatch_close_tab a = do {
     t \<leftarrow> active_tab_of (ap_session a);
     let (closed, s) = close_tab (ss_active_tab (ap_session a)) (ap_session a);
     let a = a\<lparr>ap_session := s\<rparr>;
     Some (result_render, mark_all_dirty
       (if closed then a\<lparr>ap_panes := fold AList.delete (tab_pane_ids t) (ap_panes a)\<rparr> else a)) }"

section \<open>Search\<close>

definition run_search :: "(rchar list \<Rightarrow> rchar list) \<Rightarrow> application \<Rightarrow> application option" where
  "run_search lower a =
     (if ap_search_query a = [] then Some (a\<lparr>ap_search_state := search_state_default\<rparr>)
      else do {
        active \<leftarrow> app_active_pane a;
        case (case active of None \<Rightarrow> None | Some i \<Rightarrow> map_of (ap_panes a) i) of
          None \<Rightarrow> Some a
        | Some ps \<Rightarrow> do {
            let s = pst_screen ps;
            texts \<leftarrow> foldM (\<lambda>ls r. map_option (\<lambda>l. ls @ [l]) (row_text (s_grid s) r)) [0..<rows_of s] [];
            ms \<leftarrow> find_all_matches lower texts (ap_search_query a) False;
            Some (a\<lparr>ap_search_state := \<lparr>qs_query = ap_search_query a, qs_matches = ms,
              qs_current = (if ms = [] then None else Some 0), qs_case_sensitive = False, qs_regex = False\<rparr>\<rparr>) } })"

definition current_search :: "(nat option \<Rightarrow> nat \<Rightarrow> nat option) \<Rightarrow> application \<Rightarrow> application" where
  "current_search f a =
     (let st = ap_search_state a in
      a\<lparr>ap_search_state := st\<lparr>qs_current := f (qs_current st) (length (qs_matches st))\<rparr>\<rparr>)"

definition append_search_char ::
  "(rchar list \<Rightarrow> rchar list) \<Rightarrow> rchar \<Rightarrow> application \<Rightarrow> application option" where
  "append_search_char lower c a =
     map_option (\<lambda>a. a\<lparr>ap_search_direction_active := True\<rparr>)
       (run_search lower (a\<lparr>ap_search_query := ap_search_query a @ [c]\<rparr>))"

definition delete_search_char :: "(rchar list \<Rightarrow> rchar list) \<Rightarrow> application \<Rightarrow> application option" where
  "delete_search_char lower a = run_search lower (a\<lparr>ap_search_query := butlast (ap_search_query a)\<rparr>)"

section \<open>Copy mode\<close>

definition track_selection :: "copy_mode_state \<Rightarrow> copy_mode_state" where
  "track_selection cm =
     (case cm_selection cm of
        None \<Rightarrow> cm
      | Some sel \<Rightarrow> cm\<lparr>cm_selection := Some (selection_extend (point_new (cm_scrollback_len cm + cm_row cm) (cm_col cm)) sel)\<rparr>)"

definition copy_move ::
  "(screen \<Rightarrow> copy_mode_state \<Rightarrow> copy_mode_state) \<Rightarrow> application \<Rightarrow> application option" where
  "copy_move f a = do {
     active \<leftarrow> app_active_pane a;
     Some (case active of
         None \<Rightarrow> a
       | Some i \<Rightarrow>
           let a = (case (ap_copy_mode a, map_of (ap_panes a) i) of
               (Some cm, Some ps) \<Rightarrow> a\<lparr>ap_copy_mode := Some (track_selection (f (pst_screen ps) cm))\<rparr>
             | _ \<Rightarrow> a)
           in on_pane_state i dirty_pane a) }"

text \<open>The moves of the cursor, by the command.\<close>

fun copy_motion :: "app_command \<Rightarrow> screen \<Rightarrow> copy_mode_state \<Rightarrow> copy_mode_state" where
  "copy_motion CmdCopyMoveLeft s cm = cm\<lparr>cm_col := cm_col cm - 1\<rparr>"
| "copy_motion CmdCopyMoveDown s cm = cm\<lparr>cm_row := min (cm_row cm + 1) (rows_of s - 1)\<rparr>"
| "copy_motion CmdCopyMoveUp s cm = cm\<lparr>cm_row := cm_row cm - 1\<rparr>"
| "copy_motion CmdCopyMoveRight s cm = cm\<lparr>cm_col := min (cm_col cm + 1) (cols_of s - 1)\<rparr>"
| "copy_motion CmdCopyStartOfLine s cm = cm\<lparr>cm_col := 0\<rparr>"
| "copy_motion CmdCopyEndOfLine s cm = cm\<lparr>cm_col := cols_of s - 1\<rparr>"
| "copy_motion CmdCopyGotoTop s cm = cm\<lparr>cm_row := 0\<rparr>"
| "copy_motion CmdCopyGotoBottom s cm = cm\<lparr>cm_row := rows_of s - 1\<rparr>"
| "copy_motion CmdCopyHalfPageUp s cm = cm\<lparr>cm_row := cm_row cm - rows_of s div 2\<rparr>"
| "copy_motion CmdCopyHalfPageDown s cm = cm\<lparr>cm_row := min (cm_row cm + rows_of s div 2) (rows_of s - 1)\<rparr>"
| "copy_motion _ s cm = cm"

definition enter_copy_mode :: "application \<Rightarrow> application option" where
  "enter_copy_mode a = do {
     active \<leftarrow> app_active_pane a;
     Some (case active of
         None \<Rightarrow> a
       | Some i \<Rightarrow>
           (case map_of (ap_panes a) i of
              None \<Rightarrow> a
            | Some ps \<Rightarrow>
                let s = pst_screen ps in
                on_pane_state i dirty_pane (a\<lparr>ap_input_mode := InputCopy,
                  ap_copy_mode := Some \<lparr>cm_row = row_of s, cm_col = col_of s,
                    cm_scrollback_len = scrollback_len (s_grid s), cm_selection = None\<rparr>\<rparr>))) }"

definition leave_copy_mode :: "application \<Rightarrow> application" where
  "leave_copy_mode a = mark_all_dirty (a\<lparr>ap_input_mode := InputNormal, ap_copy_mode := None\<rparr>)"

definition toggle_copy_selection :: "application \<Rightarrow> application option" where
  "toggle_copy_selection a =
     mark_active_dirty (case ap_copy_mode a of
         None \<Rightarrow> a
       | Some cm \<Rightarrow> a\<lparr>ap_copy_mode := Some (cm\<lparr>cm_selection :=
           (case cm_selection cm of
              Some sel \<Rightarrow> None
            | None \<Rightarrow> Some (selection_start (point_new (cm_scrollback_len cm + cm_row cm) (cm_col cm)) SelNormal))\<rparr>)\<rparr>)"

text \<open>The text of a selection in a pane; an empty text counts as none.\<close>

definition pane_selection_text :: "selection \<Rightarrow> pane_id \<Rightarrow> application \<Rightarrow> rchar list option option" where
  "pane_selection_text sel i a =
     (case map_of (ap_panes a) i of
        None \<Rightarrow> Some None
      | Some ps \<Rightarrow> map_option (\<lambda>text. if text = [] then None else Some text)
          (selection_text (selection_finalize sel) (s_grid (pst_screen ps))))"

definition copy_yank :: "application \<Rightarrow> (dispatch_result \<times> application) option" where
  "copy_yank a = do {
     text \<leftarrow> (case Option.bind (ap_copy_mode a) cm_selection of
         None \<Rightarrow> Some None
       | Some sel \<Rightarrow> do {
           active \<leftarrow> app_active_pane a;
           case active of None \<Rightarrow> Some None | Some i \<Rightarrow> pane_selection_text sel i a });
     Some (result_render\<lparr>dr_yanked_text := text\<rparr>, leave_copy_mode a) }"

section \<open>The mouse\<close>

definition app_focus_pane :: "pane_id \<Rightarrow> application \<Rightarrow> application option" where
  "app_focus_pane i a = do {
     active \<leftarrow> app_active_pane a;
     if active = Some i then Some a
     else do {
       (_, a) \<leftarrow> on_app_tab (focus_pane i) a;
       Some (mark_all_dirty a) } }"

definition drag_border :: "u16 \<Rightarrow> u16 \<Rightarrow> application \<Rightarrow> application option" where
  "drag_border col row a =
     (case ap_border_drag a of
        None \<Rightarrow> Some a
      | Some drag \<Rightarrow> do {
          let (dir, delta) = (if bd_vertical drag
              then (ResizeRight, int (unat col) - int (unat (bd_last_col drag)))
              else (ResizeDown, int (unat row) - int (unat (bd_last_row drag))));
          (_, a) \<leftarrow> on_app_tab (if delta \<noteq> 0 then resize_pane (bd_pane_id drag) dir delta else Pair False) a;
          Some (mark_all_dirty (a\<lparr>ap_border_drag := Some (drag\<lparr>bd_last_col := col, bd_last_row := row\<rparr>)\<rparr>)) })"

definition finalize_mouse_selection :: "application \<Rightarrow> (dispatch_result \<times> application) option" where
  "finalize_mouse_selection a = do {
     text \<leftarrow> (case ap_mouse_selection a of
         None \<Rightarrow> Some None
       | Some ms \<Rightarrow> pane_selection_text (ms_selection ms) (ms_pane_id ms) a);
     Some (result_render\<lparr>dr_clipboard_text := text\<rparr>, mark_all_dirty (a\<lparr>ap_mouse_selection := None\<rparr>)) }"

definition extend_mouse_selection :: "selection_point \<Rightarrow> application \<Rightarrow> application" where
  "extend_mouse_selection p a =
     mark_all_dirty (a\<lparr>ap_mouse_selection :=
       map_option (\<lambda>ms. ms\<lparr>ms_selection := selection_extend p (ms_selection ms)\<rparr>) (ap_mouse_selection a)\<rparr>)"

section \<open>Bytes for the PTYs\<close>

definition write_unless_empty :: "pane_id \<Rightarrow> u8 list \<Rightarrow> dispatch_result \<Rightarrow> dispatch_result" where
  "write_unless_empty i bytes r = (if bytes = [] then r else r\<lparr>dr_pty_writes := dr_pty_writes r @ [(i, bytes)]\<rparr>)"

definition forward_key :: "u8 list \<Rightarrow> application \<Rightarrow> (dispatch_result \<times> application) option" where
  "forward_key bytes a = do {
     active \<leftarrow> app_active_pane a;
     Some (case active of
         None \<Rightarrow> (result_render, a)
       | Some i \<Rightarrow> (write_unless_empty i bytes result_render,
           on_pane_state i (\<lambda>ps. ps\<lparr>pst_screen := scroll_viewport_reset (pst_screen ps)\<rparr>) a)) }"

definition forward_paste :: "u8 list \<Rightarrow> application \<Rightarrow> (dispatch_result \<times> application) option" where
  "forward_paste bytes a = do {
     active \<leftarrow> app_active_pane a;
     Some (case active of None \<Rightarrow> result_render | Some i \<Rightarrow> write_unless_empty i bytes result_render,
       mark_all_dirty a) }"

definition forward_focus :: "bool \<Rightarrow> application \<Rightarrow> (dispatch_result \<times> application) option" where
  "forward_focus gained a = do {
     active \<leftarrow> app_active_pane a;
     Some (case active of
         None \<Rightarrow> result_none
       | Some i \<Rightarrow>
           (case map_of (ap_panes a) i of
              None \<Rightarrow> result_none
            | Some ps \<Rightarrow> write_unless_empty i
                (encode_focus gained (md_focus_tracking (s_modes (pst_screen ps)))) result_none), a) }"

section \<open>Resizing\<close>

definition resize_pane_state :: "pane_position \<Rightarrow> pane_state \<Rightarrow> pane_state option" where
  "resize_pane_state pos ps =
     map_option (\<lambda>s. ps\<lparr>pst_screen := s, pst_damage := tracker_resize (pp_rows pos) (pst_damage ps)\<rparr>)
       (resize (pp_cols pos) (pp_rows pos) (pst_screen ps))"

definition clamp_copy_cursor :: "application \<Rightarrow> application option" where
  "clamp_copy_cursor a =
     (case ap_copy_mode a of
        None \<Rightarrow> Some a
      | Some cm \<Rightarrow> do {
          active \<leftarrow> app_active_pane a;
          Some (case Option.bind active (map_of (ap_panes a)) of
              None \<Rightarrow> a
            | Some ps \<Rightarrow> a\<lparr>ap_copy_mode := Some (cm\<lparr>cm_row := min (cm_row cm) (rows_of (pst_screen ps) - 1),
                cm_col := min (cm_col cm) (cols_of (pst_screen ps) - 1)\<rparr>)\<rparr>) })"

definition dispatch_resize :: "u16 \<Rightarrow> u16 \<Rightarrow> application \<Rightarrow> application option" where
  "dispatch_resize cols rows a = do {
     let a = a\<lparr>ap_session := session_resize (unat cols) (unat rows - 1) (ap_session a)\<rparr>;
     t \<leftarrow> active_tab_of (ap_session a);
     pss \<leftarrow> foldM (\<lambda>pss (i, pos).
         case map_of pss i of
           Some ps \<Rightarrow> map_option (\<lambda>ps. AList.update i ps pss) (resize_pane_state pos ps)
         | None \<Rightarrow> Some pss)
       (tab_positions t) (ap_panes a);
     clamp_copy_cursor (a\<lparr>ap_panes := pss\<rparr>) }"

section \<open>\<open>dispatch\<close>\<close>

abbreviation rendering :: "application \<Rightarrow> dispatch_result \<times> application" where
  "rendering \<equiv> Pair result_render"

fun dispatch :: "(rchar list \<Rightarrow> rchar list) \<Rightarrow> app_command \<Rightarrow> application \<Rightarrow> (dispatch_result \<times> application) option" where
  "dispatch lower (CmdSplitPane d) a = dispatch_split_pane d a"
| "dispatch lower CmdCloseActivePane a = dispatch_close_active_pane a"
| "dispatch lower CmdNewTab a = dispatch_new_tab a"
| "dispatch lower CmdCloseTab a = dispatch_close_tab a"
| "dispatch lower CmdNextTab a = Some (rendering (mark_all_dirty (a\<lparr>ap_session := snd (next_tab (ap_session a))\<rparr>)))"
| "dispatch lower CmdPrevTab a = Some (rendering (mark_all_dirty (a\<lparr>ap_session := snd (prev_tab (ap_session a))\<rparr>)))"
| "dispatch lower (CmdFocusDirection d) a =
     map_option (\<lambda>(_, a). rendering (mark_all_dirty a)) (on_app_tab (focus_direction_op d) a)"
| "dispatch lower CmdToggleFullscreen a =
     map_option (\<lambda>(_, a). rendering (mark_all_dirty a)) (on_app_tab toggle_fullscreen a)"
| "dispatch lower CmdToggleFloat a =
     map_option (\<lambda>(_, a). rendering (mark_all_dirty a)) (on_app_tab (\<lambda>t. ((), toggle_floating_panes t)) a)"
| "dispatch lower (CmdScrollUp n) a =
     map_option rendering (on_active_pane (scroll_view scroll_viewport_up (max n 1)) a)"
| "dispatch lower (CmdScrollDown n) a =
     map_option rendering (on_active_pane (scroll_view scroll_viewport_down (max n 1)) a)"
| "dispatch lower CmdEnterSearchMode a = Some (rendering (a\<lparr>ap_input_mode := InputSearch, ap_search_query := [],
     ap_search_state := search_state_default, ap_search_direction_active := False\<rparr>))"
| "dispatch lower CmdExitSearchMode a = Some (rendering (a\<lparr>ap_input_mode := InputNormal\<rparr>))"
| "dispatch lower CmdEnterCopyMode a = map_option rendering (enter_copy_mode a)"
| "dispatch lower CmdExitCopyMode a = Some (rendering (leave_copy_mode a))"
| "dispatch lower (CmdSearchAppendChar c) a = map_option rendering (append_search_char lower c a)"
| "dispatch lower CmdSearchDeleteChar a = map_option rendering (delete_search_char lower a)"
| "dispatch lower CmdSearchNextMatch a = Some (rendering (current_search next_match_index a))"
| "dispatch lower CmdSearchPrevMatch a = Some (rendering (current_search prev_match_index a))"
| "dispatch lower CmdCopyToggleSelection a = map_option rendering (toggle_copy_selection a)"
| "dispatch lower CmdCopyYank a = copy_yank a"
| "dispatch lower (CmdForwardKeyToPty bytes) a = forward_key bytes a"
| "dispatch lower (CmdForwardPaste bytes) a = forward_paste bytes a"
| "dispatch lower (CmdForwardFocus gained) a = forward_focus gained a"
| "dispatch lower CmdQuit a = Some (result_none\<lparr>dr_exit := Some ExitQuit\<rparr>, a)"
| "dispatch lower CmdDetach a = Some (result_none\<lparr>dr_exit := Some ExitDetach\<rparr>, a)"
| "dispatch lower (CmdFocusPane i) a = map_option rendering (app_focus_pane i a)"
| "dispatch lower (CmdStartBorderDrag drag) a = Some (result_none, a\<lparr>ap_border_drag := Some drag\<rparr>)"
| "dispatch lower (CmdContinueBorderDrag col row) a = map_option rendering (drag_border col row a)"
| "dispatch lower CmdEndBorderDrag a = Some (result_render_clear, a\<lparr>ap_border_drag := None\<rparr>)"
| "dispatch lower (CmdStartMouseSelection i p) a = Some (rendering (a\<lparr>ap_mouse_selection :=
     Some \<lparr>ms_pane_id = i, ms_selection = selection_start p SelNormal\<rparr>\<rparr>))"
| "dispatch lower (CmdExtendMouseSelection p) a = Some (rendering (extend_mouse_selection p a))"
| "dispatch lower CmdFinalizeMouseSelection a = finalize_mouse_selection a"
| "dispatch lower (CmdForwardMouseToPty i bytes) a = Some (write_unless_empty i bytes result_none, a)"
| "dispatch lower (CmdScrollPaneUp i n) a = Some (rendering (on_pane_state i (scroll_view scroll_viewport_up n) a))"
| "dispatch lower (CmdScrollPaneDown i n) a = Some (rendering (on_pane_state i (scroll_view scroll_viewport_down n) a))"
| "dispatch lower (CmdResize cols rows) a = map_option (Pair result_render_clear) (dispatch_resize cols rows a)"
| "dispatch lower (CmdReloadConfig cfg) a = Some (result_render_clear,
     mark_all_dirty (a\<lparr>ap_bindings := bindings_from_config lower (cf_keys cfg), ap_config := cfg\<rparr>))"
| "dispatch lower motion a = map_option rendering (copy_move (copy_motion motion) a)"

end
