(* ===== verification/Dispatch_Props.thy ===== *)
theory Dispatch_Props
  imports App_Dispatch Selection_Properties Search_Properties
begin

text \<open>
  The invariant of the application and the lemmas that every command keeps it: the session's and the
  terminals' invariants, through the helpers the commands share.
\<close>

section \<open>The invariant\<close>

definition app_ok :: "application \<Rightarrow> bool" where
  "app_ok a \<longleftrightarrow> session_ok (ap_session a) \<and> plain_tabs (ap_session a) \<and> pane_states_ok (ap_panes a)"

lemma app_ok_fields [simp]:
  "app_ok (a\<lparr>ap_config := cfg\<rparr>) = app_ok a" "app_ok (a\<lparr>ap_bindings := pb\<rparr>) = app_ok a"
  "app_ok (a\<lparr>ap_input_mode := m\<rparr>) = app_ok a" "app_ok (a\<lparr>ap_search_query := q\<rparr>) = app_ok a"
  "app_ok (a\<lparr>ap_search_state := st\<rparr>) = app_ok a" "app_ok (a\<lparr>ap_search_direction_active := b\<rparr>) = app_ok a"
  "app_ok (a\<lparr>ap_copy_mode := cm\<rparr>) = app_ok a" "app_ok (a\<lparr>ap_border_drag := bd\<rparr>) = app_ok a"
  "app_ok (a\<lparr>ap_mouse_selection := ms\<rparr>) = app_ok a"
  by (simp_all add: app_ok_def)

lemma app_okD: "app_ok a \<Longrightarrow> session_ok (ap_session a)" "app_ok a \<Longrightarrow> plain_tabs (ap_session a)"
    "app_ok a \<Longrightarrow> pane_states_ok (ap_panes a)"
  by (simp_all add: app_ok_def)

lemma app_ok_session: "app_ok a \<Longrightarrow> session_ok s \<Longrightarrow> plain_tabs s \<Longrightarrow> app_ok (a\<lparr>ap_session := s\<rparr>)"
  by (simp add: app_ok_def)

lemma app_ok_panes: "app_ok a \<Longrightarrow> pane_states_ok pss \<Longrightarrow> app_ok (a\<lparr>ap_panes := pss\<rparr>)"
  by (simp add: app_ok_def)

lemma app_active:
  assumes "app_ok a"
  obtains t where "active_tab_of (ap_session a) = Some t" "tab_ok t" "t_swap_layouts t = []"
    "app_active_pane a = Some (t_active_pane t)"
proof -
  obtain t where t: "active_tab_of (ap_session a) = Some t" "tab_ok t" "t_swap_layouts t = []"
    using session_active [OF app_okD(1,2) [OF assms]] by metis
  then show ?thesis
    by (intro that [of t]) (simp_all add: app_active_pane_def)
qed

lemma app_tab: "app_ok a \<Longrightarrow> \<exists>t. active_tab_of (ap_session a) = Some t \<and> app_active_pane a = Some (t_active_pane t)"
  using app_active [of a] by metis

section \<open>Terminals\<close>

lemma pane_state_ok_fields [simp]:
  "pane_state_ok (dirty_pane ps) = pane_state_ok ps" "pane_state_ok (ps\<lparr>pst_damage := d\<rparr>) = pane_state_ok ps"
  "pane_state_ok (ps\<lparr>pst_pty := p\<rparr>) = pane_state_ok ps"
  by (simp_all add: pane_state_ok_def dirty_pane_def)

lemma screen_rows_scroll [simp]:
  "screen_rows R (scroll_viewport_up n s) = screen_rows R s" "screen_rows R (scroll_viewport_down n s) = screen_rows R s"
  "screen_rows R (scroll_viewport_reset s) = screen_rows R s"
  by (simp_all add: screen_rows_def cols_of_def scroll_viewport_up_def scroll_viewport_down_def scroll_viewport_reset_def)

lemma pane_state_ok_scroll [simp]:
  "pane_state_ok (scroll_view scroll_viewport_up n ps) = pane_state_ok ps"
  "pane_state_ok (scroll_view scroll_viewport_down n ps) = pane_state_ok ps"
  "pane_state_ok (ps\<lparr>pst_screen := scroll_viewport_reset (pst_screen ps)\<rparr>) = pane_state_ok ps"
  by (simp_all add: scroll_view_def) (simp_all add: pane_state_ok_def)

lemma pane_states_map:
  assumes "pane_states_ok pss" and "\<And>ps. pane_state_ok ps \<Longrightarrow> pane_state_ok (f ps)"
  shows "pane_states_ok (map (\<lambda>(i, ps). (i, f ps)) pss)"
proof -
  have "map fst (map (\<lambda>(i, ps). (i, f ps)) pss) = map fst pss"
    by (simp add: case_prod_beta comp_def)
  then have "distinct (map fst (map (\<lambda>(i, ps). (i, f ps)) pss))"
    using assms(1) by (simp only: pane_states_ok_def)
  moreover have "list_all (\<lambda>(i, ps). pane_state_ok ps) (map (\<lambda>(i, ps). (i, f ps)) pss)"
    using assms by (auto simp: pane_states_ok_def list_all_iff)
  ultimately show ?thesis
    unfolding pane_states_ok_def by blast
qed

lemma pane_states_delete: "pane_states_ok pss \<Longrightarrow> pane_states_ok (AList.delete i pss)"
  using set_delete [of i pss] by (auto simp: pane_states_ok_def distinct_delete list_all_iff)

lemma pane_states_deletes: "pane_states_ok pss \<Longrightarrow> pane_states_ok (fold AList.delete is pss)"
  by (induction "is" arbitrary: pss) (simp_all add: pane_states_delete)

lemma mark_all_dirty_ok [simp]: "app_ok a \<Longrightarrow> app_ok (mark_all_dirty a)"
  by (simp add: mark_all_dirty_def app_ok_panes pane_states_map app_okD)

lemma on_pane_state_ok:
  "app_ok a \<Longrightarrow> (\<And>ps. pane_state_ok ps \<Longrightarrow> pane_state_ok (f ps)) \<Longrightarrow> app_ok (on_pane_state i f a)"
  using pane_states_update [OF app_okD(3)] pane_states_lookup [OF app_okD(3)]
  by (auto simp: on_pane_state_def app_ok_panes split: option.split)

lemma on_active_pane_ok:
  "app_ok a \<Longrightarrow> (\<And>ps. pane_state_ok ps \<Longrightarrow> pane_state_ok (f ps)) \<Longrightarrow> returns (on_active_pane f a) app_ok"
  using on_pane_state_ok [of a f] by (rule_tac app_active [of a]) (auto simp: on_active_pane_def split: option.split)

section \<open>The active tab\<close>

lemma on_app_tab_ok:
  assumes a: "app_ok a"
    and f: "\<And>t. active_tab_of (ap_session a) = Some t \<Longrightarrow> tab_ok t \<Longrightarrow> t_swap_layouts t = [] \<Longrightarrow>
      tab_ok (snd (f t)) \<and> t_id (snd (f t)) = t_id t \<and> t_swap_layouts (snd (f t)) = []"
  shows "returns (on_app_tab f a) (\<lambda>x. app_ok (snd x) \<and> ap_panes (snd x) = ap_panes a)"
proof -
  have "returns (on_session_tab f (ap_session a)) (\<lambda>(r, s'). session_ok s' \<and> plain_tabs s')"
    by (rule returns_mono [OF on_session_tab_ok [OF app_okD(1,2) [OF a] f]]) auto
  then show ?thesis
    using a by (auto simp: on_app_tab_def app_ok_session elim: returns_mono)
qed

lemma plain_display:
  assumes "t_swap_layouts t = []"
  shows "t_swap_layouts (snd (toggle_fullscreen t)) = []" "t_swap_layouts (snd (focus_direction_op d t)) = []"
    "t_swap_layouts (toggle_floating_panes t) = []"
  using assms
  by (auto simp: toggle_fullscreen_def focus_direction_op_def toggle_floating_panes_def Let_def split: option.split)

lemma session_resize_plain: "plain_tabs s \<Longrightarrow> plain_tabs (session_resize c r s)"
  by (auto simp: plain_tabs_def session_resize_def tab_resize_def sync_pane_sizes_eq list_all_iff)

lemma close_tab_plain: "plain_tabs s \<Longrightarrow> plain_tabs (snd (close_tab k s))"
  using set_remove_at [of k "ss_tabs s"] by (auto simp: plain_tabs_def close_tab_def Let_def list_all_iff)

lemma switch_plain: "plain_tabs s \<Longrightarrow> plain_tabs (snd (next_tab s))" "plain_tabs s \<Longrightarrow> plain_tabs (snd (prev_tab s))"
  by (simp_all add: plain_tabs_def next_tab_def prev_tab_def)

lemma new_tab_plain: "plain_tabs s \<Longrightarrow> plain_tabs (snd (new_tab name s))"
  by (simp add: plain_tabs_def new_tab_def Let_def) (simp add: tab_new_def)

end
