(* ===== verification/Dispatch_Properties.thy ===== *)
theory Dispatch_Properties
  imports Dispatch_Props
begin

text \<open>
  Every command of the program keeps its invariant and cannot panic.
\<close>

section \<open>Resizing\<close>

lemma resize_alt_cursor: "resize c r s = Some s' \<Longrightarrow> s_alt_cursor s' = s_alt_cursor s"
  by (auto simp: resize_def bind_eq_Some_conv Let_def unwrap_pending_def set_row_def set_col_def case_prod_beta)

lemma resize_pane_state_ok:
  assumes "pane_state_ok ps" and "0 < pp_cols pos" and "0 < pp_rows pos"
    and "cur_row (s_alt_cursor (pst_screen ps)) < pp_rows pos"
  shows "returns (resize_pane_state pos ps) (\<lambda>ps'. pane_state_ok ps' \<and>
    s_alt_cursor (pst_screen ps') = s_alt_cursor (pst_screen ps))"
proof -
  obtain R where R: "screen_rows R (pst_screen ps)" "parser_wf (pst_parser ps)"
    using assms(1) by (auto simp: pane_state_ok_def)
  then have "returns (resize (pp_cols pos) (pp_rows pos) (pst_screen ps)) (screen_ok (pp_cols pos) (pp_rows pos))"
    using assms(2-4) by (intro resize_screen_ok [where C = "cols_of (pst_screen ps)"]) (simp_all add: screen_rows_def)
  then have "returns (resize (pp_cols pos) (pp_rows pos) (pst_screen ps)) (\<lambda>s. \<exists>R. screen_rows R s)"
    by (rule returns_mono) (blast intro: screen_rowsI)
  then show ?thesis
    using R(2) resize_alt_cursor [of "pp_cols pos" "pp_rows pos" "pst_screen ps"]
    by (auto simp: resize_pane_state_def pane_state_ok_def returns_iff)
qed

text \<open>Every shown pane gets a size its terminal can take.\<close>

definition size_fits :: "pane_states \<Rightarrow> pane_id \<times> pane_position \<Rightarrow> bool" where
  "size_fits pss = (\<lambda>(i, pos). case map_of pss i of
       None \<Rightarrow> True
     | Some ps \<Rightarrow> 0 < pp_cols pos \<and> 0 < pp_rows pos \<and> cur_row (s_alt_cursor (pst_screen ps)) < pp_rows pos)"

lemma size_fits_update:
  assumes "map_of pss i = Some ps" and "s_alt_cursor (pst_screen ps') = s_alt_cursor (pst_screen ps)"
  shows "size_fits (AList.update i ps' pss) = size_fits pss"
proof
  fix x
  show "size_fits (AList.update i ps' pss) x = size_fits pss x"
    using assms by (cases x; cases "fst x = i") (simp_all add: size_fits_def update_conv')
qed

lemma resize_states_ok:
  assumes "pane_states_ok pss" and "list_all (size_fits pss) ps"
  shows "returns (foldM (\<lambda>pss (i, pos).
      case map_of pss i of
        Some ps \<Rightarrow> map_option (\<lambda>ps. AList.update i ps pss) (resize_pane_state pos ps)
      | None \<Rightarrow> Some pss) ps pss) pane_states_ok"
proof -
  have "returns (foldM (\<lambda>pss (i, pos).
      case map_of pss i of
        Some ps \<Rightarrow> map_option (\<lambda>ps. AList.update i ps pss) (resize_pane_state pos ps)
      | None \<Rightarrow> Some pss) ps pss) (\<lambda>qss. pane_states_ok qss \<and> size_fits qss = size_fits pss)"
  proof (rule returns_foldM)
    fix qss x
    assume x: "x \<in> set ps" and q: "pane_states_ok qss \<and> size_fits qss = size_fits pss"
    obtain i pos where p: "x = (i, pos)"
      by (cases x)
    have fits: "size_fits qss (i, pos)"
      using assms(2) x q by (simp add: list_all_iff p)
    show "returns (case x of (i, pos) \<Rightarrow> case map_of qss i of
          Some ps \<Rightarrow> map_option (\<lambda>ps. AList.update i ps qss) (resize_pane_state pos ps)
        | None \<Rightarrow> Some qss) (\<lambda>qss. pane_states_ok qss \<and> size_fits qss = size_fits pss)"
    proof (cases "map_of qss i")
      case None
      then show ?thesis
        using q by (simp add: p)
    next
      case (Some st)
      then have "returns (resize_pane_state pos st) (\<lambda>st'. pane_state_ok st' \<and>
          s_alt_cursor (pst_screen st') = s_alt_cursor (pst_screen st))"
        using fits pane_states_lookup q by (intro resize_pane_state_ok) (auto simp: size_fits_def)
      then show ?thesis
        using Some q by (auto simp: p returns_iff pane_states_update size_fits_update)
    qed
  qed (use assms in simp)
  then show ?thesis
    by (rule returns_mono) simp
qed

section \<open>Every command\<close>

text \<open>What a command needs: a free number for a new pane or tab, and sizes that fit.\<close>

fun command_safe :: "app_command \<Rightarrow> application \<Rightarrow> bool" where
  "command_safe (CmdSplitPane d) a \<longleftrightarrow> (\<forall>t. active_tab_of (ap_session a) = Some t \<longrightarrow> t_next_pane_id t \<noteq> - 1)"
| "command_safe CmdNewTab a \<longleftrightarrow> ss_next_tab_id (ap_session a) \<noteq> - 1"
| "command_safe (CmdResize cols rows) a \<longleftrightarrow>
     (\<forall>t. active_tab_of (session_resize (unat cols) (unat rows - 1) (ap_session a)) = Some t \<longrightarrow>
        list_all (size_fits (ap_panes a)) (tab_positions t))"
| "command_safe _ a = True"

abbreviation keeps_app :: "(dispatch_result \<times> application) option \<Rightarrow> bool" where
  "keeps_app m \<equiv> returns m (\<lambda>x. app_ok (snd x))"

lemma keeps_rendering: "returns m app_ok \<Longrightarrow> keeps_app (map_option (Pair r) m)"
  by simp

lemma tab_command_keeps:
  assumes "app_ok a"
    and "\<And>t. active_tab_of (ap_session a) = Some t \<Longrightarrow> tab_ok t \<Longrightarrow> t_swap_layouts t = [] \<Longrightarrow>
      tab_ok (snd (f t)) \<and> t_id (snd (f t)) = t_id t \<and> t_swap_layouts (snd (f t)) = []"
  shows "returns (on_app_tab f a) (\<lambda>x. app_ok (snd x))"
  by (rule returns_mono [OF on_app_tab_ok [OF assms]]) auto

lemma split_keeps:
  assumes "app_ok a" and "command_safe (CmdSplitPane d) a"
  shows "keeps_app (dispatch_split_pane d a)"
proof -
  have "returns (on_app_tab (split_pane d) a) (\<lambda>x. app_ok (snd x))"
    using assms by (intro tab_command_keeps) (auto simp: split_pane_ok plain_ops frame_simps)
  then obtain r b where b: "on_app_tab (split_pane d) a = Some (r, b)" "app_ok b"
    by (auto simp: returns_iff)
  obtain t where "active_tab_of (ap_session b) = Some t"
    using app_tab [OF b(2)] by blast
  then show ?thesis
    using b by (simp add: dispatch_split_pane_def)
qed

lemma close_pane_keeps:
  assumes "app_ok a"
  shows "keeps_app (dispatch_close_active_pane a)"
proof -
  obtain t where t: "active_tab_of (ap_session a) = Some t"
    using app_tab [OF assms] by blast
  have keeps: "returns (on_app_tab (close_pane i) a) (\<lambda>x. app_ok (snd x))" for i
    using assms by (intro tab_command_keeps) (auto simp: close_pane_ok plain_ops frame_simps)
  have "returns (on_app_tab (close_pane i) a) (\<lambda>x. app_ok (mark_all_dirty
      (snd x\<lparr>ap_panes := AList.delete i (ap_panes (snd x))\<rparr>)))" for i
    by (rule returns_mono [OF keeps]) (simp add: app_ok_panes pane_states_delete app_okD)
  then show ?thesis
    using t assms by (simp add: dispatch_close_active_pane_def case_prod_beta split: option.split)
qed

lemma new_tab_keeps:
  assumes "app_ok a" and "ss_next_tab_id (ap_session a) \<noteq> - 1"
  shows "keeps_app (dispatch_new_tab a)"
proof -
  let ?s = "snd (new_tab (ascii ''Tab '' @ show_nat (length (ss_tabs (ap_session a)))) (ap_session a))"
  have s: "session_ok ?s" "plain_tabs ?s"
    using assms by (simp_all add: new_tab_ok new_tab_plain app_okD)
  have "active_tab_of ?s = Some (tab_new (ss_next_tab_id (ap_session a))
      (ascii ''Tab '' @ show_nat (length (ss_tabs (ap_session a)))) (ps_cols (ss_size (ap_session a))) (ps_rows (ss_size (ap_session a))))"
    by (simp add: active_tab_of_def new_tab_def Let_def)
  moreover have "tab_pane_ids (tab_new i name c r) = [0]" for i name c r
    by (simp add: tab_pane_ids_def tab_new_def add_pane_ids)
  ultimately show ?thesis
    using assms(1) s by (simp add: dispatch_new_tab_def Let_def case_prod_beta app_ok_session)
qed

lemma close_tab_keeps:
  assumes "app_ok a"
  shows "keeps_app (dispatch_close_tab a)"
proof -
  obtain t where t: "active_tab_of (ap_session a) = Some t"
    using app_tab [OF assms] by blast
  let ?s = "snd (close_tab (ss_active_tab (ap_session a)) (ap_session a))"
  have "app_ok (a\<lparr>ap_session := ?s\<rparr>)"
    using assms by (simp add: app_ok_session session_strip_ok close_tab_plain app_okD)
  moreover have "app_ok (a\<lparr>ap_session := ?s, ap_panes := fold AList.delete is (ap_panes a)\<rparr>)" for "is"
    using calculation pane_states_deletes [of "ap_panes a" "is"] assms app_ok_panes [of "a\<lparr>ap_session := ?s\<rparr>"]
    by (simp add: app_okD)
  ultimately show ?thesis
    using t by (simp add: dispatch_close_tab_def Let_def case_prod_beta)
qed

lemma screen_texts_total:
  "pane_state_ok ps \<Longrightarrow>
   foldM (\<lambda>ls r. map_option (\<lambda>l. ls @ [l]) (row_text (s_grid (pst_screen ps)) r)) [0..<rows_of (pst_screen ps)] [] \<noteq> None"
  using screen_text_total [of _ "pst_screen ps"] by (fastforce simp: pane_state_ok_def screen_text_def)

lemma run_search_keeps:
  assumes "app_ok a" and "\<And>q. q \<noteq> [] \<Longrightarrow> lower q \<noteq> []"
  shows "returns (run_search lower a) (\<lambda>b. app_ok b \<and> ap_search_query b = ap_search_query a \<and>
    ap_input_mode b = ap_input_mode a \<and> ap_search_direction_active b = ap_search_direction_active a)"
proof (cases "ap_search_query a = []")
  case True
  then show ?thesis
    using assms(1) by (simp add: run_search_def)
next
  case False
  obtain t :: tab where t: "app_active_pane a = Some (t_active_pane t)"
    using app_tab [OF assms(1)] by blast
  show ?thesis
  proof (cases "Option.bind (t_active_pane t) (map_of (ap_panes a))")
    case None
    then show ?thesis
      using False t assms(1) by (cases "t_active_pane t") (simp_all add: run_search_def)
  next
    case (Some ps)
    then obtain i where i: "t_active_pane t = Some i" "map_of (ap_panes a) i = Some ps"
      by (cases "t_active_pane t") auto
    obtain texts where texts: "foldM (\<lambda>ls r. map_option (\<lambda>l. ls @ [l]) (row_text (s_grid (pst_screen ps)) r))
        [0..<rows_of (pst_screen ps)] [] = Some texts"
      using screen_texts_total pane_states_lookup [OF app_okD(3) [OF assms(1)] i(2)] by blast
    obtain ms where "find_all_matches lower texts (ap_search_query a) False = Some ms"
      using find_all_total [where lower = lower and q = "ap_search_query a"] assms(2) [OF False] by blast
    then show ?thesis
      using False t i texts assms(1) by (simp add: run_search_def Let_def)
  qed
qed

lemma search_typing_keeps:
  assumes "app_ok a" and "\<And>q. q \<noteq> [] \<Longrightarrow> lower q \<noteq> []"
  shows "returns (append_search_char lower c a) (\<lambda>b. app_ok b \<and> ap_search_query b = ap_search_query a @ [c] \<and>
      ap_input_mode b = ap_input_mode a \<and> ap_search_direction_active b)"
    "returns (delete_search_char lower a) app_ok"
proof -
  have run: "returns (run_search lower (a\<lparr>ap_search_query := q\<rparr>)) (\<lambda>b. app_ok b \<and> ap_search_query b = q \<and>
      ap_input_mode b = ap_input_mode a \<and> ap_search_direction_active b = ap_search_direction_active a)" for q
    using run_search_keeps [of "a\<lparr>ap_search_query := q\<rparr>" lower] assms by simp
  show "returns (append_search_char lower c a) (\<lambda>b. app_ok b \<and> ap_search_query b = ap_search_query a @ [c] \<and>
      ap_input_mode b = ap_input_mode a \<and> ap_search_direction_active b)"
    unfolding append_search_char_def returns_map_option by (rule returns_mono [OF run]) simp
  show "returns (delete_search_char lower a) app_ok"
    unfolding delete_search_char_def by (rule returns_mono [OF run]) simp
qed

lemma pane_text_total: "app_ok a \<Longrightarrow> P \<Longrightarrow> returns (pane_selection_text sel i a) (\<lambda>_. P)"
proof (cases "map_of (ap_panes a) i")
  case (Some ps)
  assume "app_ok a" and P: "P"
  then obtain R where "screen_rows R (pst_screen ps)"
    using pane_states_lookup [OF app_okD(3) Some] by (auto simp: pane_state_ok_def)
  then have "grid_ok (cols_of (pst_screen ps)) R (s_grid (pst_screen ps))"
    using screen_okD(3) by (simp add: screen_rows_def)
  then obtain copied where "selection_text (selection_finalize sel) (s_grid (pst_screen ps)) = Some copied"
    using selection_text_total by blast
  then show ?thesis
    using Some P by (simp add: pane_selection_text_def)
qed (simp add: pane_selection_text_def)

lemma copy_mode_keeps:
  assumes "app_ok a"
  shows "returns (enter_copy_mode a) app_ok" "returns (copy_move f a) app_ok" "returns (toggle_copy_selection a) app_ok"
    "app_ok (leave_copy_mode a)" "keeps_app (copy_yank a)"
proof -
  obtain t :: tab where t: "app_active_pane a = Some (t_active_pane t)"
    using app_tab [OF assms] by blast
  have dirty: "app_ok b \<Longrightarrow> app_ok (on_pane_state i dirty_pane b)" for i b
    by (simp add: on_pane_state_ok)
  show "returns (enter_copy_mode a) app_ok" "returns (copy_move f a) app_ok"
    using assms t by (auto simp: enter_copy_mode_def copy_move_def Let_def dirty split: option.split)
  show "returns (toggle_copy_selection a) app_ok"
    using assms by (auto simp: toggle_copy_selection_def mark_active_dirty_def intro!: on_active_pane_ok split: option.split)
  show leave: "app_ok (leave_copy_mode a)"
    using assms by (simp add: leave_copy_mode_def)
  show "keeps_app (copy_yank a)"
    using t leave by (auto simp: copy_yank_def pane_text_total [OF assms] split: option.split)
qed

lemma mouse_keeps:
  assumes "app_ok a"
  shows "returns (app_focus_pane i a) app_ok" "returns (drag_border c r a) app_ok" "keeps_app (finalize_mouse_selection a)"
proof -
  obtain t :: tab where t: "app_active_pane a = Some (t_active_pane t)"
    using app_tab [OF assms] by blast
  have focus: "returns (on_app_tab (focus_pane i) a) (\<lambda>x. app_ok (snd x))"
    using assms by (intro tab_command_keeps) (auto simp: focus_pane_ok plain_ops frame_simps)
  have "returns (on_app_tab (focus_pane i) a) (\<lambda>x. app_ok (mark_all_dirty (snd x)))"
    by (rule returns_mono [OF focus]) simp
  then show "returns (app_focus_pane i a) app_ok"
    using assms t by (simp add: app_focus_pane_def case_prod_beta)
  have "returns (on_app_tab (if n \<noteq> 0 then resize_pane j d n else Pair False) a) (\<lambda>x. app_ok (snd x))" for j d n
    using assms by (intro tab_command_keeps) (auto simp: resize_pane_ok plain_ops frame_simps)
  then have "returns (on_app_tab (if n \<noteq> 0 then resize_pane j d n else Pair False) a)
      (\<lambda>x. app_ok (mark_all_dirty (snd x\<lparr>ap_border_drag := bd\<rparr>)))" for j d n bd
    by (rule returns_mono) simp
  then show "returns (drag_border c r a) app_ok"
    using assms by (simp add: drag_border_def Let_def case_prod_beta split: option.split)
  show "keeps_app (finalize_mouse_selection a)"
    using assms by (auto simp: finalize_mouse_selection_def pane_text_total [OF assms] split: option.split)
qed

lemma forward_keeps:
  assumes "app_ok a"
  shows "keeps_app (forward_key bs a)" "keeps_app (forward_paste bs a)" "keeps_app (forward_focus b a)"
proof -
  obtain t :: tab where t: "app_active_pane a = Some (t_active_pane t)"
    using app_tab [OF assms] by blast
  then show "keeps_app (forward_key bs a)" "keeps_app (forward_paste bs a)" "keeps_app (forward_focus b a)"
    using assms by (auto simp: forward_key_def forward_paste_def forward_focus_def on_pane_state_ok split: option.split)
qed

lemma resize_keeps:
  assumes "app_ok a" and "command_safe (CmdResize cols rows) a"
  shows "returns (dispatch_resize cols rows a) app_ok"
proof -
  let ?s = "session_resize (unat cols) (unat rows - 1) (ap_session a)"
  have b: "app_ok (a\<lparr>ap_session := ?s\<rparr>)"
    using assms(1) by (simp add: app_ok_session session_resize_ok session_resize_plain app_okD)
  obtain t where t: "active_tab_of ?s = Some t"
    using app_tab [OF b] by auto
  obtain pss where pss: "foldM (\<lambda>pss (i, pos).
      case map_of pss i of
        Some ps \<Rightarrow> map_option (\<lambda>ps. AList.update i ps pss) (resize_pane_state pos ps)
      | None \<Rightarrow> Some pss) (tab_positions t) (ap_panes a) = Some pss" "pane_states_ok pss"
    using resize_states_ok [of "ap_panes a" "tab_positions t"] assms t by (auto simp: returns_iff app_okD)
  have c: "app_ok (a\<lparr>ap_session := ?s, ap_panes := pss\<rparr>)"
    using app_ok_panes [OF b pss(2)] by simp
  then have "returns (clamp_copy_cursor (a\<lparr>ap_session := ?s, ap_panes := pss\<rparr>)) app_ok"
    using app_tab [OF c] by (auto simp: clamp_copy_cursor_def split: option.split)
  then show ?thesis
    using t pss(1) by (simp add: dispatch_resize_def Let_def)
qed

lemma tab_display_keeps:
  assumes "app_ok a"
  shows "returns (on_app_tab (focus_direction_op d) a) (\<lambda>x. app_ok (snd x))"
    "returns (on_app_tab toggle_fullscreen a) (\<lambda>x. app_ok (snd x))"
    "returns (on_app_tab (\<lambda>t. ((), toggle_floating_panes t)) a) (\<lambda>x. app_ok (snd x))"
  using assms
  by (intro tab_command_keeps; auto simp: focus_direction_ok toggle_fullscreen_ok toggle_floating_ok plain_display frame_simps)+

lemma dispatch_keeps:
  assumes a: "app_ok a" and cmd: "command_safe cmd a" and lower: "\<And>q. q \<noteq> [] \<Longrightarrow> lower q \<noteq> []"
  shows "keeps_app (dispatch lower cmd a)"
proof -
  have scroll: "returns (on_active_pane (scroll_view scroll_viewport_up n) a) app_ok"
      "returns (on_active_pane (scroll_view scroll_viewport_down n) a) app_ok" for n
    using a by (simp_all add: on_active_pane_ok)
  have search: "returns (append_search_char lower c a) app_ok" for c
    by (rule returns_mono [OF search_typing_keeps(1) [OF a lower]]) simp_all
  have display: "returns (map_option (\<lambda>(_, a). (result_render, mark_all_dirty a)) m) (\<lambda>x. app_ok (snd x))"
    if "returns m (\<lambda>x. app_ok (snd x))" for m :: "('r \<times> application) option"
    using that by (cases m) auto
  have tabs: "app_ok (a\<lparr>ap_session := snd (next_tab (ap_session a))\<rparr>)" "app_ok (a\<lparr>ap_session := snd (prev_tab (ap_session a))\<rparr>)"
    using a by (simp_all add: app_ok_session session_strip_ok switch_plain app_okD)
  show ?thesis
    using a cmd
    by (cases cmd)
       (simp_all add: split_keeps close_pane_keeps new_tab_keeps close_tab_keeps tabs tab_display_keeps display scroll search
         search_typing_keeps(2) [OF a lower] copy_mode_keeps mouse_keeps forward_keeps resize_keeps current_search_def Let_def
         extend_mouse_selection_def on_pane_state_ok del: returns_map_option command_safe.simps(3),
        simp_all add: scroll search search_typing_keeps(2) [OF a lower] copy_mode_keeps mouse_keeps resize_keeps)
qed

text \<open>A command returns even when no number is free.\<close>

lemma split_returns: "app_ok a \<Longrightarrow> returns (dispatch_split_pane d a) (\<lambda>_. True)"
  using app_tab [of a]
  by (auto simp: dispatch_split_pane_def on_app_tab_def on_session_tab_def active_tab_of_def case_prod_beta Let_def app_ok_def
      session_ok_def)

lemma new_tab_returns: "app_ok a \<Longrightarrow> returns (dispatch_new_tab a) (\<lambda>_. True)"
  by (simp add: dispatch_new_tab_def new_tab_def active_tab_of_def tab_pane_ids_def tab_new_def add_pane_ids Let_def)

text \<open>
  C2: in every state of the invariant (the session well formed and without swap layouts, the terminals
  distinct, each with a well-formed parser and a screen whose rows have one width and whose two cursors' rows
  and margins lie within it) every command returns, a resize if it gives every shown pane that
  has a terminal a column, a row and the row of its alternate screen's cursor, a search if lowering a query
  leaves something of it. The invariant holds again afterwards, for a split and a new tab if a number for
  the pane or tab is free. (A resize that leaves the alternate cursor's row outside panics later,
  src/crates/emux-term/src/screen.rs:1129. Cursor columns and the copy cursor are not part of the invariant.)
\<close>
theorem dispatch_safe:
  assumes "app_ok a"
    and "\<And>cols rows t. cmd = CmdResize cols rows \<Longrightarrow>
      active_tab_of (session_resize (unat cols) (unat rows - 1) (ap_session a)) = Some t \<Longrightarrow>
      list_all (size_fits (ap_panes a)) (tab_positions t)"
    and "\<And>q. q \<noteq> [] \<Longrightarrow> lower q \<noteq> []"
  shows "returns (dispatch lower cmd a) (\<lambda>(r, b).
    (\<forall>d t. cmd = CmdSplitPane d \<longrightarrow> active_tab_of (ap_session a) = Some t \<longrightarrow> t_next_pane_id t \<noteq> - 1) \<and>
    (cmd = CmdNewTab \<longrightarrow> ss_next_tab_id (ap_session a) \<noteq> - 1) \<longrightarrow> app_ok b)"
proof (cases "command_safe cmd a")
  case True
  show ?thesis
    by (rule returns_mono [OF dispatch_keeps [OF assms(1) True assms(3)]]) (simp_all add: case_prod_beta)
next
  case False
  then consider (s) d t where "cmd = CmdSplitPane d" "active_tab_of (ap_session a) = Some t" "t_next_pane_id t = - 1"
    | (n) "cmd = CmdNewTab" "ss_next_tab_id (ap_session a) = - 1"
    using assms(2) by (cases cmd) auto
  then show ?thesis
    by cases (auto intro!: returns_mono [OF split_returns [OF assms(1)]] returns_mono [OF new_tab_returns [OF assms(1)]])
qed

definition idle_pty :: pty where
  "idle_pty = \<lparr>pty_reads = [], pty_written = [], pty_room = 0, pty_error_text = []\<rparr>"

definition sample_state :: "nat \<Rightarrow> nat \<Rightarrow> pane_state" where
  "sample_state cols rows = \<lparr>pst_pty = idle_pty, pst_parser = parser_new,
     pst_screen = (screen_new cols rows)\<lparr>s_damage_mode := DamageRow\<rparr>, pst_damage = tracker_new rows\<rparr>"

definition sample_app :: "nat \<Rightarrow> nat \<Rightarrow> application" where
  "sample_app cols rows = app_new id config_default False (sample_state cols rows) cols rows"

lemma sample_app_fields:
  "ap_session (sample_app c r) = session_new (ascii ''main'') c r" "ap_panes (sample_app c r) = [(0, sample_state c r)]"
  "ap_input_mode (sample_app c r) = InputNormal" "ap_copy_mode (sample_app c r) = None"
  "ap_daemon_mode (sample_app c r) = False"
  by (simp_all add: sample_app_def app_new_def)

lemma sample_app_ok: "0 < c \<Longrightarrow> 0 < r \<Longrightarrow> app_ok (sample_app c r)"
  using session_new_ok [of "ascii ''main''" c r] screen_rows_new [of c r]
  by (auto simp: app_ok_def sample_app_fields pane_states_ok_def pane_state_ok_def sample_state_def plain_tabs_def
      session_new_def) (simp add: tab_new_def)

theorem dispatch_safe_witness:
  "returns (dispatch id (CmdSplitPane Vertical) (sample_app 80 24)) (\<lambda>(r, b). app_ok b)"
  by (rule returns_mono [OF dispatch_safe [where lower = id and cmd = "CmdSplitPane Vertical" and a = "sample_app 80 24"]])
     (simp_all add: sample_app_ok, simp add: sample_app_fields session_new_def active_tab_of_def tab_new_def)

end
