(* ===== verification/Copy_Properties.thy ===== *)
theory Copy_Properties
  imports Dispatch_Properties
begin

text \<open>The text yanked in copy mode.\<close>

section \<open>Copy mode\<close>

fun is_motion :: "app_command \<Rightarrow> bool" where
  "is_motion CmdCopyMoveLeft = True"
| "is_motion CmdCopyMoveDown = True"
| "is_motion CmdCopyMoveUp = True"
| "is_motion CmdCopyMoveRight = True"
| "is_motion CmdCopyStartOfLine = True"
| "is_motion CmdCopyEndOfLine = True"
| "is_motion CmdCopyGotoTop = True"
| "is_motion CmdCopyGotoBottom = True"
| "is_motion CmdCopyHalfPageUp = True"
| "is_motion CmdCopyHalfPageDown = True"
| "is_motion _ = False"

lemma dispatch_motion: "is_motion m \<Longrightarrow> dispatch lower m a = map_option (Pair result_render) (copy_move (copy_motion m) a)"
  by (cases m) simp_all

lemma motion_selection:
  "copy_motion m s (cm\<lparr>cm_selection := x\<rparr>) = (copy_motion m s cm)\<lparr>cm_selection := x\<rparr>"
  "cm_scrollback_len (copy_motion m s cm) = cm_scrollback_len cm" "cm_selection (copy_motion m s cm) = cm_selection cm"
  by (cases m; simp)+

text \<open>The program is in copy mode, on a pane with a given screen and with a given cursor.\<close>

definition copying :: "pane_id \<Rightarrow> screen \<Rightarrow> copy_mode_state \<Rightarrow> application \<Rightarrow> bool" where
  "copying i s cm a \<longleftrightarrow> app_active_pane a = Some (Some i) \<and>
     (\<exists>ps. map_of (ap_panes a) i = Some ps \<and> pst_screen ps = s) \<and> ap_copy_mode a = Some cm"

lemma copying_dirty: "copying i s cm a \<Longrightarrow> copying i s cm (on_pane_state i dirty_pane a)"
  by (auto simp: copying_def on_pane_state_def app_active_pane_def update_conv' dirty_pane_def)

lemma copying_step:
  assumes "copying i s cm a" and "is_motion m"
  shows "\<exists>b. dispatch lower m a = Some (result_render, b) \<and> copying i s (track_selection (copy_motion m s cm)) b"
proof -
  obtain ps where ps: "app_active_pane a = Some (Some i)" "map_of (ap_panes a) i = Some ps" "pst_screen ps = s"
      "ap_copy_mode a = Some cm"
    using assms(1) by (auto simp: copying_def)
  let ?b = "a\<lparr>ap_copy_mode := Some (track_selection (copy_motion m s cm))\<rparr>"
  have "copying i s (track_selection (copy_motion m s cm)) ?b"
    using ps by (simp add: copying_def app_active_pane_def)
  then show ?thesis
    using copying_dirty ps by (auto simp: dispatch_motion [OF assms(2)] copy_move_def Let_def)
qed

definition moved :: "screen \<Rightarrow> app_command list \<Rightarrow> copy_mode_state \<Rightarrow> copy_mode_state" where
  "moved s ms cm = fold (\<lambda>m. copy_motion m s) ms cm"

definition cursor_point :: "copy_mode_state \<Rightarrow> selection_point" where
  "cursor_point cm = point_new (cm_scrollback_len cm + cm_row cm) (cm_col cm)"

definition exec_commands :: "(rchar list \<Rightarrow> rchar list) \<Rightarrow> app_command list \<Rightarrow> application \<Rightarrow> application option" where
  "exec_commands lower cmds a = foldM (\<lambda>a c. map_option snd (dispatch lower c a)) cmds a"

text \<open>The selection after moves: none as long as none was started, else up to the cursor.\<close>

definition selected_to :: "selection option \<Rightarrow> copy_mode_state \<Rightarrow> copy_mode_state" where
  "selected_to sel cm = cm\<lparr>cm_selection := map_option (selection_extend (cursor_point cm)) sel\<rparr>"

lemma track_selected: "track_selection (copy_motion m s (selected_to sel cm)) = selected_to sel (copy_motion m s cm)"
  by (cases sel) (simp_all add: selected_to_def motion_selection track_selection_def cursor_point_def selection_extend_def)

lemma copying_moves:
  assumes "copying i s (selected_to sel cm) a" and "list_all is_motion ms"
  shows "\<exists>b. exec_commands lower ms a = Some b \<and> copying i s (selected_to sel (moved s ms cm)) b"
  using assms
proof (induction ms arbitrary: a cm)
  case Nil
  then show ?case
    by (simp add: exec_commands_def moved_def)
next
  case (Cons m ms)
  obtain b where b: "dispatch lower m a = Some (result_render, b)" "copying i s (selected_to sel (copy_motion m s cm)) b"
    using copying_step [OF Cons.prems(1), of m lower] Cons.prems(2) by (auto simp: track_selected)
  then show ?case
    using Cons.IH [OF b(2)] Cons.prems(2) by (simp add: exec_commands_def moved_def)
qed

text \<open>Entering copy mode, moving, starting a selection, moving on, and yanking.\<close>

definition yank_session ::
  "(rchar list \<Rightarrow> rchar list) \<Rightarrow> app_command list \<Rightarrow> app_command list \<Rightarrow> application \<Rightarrow> rchar list option option" where
  "yank_session lower ms ms' a = do {
     a \<leftarrow> exec_commands lower (CmdEnterCopyMode # ms @ CmdCopyToggleSelection # ms') a;
     (r, a) \<leftarrow> dispatch lower CmdCopyYank a;
     Some (dr_yanked_text r) }"

definition entered :: "screen \<Rightarrow> copy_mode_state" where
  "entered s = \<lparr>cm_row = row_of s, cm_col = col_of s, cm_scrollback_len = scrollback_len (s_grid s), cm_selection = None\<rparr>"

lemma entered_copying:
  assumes "app_active_pane a = Some (Some i)" and "map_of (ap_panes a) i = Some ps"
  shows "\<exists>b. dispatch lower CmdEnterCopyMode a = Some (result_render, b) \<and>
    copying i (pst_screen ps) (selected_to None (entered (pst_screen ps))) b"
proof -
  let ?b = "a\<lparr>ap_input_mode := InputCopy, ap_copy_mode := Some (entered (pst_screen ps))\<rparr>"
  have "copying i (pst_screen ps) (selected_to None (entered (pst_screen ps))) ?b"
    using assms by (simp add: copying_def app_active_pane_def selected_to_def entered_def)
  then show ?thesis
    using copying_dirty assms by (auto simp: enter_copy_mode_def Let_def entered_def)
qed

lemma toggled_copying:
  assumes "copying i s (selected_to None cm) a"
  shows "\<exists>b. dispatch lower CmdCopyToggleSelection a = Some (result_render, b) \<and>
    copying i s (selected_to (Some (selection_start (cursor_point cm) SelNormal)) cm) b"
proof -
  let ?sel = "selection_start (cursor_point cm) SelNormal"
  let ?b = "a\<lparr>ap_copy_mode := Some (selected_to (Some ?sel) cm)\<rparr>"
  have sel: "selection_extend (cursor_point cm) ?sel = ?sel"
    by (simp add: selection_extend_def selection_start_def)
  have "copying i s (selected_to (Some ?sel) cm) ?b"
    using assms by (simp add: copying_def app_active_pane_def)
  moreover have "app_active_pane ?b = Some (Some i)"
    using assms by (simp add: copying_def app_active_pane_def)
  ultimately show ?thesis
    using copying_dirty assms sel
    by (auto simp: copying_def toggle_copy_selection_def mark_active_dirty_def on_active_pane_def selected_to_def cursor_point_def)
qed

lemma yanked:
  assumes "copying i s (selected_to (Some sel) cm) a"
    and "selection_text (selection_finalize (selection_extend (cursor_point cm) sel)) (s_grid s) = Some copied"
  shows "map_option (\<lambda>(r, a). dr_yanked_text r) (dispatch lower CmdCopyYank a) = Some (if copied = [] then None else Some copied)"
  using assms by (auto simp: copying_def copy_yank_def pane_selection_text_def selected_to_def)

lemma yank_session_text:
  assumes a: "app_active_pane a = Some (Some i)" "map_of (ap_panes a) i = Some ps"
    and ms: "list_all is_motion ms" "list_all is_motion ms'"
    and c: "c = moved (pst_screen ps) ms (entered (pst_screen ps))" "c' = moved (pst_screen ps) ms' c"
    and copied: "selection_text (selection_finalize (selection_extend (cursor_point c')
      (selection_start (cursor_point c) SelNormal))) (s_grid (pst_screen ps)) = Some copied"
  shows "yank_session lower ms ms' a = Some (if copied = [] then None else Some copied)"
proof -
  let ?s = "pst_screen ps"
  obtain a1 where a1: "dispatch lower CmdEnterCopyMode a = Some (result_render, a1)" "copying i ?s (selected_to None (entered ?s)) a1"
    using entered_copying [OF a] by blast
  obtain a2 where a2: "exec_commands lower ms a1 = Some a2" "copying i ?s (selected_to None c) a2"
    using copying_moves [OF a1(2) ms(1), of lower] unfolding c(1) by blast
  obtain a3 where a3: "dispatch lower CmdCopyToggleSelection a2 = Some (result_render, a3)"
      "copying i ?s (selected_to (Some (selection_start (cursor_point c) SelNormal)) c) a3"
    using toggled_copying [OF a2(2)] by blast
  obtain a4 where a4: "exec_commands lower ms' a3 = Some a4"
      "copying i ?s (selected_to (Some (selection_start (cursor_point c) SelNormal)) c') a4"
    using copying_moves [OF a3(2) ms(2), of lower] unfolding c(2) by blast
  have "exec_commands lower (CmdEnterCopyMode # ms @ CmdCopyToggleSelection # ms') a = Some a4"
    using a1(1) a2(1) a3(1) a4(1) by (simp add: exec_commands_def foldM_append del: dispatch.simps)
  then show ?thesis
    using yanked [OF a4(2) copied, of lower] unfolding yank_session_def by (auto simp del: dispatch.simps simp: map_option_case split: option.splits)
qed

text \<open>No move takes the cursor out of the pane.\<close>

definition in_pane :: "screen \<Rightarrow> copy_mode_state \<Rightarrow> bool" where
  "in_pane s cm \<longleftrightarrow> cm_row cm < rows_of s \<and> cm_col cm \<le> max (col_of s) (cols_of s - 1)"

lemma motion_in_pane: "in_pane s cm \<Longrightarrow> in_pane s (copy_motion m s cm)"
  by (cases m) (auto simp: in_pane_def)

lemma moved_in_pane: "in_pane s cm \<Longrightarrow> in_pane s (moved s ms cm)"
  by (induction ms arbitrary: cm) (simp_all add: moved_def motion_in_pane)

lemma entered_in_pane: "screen_rows R s \<Longrightarrow> in_pane s (entered s)"
  using screen_okD(5,14) [of "cols_of s" R s] by (simp add: screen_rows_def in_pane_def entered_def)

lemma copy_cursor:
  assumes "app_active_pane a = Some (Some i)" and "map_of (ap_panes a) i = Some ps" and "list_all is_motion ms"
  shows "\<exists>b cm. exec_commands lower (CmdEnterCopyMode # ms) a = Some b \<and> ap_copy_mode b = Some cm \<and>
    cm_row cm = cm_row (moved (pst_screen ps) ms (entered (pst_screen ps))) \<and>
    cm_col cm = cm_col (moved (pst_screen ps) ms (entered (pst_screen ps)))"
proof -
  obtain a1 where a1: "dispatch lower CmdEnterCopyMode a = Some (result_render, a1)"
      "copying i (pst_screen ps) (selected_to None (entered (pst_screen ps))) a1"
    using entered_copying [OF assms(1,2)] by blast
  then show ?thesis
    using copying_moves [OF a1(2) assms(3), of lower]
    by (auto simp: exec_commands_def copying_def selected_to_def simp del: dispatch.simps)
qed

text \<open>
  C25: what copy mode yanks: the cursor starts at the pane's cursor, every move keeps its row within the pane
  and takes its column no further right than the last column or where the pane's cursor was, and the text
  yanked is that of the selection from where the cursor was when the selection was started to where it is at
  the end, in the lines of the live screen. The offset the pane is scrolled back by has no part in it: after
  scrolling back, the text yanked is not the text shown.
\<close>
theorem copy_mode_yanks:
  assumes "app_ok a" and "app_active_pane a = Some (Some i)" and "map_of (ap_panes a) i = Some ps"
    and "list_all is_motion ms" and "list_all is_motion ms'"
    and "c = moved (pst_screen ps) ms (entered (pst_screen ps))" and "c' = moved (pst_screen ps) ms' c"
  shows "(\<exists>b cm. exec_commands lower (CmdEnterCopyMode # ms) a = Some b \<and> ap_copy_mode b = Some cm \<and>
      cm_row cm = cm_row c \<and> cm_row cm < rows_of (pst_screen ps) \<and>
      cm_col cm = cm_col c \<and> cm_col cm \<le> max (col_of (pst_screen ps)) (cols_of (pst_screen ps) - 1)) \<and>
    (\<exists>copied. selection_text (selection_finalize (selection_extend (cursor_point c')
        (selection_start (cursor_point c) SelNormal))) (s_grid (pst_screen ps)) = Some copied \<and>
      yank_session lower ms ms' a = Some (if copied = [] then None else Some copied) \<and>
      yank_session lower ms ms' (on_pane_state i (scroll_view scroll_viewport_up n) a) = yank_session lower ms ms' a)"
proof -
  let ?sel = "selection_finalize (selection_extend (cursor_point c') (selection_start (cursor_point c) SelNormal))"
  let ?a = "on_pane_state i (scroll_view scroll_viewport_up n) a" and ?ps = "scroll_view scroll_viewport_up n ps"
  obtain R where R: "screen_rows R (pst_screen ps)"
    using pane_states_lookup [OF app_okD(3) [OF assms(1)] assms(3)] by (auto simp: pane_state_ok_def)
  then obtain copied where copied: "selection_text ?sel (s_grid (pst_screen ps)) = Some copied"
    using selection_text_total screen_okD(3) by (metis screen_rows_def not_None_eq)
  have grid: "s_grid (pst_screen ?ps) = s_grid (pst_screen ps)" "s_cursor (pst_screen ?ps) = s_cursor (pst_screen ps)"
    by (simp_all add: scroll_view_def dirty_pane_def scroll_viewport_up_def)
  have motions: "moved (pst_screen ?ps) ks cm = moved (pst_screen ps) ks cm" for ks cm
  proof -
    have "copy_motion m (pst_screen ?ps) cm = copy_motion m (pst_screen ps) cm" for m cm
      by (cases m) (simp_all add: rows_of_def cols_of_def grid)
    then have "(\<lambda>m. copy_motion m (pst_screen ?ps)) = (\<lambda>m. copy_motion m (pst_screen ps))"
      by blast
    then show ?thesis
      by (simp only: moved_def)
  qed
  have "entered (pst_screen ?ps) = entered (pst_screen ps)"
    by (simp add: entered_def grid)
  moreover have "app_active_pane ?a = Some (Some i)" "map_of (ap_panes ?a) i = Some ?ps"
    using assms(2,3) by (simp_all add: on_pane_state_def app_active_pane_def update_conv')
  ultimately have "yank_session lower ms ms' ?a = Some (if copied = [] then None else Some copied)"
    using yank_session_text [of ?a i ?ps ms ms' c c' copied lower] assms(4-7) copied grid motions by simp
  then have copy: "\<exists>copied. selection_text ?sel (s_grid (pst_screen ps)) = Some copied \<and>
      yank_session lower ms ms' a = Some (if copied = [] then None else Some copied) \<and>
      yank_session lower ms ms' ?a = yank_session lower ms ms' a"
    using copied yank_session_text [OF assms(2-7) copied, of lower] by auto
  have "in_pane (pst_screen ps) c"
    unfolding assms(6) by (rule moved_in_pane [OF entered_in_pane [OF R]])
  then show ?thesis
    using copy copy_cursor [OF assms(2-4), of lower] unfolding in_pane_def assms(6) by fastforce
qed

theorem copy_mode_yanks_witness:
  "yank_session id [CmdCopyGotoTop] [CmdCopyEndOfLine] (sample_app 80 24) \<noteq> None"
proof -
  have "app_active_pane (sample_app 80 24) = Some (Some 0)" "map_of (ap_panes (sample_app 80 24)) 0 = Some (sample_state 80 24)"
    by (simp_all add: app_active_pane_def sample_app_fields active_tab_of_def session_new_def tab_new_def)
  from copy_mode_yanks [OF sample_app_ok [of 80 24] this, of "[CmdCopyGotoTop]" "[CmdCopyEndOfLine]" _ _ id 3] show ?thesis
    by auto
qed

end
