(* ===== verification/App_Mouse.thy ===== *)
theory App_Mouse
  imports App_State
begin

text \<open>
  \<open>bins/emux/src/mouse.rs\<close>: which pane a mouse event is for, and the commands it stands for. The events are
  those of the \<open>crossterm\<close> crate.
\<close>

section \<open>Events and what is known of the panes\<close>

datatype mouse_button = ButtonLeft | ButtonRight | ButtonMiddle

datatype mouse_kind =
    MouseDown mouse_button
  | MouseUp mouse_button
  | MouseDrag mouse_button
  | MouseMoved
  | MouseScrollDown
  | MouseScrollUp
  | MouseScrollLeft
  | MouseScrollRight

record terminal_mouse =
  tm_kind :: mouse_kind
  tm_column :: u16
  tm_row :: u16

record pane_mouse_info =
  pm_pane_id :: pane_id
  pm_mouse_tracking :: mouse_mode
  pm_mouse_sgr :: bool
  pm_scrollback_len :: nat
  pm_viewport_offset :: nat

record mouse_context =
  mc_positions :: positions
  mc_active_pane_id :: "pane_id option"
  mc_border_drag :: "border_drag option"
  mc_has_mouse_selection :: bool
  mc_mouse_selection_pane :: "pane_id option"
  mc_pane_mouse_info :: "pane_mouse_info list"

section \<open>Geometry\<close>

definition inside :: "nat \<Rightarrow> nat \<Rightarrow> pane_position \<Rightarrow> bool" where
  "inside c r pos \<longleftrightarrow> pp_col pos \<le> c \<and> c < pp_col pos + pp_cols pos \<and> pp_row pos \<le> r \<and> r < pp_row pos + pp_rows pos"

definition pane_at_position :: "positions \<Rightarrow> u16 \<Rightarrow> u16 \<Rightarrow> pane_id option" where
  "pane_at_position ps col row = map_option fst (List.find (\<lambda>(i, pos). inside (unat col) (unat row) pos) ps)"

definition right_border :: "positions \<Rightarrow> nat \<Rightarrow> nat \<Rightarrow> pane_id \<Rightarrow> pane_position \<Rightarrow> bool" where
  "right_border ps c r i pos \<longleftrightarrow>
     (let edge = pp_col pos + pp_cols pos in
      0 < edge \<and> c = edge - 1 \<and> pp_row pos \<le> r \<and> r < pp_row pos + pp_rows pos \<and>
      list_ex (\<lambda>(n, np). n \<noteq> i \<and> pp_col np = edge) ps)"

definition bottom_border :: "positions \<Rightarrow> nat \<Rightarrow> nat \<Rightarrow> pane_id \<Rightarrow> pane_position \<Rightarrow> bool" where
  "bottom_border ps c r i pos \<longleftrightarrow>
     (let edge = pp_row pos + pp_rows pos in
      0 < edge \<and> r = edge - 1 \<and> pp_col pos \<le> c \<and> c < pp_col pos + pp_cols pos \<and>
      list_ex (\<lambda>(n, np). n \<noteq> i \<and> pp_row np = edge) ps)"

fun border_click_from :: "positions \<Rightarrow> u16 \<Rightarrow> u16 \<Rightarrow> positions \<Rightarrow> border_drag option" where
  "border_click_from ps col row [] = None"
| "border_click_from ps col row ((i, pos) # rest) =
     (if right_border ps (unat col) (unat row) i pos then
        Some \<lparr>bd_pane_id = i, bd_vertical = True, bd_last_col = col, bd_last_row = row\<rparr>
      else if bottom_border ps (unat col) (unat row) i pos then
        Some \<lparr>bd_pane_id = i, bd_vertical = False, bd_last_col = col, bd_last_row = row\<rparr>
      else border_click_from ps col row rest)"

definition detect_border_click :: "positions \<Rightarrow> u16 \<Rightarrow> u16 \<Rightarrow> border_drag option" where
  "detect_border_click ps col row = border_click_from ps col row ps"

section \<open>Forwarding an event to the program in the pane\<close>

definition info_of :: "mouse_context \<Rightarrow> pane_id \<Rightarrow> pane_mouse_info option" where
  "info_of ctx i = List.find (\<lambda>p. pm_pane_id p = i) (mc_pane_mouse_info ctx)"

definition position_of :: "mouse_context \<Rightarrow> pane_id \<Rightarrow> pane_position option" where
  "position_of ctx i = map_option snd (List.find (\<lambda>(n, pos). n = i) (mc_positions ctx))"

definition button_u8 :: "mouse_button \<Rightarrow> u8" where
  "button_u8 b = (case b of ButtonLeft \<Rightarrow> 0 | ButtonMiddle \<Rightarrow> 1 | ButtonRight \<Rightarrow> 2)"

fun local_event :: "mouse_kind \<Rightarrow> u16 \<Rightarrow> u16 \<Rightarrow> mouse_event option" where
  "local_event (MouseDown b) c r = Some (MPress (button_u8 b) c r)"
| "local_event (MouseUp b) c r = Some (MRelease c r)"
| "local_event (MouseDrag b) c r = Some (MDrag (button_u8 b) c r)"
| "local_event MouseMoved c r = Some (MDrag 3 c r)"
| "local_event MouseScrollUp c r = Some (MScrollUp c r)"
| "local_event MouseScrollDown c r = Some (MScrollDown c r)"
| "local_event MouseScrollLeft c r = None"
| "local_event MouseScrollRight c r = None"

definition push_forward_mouse :: "mouse_context \<Rightarrow> terminal_mouse \<Rightarrow> app_command list" where
  "push_forward_mouse ctx ev =
     (case pane_at_position (mc_positions ctx) (tm_column ev) (tm_row ev) of
        None \<Rightarrow> []
      | Some i \<Rightarrow>
          (case (info_of ctx i, position_of ctx i) of
             (Some info, Some pos) \<Rightarrow>
               if pm_mouse_tracking info = MouseNone then []
               else (case local_event (tm_kind ev) (of_nat (unat (tm_column ev) - pp_col pos))
                            (of_nat (unat (tm_row ev) - pp_row pos)) of
                       None \<Rightarrow> []
                     | Some lev \<Rightarrow>
                         let bytes = encode_mouse lev (if pm_mouse_sgr info then EncodeSgr else EncodeNormal) in
                         if bytes = [] then [] else [CmdForwardMouseToPty i bytes])
           | _ \<Rightarrow> []))"

section \<open>\<open>resolve_mouse\<close>\<close>

text \<open>The point of the history that the mouse is on, in the coordinates of the pane.\<close>

definition selection_at :: "mouse_context \<Rightarrow> terminal_mouse \<Rightarrow> pane_id \<Rightarrow> selection_point option" where
  "selection_at ctx ev i =
     (case (position_of ctx i, info_of ctx i) of
        (Some pos, Some info) \<Rightarrow>
          let local_col = unat (tm_column ev) - pp_col pos;
              local_row = unat (tm_row ev) - pp_row pos;
              line = pm_scrollback_len info + local_row
          in Some (point_new (line - min (pm_viewport_offset info) line) local_col)
      | _ \<Rightarrow> None)"

definition tracks :: "(mouse_mode \<Rightarrow> bool) \<Rightarrow> mouse_context \<Rightarrow> pane_id \<Rightarrow> bool" where
  "tracks P ctx i = (case info_of ctx i of None \<Rightarrow> False | Some p \<Rightarrow> P (pm_mouse_tracking p))"

definition left_down :: "mouse_context \<Rightarrow> terminal_mouse \<Rightarrow> app_command list" where
  "left_down ctx ev =
     (case detect_border_click (mc_positions ctx) (tm_column ev) (tm_row ev) of
        Some drag \<Rightarrow> [CmdStartBorderDrag drag]
      | None \<Rightarrow>
          (case pane_at_position (mc_positions ctx) (tm_column ev) (tm_row ev) of
             None \<Rightarrow> []
           | Some i \<Rightarrow>
               (if mc_active_pane_id ctx \<noteq> Some i then [CmdFocusPane i] else []) @
               (if tracks (\<lambda>m. m \<noteq> MouseNone) ctx i then push_forward_mouse ctx ev
                else (case selection_at ctx ev i of None \<Rightarrow> [] | Some p \<Rightarrow> [CmdStartMouseSelection i p]))))"

definition wheel :: "(pane_id \<Rightarrow> app_command) \<Rightarrow> mouse_context \<Rightarrow> terminal_mouse \<Rightarrow> app_command list" where
  "wheel scroll ctx ev =
     (case pane_at_position (mc_positions ctx) (tm_column ev) (tm_row ev) of
        None \<Rightarrow> []
      | Some i \<Rightarrow> if tracks (\<lambda>m. m \<noteq> MouseNone) ctx i then push_forward_mouse ctx ev else [scroll i])"

definition left_drag :: "mouse_context \<Rightarrow> terminal_mouse \<Rightarrow> app_command list" where
  "left_drag ctx ev =
     (if mc_border_drag ctx \<noteq> None then [CmdContinueBorderDrag (tm_column ev) (tm_row ev)]
      else if mc_has_mouse_selection ctx then
        (case mc_mouse_selection_pane ctx of
           None \<Rightarrow> []
         | Some i \<Rightarrow> (case selection_at ctx ev i of None \<Rightarrow> [] | Some p \<Rightarrow> [CmdExtendMouseSelection p]))
      else push_forward_mouse ctx ev)"

definition mouse_moved :: "mouse_context \<Rightarrow> terminal_mouse \<Rightarrow> app_command list" where
  "mouse_moved ctx ev =
     (case pane_at_position (mc_positions ctx) (tm_column ev) (tm_row ev) of
        None \<Rightarrow> []
      | Some i \<Rightarrow> if tracks (\<lambda>m. m = MouseAnyEvent) ctx i then push_forward_mouse ctx ev else [])"

definition resolve_mouse :: "terminal_mouse \<Rightarrow> mouse_context \<Rightarrow> app_command list" where
  "resolve_mouse ev ctx =
     (case tm_kind ev of
        MouseDown ButtonLeft \<Rightarrow> left_down ctx ev
      | MouseScrollUp \<Rightarrow> wheel (\<lambda>i. CmdScrollPaneUp i 3) ctx ev
      | MouseScrollDown \<Rightarrow> wheel (\<lambda>i. CmdScrollPaneDown i 3) ctx ev
      | MouseDown _ \<Rightarrow> push_forward_mouse ctx ev
      | MouseUp _ \<Rightarrow>
          if mc_border_drag ctx \<noteq> None then [CmdEndBorderDrag]
          else if mc_has_mouse_selection ctx then [CmdFinalizeMouseSelection]
          else push_forward_mouse ctx ev
      | MouseDrag ButtonLeft \<Rightarrow> left_drag ctx ev
      | MouseDrag _ \<Rightarrow> push_forward_mouse ctx ev
      | MouseMoved \<Rightarrow> mouse_moved ctx ev
      | _ \<Rightarrow> [])"

end
