(* ===== verification/Render_Text.thy ===== *)
theory Render_Text
  imports Render_Damage Term_Screen
begin

text \<open>
  \<open>crates/emux-render/src\<close>: a row of cells as styled spans (\<open>text.rs\<close>), cursor styles (\<open>cursor.rs\<close>) and
  the \<open>Renderer\<close> (\<open>lib.rs\<close>). The colours, attributes and styles are those of the \<open>crossterm\<close> crate, as far
  as the program names them; what is drawn is the list of the commands queued to the terminal. Errors of
  the terminal are left out.
\<close>

section \<open>Styles and drawing commands\<close>

datatype ct_color =
    CtReset
  | CtBlack
  | CtWhite
  | CtCyan
  | CtDarkGrey
  | CtYellow
  | CtGreen
  | CtAnsi u8
  | CtRgb u8 u8 u8

datatype ct_attribute =
    AttrBold
  | AttrItalic
  | AttrUnderlined
  | AttrDoubleUnderlined
  | AttrUndercurled
  | AttrSlowBlink
  | AttrReverse
  | AttrHidden
  | AttrCrossedOut

text \<open>The attributes are listed in the order of the enumeration, so that equal sets are equal lists.\<close>

record content_style =
  cs_foreground :: "ct_color option"
  cs_background :: "ct_color option"
  cs_attributes :: "ct_attribute list"

definition style_new :: content_style where
  "style_new = \<lparr>cs_foreground = None, cs_background = None, cs_attributes = []\<rparr>"

datatype cursor_style = SteadyBlock | SteadyUnderScore | SteadyBar

datatype draw_op =
    DrawHide
  | DrawShow
  | DrawClearAll
  | DrawMoveTo u16 u16
  | DrawSetStyle content_style
  | DrawForeground ct_color
  | DrawBackground ct_color
  | DrawResetColor
  | DrawResetAttributes
  | DrawCursorStyle cursor_style
  | DrawPrint "rchar list"

definition shape_style :: "cursor_shape \<Rightarrow> cursor_style" where
  "shape_style sh = (case sh of Block \<Rightarrow> SteadyBlock | Underline \<Rightarrow> SteadyUnderScore | Bar \<Rightarrow> SteadyBar)"

section \<open>\<open>text.rs\<close>\<close>

fun color_to_crossterm :: "color \<Rightarrow> ct_color" where
  "color_to_crossterm DefaultColor = CtReset"
| "color_to_crossterm (Indexed i) = CtAnsi i"
| "color_to_crossterm (Rgb r g b) = CtRgb r g b"

definition attributes_of :: "cell_attrs \<Rightarrow> ct_attribute list" where
  "attributes_of a =
     (if at_bold a then [AttrBold] else []) @
     (if at_italic a then [AttrItalic] else []) @
     (case at_underline a of
        UnderlineNone \<Rightarrow> []
      | UnderlineSingle \<Rightarrow> [AttrUnderlined]
      | UnderlineDouble \<Rightarrow> [AttrDoubleUnderlined]
      | UnderlineCurly \<Rightarrow> [AttrUndercurled]) @
     (if at_blink a then [AttrSlowBlink] else []) @
     (if at_reverse a then [AttrReverse] else []) @
     (if at_invisible a then [AttrHidden] else []) @
     (if at_strikethrough a then [AttrCrossedOut] else [])"

definition cell_style :: "cell \<Rightarrow> content_style" where
  "cell_style c = \<lparr>cs_foreground = Some (color_to_crossterm (c_fg c)), cs_background = Some (color_to_crossterm (c_bg c)),
     cs_attributes = attributes_of (c_attrs c)\<rparr>"

type_synonym spans = "(content_style \<times> rchar list) list"

text \<open>A character joins the last span if that has its style.\<close>

definition push_char :: "content_style \<Rightarrow> rchar \<Rightarrow> spans \<Rightarrow> spans" where
  "push_char st ch ss =
     (if ss \<noteq> [] \<and> fst (last ss) = st then butlast ss @ [(st, snd (last ss) @ [ch])] else ss @ [(st, [ch])])"

definition shown_char :: "cell \<Rightarrow> rchar" where
  "shown_char c = (if c_char c < 0x20 then 0x20 else c_char c)"

fun push_cell :: "cell \<Rightarrow> spans \<times> nat \<Rightarrow> spans \<times> nat" where
  "push_cell c (ss, col) =
     (if c_width c = 0 then (ss, col + 1)
      else (push_char (cell_style c) (shown_char c) ss, col + c_width c))"

definition render_row :: "cell list \<Rightarrow> nat \<Rightarrow> spans" where
  "render_row cells width =
     (let (ss, col) = fold push_cell (take width cells) ([], 0) in
      (push_char style_new 0x20 ^^ (width - col)) ss)"

section \<open>The \<open>Renderer\<close>\<close>

record renderer =
  rd_damage :: damage_tracker
  rd_last_cols :: nat
  rd_last_rows :: nat

definition renderer_new :: "nat \<Rightarrow> nat \<Rightarrow> renderer" where
  "renderer_new cols rows = \<lparr>rd_damage = tracker_new rows, rd_last_cols = cols, rd_last_rows = rows\<rparr>"

definition renderer_resize :: "nat \<Rightarrow> nat \<Rightarrow> renderer \<Rightarrow> renderer" where
  "renderer_resize cols rows r =
     r\<lparr>rd_last_cols := cols, rd_last_rows := rows, rd_damage := tracker_resize rows (rd_damage r)\<rparr>"

definition force_redraw :: "renderer \<Rightarrow> renderer" where
  "force_redraw r = r\<lparr>rd_damage := mark_all (rd_damage r)\<rparr>"

definition draw_spans :: "spans \<Rightarrow> draw_op list" where
  "draw_spans ss = concat (map (\<lambda>(st, text). [DrawResetColor, DrawSetStyle st, DrawPrint text]) ss)"

definition draw_screen_row :: "screen \<Rightarrow> nat \<Rightarrow> draw_op list option" where
  "draw_screen_row s row =
     (if rows_of s \<le> row then Some []
      else do {
        r \<leftarrow> grid_row (s_grid s) row;
        Some (DrawMoveTo 0 (of_nat row) # draw_spans (render_row (r_cells r) (cols_of s))) })"

definition draw_cursor :: "screen \<Rightarrow> draw_op list" where
  "draw_cursor s =
     [DrawResetColor, DrawResetAttributes, DrawMoveTo (of_nat (col_of s)) (of_nat (row_of s))] @
     (if cur_visible (s_cursor s) then [DrawShow, DrawCursorStyle (shape_style (cur_shape (s_cursor s)))] else [DrawHide])"

definition render :: "screen \<Rightarrow> renderer \<Rightarrow> (draw_op list \<times> renderer) option" where
  "render s r =
     (let r = (if cols_of s \<noteq> rd_last_cols r \<or> rows_of s \<noteq> rd_last_rows r
               then renderer_resize (cols_of s) (rows_of s) r else r) in
      if \<not> needs_redraw (rd_damage r) then Some ([], r)
      else do {
        ops \<leftarrow> foldM (\<lambda>ops row. map_option ((@) ops) (draw_screen_row s row)) (dirty_rows (rd_damage r)) [DrawHide];
        Some (ops @ draw_cursor s, r\<lparr>rd_damage := tracker_clear (rd_damage r)\<rparr>) })"

section \<open>What the spans show\<close>

text \<open>The characters one by one, each with its style.\<close>

definition styled :: "spans \<Rightarrow> (content_style \<times> rchar) list" where
  "styled ss = concat (map (\<lambda>(st, text). map (Pair st) text) ss)"

definition coalesced :: "spans \<Rightarrow> bool" where
  "coalesced ss \<longleftrightarrow> list_all (\<lambda>p. snd p \<noteq> []) ss \<and> (\<forall>i. Suc i < length ss \<longrightarrow> fst (ss ! i) \<noteq> fst (ss ! Suc i))"

lemma styled_push: "styled (push_char st ch ss) = styled ss @ [(st, ch)]"
proof (cases ss rule: rev_cases)
  case (snoc ys y)
  then show ?thesis
    by (cases y) (simp add: push_char_def styled_def)
qed (simp add: push_char_def styled_def)

lemma coalesced_push: "coalesced ss \<Longrightarrow> coalesced (push_char st ch ss)"
proof (cases ss rule: rev_cases)
  case (snoc ys y)
  then show "coalesced ss \<Longrightarrow> ?thesis"
    by (cases y) (auto simp: push_char_def coalesced_def nth_append less_Suc_eq split: if_splits)
qed (simp add: push_char_def coalesced_def)

lemma push_cells:
  "styled (fst (fold push_cell cells (ss, col))) =
     styled ss @ map (\<lambda>c. (cell_style c, shown_char c)) (filter (\<lambda>c. c_width c \<noteq> 0) cells) \<and>
   snd (fold push_cell cells (ss, col)) = col + (\<Sum>c \<leftarrow> cells. max 1 (c_width c)) \<and>
   (coalesced ss \<longrightarrow> coalesced (fst (fold push_cell cells (ss, col))))"
  by (induction cells arbitrary: ss col) (simp_all add: styled_push coalesced_push)

lemma pad_spans:
  "styled ((push_char st ch ^^ n) ss) = styled ss @ replicate n (st, ch) \<and>
   (coalesced ss \<longrightarrow> coalesced ((push_char st ch ^^ n) ss))"
  by (induction n) (simp_all add: styled_push coalesced_push replicate_append_same)

end
