(* ===== verification/App_Render.thy ===== *)
theory App_Render
  imports App_State Render_Text
begin

text \<open>
  \<open>bins/emux/src/render.rs\<close>: drawing the panes of the active tab with their borders, the bar in the last
  row, and the cursor. \<open>None\<close> is a panic.
\<close>

section \<open>The bar\<close>

definition app_wide :: "rchar \<Rightarrow> bool" where
  "app_wide c \<longleftrightarrow>
     c \<in> {0x1100..0x115F} \<or> c \<in> {0x2E80..0x303E} \<or> c \<in> {0x3040..0x33BF} \<or> c \<in> {0x3400..0x4DBF} \<or>
     c \<in> {0x4E00..0x9FFF} \<or> c \<in> {0xA000..0xA4CF} \<or> c \<in> {0xAC00..0xD7AF} \<or> c \<in> {0xF900..0xFAFF} \<or>
     c \<in> {0xFE30..0xFE6F} \<or> c \<in> {0xFF01..0xFF60} \<or> c \<in> {0xFFE0..0xFFE6} \<or>
     c \<in> {0x20000..0x2FFFD} \<or> c \<in> {0x30000..0x3FFFD}"

definition display_width :: "rchar list \<Rightarrow> nat" where
  "display_width text = (\<Sum>c \<leftarrow> text. if app_wide c then 2 else 1)"

text \<open>The characters that fit into a width, and the width they take.\<close>

fun fit_chars :: "nat \<Rightarrow> nat \<Rightarrow> rchar list \<Rightarrow> rchar list \<Rightarrow> rchar list \<times> nat" where
  "fit_chars width w s [] = (s, w)"
| "fit_chars width w s (c # cs) =
     (let cw = (if display_width [c] = 2 then 2 else 1) in
      if width < w + cw then (s, w) else fit_chars width (w + cw) (s @ [c]) cs)"

definition format_bar :: "rchar list \<Rightarrow> rchar list \<Rightarrow> nat \<Rightarrow> rchar list" where
  "format_bar left right width =
     (let lw = display_width left; rw = display_width right in
      if lw + rw \<le> width then left @ replicate (width - lw - rw) 0x20 @ right
      else if lw < width then left @ replicate (width - lw) 0x20
      else let (s, w) = fit_chars width 0 [] left in s @ replicate (width - w) 0x20)"

definition nat_chars :: "nat \<Rightarrow> rchar list" where
  "nat_chars n = map unat (show_nat n)"

definition draw_bar :: "u16 \<Rightarrow> u16 \<Rightarrow> ct_color \<Rightarrow> rchar list \<Rightarrow> rchar list \<Rightarrow> draw_op list" where
  "draw_bar total_cols total_rows bg left right =
     [DrawMoveTo 0 (of_nat (unat total_rows - 1)), DrawForeground CtBlack, DrawBackground bg,
      DrawPrint (format_bar left right (unat total_cols)), DrawResetColor]"

definition tab_label :: "session \<Rightarrow> nat \<Rightarrow> rchar list" where
  "tab_label s i =
     (case get_opt (ss_tabs s) i of Some t \<Rightarrow> utf8_chars (t_name t) | None \<Rightarrow> chars ''?'') @
     (if i = ss_active_tab s then chars ''* '' else chars '' '') @
     (if i + 1 < length (ss_tabs s) then chars ''| '' else [])"

definition draw_status_bar :: "application \<Rightarrow> u16 \<Rightarrow> u16 \<Rightarrow> draw_op list" where
  "draw_status_bar a total_cols total_rows =
     (let s = ap_session a; pane_count = length (ap_panes a) in
      draw_bar total_cols total_rows CtWhite
        (chars '' ['' @ utf8_chars (ss_name s) @ chars ''] '' @ concat (map (tab_label s) [0..<length (ss_tabs s)]))
        (nat_chars pane_count @ chars '' pane'' @ (if pane_count = 1 then [] else chars ''s'') @ chars '' | emux 0.2.0 ''))"

definition draw_search_bar :: "application \<Rightarrow> u16 \<Rightarrow> u16 \<Rightarrow> draw_op list" where
  "draw_search_bar a total_cols total_rows =
     (let st = ap_search_state a; current = (case qs_current st of Some i \<Rightarrow> i + 1 | None \<Rightarrow> 0) in
      draw_bar total_cols total_rows CtYellow
        (chars '' /'' @ ap_search_query a @ chars ''_ '')
        (if ap_search_query a = [] then chars '' type to search, Esc to cancel ''
         else chars '' '' @ nat_chars current @ chars ''/'' @ nat_chars (length (qs_matches st)) @ chars '' matches ''))"

definition draw_copy_bar :: "application \<Rightarrow> u16 \<Rightarrow> u16 \<Rightarrow> draw_op list" where
  "draw_copy_bar a total_cols total_rows =
     draw_bar total_cols total_rows CtGreen
       (case ap_copy_mode a of
          None \<Rightarrow> chars '' COPY ''
        | Some cm \<Rightarrow> (if cm_selection cm \<noteq> None then chars '' VISUAL ['' else chars '' COPY ['') @
            nat_chars (cm_row cm) @ chars '','' @ nat_chars (cm_col cm) @ chars ''] '')
       (chars '' v:select  y:yank  q/Esc:exit '')"

section \<open>A pane\<close>

definition highlight :: "content_style \<Rightarrow> content_style" where
  "highlight st = st\<lparr>cs_background := Some CtWhite, cs_foreground := Some CtBlack\<rparr>"

definition selects_any :: "selection option \<Rightarrow> nat \<Rightarrow> nat \<Rightarrow> nat \<Rightarrow> bool" where
  "selects_any sel row col n =
     (case sel of None \<Rightarrow> False | Some sl \<Rightarrow> list_ex (\<lambda>i. selection_contains sl row (col + i)) [0..<n])"

text \<open>A style is set where it is not the one set last.\<close>

fun draw_row_spans ::
  "selection option \<Rightarrow> nat \<Rightarrow> spans \<Rightarrow> nat \<Rightarrow> content_style option \<Rightarrow> draw_op list \<times> content_style option" where
  "draw_row_spans sel abs_row [] col prev = ([], prev)"
| "draw_row_spans sel abs_row ((st, text) # ss) col prev =
     (let eff = (if selects_any sel abs_row col (length text) then highlight st else st);
          (ops, last) = draw_row_spans sel abs_row ss (col + length text) (Some eff)
      in ((if prev \<noteq> Some eff then [DrawSetStyle eff] else []) @ DrawPrint text # ops, last))"

definition draw_pane_row ::
  "screen \<Rightarrow> pane_position \<Rightarrow> selection option \<Rightarrow> nat \<Rightarrow> content_style option \<Rightarrow>
   (draw_op list \<times> content_style option) option" where
  "draw_pane_row s pos sel r prev = do {
     display_row \<leftarrow> viewport_row s r;
     let line = scrollback_len (s_grid s) + r;
     let abs_row = line - min (s_viewport_offset s) line;
     let (ops, prev) = draw_row_spans sel abs_row (render_row (r_cells display_row) (min (pp_cols pos) (cols_of s))) 0 prev;
     Some (DrawMoveTo (of_nat (pp_col pos)) (of_nat (pp_row pos + r)) # ops, prev) }"

definition render_pane_region ::
  "screen \<Rightarrow> damage_tracker \<Rightarrow> pane_position \<Rightarrow> bool \<Rightarrow> selection option \<Rightarrow> draw_op list option" where
  "render_pane_region s damage pos force_all sel = do {
     (ops, prev) \<leftarrow> foldM (\<lambda>(ops, prev) r.
         if \<not> force_all \<and> \<not> is_dirty r damage then Some (ops, prev)
         else map_option (\<lambda>(new, prev). (ops @ new, prev)) (draw_pane_row s pos sel r prev))
       [0..<min (pp_rows pos) (rows_of s)] ([], None);
     Some (ops @ [DrawResetColor, DrawResetAttributes]) }"

section \<open>Borders\<close>

definition border_color :: "pane_id option \<Rightarrow> pane_id \<Rightarrow> pane_id \<Rightarrow> ct_color" where
  "border_color active i j = (if active = Some i \<or> active = Some j then CtCyan else CtDarkGrey)"

definition draw_vertical ::
  "pane_id option \<Rightarrow> nat \<Rightarrow> pane_id \<times> pane_position \<Rightarrow> pane_id \<times> pane_position \<Rightarrow> draw_op list" where
  "draw_vertical active pane_area_rows =
     (\<lambda>(i, p) (j, q).
        let right_edge = pp_col p + pp_cols p in
        if i = j \<or> pp_col q \<noteq> right_edge then []
        else DrawForeground (border_color active i j) #
          concat (map (\<lambda>row. [DrawMoveTo (of_nat (right_edge - 1)) (of_nat row), DrawPrint [0x2502]])
            [max (pp_row p) (pp_row q)..<min (min (pp_row p + pp_rows p) (pp_row q + pp_rows q)) pane_area_rows]) @
          [DrawResetColor])"

text \<open>
  The length of a horizontal border is a difference that nothing keeps from being negative: it then wraps
  to a number of characters that \<open>repeat\<close> refuses with a panic.
\<close>

definition draw_horizontal ::
  "pane_id option \<Rightarrow> nat \<Rightarrow> pane_id \<times> pane_position \<Rightarrow> pane_id \<times> pane_position \<Rightarrow> draw_op list option" where
  "draw_horizontal active total_cols =
     (\<lambda>(i, p) (j, q).
        let bottom_edge = pp_row p + pp_rows p in
        if i = j \<or> pp_row q \<noteq> bottom_edge then Some []
        else do {
          let col_start = max (pp_col p) (pp_col q);
          let col_end = min (min (pp_col p + pp_cols p) (pp_col q + pp_cols q)) total_cols;
          n \<leftarrow> usub col_end col_start;
          Some [DrawForeground (border_color active i j), DrawMoveTo (of_nat col_start) (of_nat (bottom_edge - 1)),
            DrawPrint (replicate n 0x2500), DrawResetColor] })"

definition draw_borders :: "positions \<Rightarrow> pane_id option \<Rightarrow> nat \<Rightarrow> nat \<Rightarrow> draw_op list option" where
  "draw_borders ps active total_cols pane_area_rows = do {
     let vertical = concat (map (\<lambda>p. if total_cols \<le> pp_col (snd p) + pp_cols (snd p) then []
         else concat (map (draw_vertical active pane_area_rows p) ps)) ps);
     foldM (\<lambda>ops p. if pane_area_rows \<le> pp_row (snd p) + pp_rows (snd p) then Some ops
         else foldM (\<lambda>ops q. map_option ((@) ops) (draw_horizontal active total_cols p q)) ps ops) ps vertical }"

section \<open>Everything\<close>

definition pane_selection :: "application \<Rightarrow> pane_id \<Rightarrow> selection option" where
  "pane_selection a i =
     (case ap_mouse_selection a of
        Some ms \<Rightarrow> if ms_pane_id ms = i then Some (ms_selection ms) else None
      | None \<Rightarrow> None)"

definition place_cursor :: "application \<Rightarrow> positions \<Rightarrow> pane_id option \<Rightarrow> draw_op list" where
  "place_cursor a ps active =
     (case Option.bind active (\<lambda>i. find_pos i ps) of
        None \<Rightarrow> []
      | Some pos \<Rightarrow>
          if ap_input_mode a = InputCopy then
            (case ap_copy_mode a of
               None \<Rightarrow> []
             | Some cm \<Rightarrow>
                 [DrawMoveTo (of_nat (pp_col pos) + of_nat (min (cm_col cm) (pp_cols pos - 1)))
                    (of_nat (pp_row pos) + of_nat (min (cm_row cm) (pp_rows pos - 1))), DrawShow])
          else
            (case Option.bind active (map_of (ap_panes a)) of
               None \<Rightarrow> []
             | Some ps \<Rightarrow>
                 DrawMoveTo (of_nat (pp_col pos) + of_nat (col_of (pst_screen ps)))
                   (of_nat (pp_row pos) + of_nat (row_of (pst_screen ps))) #
                 (if cur_visible (s_cursor (pst_screen ps)) then [DrawShow] else [])))"

definition map_damage :: "(damage_tracker \<Rightarrow> damage_tracker) \<Rightarrow> application \<Rightarrow> application" where
  "map_damage f a = a\<lparr>ap_panes := map (\<lambda>(i, ps). (i, ps\<lparr>pst_damage := f (pst_damage ps)\<rparr>)) (ap_panes a)\<rparr>"

definition draw_panes :: "application \<Rightarrow> positions \<Rightarrow> bool \<Rightarrow> draw_op list option" where
  "draw_panes a ps force_clear =
     foldM (\<lambda>ops (i, pos).
         case map_of (ap_panes a) i of
           None \<Rightarrow> Some ops
         | Some p \<Rightarrow> map_option ((@) ops)
             (render_pane_region (pst_screen p) (pst_damage p) pos force_clear (pane_selection a i)))
       ps []"

definition render_all :: "u16 \<Rightarrow> u16 \<Rightarrow> bool \<Rightarrow> application \<Rightarrow> (draw_op list \<times> application) option" where
  "render_all total_cols total_rows force_clear a =
     (let a = (if force_clear then map_damage mark_all a else a);
          tc = unat total_cols; pane_area_rows = unat total_rows - 1 in
      if \<not> (force_clear \<or> list_ex (\<lambda>(i, p). needs_redraw (pst_damage p)) (ap_panes a)) then Some ([], a)
      else do {
        t \<leftarrow> active_tab_of (ap_session a);
        let ps = tab_positions t;
        panes \<leftarrow> draw_panes a ps force_clear;
        borders \<leftarrow> (if 1 < length ps then draw_borders ps (t_active_pane t) tc pane_area_rows else Some []);
        let bar = (case ap_input_mode a of
            InputSearch \<Rightarrow> draw_search_bar a total_cols total_rows
          | InputCopy \<Rightarrow> draw_copy_bar a total_cols total_rows
          | InputNormal \<Rightarrow> draw_status_bar a total_cols total_rows);
        Some ([DrawHide] @ (if force_clear then [DrawClearAll] else []) @ panes @ borders @ bar @
            place_cursor a ps (t_active_pane t),
          map_damage tracker_clear a) })"

end
