(* ===== verification/App_Loop.thy ===== *)
theory App_Loop
  imports App_Dispatch App_Mouse App_Render App_Daemon
begin

text \<open>
  \<open>bins/emux/src/event_loop.rs\<close>: reading the PTYs, dead panes, the side effects of a command, the messages of
  agents, and one iteration of the loop. Which shells are alive, how the kernel answers, which events arrive
  and which timers have run out are arguments. The PTY's own size is left out, as in \<open>sync_pty_sizes\<close>.
\<close>

section \<open>Reading the PTYs\<close>

fun drain_state :: "pty_read list \<Rightarrow> pane_state \<Rightarrow> bool \<Rightarrow> (pane_state \<times> bool) option" where
  "drain_state [] ps any = Some (ps\<lparr>pst_pty := (pst_pty ps)\<lparr>pty_reads := []\<rparr>\<rparr>, any)"
| "drain_state (ReadErr # rs) ps any = Some (ps\<lparr>pst_pty := (pst_pty ps)\<lparr>pty_reads := rs\<rparr>\<rparr>, any)"
| "drain_state (ReadOk bs # rs) ps any =
     (if bs = [] then Some (ps\<lparr>pst_pty := (pst_pty ps)\<lparr>pty_reads := rs\<rparr>\<rparr>, any)
      else do {
        (p, s) \<leftarrow> feed (pst_parser ps) (pst_screen ps) bs;
        let (regions, s) = take_damage (scroll_viewport_reset s);
        drain_state rs (ps\<lparr>pst_parser := p, pst_screen := s,
          pst_damage := fold (\<lambda>r. mark_row (dm_row r)) regions (pst_damage ps)\<rparr>) True })"

fun drain_states :: "pane_states \<Rightarrow> (pane_states \<times> bool) option" where
  "drain_states [] = Some ([], False)"
| "drain_states ((i, ps) # pss) = do {
     (ps, any) \<leftarrow> drain_state (pty_reads (pst_pty ps)) ps False;
     (pss, any') \<leftarrow> drain_states pss;
     Some ((i, ps) # pss, any \<or> any') }"

definition drain_pty_reads :: "application \<Rightarrow> (bool \<times> application) option" where
  "drain_pty_reads a = map_option (\<lambda>(pss, any). (any, a\<lparr>ap_panes := pss\<rparr>)) (drain_states (ap_panes a))"

section \<open>Dead panes\<close>

text \<open>Whichever tab the pane is of, the active tab's count decides, and the active tab closes the pane.\<close>

fun remove_dead :: "pane_id list \<Rightarrow> application \<Rightarrow> (bool \<times> application) option" where
  "remove_dead [] a = Some (ap_panes a = [], a)"
| "remove_dead (i # is) a = do {
     let a = a\<lparr>ap_panes := AList.delete i (ap_panes a)\<rparr>;
     t \<leftarrow> active_tab_of (ap_session a);
     if 1 < tab_pane_count t then do {
       (_, a) \<leftarrow> on_app_tab (close_pane i) a;
       remove_dead is a }
     else Some (True, a) }"

definition handle_dead_panes :: "(pane_id \<Rightarrow> bool) \<Rightarrow> application \<Rightarrow> (bool \<times> application) option" where
  "handle_dead_panes alive a = remove_dead (filter (\<lambda>i. \<not> alive i) (map fst (ap_panes a))) a"

section \<open>Side effects\<close>

datatype app_error = AppIo | AppPty | AppConfig rstr | AppDaemonError rstr | AppMsg rstr

record loop_env =
  le_lower :: "rchar list \<Rightarrow> rchar list"
  le_sched :: schedules
  le_spawn :: spawner
  le_error :: rstr
  le_to_vec :: "server_message \<Rightarrow> u8 list option"
  le_from_slice :: "u8 list \<Rightarrow> client_message option"
  le_to_string :: "session_snapshot \<Rightarrow> u8 list option"
  le_save_fault :: save_fault
  le_save_path :: "rstr option"

record event_loop =
  el_app :: application
  el_cols :: u16
  el_rows :: u16
  el_stdout :: sink
  el_drawn :: "draw_op list"
  el_session_dirty :: bool
  el_files :: files
  el_agents :: "stream list"

definition app_sync_sizes :: "application \<Rightarrow> application option" where
  "app_sync_sizes a = do {
     t \<leftarrow> active_tab_of (ap_session a);
     pss \<leftarrow> sync_pty_sizes t (ap_panes a);
     Some (a\<lparr>ap_panes := pss\<rparr>) }"

definition write_to_pane :: "schedules \<Rightarrow> application \<Rightarrow> pane_id \<times> u8 list \<Rightarrow> application option" where
  "write_to_pane sched a = (\<lambda>(i, bytes).
     case map_of (ap_panes a) i of
       None \<Rightarrow> Some a
     | Some ps \<Rightarrow> map_option (\<lambda>(_, p). a\<lparr>ap_panes := AList.update i (ps\<lparr>pst_pty := p\<rparr>) (ap_panes a)\<rparr>)
         (send_to_pty (sched i) bytes (pst_pty ps)))"

definition copy_to_clipboard :: "rchar list option \<Rightarrow> sink \<Rightarrow> (app_error + unit) \<times> sink" where
  "copy_to_clipboard text w =
     (case text of
        None \<Rightarrow> (Inr (), w)
      | Some cs \<Rightarrow>
          (case write_all (osc52_clipboard (concat (map utf8_encode cs))) w of
             (Inr _, w) \<Rightarrow> (Inr (), w)
           | (Inl _, w) \<Rightarrow> (Inl AppIo, w)))"

definition spawn_requested :: "spawner \<Rightarrow> (pane_id \<times> nat \<times> nat) option \<Rightarrow> application \<Rightarrow> ((app_error + unit) \<times> application) option" where
  "spawn_requested spawn req a =
     (case req of
        None \<Rightarrow> Some (Inr (), a)
      | Some (i, cols, rows) \<Rightarrow>
          (case spawn_pane_state spawn cols rows of
             None \<Rightarrow> Some (Inl AppPty, a)
           | Some ps \<Rightarrow> map_option (Pair (Inr ())) (app_sync_sizes (a\<lparr>ap_panes := AList.update i ps (ap_panes a)\<rparr>))))"

definition execute_side_effects ::
  "loop_env \<Rightarrow> dispatch_result \<Rightarrow> sink \<Rightarrow> application \<Rightarrow> ((app_error + unit) \<times> sink \<times> application) option" where
  "execute_side_effects env r w a = do {
     (spawned, a) \<leftarrow> spawn_requested (le_spawn env) (dr_spawn_pane r) a;
     case spawned of
       Inl e \<Rightarrow> Some (Inl e, w, a)
     | Inr _ \<Rightarrow> do {
         a \<leftarrow> (if dr_force_clear r then app_sync_sizes a else Some a);
         a \<leftarrow> foldM (write_to_pane (le_sched env)) (dr_pty_writes r) a;
         Some (case copy_to_clipboard (dr_yanked_text r) w of
             (Inl e, w) \<Rightarrow> (Inl e, w, a)
           | (Inr _, w) \<Rightarrow> (let (res, w) = copy_to_clipboard (dr_clipboard_text r) w in (res, w, a))) } }"

section \<open>Agents\<close>

definition handle_agent_message ::
  "loop_env \<Rightarrow> client_message \<Rightarrow> application \<Rightarrow> (server_message \<times> application) option" where
  "handle_agent_message env m a = do {
     r \<leftarrow> handle_ipc (standalone_ops (le_sched env) (le_spawn env) (le_error env)) m (ap_session a) (ap_panes a);
     let a = a\<lparr>ap_session := ir_session r, ap_panes := ir_panes r\<rparr>;
     a \<leftarrow> (if ir_sync_sizes r then app_sync_sizes a else Some a);
     Some (ir_response r, a) }"

text \<open>
  An agent is read once and then dropped, unless its first four bytes have not all arrived (those that
  have are gone then).
\<close>

definition serve_agent ::
  "loop_env \<Rightarrow> stream \<Rightarrow> application \<Rightarrow> (bool \<times> stream \<times> application) option" where
  "serve_agent env st a =
     (case read_exact 4 (st_in st) of
        (Inl _, rest) \<Rightarrow> Some (st_open st, st\<lparr>st_in := rest\<rparr>, a)
      | (Inr len_buf, rest) \<Rightarrow>
          let len = unat (from_be_bytes len_buf); st = st\<lparr>st_in := rest\<rparr> in
          if 1000000 < len then Some (False, st, a)
          else (case read_exact len rest of
                  (Inl _, rest) \<Rightarrow> Some (False, st\<lparr>st_in := rest\<rparr>, a)
                | (Inr payload, rest) \<Rightarrow>
                    (case decode (le_from_slice env) payload of
                       Inl _ \<Rightarrow> Some (False, st\<lparr>st_in := rest\<rparr>, a)
                     | Inr m \<Rightarrow> do {
                         (response, a) \<leftarrow> handle_agent_message env m a;
                         Some (False, respond (le_to_vec env) response (st\<lparr>st_in := rest\<rparr>), a) })))"

fun serve_agents :: "loop_env \<Rightarrow> stream list \<Rightarrow> application \<Rightarrow> (stream list \<times> application) option" where
  "serve_agents env [] a = Some ([], a)"
| "serve_agents env (st # sts) a = do {
     (stay, st, a) \<leftarrow> serve_agent env st a;
     (sts, a) \<leftarrow> serve_agents env sts a;
     Some (if stay then st # sts else sts, a) }"

section \<open>Events\<close>

datatype terminal_event =
    EventKey key_event
  | EventMouse terminal_mouse
  | EventResize u16 u16
  | EventPaste rstr
  | EventFocusGained
  | EventFocusLost

definition active_state :: "application \<Rightarrow> pane_state option option" where
  "active_state a = map_option (\<lambda>active. Option.bind active (map_of (ap_panes a))) (app_active_pane a)"

text \<open>Half a page for the scroll keys.\<close>

definition half_page :: "pane_state option \<Rightarrow> app_command \<Rightarrow> app_command" where
  "half_page ps cmd =
     (let half = max (case ps of Some p \<Rightarrow> rows_of (pst_screen p) div 2 | None \<Rightarrow> 1) 1 in
      if cmd = CmdScrollUp 0 then CmdScrollUp half
      else if cmd = CmdScrollDown 0 then CmdScrollDown half
      else cmd)"

definition key_command :: "key_event \<Rightarrow> application \<Rightarrow> app_command option" where
  "key_command key a = do {
     ps \<leftarrow> active_state a;
     let bytes = (case ps of None \<Rightarrow> [] | Some p \<Rightarrow> translate_key key (pst_screen p));
     let cmd = resolve_keybinding key \<lparr>rc_input_mode = ap_input_mode a, rc_bindings = ap_bindings a,
         rc_daemon_mode = ap_daemon_mode a, rc_search_query = ap_search_query a,
         rc_search_direction_active = ap_search_direction_active a, rc_forward_bytes = bytes\<rparr>;
     Some (half_page ps cmd) }"

definition mouse_info :: "pane_id \<Rightarrow> pane_state \<Rightarrow> pane_mouse_info" where
  "mouse_info i ps =
     (let s = pst_screen ps in
      \<lparr>pm_pane_id = i, pm_mouse_tracking = md_mouse_tracking (s_modes s), pm_mouse_sgr = md_mouse_sgr (s_modes s),
       pm_scrollback_len = scrollback_len (s_grid s), pm_viewport_offset = s_viewport_offset s\<rparr>)"

definition mouse_context_of :: "application \<Rightarrow> tab \<Rightarrow> mouse_context" where
  "mouse_context_of a t =
     \<lparr>mc_positions = tab_positions t, mc_active_pane_id = t_active_pane t, mc_border_drag = ap_border_drag a,
      mc_has_mouse_selection = (ap_mouse_selection a \<noteq> None),
      mc_mouse_selection_pane = map_option ms_pane_id (ap_mouse_selection a),
      mc_pane_mouse_info = List.map_filter (\<lambda>(i, pos). map_option (mouse_info i) (map_of (ap_panes a) i)) (tab_positions t)\<rparr>"

fun event_commands :: "terminal_event \<Rightarrow> application \<Rightarrow> app_command list option" where
  "event_commands (EventKey key) a = map_option (\<lambda>c. [c]) (key_command key a)"
| "event_commands (EventMouse ev) a =
     map_option (\<lambda>t. resolve_mouse ev (mouse_context_of a t)) (active_tab_of (ap_session a))"
| "event_commands (EventResize cols rows) a = Some [CmdResize cols rows]"
| "event_commands (EventPaste text) a =
     map_option (\<lambda>ps. [CmdForwardPaste (case ps of None \<Rightarrow> []
         | Some p \<Rightarrow> encode_paste text (md_bracketed_paste (s_modes (pst_screen p))))]) (active_state a)"
| "event_commands EventFocusGained a = Some [CmdForwardFocus True]"
| "event_commands EventFocusLost a = Some [CmdForwardFocus False]"

section \<open>An iteration\<close>

definition save_loop_session :: "loop_env \<Rightarrow> event_loop \<Rightarrow> event_loop" where
  "save_loop_session env l =
     (case le_save_path env of
        None \<Rightarrow> l
      | Some path \<Rightarrow> l\<lparr>el_files := snd (save_session (le_to_string env) (le_save_fault env)
          (ap_session (el_app l)) path (el_files l))\<rparr>)"

definition draw_all :: "bool \<Rightarrow> event_loop \<Rightarrow> event_loop option" where
  "draw_all force_clear l = do {
     (ops, a) \<leftarrow> render_all (el_cols l) (el_rows l) force_clear (el_app l);
     Some (l\<lparr>el_app := a, el_drawn := el_drawn l @ ops\<rparr>) }"

text \<open>The commands of an event: the loop ends with an error, or with the reason to exit.\<close>

fun run_commands :: "loop_env \<Rightarrow> app_command list \<Rightarrow> event_loop \<Rightarrow> ((app_error + exit_reason option) \<times> event_loop) option" where
  "run_commands env [] l = Some (Inr None, l)"
| "run_commands env (cmd # cmds) l = do {
     (r, a) \<leftarrow> dispatch (le_lower env) cmd (el_app l);
     let l = l\<lparr>el_app := a\<rparr>;
     let l = (if dr_exit r \<noteq> None then save_loop_session env l else l);
     (res, w, a) \<leftarrow> execute_side_effects env r (el_stdout l) (el_app l);
     let l = l\<lparr>el_stdout := w, el_app := a\<rparr>;
     case res of
       Inl e \<Rightarrow> Some (Inl e, l)
     | Inr _ \<Rightarrow>
         if dr_exit r \<noteq> None then Some (Inr (dr_exit r), l)
         else run_commands env cmds (l\<lparr>el_session_dirty := True\<rparr>) }"

definition handle_event :: "loop_env \<Rightarrow> terminal_event \<Rightarrow> event_loop \<Rightarrow> ((app_error + exit_reason option) \<times> event_loop) option" where
  "handle_event env ev l = do {
     cmds \<leftarrow> event_commands ev (el_app l);
     let l = (case ev of EventResize cols rows \<Rightarrow> l\<lparr>el_cols := cols, el_rows := rows\<rparr> | _ \<Rightarrow> l);
     (res, l) \<leftarrow> run_commands env cmds l;
     if res \<noteq> Inr None then Some (res, l)
     else do {
       a \<leftarrow> mark_active_dirty (el_app l);
       l \<leftarrow> draw_all False (l\<lparr>el_app := a\<rparr>);
       Some (Inr None, l) } }"

text \<open>
  What an iteration finds: which shells are alive, whether the frame budget and the save interval have
  run out, a configuration that has changed, an agent that connects, an event.
\<close>

record occurrences =
  oc_alive :: "pane_id \<Rightarrow> bool"
  oc_frame_due :: bool
  oc_new_config :: "config option"
  oc_save_due :: bool
  oc_agents :: "stream list"
  oc_event :: "terminal_event option"

definition reload_config :: "loop_env \<Rightarrow> config option \<Rightarrow> event_loop \<Rightarrow> ((app_error + unit) \<times> event_loop) option" where
  "reload_config env cfg l =
     (case cfg of
        None \<Rightarrow> Some (Inr (), l)
      | Some cfg \<Rightarrow> do {
          (r, a) \<leftarrow> dispatch (le_lower env) (CmdReloadConfig cfg) (el_app l);
          (res, w, a) \<leftarrow> execute_side_effects env r (el_stdout l) a;
          let l = l\<lparr>el_stdout := w, el_app := a\<rparr>;
          case res of
            Inl e \<Rightarrow> Some (Inl e, l)
          | Inr _ \<Rightarrow> map_option (Pair (Inr ())) (draw_all True l) })"

definition loop_iteration ::
  "loop_env \<Rightarrow> occurrences \<Rightarrow> event_loop \<Rightarrow> ((app_error + exit_reason option) \<times> event_loop) option" where
  "loop_iteration env oc l = do {
     (any_output, a) \<leftarrow> drain_pty_reads (el_app l);
     (quit, a) \<leftarrow> handle_dead_panes (oc_alive oc) a;
     let l = l\<lparr>el_app := a\<rparr>;
     if quit then Some (Inr (Some ExitQuit), l)
     else do {
       l \<leftarrow> (if any_output \<and> oc_frame_due oc then draw_all False l else Some l);
       (res, l) \<leftarrow> reload_config env (oc_new_config oc) l;
       case res of
         Inl e \<Rightarrow> Some (Inl e, l)
       | Inr _ \<Rightarrow> do {
           let l = (if el_session_dirty l \<and> oc_save_due oc
                    then (save_loop_session env l)\<lparr>el_session_dirty := False\<rparr> else l);
           (agents, a) \<leftarrow> serve_agents env (el_agents l @ oc_agents oc) (el_app l);
           let l = l\<lparr>el_agents := agents, el_app := a\<rparr>;
           case oc_event oc of
             None \<Rightarrow> Some (Inr None, l)
           | Some ev \<Rightarrow> handle_event env ev l } } }"

text \<open>\<open>run_event_loop\<close> up to its first drawing: spawning the first shell may fail.\<close>

definition loop_start ::
  "loop_env \<Rightarrow> config \<Rightarrow> bool \<Rightarrow> u16 \<Rightarrow> u16 \<Rightarrow> sink \<Rightarrow> files \<Rightarrow> (app_error + event_loop) option" where
  "loop_start env cfg daemon_mode cols rows w fs =
     (case spawn_pane_state (le_spawn env) (unat cols) (unat rows - 1) of
        None \<Rightarrow> Some (Inl AppPty)
      | Some ps \<Rightarrow> map_option Inr (draw_all True
          \<lparr>el_app = app_new (le_lower env) cfg daemon_mode ps (unat cols) (unat rows - 1), el_cols = cols, el_rows = rows,
           el_stdout = w, el_drawn = [], el_session_dirty = False, el_files = fs, el_agents = []\<rparr>))"

fun run_loop :: "loop_env \<Rightarrow> occurrences list \<Rightarrow> event_loop \<Rightarrow> ((app_error + exit_reason option) \<times> event_loop) option" where
  "run_loop env [] l = Some (Inr None, l)"
| "run_loop env (oc # ocs) l = do {
     (res, l) \<leftarrow> loop_iteration env oc l;
     if res \<noteq> Inr None then Some (res, l) else run_loop env ocs l }"

end
