(* ===== verification/Keys_Properties.thy ===== *)
theory Keys_Properties
  imports App_Loop Dispatch_Properties
begin

text \<open>Properties of the key bindings: which keys the defaults take, and what can be typed as a query.\<close>

section \<open>The default bindings\<close>

lemma utf8_chars_ascii: "list_all (\<lambda>c. of_char c < (128 :: nat)) s \<Longrightarrow> utf8_chars (ascii s) = chars s"
proof (induction s)
  case Nil
  then show ?case
    by (simp add: ascii_def utf8_chars.simps)
next
  case (Cons c s)
  have "utf8_encode (of_char c) = [byte (of_char c)]" "is_scalar (of_char c)"
    using Cons.prems by (simp_all add: utf8_encode_def is_scalar_def)
  then show ?case
    using Cons utf8_chars_encode_append [of "of_char c" "ascii s"] by (simp add: ascii_def)
qed

text \<open>\<open>str::to_lowercase\<close> on ASCII text.\<close>

definition ascii_lowering :: "(rchar list \<Rightarrow> rchar list) \<Rightarrow> bool" where
  "ascii_lowering lower \<longleftrightarrow> (\<forall>s. list_all (\<lambda>c. c < 128) s \<longrightarrow> lower s = map ascii_lower s)"

lemma ascii_loweringD: "ascii_lowering lower \<Longrightarrow> list_all (\<lambda>c. c < 128) s \<Longrightarrow> lower s = map ascii_lower s"
  by (simp add: ascii_lowering_def)

definition leader :: key_mods where
  "leader = \<lparr>km_shift = True, km_control = True, km_alt = False, km_other = False\<rparr>"

lemmas key_text = binding_part_def key_of_name_def named_key_def trim_text_def trim_end_def is_whitespace_def
  ascii_lower_def is_upper_def

lemma parse_leader:
  assumes "ascii_lowering lower" and "list_all (\<lambda>c. of_char c < (128 :: nat) \<and> c \<noteq> CHR ''+'') k"
    and "trim_text (chars k) = chars k"
    and "map ascii_lower (chars k) \<notin> {chars ''leader'', chars ''ctrl'', chars ''control'', chars ''shift'', chars ''alt'',
      chars ''meta'', chars ''opt'', chars ''option''}"
  shows "parse_keybinding lower (ascii (''Leader+'' @ k)) = map_option (Pair leader) (key_of_name lower (chars k))"
proof -
  define p :: rchar where "p = of_char CHR ''+''"
  have k: "p \<notin> set (chars k)"
  proof
    assume "p \<in> set (chars k)"
    then obtain c where "c \<in> set k" and "of_char c = (of_char CHR ''+'' :: nat)"
      unfolding p_def set_map by (metis imageE)
    then show False
      using assms(2) unfolding of_char_eq_iff list_all_iff by blast
  qed
  have "split_on p (chars ''Leader'' @ p # chars k) = chars ''Leader'' # split_on p (chars k)"
    by (rule split_on_append) (simp add: p_def)
  moreover have "chars (''Leader+'' @ k) = chars ''Leader'' @ p # chars k"
    by (simp add: p_def)
  ultimately have "split_on p (chars (''Leader+'' @ k)) = [chars ''Leader'', chars k]"
    using split_on_no_sep [OF k] by (simp only:)
  moreover have "utf8_chars (ascii (''Leader+'' @ k)) = chars (''Leader+'' @ k)"
    using assms(2) by (intro utf8_chars_ascii) (auto simp: list_all_iff)
  moreover have "binding_part lower (chars ''Leader'') (key_mods_empty, None) = (leader, None)"
    using ascii_loweringD [OF assms(1), of "chars ''Leader''"]
    by (simp add: key_text key_mods_empty_def leader_def Let_def)
  moreover have "binding_part lower (chars k) (leader, None) = (leader, Some (chars k))"
  proof -
    have "lower (chars k) = map ascii_lower (chars k)"
      using assms(1,2) by (intro ascii_loweringD) (auto simp: list_all_iff)
    then show ?thesis
      using assms(3,4) by (simp add: binding_part_def Let_def)
  qed
  ultimately show ?thesis
    unfolding parse_keybinding_def p_def [symmetric]
    by (simp only: Let_def fold_simps prod.case option.case list.distinct if_False)
qed

text \<open>A key that is one character, and one that has a name.\<close>

lemma parse_leader_char:
  assumes "ascii_lowering lower" and "of_char c < (128 :: nat)" and "c \<noteq> CHR ''+''"
    and "\<not> is_whitespace (of_char c)"
  shows "parse_keybinding lower (ascii (''Leader+'' @ [c])) = Some (leader, KcChar (of_char c))"
proof -
  have l: "lower [of_char c] = [ascii_lower (of_char c)]"
    using ascii_loweringD [OF assms(1), of "[of_char c]"] assms(2) by simp
  have "ascii_lower (of_char c) < 128"
    using assms(2) by (auto simp: ascii_lower_def is_upper_def)
  then have "length (utf8_encode (ascii_lower (of_char c))) = 1"
    by (simp add: utf8_encode_def)
  then have "key_of_name lower (chars [c]) = Some (KcChar (of_char c))"
    by (simp add: key_of_name_def named_key_def l)
  then show ?thesis
    using assms parse_leader [OF assms(1), of "[c]"] by (simp add: trim_text_def trim_end_def)
qed

lemma parse_leader_named:
  assumes "ascii_lowering lower" and "list_all (\<lambda>c. of_char c < (128 :: nat) \<and> c \<noteq> CHR ''+'') k"
    and "trim_text (chars k) = chars k" and "named_key (map ascii_lower (chars k)) = Some code"
  shows "parse_keybinding lower (ascii (''Leader+'' @ k)) = Some (leader, code)"
proof -
  have "lower (chars k) = map ascii_lower (chars k)"
    using assms(1,2) by (intro ascii_loweringD) (auto simp: list_all_iff)
  then have "key_of_name lower (chars k) = Some code"
    using assms(4) by (simp add: key_of_name_def)
  moreover have "map ascii_lower (chars k) \<notin> {chars ''leader'', chars ''ctrl'', chars ''control'', chars ''shift'',
      chars ''alt'', chars ''meta'', chars ''opt'', chars ''option''}"
  proof
    assume "map ascii_lower (chars k) \<in> {chars ''leader'', chars ''ctrl'', chars ''control'', chars ''shift'',
      chars ''alt'', chars ''meta'', chars ''opt'', chars ''option''}"
    then have "named_key (map ascii_lower (chars k)) = None"
      by (elim insertE emptyE; simp add: named_key_def)
    then show False
      using assms(4) by simp
  qed
  ultimately show ?thesis
    using parse_leader [OF assms(1-3)] by simp
qed

lemma default_bindings_parsed:
  assumes "ascii_lowering lower"
  shows "bindings_from_config lower key_bindings_default =
    \<lparr>pb_split_down = Some (leader, KcChar 68), pb_split_right = Some (leader, KcChar 82),
     pb_close_pane = Some (leader, KcChar 88), pb_focus_up = Some (leader, KcUp), pb_focus_down = Some (leader, KcDown),
     pb_focus_left = Some (leader, KcLeft), pb_focus_right = Some (leader, KcRight),
     pb_new_tab = Some (leader, KcChar 84), pb_close_tab = Some (leader, KcChar 87),
     pb_next_tab = Some (leader, KcChar 78), pb_prev_tab = Some (leader, KcChar 80),
     pb_detach = Some (leader, KcChar 81), pb_search = Some (leader, KcChar 47),
     pb_toggle_fullscreen = Some (leader, KcChar 70), pb_toggle_float = Some (leader, KcChar 71),
     pb_scroll_up = Some (leader, KcPageUp), pb_scroll_down = Some (leader, KcPageDown),
     pb_copy_mode = Some (leader, KcChar 91)\<rparr>"
proof -
  note one = parse_leader_char [OF assms] and named = parse_leader_named [OF assms]
  have "parse_keybinding lower (ascii ''Leader+D'') = Some (leader, KcChar 68)"
    "parse_keybinding lower (ascii ''Leader+R'') = Some (leader, KcChar 82)"
    "parse_keybinding lower (ascii ''Leader+X'') = Some (leader, KcChar 88)"
    "parse_keybinding lower (ascii ''Leader+T'') = Some (leader, KcChar 84)"
    "parse_keybinding lower (ascii ''Leader+W'') = Some (leader, KcChar 87)"
    "parse_keybinding lower (ascii ''Leader+N'') = Some (leader, KcChar 78)"
    "parse_keybinding lower (ascii ''Leader+P'') = Some (leader, KcChar 80)"
    "parse_keybinding lower (ascii ''Leader+Q'') = Some (leader, KcChar 81)"
    "parse_keybinding lower (ascii ''Leader+/'') = Some (leader, KcChar 47)"
    "parse_keybinding lower (ascii ''Leader+F'') = Some (leader, KcChar 70)"
    "parse_keybinding lower (ascii ''Leader+G'') = Some (leader, KcChar 71)"
    "parse_keybinding lower (ascii ''Leader+['') = Some (leader, KcChar 91)"
    using one [of "CHR ''D''"] one [of "CHR ''R''"] one [of "CHR ''X''"] one [of "CHR ''T''"] one [of "CHR ''W''"]
      one [of "CHR ''N''"] one [of "CHR ''P''"] one [of "CHR ''Q''"] one [of "CHR ''/''"] one [of "CHR ''F''"]
      one [of "CHR ''G''"] one [of "CHR ''[''"]
    by (simp_all add: is_whitespace_def)
  moreover have "parse_keybinding lower (ascii ''Leader+Up'') = Some (leader, KcUp)"
    "parse_keybinding lower (ascii ''Leader+Down'') = Some (leader, KcDown)"
    "parse_keybinding lower (ascii ''Leader+Left'') = Some (leader, KcLeft)"
    "parse_keybinding lower (ascii ''Leader+Right'') = Some (leader, KcRight)"
    "parse_keybinding lower (ascii ''Leader+PageUp'') = Some (leader, KcPageUp)"
    "parse_keybinding lower (ascii ''Leader+PageDown'') = Some (leader, KcPageDown)"
    using named [of "''Up''" KcUp] named [of "''Down''" KcDown] named [of "''Left''" KcLeft]
      named [of "''Right''" KcRight] named [of "''PageUp''" KcPageUp] named [of "''PageDown''" KcPageDown]
    by (simp_all add: key_text)
  ultimately show ?thesis
    by (simp add: bindings_from_config_def key_bindings_default_def Let_def)
qed

text \<open>The commands of the default bindings; letters count in either case.\<close>

fun default_command :: "bool \<Rightarrow> key_code \<Rightarrow> app_command option" where
  "default_command daemon_mode (KcChar c) = map_of
     [(81, if daemon_mode then CmdDetach else CmdQuit), (113, if daemon_mode then CmdDetach else CmdQuit),
      (47, CmdEnterSearchMode), (91, CmdEnterCopyMode),
      (68, CmdSplitPane Horizontal), (100, CmdSplitPane Horizontal), (82, CmdSplitPane Vertical), (114, CmdSplitPane Vertical),
      (88, CmdCloseActivePane), (120, CmdCloseActivePane), (84, CmdNewTab), (116, CmdNewTab),
      (78, CmdNextTab), (110, CmdNextTab), (80, CmdPrevTab), (112, CmdPrevTab), (87, CmdCloseTab), (119, CmdCloseTab),
      (70, CmdToggleFullscreen), (102, CmdToggleFullscreen), (71, CmdToggleFloat), (103, CmdToggleFloat)] c"
| "default_command daemon_mode KcUp = Some (CmdFocusDirection FocusUp)"
| "default_command daemon_mode KcDown = Some (CmdFocusDirection FocusDown)"
| "default_command daemon_mode KcLeft = Some (CmdFocusDirection FocusLeft)"
| "default_command daemon_mode KcRight = Some (CmdFocusDirection FocusRight)"
| "default_command daemon_mode KcPageUp = Some (CmdScrollUp 0)"
| "default_command daemon_mode KcPageDown = Some (CmdScrollDown 0)"
| "default_command daemon_mode _ = None"

lemma matches_leader:
  "matches_binding key (Some (leader, code)) \<longleftrightarrow> km_control (ke_modifiers key) \<and> km_shift (ke_modifiers key) \<and>
     (case (code, ke_code key) of (KcChar b, KcChar c) \<Rightarrow> ascii_lower b = ascii_lower c | _ \<Rightarrow> code = ke_code key)"
  by (auto simp: matches_binding_def key_mods_contain_def leader_def split: key_code.split)

lemma ascii_lower_eq:
  "65 \<le> b \<Longrightarrow> b \<le> 90 \<Longrightarrow> ascii_lower b = ascii_lower c \<longleftrightarrow> c = b \<or> c = b + 32"
  "b < 65 \<or> (90 < b \<and> b < 97) \<Longrightarrow> ascii_lower b = ascii_lower c \<longleftrightarrow> c = b"
  by (auto simp: ascii_lower_def is_upper_def)

text \<open>
  C23: with the default bindings exactly the keys of the table are commands, when Control and Shift are held
  (and whatever other modifiers are); every other key is sent to the program in the pane.
\<close>
theorem default_bindings_reach:
  assumes "ascii_lowering lower" and "rc_bindings ctx = bindings_from_config lower key_bindings_default"
    and "rc_input_mode ctx = InputNormal"
  shows "resolve_keybinding key ctx =
    (case (if km_control (ke_modifiers key) \<and> km_shift (ke_modifiers key)
           then default_command (rc_daemon_mode ctx) (ke_code key) else None) of
       Some c \<Rightarrow> c | None \<Rightarrow> CmdForwardKeyToPty (rc_forward_bytes ctx))"
proof (cases "km_control (ke_modifiers key) \<and> km_shift (ke_modifiers key)")
  case False
  then show ?thesis
    using assms(3) by (auto simp: resolve_keybinding_def resolve_normal_key_def assms(2) default_bindings_parsed [OF assms(1)] matches_leader)
next
  case True
  then show ?thesis
    using assms(3)
    by (cases "ke_code key")
       (simp_all add: resolve_keybinding_def resolve_normal_key_def assms(2) default_bindings_parsed [OF assms(1)] matches_leader
         ascii_lower_eq)
qed

theorem default_bindings_reach_witness:
  "resolve_keybinding \<lparr>ke_code = KcChar 100, ke_modifiers = leader\<rparr>
     \<lparr>rc_input_mode = InputNormal, rc_bindings = bindings_from_config (map ascii_lower) key_bindings_default,
      rc_daemon_mode = False, rc_search_query = [], rc_search_direction_active = False, rc_forward_bytes = [100]\<rparr>
   = CmdSplitPane Horizontal"
proof -
  have "ascii_lowering (map ascii_lower)"
    by (simp add: ascii_lowering_def)
  from default_bindings_reach [OF this, of "\<lparr>rc_input_mode = InputNormal,
      rc_bindings = bindings_from_config (map ascii_lower) key_bindings_default,
      rc_daemon_mode = False, rc_search_query = [], rc_search_direction_active = False, rc_forward_bytes = [100]\<rparr>"]
  show ?thesis
    by (simp add: leader_def)
qed

section \<open>Typing a query\<close>

definition plain_key :: "rchar \<Rightarrow> key_event" where
  "plain_key c = \<lparr>ke_code = KcChar c, ke_modifiers = key_mods_empty\<rparr>"

definition type_key :: "(rchar list \<Rightarrow> rchar list) \<Rightarrow> application \<Rightarrow> rchar \<Rightarrow> application option" where
  "type_key lower a c = do {
     cmd \<leftarrow> key_command (plain_key c) a;
     map_option snd (dispatch lower cmd a) }"

definition type_query :: "(rchar list \<Rightarrow> rchar list) \<Rightarrow> rchar list \<Rightarrow> application \<Rightarrow> application option" where
  "type_query lower cs a = do {
     (r, a) \<leftarrow> dispatch lower CmdEnterSearchMode a;
     foldM (type_key lower) cs a }"

definition searching :: "application \<Rightarrow> bool" where
  "searching a \<longleftrightarrow> app_ok a \<and> ap_input_mode a = InputSearch"

lemma type_key_step:
  assumes "searching a" and "\<And>q. q \<noteq> [] \<Longrightarrow> lower q \<noteq> []"
  shows "if c = 110 \<and> ap_search_query a \<noteq> [] \<and> ap_search_direction_active a
    then \<exists>b. type_key lower a c = Some b \<and> searching b \<and> ap_search_query b = ap_search_query a \<and> ap_search_direction_active b
    else \<exists>b. type_key lower a c = Some b \<and> searching b \<and> ap_search_query b = ap_search_query a @ [c] \<and> ap_search_direction_active b"
proof -
  have a: "app_ok a" "ap_input_mode a = InputSearch"
    using assms(1) by (simp_all add: searching_def)
  obtain t :: tab where "app_active_pane a = Some (t_active_pane t)"
    using app_tab [OF a(1)] by blast
  then have key: "key_command (plain_key c) a =
      Some (if c = 110 \<and> ap_search_query a \<noteq> [] \<and> ap_search_direction_active a then CmdSearchNextMatch else CmdSearchAppendChar c)"
    using a(2) by (simp add: key_command_def active_state_def half_page_def resolve_keybinding_def resolve_search_key_def
        plain_key_def key_mods_empty_def Let_def)
  show ?thesis
  proof (cases "c = 110 \<and> ap_search_query a \<noteq> [] \<and> ap_search_direction_active a")
    case True
    then show ?thesis
      using key a by (simp add: type_key_def searching_def current_search_def Let_def)
  next
    case False
    then have "type_key lower a c = append_search_char lower c a"
      using key by (auto simp: type_key_def option.map_comp comp_def option.map_ident)
    then show ?thesis
      using False search_typing_keeps(1) [where lower = lower and c = c, OF a(1) assms(2)] a(2) by (auto simp: returns_iff searching_def)
  qed
qed

lemma type_more:
  assumes "searching a" and "ap_search_query a \<noteq> []" and "ap_search_direction_active a" and "\<And>q. q \<noteq> [] \<Longrightarrow> lower q \<noteq> []"
  shows "\<exists>b. foldM (type_key lower) cs a = Some b \<and> ap_search_query b = ap_search_query a @ filter (\<lambda>c. c \<noteq> 110) cs"
  using assms(1-3)
proof (induction cs arbitrary: a)
  case (Cons c cs)
  obtain b where "type_key lower a c = Some b" "searching b" "ap_search_direction_active b"
      "ap_search_query b = (if c = 110 then ap_search_query a else ap_search_query a @ [c])"
    using type_key_step [where lower = lower and c = c, OF Cons.prems(1) assms(4)] Cons.prems(2,3) by (auto split: if_splits)
  then show ?case
    using Cons.IH [of b] Cons.prems(2) by auto
qed simp

text \<open>
  What the search prompt makes of typed characters: from the second one on, every \<open>n\<close> is taken for the
  command \<open>next match\<close> and never reaches the query. A word with an inner \<open>n\<close> cannot be searched for.
\<close>
theorem typed_query_loses_n:
  assumes "app_ok a" and "\<And>q. q \<noteq> [] \<Longrightarrow> lower q \<noteq> []"
  shows "map_option ap_search_query (type_query lower cs a) =
    Some (case cs of [] \<Rightarrow> [] | c # cs \<Rightarrow> c # filter (\<lambda>d. d \<noteq> 110) cs)"
proof (cases cs)
  case Nil
  then show ?thesis
    by (simp add: type_query_def)
next
  case (Cons c ds)
  let ?a = "a\<lparr>ap_input_mode := InputSearch, ap_search_query := [], ap_search_state := search_state_default,
      ap_search_direction_active := False\<rparr>"
  have "searching ?a"
    using assms(1) by (simp add: searching_def)
  then obtain b where b: "type_key lower ?a c = Some b" "searching b" "ap_search_query b = [c]" "ap_search_direction_active b"
    using type_key_step [of ?a lower c] assms(2) by auto
  obtain d where "foldM (type_key lower) ds b = Some d" "ap_search_query d = c # filter (\<lambda>d. d \<noteq> 110) ds"
    using type_more [where lower = lower and cs = ds, OF b(2) _ b(4) assms(2)] b(3) by auto
  then show ?thesis
    using b(1) Cons by (simp add: type_query_def)
qed

theorem typed_query_loses_n_witness:
  "map_option ap_search_query (type_query id (chars ''find'') (sample_app 80 24)) = Some (chars ''fid'')"
  using typed_query_loses_n [of "sample_app 80 24" id "chars ''find''"] sample_app_ok [of 80 24] by simp

end
