(* ===== verification/Mouse_Properties.thy ===== *)
theory Mouse_Properties
  imports App_Mouse Mux_Layout_Props
begin

text \<open>Which pane gets a mouse event.\<close>

lemma inside_covers: "inside x y (snd p) = covers x y p"
  by (auto simp: inside_def covers_def)

lemma pane_at_position_append:
  "pane_at_position (ps @ qs) c r =
     (case pane_at_position ps c r of Some i \<Rightarrow> Some i | None \<Rightarrow> pane_at_position qs c r)"
  by (induction ps) (auto simp: pane_at_position_def)

lemma pane_at_unique:
  assumes "p \<in> set ps" and "covers (unat c) (unat r) p" and "\<And>q. q \<in> set ps \<Longrightarrow> covers (unat c) (unat r) q \<Longrightarrow> q = p"
  shows "pane_at_position ps c r = Some (fst p)"
  using assms
proof (induction ps)
  case (Cons q ps)
  show ?case
  proof (cases "covers (unat c) (unat r) q")
    case True
    then show ?thesis
      using Cons.prems(3) [of q] inside_covers [of "unat c" "unat r" q] by (cases q) (auto simp: pane_at_position_def)
  next
    case False
    then have "pane_at_position ps c r = Some (fst p)"
      using Cons by (metis set_ConsD list.set_intros(2))
    then show ?thesis
      using False inside_covers [of "unat c" "unat r" q] by (cases q) (auto simp: pane_at_position_def)
  qed
qed simp

text \<open>The pane a command addresses.\<close>

fun addressed :: "app_command \<Rightarrow> pane_id option" where
  "addressed (CmdFocusPane i) = Some i"
| "addressed (CmdStartMouseSelection i p) = Some i"
| "addressed (CmdForwardMouseToPty i bytes) = Some i"
| "addressed (CmdScrollPaneUp i n) = Some i"
| "addressed (CmdScrollPaneDown i n) = Some i"
| "addressed _ = None"

lemma forwarded_addressed:
  "c \<in> set (push_forward_mouse ctx ev) \<Longrightarrow> pane_at_position (mc_positions ctx) (tm_column ev) (tm_row ev) = Some i \<Longrightarrow>
   addressed c = Some i"
  by (auto simp: push_forward_mouse_def Let_def split: option.splits if_splits)

lemma resolved_addressed:
  assumes "c \<in> set (resolve_mouse ev ctx)" and "pane_at_position (mc_positions ctx) (tm_column ev) (tm_row ev) = Some i"
    and "addressed c = Some j"
  shows "j = i"
  using assms forwarded_addressed [OF _ assms(2), of c]
  by (auto simp: resolve_mouse_def left_down_def wheel_def left_drag_def mouse_moved_def
      split: mouse_kind.splits mouse_button.splits option.splits if_splits)

text \<open>
  C24: a mouse event inside the tab goes to the one tiled pane under it: it is found whatever the layout,
  every command of the event that addresses a pane addresses that one, and a press that is on no border
  focuses it. A floating pane drawn over it is never reached, as the tiled panes come first.
\<close>
theorem pointer_finds_tiled_pane:
  assumes "layout_pane_ids (t_layout t) \<noteq> []" and "t_fullscreen_pane t = None" and "mc_positions ctx = tab_positions t"
    and "unat (tm_column ev) < ps_cols (t_size t)" and "unat (tm_row ev) < ps_rows (t_size t)"
  shows "\<exists>p \<in> set (tiled_positions t).
    (\<forall>q \<in> set (tiled_positions t). covers (unat (tm_column ev)) (unat (tm_row ev)) q \<longleftrightarrow> q = p) \<and>
    pane_at_position (tab_positions t) (tm_column ev) (tm_row ev) = Some (fst p) \<and>
    (\<forall>c \<in> set (resolve_mouse ev ctx). addressed c \<noteq> None \<longrightarrow> addressed c = Some (fst p)) \<and>
    (tm_kind ev = MouseDown ButtonLeft \<and> detect_border_click (tab_positions t) (tm_column ev) (tm_row ev) = None \<and>
      mc_active_pane_id ctx \<noteq> Some (fst p) \<longrightarrow> CmdFocusPane (fst p) \<in> set (resolve_mouse ev ctx))"
proof -
  let ?c = "tm_column ev" and ?r = "tm_row ev"
  have "\<exists>!p. p \<in> set (tiled_positions t) \<and> covers (unat ?c) (unat ?r) p"
    unfolding tiled_positions_def using assms(1,4,5) by (rule engine.one_pane_per_cell)
  then obtain p where p: "p \<in> set (tiled_positions t)" "covers (unat ?c) (unat ?r) p"
      "\<And>q. q \<in> set (tiled_positions t) \<Longrightarrow> covers (unat ?c) (unat ?r) q \<Longrightarrow> q = p"
    by blast
  have "pane_at_position (tiled_positions t) ?c ?r = Some (fst p)"
    by (rule pane_at_unique [OF p])
  then have at: "pane_at_position (tab_positions t) ?c ?r = Some (fst p)"
    by (simp add: tab_positions_def assms(2) pane_at_position_append)
  moreover have "addressed c = Some (fst p)" if "c \<in> set (resolve_mouse ev ctx)" "addressed c \<noteq> None" for c
    using that resolved_addressed [OF that(1)] at assms(3) by auto
  moreover have "CmdFocusPane (fst p) \<in> set (resolve_mouse ev ctx)"
    if "tm_kind ev = MouseDown ButtonLeft" "detect_border_click (tab_positions t) ?c ?r = None"
      "mc_active_pane_id ctx \<noteq> Some (fst p)"
    using that at assms(3) by (simp add: resolve_mouse_def left_down_def)
  ultimately show ?thesis
    using p by (intro bexI [of _ p]) blast+
qed

definition float_tab :: tab where
  "float_tab = snd (new_floating_pane_with_coords 10 5 40 10 (tab_new 0 [] 80 24))"

definition float_click :: terminal_mouse where
  "float_click = \<lparr>tm_kind = MouseDown ButtonLeft, tm_column = 20, tm_row = 8\<rparr>"

definition float_context :: mouse_context where
  "float_context = \<lparr>mc_positions = tab_positions float_tab, mc_active_pane_id = Some 1, mc_border_drag = None,
     mc_has_mouse_selection = False, mc_mouse_selection_pane = None, mc_pane_mouse_info = []\<rparr>"

lemma float_positions:
  "tab_positions float_tab = [(0, \<lparr>pp_col = 0, pp_row = 0, pp_cols = 80, pp_rows = 24\<rparr>),
     (1, \<lparr>pp_col = 10, pp_row = 5, pp_cols = 40, pp_rows = 10\<rparr>)]"
  by (simp add: float_tab_def new_floating_pane_with_coords_def push_floating_def tab_new_def Let_def tab_positions_def
      tiled_positions_def floating_position_def pane_new_def pane_size_new_def layout_positions_def
      compute_positions_inner.simps add_pane_def layout_new_def)

theorem pointer_finds_tiled_pane_witness:
  "pane_at_position (tab_positions float_tab) (tm_column float_click) (tm_row float_click) = Some 0 \<and>
   CmdFocusPane 0 \<in> set (resolve_mouse float_click float_context) \<and>
   covers (unat (tm_column float_click)) (unat (tm_row float_click)) (1, \<lparr>pp_col = 10, pp_row = 5, pp_cols = 40, pp_rows = 10\<rparr>)"
proof -
  have "layout_pane_ids (t_layout float_tab) \<noteq> []" "t_fullscreen_pane float_tab = None"
    "t_size float_tab = pane_size_new 80 24" "tiled_positions float_tab = [(0, \<lparr>pp_col = 0, pp_row = 0, pp_cols = 80, pp_rows = 24\<rparr>)]"
    by (simp_all add: float_tab_def new_floating_pane_with_coords_def push_floating_def tab_new_def Let_def
        tiled_positions_def pane_size_new_def layout_pane_ids_def layout_positions_def compute_positions_inner.simps add_pane_def layout_new_def)
  moreover have "detect_border_click (tab_positions float_tab) 20 8 = None"
    by (simp add: float_positions detect_border_click_def right_border_def bottom_border_def)
  ultimately show ?thesis
    using pointer_finds_tiled_pane [of float_tab float_context float_click]
    by (simp add: float_context_def float_click_def pane_size_new_def covers_def)
qed

end
