(* ===== verification/Loop_Properties.thy ===== *)
theory Loop_Properties
  imports App_Loop Dispatch_Properties
begin

text \<open>Tabs and terminals: what opening a tab, closing one, and the death of a shell do to the other tabs.\<close>

lemma single_tab_positions:
  "tab_positions (tab_new i name c r) = [(0, \<lparr>pp_col = 0, pp_row = 0, pp_cols = c, pp_rows = r\<rparr>)]"
  by (simp add: tab_positions_def tiled_positions_def tab_new_def pane_size_new_def layout_positions_def add_pane_def
      layout_new_def compute_positions_inner.simps)

lemma single_tab_ids: "tab_pane_ids (tab_new i name c r) = [0]"
  by (simp add: tab_pane_ids_def tab_new_def add_pane_ids)

definition next_tab_of :: "session \<Rightarrow> tab" where
  "next_tab_of s = tab_new (ss_next_tab_id s) (ascii ''Tab '' @ show_nat (length (ss_tabs s))) (ps_cols (ss_size s)) (ps_rows (ss_size s))"

definition with_next_tab :: "session \<Rightarrow> session" where
  "with_next_tab s = s\<lparr>ss_next_tab_id := ss_next_tab_id s + 1, ss_tabs := ss_tabs s @ [next_tab_of s], ss_active_tab := length (ss_tabs s)\<rparr>"

lemma with_next_tab_index [simp]: "ss_active_tab (with_next_tab s) = length (ss_tabs s)"
  by (simp add: with_next_tab_def)

lemma with_next_tab_active: "active_tab_of (with_next_tab s) = Some (next_tab_of s)"
  by (simp add: with_next_tab_def active_tab_of_def)

lemma dispatch_new_tab_eq:
  "dispatch lower CmdNewTab a =
     Some (result_render\<lparr>dr_spawn_pane := Some (0, ps_cols (ss_size (ap_session a)), ps_rows (ss_size (ap_session a)))\<rparr>,
       mark_all_dirty (a\<lparr>ap_session := with_next_tab (ap_session a)\<rparr>))"
  using with_next_tab_active [of "ap_session a"]
  by (simp add: dispatch_new_tab_def Let_def new_tab_def with_next_tab_def next_tab_of_def single_tab_ids)

lemma fresh_state_synced:
  assumes "spawn_pane_state spawn c r = Some ps" and "0 < c" and "0 < r"
  shows "sync_pane \<lparr>pp_col = 0, pp_row = 0, pp_cols = c, pp_rows = r\<rparr> ps = Some (dirty_pane ps)"
proof -
  have "screen_ok c r (screen_new c r)"
    using assms(2,3) by (rule screen_ok_new)
  then have "cols_of (pst_screen ps) = c" "rows_of (pst_screen ps) = r"
    using assms(1) screen_okD(13,14) [of c r "screen_new c r"] by (auto simp: spawn_pane_state_def cols_of_def rows_of_def)
  then show ?thesis
    by (simp add: sync_pane_def dirty_pane_def)
qed

text \<open>
  C26: every tab numbers its panes from 0 and the program keeps its terminals by that number alone. Opening a
  tab therefore puts the new shell in the place of the first pane's of the other tabs: no terminal is added,
  the old one and its shell are dropped. Closing the new tab then takes this terminal away as well, and the
  tab that becomes active is left without one.
\<close>
theorem new_tab_replaces_terminal:
  assumes "app_ok a" and "map_of (ap_panes a) 0 = Some old"
    and "le_spawn env (of_nat (ps_cols (ss_size (ap_session a)))) (of_nat (ps_rows (ss_size (ap_session a)))) = Some p"
    and "0 < ps_cols (ss_size (ap_session a))" and "0 < ps_rows (ss_size (ap_session a))"
  shows "\<exists>r b c r' d. dispatch lower CmdNewTab a = Some (r, b) \<and> execute_side_effects env r w b = Some (Inr (), w, c) \<and>
    map fst (ap_panes c) = map fst (ap_panes a) \<and> map_option pst_pty (map_of (ap_panes c) 0) = Some p \<and>
    dispatch lower CmdCloseTab c = Some (r', d) \<and> active_tab_of (ap_session d) = Some (last (ss_tabs (ap_session a))) \<and>
    map_of (ap_panes d) 0 = None"
proof -
  let ?s = "ap_session a"
  let ?cols = "ps_cols (ss_size ?s)" and ?rows = "ps_rows (ss_size ?s)"
  define b where "b = mark_all_dirty (a\<lparr>ap_session := with_next_tab ?s\<rparr>)"
  have b: "ap_session b = with_next_tab ?s" "map fst (ap_panes b) = map fst (ap_panes a)"
    by (simp_all add: b_def mark_all_dirty_def case_prod_beta comp_def)
  obtain ps where ps: "spawn_pane_state (le_spawn env) ?cols ?rows = Some ps" "pst_pty ps = p"
    using assms(3) by (auto simp: spawn_pane_state_def)
  define pss where "pss = AList.update 0 (dirty_pane ps) (AList.update 0 ps (ap_panes b))"
  have sync: "sync_pty_sizes (next_tab_of ?s) (AList.update 0 ps (ap_panes b)) = Some pss"
    using fresh_state_synced [OF ps(1) assms(4,5)]
    by (simp add: sync_pty_sizes_def next_tab_of_def single_tab_positions update_conv' pss_def)
  have zero: "0 \<in> fst ` set (ap_panes a)"
    using assms(2) by (metis fst_conv image_eqI map_of_SomeD)
  then have "map fst pss = map fst (ap_panes a)"
    using b(2) by (simp add: pss_def update_keys)
  moreover have "map_option pst_pty (map_of pss 0) = Some p"
    by (simp add: pss_def update_conv' dirty_pane_def ps(2))
  moreover have "execute_side_effects env (result_render\<lparr>dr_spawn_pane := Some (0, ?cols, ?rows)\<rparr>) w b = Some (Inr (), w, b\<lparr>ap_panes := pss\<rparr>)"
    using ps(1) sync with_next_tab_active [of ?s] b(1)
    by (simp add: execute_side_effects_def spawn_requested_def app_sync_sizes_def copy_to_clipboard_def result_render_def result_none_def)
  moreover have "ss_tabs ?s \<noteq> []"
    using app_okD(1) [OF assms(1)] by (auto simp: session_ok_def)
  then have closed: "close_tab (length (ss_tabs ?s)) (with_next_tab ?s) =
      (True, (with_next_tab ?s)\<lparr>ss_tabs := ss_tabs ?s, ss_active_tab := length (ss_tabs ?s) - 1\<rparr>)"
    by (simp add: close_tab_def with_next_tab_def remove_at_def active_after_def)
  have "dispatch lower CmdCloseTab (b\<lparr>ap_panes := pss\<rparr>) = Some (result_render, mark_all_dirty (b\<lparr>
      ap_session := (with_next_tab ?s)\<lparr>ss_tabs := ss_tabs ?s, ss_active_tab := length (ss_tabs ?s) - 1\<rparr>,
      ap_panes := AList.delete 0 pss\<rparr>))"
    using with_next_tab_active [of ?s] closed b(1)
    by (simp add: dispatch_close_tab_def Let_def single_tab_ids next_tab_of_def)
  moreover have "map_of (ap_panes (mark_all_dirty (e\<lparr>ap_panes := AList.delete 0 qss\<rparr>))) 0 = None" for e qss
    by (simp add: mark_all_dirty_def map_of_map delete_conv')
  ultimately show ?thesis
    using dispatch_new_tab_eq [of lower a] \<open>ss_tabs ?s \<noteq> []\<close>
    by (simp add: b_def [symmetric] del: dispatch.simps) (auto simp: mark_all_dirty_def active_tab_of_def last_conv_nth)
qed

definition sample_env :: loop_env where
  "sample_env = \<lparr>le_lower = id, le_sched = (\<lambda>i n. Takes 1), le_spawn = (\<lambda>c r. Some (idle_pty\<lparr>pty_room := 9\<rparr>)), le_error = [],
     le_to_vec = (\<lambda>m. None), le_from_slice = (\<lambda>bs. None), le_to_string = (\<lambda>s. None), le_save_fault = NoFault,
     le_save_path = None\<rparr>"

theorem new_tab_replaces_terminal_witness:
  "\<exists>r b c r' d. dispatch id CmdNewTab (sample_app 80 24) = Some (r, b) \<and>
     execute_side_effects sample_env r \<lparr>sk_bytes = [], sk_room = None\<rparr> b = Some (Inr (), \<lparr>sk_bytes = [], sk_room = None\<rparr>, c) \<and>
     map fst (ap_panes c) = [0] \<and> dispatch id CmdCloseTab c = Some (r', d) \<and> map_of (ap_panes d) 0 = None"
  using new_tab_replaces_terminal [of "sample_app 80 24" "sample_state 80 24" sample_env "idle_pty\<lparr>pty_room := 9\<rparr>" id
      "\<lparr>sk_bytes = [], sk_room = None\<rparr>"] sample_app_ok [of 80 24]
  by (auto simp del: dispatch.simps simp: sample_app_fields session_new_def pane_size_new_def sample_env_def)

section \<open>Dead shells\<close>

text \<open>
  C28: the number of panes of the active tab decides what a dead shell means: if the active tab has one pane,
  the death of any shell, also of one in another tab, ends the program.
\<close>
theorem dead_shell_elsewhere_quits:
  assumes "drain_pty_reads (el_app l) = Some (any_output, a)"
    and "active_tab_of (ap_session a) = Some t" and "tab_pane_count t \<le> 1"
    and "i \<in> fst ` set (ap_panes a)" and "\<not> oc_alive oc i"
  shows "\<exists>l'. loop_iteration env oc l = Some (Inr (Some ExitQuit), l')"
proof -
  have "filter (\<lambda>i. \<not> oc_alive oc i) (map fst (ap_panes a)) \<noteq> []"
    using assms(4,5) by (auto simp: filter_empty_conv)
  then obtain j js where "filter (\<lambda>i. \<not> oc_alive oc i) (map fst (ap_panes a)) = j # js"
    by (meson neq_Nil_conv)
  then have "\<exists>b. handle_dead_panes (oc_alive oc) a = Some (True, b)"
    using assms(2,3) by (simp add: handle_dead_panes_def Let_def)
  then show ?thesis
    using assms(1) by (auto simp: loop_iteration_def Let_def)
qed

definition sample_loop :: "pane_states \<Rightarrow> event_loop" where
  "sample_loop pss = \<lparr>el_app = (sample_app 80 24)\<lparr>ap_panes := pss\<rparr>, el_cols = 80, el_rows = 25,
     el_stdout = \<lparr>sk_bytes = [], sk_room = None\<rparr>, el_drawn = [], el_session_dirty = False, el_files = (\<lambda>p. None), el_agents = []\<rparr>"

definition dead_shell :: "pane_id \<Rightarrow> occurrences" where
  "dead_shell i = \<lparr>oc_alive = (\<lambda>j. j \<noteq> i), oc_frame_due = False, oc_new_config = None, oc_save_due = False,
     oc_agents = [], oc_event = None\<rparr>"

theorem dead_shell_elsewhere_quits_witness:
  "\<exists>l'. loop_iteration sample_env (dead_shell 1) (sample_loop [(0, sample_state 80 24), (1, sample_state 80 24)])
     = Some (Inr (Some ExitQuit), l')"
proof -
  let ?l = "sample_loop [(0, sample_state 80 24), (1, sample_state 80 24)]"
  have "drain_pty_reads (el_app ?l) = Some (False, el_app ?l)"
    by (simp add: drain_pty_reads_def sample_loop_def sample_state_def idle_pty_def)
  moreover have "active_tab_of (ap_session (el_app ?l)) = Some (tab_new 0 (ascii ''Tab 1'') 80 24)"
    by (simp add: sample_loop_def sample_app_fields active_tab_of_def session_new_def)
  moreover have "tab_pane_count (tab_new 0 (ascii ''Tab 1'') 80 24) \<le> 1"
    by (simp add: tab_pane_count_def tab_new_def)
  moreover have "1 \<in> fst ` set (ap_panes (el_app ?l))"
    by (simp add: sample_loop_def)
  ultimately show ?thesis
    by (rule dead_shell_elsewhere_quits) (simp add: dead_shell_def)
qed

end
