(* ===== verification/Render_Statusbar.thy ===== *)
theory Render_Statusbar
  imports Render_Text
begin

text \<open>
  \<open>crates/emux-render/src/statusbar.rs\<close>: the status bar as styled spans. Texts are their characters; the
  time of day is the argument \<open>now\<close>.
\<close>

definition POWERLINE_RIGHT :: rchar where
  "POWERLINE_RIGHT = 0xE0B0"

definition POWERLINE_LEFT :: rchar where
  "POWERLINE_LEFT = 0xE0B2"

record segment =
  sg_text :: "rchar list"
  sg_fg :: ct_color
  sg_bg :: ct_color
  sg_bold :: bool

definition segment_new :: "rchar list \<Rightarrow> ct_color \<Rightarrow> ct_color \<Rightarrow> segment" where
  "segment_new text fg bg = \<lparr>sg_text = text, sg_fg = fg, sg_bg = bg, sg_bold = False\<rparr>"

definition segment_bold :: "segment \<Rightarrow> segment" where
  "segment_bold s = s\<lparr>sg_bold := True\<rparr>"

record tab_info =
  ti_name :: "rchar list"
  ti_index :: nat
  ti_has_notification :: bool
  ti_pane_count :: nat

record status_bar_info =
  si_session_name :: "rchar list"
  si_tabs :: "tab_info list"
  si_active_tab :: nat
  si_notification_count :: nat
  si_hostname :: "rchar list"
  si_powerline :: bool

record status_bar_theme =
  sb_bar_bg :: ct_color
  sb_session_fg :: ct_color
  sb_session_bg :: ct_color
  sb_active_tab_fg :: ct_color
  sb_active_tab_bg :: ct_color
  sb_inactive_tab_fg :: ct_color
  sb_inactive_tab_bg :: ct_color
  sb_notify_tab_fg :: ct_color
  sb_right1_fg :: ct_color
  sb_right1_bg :: ct_color
  sb_right2_fg :: ct_color
  sb_right2_bg :: ct_color
  sb_right3_fg :: ct_color
  sb_right3_bg :: ct_color
  sb_border_active :: ct_color
  sb_border_inactive :: ct_color

definition status_bar_theme_default :: status_bar_theme where
  "status_bar_theme_default =
     \<lparr>sb_bar_bg = CtRgb 0x08 0x08 0x08,
      sb_session_fg = CtRgb 0x08 0x08 0x08, sb_session_bg = CtRgb 0xFF 0xFF 0x00,
      sb_active_tab_fg = CtRgb 0x08 0x08 0x08, sb_active_tab_bg = CtRgb 0x00 0xAF 0xFF,
      sb_inactive_tab_fg = CtRgb 0x8A 0x8A 0x8A, sb_inactive_tab_bg = CtRgb 0x08 0x08 0x08,
      sb_notify_tab_fg = CtRgb 0xFF 0xFF 0x00,
      sb_right1_fg = CtRgb 0x8A 0x8A 0x8A, sb_right1_bg = CtRgb 0x08 0x08 0x08,
      sb_right2_fg = CtRgb 0xE4 0xE4 0xE4, sb_right2_bg = CtRgb 0xD7 0x00 0x00,
      sb_right3_fg = CtRgb 0x08 0x08 0x08, sb_right3_bg = CtRgb 0xE4 0xE4 0xE4,
      sb_border_active = CtRgb 0x00 0xAF 0xFF, sb_border_inactive = CtRgb 0x30 0x30 0x30\<rparr>"

section \<open>Widths\<close>

definition bar_wide :: "rchar \<Rightarrow> bool" where
  "bar_wide c \<longleftrightarrow>
     within 0x1100 0x115F c \<or> within 0x2E80 0x303E c \<or> within 0x3040 0x33BF c \<or> within 0x3400 0x4DBF c \<or>
     within 0x4E00 0x9FFF c \<or> within 0xAC00 0xD7AF c \<or> within 0xF900 0xFAFF c \<or> within 0xFE30 0xFE6F c \<or>
     within 0xFF01 0xFF60 c \<or> within 0x1F000 0x1FFFF c \<or> within 0x20000 0x2FFFF c"

definition bar_width :: "rchar list \<Rightarrow> nat" where
  "bar_width text = (\<Sum>c \<leftarrow> text. if c < 128 then 1 else if bar_wide c then 2 else 1)"

section \<open>Assembling\<close>

definition colored :: "ct_color \<Rightarrow> ct_color \<Rightarrow> content_style" where
  "colored fg bg = style_new\<lparr>cs_foreground := Some fg, cs_background := Some bg\<rparr>"

definition segment_span :: "segment \<Rightarrow> content_style \<times> rchar list" where
  "segment_span s =
     ((if sg_bold s then (colored (sg_fg s) (sg_bg s))\<lparr>cs_attributes := [AttrBold]\<rparr> else colored (sg_fg s) (sg_bg s)),
      sg_text s)"

text \<open>The segments of the left side, each followed by its separator; the last one by that to the bar.\<close>

fun left_spans :: "bool \<Rightarrow> ct_color \<Rightarrow> segment list \<Rightarrow> spans" where
  "left_spans powerline bar_bg [] = []"
| "left_spans powerline bar_bg [s] =
     segment_span s # (if powerline then [(colored (sg_bg s) bar_bg, [POWERLINE_RIGHT])] else [])"
| "left_spans powerline bar_bg (s # n # rest) =
     segment_span s # (if powerline then [(colored (sg_bg s) (sg_bg n), [POWERLINE_RIGHT])] else []) @
     left_spans powerline bar_bg (n # rest)"

fun right_spans :: "bool \<Rightarrow> ct_color \<Rightarrow> segment list \<Rightarrow> spans" where
  "right_spans powerline prev_bg [] = []"
| "right_spans powerline prev_bg (s # rest) =
     (if powerline then [(colored (sg_bg s) prev_bg, [POWERLINE_LEFT])] else []) @
     segment_span s # right_spans powerline (sg_bg s) rest"

definition segments_width :: "bool \<Rightarrow> segment list \<Rightarrow> nat" where
  "segments_width powerline ss = (\<Sum>s \<leftarrow> ss. bar_width (sg_text s)) + (if powerline then length ss else 0)"

definition assemble_bar ::
  "segment list \<Rightarrow> segment list \<Rightarrow> status_bar_theme \<Rightarrow> nat \<Rightarrow> bool \<Rightarrow> spans" where
  "assemble_bar left right theme width powerline =
     (let fill = width - (segments_width powerline left + segments_width powerline right) in
      left_spans powerline (sb_bar_bg theme) left @
      (if 0 < fill then [(colored (sb_bar_bg theme) (sb_bar_bg theme), replicate fill 0x20)] else []) @
      right_spans powerline (sb_bar_bg theme) right)"

definition show_chars :: "nat \<Rightarrow> rchar list" where
  "show_chars n = map unat (show_nat n)"

definition tab_segment :: "status_bar_info \<Rightarrow> status_bar_theme \<Rightarrow> tab_info \<Rightarrow> segment" where
  "tab_segment info theme t =
     (let is_active = (ti_index t = si_active_tab info);
          (fg, bg) = (if is_active then (sb_active_tab_fg theme, sb_active_tab_bg theme)
            else if ti_has_notification t then (sb_notify_tab_fg theme, sb_inactive_tab_bg theme)
            else (sb_inactive_tab_fg theme, sb_inactive_tab_bg theme));
          marker = (if ti_has_notification t then [0x25CF] else []);
          seg = segment_new ([0x20] @ show_chars (ti_index t + 1) @ marker @ [0x20] @ ti_name t @ [0x20]) fg bg
      in if is_active then segment_bold seg else seg)"

definition render_statusbar ::
  "rchar list \<Rightarrow> status_bar_info \<Rightarrow> status_bar_theme \<Rightarrow> nat \<Rightarrow> spans" where
  "render_statusbar now info theme width =
     (let session = segment_bold (segment_new ([0x20, 0x2750, 0x20] @ si_session_name info @ [0x20])
            (sb_session_fg theme) (sb_session_bg theme));
          left = session # map (tab_segment info theme) (si_tabs info);
          notifications = (if 0 < si_notification_count info
            then [segment_new ([0x20, 0x21] @ show_chars (si_notification_count info) @ [0x20])
                   (sb_notify_tab_fg theme) (sb_right1_bg theme)] else []);
          time = segment_new ([0x20] @ now @ [0x20]) (sb_right2_fg theme) (sb_right2_bg theme);
          host = segment_bold (segment_new ([0x20] @ si_hostname info @ [0x20])
            (sb_right3_fg theme) (sb_right3_bg theme))
      in assemble_bar left (notifications @ [time, host]) theme width (si_powerline info))"

definition render_border :: "nat \<Rightarrow> bool \<Rightarrow> status_bar_theme \<Rightarrow> spans" where
  "render_border width active theme =
     [(style_new\<lparr>cs_foreground := Some (if active then sb_border_active theme else sb_border_inactive theme)\<rparr>,
       replicate width 0x2500)]"

section \<open>The width of the bar\<close>

definition spans_width :: "spans \<Rightarrow> nat" where
  "spans_width ss = (\<Sum>p \<leftarrow> ss. bar_width (snd p))"

lemma bar_width_simps [simp]:
  "bar_width [] = 0" "bar_width (c # text) = (if c < 128 then 1 else if bar_wide c then 2 else 1) + bar_width text"
  "bar_width (a @ b) = bar_width a + bar_width b"
  by (simp_all add: bar_width_def)

lemma bar_width_blanks [simp]: "bar_width (replicate n 0x20) = n"
  by (induction n) simp_all

lemma spans_width_simps [simp]:
  "spans_width [] = 0" "spans_width (p # ss) = bar_width (snd p) + spans_width ss"
  "spans_width (a @ b) = spans_width a + spans_width b"
  by (simp_all add: spans_width_def)

lemma segment_span_width [simp]: "bar_width (snd (segment_span s)) = bar_width (sg_text s)"
  by (simp add: segment_span_def)

lemma separator_width [simp]: "bar_width [POWERLINE_RIGHT] = 1" "bar_width [POWERLINE_LEFT] = 1"
  by (simp_all add: POWERLINE_RIGHT_def POWERLINE_LEFT_def bar_wide_def within_def)

lemma left_spans_width: "spans_width (left_spans pl bg ss) = segments_width pl ss"
  by (induction pl bg ss rule: left_spans.induct) (simp_all add: segments_width_def del: bar_width_simps(2))

lemma right_spans_width: "spans_width (right_spans pl bg ss) = segments_width pl ss"
  by (induction pl bg ss rule: right_spans.induct) (simp_all add: segments_width_def del: bar_width_simps(2))

text \<open>
  The documentation says the spans fill exactly the width. They do when the segments leave room; when
  they do not, nothing is cut, and the bar is as wide as its segments.
\<close>

lemma assembled_width:
  "spans_width (assemble_bar left right theme width pl) =
   max width (segments_width pl left + segments_width pl right)"
  by (simp add: assemble_bar_def Let_def left_spans_width right_spans_width)

end
