(* ===== verification/Render_Properties.thy ===== *)
theory Render_Properties
  imports App_Render Render_Statusbar Loop_Properties
begin

text \<open>What the drawing of rows, panes and bars shows.\<close>

section \<open>The characters of a row\<close>

text \<open>
  The reference: every cell that is not a continuation cell, with its own style, and the padding.
\<close>

definition row_shown :: "cell list \<Rightarrow> nat \<Rightarrow> (content_style \<times> rchar) list" where
  "row_shown cells width =
     map (\<lambda>c. (cell_style c, shown_char c)) (filter (\<lambda>c. c_width c \<noteq> 0) (take width cells)) @
     replicate (width - (\<Sum>c \<leftarrow> take width cells. max 1 (c_width c))) (style_new, 0x20)"

lemma styled_render_row: "styled (render_row cells width) = row_shown cells width"
  by (simp add: render_row_def row_shown_def split_beta pad_spans push_cells) (simp add: styled_def)

lemma coalesced_render_row: "coalesced (render_row cells width)"
proof -
  have "coalesced []"
    by (simp add: coalesced_def)
  then show ?thesis
    by (simp add: render_row_def split_beta pad_spans push_cells)
qed

text \<open>
  A row of cells is drawn as the cells one by one would be: the spans hold, in order, every cell that is not the
  continuation of a wide character, with its own colours and attributes, control characters as spaces, and then the
  padding; and they are the fewest: no span is empty and no two neighbours have the same style. The padding counts a wide
  character's continuation a second time, so that a row shorter than the width is padded by one column too
  few for each of its wide characters.
\<close>

theorem row_spans_show_cells:
  "styled (render_row cells width) = row_shown cells width \<and> coalesced (render_row cells width)"
  by (rule conjI [OF styled_render_row coalesced_render_row])

section \<open>The characters of a pane\<close>

text \<open>
  What the terminal shows. It keeps the place of the last move, the number of characters since, its pen, and
  what was printed: place, index, pen and character. The pen is the colours and the attributes in force:
  setting a style sets the colours it has and adds its attributes, of which the kinds of underline exclude
  each other; only a reset takes attributes away.
\<close>

type_synonym place = "u16 \<times> u16"
type_synonym pen = "ct_color option \<times> ct_color option \<times> ct_attribute set"
type_synonym shown = "(place \<times> nat \<times> pen \<times> rchar) list"
type_synonym canvas = "place \<times> nat \<times> pen \<times> shown"

definition underlines :: "ct_attribute set" where
  "underlines = {AttrUnderlined, AttrDoubleUnderlined, AttrUndercurled}"

definition add_attribute :: "ct_attribute \<Rightarrow> ct_attribute set \<Rightarrow> ct_attribute set" where
  "add_attribute a A = insert a (if a \<in> underlines then A - underlines else A)"

fun set_style :: "content_style \<Rightarrow> pen \<Rightarrow> pen" where
  "set_style st (fg, bg, A) =
     (case cs_foreground st of Some c \<Rightarrow> Some c | None \<Rightarrow> fg,
      case cs_background st of Some c \<Rightarrow> Some c | None \<Rightarrow> bg,
      fold add_attribute (cs_attributes st) A)"

fun paint :: "draw_op \<Rightarrow> canvas \<Rightarrow> canvas" where
  "paint (DrawMoveTo x y) (pl, k, pen, out) = ((x, y), 0, pen, out)"
| "paint (DrawSetStyle st) (pl, k, pen, out) = (pl, k, set_style st pen, out)"
| "paint (DrawForeground c) (pl, k, (fg, bg, A), out) = (pl, k, (Some c, bg, A), out)"
| "paint (DrawBackground c) (pl, k, (fg, bg, A), out) = (pl, k, (fg, Some c, A), out)"
| "paint DrawResetColor (pl, k, (fg, bg, A), out) = (pl, k, (None, None, A), out)"
| "paint DrawResetAttributes (pl, k, pen, out) = (pl, k, (None, None, {}), out)"
| "paint (DrawPrint cs) (pl, k, pen, out) =
     (pl, k + length cs, pen, out @ map (\<lambda>(i, ch). (pl, i, pen, ch)) (List.enumerate k cs))"
| "paint _ (pl, k, pen, out) = (pl, k, pen, out)"

definition canvas_new :: canvas where
  "canvas_new = ((0, 0), 0, (None, None, {}), [])"

definition painted :: "draw_op list \<Rightarrow> shown" where
  "painted ops = snd (snd (snd (fold paint ops canvas_new)))"

text \<open>Setting a style a second time changes nothing.\<close>

lemma add_attributes:
  "fold add_attribute as A = {a \<in> A. a \<in> underlines \<longrightarrow> set as \<inter> underlines = {}} \<union> (set as - underlines) \<union>
     set (take 1 (rev (filter (\<lambda>a. a \<in> underlines) as)))"
proof (induction as rule: rev_induct)
  case (snoc a as)
  have "take 1 xs \<noteq> [] \<Longrightarrow> set (take 1 xs) \<subseteq> set xs" for xs :: "ct_attribute list"
    by (rule set_take_subset)
  with snoc show ?case
    using set_take_subset [of 1 "rev (filter (\<lambda>a. a \<in> underlines) as)"] by (auto simp: add_attribute_def)
qed simp

lemma set_style_twice: "set_style st (set_style st pen) = set_style st pen"
proof -
  obtain fg bg A where pen: "pen = (fg, bg, A)"
    by (cases pen)
  have "set (take 1 (rev (filter (\<lambda>a. a \<in> underlines) as))) \<subseteq> set as \<inter> underlines" for as
    using set_take_subset [of 1 "rev (filter (\<lambda>a. a \<in> underlines) as)"] by auto
  then have "fold add_attribute as (fold add_attribute as A) = fold add_attribute as A" for as
    unfolding add_attributes by blast
  then show ?thesis
    by (simp add: pen split: option.split)
qed

section \<open>The reference: a cell at a time\<close>

text \<open>
  Which characters are drawn as selected: those connected with a selected one by characters of their own
  style. (The rest of a run of equal style is highlighted with it.)
\<close>

definition marked :: "selection option \<Rightarrow> nat \<Rightarrow> (content_style \<times> rchar) list \<Rightarrow> nat \<Rightarrow> bool" where
  "marked sel line cs i \<longleftrightarrow>
     (case sel of None \<Rightarrow> False
      | Some sl \<Rightarrow> \<exists>j < length cs. selection_contains sl line j \<and>
          (\<forall>k \<in> {min i j..max i j}. fst (cs ! k) = fst (cs ! i)))"

definition cell_drawn :: "selection option \<Rightarrow> nat \<Rightarrow> (content_style \<times> rchar) list \<Rightarrow> nat \<Rightarrow> content_style \<times> rchar" where
  "cell_drawn sel line cs i =
     (if marked sel line cs i then (fst (cs ! i))\<lparr>cs_background := Some CtWhite, cs_foreground := Some CtBlack\<rparr>
      else fst (cs ! i), snd (cs ! i))"

definition draw_cell :: "content_style \<times> rchar \<Rightarrow> draw_op list" where
  "draw_cell c = [DrawSetStyle (fst c), DrawPrint [snd c]]"

definition draw_cells :: "(content_style \<times> rchar) list \<Rightarrow> draw_op list" where
  "draw_cells cs = concat (map draw_cell cs)"

definition row_by_cells :: "screen \<Rightarrow> pane_position \<Rightarrow> selection option \<Rightarrow> nat \<Rightarrow> draw_op list option" where
  "row_by_cells s pos sel r = map_option
     (\<lambda>row. let cs = row_shown (r_cells row) (min (pp_cols pos) (cols_of s));
               line = scrollback_len (s_grid s) + r - min (s_viewport_offset s) (scrollback_len (s_grid s) + r) in
        DrawMoveTo (of_nat (pp_col pos)) (of_nat (pp_row pos + r)) #
        draw_cells (map (cell_drawn sel line cs) [0..<length cs]))
     (viewport_row s r)"

definition pane_by_cells :: "screen \<Rightarrow> pane_position \<Rightarrow> selection option \<Rightarrow> nat list \<Rightarrow> draw_op list option" where
  "pane_by_cells s pos sel rows = map_option concat (those (map (row_by_cells s pos sel) rows))"

text \<open>The characters of the spans, each with the style the span is drawn in.\<close>

fun spans_drawn :: "selection option \<Rightarrow> nat \<Rightarrow> nat \<Rightarrow> spans \<Rightarrow> (content_style \<times> rchar) list" where
  "spans_drawn sel line col [] = []"
| "spans_drawn sel line col ((st, tx) # ss) =
     map (Pair (if selects_any sel line col (length tx) then highlight st else st)) tx @
     spans_drawn sel line (col + length tx) ss"

lemma styled_append [simp]: "styled (ss @ ts) = styled ss @ styled ts" "styled [] = []"
    "styled ((st, tx) # ss) = map (Pair st) tx @ styled ss"
  by (simp_all add: styled_def)

lemma styled_last: "list_all (\<lambda>p. snd p \<noteq> []) ss \<Longrightarrow> ss \<noteq> [] \<Longrightarrow> styled ss \<noteq> [] \<and> fst (last (styled ss)) = fst (last ss)"
  by (induction ss rule: rev_induct) (auto simp: last_map)

lemma styled_hd: "list_all (\<lambda>p. snd p \<noteq> []) ss \<Longrightarrow> ss \<noteq> [] \<Longrightarrow> styled ss \<noteq> [] \<and> fst (hd (styled ss)) = fst (hd ss)"
  by (cases ss) (auto simp: hd_append hd_map)

text \<open>In the middle of a row, a run is highlighted if one of its characters is selected.\<close>

lemma marked_run:
  assumes A: "A = [] \<or> fst (last A) \<noteq> st" and B: "B = [] \<or> fst (hd B) \<noteq> st"
    and i: "length A \<le> i" "i < length A + length tx"
  shows "marked sel line (A @ map (Pair st) tx @ B) i \<longleftrightarrow> selects_any sel line (length A) (length tx)"
proof (cases sel)
  case (Some sl)
  let ?cs = "A @ map (Pair st) tx @ B"
  have st: "fst (?cs ! k) = st" if "length A \<le> k" "k < length A + length tx" for k
    using that by (simp add: nth_append)
  have inside: "length A \<le> j \<and> j < length A + length tx"
    if j: "j < length ?cs" and same: "\<forall>k \<in> {min i j..max i j}. fst (?cs ! k) = fst (?cs ! i)" for j
  proof (rule ccontr)
    assume "\<not> (length A \<le> j \<and> j < length A + length tx)"
    then consider "j < length A" | "length A + length tx \<le> j"
      by linarith
    then show False
    proof cases
      case 1
      then have "fst (?cs ! (length A - 1)) \<noteq> st"
        using A by (cases "A = []") (auto simp: nth_append last_conv_nth)
      moreover have "length A - 1 \<in> {min i j..max i j}"
        using 1 i by auto
      ultimately show False
        using same st [OF i] by metis
    next
      case 2
      then have "fst (?cs ! (length A + length tx)) \<noteq> st"
        using B j by (cases "B = []") (auto simp: nth_append hd_conv_nth)
      moreover have "length A + length tx \<in> {min i j..max i j}"
        using 2 i by auto
      ultimately show False
        using same st [OF i] by metis
    qed
  qed
  show ?thesis
  proof
    assume "marked sel line ?cs i"
    then obtain j where "j < length ?cs" "selection_contains sl line j" "length A \<le> j" "j < length A + length tx"
      using inside by (auto simp: marked_def Some)
    then show "selects_any sel line (length A) (length tx)"
      by (auto simp: selects_any_def Some list_ex_iff intro!: bexI [of _ "j - length A"])
  next
    assume "selects_any sel line (length A) (length tx)"
    then obtain j where j: "selection_contains sl line (length A + j)" "j < length tx"
      by (auto simp: selects_any_def Some list_ex_iff)
    have "fst (?cs ! k) = fst (?cs ! i)" if "k \<in> {min i (length A + j)..max i (length A + j)}" for k
    proof -
      have "length A \<le> k" "k < length A + length tx"
        using that i j(2) by auto
      then show ?thesis
        using st i by simp
    qed
    moreover have "length A + j < length ?cs"
      using j(2) by simp
    ultimately show "marked sel line ?cs i"
      unfolding marked_def Some option.case using j(1) by (intro exI [of _ "length A + j"]) blast
  qed
qed (simp add: marked_def selects_any_def)

lemma spans_drawn_cells:
  "coalesced (us @ ss) \<Longrightarrow> spans_drawn sel line (length (styled us)) ss =
     map (cell_drawn sel line (styled (us @ ss))) [length (styled us)..<length (styled (us @ ss))]"
proof (induction ss arbitrary: us)
  case (Cons p ss)
  obtain st tx where p: "p = (st, tx)"
    by (cases p)
  have full: "list_all (\<lambda>p. snd p \<noteq> []) us" "list_all (\<lambda>p. snd p \<noteq> []) ss"
    using Cons.prems by (simp_all add: coalesced_def)
  let ?A = "styled us" and ?B = "styled ss"
  have cs: "styled (us @ p # ss) = ?A @ map (Pair st) tx @ ?B"
    by (simp add: p)
  have next_style: "fst ((us @ p # ss) ! k) \<noteq> fst ((us @ p # ss) ! Suc k)" if "Suc k < length (us @ p # ss)" for k
    using Cons.prems that by (simp add: coalesced_def)
  have "fst (last us) \<noteq> st" if "us \<noteq> []"
    using next_style [of "length us - 1"] that by (simp add: p nth_append last_conv_nth)
  then have A: "?A = [] \<or> fst (last ?A) \<noteq> st"
    using styled_last [OF full(1)] by (cases "us = []") auto
  have "fst (hd ss) \<noteq> st" if "ss \<noteq> []"
    using next_style [of "length us"] that by (simp add: p nth_append hd_conv_nth)
  then have B: "?B = [] \<or> fst (hd ?B) \<noteq> st"
    using styled_hd [OF full(2)] by (cases "ss = []") auto
  have "map (Pair (if selects_any sel line (length ?A) (length tx) then highlight st else st)) tx =
      map (cell_drawn sel line (styled (us @ p # ss))) [length ?A..<length ?A + length tx]"
    unfolding cs by (rule nth_equalityI) (auto simp: cell_drawn_def highlight_def marked_run [OF A B] nth_append)
  moreover have "spans_drawn sel line (length ?A + length tx) ss =
      map (cell_drawn sel line (styled (us @ p # ss))) [length ?A + length tx..<length (styled (us @ p # ss))]"
    using Cons.IH [of "us @ [p]"] Cons.prems by (simp add: p)
  moreover have "[length ?A..<length (styled (us @ p # ss))] =
      [length ?A..<length ?A + length tx] @ [length ?A + length tx..<length (styled (us @ p # ss))]"
    using upt_add_eq_append [of "length ?A" "length ?A + length tx" "length ?B"] by (simp add: p add.assoc)
  ultimately show ?case
    by (simp add: p)
qed simp

section \<open>The drawing\<close>

text \<open>The style set last is in force.\<close>

definition in_force :: "content_style option \<Rightarrow> canvas \<Rightarrow> bool" where
  "in_force prev c \<longleftrightarrow> (\<forall>st. prev = Some st \<longrightarrow> set_style st (fst (snd (snd c))) = fst (snd (snd c)))"

lemma paint_run:
  "tx \<noteq> [] \<Longrightarrow> fold paint (draw_cells (map (Pair st) tx)) (pl, k, pen, out) =
     (pl, k + length tx, set_style st pen, out @ map (\<lambda>(i, ch). (pl, i, set_style st pen, ch)) (List.enumerate k tx))"
proof (induction tx arbitrary: k pen out)
  case (Cons c tx)
  then show ?case
    by (cases "tx = []") (simp_all add: draw_cells_def draw_cell_def set_style_twice)
qed simp

lemma paint_spans:
  assumes "list_all (\<lambda>p. snd p \<noteq> []) ss" and "in_force prev c"
  shows "fold paint (fst (draw_row_spans sel line ss col prev)) c = fold paint (draw_cells (spans_drawn sel line col ss)) c \<and>
    in_force (snd (draw_row_spans sel line ss col prev)) (fold paint (draw_cells (spans_drawn sel line col ss)) c)"
  using assms
proof (induction ss arbitrary: col prev c)
  case Nil
  then show ?case
    by (simp add: draw_cells_def)
next
  case (Cons p ss)
  obtain st tx where p: "p = (st, tx)"
    by (cases p)
  obtain pl k pen out where c: "c = (pl, k, pen, out)"
    by (cases c)
  define eff where "eff = (if selects_any sel line col (length tx) then highlight st else st)"
  define pre where "pre = (if prev \<noteq> Some eff then [DrawSetStyle eff] else [])"
  define c' where "c' = fold paint (draw_cells (map (Pair eff) tx)) c"
  have tx: "tx \<noteq> []"
    using Cons.prems by (simp add: p)
  have run: "paint (DrawPrint tx) (fold paint pre c) = c'"
    using Cons.prems(2) by (auto simp: c c'_def pre_def paint_run [OF tx] in_force_def)
  have ops: "draw_row_spans sel line (p # ss) col prev =
      (pre @ DrawPrint tx # fst (draw_row_spans sel line ss (col + length tx) (Some eff)),
       snd (draw_row_spans sel line ss (col + length tx) (Some eff)))"
    by (simp add: p eff_def pre_def Let_def split_beta)
  have cells: "fold paint (draw_cells (spans_drawn sel line col (p # ss))) c =
      fold paint (draw_cells (spans_drawn sel line (col + length tx) ss)) c'"
    by (simp add: p eff_def c'_def draw_cells_def)
  have "in_force (Some eff) c'"
    by (simp add: c c'_def paint_run [OF tx] in_force_def set_style_twice)
  then show ?case
    unfolding ops cells using Cons.IH [of "Some eff" c' "col + length tx"] Cons.prems(1) run by simp
qed

lemma row_drawn:
  assumes "in_force prev c"
  shows "case draw_pane_row s pos sel r prev of
      None \<Rightarrow> row_by_cells s pos sel r = None
    | Some (ops, prev') \<Rightarrow> \<exists>ref. row_by_cells s pos sel r = Some ref \<and> fold paint ops c = fold paint ref c \<and>
        in_force prev' (fold paint ref c)"
proof (cases "viewport_row s r")
  case (Some row)
  let ?ss = "render_row (r_cells row) (min (pp_cols pos) (cols_of s))"
  let ?line = "scrollback_len (s_grid s) + r - min (s_viewport_offset s) (scrollback_len (s_grid s) + r)"
  let ?c = "paint (DrawMoveTo (of_nat (pp_col pos)) (of_nat (pp_row pos + r))) c"
  have "list_all (\<lambda>p. snd p \<noteq> []) ?ss"
    using coalesced_render_row by (simp add: coalesced_def)
  moreover have "in_force prev ?c"
    using assms by (cases c) (simp add: in_force_def)
  moreover have "spans_drawn sel ?line 0 ?ss = map (cell_drawn sel ?line (styled ?ss)) [0..<length (styled ?ss)]"
    using spans_drawn_cells [of "[]" ?ss sel ?line] coalesced_render_row by simp
  ultimately show ?thesis
    using paint_spans [of ?ss prev ?c sel ?line 0]
    by (simp add: draw_pane_row_def row_by_cells_def Some split_beta Let_def styled_render_row)
qed (simp add: draw_pane_row_def row_by_cells_def)

definition draw_rows ::
  "screen \<Rightarrow> damage_tracker \<Rightarrow> pane_position \<Rightarrow> bool \<Rightarrow> selection option \<Rightarrow> nat list \<Rightarrow> draw_op list \<times> content_style option \<Rightarrow>
   (draw_op list \<times> content_style option) option" where
  "draw_rows s damage pos force_all sel = foldM (\<lambda>(ops, prev) r.
         if \<not> force_all \<and> \<not> is_dirty r damage then Some (ops, prev)
         else map_option (\<lambda>(new, prev). (ops @ new, prev)) (draw_pane_row s pos sel r prev))"

lemma pane_by_cells_simps [simp]:
  "pane_by_cells s pos sel [] = Some []"
  "pane_by_cells s pos sel (r # rows) =
     Option.bind (row_by_cells s pos sel r) (\<lambda>new. map_option ((@) new) (pane_by_cells s pos sel rows))"
  by (simp add: pane_by_cells_def)
     (cases "row_by_cells s pos sel r"; cases "those (map (row_by_cells s pos sel) rows)"; simp add: pane_by_cells_def)

lemma draw_rows_shown:
  assumes "fold paint ops canvas_new = fold paint ref canvas_new" and "in_force prev (fold paint ref canvas_new)"
  shows "map_option (\<lambda>x. painted (fst x)) (draw_rows s damage pos force_all sel rows (ops, prev)) =
     map_option (\<lambda>new. painted (ref @ new)) (pane_by_cells s pos sel (filter (\<lambda>r. force_all \<or> is_dirty r damage) rows))"
  using assms
proof (induction rows arbitrary: ops ref prev)
  case Nil
  then show ?case
    by (simp add: draw_rows_def painted_def)
next
  case (Cons r rows)
  show ?case
  proof (cases "force_all \<or> is_dirty r damage")
    case False
    then show ?thesis
      using Cons.IH [OF Cons.prems] by (simp add: draw_rows_def)
  next
    case True
    note row = row_drawn [OF Cons.prems(2), of s pos sel r]
    show ?thesis
    proof (cases "draw_pane_row s pos sel r prev")
      case None
      then show ?thesis
        using True row by (auto simp: draw_rows_def)
    next
      case (Some drawn)
      obtain new prev' where drawn: "drawn = (new, prev')"
        by (cases drawn)
      then obtain rnew where r: "row_by_cells s pos sel r = Some rnew"
          "fold paint (ops @ new) canvas_new = fold paint (ref @ rnew) canvas_new"
          "in_force prev' (fold paint (ref @ rnew) canvas_new)"
        using row Some Cons.prems(1) by auto
      moreover have "draw_rows s damage pos force_all sel (r # rows) (ops, prev) = draw_rows s damage pos force_all sel rows (ops @ new, prev')"
        using True Some by (auto simp: draw_rows_def drawn)
      ultimately show ?thesis
        using Cons.IH [OF r(2,3)] True by (simp add: option.map_comp comp_def)
    qed
  qed
qed

text \<open>
  C17: the optimised drawing of a pane shows what drawing every cell by itself would, with or without a
  selection: the rows to be redrawn (all of them when forced, the damaged ones otherwise), each from its
  place, its characters in view cut to the pane, a style set before every character, which is the cell's own
  or, for the characters connected by cells of equal style with a selected one, black on white. Both are
  shown on a terminal where setting a style only adds attributes, so an attribute once set stays to the end
  of the pane in both. It panics exactly when a row to be redrawn is not in view.
\<close>

theorem pane_drawing_shows_rows:
  "map_option painted (render_pane_region s damage pos force_all sel) =
     map_option painted (pane_by_cells s pos sel
       (filter (\<lambda>r. force_all \<or> is_dirty r damage) [0..<min (pp_rows pos) (rows_of s)]))"
proof -
  have "painted (ops @ [DrawResetColor, DrawResetAttributes]) = painted ops" for ops
    by (cases "fold paint ops canvas_new") (auto simp: painted_def)
  moreover have "Option.bind m (\<lambda>x. Some (f x)) = map_option f m" for m :: "(draw_op list \<times> content_style option) option" and f :: "draw_op list \<times> content_style option \<Rightarrow> shown"
    by (cases m) simp_all
  ultimately show ?thesis
    using draw_rows_shown [of "[]" "[]" None s damage pos force_all sel "[0..<min (pp_rows pos) (rows_of s)]"]
    by (simp add: in_force_def render_pane_region_def draw_rows_def split_beta option.map_comp comp_def map_option_bind)
qed

section \<open>The bars\<close>

lemma display_width_simps [simp]:
  "display_width [] = 0" "display_width (c # cs) = (if app_wide c then 2 else 1) + display_width cs"
  "display_width (a @ b) = display_width a + display_width b"
  by (simp_all add: display_width_def)

lemma display_width_blanks [simp]: "display_width (replicate n 0x20) = n"
  by (induction n) (simp_all add: app_wide_def)

lemma fit_chars_fits:
  "display_width s = w \<Longrightarrow> w \<le> width \<Longrightarrow>
   display_width (fst (fit_chars width w s cs)) = snd (fit_chars width w s cs) \<and> snd (fit_chars width w s cs) \<le> width"
proof (induction width w s cs rule: fit_chars.induct)
  case (2 width w s c cs)
  then show ?case
    by (cases "app_wide c") (simp_all add: Let_def)
qed simp

lemma format_bar_width: "display_width (format_bar left right width) = width"
  using fit_chars_fits [of "[]" 0 width left] by (simp add: format_bar_def Let_def split_beta)

definition bar_text :: "draw_op list \<Rightarrow> rchar list" where
  "bar_text ops = concat (map (\<lambda>op. case op of DrawPrint text \<Rightarrow> text | _ \<Rightarrow> []) ops)"

lemma bar_text_draw_bar: "bar_text (draw_bar cols rows bg left right) = format_bar left right (unat cols)"
  by (simp add: bar_text_def draw_bar_def)

text \<open>
  C35: Whatever the names of the session and its tabs, the query and the number of panes, the status bar, the search bar
  and the copy bar each fill their row exactly: never short, never past the edge, a wide
  character at the edge included. The status bar of the rendering library fills its row too where its segments
  leave room, but it is never cut: with too many segments it is as wide as they are.
\<close>

theorem bars_fill_their_row:
  "display_width (bar_text (draw_status_bar a cols rows)) = unat cols
   \<and> display_width (bar_text (draw_search_bar a cols rows)) = unat cols
   \<and> display_width (bar_text (draw_copy_bar a cols rows)) = unat cols
   \<and> spans_width (assemble_bar left right theme width powerline) =
       max width (segments_width powerline left + segments_width powerline right)"
  by (simp add: draw_status_bar_def draw_search_bar_def draw_copy_bar_def Let_def bar_text_draw_bar format_bar_width assembled_width)

section \<open>When drawing the borders panics\<close>

text \<open>When drawing the borders panics.\<close>

section \<open>The condition\<close>

text \<open>
  A pane \<open>q\<close> that begins in the row where \<open>p\<close> ends, with a gap between their columns.
\<close>

definition diagonal :: "nat \<Rightarrow> nat \<Rightarrow> pane_id \<times> pane_position \<Rightarrow> pane_id \<times> pane_position \<Rightarrow> bool" where
  "diagonal total_cols pane_area_rows = (\<lambda>(i, p) (j, q).
     i \<noteq> j \<and> pp_row p + pp_rows p < pane_area_rows \<and> pp_row q = pp_row p + pp_rows p \<and>
     min (min (pp_col p + pp_cols p) (pp_col q + pp_cols q)) total_cols < max (pp_col p) (pp_col q))"

lemma draw_horizontal_None:
  "pp_row (snd p) + pp_rows (snd p) < h \<Longrightarrow> draw_horizontal active w p q = None \<longleftrightarrow> diagonal w h p q"
  by (cases p; cases q) (auto simp: draw_horizontal_def diagonal_def usub_def Let_def)

lemma foldM_append_None:
  "foldM (\<lambda>ops q. map_option ((@) ops) (f q)) xs ops = None \<longleftrightarrow> (\<exists>x \<in> set xs. f x = None)"
proof (induction xs arbitrary: ops)
  case (Cons x xs)
  then show ?case
    by (cases "f x") auto
qed simp

lemma horizontal_None:
  "foldM (\<lambda>ops p. if h \<le> pp_row (snd p) + pp_rows (snd p) then Some ops
       else foldM (\<lambda>ops q. map_option ((@) ops) (draw_horizontal active w p q)) ps ops) qs ops = None
   \<longleftrightarrow> (\<exists>p \<in> set qs. \<exists>q \<in> set ps. diagonal w h p q)"
proof (induction qs arbitrary: ops)
  case (Cons p qs)
  let ?row = "\<lambda>ops. foldM (\<lambda>ops q. map_option ((@) ops) (draw_horizontal active w p q)) ps ops"
  show ?case
  proof (cases "h \<le> pp_row (snd p) + pp_rows (snd p)")
    case True
    then have "\<not> diagonal w h p q" for q
      by (cases p; cases q) (simp add: diagonal_def)
    then show ?thesis
      using Cons.IH True by simp
  next
    case False
    then have "?row ops = None \<longleftrightarrow> (\<exists>q \<in> set ps. diagonal w h p q)" for ops
      using draw_horizontal_None [of p h active w] by (simp add: foldM_append_None)
    note row = this [of ops]
    show ?thesis
    proof (cases "?row ops")
      case None
      then show ?thesis
        using row False by simp
    next
      case (Some drawn)
      then have "\<not> (\<exists>q \<in> set ps. diagonal w h p q)"
        using row by simp
      then show ?thesis
        using Cons.IH [of drawn] False Some by simp
    qed
  qed
qed simp

lemma draw_borders_None: "draw_borders ps active w h = None \<longleftrightarrow> (\<exists>p \<in> set ps. \<exists>q \<in> set ps. diagonal w h p q)"
  by (simp add: draw_borders_def Let_def horizontal_None)

section \<open>A layout of three columns\<close>

lemma f32_numbers: "f32_of_rat 80 = FVal 80" "f32_of_rat 40 = FVal 40" "f32_of_rat 24 = FVal 24" "f32_of_rat 20 = FVal 20"
    "f32_of_rat 12 = FVal 12"
  by (simp_all add: f32_of_rat_def ilog2_def quotient_of_number compute_floorlog pow2_def round_half_even_def)

lemma halves: "\<lfloor>81 / 2 :: rat\<rfloor> = 40" "\<lfloor>41 / 2 :: rat\<rfloor> = 20" "\<lfloor>25 / 2 :: rat\<rfloor> = 12"
  by (simp_all add: floor_eq_iff)

lemma half_shares: "first_share 80 (FVal (1 / 2)) = 40" "first_share 40 (FVal (1 / 2)) = 20" "first_share 24 (FVal (1 / 2)) = 12"
  by (simp_all add: first_share_def f32_of_nat_def f32_numbers halves)

lemmas tab_compute = split_pane_def can_split_def tab_pane_def tiled_positions_def layout_positions_def find_pos_def
  compute_positions_inner.simps half_shares tab_new_def add_pane_def layout_new_def pane_size_new_def layout_split_def
  sync_pane_sizes_eq auto_swap_plain split_size_def pane_new_def has_fixed_cols_def has_fixed_rows_def focus_pane_def synced_def pane_resize_def Let_def

definition three_columns :: tab where
  "three_columns = fold tab_exec [CSplit Vertical, CSplit Vertical, CSplit Horizontal, CFocus 0, CSplit Horizontal]
     (tab_new 0 (ascii ''Tab 1'') 80 24)"

lemma three_columns_fields:
  "t_layout three_columns = \<lparr>le_root = Some (Split Vertical (FVal (1 / 2)) (Split Horizontal (FVal (1 / 2)) (Leaf 0) (Leaf 4))
     (Split Vertical (FVal (1 / 2)) (Leaf 1) (Split Horizontal (FVal (1 / 2)) (Leaf 2) (Leaf 3))))\<rparr>"
  "t_size three_columns = pane_size_new 80 24" "t_fullscreen_pane three_columns = None" "t_floating_panes three_columns = []"
  by (simp_all add: three_columns_def tab_compute)

lemma three_columns_positions:
  "tab_positions three_columns =
     [(0, \<lparr>pp_col = 0, pp_row = 0, pp_cols = 40, pp_rows = 12\<rparr>), (4, \<lparr>pp_col = 0, pp_row = 12, pp_cols = 40, pp_rows = 12\<rparr>),
      (1, \<lparr>pp_col = 40, pp_row = 0, pp_cols = 20, pp_rows = 24\<rparr>), (2, \<lparr>pp_col = 60, pp_row = 0, pp_cols = 20, pp_rows = 12\<rparr>),
      (3, \<lparr>pp_col = 60, pp_row = 12, pp_cols = 20, pp_rows = 12\<rparr>)]"
  by (simp add: tab_positions_def three_columns_fields tiled_positions_def layout_positions_def pane_size_new_def
      compute_positions_inner.simps half_shares Let_def)

text \<open>
  C27: Drawing the borders panics exactly when one pane ends in the row in which another begins and a gap lies between
  their columns (the width of the edge they would share is then negative); and the editing keys reach such a tab: in an
  80 by 24 terminal, split vertically twice, split the last pane horizontally, and split the first pane horizontally.
\<close>

theorem border_drawing_panics_iff:
  "(draw_borders ps active w h = None \<longleftrightarrow> (\<exists>p \<in> set ps. \<exists>q \<in> set ps. diagonal w h p q))
   \<and> draw_borders (tab_positions three_columns) (t_active_pane three_columns) 80 24 = None"
  by (simp add: draw_borders_None three_columns_positions diagonal_def)

end
