(* ===== verification/Daemon_Client.thy ===== *)
theory Daemon_Client
  imports App_Daemon Config_Types
begin

text \<open>
  \<open>crates/emux-daemon/src/client.rs\<close>: a client of the daemon, as the bytes it will read and the sink it writes to,
  and its conversation with the daemon's loop over the two directions of a socket.
\<close>

section \<open>The client\<close>

record daemon_client =
  dc_in :: "u8 list"
  dc_out :: sink

text \<open>
  On Unix \<open>connect\<close> opens the socket. On Windows the path is a file that holds the port: \<open>contents\<close> is what reading
  it gives, and the result is the port to connect to on the loopback interface.
\<close>

definition client_port :: "rstr \<Rightarrow> rstr + rstr \<Rightarrow> daemon_error + nat" where
  "client_port path contents =
     (case contents of
        Inl e \<Rightarrow> Inl (DaemonIo (ascii ''cannot read port file '' @ path @ ascii '': '' @ e))
      | Inr text \<Rightarrow>
          (case parse_unsigned (2 ^ 16) 10 (trim_bytes text) of
             None \<Rightarrow> Inl (DaemonIo (ascii ''invalid port in '' @ path))
           | Some port \<Rightarrow> Inr port))"

definition client_send ::
  "(client_message \<Rightarrow> u8 list option) \<Rightarrow> client_message \<Rightarrow> daemon_client \<Rightarrow> (daemon_error + unit) \<times> daemon_client" where
  "client_send to_vec msg c =
     (let (r, out) = write_message to_vec msg (dc_out c) in
      ((case r of Inl e \<Rightarrow> Inl (DaemonCodec e) | Inr _ \<Rightarrow> Inr ()), c\<lparr>dc_out := out\<rparr>))"

definition client_recv ::
  "(u8 list \<Rightarrow> server_message option) \<Rightarrow> daemon_client \<Rightarrow> (daemon_error + server_message) \<times> daemon_client" where
  "client_recv from_slice c =
     (let (r, inp) = read_message from_slice (dc_in c) in
      ((case r of Inl e \<Rightarrow> Inl (DaemonCodec e) | Inr m \<Rightarrow> Inr m), c\<lparr>dc_in := inp\<rparr>))"

text \<open>
  \<open>ping\<close> on a client that \<open>wait\<close> brings the answer to; \<open>debug\<close> prints a message the way \<open>{:?}\<close> does.
\<close>

definition client_ping ::
  "(client_message \<Rightarrow> u8 list option) \<Rightarrow> (u8 list \<Rightarrow> server_message option) \<Rightarrow> (server_message \<Rightarrow> rstr) \<Rightarrow>
   (daemon_client \<Rightarrow> daemon_client) \<Rightarrow> daemon_client \<Rightarrow> (daemon_error + unit) \<times> daemon_client" where
  "client_ping to_vec from_slice debug wait c =
     (case client_send to_vec Ping c of
        (Inl e, c) \<Rightarrow> (Inl e, c)
      | (Inr _, c) \<Rightarrow>
          (case client_recv from_slice (wait c) of
             (Inl e, c) \<Rightarrow> (Inl e, c)
           | (Inr Pong, c) \<Rightarrow> (Inr (), c)
           | (Inr other, c) \<Rightarrow> (Inl (DaemonIo (ascii ''expected Pong, got '' @ debug other)), c)))"

text \<open>\<open>detach\<close>: what was sent when the stream is dropped; an error is passed over.\<close>

definition client_detach :: "(client_message \<Rightarrow> u8 list option) \<Rightarrow> daemon_client \<Rightarrow> sink" where
  "client_detach to_vec c = dc_out (snd (client_send to_vec Detach c))"

section \<open>A call\<close>

text \<open>
  One call: the client sends, the bytes arrive at the daemon, the daemon serves the client, the bytes of its
  answer arrive at the client, the client receives. \<open>None\<close> is a panic of the daemon.
\<close>

definition to_daemon :: "daemon_client \<Rightarrow> stream \<Rightarrow> stream" where
  "to_daemon c st = st\<lparr>st_in := st_in st @ sk_bytes (dc_out c)\<rparr>"

definition to_client :: "stream \<Rightarrow> daemon_client \<Rightarrow> daemon_client" where
  "to_client st c = c\<lparr>dc_in := dc_in c @ sk_bytes (st_out st)\<rparr>"

definition connected :: "daemon_client \<times> stream" where
  "connected = (\<lparr>dc_in = [], dc_out = open_sink\<rparr>, \<lparr>st_in = [], st_open = True, st_out = open_sink\<rparr>)"

definition remote_call ::
  "(client_message \<Rightarrow> u8 list option) \<Rightarrow> (u8 list \<Rightarrow> server_message option) \<Rightarrow> environment \<Rightarrow> client_message \<Rightarrow> daemon \<Rightarrow>
   ((daemon_error + server_message) \<times> fate \<times> daemon) option" where
  "remote_call to_vec from_slice env m d =
     (let (c, st) = connected in
      case client_send to_vec m c of
        (Inl e, c) \<Rightarrow> Some (Inl e, Stay, d)
      | (Inr _, c) \<Rightarrow>
          map_option (\<lambda>(fate, st, d). (fst (client_recv from_slice (to_client st c)), fate, d))
            (serve_client env (to_daemon c st) d))"

text \<open>
  C37: A call over the socket gives the client the answer that the daemon's dispatch gives for the message, and
  leaves the daemon as the dispatch leaves it, whatever the message and the daemon: provided that each side
  decodes what the other encodes, in at most 16 MiB.
\<close>

theorem remote_call_is_local:
  assumes "to_vec m = Some p" and "length p \<le> MAX_MESSAGE_SIZE" and "en_from_slice env p = Some m"
    and "\<And>r fate d'. dispatch_message env m d = Some (r, fate, d') \<Longrightarrow>
      \<exists>q. en_to_vec env r = Some q \<and> length q \<le> MAX_MESSAGE_SIZE \<and> from_slice q = Some r"
  shows "remote_call to_vec from_slice env m d =
    map_option (\<lambda>(r, fate, d'). (Inr r, fate, d')) (dispatch_message env m d)"
proof -
  let ?c = "\<lparr>dc_in = [], dc_out = open_sink\<lparr>sk_bytes := frame p\<rparr>\<rparr>"
  let ?st = "\<lparr>st_in = frame p, st_open = True, st_out = open_sink\<rparr>"
  have send: "client_send to_vec m \<lparr>dc_in = [], dc_out = open_sink\<rparr> = (Inr (), ?c)"
    using write_frame [where to_vec = to_vec and m = m and w = open_sink] assms(1) by (simp add: client_send_def open_sink_def)
  have read: "daemon_read (en_from_slice env) ?st = (Received m, ?st\<lparr>st_in := []\<rparr>)"
    using read_frame [OF assms(2), of "en_from_slice env" "[]"] assms(3) by (simp add: daemon_read_def decode_def)
  have call: "remote_call to_vec from_slice env m d =
      map_option (\<lambda>(fate, st, d). (fst (client_recv from_slice (to_client st ?c)), fate, d)) (serve_client env ?st d)"
    using send by (simp add: remote_call_def connected_def to_daemon_def open_sink_def)
  show ?thesis
  proof (cases "dispatch_message env m d")
    case (Some res)
    obtain r fate d' where res: "res = (r, fate, d')"
      by (cases res)
    then obtain q where q: "en_to_vec env r = Some q" "length q \<le> MAX_MESSAGE_SIZE" "from_slice q = Some r"
      using assms(4) Some by blast
    have "st_out (respond (en_to_vec env) r (?st\<lparr>st_in := []\<rparr>)) = open_sink\<lparr>sk_bytes := frame q\<rparr>"
      using write_frame [where to_vec = "en_to_vec env" and m = r and w = open_sink] q(1) by (simp add: respond_def open_sink_def)
    then show ?thesis
      using read_frame [OF q(2), of from_slice "[]"] q(3) call read Some res
      by (simp add: serve_client_def client_recv_def to_client_def decode_def)
  qed (use call read in \<open>simp add: serve_client_def\<close>)
qed

theorem remote_call_is_local_witness:
  "map_option fst (remote_call (\<lambda>m. Some [0x22]) (\<lambda>p. Some Pong)
       \<lparr>en_to_vec = (\<lambda>m. Some [0x22]), en_from_slice = (\<lambda>p. Some Ping), en_sched = (\<lambda>i n. Takes 1),
        en_spawn = (\<lambda>c r. None), en_error = []\<rparr> Ping (daemon_start (\<lambda>c r. None) [])) = Some (Inr Pong)"
proof -
  let ?env = "\<lparr>en_to_vec = (\<lambda>m. Some [0x22]), en_from_slice = (\<lambda>p. Some Ping), en_sched = (\<lambda>i n. Takes 1),
    en_spawn = (\<lambda>c r. None), en_error = []\<rparr>"
  let ?d = "daemon_start (\<lambda>c r. None) []"
  have pong: "map_option fst (dispatch_message ?env Ping ?d) = Some Pong"
    by (simp add: dispatch_message_def reply_def)
  then have "remote_call (\<lambda>m. Some [0x22]) (\<lambda>p. Some Pong) ?env Ping ?d =
      map_option (\<lambda>(r, fate, d'). (Inr r, fate, d')) (dispatch_message ?env Ping ?d)"
    by (intro remote_call_is_local [where p = "[0x22]"]) (auto simp: MAX_MESSAGE_SIZE_def)
  then show ?thesis
    using pong by (auto simp: map_option_case split: option.splits)
qed

end
