(* ===== verification/Daemon_Recording.thy ===== *)
theory Daemon_Recording
  imports Ipc_Codec Mux_Search
begin

text \<open>
  \<open>crates/emux-daemon/src/recording.rs\<close>: recording a session as one JSON text a line, and reading it back. JSON
  is the library's and an argument; a time is of any type. The buffered writer of the standard library
  is written out, because what is on disk depends on it.
\<close>

section \<open>The buffered writer\<close>

record buf_writer =
  bw_buf :: "u8 list"
  bw_inner :: sink

definition BUF_CAPACITY :: nat where
  "BUF_CAPACITY = 8192"

definition buf_flush :: "buf_writer \<Rightarrow> (codec_error + unit) \<times> buf_writer" where
  "buf_flush w =
     (case write_all (bw_buf w) (bw_inner w) of
        (Inr _, s) \<Rightarrow> (Inr (), \<lparr>bw_buf = [], bw_inner = s\<rparr>)
      | (Inl e, s) \<Rightarrow> (Inl e, \<lparr>bw_buf = drop (length (sk_bytes s) - length (sk_bytes (bw_inner w))) (bw_buf w), bw_inner = s\<rparr>))"

definition buf_write_all :: "u8 list \<Rightarrow> buf_writer \<Rightarrow> (codec_error + unit) \<times> buf_writer" where
  "buf_write_all bs w =
     (if length bs + length (bw_buf w) < BUF_CAPACITY then (Inr (), w\<lparr>bw_buf := bw_buf w @ bs\<rparr>)
      else (case (if BUF_CAPACITY < length bs + length (bw_buf w) then buf_flush w else (Inr (), w)) of
              (Inl e, w) \<Rightarrow> (Inl e, w)
            | (Inr _, w) \<Rightarrow>
                if BUF_CAPACITY \<le> length bs
                then (case write_all bs (bw_inner w) of (res, s) \<Rightarrow> (res, w\<lparr>bw_inner := s\<rparr>))
                else (Inr (), w\<lparr>bw_buf := bw_buf w @ bs\<rparr>)))"

text \<open>\<open>writeln!\<close> writes the text and the newline one after the other.\<close>

definition write_line :: "u8 list \<Rightarrow> buf_writer \<Rightarrow> (codec_error + unit) \<times> buf_writer" where
  "write_line bs w =
     (case buf_write_all bs w of
        (Inl e, w) \<Rightarrow> (Inl e, w)
      | (Inr _, w) \<Rightarrow> buf_write_all [0x0a] w)"

section \<open>Recording\<close>

record recording_header =
  rh_version :: u8
  rh_width :: u16
  rh_height :: u16
  rh_timestamp :: nat
  rh_title :: "rstr option"

datatype recording_error = RecordingIo io_kind | RecordingSerialize rstr

definition show_recording_error :: "(io_kind \<Rightarrow> rstr) \<Rightarrow> recording_error \<Rightarrow> rstr" where
  "show_recording_error show_io e =
     (case e of
        RecordingIo k \<Rightarrow> ascii ''recording I/O error: '' @ show_io k
      | RecordingSerialize msg \<Rightarrow> ascii ''recording serialization error: '' @ msg)"

text \<open>What \<open>serde_json\<close> gives for a header and for an event: the text or its error, and the other way.\<close>

record 't recording_json =
  rj_header_to :: "recording_header \<Rightarrow> rstr + rstr"
  rj_header_from :: "rstr \<Rightarrow> rstr + recording_header"
  rj_event_to :: "'t \<times> rstr \<times> rstr \<Rightarrow> rstr + rstr"
  rj_event_from :: "rstr \<Rightarrow> rstr + ('t \<times> rstr \<times> rstr)"

record session_recorder =
  sr_writer :: buf_writer
  sr_path :: rstr
  sr_started :: bool

definition io_result :: "(codec_error + unit) \<Rightarrow> (recording_error + unit)" where
  "io_result r = (case r of Inr _ \<Rightarrow> Inr () | Inl _ \<Rightarrow> Inl (RecordingIo WriteFailed))"

text \<open>\<open>SessionRecorder::new\<close>: \<open>created\<close> is the file that was created, or the error of creating it.\<close>

definition recorder_new ::
  "'t recording_json \<Rightarrow> io_kind + sink \<Rightarrow> nat \<Rightarrow> rstr \<Rightarrow> u16 \<Rightarrow> u16 \<Rightarrow> rstr option \<Rightarrow> recording_error + session_recorder" where
  "recorder_new json created timestamp path width height title =
     (case created of
        Inl k \<Rightarrow> Inl (RecordingIo k)
      | Inr s \<Rightarrow>
          (case rj_header_to json \<lparr>rh_version = 2, rh_width = width, rh_height = height, rh_timestamp = timestamp, rh_title = title\<rparr> of
             Inl e \<Rightarrow> Inl (RecordingSerialize e)
           | Inr line \<Rightarrow>
               (case write_line line \<lparr>bw_buf = [], bw_inner = s\<rparr> of
                  (Inl _, w) \<Rightarrow> Inl (RecordingIo WriteFailed)
                | (Inr _, w) \<Rightarrow> Inr \<lparr>sr_writer = w, sr_path = path, sr_started = True\<rparr>)))"

definition write_event ::
  "'t recording_json \<Rightarrow> 't \<Rightarrow> rstr \<Rightarrow> rstr \<Rightarrow> session_recorder \<Rightarrow> (recording_error + unit) \<times> session_recorder" where
  "write_event json elapsed event_type data r =
     (case rj_event_to json (elapsed, event_type, data) of
        Inl e \<Rightarrow> (Inl (RecordingSerialize e), r)
      | Inr event \<Rightarrow> (case write_line event (sr_writer r) of (res, w) \<Rightarrow> (io_result res, r\<lparr>sr_writer := w\<rparr>)))"

definition record_output :: "'t recording_json \<Rightarrow> 't \<Rightarrow> u8 list \<Rightarrow> session_recorder \<Rightarrow> (recording_error + unit) \<times> session_recorder" where
  "record_output json t data = write_event json t (ascii ''o'') (utf8_lossy data)"

definition record_input :: "'t recording_json \<Rightarrow> 't \<Rightarrow> u8 list \<Rightarrow> session_recorder \<Rightarrow> (recording_error + unit) \<times> session_recorder" where
  "record_input json t data = write_event json t (ascii ''i'') (utf8_lossy data)"

definition record_resize :: "'t recording_json \<Rightarrow> 't \<Rightarrow> u16 \<Rightarrow> u16 \<Rightarrow> session_recorder \<Rightarrow> (recording_error + unit) \<times> session_recorder" where
  "record_resize json t cols rows = write_event json t (ascii ''r'') (show_nat (unat cols) @ ascii ''x'' @ show_nat (unat rows))"

text \<open>\<open>finish\<close> flushes and gives the path; dropping a recorder that has not been finished flushes as well.\<close>

definition recorder_finish :: "session_recorder \<Rightarrow> (recording_error + rstr) \<times> session_recorder" where
  "recorder_finish r =
     (case buf_flush (sr_writer r) of
        (Inl _, w) \<Rightarrow> (Inl (RecordingIo WriteFailed), r\<lparr>sr_writer := w\<rparr>)
      | (Inr _, w) \<Rightarrow> (Inr (sr_path r), r\<lparr>sr_writer := w, sr_started := False\<rparr>))"

definition recorder_drop :: "session_recorder \<Rightarrow> session_recorder" where
  "recorder_drop r = (if sr_started r then r\<lparr>sr_writer := snd (buf_flush (sr_writer r))\<rparr> else r)"

section \<open>Reading\<close>

datatype event_type = EventOutput | EventInput | EventResized

record 't recording_event =
  re_time :: 't
  re_event_type :: event_type
  re_data :: rstr

record 't recording_reader =
  rr_header :: recording_header
  rr_events :: "'t recording_event list"

definition event_type_of :: "rstr \<Rightarrow> recording_error + event_type" where
  "event_type_of k =
     (if k = ascii ''o'' then Inr EventOutput
      else if k = ascii ''i'' then Inr EventInput
      else if k = ascii ''r'' then Inr EventResized
      else Inl (RecordingSerialize (ascii ''unknown event type: '' @ k)))"

text \<open>\<open>BufRead::lines\<close> gives an error for a line that is not UTF-8.\<close>

definition next_line :: "u8 list \<Rightarrow> recording_error + rstr" where
  "next_line l = (if utf8_valid l then Inr l else Inl (RecordingIo InvalidData))"

fun read_events :: "'t recording_json \<Rightarrow> u8 list list \<Rightarrow> recording_error + 't recording_event list" where
  "read_events json [] = Inr []"
| "read_events json (l # ls) =
     (case next_line l of
        Inl e \<Rightarrow> Inl e
      | Inr line \<Rightarrow>
          if trim_text (utf8_chars line) = [] then read_events json ls
          else (case rj_event_from json line of
                  Inl e \<Rightarrow> Inl (RecordingSerialize e)
                | Inr (t, k, d) \<Rightarrow>
                    (case event_type_of k of
                       Inl e \<Rightarrow> Inl e
                     | Inr ty \<Rightarrow>
                         (case read_events json ls of
                            Inl e \<Rightarrow> Inl e
                          | Inr evs \<Rightarrow> Inr (\<lparr>re_time = t, re_event_type = ty, re_data = d\<rparr> # evs)))))"

definition reader_open :: "'t recording_json \<Rightarrow> io_kind + u8 list \<Rightarrow> recording_error + 't recording_reader" where
  "reader_open json file =
     (case file of
        Inl k \<Rightarrow> Inl (RecordingIo k)
      | Inr bytes \<Rightarrow>
          (case str_lines bytes of
             [] \<Rightarrow> Inl (RecordingSerialize (ascii ''empty recording file''))
           | l # ls \<Rightarrow>
               (case next_line l of
                  Inl e \<Rightarrow> Inl e
                | Inr line \<Rightarrow>
                    (case rj_header_from json line of
                       Inl e \<Rightarrow> Inl (RecordingSerialize e)
                     | Inr h \<Rightarrow>
                         (case read_events json ls of
                            Inl e \<Rightarrow> Inl e
                          | Inr evs \<Rightarrow> Inr \<lparr>rr_header = h, rr_events = evs\<rparr>)))))"

definition recording_duration :: "'t \<Rightarrow> 't recording_reader \<Rightarrow> 't" where
  "recording_duration zero r = (if rr_events r = [] then zero else re_time (last (rr_events r)))"

definition event_count :: "'t recording_reader \<Rightarrow> nat" where
  "event_count r = length (rr_events r)"

section \<open>A recording read back\<close>

datatype recorded = RecordedOutput "u8 list" | RecordedInput "u8 list" | RecordedResize u16 u16

fun record_event :: "'t recording_json \<Rightarrow> 't \<times> recorded \<Rightarrow> session_recorder \<Rightarrow> (recording_error + unit) \<times> session_recorder" where
  "record_event json (t, RecordedOutput data) = record_output json t data"
| "record_event json (t, RecordedInput data) = record_input json t data"
| "record_event json (t, RecordedResize cols rows) = record_resize json t cols rows"

fun record_all :: "'t recording_json \<Rightarrow> ('t \<times> recorded) list \<Rightarrow> session_recorder \<Rightarrow> (recording_error + unit) \<times> session_recorder" where
  "record_all json [] r = (Inr (), r)"
| "record_all json (e # es) r =
     (case record_event json e r of (Inl err, r) \<Rightarrow> (Inl err, r) | (Inr _, r) \<Rightarrow> record_all json es r)"

fun replayed :: "'t \<times> recorded \<Rightarrow> 't recording_event" where
  "replayed (t, RecordedOutput data) = \<lparr>re_time = t, re_event_type = EventOutput, re_data = utf8_lossy data\<rparr>"
| "replayed (t, RecordedInput data) = \<lparr>re_time = t, re_event_type = EventInput, re_data = utf8_lossy data\<rparr>"
| "replayed (t, RecordedResize cols rows) =
     \<lparr>re_time = t, re_event_type = EventResized, re_data = show_nat (unat cols) @ ascii ''x'' @ show_nat (unat rows)\<rparr>"

fun event_letter :: "event_type \<Rightarrow> rstr" where
  "event_letter EventOutput = ascii ''o''"
| "event_letter EventInput = ascii ''i''"
| "event_letter EventResized = ascii ''r''"

definition event_tuple :: "'t recording_event \<Rightarrow> 't \<times> rstr \<times> rstr" where
  "event_tuple e = (re_time e, event_letter (re_event_type e), re_data e)"

lemma event_type_of_letter [simp]: "event_type_of (event_letter ty) = Inr ty"
  by (cases ty) (simp_all add: event_type_of_def ascii_def byte_def)

lemma record_event_eq:
  "record_event json e = write_event json (re_time (replayed e)) (event_letter (re_event_type (replayed e))) (re_data (replayed e))"
  by (cases e rule: replayed.cases) (simp_all add: record_output_def record_input_def record_resize_def)

text \<open>What is on disk and what is still in the buffer.\<close>

definition written :: "buf_writer \<Rightarrow> u8 list" where
  "written w = sk_bytes (bw_inner w) @ bw_buf w"

definition roomy :: "buf_writer \<Rightarrow> bool" where
  "roomy w \<longleftrightarrow> sk_room (bw_inner w) = None"

lemma buf_flush_roomy:
  "roomy w \<Longrightarrow> \<exists>w'. buf_flush w = (Inr (), w') \<and> roomy w' \<and> written w' = written w \<and> bw_buf w' = []"
  by (simp add: buf_flush_def write_all_def roomy_def written_def)

lemma buf_write_roomy: "roomy w \<Longrightarrow> \<exists>w'. buf_write_all bs w = (Inr (), w') \<and> roomy w' \<and> written w' = written w @ bs"
proof -
  assume w: "roomy w"
  have "8192 \<le> length bs \<Longrightarrow> \<not> 8192 < length bs + length (bw_buf w) \<Longrightarrow> bw_buf w = []"
    by (cases "bw_buf w") auto
  then show ?thesis
    using buf_flush_roomy [OF w] w
    by (auto simp: buf_write_all_def write_all_def roomy_def written_def BUF_CAPACITY_def split: if_splits)
qed

lemma write_line_roomy: "roomy w \<Longrightarrow> \<exists>w'. write_line bs w = (Inr (), w') \<and> roomy w' \<and> written w' = written w @ bs @ [0x0a]"
  using buf_write_roomy [of w bs] buf_write_roomy [of _ "[0x0a]"] by (fastforce simp: write_line_def)

text \<open>A line that the reader gives back: text without a line end, not blank.\<close>

definition line_ok :: "rstr \<Rightarrow> bool" where
  "line_ok l \<longleftrightarrow> utf8_valid l \<and> 0x0a \<notin> set l \<and> last l \<noteq> 0x0d \<and> trim_text (utf8_chars l) \<noteq> []"

definition lines_of :: "rstr list \<Rightarrow> u8 list" where
  "lines_of ls = concat (map (\<lambda>l. l @ [0x0a]) ls)"

lemma str_lines_of: "list_all line_ok ls \<Longrightarrow> str_lines (lines_of ls) = ls"
proof -
  assume ls: "list_all line_ok ls"
  then have "split_on 0x0a (lines_of ls) = ls @ [[]]"
    by (induction ls) (simp_all add: lines_of_def line_ok_def split_on_append)
  moreover have "map strip_cr ls = ls"
    using ls by (simp add: list_all_iff map_idI strip_cr_def line_ok_def)
  ultimately show ?thesis
    by (simp add: str_lines_def)
qed

text \<open>
  What the JSON library has to do for the values recorded: give a text of one line from which it reads the
  value back.
\<close>

definition keeps_event :: "'t recording_json \<Rightarrow> 't recording_event \<Rightarrow> bool" where
  "keeps_event json e \<longleftrightarrow>
     (case rj_event_to json (event_tuple e) of
        Inl _ \<Rightarrow> False | Inr l \<Rightarrow> line_ok l \<and> rj_event_from json l = Inr (event_tuple e))"

definition keeps_header :: "'t recording_json \<Rightarrow> recording_header \<Rightarrow> bool" where
  "keeps_header json h \<longleftrightarrow>
     (case rj_header_to json h of Inl _ \<Rightarrow> False | Inr l \<Rightarrow> line_ok l \<and> rj_header_from json l = Inr h)"

lemma record_all_written:
  assumes "list_all (\<lambda>e. keeps_event json (replayed e)) es" and "roomy (sr_writer r)"
  shows "\<exists>ls w'. record_all json es r = (Inr (), r\<lparr>sr_writer := w'\<rparr>) \<and> roomy w' \<and> list_all line_ok ls \<and>
    written w' = written (sr_writer r) @ lines_of ls \<and> read_events json ls = Inr (map replayed es)"
  using assms
proof (induction es arbitrary: r)
  case Nil
  then show ?case
    by (intro exI [of _ "[]"] exI [of _ "sr_writer r"]) (simp add: lines_of_def)
next
  case (Cons e es)
  let ?e = "replayed e"
  obtain l where l: "rj_event_to json (event_tuple ?e) = Inr l" "line_ok l" "rj_event_from json l = Inr (event_tuple ?e)"
    using Cons.prems(1) by (auto simp: keeps_event_def split: sum.splits)
  obtain w where w: "write_line l (sr_writer r) = (Inr (), w)" "roomy w" "written w = written (sr_writer r) @ l @ [0x0a]"
    using write_line_roomy [OF Cons.prems(2)] by blast
  then have step: "record_all json (e # es) r = record_all json es (r\<lparr>sr_writer := w\<rparr>)"
    using l(1) by (simp add: record_event_eq write_event_def event_tuple_def io_result_def)
  obtain ls w' where ls: "record_all json es (r\<lparr>sr_writer := w\<rparr>) = (Inr (), r\<lparr>sr_writer := w'\<rparr>)" "roomy w'" "list_all line_ok ls"
      "written w' = written w @ lines_of ls" "read_events json ls = Inr (map replayed es)"
    using Cons.IH [of "r\<lparr>sr_writer := w\<rparr>"] Cons.prems(1) w(2) by auto
  have "read_events json (l # ls) = Inr (map replayed (e # es))"
    using l ls(5) by (simp add: next_line_def line_ok_def event_tuple_def)
  then show ?case
    using step ls w(3) l(2) by (intro exI [of _ "l # ls"] exI [of _ w']) (simp add: lines_of_def)
qed

definition outputs :: "('t \<times> recorded) list \<Rightarrow> u8 list list" where
  "outputs es = List.map_filter (\<lambda>(t, op). case op of RecordedOutput bs \<Rightarrow> Some bs | _ \<Rightarrow> None) es"

definition shown_output :: "'t recording_reader \<Rightarrow> rstr" where
  "shown_output r = concat (map re_data (filter (\<lambda>e. re_event_type e = EventOutput) (rr_events r)))"

lemma utf8_lossy_valid: "utf8_valid bs \<Longrightarrow> utf8_lossy bs = bs"
proof (induction bs rule: utf8_lossy.induct)
  case (1 bs)
  then show ?case
    by (cases "bs = []") (simp_all add: utf8_lossy.simps [of bs] utf8_lossy.simps [of "[]"] utf8_valid.simps [of bs] split: if_splits)
qed

lemma shown_outputs:
  "list_all utf8_valid (outputs es) \<Longrightarrow> shown_output \<lparr>rr_header = h, rr_events = map replayed es\<rparr> = concat (outputs es)"
proof (induction es)
  case (Cons e es)
  then show ?case
    by (cases e rule: replayed.cases) (simp_all add: outputs_def shown_output_def List.map_filter_def utf8_lossy_valid)
qed (simp add: outputs_def shown_output_def List.map_filter_def)

text \<open>
  C38: What was recorded is read back: if the JSON library gives every value back from its line, then a recorder
  on a file that takes all its bytes records without an error, and the file it finishes opens to the header and
  the events in order, whatever the buffer flushed when. The output comes back byte for byte if every
  piece that was recorded was UTF-8 by itself; a character cut in two by the reads of the terminal is not.
\<close>

theorem recording_replays:
  assumes "h = \<lparr>rh_version = 2, rh_width = width, rh_height = height, rh_timestamp = timestamp, rh_title = title\<rparr>"
    and "keeps_header json h" and "list_all (\<lambda>e. keeps_event json (replayed e)) es"
  shows "\<exists>r r'. recorder_new json (Inr open_sink) timestamp path width height title = Inr r \<and>
    fst (record_all json es r) = Inr () \<and> recorder_finish (snd (record_all json es r)) = (Inr path, r') \<and>
    reader_open json (Inr (sk_bytes (bw_inner (sr_writer r')))) = Inr \<lparr>rr_header = h, rr_events = map replayed es\<rparr> \<and>
    (list_all utf8_valid (outputs es) \<longrightarrow>
      shown_output \<lparr>rr_header = h, rr_events = map replayed es\<rparr> = concat (outputs es))"
proof -
  obtain l where l: "rj_header_to json h = Inr l" "line_ok l" "rj_header_from json l = Inr h"
    using assms(2) by (auto simp: keeps_header_def split: sum.splits)
  let ?w = "\<lparr>bw_buf = [], bw_inner = open_sink\<rparr>"
  have "roomy ?w" "written ?w = []"
    by (simp_all add: roomy_def written_def open_sink_def)
  then obtain w where w: "write_line l ?w = (Inr (), w)" "roomy w" "written w = lines_of [l]"
    using write_line_roomy [of ?w l] by (auto simp: lines_of_def)
  let ?r = "\<lparr>sr_writer = w, sr_path = path, sr_started = True\<rparr>"
  obtain ls w' where ls: "record_all json es ?r = (Inr (), ?r\<lparr>sr_writer := w'\<rparr>)" "roomy w'" "list_all line_ok ls"
      "written w' = written w @ lines_of ls" "read_events json ls = Inr (map replayed es)"
    using record_all_written [OF assms(3), of ?r] w(2) by auto
  obtain v where v: "buf_flush w' = (Inr (), v)" "sk_bytes (bw_inner v) = written w'"
    using buf_flush_roomy [OF ls(2)] by (auto simp: written_def)
  have "sk_bytes (bw_inner v) = lines_of (l # ls)"
    using v(2) ls(4) w(3) by (simp add: lines_of_def)
  then have "reader_open json (Inr (sk_bytes (bw_inner v))) = Inr \<lparr>rr_header = h, rr_events = map replayed es\<rparr>"
    using l ls(3,5) by (simp add: reader_open_def str_lines_of next_line_def line_ok_def)
  then show ?thesis
    using l(1) w(1) ls(1) v(1) assms(1)
    by (auto simp: recorder_new_def recorder_finish_def shown_outputs)
qed

definition sample_json :: "nat recording_json" where
  "sample_json = \<lparr>rj_header_to = (\<lambda>h. Inr [0x48]),
     rj_header_from = (\<lambda>l. Inr \<lparr>rh_version = 2, rh_width = 80, rh_height = 24, rh_timestamp = 0, rh_title = None\<rparr>),
     rj_event_to = (\<lambda>e. Inr [0x45]), rj_event_from = (\<lambda>l. Inr (7, ascii ''o'', [0x68, 0x69]))\<rparr>"

lemma plain_hi: "utf8_lossy [0x68, 0x69] = [0x68, 0x69]" "line_ok [0x48]" "line_ok [0x45]"
  by (simp_all add: line_ok_def utf8_valid.simps utf8_lossy.simps utf8_chars.simps utf8_front_def utf8_first_def byte_at_def
      trim_text_def trim_end_def is_whitespace_def)

theorem recording_replays_witness:
  "\<exists>r r'. recorder_new sample_json (Inr open_sink) 0 [] 80 24 None = Inr r \<and>
     recorder_finish (snd (record_all sample_json [(7, RecordedOutput [0x68, 0x69])] r)) = (Inr [], r') \<and>
     reader_open sample_json (Inr (sk_bytes (bw_inner (sr_writer r')))) =
       Inr \<lparr>rr_header = \<lparr>rh_version = 2, rh_width = 80, rh_height = 24, rh_timestamp = 0, rh_title = None\<rparr>,
         rr_events = [\<lparr>re_time = 7, re_event_type = EventOutput, re_data = [0x68, 0x69]\<rparr>]\<rparr>"
  using recording_replays [of _ 80 24 0 None sample_json "[(7, RecordedOutput [0x68, 0x69])]" "[]", OF refl]
  by (auto simp: keeps_header_def keeps_event_def sample_json_def event_tuple_def plain_hi)

lemma cut_character_lost: "utf8_lossy [0xE2] @ utf8_lossy [0x94, 0x80] \<noteq> [0xE2, 0x94, 0x80]"
  by (simp add: utf8_lossy.simps utf8_front_def byte_at_def cont_at_def second_ok_def Let_def)

end
