(* ===== verification/Pty_Command.thy ===== *)
theory Pty_Command
  imports Emux_Utf8 "HOL-Library.AList" "HOL-Library.List_Lexorder"
begin

text \<open>
  \<open>crates/emux-pty/src/cmdbuilder.rs\<close>, and of \<open>unix.rs\<close> and \<open>windows.rs\<close> what does not call the operating system: what
  the child process does before it becomes the shell, and the command line and environment block
  for Windows. The environment overrides, a \<open>HashMap\<close>, are an association list without repeated keys.
\<close>

section \<open>\<open>CommandBuilder\<close>\<close>

record command_builder =
  cb_program :: rstr
  cb_args :: "rstr list"
  cb_env :: "(rstr \<times> rstr) list"
  cb_cwd :: "rstr option"

definition command_new :: "rstr \<Rightarrow> command_builder" where
  "command_new program = \<lparr>cb_program = program, cb_args = [], cb_env = [], cb_cwd = None\<rparr>"

definition command_arg :: "rstr \<Rightarrow> command_builder \<Rightarrow> command_builder" where
  "command_arg a c = c\<lparr>cb_args := cb_args c @ [a]\<rparr>"

definition command_env :: "rstr \<Rightarrow> rstr \<Rightarrow> command_builder \<Rightarrow> command_builder" where
  "command_env key val c = c\<lparr>cb_env := AList.update key val (cb_env c)\<rparr>"

definition command_cwd :: "rstr \<Rightarrow> command_builder \<Rightarrow> command_builder" where
  "command_cwd dir c = c\<lparr>cb_cwd := Some dir\<rparr>"

text \<open>On Unix; the argument is the value of \<open>SHELL\<close>.\<close>

definition default_shell :: "rstr option \<Rightarrow> command_builder" where
  "default_shell shell = command_new (case shell of Some s \<Rightarrow> s | None \<Rightarrow> ascii ''/bin/sh'')"

datatype pty_error = PtyIo rstr | PtyNix rstr | PtyInvalidCommand rstr

definition show_pty_error :: "pty_error \<Rightarrow> rstr" where
  "show_pty_error e =
     (case e of
        PtyIo t \<Rightarrow> ascii ''I/O error: '' @ t
      | PtyNix t \<Rightarrow> ascii ''nix error: '' @ t
      | PtyInvalidCommand t \<Rightarrow> ascii ''invalid command: '' @ t)"

text \<open>\<open>CString::new\<close> refuses a text with a nul byte.\<close>

definition cstring :: "rstr \<Rightarrow> rstr \<Rightarrow> pty_error + rstr" where
  "cstring what s = (if 0 \<in> set s then Inl (PtyInvalidCommand (what @ ascii '' contains nul byte'')) else Inr s)"

definition program_cstr :: "command_builder \<Rightarrow> pty_error + rstr" where
  "program_cstr c = cstring (ascii ''program'') (cb_program c)"

fun args_cstrings :: "rstr list \<Rightarrow> pty_error + rstr list" where
  "args_cstrings [] = Inr []"
| "args_cstrings (a # as) =
     (case cstring (ascii ''arg'') a of
        Inl e \<Rightarrow> Inl e
      | Inr s \<Rightarrow> (case args_cstrings as of Inl e \<Rightarrow> Inl e | Inr ss \<Rightarrow> Inr (s # ss)))"

definition argv_cstrings :: "command_builder \<Rightarrow> pty_error + rstr list" where
  "argv_cstrings c =
     (case program_cstr c of
        Inl e \<Rightarrow> Inl e
      | Inr p \<Rightarrow> (case args_cstrings (cb_args c) of Inl e \<Rightarrow> Inl e | Inr ss \<Rightarrow> Inr (p # ss)))"

section \<open>Sizes and exit statuses\<close>

record pty_size =
  pz_rows :: u16
  pz_cols :: u16
  pz_pixel_width :: u16
  pz_pixel_height :: u16

definition pty_size_default :: pty_size where
  "pty_size_default = \<lparr>pz_rows = 24, pz_cols = 80, pz_pixel_width = 0, pz_pixel_height = 0\<rparr>"

datatype exit_status = ExitCode int | ExitSignal int

definition exit_success :: "exit_status \<Rightarrow> bool" where
  "exit_success s \<longleftrightarrow> s = ExitCode 0"

datatype wait_status = Exited int | Signaled int | StillAlive | OtherStatus

definition exit_status_of :: "wait_status \<Rightarrow> exit_status" where
  "exit_status_of w = (case w of Exited c \<Rightarrow> ExitCode c | Signaled s \<Rightarrow> ExitSignal s | _ \<Rightarrow> ExitCode (-1))"

definition status_alive :: "wait_status option \<Rightarrow> bool" where
  "status_alive w \<longleftrightarrow> w = Some StillAlive"

section \<open>The child process\<close>

text \<open>
  \<open>set_var\<close> panics on a key that is empty or has an equals sign or a nul, and on a value with a nul. The
  child then unwinds out of the closure that was to keep it from returning.
\<close>

datatype child_end =
    Becomes rstr "rstr list" "(rstr \<times> rstr) list" rstr
  | Exits nat
  | Unwinds

definition env_ok :: "rstr \<times> rstr \<Rightarrow> bool" where
  "env_ok = (\<lambda>(key, val). key \<noteq> [] \<and> 0x3d \<notin> set key \<and> 0 \<notin> set key \<and> 0 \<notin> set val)"

definition child_env :: "(rstr \<times> rstr) list \<Rightarrow> command_builder \<Rightarrow> (rstr \<times> rstr) list" where
  "child_env env c =
     (let env = fold (\<lambda>(key, val). AList.update key val) (cb_env c) env in
      if ascii ''TERM'' \<notin> fst ` set (cb_env c) then AList.update (ascii ''TERM'') (ascii ''xterm-256color'') env else env)"

text \<open>
  \<open>enter\<close> says which directories can be entered, \<open>runs\<close> which programs \<open>execvp\<close> can run; a directory that cannot be
  entered is ignored.
\<close>

definition child_process ::
  "(rstr \<Rightarrow> bool) \<Rightarrow> (rstr \<Rightarrow> bool) \<Rightarrow> (rstr \<times> rstr) list \<Rightarrow> rstr \<Rightarrow> command_builder \<Rightarrow> child_end" where
  "child_process enter runs env cwd c =
     (if \<not> list_all env_ok (cb_env c) then Unwinds
      else
        let cwd = (case cb_cwd c of Some d \<Rightarrow> if enter d then d else cwd | None \<Rightarrow> cwd) in
        case argv_cstrings c of
          Inl _ \<Rightarrow> Exits 127
        | Inr argv \<Rightarrow>
            (case program_cstr c of
               Inl _ \<Rightarrow> Exits 127
             | Inr program \<Rightarrow> if runs program then Becomes program argv (child_env env c) cwd else Exits 127))"

section \<open>Windows\<close>

definition quote_step :: "u8 \<Rightarrow> rstr \<times> nat \<Rightarrow> rstr \<times> nat" where
  "quote_step c = (\<lambda>(quoted, backslashes).
     if c = 0x5c then (quoted, backslashes + 1)
     else if c = 0x22 then (quoted @ replicate backslashes 0x5c @ [0x5c, 0x22], 0)
     else (quoted @ [c], 0))"

definition needs_quotes :: "rstr \<Rightarrow> bool" where
  "needs_quotes arg \<longleftrightarrow> 0x20 \<in> set arg \<or> 0x22 \<in> set arg \<or> 0x09 \<in> set arg"

definition quote_arg :: "rstr \<Rightarrow> rstr" where
  "quote_arg arg =
     (if arg = [] then [0x22, 0x22]
      else if \<not> needs_quotes arg then arg
      else let (quoted, backslashes) = fold quote_step arg ([0x22], 0) in
        quoted @ replicate backslashes 0x5c @ [0x22])"

definition build_command_line :: "command_builder \<Rightarrow> rstr" where
  "build_command_line c = quote_arg (cb_program c) @ concat (map (\<lambda>a. 0x20 # quote_arg a) (cb_args c))"

text \<open>The environment of the process and the overrides, sorted by key as a \<open>BTreeMap\<close> is.\<close>

definition build_env_block :: "(rstr \<times> rstr) list \<Rightarrow> command_builder \<Rightarrow> u8 list" where
  "build_env_block env c =
     (let env = fold (\<lambda>(key, val). AList.update key val) (cb_env c) env in
      concat (map (\<lambda>(k, v). k @ 0x3d # v @ [0]) (sort_key fst env)) @ [0])"

section \<open>Backslashes\<close>

lemma quote_plain:
  "0x22 \<notin> set arg \<Longrightarrow> fold quote_step arg (q, n) =
     (q @ filter (\<lambda>c. c \<noteq> 0x5c) arg,
      length (takeWhile (\<lambda>c. c = 0x5c) (rev arg)) + (if list_all (\<lambda>c. c = 0x5c) arg then n else 0))"
proof (induction arg arbitrary: q n)
  case (Cons a arg)
  have "list_all (\<lambda>c. c = 0x5c) arg \<Longrightarrow> length (takeWhile (\<lambda>c. c = 0x5c) (rev arg)) = length arg"
    by (metis (mono_tags, lifting) length_rev list_all_iff set_rev takeWhile_eq_all_conv)
  then show ?case
    using Cons by (auto simp: quote_step_def takeWhile_append list_all_iff)
qed simp

text \<open>
  An argument with a blank loses its backslashes when it is quoted, but for those at its end: they are counted
  and never written. Different arguments become the same text, so the program that is started cannot have
  been given the argument that was asked for; only arguments that need no quotes arrive unchanged.
\<close>

theorem quoting_drops_backslashes:
  "(arg \<noteq> [] \<and> \<not> needs_quotes arg \<longrightarrow> quote_arg arg = arg) \<and>
   (needs_quotes arg \<and> 0x22 \<notin> set arg \<longrightarrow>
      quote_arg arg = 0x22 # filter (\<lambda>c. c \<noteq> 0x5c) arg @ takeWhile (\<lambda>c. c = 0x5c) (rev arg) @ [0x22]) \<and>
   quote_arg (ascii ''C:'' @ 0x5c # ascii ''Program Files'') = quote_arg (ascii ''C:Program Files'')"
proof -
  have "takeWhile (\<lambda>c. c = 0x5c) xs = replicate (length (takeWhile (\<lambda>c. c = 0x5c) xs)) 0x5c" for xs :: "u8 list"
    by (induction xs) auto
  moreover have "needs_quotes arg \<Longrightarrow> arg \<noteq> []"
    by (auto simp: needs_quotes_def)
  ultimately have "needs_quotes arg \<and> 0x22 \<notin> set arg \<longrightarrow>
      quote_arg arg = 0x22 # filter (\<lambda>c. c \<noteq> 0x5c) arg @ takeWhile (\<lambda>c. c = 0x5c) (rev arg) @ [0x22]"
    by (auto simp: quote_arg_def quote_plain)
  then show ?thesis
    by (simp add: quote_arg_def needs_quotes_def ascii_def byte_def quote_step_def)
qed

theorem quoting_drops_backslashes_witness:
  "quote_arg [0x5c, 0x20, 0x41] = [0x22, 0x20, 0x41, 0x22] \<and> quote_arg [0x5c] = [0x5c]"
  using quoting_drops_backslashes [of "[0x5c, 0x20, 0x41]"] quoting_drops_backslashes [of "[0x5c]"]
  by (simp add: needs_quotes_def)

end
