(* ===== verification/Ipc_Transport.thy ===== *)
theory Ipc_Transport
  imports Daemon_Persistence Mux_Domain
begin

text \<open>
  \<open>crates/emux-ipc/src/transport.rs\<close>: how an endpoint is named, where its socket is, and what is run to reach
  it. The sockets and the \<open>ssh\<close> process are the operating system's.
\<close>

datatype transport =
    LocalSocket rstr
  | SshTunnel (tp_host: rstr) (tp_user: "rstr option") (tp_port: "u16 option") (tp_socket_path: rstr)

datatype transport_error = TransportIo rstr | Unsupported rstr

definition show_transport_error :: "transport_error \<Rightarrow> rstr" where
  "show_transport_error e =
     (case e of
        TransportIo t \<Rightarrow> ascii ''transport I/O error: '' @ t
      | Unsupported msg \<Rightarrow> ascii ''unsupported transport: '' @ msg)"

definition socket_path :: "transport \<Rightarrow> rstr" where
  "socket_path t = (case t of LocalSocket path \<Rightarrow> path | SshTunnel _ _ _ path \<Rightarrow> path)"

definition transport_is_local :: "transport \<Rightarrow> bool" where
  "transport_is_local t = (case t of LocalSocket _ \<Rightarrow> True | SshTunnel _ _ _ _ \<Rightarrow> False)"

definition transport_is_ssh :: "transport \<Rightarrow> bool" where
  "transport_is_ssh t = (case t of LocalSocket _ \<Rightarrow> False | SshTunnel _ _ _ _ \<Rightarrow> True)"

text \<open>On Unix; \<open>XDG_RUNTIME_DIR\<close> and the user's number are arguments.\<close>

definition default_socket_path :: "rstr option \<Rightarrow> nat \<Rightarrow> rstr \<Rightarrow> rstr" where
  "default_socket_path runtime_dir uid session_name =
     path_join (case runtime_dir of
        Some dir \<Rightarrow> path_join dir (ascii ''emux'')
      | None \<Rightarrow> ascii ''/tmp/emux-'' @ show_nat uid)
       (session_name @ ascii ''.sock'')"

definition show_transport :: "transport \<Rightarrow> rstr" where
  "show_transport t =
     (case t of
        LocalSocket path \<Rightarrow> ascii ''local:'' @ path
      | SshTunnel host user port path \<Rightarrow> ascii ''ssh://'' @ destination host user port @ path)"

definition user_at_host :: "rstr option \<Rightarrow> rstr \<Rightarrow> rstr" where
  "user_at_host user host = (case user of Some u \<Rightarrow> u @ 0x40 # host | None \<Rightarrow> host)"

definition port_args :: "u16 option \<Rightarrow> rstr list" where
  "port_args port = (case port of Some p \<Rightarrow> [ascii ''-p'', show_nat (unat p)] | None \<Rightarrow> [])"

text \<open>The words of the command that \<open>SshStream::spawn\<close> runs, the last three on the remote host.\<close>

definition ssh_stream_command :: "rstr \<Rightarrow> rstr option \<Rightarrow> u16 option \<Rightarrow> rstr \<Rightarrow> rstr list" where
  "ssh_stream_command host user port remote_session =
     [ascii ''ssh'', ascii ''-T''] @ port_args port @
     [user_at_host user host, ascii ''emux'', ascii ''attach-raw'', remote_session]"

text \<open>
  What \<open>connect\<close> does: a socket that is opened, or a command that is run. Trailing slashes do not count for the
  file name; a final \<open>/.\<close>, which Rust ignores too, is not treated.
\<close>

datatype connection = OpensSocket rstr | RunsCommand "rstr list"

definition remote_session_name :: "rstr \<Rightarrow> rstr" where
  "remote_session_name path =
     (let name = snd (split_last 0x2f (trim_end_of 0x2f path)) in
      if name = [] \<or> name = ascii ''..'' \<or> \<not> utf8_valid (file_stem name) then ascii ''0'' else file_stem name)"

definition transport_connect :: "transport \<Rightarrow> connection" where
  "transport_connect t =
     (case t of
        LocalSocket path \<Rightarrow> OpensSocket path
      | SshTunnel host user port path \<Rightarrow> RunsCommand (ssh_stream_command host user port (remote_session_name path)))"

text \<open>\<open>listen\<close>: a stale socket is removed; a remote side has to run its own daemon.\<close>

definition transport_listen :: "transport \<Rightarrow> transport_error + rstr" where
  "transport_listen t =
     (case t of
        LocalSocket path \<Rightarrow> Inr path
      | SshTunnel host user port _ \<Rightarrow>
          Inl (Unsupported (ascii ''SSH listen on '' @ destination host user port @ ascii '': remote side should run its own daemon'')))"

end
