(* ===== verification/App_Cli.thy ===== *)
theory App_Cli
  imports Ipc_Transport Ipc_Codec
begin

text \<open>
  \<open>bins/emux/src/main.rs\<close> and \<open>cli.rs\<close>: what a command line asks for; and of \<open>daemon.rs\<close> the sockets of the sessions, as on Unix.
  A directory is the list of its file names; which sockets answer and what a daemon replies are arguments.
\<close>

section \<open>Sockets\<close>

definition socket_dir :: "rstr \<Rightarrow> rstr" where
  "socket_dir temp_dir = path_join temp_dir (ascii ''emux-sockets'')"

definition socket_path_for :: "rstr \<Rightarrow> rstr \<Rightarrow> rstr" where
  "socket_path_for temp_dir name = path_join (socket_dir temp_dir) (ascii ''emux-'' @ name @ ascii ''.sock'')"

definition agent_socket :: "rstr \<Rightarrow> rstr \<Rightarrow> rstr" where
  "agent_socket temp_dir name = path_join (socket_dir temp_dir) (ascii ''emux-agent-'' @ name @ ascii ''.sock'')"

definition session_of_file :: "rstr \<Rightarrow> rstr option" where
  "session_of_file fname =
     (if utf8_valid fname
      then Option.bind (strip_prefix (ascii ''emux-'') fname) (strip_suffix (ascii ''.sock'')) else None)"

text \<open>The live sessions, and the sockets that are removed because nobody answers.\<close>

definition list_live_sessions :: "rstr \<Rightarrow> (rstr \<Rightarrow> bool) \<Rightarrow> rstr list \<Rightarrow> (rstr \<times> rstr) list \<times> rstr list" where
  "list_live_sessions temp_dir answers entries =
     (let found = List.map_filter (\<lambda>f. map_option (\<lambda>n. (n, path_join (socket_dir temp_dir) f)) (session_of_file f)) entries in
      (filter (\<lambda>(n, p). answers p) found, map snd (filter (\<lambda>(n, p). \<not> answers p) found)))"

text \<open>
  \<open>start_daemon_server\<close> up to the fork: a session that answers is refused, a stale socket is removed, and a
  listener is bound, or the error of binding it is returned.
\<close>

definition start_daemon_server ::
  "rstr \<Rightarrow> (rstr \<Rightarrow> bool) \<Rightarrow> (rstr \<Rightarrow> bool) \<Rightarrow> (rstr \<Rightarrow> rstr option) \<Rightarrow> rstr \<Rightarrow> (rstr + rstr) \<times> rstr list" where
  "start_daemon_server temp_dir file_exists answers bind_error name =
     (let path = socket_path_for temp_dir name in
      if file_exists path \<and> answers path
      then (Inl (ascii ''session '' @ [0x27] @ name @ [0x27] @ ascii '' is already running''), [])
      else ((case bind_error path of Some e \<Rightarrow> Inl e | None \<Rightarrow> Inr path), if file_exists path then [path] else []))"

section \<open>\<open>cli.rs\<close>\<close>

text \<open>The first number that is no live session's name; there are fewer sessions than numbers of 32 bits.\<close>

lemma show_nat_inj: "show_nat m = show_nat n \<Longrightarrow> m = n"
  by (metis digits_val_show_nat option.inject)

function first_free :: "rstr list \<Rightarrow> nat \<Rightarrow> rstr" where
  "first_free names i = (if show_nat i \<in> set names then first_free names (i + 1) else show_nat i)"
  by pat_completeness auto
termination
proof
  let ?R = "measure (\<lambda>(names, i). card (set names \<inter> show_nat ` {i..}))"
  show "wf ?R" ..
  fix names i
  let ?A = "\<lambda>i. set names \<inter> show_nat ` {i..}"
  assume taken: "show_nat i \<in> set names"
  have "show_nat i \<notin> show_nat ` {i + 1..}"
    using show_nat_inj by fastforce
  then have "show_nat i \<in> ?A i" "show_nat i \<notin> ?A (i + 1)"
    using taken by auto
  moreover have "?A (i + 1) \<subseteq> ?A i"
    by auto
  ultimately have "?A (i + 1) \<subset> ?A i"
    by blast
  then show "((names, i + 1), (names, i)) \<in> ?R"
    by (simp add: psubset_card_mono)
qed

declare first_free.simps [simp del]

definition generate_session_name :: "(rstr \<times> rstr) list \<Rightarrow> rstr" where
  "generate_session_name sessions = first_free (map fst sessions) 0"

text \<open>
  What starts or attaches ends in \<open>run_attached\<close> of the name, which \<open>Inr\<close> gives, or in an error or the text of
  an exit with status 1, which \<open>Inl\<close> gives.
\<close>

definition cmd_new ::
  "rstr \<Rightarrow> (rstr \<Rightarrow> bool) \<Rightarrow> (rstr \<Rightarrow> bool) \<Rightarrow> (rstr \<Rightarrow> rstr option) \<Rightarrow> rstr \<Rightarrow> (rstr + rstr) \<times> rstr list" where
  "cmd_new temp_dir file_exists answers bind_error name =
     (case start_daemon_server temp_dir file_exists answers bind_error name of
        (Inl e, gone) \<Rightarrow> (Inl e, gone)
      | (Inr _, gone) \<Rightarrow> (Inr name, gone))"

definition cmd_default ::
  "rstr \<Rightarrow> (rstr \<Rightarrow> bool) \<Rightarrow> (rstr \<Rightarrow> bool) \<Rightarrow> (rstr \<Rightarrow> rstr option) \<Rightarrow> (rstr \<times> rstr) list \<Rightarrow> (rstr + rstr) \<times> rstr list" where
  "cmd_default temp_dir file_exists answers bind_error sessions =
     cmd_new temp_dir file_exists answers bind_error (generate_session_name sessions)"

definition cmd_attach :: "rstr \<Rightarrow> (rstr \<Rightarrow> bool) \<Rightarrow> rstr \<Rightarrow> rstr + rstr" where
  "cmd_attach temp_dir file_exists name =
     (if file_exists (socket_path_for temp_dir name) then Inr name
      else Inl (ascii ''emux: session '' @ [0x27] @ name @ [0x27] @ ascii '' not found.''))"

text \<open>\<open>cmd_list\<close>: the lines printed; \<open>reply\<close> is what the daemon behind a socket answers.\<close>

definition list_entry :: "session_entry \<Rightarrow> rstr" where
  "list_entry e = se_name e @ ascii '': '' @ show_nat (se_tabs e) @ ascii '' tabs, '' @ show_nat (se_panes e) @
     ascii '' panes ('' @ show_nat (se_cols e) @ ascii ''x'' @ show_nat (se_rows e) @ ascii '')''"

definition cmd_list :: "(rstr \<Rightarrow> server_message option) \<Rightarrow> (rstr \<times> rstr) list \<Rightarrow> rstr list" where
  "cmd_list reply sessions =
     (if sessions = [] then [ascii ''No active sessions.'']
      else concat (map (\<lambda>(name, path).
        case reply path of Some (SessionList entries) \<Rightarrow> map list_entry entries | _ \<Rightarrow> [name]) sessions))"

text \<open>\<open>cmd_kill\<close>: the status, the text printed and the sockets removed.\<close>

definition cmd_kill :: "rstr \<Rightarrow> (rstr \<Rightarrow> bool) \<Rightarrow> (rstr \<Rightarrow> bool) \<Rightarrow> rstr \<Rightarrow> nat \<times> rstr \<times> rstr list" where
  "cmd_kill temp_dir file_exists answers name =
     (let path = socket_path_for temp_dir name; agent_path = agent_socket temp_dir name in
      if \<not> file_exists path then (1, ascii ''emux: session '' @ [0x27] @ name @ [0x27] @ ascii '' not found.'', [])
      else if answers path then (0, ascii ''Session '' @ [0x27] @ name @ [0x27] @ ascii '' killed.'', [path, agent_path])
      else (0, ascii ''Cleaned up stale session '' @ [0x27] @ name @ [0x27] @ ascii ''.'', [path, agent_path]))"

datatype ssh_subcommand = SshAttach "rstr option" | SshNew "rstr option" | SshList

record ssh_args =
  sa_domain :: domain
  sa_subcmd :: ssh_subcommand

definition parse_ssh_args :: "rstr list \<Rightarrow> rstr + ssh_args" where
  "parse_ssh_args args =
     (case args of
        [] \<Rightarrow> Inl (ascii ''emux ssh: missing destination. Usage: emux ssh [user@]host[:port] [command]'')
      | dest # rest \<Rightarrow>
          (case parse_remote dest of
             Inl e \<Rightarrow> Inl (ascii ''emux ssh: invalid destination '' @ [0x27] @ dest @ [0x27] @ ascii '': '' @ show_domain_error e)
           | Inr d \<Rightarrow>
               (case rest of
                  [] \<Rightarrow> Inr \<lparr>sa_domain = d, sa_subcmd = SshAttach None\<rparr>
                | sub # others \<Rightarrow>
                    let session = (case others of [] \<Rightarrow> None | s # _ \<Rightarrow> Some s) in
                    if sub = ascii ''new'' then Inr \<lparr>sa_domain = d, sa_subcmd = SshNew session\<rparr>
                    else if sub = ascii ''attach'' \<or> sub = ascii ''a'' then Inr \<lparr>sa_domain = d, sa_subcmd = SshAttach session\<rparr>
                    else if sub = ascii ''list'' \<or> sub = ascii ''ls'' \<or> sub = ascii ''l'' then Inr \<lparr>sa_domain = d, sa_subcmd = SshList\<rparr>
                    else Inl (ascii ''emux ssh: unknown subcommand '' @ [0x27] @ sub @ [0x27] @ ascii ''. Try: new, attach, list''))))"

text \<open>The command \<open>run_ssh_command\<close> runs: its words, and the error for a domain that is not remote.\<close>

definition ssh_command :: "domain \<Rightarrow> rstr list \<Rightarrow> rstr + rstr list" where
  "ssh_command d emux_args =
     (case d of
        Local \<Rightarrow> Inl (ascii ''not a remote domain'')
      | Remote host user port \<Rightarrow>
          Inr ([ascii ''ssh'', ascii ''-t''] @ port_args port @ [user_at_host user host, ascii ''emux''] @ emux_args))"

definition or_zero :: "rstr option \<Rightarrow> rstr" where
  "or_zero s = (case s of Some n \<Rightarrow> n | None \<Rightarrow> ascii ''0'')"

definition remote_words :: "ssh_subcommand \<Rightarrow> rstr list" where
  "remote_words sub =
     (case sub of
        SshAttach s \<Rightarrow> [ascii ''attach'', or_zero s]
      | SshNew s \<Rightarrow> [ascii ''new'', or_zero s]
      | SshList \<Rightarrow> [ascii ''list''])"

definition cmd_ssh :: "rstr list \<Rightarrow> rstr + rstr list" where
  "cmd_ssh args =
     (case parse_ssh_args args of
        Inl e \<Rightarrow> Inl e
      | Inr a \<Rightarrow>
          (case ssh_destination (sa_domain a) of
             None \<Rightarrow> Inl (ascii ''ssh requires a remote destination'')
           | Some dest \<Rightarrow> ssh_command (sa_domain a) (remote_words (sa_subcmd a))))"

section \<open>\<open>main.rs\<close>\<close>

datatype cli_action =
    PrintHelp
  | PrintVersion
  | NewSession rstr
  | AttachSession rstr
  | ListAll
  | KillNamed rstr
  | OverSsh "rstr list"
  | Upgrade
  | ExitsWith nat rstr

definition quoted :: "rstr \<Rightarrow> rstr" where
  "quoted s = [0x27] @ s @ [0x27]"

definition nested_ok :: "rstr \<Rightarrow> bool" where
  "nested_ok cmd \<longleftrightarrow> cmd \<in> set (map ascii [''list'', ''ls'', ''l'', ''kill'', ''ssh'', ''upgrade'', ''--help'', ''-h'', ''--version'', ''-V'', ''-v''])"

definition command_action :: "(rstr \<times> rstr) list \<Rightarrow> rstr \<Rightarrow> rstr list \<Rightarrow> cli_action" where
  "command_action sessions cmd others =
     (if cmd \<in> {ascii ''--help'', ascii ''-h''} then PrintHelp
      else if cmd \<in> {ascii ''--version'', ascii ''-V'', ascii ''-v''} then PrintVersion
      else if cmd = ascii ''new'' then NewSession (case others of n # _ \<Rightarrow> n | [] \<Rightarrow> generate_session_name sessions)
      else if cmd \<in> {ascii ''attach'', ascii ''a''} then
        (case others of
           n # _ \<Rightarrow> AttachSession n
         | [] \<Rightarrow> (case sessions of
               [] \<Rightarrow> ExitsWith 1 (ascii ''emux: no sessions to attach to. Use '' @ quoted (ascii ''emux new'') @ ascii '' to create one.'')
             | (n, _) # _ \<Rightarrow> AttachSession n))
      else if cmd \<in> {ascii ''list'', ascii ''ls'', ascii ''l''} then ListAll
      else if cmd = ascii ''kill'' then
        (case others of
           [] \<Rightarrow> ExitsWith 1 (ascii ''emux: '' @ quoted (ascii ''kill'') @ ascii '' requires a session name. Try '' @
             quoted (ascii ''emux kill <name>'') @ ascii ''.'')
         | n # _ \<Rightarrow> KillNamed n)
      else if cmd = ascii ''ssh'' then OverSsh others
      else if cmd \<in> {ascii ''upgrade'', ascii ''update''} then Upgrade
      else if cmd \<noteq> [] \<and> hd cmd = 0x2d then
        ExitsWith 1 (ascii ''emux: unknown option '' @ quoted cmd @ ascii ''. Try '' @ quoted (ascii ''emux --help'') @ ascii ''.'')
      else ExitsWith 1 (ascii ''emux: unknown command '' @ quoted cmd @ ascii ''. Try '' @ quoted (ascii ''emux --help'') @ ascii ''.''))"

text \<open>\<open>args\<close> starts with the program's name; \<open>nested\<close>: the variable \<open>EMUX\<close> is set; \<open>sessions\<close>: the live ones.\<close>

definition main_action :: "bool \<Rightarrow> (rstr \<times> rstr) list \<Rightarrow> rstr list \<Rightarrow> cli_action" where
  "main_action nested sessions args =
     (if nested \<and> \<not> nested_ok (case args of _ # c # _ \<Rightarrow> c | _ \<Rightarrow> [])
      then ExitsWith 1 (ascii ''emux: sessions should be nested with care, unset $EMUX to force'')
      else case args of
          _ # cmd # others \<Rightarrow> command_action sessions cmd others
        | _ \<Rightarrow> NewSession (generate_session_name sessions))"

section \<open>Sessions by name\<close>

text \<open>The socket file of a session.\<close>

definition session_file :: "rstr \<Rightarrow> rstr" where
  "session_file name = ascii ''emux-'' @ name @ ascii ''.sock''"

lemma session_of_file_iff: "session_of_file f = Some n \<longleftrightarrow> utf8_valid f \<and> f = session_file n"
  by (auto simp: session_of_file_def session_file_def strip_prefix_iff strip_suffix_iff bind_eq_Some_conv)

lemma set_map_filter: "set (List.map_filter f xs) = {y. \<exists>x \<in> set xs. f x = Some y}"
  by (induction xs) (auto simp: List.map_filter_simps split: option.splits)

lemma first_free_spec:
  "\<exists>k\<ge>i. first_free names i = show_nat k \<and> show_nat k \<notin> set names \<and> show_nat ` {i..<k} \<subseteq> set names"
proof (induction names i rule: first_free.induct)
  case (1 names i)
  show ?case
  proof (cases "show_nat i \<in> set names")
    case True
    then obtain k where "i + 1 \<le> k" "first_free names i = show_nat k" "show_nat k \<notin> set names"
        "show_nat ` {i + 1..<k} \<subseteq> set names"
      using 1 by (auto simp: first_free.simps [of names i])
    moreover have "{i..<k} = insert i {i + 1..<k}"
      using \<open>i + 1 \<le> k\<close> by auto
    ultimately show ?thesis
      using True by (intro exI [of _ k]) auto
  next
    case False
    then show ?thesis
      by (subst first_free.simps) (auto intro!: exI [of _ i])
  qed
qed

text \<open>
  The name that is made up for a session is the smallest number that no live session has; it is at most
  the number of sessions, so the 32-bit counter never runs over and the search ends.
\<close>

theorem fresh_session_name:
  "\<exists>k. generate_session_name sessions = show_nat k \<and> k \<le> length sessions \<and>
     show_nat k \<notin> set (map fst sessions) \<and> show_nat ` {..<k} \<subseteq> set (map fst sessions)"
proof -
  obtain k where k: "generate_session_name sessions = show_nat k" "show_nat k \<notin> set (map fst sessions)"
      "show_nat ` {..<k} \<subseteq> set (map fst sessions)"
    using first_free_spec [of 0 "map fst sessions"] by (auto simp: generate_session_name_def atLeast0LessThan)
  have "k = card (show_nat ` {..<k})"
    by (simp add: card_image inj_on_def show_nat_inj)
  also have "\<dots> \<le> card (set (map fst sessions))"
    using k(3) by (intro card_mono) auto
  also have "\<dots> \<le> length sessions"
    using card_length [of "map fst sessions"] by simp
  finally show ?thesis
    using k by blast
qed

text \<open>
  C40: A name is listed, with the path that \<open>socket_path_for\<close> gives it, exactly if its socket file is in the
  directory, has a UTF-8 name and answers; the sockets that do not answer are removed. An agent's socket is the
  socket of a session named \<open>agent-\<close> and the agent's name, so it is listed as one, and removed as one.
\<close>

theorem live_sessions_exact:
  "set (fst (list_live_sessions temp_dir answers entries)) =
     {(n, socket_path_for temp_dir n) | n. session_file n \<in> set entries \<and> utf8_valid (session_file n) \<and>
        answers (socket_path_for temp_dir n)} \<and>
   set (snd (list_live_sessions temp_dir answers entries)) =
     {socket_path_for temp_dir n | n. session_file n \<in> set entries \<and> utf8_valid (session_file n) \<and>
        \<not> answers (socket_path_for temp_dir n)} \<and>
   agent_socket temp_dir agent = socket_path_for temp_dir (ascii ''agent-'' @ agent)"
proof -
  let ?found = "List.map_filter (\<lambda>f. map_option (\<lambda>n. (n, path_join (socket_dir temp_dir) f)) (session_of_file f)) entries"
  have path: "path_join (socket_dir temp_dir) (session_file n) = socket_path_for temp_dir n" for n
    by (simp add: session_file_def socket_path_for_def)
  have found: "set ?found = {(n, socket_path_for temp_dir n) | n. session_file n \<in> set entries \<and> utf8_valid (session_file n)}"
    by (auto simp: set_map_filter session_of_file_iff path)
  have "agent_socket temp_dir agent = socket_path_for temp_dir (ascii ''agent-'' @ agent)"
    by (simp add: agent_socket_def socket_path_for_def ascii_def)
  then show ?thesis
    by (auto simp: list_live_sessions_def Let_def found image_iff)
qed

section \<open>Commands for another host\<close>

lemma parse_remote_Remote: "parse_remote t = Inr d \<Longrightarrow> \<exists>host user port. d = Remote host user port"
  by (auto simp: parse_remote_def Let_def split: if_splits sum.splits prod.splits option.splits)

lemma remote_words_action:
  "main_action False sessions (ascii ''emux'' # remote_words sub) =
     (case sub of SshAttach s \<Rightarrow> AttachSession (or_zero s) | SshNew s \<Rightarrow> NewSession (or_zero s) | SshList \<Rightarrow> ListAll)"
  by (cases sub) (simp_all add: remote_words_def main_action_def command_action_def ascii_def byte_def)

text \<open>
  \<open>emux ssh\<close> refuses what it cannot parse with the parser's error, and otherwise runs \<open>emux\<close> on the host with words
  that its command line takes for what was asked: to attach to the session, to make it, or to list. The words
  that the SSH transport runs, \<open>attach-raw\<close>, it does not know: it exits with status 1.
\<close>

theorem remote_commands_understood:
  "(case parse_ssh_args args of
      Inl e \<Rightarrow> cmd_ssh args = Inl e
    | Inr a \<Rightarrow>
        (\<exists>ssh. cmd_ssh args = Inr (ssh @ ascii ''emux'' # remote_words (sa_subcmd a))) \<and>
        main_action False sessions (ascii ''emux'' # remote_words (sa_subcmd a)) =
          (case sa_subcmd a of SshAttach s \<Rightarrow> AttachSession (or_zero s) | SshNew s \<Rightarrow> NewSession (or_zero s) | SshList \<Rightarrow> ListAll)) \<and>
   (\<exists>ssh words text. transport_connect (SshTunnel host user port path) = RunsCommand (ssh @ ascii ''emux'' # words) \<and>
      main_action False sessions (ascii ''emux'' # words) = ExitsWith 1 text)"
proof (intro conjI)
  show "case parse_ssh_args args of
      Inl e \<Rightarrow> cmd_ssh args = Inl e
    | Inr a \<Rightarrow>
        (\<exists>ssh. cmd_ssh args = Inr (ssh @ ascii ''emux'' # remote_words (sa_subcmd a))) \<and>
        main_action False sessions (ascii ''emux'' # remote_words (sa_subcmd a)) =
          (case sa_subcmd a of SshAttach s \<Rightarrow> AttachSession (or_zero s) | SshNew s \<Rightarrow> NewSession (or_zero s) | SshList \<Rightarrow> ListAll)"
  proof (cases "parse_ssh_args args")
    case (Inr a)
    then obtain dest where "parse_remote dest = Inr (sa_domain a)"
      by (auto simp: parse_ssh_args_def Let_def split: list.splits sum.splits if_splits)
    then obtain host user port where "sa_domain a = Remote host user port"
      using parse_remote_Remote by blast
    then show ?thesis
      using Inr remote_words_action by (auto simp: cmd_ssh_def ssh_destination_def ssh_command_def)
  qed (simp add: cmd_ssh_def)
  have "main_action False sessions [ascii ''emux'', ascii ''attach-raw'', s] =
      ExitsWith 1 (ascii ''emux: unknown command '' @ quoted (ascii ''attach-raw'') @ ascii ''. Try '' @ quoted (ascii ''emux --help'') @ ascii ''.'')" for s
    by (simp add: main_action_def command_action_def ascii_def byte_def)
  moreover have "transport_connect (SshTunnel host user port path) =
      RunsCommand (([ascii ''ssh'', ascii ''-T''] @ port_args port @ [user_at_host user host]) @
        ascii ''emux'' # [ascii ''attach-raw'', remote_session_name path])"
    by (simp add: transport_connect_def ssh_stream_command_def)
  ultimately show "\<exists>ssh words text. transport_connect (SshTunnel host user port path) = RunsCommand (ssh @ ascii ''emux'' # words) \<and>
      main_action False sessions (ascii ''emux'' # words) = ExitsWith 1 text"
    by metis
qed

end
