(* ===== verification/App_Upgrade.thy ===== *)
theory App_Upgrade
  imports Mux_Search Daemon_Persistence
begin

text \<open>
  \<open>bins/emux/src/upgrade.rs\<close>: comparing versions, finding the published checksum, and the steps that replace the
  binary. What \<open>curl\<close>, \<open>tar\<close> and the file system answer, and SHA-256, are arguments. Messages are left out where they
  only name the step that failed.
\<close>

section \<open>Versions\<close>

text \<open>The triple of numbers that versions are compared by.\<close>

datatype version = SemVer (vs_major: nat) (vs_minor: nat) (vs_patch: nat)

instantiation version :: linorder
begin

definition less_eq_version :: "version \<Rightarrow> version \<Rightarrow> bool" where
  "v \<le> w \<longleftrightarrow> vs_major v < vs_major w \<or> vs_major v = vs_major w \<and>
     (vs_minor v < vs_minor w \<or> vs_minor v = vs_minor w \<and> vs_patch v \<le> vs_patch w)"

definition less_version :: "version \<Rightarrow> version \<Rightarrow> bool" where
  "v < w \<longleftrightarrow> vs_major v < vs_major w \<or> vs_major v = vs_major w \<and>
     (vs_minor v < vs_minor w \<or> vs_minor v = vs_minor w \<and> vs_patch v < vs_patch w)"

instance
proof
  fix u v w :: version
  show "v < w \<longleftrightarrow> v \<le> w \<and> \<not> w \<le> v"
    by (auto simp: less_eq_version_def less_version_def)
  show "v \<le> v"
    by (simp add: less_eq_version_def)
  show "u \<le> v \<Longrightarrow> v \<le> w \<Longrightarrow> u \<le> w"
    by (auto simp: less_eq_version_def)
  show "v \<le> w \<Longrightarrow> w \<le> v \<Longrightarrow> v = w"
    by (cases v; cases w) (auto simp: less_eq_version_def)
  show "v \<le> w \<or> w \<le> v"
    by (auto simp: less_eq_version_def)
qed

end

definition parse_version :: "rstr \<Rightarrow> version" where
  "parse_version v =
     (let parts = List.map_filter (parse_unsigned (2 ^ 32) 10) (split_on 0x2e v);
          part = (\<lambda>i. case get_opt parts i of Some n \<Rightarrow> n | None \<Rightarrow> 0)
      in SemVer (part 0) (part 1) (part 2))"

definition is_newer :: "rstr \<Rightarrow> rstr \<Rightarrow> bool" where
  "is_newer current latest \<longleftrightarrow> parse_version current < parse_version latest"

record release_info =
  ri_tag :: rstr
  ri_version :: rstr

text \<open>\<open>trim_start_matches('v')\<close> of the tag.\<close>

definition release_of_tag :: "rstr \<Rightarrow> release_info" where
  "release_of_tag tag = \<lparr>ri_tag = tag, ri_version = dropWhile (\<lambda>b. b = 0x76) tag\<rparr>"

section \<open>The checksum\<close>

definition current_target :: "string \<Rightarrow> string \<Rightarrow> string option" where
  "current_target os arch =
     map_of [((''linux'', ''x86_64''), ''x86_64-unknown-linux-gnu''), ((''linux'', ''aarch64''), ''aarch64-unknown-linux-gnu''),
       ((''macos'', ''x86_64''), ''x86_64-apple-darwin''), ((''macos'', ''aarch64''), ''aarch64-apple-darwin''),
       ((''windows'', ''x86_64''), ''x86_64-pc-windows-msvc''), ((''windows'', ''aarch64''), ''aarch64-pc-windows-msvc'')] (os, arch)"

text \<open>\<open>splitn(2, char::is_whitespace)\<close>: what precedes the first blank, and what follows it.\<close>

definition split_blank :: "rchar list \<Rightarrow> (rchar list \<times> rchar list) option" where
  "split_blank line =
     (case position is_whitespace line of
        None \<Rightarrow> None
      | Some i \<Rightarrow> Some (take i line, drop (i + 1) line))"

fun find_checksum :: "(rchar list \<Rightarrow> rchar list) \<Rightarrow> rchar list \<Rightarrow> rstr list \<Rightarrow> rchar list option" where
  "find_checksum lower archive [] = None"
| "find_checksum lower archive (l # ls) =
     (case split_blank (utf8_chars l) of
        Some (hash, name) \<Rightarrow>
          if trim_text name = archive then Some (lower hash) else find_checksum lower archive ls
      | None \<Rightarrow> find_checksum lower archive ls)"

text \<open>\<open>published\<close> is the file that \<open>curl\<close> fetched, if it did.\<close>

definition fetch_expected_checksum ::
  "(rchar list \<Rightarrow> rchar list) \<Rightarrow> u8 list option \<Rightarrow> rchar list \<Rightarrow> rchar list option" where
  "fetch_expected_checksum lower published archive =
     Option.bind published (\<lambda>body. find_checksum lower archive (str_lines (utf8_lossy body)))"

definition archive_name :: "release_info \<Rightarrow> string \<Rightarrow> bool \<Rightarrow> rchar list" where
  "archive_name r target is_windows =
     utf8_chars (ascii ''emux-'' @ ri_tag r @ ascii ''-'' @ ascii target @
       ascii (if is_windows then ''.zip'' else ''.tar.gz''))"

section \<open>Replacing the binary\<close>

datatype upgrade_error =
    UnsupportedPlatform | NoExecutablePath | NoChecksum | NoTempDir | DownloadFailed | ChecksumMismatch
  | ExtractFailed | BinaryNotFound | BackupFailed | InstallFailed

text \<open>
  What the system answers: the published sums, the archive downloaded, its extraction (the binary in it, if
  there is one), and whether the binary can be copied over the executable: a copy that fails may have
  written a part.
\<close>

datatype copied = Copies | FailsAfter nat

record upgrade_system =
  us_os :: string
  us_arch :: string
  us_exe :: "rstr option"
  us_sums :: "u8 list option"
  us_temp :: bool
  us_archive :: "u8 list option"
  us_sha256 :: "u8 list \<Rightarrow> rchar list"
  us_extract :: "u8 list \<Rightarrow> u8 list option option"
  us_rename :: bool
  us_copy :: copied
  us_lower :: "rchar list \<Rightarrow> rchar list"

definition install_binary :: "upgrade_system \<Rightarrow> rstr \<Rightarrow> u8 list \<Rightarrow> files \<Rightarrow> (upgrade_error + unit) \<times> files" where
  "install_binary sys exe binary fs =
     (let backup = with_extension (ascii ''old'') exe;
          fs = fs(backup := None);
          is_windows = (us_os sys = ''windows'')
      in if is_windows \<and> \<not> us_rename sys then (Inl BackupFailed, fs)
         else
           let fs = (if is_windows then fs(backup := fs exe, exe := None) else fs) in
           case us_copy sys of
             FailsAfter n \<Rightarrow> (Inl InstallFailed, if n = 0 then fs else fs(exe \<mapsto> take n binary))
           | Copies \<Rightarrow> (Inr (), fs(exe \<mapsto> binary, backup := None)))"

definition download_and_replace :: "upgrade_system \<Rightarrow> release_info \<Rightarrow> files \<Rightarrow> (upgrade_error + unit) \<times> files" where
  "download_and_replace sys r fs =
     (case current_target (us_os sys) (us_arch sys) of
        None \<Rightarrow> (Inl UnsupportedPlatform, fs)
      | Some target \<Rightarrow>
     case us_exe sys of
        None \<Rightarrow> (Inl NoExecutablePath, fs)
      | Some exe \<Rightarrow>
     case fetch_expected_checksum (us_lower sys) (us_sums sys) (archive_name r target (us_os sys = ''windows'')) of
        None \<Rightarrow> (Inl NoChecksum, fs)
      | Some expected_hash \<Rightarrow>
     if \<not> us_temp sys then (Inl NoTempDir, fs)
     else case us_archive sys of
        None \<Rightarrow> (Inl DownloadFailed, fs)
      | Some archive \<Rightarrow>
     if us_sha256 sys archive \<noteq> expected_hash then (Inl ChecksumMismatch, fs)
     else case us_extract sys archive of
        None \<Rightarrow> (Inl ExtractFailed, fs)
      | Some None \<Rightarrow> (Inl BinaryNotFound, fs)
      | Some (Some binary) \<Rightarrow> install_binary sys exe binary fs)"

datatype upgrade_outcome = CheckFailed | UpToDate | UpgradeFailed upgrade_error | UpgradedTo rstr

definition cmd_upgrade :: "upgrade_system \<Rightarrow> rstr \<Rightarrow> release_info option \<Rightarrow> files \<Rightarrow> upgrade_outcome \<times> files" where
  "cmd_upgrade sys current latest fs =
     (case latest of
        None \<Rightarrow> (CheckFailed, fs)
      | Some r \<Rightarrow>
          if \<not> is_newer current (ri_version r) then (UpToDate, fs)
          else (case download_and_replace sys r fs of
                  (Inl e, fs) \<Rightarrow> (UpgradeFailed e, fs)
                | (Inr _, fs) \<Rightarrow> (UpgradedTo (ri_version r), fs)))"

text \<open>The notice at start: once a day, and only a notice.\<close>

definition update_due :: "nat option \<Rightarrow> bool" where
  "update_due marker_age = (case marker_age of Some secs \<Rightarrow> 86400 \<le> secs | None \<Rightarrow> True)"

definition marker_file_path :: "rstr option \<Rightarrow> rstr \<Rightarrow> rstr" where
  "marker_file_path home temp_dir =
     (case home of
        Some h \<Rightarrow> path_join (path_join (path_join (path_join h (ascii ''.local'')) (ascii ''share'')) (ascii ''emux'')) (ascii ''.update-check'')
      | None \<Rightarrow> path_join temp_dir (ascii ''emux-update-check''))"

definition update_notice :: "rstr \<Rightarrow> nat option \<Rightarrow> release_info option \<Rightarrow> rstr option" where
  "update_notice current marker_age latest =
     (if \<not> update_due marker_age then None
      else case latest of
          None \<Rightarrow> None
        | Some r \<Rightarrow> if is_newer current (ri_version r) then Some (ri_version r) else None)"

section \<open>What is installed\<close>

lemma install_keeps_others:
  "p \<noteq> exe \<Longrightarrow> p \<noteq> with_extension (ascii ''old'') exe \<Longrightarrow> snd (install_binary sys exe binary fs) p = fs p"
  by (auto simp: install_binary_def Let_def split: copied.splits)

text \<open>The line of the sums that names the archive.\<close>

definition published :: "upgrade_system \<Rightarrow> rchar list \<Rightarrow> rchar list \<Rightarrow> bool" where
  "published sys archive hash \<longleftrightarrow>
     (\<exists>body l h name. us_sums sys = Some body \<and> l \<in> set (str_lines (utf8_lossy body)) \<and>
        split_blank (utf8_chars l) = Some (h, name) \<and> trim_text name = archive \<and> hash = us_lower sys h)"

lemma find_checksum_published:
  "find_checksum lower archive ls = Some hash \<Longrightarrow>
   \<exists>l \<in> set ls. \<exists>h name. split_blank (utf8_chars l) = Some (h, name) \<and> trim_text name = archive \<and> hash = lower h"
  by (induction ls) (auto split: option.splits if_splits)

text \<open>
  C39: The upgrade writes to no file unless the archive's SHA-256 is the sum that the release publishes for this
  archive and its tag is of a newer version; then the only files written are the executable and its backup,
  and it reports success exactly when the executable is the binary of that archive, all of it written.
\<close>

theorem upgrade_installs_verified:
  assumes "snd (cmd_upgrade sys current latest fs) \<noteq> fs \<or> fst (cmd_upgrade sys current latest fs) = UpgradedTo v"
  shows "\<exists>r target exe archive binary. latest = Some r \<and> is_newer current (ri_version r) \<and>
    current_target (us_os sys) (us_arch sys) = Some target \<and> us_exe sys = Some exe \<and> us_archive sys = Some archive \<and>
    published sys (archive_name r target (us_os sys = ''windows'')) (us_sha256 sys archive) \<and>
    us_extract sys archive = Some (Some binary) \<and>
    (\<forall>p. p \<notin> {exe, with_extension (ascii ''old'') exe} \<longrightarrow> snd (cmd_upgrade sys current latest fs) p = fs p) \<and>
    (fst (cmd_upgrade sys current latest fs) = UpgradedTo (ri_version r) \<longrightarrow>
      us_copy sys = Copies \<and> (exe \<noteq> with_extension (ascii ''old'') exe \<longrightarrow>
        snd (cmd_upgrade sys current latest fs) exe = Some binary))"
proof -
  obtain r where r: "latest = Some r" "is_newer current (ri_version r)"
    using assms by (auto simp: cmd_upgrade_def split: option.splits if_splits)
  obtain res fs' where replaced: "download_and_replace sys r fs = (res, fs')"
    by (cases "download_and_replace sys r fs")
  have cmd: "cmd_upgrade sys current latest fs =
      (case res of Inl e \<Rightarrow> UpgradeFailed e | Inr _ \<Rightarrow> UpgradedTo (ri_version r), fs')"
    using r replaced by (simp add: cmd_upgrade_def split: sum.splits)
  then have "fs' \<noteq> fs \<or> res = Inr ()"
    using assms by (auto split: sum.splits)
  then obtain target exe hash archive binary where steps: "current_target (us_os sys) (us_arch sys) = Some target"
      "us_exe sys = Some exe"
      "fetch_expected_checksum (us_lower sys) (us_sums sys) (archive_name r target (us_os sys = ''windows'')) = Some hash"
      "us_archive sys = Some archive" "us_sha256 sys archive = hash" "us_extract sys archive = Some (Some binary)"
      "install_binary sys exe binary fs = (res, fs')"
    using replaced by (auto simp: download_and_replace_def split: option.splits if_splits)
  have "published sys (archive_name r target (us_os sys = ''windows'')) (us_sha256 sys archive)"
    using steps(3,5) find_checksum_published
    by (fastforce simp: fetch_expected_checksum_def published_def split: Option.bind_splits)
  moreover have "\<forall>p. p \<notin> {exe, with_extension (ascii ''old'') exe} \<longrightarrow> fs' p = fs p"
    using install_keeps_others [of _ exe sys binary fs] steps(7) by auto
  moreover have "res = Inr () \<longrightarrow> us_copy sys = Copies \<and> (exe \<noteq> with_extension (ascii ''old'') exe \<longrightarrow> fs' exe = Some binary)"
    using steps(7) by (auto simp: install_binary_def Let_def split: copied.splits if_splits)
  ultimately show ?thesis
    using r steps cmd by (auto split: sum.splits)
qed

definition sample_sums :: "u8 list" where
  "sample_sums = ascii ''ab  emux-v0.2.0-x86_64-unknown-linux-gnu.tar.gz''"

definition sample_system :: upgrade_system where
  "sample_system = \<lparr>us_os = ''linux'', us_arch = ''x86_64'', us_exe = Some (ascii ''/bin/emux''), us_sums = Some sample_sums,
     us_temp = True, us_archive = Some [1, 2, 3], us_sha256 = (\<lambda>bs. [97, 98]), us_extract = (\<lambda>bs. Some (Some [7])),
     us_rename = True, us_copy = Copies, us_lower = id\<rparr>"

lemma sample_checksum:
  "fetch_expected_checksum id (Some sample_sums) (archive_name (release_of_tag (ascii ''v0.2.0'')) ''x86_64-unknown-linux-gnu'' False) = Some [97, 98]"
proof -
  have "list_all (\<lambda>b. unat b < 128) sample_sums"
    "list_all (\<lambda>b. unat b < 128) (ascii ''emux-'' @ ascii ''v0.2.0'' @ ascii ''-'' @ ascii ''x86_64-unknown-linux-gnu'' @ ascii ''.tar.gz'')"
    by (simp_all add: sample_sums_def ascii_def byte_def)
  moreover have "str_lines sample_sums = [sample_sums]"
    by (simp add: str_lines_def split_on_no_sep sample_sums_def ascii_def byte_def)
  ultimately show ?thesis
    by (simp add: fetch_expected_checksum_def archive_name_def release_of_tag_def utf8_ascii)
       (simp add: sample_sums_def ascii_def byte_def split_blank_def is_whitespace_def trim_text_def trim_end_def)
qed

lemma sample_newer: "is_newer (ascii ''0.1.0'') (ri_version (release_of_tag (ascii ''v0.2.0'')))"
  by (simp add: is_newer_def release_of_tag_def parse_version_def less_version_def get_opt_def ascii_def byte_def split_on.simps
      parse_unsigned_def digit_val_def List.map_filter_def Let_def)

lemma sample_release: "ri_version (release_of_tag (ascii ''v0.2.0'')) = ascii ''0.2.0''"
  by (simp add: release_of_tag_def ascii_def byte_def)

theorem upgrade_installs_verified_witness:
  defines "outcome \<equiv> cmd_upgrade sample_system (ascii ''0.1.0'') (Some (release_of_tag (ascii ''v0.2.0''))) Map.empty"
  shows "fst outcome = UpgradedTo (ascii ''0.2.0'') \<and> snd outcome (ascii ''/bin/emux'') = Some [7]"
proof -
  have "with_extension (ascii ''old'') (ascii ''/bin/emux'') \<noteq> ascii ''/bin/emux''"
    by (simp add: with_extension_def ascii_def byte_def split_last_def file_stem_def)
  moreover have "fst outcome = UpgradedTo (ascii ''0.2.0'')"
    using sample_newer sample_checksum
    by (simp add: outcome_def cmd_upgrade_def download_and_replace_def install_binary_def sample_system_def current_target_def
        sample_release Let_def)
  ultimately show ?thesis
    using upgrade_installs_verified [of sample_system "ascii ''0.1.0''" "Some (release_of_tag (ascii ''v0.2.0''))" Map.empty "ascii ''0.2.0''"]
    by (auto simp: outcome_def sample_system_def sample_release)
qed

end
