(* ===== verification/Spec2Isabelle.thy ===== *)
theory Spec2Isabelle
  imports VT_Properties Grid_Properties Terminal_Properties Layout_Properties Tab_Properties Session_Properties Ipc_Properties Persistence_Properties Daemon_Properties App_Properties Input_Properties Search_Properties Selection_Properties Term_Hints Mux_Domain Mux_Template Mux_Search Config_Types Dispatch_Properties Copy_Properties Keys_Properties Mouse_Properties Loop_Properties Render_Properties Daemon_Client Daemon_Recording Pty_Command App_Cli App_Upgrade
begin

text \<open>
  emux, a terminal multiplexer written in Rust: a model of its core in HOL and the theorems about it.

  \<^bold>\<open>The program.\<close> A shell runs behind a pseudo-terminal. The bytes it writes go through a VT parser
  (\<open>crates/emux-vt\<close>) to a performer that changes a screen (\<open>crates/emux-term\<close>: grid, scrollback, cursor, modes,
  selection, search, hints; the same crate encodes keys and mouse reports for the way back). Panes are
  arranged in tabs and tabs in sessions (\<open>crates/emux-mux\<close>). A stand-alone program (\<open>bins/emux\<close>: commands, key
  bindings, mouse, event loop, rendering) or a daemon (\<open>crates/emux-daemon\<close>, \<open>bins/emux/src/daemon.rs\<close>) owns the
  terminals; clients talk to it in frames (\<open>crates/emux-ipc\<close>). Sessions are saved to disk, configuration is read
  from TOML (\<open>crates/emux-config\<close>), and rows of cells become styled text (\<open>crates/emux-render\<close>).

  \<^bold>\<open>How the code is modelled.\<close> A Rust struct is a record, an enum a datatype, a function a function with the
  same name where HOL allows it. \<open>u8\<close>, \<open>u16\<close>, \<open>u32\<close> are words of their width, with the wrap-around of a release build;
  \<open>usize\<close> is \<open>nat\<close>, with saturating and checked subtraction written out; \<open>f32\<close> ratios are rationals with the rounding of
  IEEE (\<open>Emux_Float\<close>); strings are lists of bytes (\<open>rstr\<close>) or of code points (\<open>rchar list\<close>), as the code treats them.
  A function that can panic (an index out of range, an underflow the code relies on, a slice inside a character)
  returns an option, and \<open>None\<close> is the panic; errors of the code are the left side of a sum. A \<open>HashMap\<close> is an
  association list, so that an iteration has an order; no property depends on which. A loop is a
  structural recursion, a fold or a function with its measure, but for the write loop to a PTY, which is a
  \<open>partial_function\<close> whose \<open>None\<close> is not returning; no fuel is used.

  What is not in the repository is an argument: the kernel's answers to reads and writes (\<open>schedules\<close>, the lists of
  reads of a PTY), spawning a shell (\<open>spawner\<close>), files (a map from paths), JSON and TOML (\<open>to_vec\<close>, \<open>from_slice\<close>, ...,
  with the round trip of \<open>serde_json\<close> as a hypothesis where a property needs it), the \<open>regex\<close> crate, \<open>str::to_lowercase\<close>
  (\<open>lower\<close>), the events of \<open>crossterm\<close>, what \<open>curl\<close>, \<open>tar\<close> and SHA-256 give, which sockets answer, the time of day.

  \<^bold>\<open>The theories.\<close>
    \<^item> \<open>Emux_Prelude\<close>, \<open>Emux_Loops\<close>, \<open>Emux_Utf8\<close>, \<open>Emux_Float\<close>, \<open>Emux_Find\<close>: \<open>returns\<close> (does not panic, and then), \<open>foldM\<close>
      (the \<open>for\<close> loop), list updates, block moves, UTF-8, decimal numbers, \<open>f32\<close>, searching in lists.
    \<^item> \<open>VT_Params\<close>, \<open>VT_Parser\<close>: \<open>emux-vt/src/params.rs\<close>, \<open>parser.rs\<close>, \<open>charsets.rs\<close>. \<open>VT_Parser_Props\<close>, \<open>VT_Properties\<close>: the
      parser is total, it is a stream homomorphism, it inverts printing.
    \<^item> \<open>Term_Cells\<close>, \<open>Term_Grid\<close>, \<open>Term_Resize\<close>, \<open>Term_Screen\<close>, \<open>Term_Performer\<close>, \<open>Term_Terminal\<close>, \<open>Term_Base64\<close>:
      \<open>emux-term/src/grid.rs\<close>, \<open>screen.rs\<close>, \<open>performer.rs\<close> and the leaf types. \<open>Term_Grid_Props\<close>,
      \<open>Term_Resize_Props\<close>, \<open>Term_Screen_Props\<close>, \<open>Grid_Properties\<close>, \<open>Terminal_Properties\<close>: the grid and screen invariants,
      what scrolling, erasing and resizing keep, and exactly which output panics the terminal.
    \<^item> \<open>Term_Input\<close>, \<open>Term_Search\<close>, \<open>Term_Selection\<close>, \<open>Term_Hints\<close> and \<open>Input_Properties\<close>, \<open>Search_Properties\<close>,
      \<open>Selection_Properties\<close>: \<open>input.rs\<close>, \<open>search.rs\<close>, \<open>selection.rs\<close>, \<open>hints.rs\<close>.
    \<^item> \<open>Mux_Layout\<close>, \<open>Mux_Pane\<close>, \<open>Mux_Tab\<close>, \<open>Mux_Floating\<close>, \<open>Mux_Session\<close>, \<open>Mux_Domain\<close>, \<open>Mux_SwapConfig\<close>, \<open>Mux_Template\<close>,
      \<open>Mux_Search\<close>: \<open>emux-mux/src\<close>. \<open>Mux_Layout_Props\<close>, \<open>Mux_Tab_Props\<close>, \<open>Mux_Tab_Steps\<close>, \<open>Layout_Properties\<close>, \<open>Tab_Properties\<close>,
      \<open>Session_Properties\<close>: the layout tree refines a list of panes and tiles the tab; the tabs and sessions that
      commands reach. \<open>Mux_Template\<close> also has the project of a directory, \<open>project.rs\<close>.
    \<^item> \<open>Ipc_Codec\<close>, \<open>Ipc_Transport\<close>, \<open>Ipc_Properties\<close>: \<open>emux-ipc/src\<close>, frames and messages, and how an endpoint is reached. \<open>Daemon_Persistence\<close>, \<open>Daemon_Server\<close>, \<open>Daemon_Handle\<close>,
      \<open>Daemon_Props\<close>, \<open>Daemon_Properties\<close>, \<open>Persistence_Properties\<close>: \<open>emux-daemon/src/persistence.rs\<close>, \<open>server.rs\<close>.
      \<open>Daemon_Client\<close>: \<open>client.rs\<close>, and that a call over the socket is a call of the dispatch. \<open>Daemon_Recording\<close>:
      \<open>recording.rs\<close>, and that a recording is read back.
    \<^item> \<open>Pty_Command\<close>: \<open>emux-pty/src/cmdbuilder.rs\<close> and of \<open>unix.rs\<close> and \<open>windows.rs\<close> what comes before the system calls.
    \<^item> \<open>App_Cli\<close>, \<open>App_Upgrade\<close>: \<open>bins/emux/src/main.rs\<close>, \<open>cli.rs\<close>, the sockets of \<open>daemon.rs\<close>, \<open>upgrade.rs\<close>: what a
      command line asks for, which sessions there are, what an upgrade installs.
    \<^item> \<open>App_Write\<close>, \<open>App_Ipc\<close>, \<open>App_Panes\<close>, \<open>App_Daemon\<close>, \<open>App_Properties\<close>: \<open>bins/emux/src/app.rs\<close>, \<open>ipc_handler.rs\<close>,
      \<open>operations.rs\<close>, \<open>daemon.rs\<close>: PTY writes, one handler for both owners of panes (a record of operations, as
      the trait of the code), the daemon's loop and the output it streams.
    \<^item> \<open>App_Keys\<close>, \<open>App_State\<close>, \<open>App_Dispatch\<close>, \<open>App_Mouse\<close>, \<open>App_Loop\<close>: \<open>keybindings.rs\<close>, \<open>input.rs\<close>, \<open>app.rs\<close>, \<open>command.rs\<close>,
      \<open>mouse.rs\<close>, \<open>event_loop.rs\<close>. \<open>Dispatch_Props\<close>, \<open>Dispatch_Properties\<close>, \<open>Copy_Properties\<close>, \<open>Keys_Properties\<close>,
      \<open>Mouse_Properties\<close>, \<open>Loop_Properties\<close>: the invariant of the application and that every command keeps it; what keys
      and the mouse reach; what copy mode copies; the terminals that tabs share by mistake.
    \<^item> \<open>Render_Damage\<close>, \<open>Render_Text\<close>, \<open>Render_Statusbar\<close>: \<open>emux-render/src\<close>; \<open>App_Render\<close>: \<open>bins/emux/src/render.rs\<close>. What is
      drawn is a list of the commands queued. \<open>Render_Properties\<close>: what the drawing shows and when it
      panics.
    \<^item> \<open>Config_Types\<close>: \<open>emux-config/src\<close>.

  \<^bold>\<open>Interfaces.\<close> Where one part relies on another, the laws are a locale, interpreted on the model's own definitions
  in the theory of the provider: what receives the actions of the parser (\<open>performer\<close>, provided by the screen), the
  layout of a tab (\<open>arrangement\<close>, \<open>tiling\<close>), the strip of tabs of sessions and windows (\<open>tab_strip\<close>), and the operations on
  panes of the two owners of terminals (\<open>pane_access\<close>).

  \<^bold>\<open>Not modelled.\<close> Calls of the operating system that leave no trace in the program's state: opening sockets and
  their timeouts, the pipes of the SSH process, fork and exec themselves, the handles of ConPTY, signals, raw
  mode and the alternate screen of \<open>run_attached\<close>, the log file, the help text. The update check is its answer
  and not a thread. Time stamps that nothing reads. Errors of writing to the terminal, which end the program.
  The clock: whether a timer has run out is an argument of an iteration of the event loop.
\<close>

end
